(* ===== verification/Prelude.thy ===== *)
theory Prelude
  imports Complex_Main "HOL-Library.Word" "HOL-Library.State_Monad"
begin

text \<open>
  What every component of the service model shares.

  The Go code is translated into programs of the state monad of
  HOL-Library.State_Monad.  A Go function that returns \<^verbatim>\<open>(T, error)\<close> becomes a program whose
  result is a sum: \<^verbatim>\<open>Inl\<close> the error, \<^verbatim>\<open>Inr\<close> the value; \<^verbatim>\<open>if err != nil { return err }\<close> is
  a case split on it.  The two notions the proofs use are the weakest precondition \<^verbatim>\<open>wp\<close>,
  a simplification calculus for functional properties, and \<^verbatim>\<open>steps\<close>, which says that a
  program only ever moves the state along a given preorder, whatever it returns; both
  come with one rule per construct of the embedding, collected in \<^verbatim>\<open>wp_simps\<close> and
  \<^verbatim>\<open>steps_intros\<close>.  The rest are the list lemmas about tables (lookup, update and removal of
  rows by key).
\<close>

named_theorems wp_simps and steps_intros

section \<open>Machine-independent types of the Go code\<close>

type_synonym uuid = "128 word"
type_synonym time = int          \<comment> \<open>nanoseconds since the epoch\<close>
type_synonym duration = int      \<comment> \<open>time.Duration, nanoseconds\<close>

abbreviation Nil_uuid :: uuid where "Nil_uuid \<equiv> 0"
abbreviation Second :: duration where "Second \<equiv> 1000000000"
abbreviation Minute :: duration where "Minute \<equiv> 60 * Second"
abbreviation Hour :: duration where "Hour \<equiv> 60 * Minute"

section \<open>Weakest preconditions of state programs\<close>

definition wp :: "('s, 'a) state \<Rightarrow> ('a \<Rightarrow> 's \<Rightarrow> bool) \<Rightarrow> 's \<Rightarrow> bool" where
  "wp m Q s = (case run_state m s of (x, t) \<Rightarrow> Q x t)"

lemma wpI: "Q (fst (run_state m s)) (snd (run_state m s)) \<Longrightarrow> wp m Q s"
  by (simp add: wp_def case_prod_unfold)

lemma wpD: "wp m Q s \<Longrightarrow> Q (fst (run_state m s)) (snd (run_state m s))"
  by (simp add: wp_def case_prod_unfold)

lemma wp_result: "wp m Q s \<Longrightarrow> run_state m s = (x, t) \<Longrightarrow> Q x t"
  by (simp add: wp_def)

text \<open>The equations leave the state argument abstract, so that they also rewrite a precondition
  that occurs as a function of the state.\<close>

lemma wp_return [wp_simps]: "wp (State_Monad.return x) Q = Q x"
  by (rule ext) (simp add: wp_def)

lemma wp_bind [wp_simps]: "wp (State_Monad.bind m f) Q = wp m (\<lambda>x. wp (f x) Q)"
  by (rule ext) (simp add: wp_def case_prod_unfold)

lemma wp_get [wp_simps]: "wp State_Monad.get Q = (\<lambda>s. Q s s)"
  by (rule ext) (simp add: wp_def State_Monad.get_def)

lemma wp_set [wp_simps]: "wp (State_Monad.set t) Q = (\<lambda>s. Q () t)"
  by (rule ext) (simp add: wp_def State_Monad.set_def)

lemma wp_update [wp_simps]: "wp (State_Monad.update f) Q = (\<lambda>s. Q () (f s))"
  by (rule ext) (simp add: State_Monad.update_def wp_bind wp_get wp_set)

lemma wp_State: "wp (State f) Q s = (case f s of (x, t) \<Rightarrow> Q x t)"
  by (simp add: wp_def)

lemma wp_if [wp_simps]: "wp (if b then m else n) Q = (\<lambda>s. if b then wp m Q s else wp n Q s)"
  by (rule ext) simp

lemma wp_case_sum [wp_simps]:
  "wp (case r of Inl e \<Rightarrow> m e | Inr v \<Rightarrow> n v) Q
     = (\<lambda>s. case r of Inl e \<Rightarrow> wp (m e) Q s | Inr v \<Rightarrow> wp (n v) Q s)"
  by (cases r) simp_all

lemma wp_case_option [wp_simps]:
  "wp (case r of None \<Rightarrow> m | Some v \<Rightarrow> n v) Q
     = (\<lambda>s. case r of None \<Rightarrow> wp m Q s | Some v \<Rightarrow> wp (n v) Q s)"
  by (cases r) simp_all

lemma wp_case_prod [wp_simps]:
  "wp (case r of (x, y) \<Rightarrow> m x y) Q = (\<lambda>s. case r of (x, y) \<Rightarrow> wp (m x y) Q s)"
  by (cases r) simp

lemma wp_Let [wp_simps]: "wp (Let x f) Q = wp (f x) Q"
  by simp

lemma wp_mono: "wp m P s \<Longrightarrow> (\<And>x t. P x t \<Longrightarrow> Q x t) \<Longrightarrow> wp m Q s"
  by (simp add: wp_def case_prod_unfold)

lemma wp_conj: "wp m P s \<Longrightarrow> wp m Q s \<Longrightarrow> wp m (\<lambda>x t. P x t \<and> Q x t) s"
  by (simp add: wp_def case_prod_unfold)

lemma wp_True [simp]: "wp m (\<lambda>_ _. True) s"
  by (simp add: wp_def)

section \<open>Programs that only move the state along a preorder\<close>

definition steps :: "('s \<Rightarrow> 's \<Rightarrow> bool) \<Rightarrow> ('s, 'a) state \<Rightarrow> bool" where
  "steps R m = (\<forall>s. R s (snd (run_state m s)))"

definition preorder :: "('s \<Rightarrow> 's \<Rightarrow> bool) \<Rightarrow> bool" where
  "preorder R = ((\<forall>s. R s s) \<and> (\<forall>s t u. R s t \<longrightarrow> R t u \<longrightarrow> R s u))"

lemma preorderI: "(\<And>s. R s s) \<Longrightarrow> (\<And>s t u. R s t \<Longrightarrow> R t u \<Longrightarrow> R s u) \<Longrightarrow> preorder R"
  by (auto simp: preorder_def)

lemma stepsI: "(\<And>s. R s (snd (run_state m s))) \<Longrightarrow> steps R m"
  by (simp add: steps_def)

lemma stepsD: "steps R m \<Longrightarrow> R s (snd (run_state m s))"
  by (simp add: steps_def)

lemma steps_wp: "steps R m \<Longrightarrow> wp m (\<lambda>_ t. R s t) s"
  by (simp add: steps_def wp_def case_prod_unfold)

lemma steps_return [steps_intros]: "preorder R \<Longrightarrow> steps R (State_Monad.return x)"
  by (simp add: steps_def preorder_def)

lemma steps_get [steps_intros]: "preorder R \<Longrightarrow> steps R State_Monad.get"
  by (simp add: steps_def preorder_def State_Monad.get_def)

lemma steps_bind [steps_intros]:
  "preorder R \<Longrightarrow> steps R m \<Longrightarrow> (\<And>x. steps R (f x)) \<Longrightarrow> steps R (State_Monad.bind m f)"
  unfolding steps_def preorder_def by (simp add: case_prod_unfold) blast

lemma steps_if [steps_intros]:
  "(b \<Longrightarrow> steps R m) \<Longrightarrow> (\<not> b \<Longrightarrow> steps R n) \<Longrightarrow> steps R (if b then m else n)"
  by simp

lemma steps_case_sum [steps_intros]:
  "(\<And>e. r = Inl e \<Longrightarrow> steps R (m e)) \<Longrightarrow> (\<And>v. r = Inr v \<Longrightarrow> steps R (n v))
   \<Longrightarrow> steps R (case r of Inl e \<Rightarrow> m e | Inr v \<Rightarrow> n v)"
  by (cases r) simp_all

lemma steps_case_option [steps_intros]:
  "(r = None \<Longrightarrow> steps R m) \<Longrightarrow> (\<And>v. r = Some v \<Longrightarrow> steps R (n v))
   \<Longrightarrow> steps R (case r of None \<Rightarrow> m | Some v \<Rightarrow> n v)"
  by (cases r) simp_all

lemma steps_case_prod [steps_intros]:
  "(\<And>x y. r = (x, y) \<Longrightarrow> steps R (m x y)) \<Longrightarrow> steps R (case r of (x, y) \<Rightarrow> m x y)"
  by (cases r) simp

lemma steps_Let [steps_intros]: "steps R (f x) \<Longrightarrow> steps R (Let x f)"
  by simp

lemma steps_mono: "steps R m \<Longrightarrow> (\<And>s t. R s t \<Longrightarrow> R' s t) \<Longrightarrow> steps R' m"
  by (simp add: steps_def)

subsection \<open>Preserving an invariant is the special case of an implication\<close>

abbreviation keeping :: "('s \<Rightarrow> bool) \<Rightarrow> 's \<Rightarrow> 's \<Rightarrow> bool" where
  "keeping I \<equiv> \<lambda>s t. I s \<longrightarrow> I t"

lemma preorder_keeping [simp, intro]: "preorder (keeping I)"
  by (auto simp: preorder_def)

lemma preorder_eq_on [simp, intro]: "preorder (\<lambda>s t. f t = f s)"
  by (auto simp: preorder_def)

lemma keepsD: "steps (keeping I) m \<Longrightarrow> I s \<Longrightarrow> I (snd (run_state m s))"
  by (simp add: steps_def)

section \<open>Loops over a slice\<close>

fun foreach :: "'a list \<Rightarrow> ('a \<Rightarrow> 'b \<Rightarrow> ('s, 'b) state) \<Rightarrow> 'b \<Rightarrow> ('s, 'b) state" where
  "foreach [] body acc = State_Monad.return acc"
| "foreach (x # xs) body acc = State_Monad.bind (body x acc) (\<lambda>acc'. foreach xs body acc')"

lemma steps_foreach [steps_intros]:
  "preorder R \<Longrightarrow> (\<And>x acc. x \<in> set xs \<Longrightarrow> steps R (body x acc)) \<Longrightarrow> steps R (foreach xs body acc)"
proof (induction xs arbitrary: acc)
  case Nil
  then show ?case by (simp add: steps_return)
next
  case (Cons x xs)
  then show ?case by (auto intro!: steps_bind)
qed

lemma wp_foreach:
  assumes step: "\<And>ys x zs acc s. xs = ys @ x # zs \<Longrightarrow> I ys acc s
                   \<Longrightarrow> wp (body x acc) (\<lambda>acc' t. I (ys @ [x]) acc' t) s"
    and init: "I [] acc s"
  shows "wp (foreach xs body acc) (\<lambda>acc' t. I xs acc' t) s"
proof -
  have "xs = ys @ zs \<Longrightarrow> I ys acc s \<Longrightarrow> wp (foreach zs body acc) (\<lambda>acc' t. I xs acc' t) s" for ys zs acc s
  proof (induction zs arbitrary: ys acc s)
    case Nil
    then show ?case by (simp add: wp_return)
  next
    case (Cons x zs)
    have "wp (body x acc) (\<lambda>acc' t. I (ys @ [x]) acc' t) s"
      using Cons.prems step by blast
    then show ?case
      using Cons.IH[of "ys @ [x]"] Cons.prems(1) by (auto simp: wp_bind elim: wp_mono)
  qed
  from this[of "[]" xs] init show ?thesis by simp
qed

section \<open>Tables: lists of rows with a key\<close>

definition find_row :: "('r \<Rightarrow> bool) \<Rightarrow> 'r list \<Rightarrow> 'r option" where
  "find_row p rows = List.find p rows"

definition update_rows :: "('r \<Rightarrow> bool) \<Rightarrow> ('r \<Rightarrow> 'r) \<Rightarrow> 'r list \<Rightarrow> 'r list" where
  "update_rows p f rows = map (\<lambda>r. if p r then f r else r) rows"

definition delete_rows :: "('r \<Rightarrow> bool) \<Rightarrow> 'r list \<Rightarrow> 'r list" where
  "delete_rows p rows = filter (\<lambda>r. \<not> p r) rows"

definition affected :: "('r \<Rightarrow> bool) \<Rightarrow> 'r list \<Rightarrow> nat" where
  "affected p rows = length (filter p rows)"

lemma find_row_simps [simp]:
  "find_row p [] = None"
  "find_row p (r # rs) = (if p r then Some r else find_row p rs)"
  by (simp_all add: find_row_def)

lemma find_row_append:
  "find_row p (xs @ ys) = (case find_row p xs of None \<Rightarrow> find_row p ys | Some r \<Rightarrow> Some r)"
  by (induction xs) auto

lemma find_row_None: "(find_row p rows = None) = (\<forall>r \<in> set rows. \<not> p r)"
  by (induction rows) auto

lemma find_row_Some: "find_row p rows = Some r \<Longrightarrow> r \<in> set rows \<and> p r"
  by (induction rows) (auto split: if_splits)

lemma affected_simps [simp]:
  "affected p [] = 0" "affected p (r # rs) = (if p r then Suc (affected p rs) else affected p rs)"
  by (simp_all add: affected_def)

lemma affected_0: "(affected p rows = 0) = (find_row p rows = None)"
  by (induction rows) auto

lemma affected_pos: "find_row p rows = Some r \<Longrightarrow> 0 < affected p rows"
  using affected_0[of p rows] by auto

lemma update_rows_simps [simp]:
  "update_rows p f [] = []" "update_rows p f (r # rs) = (if p r then f r else r) # update_rows p f rs"
  by (simp_all add: update_rows_def)

lemma length_update_rows [simp]: "length (update_rows p f rows) = length rows"
  by (simp add: update_rows_def)

lemma set_update_rows: "set (update_rows p f rows) = (\<lambda>r. if p r then f r else r) ` set rows"
  by (simp add: update_rows_def)

lemma delete_rows_simps [simp]:
  "delete_rows p [] = []" "delete_rows p (r # rs) = (if p r then delete_rows p rs else r # delete_rows p rs)"
  by (simp_all add: delete_rows_def)

lemma set_delete_rows [simp]: "set (delete_rows p rows) = {r \<in> set rows. \<not> p r}"
  by (auto simp: delete_rows_def)

lemma map_update_rows:
  "(\<And>r. p r \<Longrightarrow> g (f r) = g r) \<Longrightarrow> map g (update_rows p f rows) = map g rows"
  by (induction rows) auto

lemma filter_update_rows:
  "(\<And>r. p r \<Longrightarrow> q (f r) = q r) \<Longrightarrow> filter q (update_rows p f rows) = update_rows p f (filter q rows)"
  by (induction rows) auto

lemma update_rows_id: "(\<forall>r \<in> set rows. \<not> p r) \<Longrightarrow> update_rows p f rows = rows"
  by (induction rows) auto

subsection \<open>Access by key\<close>

definition lookup :: "('r \<Rightarrow> 'k) \<Rightarrow> 'k \<Rightarrow> 'r list \<Rightarrow> 'r option" where
  "lookup key k rows = find_row (\<lambda>r. key r = k) rows"

definition modify :: "('r \<Rightarrow> 'k) \<Rightarrow> 'k \<Rightarrow> ('r \<Rightarrow> 'r) \<Rightarrow> 'r list \<Rightarrow> 'r list" where
  "modify key k f rows = update_rows (\<lambda>r. key r = k) f rows"

definition remove :: "('r \<Rightarrow> 'k) \<Rightarrow> 'k \<Rightarrow> 'r list \<Rightarrow> 'r list" where
  "remove key k rows = delete_rows (\<lambda>r. key r = k) rows"

lemma lookup_Nil [simp]: "lookup key k [] = None"
  by (simp add: lookup_def)

lemma lookup_Cons [simp]: "lookup key k (r # rs) = (if key r = k then Some r else lookup key k rs)"
  by (simp add: lookup_def)

lemma modify_simps [simp]:
  "modify key k f [] = []"
  "modify key k f (r # rs) = (if key r = k then f r else r) # modify key k f rs"
  by (simp_all add: modify_def)

lemma remove_simps [simp]:
  "remove key k [] = []"
  "remove key k (r # rs) = (if key r = k then remove key k rs else r # remove key k rs)"
  by (simp_all add: remove_def)

lemma lookup_append:
  "lookup key k (xs @ ys) = (case lookup key k xs of None \<Rightarrow> lookup key k ys | Some r \<Rightarrow> Some r)"
  by (induction xs) auto

lemma lookup_modify:
  "(\<And>r. key (f r) = key r) \<Longrightarrow>
   lookup key k (modify key j f rows) = (if k = j then map_option f (lookup key k rows) else lookup key k rows)"
  by (induction rows) auto

lemma lookup_remove: "lookup key k (remove key j rows) = (if k = j then None else lookup key k rows)"
  by (induction rows) auto

lemma lookup_key: "lookup key k rows = Some r \<Longrightarrow> key r = k"
  unfolding lookup_def by (drule find_row_Some) simp

lemma lookup_mem: "lookup key k rows = Some r \<Longrightarrow> r \<in> set rows"
  unfolding lookup_def by (drule find_row_Some) simp

lemma lookup_None: "lookup key k rows = None \<longleftrightarrow> k \<notin> key ` set rows"
  by (auto simp: lookup_def find_row_None)

lemma lookup_unique: "distinct (map key rows) \<Longrightarrow> r \<in> set rows \<Longrightarrow> lookup key (key r) rows = Some r"
  by (induction rows) (auto simp: image_iff)

lemma affected_lookup: "(affected (\<lambda>r. key r = k) rows = 0) = (lookup key k rows = None)"
  by (simp add: affected_0 lookup_def)

lemma affected_lookup_pos: "(0 < affected (\<lambda>r. key r = k) rows) = (lookup key k rows \<noteq> None)"
  using affected_lookup[of key k rows] by auto

lemma length_modify [simp]: "length (modify key k f rows) = length rows"
  by (simp add: modify_def)

lemma map_modify: "(\<And>r. g (f r) = g r) \<Longrightarrow> map g (modify key k f rows) = map g rows"
  by (induction rows) auto

lemma set_modify: "set (modify key k f rows) = (\<lambda>r. if key r = k then f r else r) ` set rows"
  by (simp add: modify_def set_update_rows)

lemma modify_id: "lookup key k rows = None \<Longrightarrow> modify key k f rows = rows"
  by (induction rows) (auto split: if_splits)

lemma distinct_map_delete: "distinct (map g rows) \<Longrightarrow> distinct (map g (delete_rows p rows))"
  unfolding delete_rows_def by (simp add: distinct_map_filter)

lemma filter_delete_rows: "filter q (delete_rows p rows) = delete_rows p (filter q rows)"
  by (induction rows) auto

lemma length_filter_partition:
  "length (filter q (delete_rows p rows)) + length (filter (\<lambda>r. q r \<and> p r) rows) = length (filter q rows)"
  by (induction rows) auto

lemma distinct_remove: "distinct (map key rows) \<Longrightarrow> distinct (map key (remove k' k rows))"
  unfolding remove_def by (rule distinct_map_delete)

lemma set_remove: "set (remove key k rows) = {r \<in> set rows. key r \<noteq> k}"
  by (auto simp: remove_def)

lemma map_modify_const: "key r' = k \<Longrightarrow> map key (modify key k (\<lambda>_. r') rows) = map key rows"
  by (induction rows) auto

lemma distinct_modify:
  "distinct (map key rows) \<Longrightarrow> key r' = k \<Longrightarrow> distinct (map key (modify key k (\<lambda>_. r') rows))"
  by (simp add: map_modify_const)

lemma lookup_modify_const:
  "key r' = k \<Longrightarrow> lookup key j (modify key k (\<lambda>_. r') rows)
     = (if j = k then (case lookup key k rows of None \<Rightarrow> None | Some _ \<Rightarrow> Some r') else lookup key j rows)"
  by (induction rows) auto

lemma lookup_map: "(\<And>r. key (f r) = key r) \<Longrightarrow> lookup key k (map f rows) = map_option f (lookup key k rows)"
  by (induction rows) auto

lemma map_filter_all: "\<forall>x \<in> set xs. f x = Some (g x) \<Longrightarrow> List.map_filter f xs = map g xs"
  by (induction xs) (auto simp: map_filter_simps)

lemma sort_key_last:
  assumes "\<forall>x \<in> set xs. f x \<le> f y"
  shows "sort_key f (xs @ [y]) = sort_key f xs @ [y]"
  using assms
proof (induction xs)
  case (Cons x xs)
  have "insort_key f x (zs @ [y]) = insort_key f x zs @ [y]" if "f x \<le> f y" for zs
    using that by (induction zs) auto
  with Cons show ?case by simp
qed simp

lemma sort_key_map: "sort_key f (map g xs) = map g (sort_key (\<lambda>x. f (g x)) xs)"
proof -
  have "insort_key f (g x) (map g zs) = map g (insort_key (\<lambda>x. f (g x)) x zs)" for x zs
    by (induction zs) auto
  then show ?thesis by (induction xs) simp_all
qed

lemma sort_key_agree: "\<forall>x \<in> set xs. f x = g x \<Longrightarrow> sort_key f xs = sort_key g xs"
proof (induction xs)
  case (Cons x xs)
  have "insort_key f x zs = insort_key g x zs" if "f x = g x" "\<forall>z \<in> set zs. f z = g z" for zs
    using that by (induction zs) auto
  with Cons show ?case by simp
qed simp

lemma length_remove: "distinct (map key rows) \<Longrightarrow> k \<in> key ` set rows \<Longrightarrow> Suc (length (remove key k rows)) = length rows"
proof (induction rows)
  case (Cons r rows)
  have "key r = k \<Longrightarrow> remove key k rows = rows"
    using Cons.prems(1) by (auto simp: remove_def delete_rows_def filter_id_conv) (metis imageI)
  with Cons show ?case by auto
qed simp

end
