(* ===== verification/GoLib.thy ===== *)
theory GoLib
  imports Prelude
begin

text \<open>
  The part of the Go standard library the service relies on, on strings as byte sequences:
  UTF-8 decoding and encoding (package \<^verbatim>\<open>unicode/utf8\<close> and the range loop over a string),
  \<^verbatim>\<open>strings.ToLower\<close>, \<^verbatim>\<open>TrimSpace\<close>, \<^verbatim>\<open>Split\<close>, \<^verbatim>\<open>Join\<close>, \<^verbatim>\<open>HasPrefix\<close>, \<^verbatim>\<open>ContainsAny\<close>,
  \<^verbatim>\<open>path.Clean\<close>, \<^verbatim>\<open>path.Join\<close>, \<^verbatim>\<open>filepath.Ext\<close>, \<^verbatim>\<open>filepath.Base\<close> (on Unix) and the decimal
  notation of \<^verbatim>\<open>strconv\<close>.  The generated Unicode tables are the record \<^verbatim>\<open>unicode_tables\<close>, a
  parameter that is only ever consulted for code points outside ASCII.
\<close>

section \<open>Bytes and runes\<close>

definition byte :: "char \<Rightarrow> nat" where
  "byte c = of_char c"

record unicode_tables =
  tab_upper :: "nat \<Rightarrow> bool"
  tab_lower :: "nat \<Rightarrow> bool"
  tab_number :: "nat \<Rightarrow> bool"
  tab_to_lower :: "nat \<Rightarrow> nat"

definition RuneError :: nat where "RuneError = 0xFFFD"

definition cont :: "nat \<Rightarrow> nat \<Rightarrow> nat \<Rightarrow> bool" where
  "cont lo hi b = (lo \<le> b \<and> b \<le> hi)"

text \<open>One step of \<^verbatim>\<open>utf8.DecodeRune\<close>: the rune and its width; an invalid sequence is
  \<^verbatim>\<open>RuneError\<close> of width one.\<close>

definition decode2 :: "nat \<Rightarrow> nat list \<Rightarrow> nat \<times> nat" where
  "decode2 b0 bs = (case bs of b1 # _ \<Rightarrow>
     if cont 0x80 0xBF b1 then ((b0 - 0xC0) * 64 + (b1 - 0x80), 2) else (RuneError, 1) | _ \<Rightarrow> (RuneError, 1))"

definition decode3 :: "nat \<Rightarrow> nat \<Rightarrow> nat \<Rightarrow> nat list \<Rightarrow> nat \<times> nat" where
  "decode3 b0 lo hi bs = (case bs of b1 # b2 # _ \<Rightarrow>
     if cont lo hi b1 \<and> cont 0x80 0xBF b2
     then ((b0 - 0xE0) * 4096 + (b1 - 0x80) * 64 + (b2 - 0x80), 3) else (RuneError, 1) | _ \<Rightarrow> (RuneError, 1))"

definition decode4 :: "nat \<Rightarrow> nat \<Rightarrow> nat \<Rightarrow> nat list \<Rightarrow> nat \<times> nat" where
  "decode4 b0 lo hi bs = (case bs of b1 # b2 # b3 # _ \<Rightarrow>
     if cont lo hi b1 \<and> cont 0x80 0xBF b2 \<and> cont 0x80 0xBF b3
     then ((b0 - 0xF0) * 262144 + (b1 - 0x80) * 4096 + (b2 - 0x80) * 64 + (b3 - 0x80), 4) else (RuneError, 1)
   | _ \<Rightarrow> (RuneError, 1))"

definition decode_rune :: "nat \<Rightarrow> nat list \<Rightarrow> nat \<times> nat" where
  "decode_rune b0 bs =
     (if b0 < 0x80 then (b0, 1)
      else if cont 0xC2 0xDF b0 then decode2 b0 bs
      else if b0 = 0xE0 then decode3 b0 0xA0 0xBF bs
      else if b0 = 0xED then decode3 b0 0x80 0x9F bs
      else if cont 0xE1 0xEF b0 then decode3 b0 0x80 0xBF bs
      else if b0 = 0xF0 then decode4 b0 0x90 0xBF bs
      else if b0 = 0xF4 then decode4 b0 0x80 0x8F bs
      else if cont 0xF1 0xF3 b0 then decode4 b0 0x80 0xBF bs
      else (RuneError, 1))"

function runes_of_bytes :: "nat list \<Rightarrow> nat list" where
  "runes_of_bytes [] = []"
| "runes_of_bytes (b # bs) =
     (let (r, w) = decode_rune b bs in r # runes_of_bytes (drop (w - 1) bs))"
  by pat_completeness auto
termination by (relation "measure length") auto

definition runes :: "string \<Rightarrow> nat list" where
  "runes s = runes_of_bytes (map byte s)"

definition encode_rune :: "nat \<Rightarrow> nat list" where
  "encode_rune r =
     (if r < 0x80 then [r]
      else if r < 0x800 then [0xC0 + r div 64, 0x80 + r mod 64]
      else if r > 0x10FFFF \<or> cont 0xD800 0xDFFF r then [0xEF, 0xBF, 0xBD]
      else if r < 0x10000 then [0xE0 + r div 4096, 0x80 + r div 64 mod 64, 0x80 + r mod 64]
      else [0xF0 + r div 262144, 0x80 + r div 4096 mod 64, 0x80 + r div 64 mod 64, 0x80 + r mod 64])"

definition string_of_runes :: "nat list \<Rightarrow> string" where
  "string_of_runes rs = map char_of (concat (map encode_rune rs))"

definition ascii :: "string \<Rightarrow> bool" where
  "ascii s = list_all (\<lambda>c. byte c < 0x80) s"

lemma decode_rune_ascii [simp]: "b < 0x80 \<Longrightarrow> decode_rune b bs = (b, 1)"
  by (simp add: decode_rune_def)

lemma runes_ascii: "ascii s \<Longrightarrow> runes s = map byte s"
  by (induction s) (simp_all add: ascii_def runes_def)

lemma decode_width: "decode_rune b bs = (r, w) \<Longrightarrow> 1 \<le> w \<and> w \<le> Suc (length bs)"
  by (auto simp: decode_rune_def decode2_def decode3_def decode4_def
      split: if_splits list.splits)

text \<open>\<^verbatim>\<open>utf8.RuneCountInString\<close>.\<close>

definition RuneCount :: "string \<Rightarrow> nat" where
  "RuneCount s = length (runes s)"

lemma runes_bytes_le: "length (runes_of_bytes bs) \<le> length bs"
proof (induction bs rule: runes_of_bytes.induct)
  case (2 b bs)
  obtain r w where "decode_rune b bs = (r, w)" by (cases "decode_rune b bs")
  then show ?case using 2 by force
qed simp

lemma RuneCount_le: "RuneCount s \<le> length s"
  using runes_bytes_le[of "map byte s"] by (simp add: RuneCount_def runes_def)

section \<open>Characters\<close>

definition is_alpha :: "char \<Rightarrow> bool" where
  "is_alpha c = (cont 65 90 (byte c) \<or> cont 97 122 (byte c))"

definition is_digit :: "char \<Rightarrow> bool" where
  "is_digit c = cont 48 57 (byte c)"

definition rune_is_upper :: "unicode_tables \<Rightarrow> nat \<Rightarrow> bool" where
  "rune_is_upper u r = (if r < 0x80 then cont 65 90 r else tab_upper u r)"

definition rune_is_lower :: "unicode_tables \<Rightarrow> nat \<Rightarrow> bool" where
  "rune_is_lower u r = (if r < 0x80 then cont 97 122 r else tab_lower u r)"

definition rune_is_number :: "unicode_tables \<Rightarrow> nat \<Rightarrow> bool" where
  "rune_is_number u r = (if r < 0x80 then cont 48 57 r else tab_number u r)"

definition rune_to_lower :: "unicode_tables \<Rightarrow> nat \<Rightarrow> nat" where
  "rune_to_lower u r = (if r < 0x80 then (if cont 65 90 r then r + 32 else r) else tab_to_lower u r)"

definition ToLower :: "unicode_tables \<Rightarrow> string \<Rightarrow> string" where
  "ToLower u s = string_of_runes (map (rune_to_lower u) (runes s))"

lemma encode_ascii [simp]: "r < 0x80 \<Longrightarrow> encode_rune r = [r]"
  by (simp add: encode_rune_def)

lemma rune_to_lower_ascii: "r < 0x80 \<Longrightarrow> rune_to_lower u r < 0x80"
  by (auto simp: rune_to_lower_def cont_def)

lemma ToLower_ascii:
  "ascii s \<Longrightarrow> ToLower u s = map (\<lambda>c. char_of (rune_to_lower u (byte c))) s"
  by (simp add: ToLower_def runes_ascii string_of_runes_def)
     (induction s, simp_all add: ascii_def rune_to_lower_ascii)

section \<open>strings: prefixes, splitting, trimming\<close>

definition HasPrefix :: "string \<Rightarrow> string \<Rightarrow> bool" where
  "HasPrefix s p = (take (length p) s = p)"

definition HasSuffix :: "string \<Rightarrow> string \<Rightarrow> bool" where
  "HasSuffix s p = HasPrefix (rev s) (rev p)"

definition TrimPrefix :: "string \<Rightarrow> string \<Rightarrow> string" where
  "TrimPrefix s p = (if HasPrefix s p then drop (length p) s else s)"

definition ContainsAny :: "string \<Rightarrow> char list \<Rightarrow> bool" where
  "ContainsAny s cs = list_ex (\<lambda>c. c \<in> set cs) s"

fun split_on :: "char \<Rightarrow> string \<Rightarrow> string list" where
  "split_on d [] = [[]]"
| "split_on d (c # cs) =
     (if c = d then [] # split_on d cs
      else case split_on d cs of [] \<Rightarrow> [[c]] | w # ws \<Rightarrow> (c # w) # ws)"

fun join_with :: "string \<Rightarrow> string list \<Rightarrow> string" where
  "join_with sep [] = []"
| "join_with sep [w] = w"
| "join_with sep (w # ws) = w @ sep @ join_with sep ws"

lemma split_on_nonempty [simp]: "split_on d s \<noteq> []"
  by (induction s) (auto split: list.splits)

lemma split_on_free: "w \<in> set (split_on d s) \<Longrightarrow> d \<notin> set w"
  by (induction s arbitrary: w) (force split: if_splits list.splits)+

lemma join_with_Cons_char: "join_with sep ((c # w) # ws) = c # join_with sep (w # ws)"
  by (cases ws) simp_all

lemma join_with_Nil_head: "ws \<noteq> [] \<Longrightarrow> join_with sep ([] # ws) = sep @ join_with sep ws"
  by (cases ws) simp_all

lemma join_split: "join_with [d] (split_on d s) = s"
proof (induction s)
  case (Cons c cs)
  then show ?case
    by (cases "split_on d cs") (auto simp: join_with_Cons_char join_with_Nil_head)
qed simp

text \<open>The byte sequences of the Unicode white-space characters; \<^verbatim>\<open>strings.TrimSpace\<close> removes
  every leading and trailing one.\<close>

definition space_bytes :: "nat list list" where
  "space_bytes = map (\<lambda>b. [b]) [9, 10, 11, 12, 13, 32]
     @ [[0xC2, 0x85], [0xC2, 0xA0], [0xE1, 0x9A, 0x80]]
     @ map (\<lambda>b. [0xE2, 0x80, b]) [0x80, 0x81, 0x82, 0x83, 0x84, 0x85, 0x86, 0x87, 0x88, 0x89, 0x8A, 0xA8, 0xA9, 0xAF]
     @ [[0xE2, 0x81, 0x9F], [0xE3, 0x80, 0x80]]"

definition space_at_head :: "nat list list \<Rightarrow> string \<Rightarrow> nat list option" where
  "space_at_head ws s = List.find (\<lambda>w. take (length w) (map byte s) = w) ws"

function trim_left :: "nat list list \<Rightarrow> string \<Rightarrow> string" where
  "trim_left ws s = (case space_at_head ws s of None \<Rightarrow> s
     | Some w \<Rightarrow> if w = [] \<or> s = [] then s else trim_left ws (drop (length w) s))"
  by pat_completeness auto
termination by (relation "measure (\<lambda>(ws, s). length s)") auto

declare trim_left.simps [simp del]

definition TrimSpace :: "string \<Rightarrow> string" where
  "TrimSpace s = rev (trim_left (map rev space_bytes) (rev (trim_left space_bytes s)))"

lemma trim_left_suffix: "\<exists>p. s = p @ trim_left ws s"
proof (induction ws s rule: trim_left.induct)
  case (1 ws s)
  show ?case
  proof (cases "space_at_head ws s")
    case None
    then show ?thesis by (subst trim_left.simps) simp
  next
    case (Some w)
    show ?thesis
    proof (cases "w = [] \<or> s = []")
      case True
      then show ?thesis using Some by (subst trim_left.simps) auto
    next
      case False
      then obtain p where "drop (length w) s = p @ trim_left ws (drop (length w) s)"
        using 1 Some by blast
      then have "s = (take (length w) s @ p) @ trim_left ws (drop (length w) s)"
        by (metis append.assoc append_take_drop_id)
      moreover have "trim_left ws s = trim_left ws (drop (length w) s)"
        using False Some by (subst trim_left.simps) simp
      ultimately show ?thesis by metis
    qed
  qed
qed

lemma trim_left_length: "length (trim_left ws s) \<le> length s"
  using trim_left_suffix[of s ws] by (metis length_append le_add2)

lemma TrimSpace_sublist: "\<exists>p q. s = p @ TrimSpace s @ q"
proof -
  obtain p where p: "s = p @ trim_left space_bytes s" using trim_left_suffix by blast
  obtain q where q: "rev (trim_left space_bytes s) = q @ trim_left (map rev space_bytes) (rev (trim_left space_bytes s))"
    using trim_left_suffix by blast
  then have "trim_left space_bytes s = TrimSpace s @ rev q"
    by (metis TrimSpace_def rev_append rev_rev_ident)
  with p show ?thesis by metis
qed

lemma TrimSpace_length: "length (TrimSpace s) \<le> length s"
  using TrimSpace_sublist[of s] by (metis length_append le_add1 le_add2 le_trans)

section \<open>path and filepath (Unix)\<close>

fun clean_segments :: "bool \<Rightarrow> string list \<Rightarrow> string list \<Rightarrow> string list" where
  "clean_segments rooted stack [] = rev stack"
| "clean_segments rooted stack (w # ws) =
     (if w = '''' \<or> w = ''.'' then clean_segments rooted stack ws
      else if w = ''..'' then
        (case stack of
           [] \<Rightarrow> clean_segments rooted (if rooted then [] else [''..'']) ws
         | up # rest \<Rightarrow> if up = ''..'' then clean_segments rooted (''..'' # stack) ws
                        else clean_segments rooted rest ws)
      else clean_segments rooted (w # stack) ws)"

definition path_Clean :: "string \<Rightarrow> string" where
  "path_Clean p =
     (let rooted = HasPrefix p ''/'';
          segs = clean_segments rooted [] (split_on CHR ''/'' p)
      in if rooted then ''/'' @ join_with ''/'' segs
         else if segs = [] then ''.'' else join_with ''/'' segs)"

definition path_Join :: "string list \<Rightarrow> string" where
  "path_Join ws = (let ne = filter (\<lambda>w. w \<noteq> '''') ws in
     if ne = [] then '''' else path_Clean (join_with ''/'' ne))"

text \<open>\<^verbatim>\<open>filepath.Base\<close>: the last segment after stripping trailing slashes.\<close>

definition path_Base :: "string \<Rightarrow> string" where
  "path_Base p = (if p = '''' then ''.'' else
     let stripped = rev (dropWhile (\<lambda>c. c = CHR ''/'') (rev p)) in
     let base = last (split_on CHR ''/'' stripped) in if base = '''' then ''/'' else base)"

text \<open>\<^verbatim>\<open>filepath.Ext\<close>: the suffix from the last dot of the last segment.\<close>

definition path_Ext :: "string \<Rightarrow> string" where
  "path_Ext p = (let b = last (split_on CHR ''/'' p) in
     if CHR ''.'' \<in> set b then ''.'' @ last (split_on CHR ''.'' b) else '''')"

lemma path_Ext_no_slash: "CHR ''/'' \<notin> set (path_Ext p)"
proof -
  let ?b = "last (split_on CHR ''/'' p)"
  have b: "CHR ''/'' \<notin> set ?b"
    by (rule split_on_free[where s = p]) simp
  have sub: "w \<in> set (split_on d s) \<Longrightarrow> set w \<subseteq> set s" for w d and s :: string
    by (induction s arbitrary: w) (force split: if_splits list.splits)+
  have "set (last (split_on CHR ''.'' ?b)) \<subseteq> set ?b"
    by (rule sub[where d = "CHR ''.''"]) simp
  with b show ?thesis by (auto simp: path_Ext_def Let_def)
qed

section \<open>Decimal notation\<close>

definition digit_char :: "nat \<Rightarrow> char" where
  "digit_char d = char_of (48 + d)"

fun nat_string :: "nat \<Rightarrow> string" where
  "nat_string n = (if n < 10 then [digit_char n] else nat_string (n div 10) @ [digit_char (n mod 10)])"

declare nat_string.simps [simp del]

definition Itoa :: "int \<Rightarrow> string" where
  "Itoa i = (if i < 0 then ''-'' @ nat_string (nat (- i)) else nat_string (nat i))"

text \<open>The digits part of \<^verbatim>\<open>strconv.Atoi\<close>: \<^verbatim>\<open>None\<close> on an empty string or a non-digit.\<close>

definition digits_value :: "string \<Rightarrow> nat option" where
  "digits_value s = (if s = '''' \<or> \<not> list_all is_digit s then None
     else Some (foldl (\<lambda>n c. 10 * n + (byte c - 48)) 0 s))"

text \<open>\<^verbatim>\<open>strconv.Atoi\<close> on a 64-bit platform: an optional sign, digits, and a range check.\<close>

definition Atoi :: "string \<Rightarrow> int option" where
  "Atoi s = (let (neg, ds) = (case s of c # cs \<Rightarrow>
        if c = CHR ''-'' then (True, cs) else if c = CHR ''+'' then (False, cs) else (False, s) | [] \<Rightarrow> (False, s)) in
     case digits_value ds of None \<Rightarrow> None
     | Some n \<Rightarrow> let i = (if neg then - int n else int n) in
         if - (2 ^ 63) \<le> i \<and> i < 2 ^ 63 then Some i else None)"

lemma byte_digit_char: "d < 10 \<Longrightarrow> byte (digit_char d) = 48 + d"
  by (simp add: byte_def digit_char_def)

lemma is_digit_digit_char: "d < 10 \<Longrightarrow> is_digit (digit_char d)"
  by (simp add: is_digit_def byte_digit_char cont_def)

lemma nat_string_digits: "list_all is_digit (nat_string n) \<and> nat_string n \<noteq> []"
proof (induction n rule: nat_string.induct)
  case (1 n)
  then show ?case
    by (cases "n < 10") (simp_all add: nat_string.simps[of n] is_digit_digit_char)
qed

lemma digits_value_nat_string: "digits_value (nat_string n) = Some n"
proof -
  have "foldl (\<lambda>n c. 10 * n + (byte c - 48)) 0 (nat_string n) = n"
  proof (induction n rule: nat_string.induct)
    case (1 n)
    then show ?case by (subst nat_string.simps) (auto simp: byte_digit_char)
  qed
  with nat_string_digits[of n] show ?thesis by (simp add: digits_value_def)
qed

lemma Atoi_bounds: "Atoi s = Some i \<Longrightarrow> - (2 ^ 63) \<le> i \<and> i < 2 ^ 63"
  by (auto simp: Atoi_def Let_def split: prod.splits option.splits if_splits list.splits)

lemma is_digit_not_sign: "is_digit c \<Longrightarrow> c \<noteq> CHR ''-'' \<and> c \<noteq> CHR ''+''"
  by (auto simp: is_digit_def cont_def byte_def)

lemma Atoi_Itoa: "- (2 ^ 63) \<le> i \<Longrightarrow> i < 2 ^ 63 \<Longrightarrow> Atoi (Itoa i) = Some i"
proof (cases "i < 0")
  case True
  assume "- (2 ^ 63) \<le> i" "i < 2 ^ 63"
  with True show ?thesis by (simp add: Atoi_def Itoa_def digits_value_nat_string Let_def)
next
  case False
  assume b: "- (2 ^ 63) \<le> i" "i < 2 ^ 63"
  obtain c cs where ns: "nat_string (nat i) = c # cs" "is_digit c"
    using nat_string_digits[of "nat i"] by (cases "nat_string (nat i)") auto
  have "digits_value (c # cs) = Some (nat i)"
    using digits_value_nat_string[of "nat i"] ns by simp
  with b False ns is_digit_not_sign[of c] show ?thesis
    by (simp add: Atoi_def Itoa_def Let_def)
qed

end
