(* ===== verification/Domain.thy ===== *)
theory Domain
  imports GoLib
begin

text \<open>
  The types of \<^verbatim>\<open>internal/domain\<close>: the sentinel errors, roles and permissions, users, videos,
  the social entities and reports, each with the methods of the Go type.  A method that reads
  \<^verbatim>\<open>time.Now()\<close> or \<^verbatim>\<open>uuid.New()\<close> takes the value as an argument; the callers draw it from
  the environment of the world (theory World).  A Go string type with named constants is a
  datatype of those constants plus one constructor for every other string, so that a value
  outside the constants (a claim of a token, a form field) is still a value.
\<close>

section \<open>Errors\<close>

text \<open>
  The sentinels of errors.go.  The service wraps them with \<^verbatim>\<open>%w\<close> and callers match with
  \<^verbatim>\<open>errors.Is\<close>, so an error is identified by its sentinel; an error with no sentinel in its
  chain (a database or system error, a message built with \<^verbatim>\<open>fmt.Errorf\<close>) is \<^verbatim>\<open>ErrOther\<close> with
  the fixed part of its text.
\<close>

datatype err =
    ErrInvalidInput
  | ErrDatabaseError
  | ErrVideoNotFound
  | ErrInvalidTitle
  | ErrTitleTooLong
  | ErrInvalidFileSize
  | ErrFileSizeTooLarge
  | ErrInvalidFilename
  | ErrInvalidMimeType
  | ErrInvalidFormat
  | ErrUploadFailed
  | ErrProcessingFailed
  | ErrInvalidProgress
  | ErrInvalidStatus
  | ErrInvalidID
  | ErrUserNotFound
  | ErrInvalidUsername
  | ErrInvalidEmail
  | ErrInvalidPassword
  | ErrInvalidRole
  | ErrBioTooLong
  | ErrFullNameTooLong
  | ErrUserAlreadyExists
  | ErrInvalidCredentials
  | ErrEmailNotVerified
  | ErrInvalidToken
  | ErrTokenExpired
  | ErrWeakPassword
  | ErrUnauthorized
  | ErrForbidden
  | ErrUserBanned
  | ErrSessionNotFound
  | ErrSessionExpired
  | ErrInvalidReportType
  | ErrMissingReportTarget
  | ErrMissingReportReason
  | ErrReportNotFound
  | ErrLikeNotFound
  | ErrCommentNotFound
  | ErrSubscriptionNotFound
  | ErrSelfSubscription
  | ErrPlaylistNotFound
  | ErrPlaylistVideoNotFound
  | ErrVideoAlreadyInPlaylist
  | ErrWatchLaterNotFound
  | ErrNotificationNotFound
  | ErrEmailAlreadyVerified
  | ErrTokenRevoked
  | ErrRevocationUnavailable
  | ErrWatchHistoryNotFound
  | ErrStorageKeyInvalid
  | ErrStorageObjectNotFound
  \<comment> \<open>the sentinels of pkg/validator, pkg/jwt, internal/cache and moderation_service.go\<close>
  | V_ErrFileTooLarge | V_ErrInvalidFormat | V_ErrInvalidTitle | V_ErrCorruptVideo
  | V_ErrInvalidUUID | V_ErrInvalidPagination
  | ErrWrongTokenType | ErrCacheMiss | ErrDuplicateReport
  | ErrOther string

section \<open>Roles and permissions (role.go)\<close>

datatype Role = RoleGuest | RoleUser | RolePremium | RoleModerator | RoleAdmin | RoleOther string

definition role_name :: "Role \<Rightarrow> string" where
  "role_name r = (case r of RoleGuest \<Rightarrow> ''guest'' | RoleUser \<Rightarrow> ''user'' | RolePremium \<Rightarrow> ''premium''
     | RoleModerator \<Rightarrow> ''moderator'' | RoleAdmin \<Rightarrow> ''admin'' | RoleOther s \<Rightarrow> s)"

definition role_of_name :: "string \<Rightarrow> Role" where
  "role_of_name s = (if s = ''guest'' then RoleGuest else if s = ''user'' then RoleUser
     else if s = ''premium'' then RolePremium else if s = ''moderator'' then RoleModerator
     else if s = ''admin'' then RoleAdmin else RoleOther s)"

datatype Permission = PermissionWatchPublic | PermissionWatchPrivate | PermissionUploadVideo
  | PermissionDeleteOwnVideo | PermissionDeleteAnyVideo | PermissionManageUsers
  | PermissionViewAnalytics | PermissionModerateContent

definition RolePermissions :: "Role \<Rightarrow> Permission list option" where
  "RolePermissions r = (case r of
     RoleGuest \<Rightarrow> Some [PermissionWatchPublic]
   | RoleUser \<Rightarrow> Some [PermissionWatchPublic, PermissionUploadVideo, PermissionDeleteOwnVideo]
   | RolePremium \<Rightarrow> Some [PermissionWatchPublic, PermissionWatchPrivate, PermissionUploadVideo,
       PermissionDeleteOwnVideo, PermissionViewAnalytics]
   | RoleModerator \<Rightarrow> Some [PermissionWatchPublic, PermissionWatchPrivate, PermissionUploadVideo,
       PermissionDeleteOwnVideo, PermissionDeleteAnyVideo, PermissionModerateContent]
   | RoleAdmin \<Rightarrow> Some [PermissionWatchPublic, PermissionWatchPrivate, PermissionUploadVideo,
       PermissionDeleteOwnVideo, PermissionDeleteAnyVideo, PermissionManageUsers,
       PermissionViewAnalytics, PermissionModerateContent]
   | RoleOther _ \<Rightarrow> None)"

definition HasPermission :: "Role \<Rightarrow> Permission \<Rightarrow> bool" where
  "HasPermission r permission = (case RolePermissions r of None \<Rightarrow> False
     | Some permissions \<Rightarrow> list_ex (\<lambda>p. p = permission) permissions)"

definition Role_IsValid :: "Role \<Rightarrow> bool" where
  "Role_IsValid r = list_ex (\<lambda>valid. r = valid) [RoleGuest, RoleUser, RolePremium, RoleModerator, RoleAdmin]"

lemmas role_defs = HasPermission_def RolePermissions_def Role_IsValid_def

lemma role_of_name_name: "Role_IsValid r \<Longrightarrow> role_of_name (role_name r) = r"
  by (cases r) (simp_all add: role_defs role_of_name_def role_name_def)

lemma role_name_of_name: "role_name (role_of_name s) = s"
  by (simp add: role_of_name_def role_name_def)

lemma HasPermission_valid: "HasPermission r p \<Longrightarrow> Role_IsValid r"
  by (cases r) (simp_all add: role_defs)

lemma HasPermission_iff: "HasPermission r p \<longleftrightarrow> (\<exists>ps. RolePermissions r = Some ps \<and> p \<in> set ps)"
  by (cases "RolePermissions r") (auto simp: HasPermission_def list_ex_iff)

text \<open>Roles ordered by what they may do.\<close>

instantiation Role :: preorder
begin

definition less_eq_Role :: "Role \<Rightarrow> Role \<Rightarrow> bool" where
  "less_eq_Role r s = (case RolePermissions r of None \<Rightarrow> True
     | Some ps \<Rightarrow> list_all (HasPermission s) ps)"

definition less_Role :: "Role \<Rightarrow> Role \<Rightarrow> bool" where
  "less_Role r s = (r \<le> s \<and> \<not> s \<le> r)"

lemma role_le_iff: "r \<le> s \<longleftrightarrow> (\<forall>p. HasPermission r p \<longrightarrow> HasPermission s p)" for r s :: Role
proof (cases "RolePermissions r")
  case None
  then show ?thesis by (simp add: less_eq_Role_def HasPermission_def)
next
  case (Some ps)
  then show ?thesis by (auto simp: less_eq_Role_def list_all_iff HasPermission_iff[of r])
qed

instance
  by standard (auto simp: less_Role_def role_le_iff)

end

section \<open>Users (user.go)\<close>

record User =
  u_ID :: uuid
  u_Username :: string
  u_Email :: string
  u_PasswordHash :: string
  u_FullName :: "string option"
  u_Bio :: "string option"
  u_AvatarURL :: "string option"
  u_Role :: Role
  u_EmailVerified :: bool
  u_EmailVerificationToken :: "uuid option"
  u_PasswordResetToken :: "uuid option"
  u_PasswordResetExpiry :: "time option"
  u_LastLoginAt :: "time option"
  u_OAuthProvider :: "string option"
  u_OAuthProviderID :: "string option"
  u_OAuthAvatarURL :: "string option"
  u_IsBanned :: bool
  u_BanReason :: "string option"
  u_BanExpiry :: "time option"
  u_BannedAt :: "time option"
  u_BannedBy :: "uuid option"
  u_CreatedAt :: time
  u_UpdatedAt :: time
  u_DeletedAt :: "time option"

definition IsCurrentlyBanned :: "time \<Rightarrow> User \<Rightarrow> bool" where
  "IsCurrentlyBanned now u =
     (if \<not> u_IsBanned u then False
      else case u_BanExpiry u of None \<Rightarrow> True | Some e \<Rightarrow> now < e)"

text \<open>The regular expression \<^verbatim>\<open>^[a-zA-Z0-9_]{3,30}$\<close>.\<close>

definition username_char :: "char \<Rightarrow> bool" where
  "username_char c = (is_alpha c \<or> is_digit c \<or> c = CHR ''_'')"

definition usernameRegex :: "string \<Rightarrow> bool" where
  "usernameRegex s = (3 \<le> length s \<and> length s \<le> 30 \<and> list_all username_char s)"

text \<open>
  The regular expression \<^verbatim>\<open>^[a-zA-Z0-9._%+-]+@[a-zA-Z0-9.-]+\.[a-zA-Z]{2,}$\<close>, decided by
  cutting at the first \<^verbatim>\<open>@\<close> and at the last dot; \<^verbatim>\<open>email_language\<close> is the expression read
  as a language.
\<close>

definition email_local_char :: "char \<Rightarrow> bool" where
  "email_local_char c = (is_alpha c \<or> is_digit c \<or> c \<in> set ''._%+-'')"

definition email_domain_char :: "char \<Rightarrow> bool" where
  "email_domain_char c = (is_alpha c \<or> is_digit c \<or> c \<in> set ''.-'')"

definition emailRegex :: "string \<Rightarrow> bool" where
  "emailRegex s =
     (let loc = takeWhile (\<lambda>c. c \<noteq> CHR ''@'') s;
          rest = dropWhile (\<lambda>c. c \<noteq> CHR ''@'') s;
          host = drop 1 rest;
          tld = rev (takeWhile (\<lambda>c. c \<noteq> CHR ''.'') (rev host));
          dom = rev (drop 1 (dropWhile (\<lambda>c. c \<noteq> CHR ''.'') (rev host)))
      in rest \<noteq> [] \<and> loc \<noteq> [] \<and> list_all email_local_char loc
         \<and> CHR ''.'' \<in> set host \<and> dom \<noteq> [] \<and> list_all email_domain_char dom
         \<and> 2 \<le> length tld \<and> list_all is_alpha tld)"

definition email_language :: "string \<Rightarrow> bool" where
  "email_language s = (\<exists>loc dom tld. s = loc @ ''@'' @ dom @ ''.'' @ tld
     \<and> loc \<noteq> [] \<and> (\<forall>c \<in> set loc. email_local_char c)
     \<and> dom \<noteq> [] \<and> (\<forall>c \<in> set dom. email_domain_char c)
     \<and> 2 \<le> length tld \<and> (\<forall>c \<in> set tld. is_alpha c))"

lemma email_char_facts:
  "\<not> email_local_char CHR ''@''" "\<not> is_alpha CHR ''.''"
  by (simp_all add: email_local_char_def is_alpha_def is_digit_def cont_def byte_def)

definition User_Validate :: "User \<Rightarrow> err option" where
  "User_Validate u =
     (if \<not> usernameRegex (u_Username u) then Some ErrInvalidUsername
      else if \<not> emailRegex (u_Email u) then Some ErrInvalidEmail
      else if u_PasswordHash u = '''' then Some ErrInvalidPassword
      else if \<not> Role_IsValid (u_Role u) then Some ErrInvalidRole
      else if (case u_Bio u of Some b \<Rightarrow> length b > 500 | None \<Rightarrow> False) then Some ErrBioTooLong
      else if (case u_FullName u of Some f \<Rightarrow> length f > 100 | None \<Rightarrow> False) then Some ErrFullNameTooLong
      else None)"

text \<open>The two \<^verbatim>\<open>time.Now()\<close> calls of the constructor are \<^verbatim>\<open>t1\<close> and \<^verbatim>\<open>t2\<close>.\<close>

definition NewUser ::
  "unicode_tables \<Rightarrow> uuid \<Rightarrow> time \<Rightarrow> time \<Rightarrow> string \<Rightarrow> string \<Rightarrow> string \<Rightarrow> Role \<Rightarrow> err + User" where
  "NewUser ut new_id t1 t2 username email passwordHash role =
     (let user = \<lparr> u_ID = new_id, u_Username = TrimSpace username, u_Email = TrimSpace (ToLower ut email),
          u_PasswordHash = passwordHash, u_FullName = None, u_Bio = None, u_AvatarURL = None,
          u_Role = role, u_EmailVerified = False, u_EmailVerificationToken = None,
          u_PasswordResetToken = None, u_PasswordResetExpiry = None, u_LastLoginAt = None,
          u_OAuthProvider = None, u_OAuthProviderID = None, u_OAuthAvatarURL = None,
          u_IsBanned = False, u_BanReason = None, u_BanExpiry = None, u_BannedAt = None,
          u_BannedBy = None, u_CreatedAt = t1, u_UpdatedAt = t2, u_DeletedAt = None \<rparr>
      in case User_Validate user of Some e \<Rightarrow> Inl e | None \<Rightarrow> Inr user)"

definition User_HasPermission :: "User \<Rightarrow> Permission \<Rightarrow> bool" where
  "User_HasPermission u p = HasPermission (u_Role u) p"

definition CanUploadVideos :: "User \<Rightarrow> bool" where
  "CanUploadVideos u = (u_EmailVerified u \<and> User_HasPermission u PermissionUploadVideo)"

definition VerifyEmail :: "time \<Rightarrow> User \<Rightarrow> User" where
  "VerifyEmail now u = u\<lparr> u_EmailVerified := True, u_EmailVerificationToken := None, u_UpdatedAt := now \<rparr>"

definition ClearPasswordResetToken :: "time \<Rightarrow> User \<Rightarrow> User" where
  "ClearPasswordResetToken now u =
     u\<lparr> u_PasswordResetToken := None, u_PasswordResetExpiry := None, u_UpdatedAt := now \<rparr>"

definition IsPasswordResetTokenValid :: "time \<Rightarrow> User \<Rightarrow> bool" where
  "IsPasswordResetTokenValid now u =
     (case (u_PasswordResetToken u, u_PasswordResetExpiry u) of (Some _, Some e) \<Rightarrow> now < e | _ \<Rightarrow> False)"

definition UpdateLastLogin :: "time \<Rightarrow> User \<Rightarrow> User" where
  "UpdateLastLogin now u = u\<lparr> u_LastLoginAt := Some now, u_UpdatedAt := now \<rparr>"

text \<open>The method mutates its receiver field by field, so a refused bio leaves the full name
  already set: the result carries the receiver as well as the error.\<close>

definition UpdateProfile :: "time \<Rightarrow> string option \<Rightarrow> string option \<Rightarrow> User \<Rightarrow> err option \<times> User" where
  "UpdateProfile now fullName bio u =
     (case (case fullName of None \<Rightarrow> (None, u)
            | Some f \<Rightarrow> if length f > 100 then (Some ErrFullNameTooLong, u)
                        else (None, u\<lparr> u_FullName := Some f \<rparr>)) of
        (Some e, u1) \<Rightarrow> (Some e, u1)
      | (None, u1) \<Rightarrow>
          (case (case bio of None \<Rightarrow> (None, u1)
                 | Some b \<Rightarrow> if length b > 500 then (Some ErrBioTooLong, u1)
                             else (None, u1\<lparr> u_Bio := Some b \<rparr>)) of
             (Some e, u2) \<Rightarrow> (Some e, u2)
           | (None, u2) \<Rightarrow> (None, u2\<lparr> u_UpdatedAt := now \<rparr>)))"

definition SetAvatarURL :: "time \<Rightarrow> string \<Rightarrow> User \<Rightarrow> User" where
  "SetAvatarURL now url u = u\<lparr> u_AvatarURL := Some url, u_UpdatedAt := now \<rparr>"

definition SoftDelete :: "time \<Rightarrow> User \<Rightarrow> User" where
  "SoftDelete now u = u\<lparr> u_DeletedAt := Some now, u_UpdatedAt := now \<rparr>"

definition IsDeleted :: "User \<Rightarrow> bool" where
  "IsDeleted u = (u_DeletedAt u \<noteq> None)"

definition DisplayName :: "User \<Rightarrow> string" where
  "DisplayName u = (case u_FullName u of Some f \<Rightarrow> if f \<noteq> '''' then f else u_Username u | None \<Rightarrow> u_Username u)"

definition GetAvatarURL :: "User \<Rightarrow> string" where
  "GetAvatarURL u =
     (if (case u_OAuthAvatarURL u of Some a \<Rightarrow> a \<noteq> '''' | None \<Rightarrow> False) then the (u_OAuthAvatarURL u)
      else if (case u_AvatarURL u of Some a \<Rightarrow> a \<noteq> '''' | None \<Rightarrow> False) then the (u_AvatarURL u)
      else ''https://ui-avatars.com/api/?name='' @ u_Username u @ ''&background=random'')"

lemma NewUser_fields:
  assumes "NewUser ut i t1 t2 username email ph role = Inr u"
  shows "u_ID u = i" "u_Username u = TrimSpace username" "u_Email u = TrimSpace (ToLower ut email)"
    "u_PasswordHash u = ph" "u_Role u = role" "User_Validate u = None" "\<not> u_EmailVerified u"
    "\<not> u_IsBanned u" "u_DeletedAt u = None"
  using assms by (auto simp: NewUser_def Let_def split: option.splits)

end
