(* ===== verification/Entities.thy ===== *)
theory Entities
  imports Domain
begin

text \<open>
  The content types of \<^verbatim>\<open>internal/domain\<close>: videos with their lifecycle status and visibility
  (video.go), the social entities (social.go), content reports (report.go) and search queries
  (search.go), each with the methods and the validation of the Go type.
\<close>

section \<open>Videos (video.go)\<close>

datatype VideoStatus = VideoStatusUploading | VideoStatusProcessing | VideoStatusReady | VideoStatusFailed

datatype VideoVisibility = VisibilityPublic | VisibilityPrivate | VisibilityUnlisted | VisibilityOther string

definition visibility_of_name :: "string \<Rightarrow> VideoVisibility" where
  "visibility_of_name s = (if s = ''public'' then VisibilityPublic else if s = ''private'' then VisibilityPrivate
     else if s = ''unlisted'' then VisibilityUnlisted else VisibilityOther s)"

definition VideoVisibility_IsValid :: "VideoVisibility \<Rightarrow> bool" where
  "VideoVisibility_IsValid v = (case v of VisibilityPublic \<Rightarrow> True | VisibilityPrivate \<Rightarrow> True
     | VisibilityUnlisted \<Rightarrow> True | VisibilityOther _ \<Rightarrow> False)"

record Video =
  v_ID :: uuid
  v_UserID :: "uuid option"
  v_Title :: string
  v_Description :: string
  v_Filename :: string
  v_FilePath :: string
  v_FileSize :: int
  v_Duration :: int
  v_Status :: VideoStatus
  v_Visibility :: VideoVisibility
  v_MimeType :: string
  v_OriginalResolution :: string
  v_TranscodingProgress :: int
  v_AvailableQualities :: "string list"
  v_HLSReady :: bool
  v_StreamingProtocol :: string
  v_ThumbnailPath :: "string option"
  v_HLSMasterPath :: "string option"
  v_Category :: string
  v_Tags :: "string list"
  v_Language :: string
  v_ViewCount :: int
  v_LikeCount :: int
  v_CommentCount :: int
  v_CreatedAt :: time
  v_UpdatedAt :: time
  v_ProcessedAt :: "time option"

text \<open>The textual form of a UUID is \<^verbatim>\<open>uuid_text\<close>, a parameter: the package is not part of the
  repository.\<close>

type_synonym uuid_text = "uuid \<Rightarrow> string"

definition VideoThumbnailURL :: "uuid_text \<Rightarrow> uuid \<Rightarrow> string" where
  "VideoThumbnailURL str i = ''/api/v1/videos/'' @ str i @ ''/thumbnail''"

definition VideoHLSURL :: "uuid_text \<Rightarrow> uuid \<Rightarrow> string" where
  "VideoHLSURL str i = ''/api/v1/videos/'' @ str i @ ''/hls/master.m3u8''"

text \<open>
  What \<^verbatim>\<open>MarshalJSON\<close> sends to a client: every field of the struct whose json tag is not
  \<^verbatim>\<open>"-"\<close>, and the two derived URLs (empty when omitted).
\<close>

record VideoView =
  vv_ID :: uuid
  vv_UserID :: "uuid option"
  vv_Title :: string
  vv_Description :: string
  vv_Filename :: string
  vv_FileSize :: int
  vv_Duration :: int
  vv_Status :: VideoStatus
  vv_Visibility :: VideoVisibility
  vv_MimeType :: string
  vv_OriginalResolution :: string
  vv_TranscodingProgress :: int
  vv_AvailableQualities :: "string list"
  vv_HLSReady :: bool
  vv_StreamingProtocol :: string
  vv_Category :: string
  vv_Tags :: "string list"
  vv_Language :: string
  vv_ViewCount :: int
  vv_LikeCount :: int
  vv_CommentCount :: int
  vv_CreatedAt :: time
  vv_UpdatedAt :: time
  vv_ProcessedAt :: "time option"
  vv_ThumbnailURL :: string
  vv_HLSURL :: string

definition MarshalJSON :: "uuid_text \<Rightarrow> Video \<Rightarrow> VideoView" where
  "MarshalJSON str v = \<lparr> vv_ID = v_ID v, vv_UserID = v_UserID v, vv_Title = v_Title v,
     vv_Description = v_Description v, vv_Filename = v_Filename v, vv_FileSize = v_FileSize v,
     vv_Duration = v_Duration v, vv_Status = v_Status v, vv_Visibility = v_Visibility v,
     vv_MimeType = v_MimeType v, vv_OriginalResolution = v_OriginalResolution v,
     vv_TranscodingProgress = v_TranscodingProgress v, vv_AvailableQualities = v_AvailableQualities v,
     vv_HLSReady = v_HLSReady v, vv_StreamingProtocol = v_StreamingProtocol v,
     vv_Category = v_Category v, vv_Tags = v_Tags v, vv_Language = v_Language v,
     vv_ViewCount = v_ViewCount v, vv_LikeCount = v_LikeCount v, vv_CommentCount = v_CommentCount v,
     vv_CreatedAt = v_CreatedAt v, vv_UpdatedAt = v_UpdatedAt v, vv_ProcessedAt = v_ProcessedAt v,
     vv_ThumbnailURL = (case v_ThumbnailPath v of
        Some p \<Rightarrow> if p \<noteq> '''' then VideoThumbnailURL str (v_ID v) else '''' | None \<Rightarrow> ''''),
     vv_HLSURL = (if v_HLSReady v then VideoHLSURL str (v_ID v) else '''') \<rparr>"

definition IsOwnedBy :: "Video \<Rightarrow> uuid \<Rightarrow> bool" where
  "IsOwnedBy v userID = (v_UserID v = Some userID)"

definition IsPubliclyVisible :: "Video \<Rightarrow> bool" where
  "IsPubliclyVisible v = (v_Visibility v = VisibilityPublic \<and> v_Status v = VideoStatusReady)"

definition Video_Validate :: "Video \<Rightarrow> err option" where
  "Video_Validate v =
     (if v_Title v = '''' then Some ErrInvalidTitle
      else if length (v_Title v) > 255 then Some ErrTitleTooLong
      else if v_FileSize v \<le> 0 then Some ErrInvalidFileSize
      else if v_FileSize v > 10 * 1024 * 1024 * 1024 then Some ErrFileSizeTooLarge
      else if v_Filename v = '''' then Some ErrInvalidFilename
      else if v_MimeType v = '''' then Some ErrInvalidMimeType
      else None)"

definition NewVideo ::
  "uuid \<Rightarrow> time \<Rightarrow> time \<Rightarrow> string \<Rightarrow> string \<Rightarrow> string \<Rightarrow> string \<Rightarrow> string \<Rightarrow> int \<Rightarrow> err + Video" where
  "NewVideo new_id t1 t2 title description filename filePath mimeType fileSize =
     (let video = \<lparr> v_ID = new_id, v_UserID = None, v_Title = title, v_Description = description,
          v_Filename = filename, v_FilePath = filePath, v_FileSize = fileSize, v_Duration = 0,
          v_Status = VideoStatusUploading, v_Visibility = VisibilityPublic, v_MimeType = mimeType,
          v_OriginalResolution = '''', v_TranscodingProgress = 0, v_AvailableQualities = [],
          v_HLSReady = False, v_StreamingProtocol = '''', v_ThumbnailPath = None,
          v_HLSMasterPath = None, v_Category = '''', v_Tags = [], v_Language = '''',
          v_ViewCount = 0, v_LikeCount = 0, v_CommentCount = 0,
          v_CreatedAt = t1, v_UpdatedAt = t2, v_ProcessedAt = None \<rparr>
      in case Video_Validate video of Some e \<Rightarrow> Inl e | None \<Rightarrow> Inr video)"

definition CanBeStreamed :: "Video \<Rightarrow> bool" where
  "CanBeStreamed v = (v_Status v = VideoStatusReady \<and> length (v_AvailableQualities v) > 0)"

definition Video_MarkAsProcessing :: "time \<Rightarrow> Video \<Rightarrow> Video" where
  "Video_MarkAsProcessing now v =
     v\<lparr> v_Status := VideoStatusProcessing, v_TranscodingProgress := 0, v_UpdatedAt := now \<rparr>"

definition Video_MarkAsReady :: "time \<Rightarrow> string list \<Rightarrow> string \<Rightarrow> Video \<Rightarrow> Video" where
  "Video_MarkAsReady now qualities thumbnailPath v =
     v\<lparr> v_Status := VideoStatusReady, v_AvailableQualities := qualities,
        v_ThumbnailPath := Some thumbnailPath, v_TranscodingProgress := 100,
        v_ProcessedAt := Some now, v_UpdatedAt := now \<rparr>"

definition Video_MarkAsFailed :: "time \<Rightarrow> Video \<Rightarrow> Video" where
  "Video_MarkAsFailed now v = v\<lparr> v_Status := VideoStatusFailed, v_UpdatedAt := now \<rparr>"

definition Video_UpdateProgress :: "time \<Rightarrow> int \<Rightarrow> Video \<Rightarrow> err + Video" where
  "Video_UpdateProgress now percent v =
     (if percent < 0 \<or> percent > 100 then Inl ErrInvalidProgress
      else Inr (v\<lparr> v_TranscodingProgress := percent, v_UpdatedAt := now \<rparr>))"

lemma NewVideo_fields:
  assumes "NewVideo i t1 t2 ti de fn fp mt sz = Inr v"
  shows "v_ID v = i" "v_UserID v = None" "v_Title v = ti" "v_FilePath v = fp" "v_FileSize v = sz"
    "v_Status v = VideoStatusUploading" "v_TranscodingProgress v = 0" "v_AvailableQualities v = []"
    "\<not> v_HLSReady v" "v_LikeCount v = 0" "v_CommentCount v = 0" "Video_Validate v = None"
    "v_ThumbnailPath v = None" "v_Filename v = fn" "v_MimeType v = mt" "v_Description v = de"
  using assms by (auto simp: NewVideo_def Let_def split: option.splits)

section \<open>Social entities (social.go)\<close>

record Subscription =
  s_ID :: uuid
  s_SubscriberID :: uuid
  s_CreatorID :: uuid
  s_NotifyUploads :: bool
  s_CreatedAt :: time

definition Subscription_Validate :: "Subscription \<Rightarrow> err option" where
  "Subscription_Validate s =
     (if s_SubscriberID s = Nil_uuid then Some ErrInvalidInput
      else if s_CreatorID s = Nil_uuid then Some ErrInvalidInput
      else if s_SubscriberID s = s_CreatorID s then Some ErrInvalidInput else None)"

record Like =
  l_ID :: uuid
  l_UserID :: uuid
  l_VideoID :: uuid
  l_IsLike :: bool
  l_CreatedAt :: time

definition Like_Validate :: "Like \<Rightarrow> err option" where
  "Like_Validate l = (if l_UserID l = Nil_uuid then Some ErrInvalidInput
     else if l_VideoID l = Nil_uuid then Some ErrInvalidInput else None)"

record Comment =
  c_ID :: uuid
  c_VideoID :: uuid
  c_UserID :: uuid
  c_ParentID :: "uuid option"
  c_Content :: string
  c_LikeCount :: int
  c_ReplyCount :: int
  c_Pinned :: bool
  c_EditedAt :: "time option"
  c_CreatedAt :: time
  c_UpdatedAt :: time
  c_DeletedAt :: "time option"
  c_Username :: string
  c_AvatarURL :: string

definition Comment_Validate :: "Comment \<Rightarrow> err option" where
  "Comment_Validate c = (if c_UserID c = Nil_uuid then Some ErrInvalidInput
     else if c_VideoID c = Nil_uuid then Some ErrInvalidInput
     else if length (c_Content c) = 0 then Some ErrInvalidInput
     else if length (c_Content c) > 10000 then Some ErrInvalidInput else None)"

record Playlist =
  p_ID :: uuid
  p_UserID :: uuid
  p_Title :: string
  p_Description :: string
  p_Visibility :: string
  p_VideoCount :: int
  p_CreatedAt :: time
  p_UpdatedAt :: time

definition Playlist_Validate :: "Playlist \<Rightarrow> err option" where
  "Playlist_Validate p = (if p_UserID p = Nil_uuid then Some ErrInvalidInput
     else if length (p_Title p) = 0 \<or> length (p_Title p) > 255 then Some ErrInvalidInput
     else if p_Visibility p \<notin> set [''public'', ''private'', ''unlisted''] then Some ErrInvalidInput
     else None)"

record PlaylistVideo =
  pv_ID :: uuid
  pv_PlaylistID :: uuid
  pv_VideoID :: uuid
  pv_Position :: int
  pv_AddedAt :: time

definition PlaylistVideo_Validate :: "PlaylistVideo \<Rightarrow> err option" where
  "PlaylistVideo_Validate pv = (if pv_PlaylistID pv = Nil_uuid then Some ErrInvalidInput
     else if pv_VideoID pv = Nil_uuid then Some ErrInvalidInput
     else if pv_Position pv < 0 then Some ErrInvalidInput else None)"

record WatchHistory =
  wh_ID :: uuid
  wh_UserID :: uuid
  wh_VideoID :: uuid
  wh_WatchedAt :: time
  wh_WatchDuration :: int
  wh_Completed :: bool
  wh_LastPosition :: int

definition WatchHistory_Validate :: "WatchHistory \<Rightarrow> err option" where
  "WatchHistory_Validate wh = (if wh_UserID wh = Nil_uuid then Some ErrInvalidInput
     else if wh_VideoID wh = Nil_uuid then Some ErrInvalidInput
     else if wh_WatchDuration wh < 0 then Some ErrInvalidInput
     else if wh_LastPosition wh < 0 then Some ErrInvalidInput else None)"

text \<open>A row of the table video_views (migration 5), and of audit_logs (domain/audit_log.go).\<close>

record ViewRow =
  vr_ID :: uuid
  vr_VideoID :: uuid
  vr_UserID :: "uuid option"
  vr_SessionID :: "string option"
  vr_IPAddress :: "string option"
  vr_UserAgent :: "string option"
  vr_Quality :: "string option"
  vr_DeviceType :: "string option"
  vr_Country :: "string option"
  vr_Source :: "string option"
  vr_WatchDuration :: int
  vr_WatchPercent :: rat
  vr_CreatedAt :: time

datatype audit_value = AuditText string | AuditID uuid | AuditDuration "duration option"

record AuditLog =
  al_ID :: uuid
  al_UserID :: "uuid option"
  al_Action :: string
  al_TargetType :: string
  al_TargetID :: "uuid option"
  al_IPAddress :: string
  al_UserAgent :: string
  al_Details :: "(string \<times> audit_value) list"
  al_CreatedAt :: time

definition NewAuditLog :: "uuid \<Rightarrow> time \<Rightarrow> uuid option \<Rightarrow> string \<Rightarrow> string \<Rightarrow> uuid option \<Rightarrow> string \<Rightarrow> string
    \<Rightarrow> (string \<times> audit_value) list \<Rightarrow> AuditLog" where
  "NewAuditLog i now userID action targetType targetID ipAddress userAgent details =
     \<lparr> al_ID = i, al_UserID = userID, al_Action = action, al_TargetType = targetType, al_TargetID = targetID,
       al_IPAddress = ipAddress, al_UserAgent = userAgent, al_Details = details, al_CreatedAt = now \<rparr>"

record WatchLater =
  wl_ID :: uuid
  wl_UserID :: uuid
  wl_VideoID :: uuid
  wl_AddedAt :: time

definition WatchLater_Validate :: "WatchLater \<Rightarrow> err option" where
  "WatchLater_Validate wl = (if wl_UserID wl = Nil_uuid then Some ErrInvalidInput
     else if wl_VideoID wl = Nil_uuid then Some ErrInvalidInput else None)"

datatype NotificationType = NotificationNewVideo | NotificationComment | NotificationReply
  | NotificationLike | NotificationSubscriber | NotificationMention | NotificationOther string

record Notification =
  n_ID :: uuid
  n_UserID :: uuid
  n_Type :: NotificationType
  n_Title :: string
  n_Message :: string
  n_ActionURL :: "string option"
  n_ActorID :: "uuid option"
  n_VideoID :: "uuid option"
  n_CommentID :: "uuid option"
  n_Read :: bool
  n_CreatedAt :: time

definition Notification_Validate :: "Notification \<Rightarrow> err option" where
  "Notification_Validate n = (if n_UserID n = Nil_uuid then Some ErrInvalidInput
     else if length (n_Title n) = 0 \<or> length (n_Title n) > 255 then Some ErrInvalidInput
     else if n_Type n \<notin> set [NotificationNewVideo, NotificationComment, NotificationReply,
            NotificationLike, NotificationSubscriber, NotificationMention] then Some ErrInvalidInput
     else None)"

section \<open>Reports (report.go)\<close>

datatype ReportType = ReportTypeSpam | ReportTypeHarassment | ReportTypeHateSpeech | ReportTypeViolence
  | ReportTypeCopyright | ReportTypeNudity | ReportTypeMisinformation | ReportTypeOther
  | ReportTypeUnknown string

definition ReportType_IsValid :: "ReportType \<Rightarrow> bool" where
  "ReportType_IsValid rt = (case rt of ReportTypeUnknown _ \<Rightarrow> False | _ \<Rightarrow> True)"

datatype ReportStatus = ReportStatusPending | ReportStatusReviewing | ReportStatusResolved
  | ReportStatusDismissed | ReportStatusUnknown string

definition ReportStatus_IsValid :: "ReportStatus \<Rightarrow> bool" where
  "ReportStatus_IsValid rs = (case rs of ReportStatusUnknown _ \<Rightarrow> False | _ \<Rightarrow> True)"

record ContentReport =
  r_ID :: uuid
  r_VideoID :: "uuid option"
  r_UserID :: "uuid option"
  r_CommentID :: "uuid option"
  r_ReporterID :: uuid
  r_ReportType :: ReportType
  r_Reason :: string
  r_Description :: string
  r_Status :: ReportStatus
  r_ReviewedBy :: "uuid option"
  r_ReviewedAt :: "time option"
  r_Action :: "string option"
  r_CreatedAt :: time
  r_UpdatedAt :: time

definition ContentReport_Validate :: "ContentReport \<Rightarrow> err option" where
  "ContentReport_Validate r =
     (if \<not> ReportType_IsValid (r_ReportType r) then Some ErrInvalidReportType
      else if r_VideoID r = None \<and> r_UserID r = None \<and> r_CommentID r = None then Some ErrMissingReportTarget
      else if r_Reason r = '''' then Some ErrMissingReportReason
      else None)"

definition NewContentReport ::
  "uuid \<Rightarrow> time \<Rightarrow> time \<Rightarrow> uuid \<Rightarrow> ReportType \<Rightarrow> string \<Rightarrow> string \<Rightarrow> err + ContentReport" where
  "NewContentReport new_id t1 t2 reporterID reportType reason description =
     (let report = \<lparr> r_ID = new_id, r_VideoID = None, r_UserID = None, r_CommentID = None,
          r_ReporterID = reporterID, r_ReportType = reportType, r_Reason = reason,
          r_Description = description, r_Status = ReportStatusPending, r_ReviewedBy = None,
          r_ReviewedAt = None, r_Action = None, r_CreatedAt = t1, r_UpdatedAt = t2 \<rparr>
      in case ContentReport_Validate report of Some e \<Rightarrow> Inl e | None \<Rightarrow> Inr report)"

definition MarkAsReviewing :: "time \<Rightarrow> uuid \<Rightarrow> ContentReport \<Rightarrow> ContentReport" where
  "MarkAsReviewing now moderatorID r =
     r\<lparr> r_Status := ReportStatusReviewing, r_ReviewedBy := Some moderatorID, r_UpdatedAt := now \<rparr>"

definition Resolve :: "time \<Rightarrow> uuid \<Rightarrow> string \<Rightarrow> ContentReport \<Rightarrow> ContentReport" where
  "Resolve now moderatorID action r =
     r\<lparr> r_Status := ReportStatusResolved, r_ReviewedBy := Some moderatorID, r_ReviewedAt := Some now,
        r_Action := Some action, r_UpdatedAt := now \<rparr>"

definition Dismiss :: "time \<Rightarrow> uuid \<Rightarrow> ContentReport \<Rightarrow> ContentReport" where
  "Dismiss now moderatorID r =
     r\<lparr> r_Status := ReportStatusDismissed, r_ReviewedBy := Some moderatorID, r_ReviewedAt := Some now,
        r_UpdatedAt := now \<rparr>"

section \<open>Search queries (search.go)\<close>

datatype DurationFilter = DurationShort | DurationMedium | DurationLong | DurationOther string

datatype DateFilter = DateToday | DateWeek | DateMonth | DateYear | DateOther string

record SearchFilters =
  sf_Duration :: "DurationFilter option"
  sf_UploadDate :: "DateFilter option"
  sf_Quality :: "string list"
  sf_Categories :: "string list"
  sf_Tags :: "string list"
  sf_MinDuration :: "int option"
  sf_MaxDuration :: "int option"
  sf_MinViews :: "int option"
  sf_MaxViews :: "int option"
  sf_OnlyVerified :: bool
  sf_Language :: "string option"

record SearchQuery =
  sq_Query :: string
  sq_Filters :: SearchFilters
  sq_SortBy :: string
  sq_Page :: int
  sq_Limit :: int

text \<open>The method fills in defaults on its receiver before the last check.\<close>

definition SearchQuery_Validate :: "SearchQuery \<Rightarrow> err option \<times> SearchQuery" where
  "SearchQuery_Validate q0 =
     (if sq_Query q0 = '''' \<and> length (sf_Categories (sq_Filters q0)) = 0 \<and> length (sf_Tags (sq_Filters q0)) = 0
      then (Some ErrInvalidInput, q0)
      else
        let q1 = (if sq_Page q0 < 1 then q0\<lparr> sq_Page := 1 \<rparr> else q0);
            q2 = (if sq_Limit q1 < 1 \<or> sq_Limit q1 > 100 then q1\<lparr> sq_Limit := 20 \<rparr> else q1);
            q3 = (if sq_SortBy q2 = '''' then q2\<lparr> sq_SortBy := ''relevance'' \<rparr> else q2)
        in if sq_SortBy q3 \<notin> set [''relevance'', ''newest'', ''views'', ''likes'']
           then (Some ErrInvalidInput, q3) else (None, q3))"

definition ToSeconds :: "DurationFilter \<Rightarrow> int \<times> int" where
  "ToSeconds df = (case df of DurationShort \<Rightarrow> (0, 240) | DurationMedium \<Rightarrow> (240, 1200)
     | DurationLong \<Rightarrow> (1200, 999999) | DurationOther _ \<Rightarrow> (0, 999999))"

end
