(* ===== verification/World.thy ===== *)
theory World
  imports Entities
begin

text \<open>
  The world the service runs in and the primitive effects.

  \<^verbatim>\<open>db\<close> holds the tables of the migrations, each a list of rows of the Go type the repository
  scans them into.  \<^verbatim>\<open>env\<close> is everything the code observes but does not decide, indexed by the
  number of the observation: the clock, fresh UUIDs, the result of an ffprobe or ffmpeg run, and
  for each call of an external system whether it was \<^verbatim>\<open>Done\<close>, \<^verbatim>\<open>Refused\<close> (an error, nothing
  applied) or \<^verbatim>\<open>Lost\<close> (applied, but the caller sees an error: a timeout after commit).  A
  property quantified over the world therefore quantifies over every schedule of failures.
  \<^verbatim>\<open>w_jobs\<close> are the enqueued transcoding tasks, \<^verbatim>\<open>w_objects\<close> the keys present in the object
  store, \<^verbatim>\<open>w_files\<close> the text files the transcoder writes, \<^verbatim>\<open>w_commands\<close> the argument lists of the
  ffmpeg runs in order.  \<^verbatim>\<open>walk_at\<close> is what a directory walk finds, \<^verbatim>\<open>read_at\<close> what reading an
  opened object yields, \<^verbatim>\<open>rand_at\<close> what \<^verbatim>\<open>crypto/rand\<close> yields.  \<^verbatim>\<open>w_redis\<close> and \<^verbatim>\<open>w_zsets\<close> are the
  strings and sorted sets of Redis, \<^verbatim>\<open>w_local\<close> the items of the in-process cache, \<^verbatim>\<open>w_mail\<close> the
  messages sent.
\<close>

section \<open>State\<close>

record db =
  db_videos :: "Video list"
  db_users :: "User list"
  db_subscriber_count :: "uuid \<Rightarrow> int"   \<comment> \<open>the users column that no Go struct carries\<close>
  db_reports :: "ContentReport list"
  db_likes :: "Like list"
  db_comments :: "Comment list"
  db_subscriptions :: "Subscription list"
  db_playlists :: "Playlist list"
  db_playlist_videos :: "PlaylistVideo list"
  db_watch_history :: "WatchHistory list"
  db_watch_later :: "WatchLater list"
  db_notifications :: "Notification list"
  db_video_views :: "ViewRow list"
  db_audit_logs :: "AuditLog list"

definition empty_db :: db where
  "empty_db = \<lparr> db_videos = [], db_users = [], db_subscriber_count = (\<lambda>_. 0), db_reports = [],
     db_likes = [], db_comments = [], db_subscriptions = [], db_playlists = [],
     db_playlist_videos = [], db_watch_history = [], db_watch_later = [], db_notifications = [],
     db_video_views = [], db_audit_logs = [] \<rparr>"

datatype outcome = Done | Refused | Lost

text \<open>What ffprobe reports; the duration is a float64 in the code.\<close>

record VideoMetadata =
  md_Duration :: rat
  md_Width :: int
  md_Height :: int

record env =
  outcome_at :: "nat \<Rightarrow> outcome"
  clock_at :: "nat \<Rightarrow> time"
  uuid_at :: "nat \<Rightarrow> uuid"
  probe_at :: "nat \<Rightarrow> VideoMetadata option"
  exec_at :: "nat \<Rightarrow> bool"
  walk_at :: "nat \<Rightarrow> string list"
  count_at :: "nat \<Rightarrow> nat"
  read_at :: "nat \<Rightarrow> string option"
  rand_at :: "nat \<Rightarrow> string option"

record job =
  job_VideoID :: uuid
  job_Priority :: int
  job_Queue :: string

text \<open>An entry of the in-process cache, and a message handed to the mailer.\<close>

record cacheItem =
  ci_key :: string
  ci_value :: string
  ci_expiresAt :: time

record mail =
  ml_To :: string
  ml_Subject :: string
  ml_TextBody :: string
  ml_HTMLBody :: string

record world =
  w_env :: env
  w_tick :: nat
  w_db :: db
  w_jobs :: "job list"
  w_objects :: "string list"
  w_files :: "string \<Rightarrow> string option"
  w_commands :: "string list list"
  w_redis :: "string \<Rightarrow> (string \<times> time option) option"
  w_zsets :: "string \<Rightarrow> (string \<times> int) list"
  w_local :: "cacheItem list"
  w_mail :: "mail list"

type_synonym 'a prog = "(world, 'a) state"

section \<open>Observations\<close>

definition observe :: "(env \<Rightarrow> nat \<Rightarrow> 'a) \<Rightarrow> 'a prog" where
  "observe f = State (\<lambda>w. (f (w_env w) (w_tick w), w\<lparr> w_tick := Suc (w_tick w) \<rparr>))"

definition time_Now :: "time prog" where "time_Now = observe clock_at"
definition uuid_New :: "uuid prog" where "uuid_New = observe uuid_at"

text \<open>A process or system call of the worker that only succeeds or fails.\<close>

definition run_exec :: "bool prog" where "run_exec = observe exec_at"

text \<open>A run of ffmpeg with the given arguments.\<close>

definition run_command :: "string list \<Rightarrow> bool prog" where
  "run_command args = State (\<lambda>w. (exec_at (w_env w) (w_tick w),
     w\<lparr> w_tick := Suc (w_tick w), w_commands := w_commands w @ [args] \<rparr>))"

section \<open>Statements of the database\<close>

text \<open>
  A statement is given the database clock (\<^verbatim>\<open>NOW()\<close>) and the tables; it may be rejected by a
  constraint (\<^verbatim>\<open>Inl\<close>) or yield a result and the new tables.
\<close>

definition run_stmt :: "string \<Rightarrow> (time \<Rightarrow> db \<Rightarrow> err + 'a \<times> db) \<Rightarrow> (err + 'a) prog" where
  "run_stmt msg stmt = State (\<lambda>w.
     let n = w_tick w; w' = w\<lparr> w_tick := Suc n \<rparr> in
     case outcome_at (w_env w) n of
       Refused \<Rightarrow> (Inl (ErrOther msg), w')
     | Done \<Rightarrow> (case stmt (clock_at (w_env w) n) (w_db w) of
           Inl e \<Rightarrow> (Inl e, w') | Inr (x, d) \<Rightarrow> (Inr x, w'\<lparr> w_db := d \<rparr>))
     | Lost \<Rightarrow> (case stmt (clock_at (w_env w) n) (w_db w) of
           Inl e \<Rightarrow> (Inl e, w') | Inr (x, d) \<Rightarrow> (Inl (ErrOther msg), w'\<lparr> w_db := d \<rparr>)))"

definition run_query :: "string \<Rightarrow> (db \<Rightarrow> 'a) \<Rightarrow> (err + 'a) prog" where
  "run_query msg q = State (\<lambda>w.
     let n = w_tick w; w' = w\<lparr> w_tick := Suc n \<rparr> in
     case outcome_at (w_env w) n of Done \<Rightarrow> (Inr (q (w_db w)), w') | _ \<Rightarrow> (Inl (ErrOther msg), w'))"

section \<open>Queue and object store\<close>

text \<open>\<^verbatim>\<open>run_put\<close> applies a change of the world outside the database under the same outcomes.\<close>

definition run_put :: "string \<Rightarrow> (time \<Rightarrow> world \<Rightarrow> world) \<Rightarrow> (err + unit) prog" where
  "run_put msg f = State (\<lambda>w.
     let n = w_tick w; t = clock_at (w_env w) n; w' = w\<lparr> w_tick := Suc n \<rparr> in
     case outcome_at (w_env w) n of
       Refused \<Rightarrow> (Inl (ErrOther msg), w') | Done \<Rightarrow> (Inr (), f t w') | Lost \<Rightarrow> (Inl (ErrOther msg), f t w'))"

text \<open>
  Redis as a key-value store with expiry: \<^verbatim>\<open>SET key value PX ttl\<close> (go-redis sends whole
  milliseconds, at least one; a ttl of zero means no expiry), \<^verbatim>\<open>MGET\<close>, \<^verbatim>\<open>DEL\<close>.
\<close>

definition redis_live :: "time \<Rightarrow> (string \<times> time option) option \<Rightarrow> string option" where
  "redis_live t e = (case e of None \<Rightarrow> None | Some (v, None) \<Rightarrow> Some v
     | Some (v, Some x) \<Rightarrow> if t < x then Some v else None)"

definition redis_expiry :: "time \<Rightarrow> duration \<Rightarrow> time option" where
  "redis_expiry t ttl = (if ttl \<le> 0 then None else Some (t + max 1 (ttl div 1000000) * 1000000))"

definition redis_Set :: "string \<Rightarrow> string \<Rightarrow> duration \<Rightarrow> (err + unit) prog" where
  "redis_Set key v ttl = run_put ''redis SET''
     (\<lambda>t w. w\<lparr> w_redis := (w_redis w)(key := Some (v, redis_expiry t ttl)) \<rparr>)"

definition redis_Del :: "string \<Rightarrow> (err + unit) prog" where
  "redis_Del key = run_put ''redis DEL'' (\<lambda>t w. w\<lparr> w_redis := (w_redis w)(key := None) \<rparr>)"

definition redis_MGet :: "string list \<Rightarrow> (err + string option list) prog" where
  "redis_MGet keys = State (\<lambda>w. let n = w_tick w; w' = w\<lparr> w_tick := Suc n \<rparr> in
     if outcome_at (w_env w) n = Done
     then (Inr (map (\<lambda>k. redis_live (clock_at (w_env w) n) (w_redis w k)) keys), w')
     else (Inl (ErrOther ''redis MGET''), w'))"

definition redis_Get :: "string \<Rightarrow> (err + string option) prog" where
  "redis_Get key = State (\<lambda>w. let n = w_tick w; w' = w\<lparr> w_tick := Suc n \<rparr> in
     if outcome_at (w_env w) n = Done then (Inr (redis_live (clock_at (w_env w) n) (w_redis w key)), w')
     else (Inl (ErrOther ''redis GET''), w'))"

text \<open>\<^verbatim>\<open>SET key value PX ttl NX\<close>, which says whether it set.\<close>

definition redis_SetNX :: "string \<Rightarrow> string \<Rightarrow> duration \<Rightarrow> (err + bool) prog" where
  "redis_SetNX key v ttl = State (\<lambda>w.
     let n = w_tick w; t = clock_at (w_env w) n; w' = w\<lparr> w_tick := Suc n \<rparr>;
         fresh = (redis_live t (w_redis w key) = None);
         w2 = (if fresh then w'\<lparr> w_redis := (w_redis w)(key := Some (v, redis_expiry t ttl)) \<rparr> else w')
     in case outcome_at (w_env w) n of
          Refused \<Rightarrow> (Inl (ErrOther ''redis SET NX''), w') | Done \<Rightarrow> (Inr fresh, w2) | Lost \<Rightarrow> (Inl (ErrOther ''redis SET NX''), w2))"

text \<open>Counters: \<^verbatim>\<open>INCR\<close> and \<^verbatim>\<open>DECR\<close> of a decimal string (an absent key counts as zero, an expiry stays), and
  \<^verbatim>\<open>EXPIRE\<close> in whole seconds as go-redis sends it (a positive duration below one second is one second,
  a lifetime that is not positive removes the key).\<close>

definition redis_counter :: "time \<Rightarrow> (string \<times> time option) option \<Rightarrow> int option" where
  "redis_counter t e = (case redis_live t e of None \<Rightarrow> Some 0 | Some s \<Rightarrow> Atoi s)"

definition redis_add :: "int \<Rightarrow> string \<Rightarrow> (err + int) prog" where
  "redis_add d key = State (\<lambda>w.
     let n = w_tick w; t = clock_at (w_env w) n; w' = w\<lparr> w_tick := Suc n \<rparr>; e = w_redis w key in
     case redis_counter t e of
       None \<Rightarrow> (Inl (ErrOther ''redis INCR''), w')
     | Some c \<Rightarrow>
         if c + d < - (2 ^ 63) \<or> c + d \<ge> 2 ^ 63 then (Inl (ErrOther ''redis INCR''), w')
         else let x = (if redis_live t e = None then None else map_option snd e);
                  w2 = w'\<lparr> w_redis := (w_redis w)(key := Some (Itoa (c + d), case x of None \<Rightarrow> None | Some y \<Rightarrow> y)) \<rparr>
              in case outcome_at (w_env w) n of
                   Refused \<Rightarrow> (Inl (ErrOther ''redis INCR''), w') | Done \<Rightarrow> (Inr (c + d), w2)
                 | Lost \<Rightarrow> (Inl (ErrOther ''redis INCR''), w2))"

definition redis_Incr :: "string \<Rightarrow> (err + int) prog" where "redis_Incr key = redis_add 1 key"
definition redis_Decr :: "string \<Rightarrow> (err + int) prog" where "redis_Decr key = redis_add (- 1) key"

definition expire_seconds :: "duration \<Rightarrow> int" where
  "expire_seconds d = (if 0 < d \<and> d < Second then 1 else if d \<le> 0 then 0 else d div Second)"

definition redis_Expire :: "string \<Rightarrow> duration \<Rightarrow> (err + unit) prog" where
  "redis_Expire key d = run_put ''redis EXPIRE'' (\<lambda>t w. case redis_live t (w_redis w key) of
       None \<Rightarrow> w
     | Some v \<Rightarrow> w\<lparr> w_redis := (w_redis w)(key := (if expire_seconds d \<le> 0 then None
           else Some (v, Some (t + expire_seconds d * Second)))) \<rparr>)"

section \<open>Rules\<close>

lemma wp_observe [wp_simps]:
  "wp (observe f) Q = (\<lambda>w. Q (f (w_env w) (w_tick w)) (w\<lparr> w_tick := Suc (w_tick w) \<rparr>))"
  by (rule ext) (simp add: observe_def wp_State)

lemma wp_time_Now [wp_simps]:
  "wp time_Now Q = (\<lambda>w. Q (clock_at (w_env w) (w_tick w)) (w\<lparr> w_tick := Suc (w_tick w) \<rparr>))"
  by (rule ext) (simp add: time_Now_def wp_observe)

lemma wp_uuid_New [wp_simps]:
  "wp uuid_New Q = (\<lambda>w. Q (uuid_at (w_env w) (w_tick w)) (w\<lparr> w_tick := Suc (w_tick w) \<rparr>))"
  by (rule ext) (simp add: uuid_New_def wp_observe)

lemma wp_run_exec [wp_simps]:
  "wp run_exec Q = (\<lambda>w. Q (exec_at (w_env w) (w_tick w)) (w\<lparr> w_tick := Suc (w_tick w) \<rparr>))"
  by (rule ext) (simp add: run_exec_def wp_observe)

lemma wp_run_command [wp_simps]:
  "wp (run_command args) Q = (\<lambda>w. Q (exec_at (w_env w) (w_tick w))
     (w\<lparr> w_tick := Suc (w_tick w), w_commands := w_commands w @ [args] \<rparr>))"
  by (rule ext) (simp add: run_command_def wp_State)

lemma wp_run_query [wp_simps]:
  "wp (run_query msg q) Q = (\<lambda>w.
     (if outcome_at (w_env w) (w_tick w) = Done then Q (Inr (q (w_db w))) (w\<lparr> w_tick := Suc (w_tick w) \<rparr>)
      else Q (Inl (ErrOther msg)) (w\<lparr> w_tick := Suc (w_tick w) \<rparr>)))"
  by (rule ext) (simp add: run_query_def wp_State Let_def split: outcome.splits)

lemma wp_run_stmt:
  "wp (run_stmt msg stmt) Q = (\<lambda>w.
     (case outcome_at (w_env w) (w_tick w) of
       Refused \<Rightarrow> Q (Inl (ErrOther msg)) (w\<lparr> w_tick := Suc (w_tick w) \<rparr>)
     | Done \<Rightarrow> (case stmt (clock_at (w_env w) (w_tick w)) (w_db w) of
           Inl e \<Rightarrow> Q (Inl e) (w\<lparr> w_tick := Suc (w_tick w) \<rparr>)
         | Inr (x, d) \<Rightarrow> Q (Inr x) (w\<lparr> w_tick := Suc (w_tick w), w_db := d \<rparr>))
     | Lost \<Rightarrow> (case stmt (clock_at (w_env w) (w_tick w)) (w_db w) of
           Inl e \<Rightarrow> Q (Inl e) (w\<lparr> w_tick := Suc (w_tick w) \<rparr>)
         | Inr (x, d) \<Rightarrow> Q (Inl (ErrOther msg)) (w\<lparr> w_tick := Suc (w_tick w), w_db := d \<rparr>))))"
  by (rule ext) (simp add: run_stmt_def wp_State Let_def split: outcome.splits sum.splits prod.splits)

text \<open>A rule with one goal per outcome, for statements whose effect is summarised.\<close>

lemma wp_run_stmtI:
  assumes "\<And>t. Q (Inl (ErrOther msg)) (w\<lparr> w_tick := Suc (w_tick w) \<rparr>)"
    and "\<And>t e. stmt t (w_db w) = Inl e \<Longrightarrow> Q (Inl e) (w\<lparr> w_tick := Suc (w_tick w) \<rparr>)"
    and "\<And>t x d. stmt t (w_db w) = Inr (x, d) \<Longrightarrow> Q (Inr x) (w\<lparr> w_tick := Suc (w_tick w), w_db := d \<rparr>)"
    and "\<And>t x d. stmt t (w_db w) = Inr (x, d) \<Longrightarrow> Q (Inl (ErrOther msg)) (w\<lparr> w_tick := Suc (w_tick w), w_db := d \<rparr>)"
  shows "wp (run_stmt msg stmt) Q w"
  using assms by (auto simp: wp_run_stmt split: outcome.splits sum.splits prod.splits)

lemma wp_run_put [wp_simps]:
  "wp (run_put msg f) Q = (\<lambda>w.
     (case outcome_at (w_env w) (w_tick w) of
       Refused \<Rightarrow> Q (Inl (ErrOther msg)) (w\<lparr> w_tick := Suc (w_tick w) \<rparr>)
     | Done \<Rightarrow> Q (Inr ()) (f (clock_at (w_env w) (w_tick w)) (w\<lparr> w_tick := Suc (w_tick w) \<rparr>))
     | Lost \<Rightarrow> Q (Inl (ErrOther msg)) (f (clock_at (w_env w) (w_tick w)) (w\<lparr> w_tick := Suc (w_tick w) \<rparr>))))"
  by (rule ext) (simp add: run_put_def wp_State Let_def split: outcome.splits)

subsection \<open>Effects and relations on the tables\<close>

definition on_db :: "(db \<Rightarrow> db \<Rightarrow> bool) \<Rightarrow> world \<Rightarrow> world \<Rightarrow> bool" where
  "on_db r w w' = r (w_db w) (w_db w')"

lemma preorder_on_db [simp]: "preorder r \<Longrightarrow> preorder (on_db r)"
  by (auto simp: preorder_def on_db_def)

lemma preorder_refl: "preorder R \<Longrightarrow> R s s"
  by (simp add: preorder_def)

lemma preorder_trans: "preorder R \<Longrightarrow> R s t \<Longrightarrow> R t u \<Longrightarrow> R s u"
  unfolding preorder_def by blast

lemma steps_observe [steps_intros]: "preorder r \<Longrightarrow> steps (on_db r) (observe f)"
  by (simp add: steps_def observe_def on_db_def preorder_refl)

lemma steps_time_Now [steps_intros]: "preorder r \<Longrightarrow> steps (on_db r) time_Now"
  by (simp add: time_Now_def steps_observe)

lemma steps_uuid_New [steps_intros]: "preorder r \<Longrightarrow> steps (on_db r) uuid_New"
  by (simp add: uuid_New_def steps_observe)

lemma steps_run_exec [steps_intros]: "preorder r \<Longrightarrow> steps (on_db r) run_exec"
  by (simp add: run_exec_def steps_observe)

lemma steps_run_command [steps_intros]: "preorder r \<Longrightarrow> steps (on_db r) (run_command args)"
  by (simp add: steps_def run_command_def on_db_def preorder_refl)

lemma steps_run_query [steps_intros]: "preorder r \<Longrightarrow> steps (on_db r) (run_query msg q)"
  by (auto simp: steps_def run_query_def on_db_def preorder_refl Let_def split: outcome.splits)

lemma steps_run_stmt:
  assumes "preorder r" "\<And>t d x d'. stmt t d = Inr (x, d') \<Longrightarrow> r d d'"
  shows "steps (on_db r) (run_stmt msg stmt)"
  using assms
  by (auto simp: steps_def run_stmt_def on_db_def preorder_refl Let_def
      split: outcome.splits sum.splits prod.splits)

lemma wp_redis_MGet [wp_simps]:
  "wp (redis_MGet keys) Q = (\<lambda>w.
     (if outcome_at (w_env w) (w_tick w) = Done
      then Q (Inr (map (\<lambda>k. redis_live (clock_at (w_env w) (w_tick w)) (w_redis w k)) keys)) (w\<lparr> w_tick := Suc (w_tick w) \<rparr>)
      else Q (Inl (ErrOther ''redis MGET'')) (w\<lparr> w_tick := Suc (w_tick w) \<rparr>)))"
  by (rule ext) (simp add: redis_MGet_def wp_State Let_def)

lemma steps_redis_MGet [steps_intros]: "preorder r \<Longrightarrow> steps (on_db r) (redis_MGet keys)"
  by (auto simp: steps_def redis_MGet_def on_db_def preorder_refl Let_def)

lemma wp_redis_Get [wp_simps]:
  "wp (redis_Get key) Q = (\<lambda>w.
     (if outcome_at (w_env w) (w_tick w) = Done
      then Q (Inr (redis_live (clock_at (w_env w) (w_tick w)) (w_redis w key))) (w\<lparr> w_tick := Suc (w_tick w) \<rparr>)
      else Q (Inl (ErrOther ''redis GET'')) (w\<lparr> w_tick := Suc (w_tick w) \<rparr>)))"
  by (rule ext) (simp add: redis_Get_def wp_State Let_def)

lemma steps_redis_Get [steps_intros]: "preorder r \<Longrightarrow> steps (on_db r) (redis_Get key)"
  by (auto simp: steps_def redis_Get_def on_db_def preorder_refl Let_def)

lemma steps_redis_SetNX [steps_intros]: "preorder r \<Longrightarrow> steps (on_db r) (redis_SetNX key v ttl)"
  by (auto simp: steps_def redis_SetNX_def on_db_def preorder_refl Let_def split: outcome.splits)

lemma steps_redis_add [steps_intros]: "preorder r \<Longrightarrow> steps (on_db r) (redis_add d key)"
  by (auto simp: steps_def redis_add_def on_db_def preorder_refl Let_def split: outcome.splits option.splits)

lemma steps_run_put: "preorder r \<Longrightarrow> (\<And>t w. w_db (f t w) = w_db w) \<Longrightarrow> steps (on_db r) (run_put msg f)"
  by (auto simp: steps_def run_put_def on_db_def preorder_refl Let_def split: outcome.splits)

text \<open>Every program leaves the environment alone and only advances the tick.\<close>

definition same_env :: "world \<Rightarrow> world \<Rightarrow> bool" where
  "same_env w w' = (w_env w' = w_env w \<and> w_tick w \<le> w_tick w')"

lemma preorder_same_env [simp]: "preorder same_env"
  by (auto simp: preorder_def same_env_def)

section \<open>Statement shapes shared by the repositories\<close>

text \<open>An UPDATE or DELETE whose caller reports \<^verbatim>\<open>missing\<close> when \<^verbatim>\<open>RowsAffected() == 0\<close>.\<close>

definition rows_or :: "err \<Rightarrow> (err + nat) prog \<Rightarrow> (err + unit) prog" where
  "rows_or missing m = State_Monad.bind m (\<lambda>r. case r of
     Inl e \<Rightarrow> State_Monad.return (Inl e)
   | Inr n \<Rightarrow> State_Monad.return (if n = 0 then Inl missing else Inr ()))"

text \<open>A single-row SELECT whose caller reports \<^verbatim>\<open>missing\<close> on \<^verbatim>\<open>pgx.ErrNoRows\<close>.\<close>

definition row_or :: "err \<Rightarrow> string \<Rightarrow> (db \<Rightarrow> 'a option) \<Rightarrow> (err + 'a) prog" where
  "row_or missing msg q = State_Monad.bind (run_query msg q) (\<lambda>r. case r of
     Inl e \<Rightarrow> State_Monad.return (Inl e)
   | Inr None \<Rightarrow> State_Monad.return (Inl missing)
   | Inr (Some x) \<Rightarrow> State_Monad.return (Inr x))"

text \<open>A window of a result set: \<^verbatim>\<open>LIMIT l OFFSET o\<close>; PostgreSQL rejects a negative one.\<close>

record Page =
  Limit :: int
  Offset :: int

definition window :: "Page \<Rightarrow> 'r list \<Rightarrow> err + 'r list" where
  "window pg rows = (if Limit pg < 0 \<or> Offset pg < 0 then Inl (ErrOther ''LIMIT must not be negative'')
     else Inr (take (nat (Limit pg)) (drop (nat (Offset pg)) rows)))"

definition page_query :: "string \<Rightarrow> Page \<Rightarrow> (db \<Rightarrow> 'r list) \<Rightarrow> (err + 'r list) prog" where
  "page_query msg pg q = State_Monad.bind (run_query msg (\<lambda>d. window pg (q d))) (\<lambda>r. case r of
     Inl e \<Rightarrow> State_Monad.return (Inl e)
   | Inr (Inl e) \<Rightarrow> State_Monad.return (Inl e)
   | Inr (Inr rows) \<Rightarrow> State_Monad.return (Inr rows))"

lemma wp_row_or [wp_simps]:
  "wp (row_or missing msg q) Q = (\<lambda>w.
     (let w' = w\<lparr> w_tick := Suc (w_tick w) \<rparr> in
      if outcome_at (w_env w) (w_tick w) = Done
      then (case q (w_db w) of None \<Rightarrow> Q (Inl missing) w' | Some x \<Rightarrow> Q (Inr x) w')
      else Q (Inl (ErrOther msg)) w'))"
  by (rule ext) (simp add: row_or_def wp_simps Let_def split: option.splits)

lemma wp_page_query [wp_simps]:
  "wp (page_query msg pg q) Q = (\<lambda>w.
     (let w' = w\<lparr> w_tick := Suc (w_tick w) \<rparr> in
      if outcome_at (w_env w) (w_tick w) = Done
      then (case window pg (q (w_db w)) of Inl e \<Rightarrow> Q (Inl e) w' | Inr rows \<Rightarrow> Q (Inr rows) w')
      else Q (Inl (ErrOther msg)) w'))"
  by (rule ext) (simp add: page_query_def wp_simps Let_def split: sum.splits)

lemma steps_row_or [steps_intros]: "preorder r \<Longrightarrow> steps (on_db r) (row_or missing msg q)"
  unfolding row_or_def by (intro steps_intros preorder_on_db)

lemma steps_page_query [steps_intros]: "preorder r \<Longrightarrow> steps (on_db r) (page_query msg pg q)"
  unfolding page_query_def by (intro steps_intros preorder_on_db)

lemma steps_rows_or [steps_intros]:
  "preorder R \<Longrightarrow> steps R m \<Longrightarrow> steps R (rows_or missing m)"
  unfolding rows_or_def by (intro steps_intros)

section \<open>Early returns\<close>

text \<open>\<^verbatim>\<open>if err != nil { return err }\<close> in front of a continuation.\<close>

definition try_then :: "(err + 'a) prog \<Rightarrow> ('a \<Rightarrow> (err + 'b) prog) \<Rightarrow> (err + 'b) prog" where
  "try_then m f = State_Monad.bind m (\<lambda>r. case r of Inl e \<Rightarrow> State_Monad.return (Inl e) | Inr x \<Rightarrow> f x)"

definition check_valid :: "err option \<Rightarrow> (err + 'b) prog \<Rightarrow> (err + 'b) prog" where
  "check_valid v m = (case v of Some e \<Rightarrow> State_Monad.return (Inl e) | None \<Rightarrow> m)"

text \<open>A page of rows together with their total.\<close>

definition with_total :: "(err + 'a) prog \<Rightarrow> (err + nat) prog \<Rightarrow> (err + 'a \<times> nat) prog" where
  "with_total rows counting = try_then rows (\<lambda>xs. try_then counting (\<lambda>n. State_Monad.return (Inr (xs, n))))"

lemma wp_try_then [wp_simps]:
  "wp (try_then m f) Q = wp m (\<lambda>r w. case r of Inl e \<Rightarrow> Q (Inl e) w | Inr x \<Rightarrow> wp (f x) Q w)"
  unfolding try_then_def wp_bind by (rule arg_cong[where f = "wp m"]) (auto simp: fun_eq_iff wp_simps split: sum.splits)

lemma wp_check_valid [wp_simps]:
  "wp (check_valid v m) Q = (\<lambda>w. case v of Some e \<Rightarrow> Q (Inl e) w | None \<Rightarrow> wp m Q w)"
  by (rule ext) (simp add: check_valid_def wp_simps split: option.splits)

lemma steps_try_then [steps_intros]:
  "preorder R \<Longrightarrow> steps R m \<Longrightarrow> (\<And>x. steps R (f x)) \<Longrightarrow> steps R (try_then m f)"
  unfolding try_then_def by (intro steps_intros)

lemma steps_check_valid [steps_intros]: "preorder R \<Longrightarrow> steps R m \<Longrightarrow> steps R (check_valid v m)"
  unfolding check_valid_def by (intro steps_intros)

lemma steps_with_total [steps_intros]: "preorder R \<Longrightarrow> steps R a \<Longrightarrow> steps R b \<Longrightarrow> steps R (with_total a b)"
  unfolding with_total_def by (intro steps_intros)

end
