(* ===== verification/Http.thy ===== *)
theory Http
  imports World
begin

text \<open>
  The HTTP layer shared by the handlers: the request as gin presents it, the authenticated
  principal of \<^verbatim>\<open>pkg/appctx\<close>, the response envelope of \<^verbatim>\<open>pkg/response\<close>, and the page
  parameters of \<^verbatim>\<open>internal/handler/video_handler.go\<close> with the 64-bit arithmetic of Go's
  \<^verbatim>\<open>int\<close>.  A handler is a program that returns the response it wrote.
\<close>

section \<open>Requests and principals\<close>

record Principal =
  pr_UserID :: uuid
  pr_Username :: string
  pr_Role :: Role

definition Principal_HasPermission :: "Principal \<Rightarrow> Permission \<Rightarrow> bool" where
  "Principal_HasPermission p permission = HasPermission (pr_Role p) permission"

record request =
  rq_principal :: "Principal option"
  rq_param :: "string \<Rightarrow> string"
  rq_query :: "string \<Rightarrow> string option"

definition PrincipalFrom :: "request \<Rightarrow> Principal option" where
  "PrincipalFrom c = rq_principal c"

definition WithPrincipal :: "request \<Rightarrow> Principal \<Rightarrow> request" where
  "WithPrincipal c p = c\<lparr> rq_principal := Some p \<rparr>"

definition Query :: "request \<Rightarrow> string \<Rightarrow> string" where
  "Query c name = (case rq_query c name of None \<Rightarrow> '''' | Some s \<Rightarrow> s)"

definition DefaultQuery :: "request \<Rightarrow> string \<Rightarrow> string \<Rightarrow> string" where
  "DefaultQuery c name dflt = (case rq_query c name of None \<Rightarrow> dflt | Some s \<Rightarrow> s)"

text \<open>The UUID package is not part of the repository: parsing and printing are parameters.\<close>

record uuid_lib =
  uuid_Parse :: "string \<Rightarrow> uuid option"
  uuid_String :: "uuid \<Rightarrow> string"

definition ValidateUUID :: "uuid_lib \<Rightarrow> string \<Rightarrow> err + uuid" where
  "ValidateUUID lib s = (case uuid_Parse lib s of None \<Rightarrow> Inl V_ErrInvalidUUID | Some i \<Rightarrow> Inr i)"

section \<open>Responses (response.go)\<close>

text \<open>A message is a literal of the code or the text of an error.\<close>

datatype message = Lit string | ErrText err

record PaginationMeta =
  pm_Total :: int
  pm_Page :: int
  pm_Limit :: int
  pm_TotalPages :: int
  pm_HasNext :: bool
  pm_HasPrevious :: bool

datatype 'b response =
    Success nat 'b
  | SuccessWithList 'b PaginationMeta
  | Error nat string message
  | NoBody nat

definition BadRequest :: "string \<Rightarrow> 'b response" where
  "BadRequest m = Error 400 ''BAD_REQUEST'' (Lit m)"
definition NotFound :: "string \<Rightarrow> 'b response" where
  "NotFound m = Error 404 ''NOT_FOUND'' (Lit m)"
definition InternalError :: "string \<Rightarrow> 'b response" where
  "InternalError m = Error 500 ''INTERNAL_ERROR'' (Lit m)"
definition ValidationError :: "string \<Rightarrow> 'b response" where
  "ValidationError m = Error 400 ''VALIDATION_ERROR'' (Lit m)"
definition Unauthorized :: "string \<Rightarrow> 'b response" where
  "Unauthorized m = Error 401 ''UNAUTHORIZED'' (Lit m)"

lemmas response_defs = BadRequest_def NotFound_def InternalError_def ValidationError_def Unauthorized_def

primrec status_of :: "'b response \<Rightarrow> nat" where
  "status_of (Success s b) = s"
| "status_of (SuccessWithList b m) = 200"
| "status_of (Error s c m) = s"
| "status_of (NoBody s) = s"

text \<open>A middleware either answers the request or passes it on, with the principal attached.\<close>

datatype 'b passage = Answer "'b response" | Next request

section \<open>Page parameters\<close>

definition defaultPageLimit :: int where "defaultPageLimit = 20"
definition maxPageLimit :: int where "maxPageLimit = 100"

text \<open>The value of a Go \<^verbatim>\<open>int\<close> after wrap-around.\<close>

definition wrap64 :: "int \<Rightarrow> int" where
  "wrap64 i = sint (word_of_int i :: 64 word)"

definition parsePage :: "request \<Rightarrow> Page" where
  "parsePage c =
     (let page = (case Atoi (DefaultQuery c ''page'' ''1'') of None \<Rightarrow> 1 | Some p \<Rightarrow> if p < 1 then 1 else p);
          limit = (case Atoi (DefaultQuery c ''limit'' (Itoa defaultPageLimit)) of
                     None \<Rightarrow> defaultPageLimit | Some l \<Rightarrow> if l < 1 then defaultPageLimit else l);
          limit' = (if limit > maxPageLimit then maxPageLimit else limit)
      in \<lparr> Limit = limit', Offset = wrap64 (wrap64 (page - 1) * limit') \<rparr>)"

text \<open>Go's \<^verbatim>\<open>/\<close> truncates towards zero.\<close>

definition quot :: "int \<Rightarrow> int \<Rightarrow> int" where
  "quot a b = sgn a * sgn b * (\<bar>a\<bar> div \<bar>b\<bar>)"

definition paginationMeta :: "int \<Rightarrow> Page \<Rightarrow> PaginationMeta" where
  "paginationMeta rows page =
     (let currentPage = wrap64 (quot (Offset page) (Limit page) + 1);
          totalPages = quot (wrap64 (wrap64 (rows + Limit page) - 1)) (Limit page)
      in \<lparr> pm_Total = rows, pm_Page = currentPage, pm_Limit = Limit page, pm_TotalPages = totalPages,
           pm_HasNext = (currentPage < totalPages), pm_HasPrevious = (currentPage > 1) \<rparr>)"

lemma wrap64_id: "- (2 ^ 63) \<le> i \<Longrightarrow> i < 2 ^ 63 \<Longrightarrow> wrap64 i = i"
  by (simp add: wrap64_def int_word_sint)

lemma wrap64_range: "- (2 ^ 63) \<le> wrap64 i \<and> wrap64 i < 2 ^ 63"
  using sint_range_size[of "word_of_int i :: 64 word"] by (simp add: wrap64_def word_size)

lemma quot_nonneg: "0 \<le> a \<Longrightarrow> 0 < b \<Longrightarrow> quot a b = a div b"
  by (cases "a = 0") (simp_all add: quot_def)

lemma parsePage_limit: "1 \<le> Limit (parsePage c) \<and> Limit (parsePage c) \<le> 100"
  by (auto simp: parsePage_def Let_def defaultPageLimit_def maxPageLimit_def split: option.splits)

text \<open>The page a request asks for, before the multiplication.\<close>

definition requested_page :: "request \<Rightarrow> int" where
  "requested_page c = (case Atoi (DefaultQuery c ''page'' ''1'') of None \<Rightarrow> 1 | Some p \<Rightarrow> if p < 1 then 1 else p)"

lemma requested_page_range: "1 \<le> requested_page c \<and> requested_page c < 2 ^ 63"
proof (cases "Atoi (DefaultQuery c ''page'' ''1'')")
  case (Some i)
  then show ?thesis using Atoi_bounds[OF Some] by (auto simp: requested_page_def)
qed (simp add: requested_page_def)

lemma parsePage_offset:
  "Offset (parsePage c) = wrap64 ((requested_page c - 1) * Limit (parsePage c))"
proof -
  have "wrap64 (requested_page c - 1) = requested_page c - 1"
    using requested_page_range[of c] by (intro wrap64_id) auto
  then show ?thesis by (simp add: parsePage_def Let_def requested_page_def)
qed

lemma parsePage_offset_small:
  assumes "requested_page c \<le> 2 ^ 56"
  shows "Offset (parsePage c) = (requested_page c - 1) * Limit (parsePage c)"
proof -
  have "0 \<le> (requested_page c - 1) * Limit (parsePage c)"
    using requested_page_range[of c] parsePage_limit[of c] by simp
  moreover have "(requested_page c - 1) * Limit (parsePage c) \<le> 2 ^ 56 * 100"
    using requested_page_range[of c] parsePage_limit[of c] assms by (intro mult_mono) auto
  ultimately show ?thesis by (simp add: parsePage_offset wrap64_id)
qed

section \<open>Ends of handlers\<close>

text \<open>Binding the body: \<^verbatim>\<open>None\<close> when gin could not bind it.\<close>

definition bound :: "'a option \<Rightarrow> string \<Rightarrow> ('a \<Rightarrow> 'b response prog) \<Rightarrow> 'b response prog" where
  "bound body msg k = (case body of None \<Rightarrow> State_Monad.return (ValidationError msg) | Some x \<Rightarrow> k x)"

text \<open>The end of a handler: the service's error through the handler's switch, its value through the
  success response.\<close>

definition answer :: "(err + 'a) prog \<Rightarrow> (err \<Rightarrow> 'b response) \<Rightarrow> ('a \<Rightarrow> 'b response) \<Rightarrow> 'b response prog" where
  "answer m onErr onOk = State_Monad.bind m (\<lambda>r. State_Monad.return (case r of Inl e \<Rightarrow> onErr e | Inr x \<Rightarrow> onOk x))"

definition answer_page :: "(err + 'a \<times> nat) prog \<Rightarrow> Page \<Rightarrow> (err \<Rightarrow> 'b response) \<Rightarrow> ('a \<Rightarrow> 'b) \<Rightarrow> 'b response prog" where
  "answer_page m page onErr body = answer m onErr (\<lambda>(xs, n). SuccessWithList (body xs) (paginationMeta (int n) page))"

lemma wp_answer [wp_simps]:
  "wp (answer m onErr onOk) Q = wp m (\<lambda>r. Q (case r of Inl e \<Rightarrow> onErr e | Inr x \<Rightarrow> onOk x))"
  by (simp add: answer_def wp_bind wp_return)

lemma steps_answer [steps_intros]: "preorder R \<Longrightarrow> steps R m \<Longrightarrow> steps R (answer m onErr onOk)"
  unfolding answer_def by (intro steps_intros)

lemma steps_answer_page [steps_intros]: "preorder R \<Longrightarrow> steps R m \<Longrightarrow> steps R (answer_page m page onErr body)"
  unfolding answer_page_def by (intro steps_intros)

lemma steps_bound [steps_intros]: "preorder R \<Longrightarrow> (\<And>x. steps R (k x)) \<Longrightarrow> steps R (bound body msg k)"
  unfolding bound_def by (intro steps_intros)

section \<open>Guards of handlers (social_handler.go, moderation_handler.go)\<close>

definition requirePrincipal :: "request \<Rightarrow> (Principal \<Rightarrow> 'b response prog) \<Rightarrow> 'b response prog" where
  "requirePrincipal c k = (case PrincipalFrom c of
     None \<Rightarrow> State_Monad.return (Unauthorized ''Authentication required'') | Some p \<Rightarrow> k p)"

definition pathUUID :: "uuid_lib \<Rightarrow> request \<Rightarrow> string \<Rightarrow> string \<Rightarrow> (uuid \<Rightarrow> 'b response prog) \<Rightarrow> 'b response prog" where
  "pathUUID lib c param label k = (case ValidateUUID lib (rq_param c param) of
     Inl e \<Rightarrow> State_Monad.return (ValidationError (''Invalid '' @ label)) | Inr i \<Rightarrow> k i)"

definition viewerID :: "request \<Rightarrow> uuid option" where
  "viewerID c = map_option pr_UserID (PrincipalFrom c)"

text \<open>\<^verbatim>\<open>optionalUUID\<close> of moderation_handler.go: an empty field is absent, a malformed one answers 400.\<close>

definition optionalUUID :: "uuid_lib \<Rightarrow> string \<Rightarrow> string \<Rightarrow> (uuid option \<Rightarrow> 'b response prog) \<Rightarrow> 'b response prog" where
  "optionalUUID lib raw field k = (let s = TrimSpace raw in
     if s = '''' then k None
     else case ValidateUUID lib s of Inl e \<Rightarrow> State_Monad.return (ValidationError (''Invalid '' @ field)) | Inr i \<Rightarrow> k (Some i))"

definition forbidden :: "string \<Rightarrow> 'b response" where
  "forbidden m = Error 403 ''FORBIDDEN'' (Lit m)"

lemma steps_requirePrincipal [steps_intros]:
  "preorder R \<Longrightarrow> (\<And>p. PrincipalFrom c = Some p \<Longrightarrow> steps R (k p)) \<Longrightarrow> steps R (requirePrincipal c k)"
  unfolding requirePrincipal_def by (intro steps_intros)

lemma steps_pathUUID [steps_intros]: "preorder R \<Longrightarrow> (\<And>i. steps R (k i)) \<Longrightarrow> steps R (pathUUID lib c param label k)"
  unfolding pathUUID_def by (intro steps_intros)

lemma steps_optionalUUID [steps_intros]: "preorder R \<Longrightarrow> (\<And>i. steps R (k i)) \<Longrightarrow> steps R (optionalUUID lib raw field k)"
  unfolding optionalUUID_def Let_def by (intro steps_intros)

end
