(* ===== verification/Storage.thy ===== *)
theory Storage
  imports World
begin

text \<open>
  The object store (\<^verbatim>\<open>internal/storage\<close>): key construction and validation, the local backend
  and the MinIO backend behind the Go interface \<^verbatim>\<open>Store\<close>, here a record of operations.  The
  locale \<^verbatim>\<open>object_store\<close> is the contract the services rely on; both backends interpret it.
  Objects are identified in \<^verbatim>\<open>w_objects\<close> by the path or by bucket and object name.
\<close>

record StorageConfig =
  UploadPath :: string
  MaxFileSize :: int
  ThumbnailPath :: string
  TranscodedPath :: string

record MinIOConfig =
  BucketRaw :: string
  BucketProcessed :: string
  BucketThumbs :: string

section \<open>Keys\<close>

definition Key :: "string list \<Rightarrow> string" where
  "Key segments = path_Join segments"

definition validateKey :: "string \<Rightarrow> err option" where
  "validateKey key =
     (if key = '''' \<or> HasPrefix key ''/'' \<or> ContainsAny key [CHR 0x5C, CHR '':''] then Some ErrStorageKeyInvalid
      else if list_ex (\<lambda>segment. segment = ''..'') (split_on CHR ''/'' key) then Some ErrStorageKeyInvalid
      else None)"

text \<open>\<^verbatim>\<open>strings.Cut(key, "/")\<close>.\<close>

definition Cut :: "string \<Rightarrow> string \<times> string" where
  "Cut key = (takeWhile (\<lambda>c. c \<noteq> CHR ''/'') key, drop 1 (dropWhile (\<lambda>c. c \<noteq> CHR ''/'') key))"

definition mounts :: "StorageConfig \<Rightarrow> string \<Rightarrow> string option" where
  "mounts cfg area = (if area = ''transcoded'' then Some (TranscodedPath cfg)
     else if area = ''thumbnails'' then Some (ThumbnailPath cfg) else None)"

definition resolve :: "StorageConfig \<Rightarrow> string \<Rightarrow> err + string" where
  "resolve cfg key = (case validateKey key of Some e \<Rightarrow> Inl e
     | None \<Rightarrow> let (area, rest) = Cut key in
         (case mounts cfg area of Some dir \<Rightarrow> Inr (path_Join [dir, rest])
          | None \<Rightarrow> Inr (path_Join [UploadPath cfg, key])))"

definition buckets :: "MinIOConfig \<Rightarrow> string \<Rightarrow> string option" where
  "buckets cfg area = (if area = ''raw'' then Some (BucketRaw cfg)
     else if area = ''transcoded'' then Some (BucketProcessed cfg)
     else if area = ''thumbnails'' then Some (BucketThumbs cfg) else None)"

definition locate :: "MinIOConfig \<Rightarrow> string \<Rightarrow> err + string \<times> string" where
  "locate cfg key = (case validateKey key of Some e \<Rightarrow> Inl e
     | None \<Rightarrow> let (area, rest) = Cut key in
         (case buckets cfg area of
            Some bucket \<Rightarrow> if rest = '''' then Inl ErrStorageKeyInvalid else Inr (bucket, rest)
          | None \<Rightarrow> Inl ErrStorageKeyInvalid))"

section \<open>The backends\<close>

record Store =
  sto_remote :: bool
  sto_Save :: "string \<Rightarrow> (err + unit) prog"
  sto_Open :: "string \<Rightarrow> (err + unit) prog"
  sto_Stat :: "string \<Rightarrow> (err + unit) prog"
  sto_Delete :: "string \<Rightarrow> (err + unit) prog"
  sto_DeletePrefix :: "string \<Rightarrow> (err + unit) prog"
  sto_Exists :: "string \<Rightarrow> (err + bool) prog"

definition IsRemote :: "Store \<Rightarrow> bool" where
  "IsRemote s = sto_remote s"

definition put_object :: "string \<Rightarrow> (err + unit) prog" where
  "put_object name = run_put ''storing object''
     (\<lambda>t w. w\<lparr> w_objects := (if name \<in> set (w_objects w) then w_objects w else name # w_objects w) \<rparr>)"

definition drop_objects :: "(string \<Rightarrow> bool) \<Rightarrow> (err + unit) prog" where
  "drop_objects p = run_put ''deleting object'' (\<lambda>t w. w\<lparr> w_objects := filter (\<lambda>n. \<not> p n) (w_objects w) \<rparr>)"

text \<open>Reading: an absent object is \<^verbatim>\<open>ErrStorageObjectNotFound\<close>, any other failure an error.\<close>

definition probe_object :: "string \<Rightarrow> (err + bool) prog" where
  "probe_object name = State (\<lambda>w. let n = w_tick w; w' = w\<lparr> w_tick := Suc n \<rparr> in
     if outcome_at (w_env w) n = Done then (Inr (name \<in> set (w_objects w)), w')
     else (Inl (ErrOther ''statting object''), w'))"

definition open_object :: "string \<Rightarrow> (err + unit) prog" where
  "open_object name = State_Monad.bind (probe_object name) (\<lambda>r. case r of
     Inl e \<Rightarrow> State_Monad.return (Inl e)
   | Inr present \<Rightarrow> State_Monad.return (if present then Inr () else Inl ErrStorageObjectNotFound))"

text \<open>Each operation resolves the key first and refuses an invalid one before touching anything.\<close>

definition with_name :: "(err + 'n) \<Rightarrow> ('n \<Rightarrow> (err + 'a) prog) \<Rightarrow> (err + 'a) prog" where
  "with_name r f = (case r of Inl e \<Rightarrow> State_Monad.return (Inl e) | Inr n \<Rightarrow> f n)"

definition Local :: "StorageConfig \<Rightarrow> Store" where
  "Local cfg = \<lparr> sto_remote = False,
     sto_Save = (\<lambda>key. with_name (resolve cfg key) put_object),
     sto_Open = (\<lambda>key. with_name (resolve cfg key) open_object),
     sto_Stat = (\<lambda>key. with_name (resolve cfg key) open_object),
     sto_Delete = (\<lambda>key. with_name (resolve cfg key) (\<lambda>path. drop_objects (\<lambda>n. n = path))),
     sto_DeletePrefix = (\<lambda>prefix. with_name (resolve cfg prefix)
        (\<lambda>path. drop_objects (\<lambda>n. n = path \<or> HasPrefix n (path @ ''/'')))),
     sto_Exists = (\<lambda>key. with_name (resolve cfg key) probe_object) \<rparr>"

definition object_name :: "string \<times> string \<Rightarrow> string" where
  "object_name bo = fst bo @ '':'' @ snd bo"

definition MinIO :: "MinIOConfig \<Rightarrow> Store" where
  "MinIO cfg = \<lparr> sto_remote = True,
     sto_Save = (\<lambda>key. with_name (locate cfg key) (\<lambda>bo. put_object (object_name bo))),
     sto_Open = (\<lambda>key. with_name (locate cfg key) (\<lambda>bo. open_object (object_name bo))),
     sto_Stat = (\<lambda>key. with_name (locate cfg key) (\<lambda>bo. open_object (object_name bo))),
     sto_Delete = (\<lambda>key. with_name (locate cfg key) (\<lambda>bo. drop_objects (\<lambda>n. n = object_name bo))),
     sto_DeletePrefix = (\<lambda>prefix. with_name (locate cfg prefix) (\<lambda>(bucket, object).
        drop_objects (\<lambda>n. HasPrefix n (object_name (bucket, if HasSuffix object ''/'' then object else object @ ''/''))))),
     sto_Exists = (\<lambda>key. with_name (locate cfg key) (\<lambda>bo. probe_object (object_name bo))) \<rparr>"

section \<open>The contract\<close>

text \<open>The store changes nothing but its own objects.\<close>

definition only_objects :: "world \<Rightarrow> world \<Rightarrow> bool" where
  "only_objects w w' = (w_db w' = w_db w \<and> w_jobs w' = w_jobs w \<and> w_env w' = w_env w \<and> w_tick w \<le> w_tick w'
     \<and> w_local w' = w_local w \<and> w_redis w' = w_redis w)"

definition fewer_objects :: "world \<Rightarrow> world \<Rightarrow> bool" where
  "fewer_objects w w' = (only_objects w w' \<and> set (w_objects w') \<subseteq> set (w_objects w))"

lemma preorder_only_objects [simp]: "preorder only_objects"
  by (auto simp: preorder_def only_objects_def)

lemma preorder_fewer_objects [simp]: "preorder fewer_objects"
  by (auto simp: preorder_def fewer_objects_def only_objects_def)

definition with_one :: "string option \<Rightarrow> string list \<Rightarrow> string set" where
  "with_one n ns = (case n of None \<Rightarrow> set ns | Some x \<Rightarrow> insert x (set ns))"

locale object_store =
  fixes store :: Store and name_of :: "string \<Rightarrow> string option"
  assumes Save_result: "wp (sto_Save store key) (\<lambda>r w'. only_objects w w'
       \<and> set (w_objects w') \<subseteq> with_one (name_of key) (w_objects w)
       \<and> (outcome_at (w_env w) (w_tick w) \<noteq> Lost \<longrightarrow> r = Inr () \<or> w_objects w' = w_objects w)
       \<and> (r = Inr () \<longrightarrow> (\<exists>n. name_of key = Some n \<and> n \<in> set (w_objects w')))) w"
    and Delete_result: "wp (sto_Delete store key) (\<lambda>r w'. fewer_objects w w'
       \<and> (\<forall>n. name_of key = Some n \<longrightarrow> w_tick w' = Suc (w_tick w) \<and> (outcome_at (w_env w) (w_tick w) = Done \<longrightarrow> r = Inr ())
            \<and> (r = Inr () \<longrightarrow> n \<notin> set (w_objects w')))) w"
    and DeletePrefix_result: "wp (sto_DeletePrefix store key) (\<lambda>r w'. fewer_objects w w') w"
    and Open_result: "wp (sto_Open store key) (\<lambda>r w'. only_objects w w' \<and> w_objects w' = w_objects w
       \<and> (r = Inr () \<longrightarrow> (\<exists>n. name_of key = Some n \<and> n \<in> set (w_objects w)))) w"
    and Stat_result: "wp (sto_Stat store key) (\<lambda>r w'. only_objects w w' \<and> w_objects w' = w_objects w
       \<and> (r = Inr () \<longrightarrow> (\<exists>n. name_of key = Some n \<and> n \<in> set (w_objects w)))) w"
begin

lemma Save_only: "steps only_objects (sto_Save store key)"
  using wpD[OF Save_result] by (auto simp: steps_def)

lemma Delete_fewer: "steps fewer_objects (sto_Delete store key)"
  using wpD[OF Delete_result] by (auto simp: steps_def)

lemma DeletePrefix_fewer: "steps fewer_objects (sto_DeletePrefix store key)"
  using wpD[OF DeletePrefix_result] by (auto simp: steps_def)

lemma Save_then_Delete:
  assumes "name_of key = Some n"
  shows "wp (State_Monad.bind (sto_Save store key) (\<lambda>_. sto_Delete store key))
           (\<lambda>r w'. r = Inr () \<longrightarrow> n \<notin> set (w_objects w')) w"
  unfolding wp_bind
  by (rule wp_mono[OF Save_result]) (rule wp_mono[OF Delete_result], use assms in auto)

end

definition local_name :: "StorageConfig \<Rightarrow> string \<Rightarrow> string option" where
  "local_name cfg key = (case resolve cfg key of Inr p \<Rightarrow> Some p | Inl _ \<Rightarrow> None)"

definition minio_name :: "MinIOConfig \<Rightarrow> string \<Rightarrow> string option" where
  "minio_name cfg key = (case locate cfg key of Inr bo \<Rightarrow> Some (object_name bo) | Inl _ \<Rightarrow> None)"

lemma wp_put_object:
  "wp (put_object name) (\<lambda>r w'. only_objects w w' \<and> set (w_objects w') \<subseteq> insert name (set (w_objects w))
     \<and> (outcome_at (w_env w) (w_tick w) \<noteq> Lost \<longrightarrow> r = Inr () \<or> w_objects w' = w_objects w)
     \<and> (r = Inr () \<longrightarrow> name \<in> set (w_objects w'))) w"
  by (auto simp: put_object_def wp_simps only_objects_def split: outcome.splits)

lemma wp_drop_objects:
  "wp (drop_objects p) (\<lambda>r w'. fewer_objects w w' \<and> w_tick w' = Suc (w_tick w)
     \<and> (outcome_at (w_env w) (w_tick w) = Done \<longrightarrow> r = Inr ()) \<and> (r = Inr () \<longrightarrow> (\<forall>n. p n \<longrightarrow> n \<notin> set (w_objects w')))) w"
  by (auto simp: drop_objects_def wp_simps only_objects_def fewer_objects_def split: outcome.splits)

lemma wp_probe_object [wp_simps]:
  "wp (probe_object name) Q = (\<lambda>w.
     (if outcome_at (w_env w) (w_tick w) = Done
      then Q (Inr (name \<in> set (w_objects w))) (w\<lparr> w_tick := Suc (w_tick w) \<rparr>)
      else Q (Inl (ErrOther ''statting object'')) (w\<lparr> w_tick := Suc (w_tick w) \<rparr>)))"
  by (rule ext) (simp add: probe_object_def wp_State Let_def)

lemma wp_open_object:
  "wp (open_object name) (\<lambda>r w'. only_objects w w' \<and> w_objects w' = w_objects w \<and> (r = Inr () \<longrightarrow> name \<in> set (w_objects w))) w"
  by (simp add: open_object_def wp_simps only_objects_def)

lemma wp_with_name [wp_simps]:
  "wp (with_name r f) Q = (\<lambda>w. (case r of Inl e \<Rightarrow> Q (Inl e) w | Inr n \<Rightarrow> wp (f n) Q w))"
  by (rule ext) (simp add: with_name_def wp_simps split: sum.splits)

interpretation local_store: object_store "Local cfg" "local_name cfg" for cfg
proof
  fix key w
  show "wp (sto_Save (Local cfg) key) (\<lambda>r w'. only_objects w w'
       \<and> set (w_objects w') \<subseteq> with_one (local_name cfg key) (w_objects w)
       \<and> (outcome_at (w_env w) (w_tick w) \<noteq> Lost \<longrightarrow> r = Inr () \<or> w_objects w' = w_objects w)
       \<and> (r = Inr () \<longrightarrow> (\<exists>n. local_name cfg key = Some n \<and> n \<in> set (w_objects w')))) w"
    using wp_put_object
    by (auto simp: Local_def local_name_def with_one_def wp_simps only_objects_def split: sum.splits elim!: wp_mono)
  show "wp (sto_Delete (Local cfg) key) (\<lambda>r w'. fewer_objects w w'
       \<and> (\<forall>n. local_name cfg key = Some n \<longrightarrow> w_tick w' = Suc (w_tick w) \<and> (outcome_at (w_env w) (w_tick w) = Done \<longrightarrow> r = Inr ())
            \<and> (r = Inr () \<longrightarrow> n \<notin> set (w_objects w')))) w"
    by (auto simp: Local_def local_name_def wp_simps fewer_objects_def only_objects_def split: sum.splits
        intro!: wp_mono[OF wp_drop_objects])
  show "wp (sto_DeletePrefix (Local cfg) key) (\<lambda>r w'. fewer_objects w w') w"
    by (auto simp: Local_def wp_simps fewer_objects_def only_objects_def split: sum.splits
        intro!: wp_mono[OF wp_drop_objects])
  show "wp (sto_Open (Local cfg) key) (\<lambda>r w'. only_objects w w' \<and> w_objects w' = w_objects w
       \<and> (r = Inr () \<longrightarrow> (\<exists>n. local_name cfg key = Some n \<and> n \<in> set (w_objects w)))) w"
    by (auto simp: Local_def local_name_def wp_simps only_objects_def split: sum.splits intro!: wp_mono[OF wp_open_object])
  show "wp (sto_Stat (Local cfg) key) (\<lambda>r w'. only_objects w w' \<and> w_objects w' = w_objects w
       \<and> (r = Inr () \<longrightarrow> (\<exists>n. local_name cfg key = Some n \<and> n \<in> set (w_objects w)))) w"
    by (auto simp: Local_def local_name_def wp_simps only_objects_def split: sum.splits intro!: wp_mono[OF wp_open_object])
qed

interpretation minio_store: object_store "MinIO cfg" "minio_name cfg" for cfg
proof
  fix key w
  show "wp (sto_Save (MinIO cfg) key) (\<lambda>r w'. only_objects w w'
       \<and> set (w_objects w') \<subseteq> with_one (minio_name cfg key) (w_objects w)
       \<and> (outcome_at (w_env w) (w_tick w) \<noteq> Lost \<longrightarrow> r = Inr () \<or> w_objects w' = w_objects w)
       \<and> (r = Inr () \<longrightarrow> (\<exists>n. minio_name cfg key = Some n \<and> n \<in> set (w_objects w')))) w"
    using wp_put_object
    by (auto simp: MinIO_def minio_name_def with_one_def wp_simps only_objects_def split: sum.splits elim!: wp_mono)
  show "wp (sto_Delete (MinIO cfg) key) (\<lambda>r w'. fewer_objects w w'
       \<and> (\<forall>n. minio_name cfg key = Some n \<longrightarrow> w_tick w' = Suc (w_tick w) \<and> (outcome_at (w_env w) (w_tick w) = Done \<longrightarrow> r = Inr ())
            \<and> (r = Inr () \<longrightarrow> n \<notin> set (w_objects w')))) w"
    by (auto simp: MinIO_def minio_name_def wp_simps fewer_objects_def only_objects_def split: sum.splits
        intro!: wp_mono[OF wp_drop_objects])
  show "wp (sto_DeletePrefix (MinIO cfg) key) (\<lambda>r w'. fewer_objects w w') w"
    by (auto simp: MinIO_def wp_simps fewer_objects_def only_objects_def split: sum.splits
        intro!: wp_mono[OF wp_drop_objects])
  show "wp (sto_Open (MinIO cfg) key) (\<lambda>r w'. only_objects w w' \<and> w_objects w' = w_objects w
       \<and> (r = Inr () \<longrightarrow> (\<exists>n. minio_name cfg key = Some n \<and> n \<in> set (w_objects w)))) w"
    by (auto simp: MinIO_def minio_name_def wp_simps only_objects_def split: sum.splits intro!: wp_mono[OF wp_open_object])
  show "wp (sto_Stat (MinIO cfg) key) (\<lambda>r w'. only_objects w w' \<and> w_objects w' = w_objects w
       \<and> (r = Inr () \<longrightarrow> (\<exists>n. minio_name cfg key = Some n \<and> n \<in> set (w_objects w)))) w"
    by (auto simp: MinIO_def minio_name_def wp_simps only_objects_def split: sum.splits intro!: wp_mono[OF wp_open_object])
qed

section \<open>A resolved key stays under its directory\<close>

lemma split_on_append: "split_on d (a @ d # b) = split_on d a @ split_on d b"
  by (induction a) (auto split: list.splits)

lemma clean_segments_stack:
  "clean_segments r stack (xs @ ys) = clean_segments r (rev (clean_segments r stack xs)) ys"
  by (induction r stack xs rule: clean_segments.induct) (auto split: list.splits)

lemma clean_segments_plain:
  "''..'' \<notin> set ys \<Longrightarrow> clean_segments r stack ys = rev stack @ filter (\<lambda>w. w \<noteq> '''' \<and> w \<noteq> ''.'') ys"
  by (induction ys arbitrary: stack) auto

text \<open>The segments of a path after lexical cleaning.\<close>

definition path_segments :: "string \<Rightarrow> string list" where
  "path_segments p = clean_segments (HasPrefix p ''/'') [] (split_on CHR ''/'' p)"

lemma path_segments_join:
  assumes "dir \<noteq> ''''" "''..'' \<notin> set (split_on CHR ''/'' rest)"
  shows "path_segments (join_with ''/'' [dir, rest])
    = path_segments dir @ filter (\<lambda>w. w \<noteq> '''' \<and> w \<noteq> ''.'') (split_on CHR ''/'' rest)"
proof -
  have "HasPrefix (dir @ CHR ''/'' # rest) ''/'' = HasPrefix dir ''/''"
    using assms(1) by (cases dir) (auto simp: HasPrefix_def)
  then show ?thesis
    using assms(2) by (simp add: path_segments_def split_on_append clean_segments_stack clean_segments_plain)
qed

lemma Cut_split: "CHR ''/'' \<in> set key \<Longrightarrow> split_on CHR ''/'' key = fst (Cut key) # split_on CHR ''/'' (snd (Cut key))"
  by (induction key) (auto simp: Cut_def split: list.splits)

lemma Cut_no_slash: "CHR ''/'' \<notin> set key \<Longrightarrow> Cut key = (key, '''')"
  by (induction key) (auto simp: Cut_def)

lemma Cut_rest_segments: "set (split_on CHR ''/'' (snd (Cut key))) \<subseteq> insert '''' (set (split_on CHR ''/'' key))"
  by (cases "CHR ''/'' \<in> set key") (auto simp: Cut_split Cut_no_slash)

lemma validateKey_segments: "validateKey key = None \<Longrightarrow> ''..'' \<notin> set (split_on CHR ''/'' key) \<and> key \<noteq> ''''"
  by (auto simp: validateKey_def list_ex_iff split: if_splits)

text \<open>The directory a key is mapped under.\<close>

definition key_root :: "StorageConfig \<Rightarrow> string \<Rightarrow> string" where
  "key_root cfg key = (case mounts cfg (fst (Cut key)) of Some dir \<Rightarrow> dir | None \<Rightarrow> UploadPath cfg)"

lemma path_Join_two:
  "a \<noteq> '''' \<Longrightarrow> path_Join [a, b] = (if b = '''' then path_Clean a else path_Clean (join_with ''/'' [a, b]))"
  by (simp add: path_Join_def)

lemma resolve_segments:
  assumes "resolve cfg key = Inr p" "key_root cfg key \<noteq> ''''"
  shows "\<exists>rest. p = path_Clean (key_root cfg key @ rest)
    \<and> (\<exists>ws. path_segments (key_root cfg key @ rest) = path_segments (key_root cfg key) @ ws \<and> ''..'' \<notin> set ws)"
proof -
  from assms(1) have ok: "''..'' \<notin> set (split_on CHR ''/'' key)"
    by (auto simp: resolve_def dest: validateKey_segments split: option.splits)
  have ok2: "''..'' \<notin> set (split_on CHR ''/'' (snd (Cut key)))"
    using ok Cut_rest_segments[of key] by auto
  obtain r where p: "p = path_Join [key_root cfg key, r]" and r: "''..'' \<notin> set (split_on CHR ''/'' r)"
    using assms(1) ok ok2
    by (auto simp: resolve_def key_root_def Let_def split: option.splits prod.splits)
  show ?thesis
  proof (cases "r = ''''")
    case True
    with p assms(2) have "p = path_Clean (key_root cfg key @ [])" by (simp add: path_Join_two)
    then show ?thesis by (intro exI[of _ "''''"]) simp
  next
    case False
    with p assms(2) have "p = path_Clean (key_root cfg key @ ''/'' @ r)" by (simp add: path_Join_two)
    moreover have "\<exists>ws. path_segments (key_root cfg key @ ''/'' @ r) = path_segments (key_root cfg key) @ ws \<and> ''..'' \<notin> set ws"
      using path_segments_join[OF assms(2) r] r by auto
    ultimately show ?thesis by blast
  qed
qed

end
