(* ===== verification/Samples.thy ===== *)
theory Samples
  imports Http Storage
begin

text \<open>
  Concrete inputs at which the properties are instantiated: an environment in which every call
  succeeds, small tables, and an instance of the UUID parameter (decimal notation).
\<close>

definition calm_env :: env where
  "calm_env = \<lparr> outcome_at = (\<lambda>_. Done), clock_at = (\<lambda>n. int n * Second), uuid_at = (\<lambda>n. of_nat (1000 + n)),
     probe_at = (\<lambda>_. Some \<lparr> md_Duration = 60, md_Width = 1280, md_Height = 720 \<rparr>),
     exec_at = (\<lambda>_. True), walk_at = (\<lambda>_. []), count_at = (\<lambda>_. 3),
     read_at = (\<lambda>_. Some ''content''), rand_at = (\<lambda>_. Some (replicate 32 CHR ''x'')) \<rparr>"

definition calm_world :: "db \<Rightarrow> world" where
  "calm_world d = \<lparr> w_env = calm_env, w_tick = 0, w_db = d, w_jobs = [], w_objects = [],
     w_files = (\<lambda>_. None), w_commands = [], w_redis = (\<lambda>_. None),
     w_zsets = (\<lambda>_. []), w_local = [], w_mail = [] \<rparr>"

text \<open>The same world when the external call number \<^verbatim>\<open>n\<close> has another outcome.\<close>

definition disturb :: "nat \<Rightarrow> outcome \<Rightarrow> world \<Rightarrow> world" where
  "disturb n oc w = w\<lparr> w_env := (w_env w)\<lparr> outcome_at := (outcome_at (w_env w))(n := oc) \<rparr> \<rparr>"

definition sample_lib :: uuid_lib where
  "sample_lib = \<lparr> uuid_Parse = (\<lambda>s. map_option of_nat (digits_value s)), uuid_String = (\<lambda>i. nat_string (unat i)) \<rparr>"

definition sample_cfg :: StorageConfig where
  "sample_cfg = \<lparr> UploadPath = ''uploads'', MaxFileSize = 2147483648, ThumbnailPath = ''uploads/thumbnails'',
     TranscodedPath = ''uploads/transcoded'' \<rparr>"

definition no_unicode :: unicode_tables where
  "no_unicode = \<lparr> tab_upper = (\<lambda>_. False), tab_lower = (\<lambda>_. False), tab_number = (\<lambda>_. False), tab_to_lower = id \<rparr>"

definition sample_video :: "uuid \<Rightarrow> uuid \<Rightarrow> VideoStatus \<Rightarrow> VideoVisibility \<Rightarrow> Video" where
  "sample_video i owner status visibility = \<lparr> v_ID = i, v_UserID = Some owner, v_Title = ''a title'',
     v_Description = '''', v_Filename = ''f.mp4'', v_FilePath = ''uploads/raw/f.mp4'', v_FileSize = 4096,
     v_Duration = 0, v_Status = status, v_Visibility = visibility, v_MimeType = ''video/mp4'',
     v_OriginalResolution = '''', v_TranscodingProgress = 0, v_AvailableQualities = [],
     v_HLSReady = False, v_StreamingProtocol = ''progressive'', v_ThumbnailPath = None,
     v_HLSMasterPath = None, v_Category = '''', v_Tags = [], v_Language = ''en'', v_ViewCount = 0,
     v_LikeCount = 0, v_CommentCount = 0, v_CreatedAt = 0, v_UpdatedAt = 0, v_ProcessedAt = None \<rparr>"

definition sample_user :: "uuid \<Rightarrow> string \<Rightarrow> Role \<Rightarrow> User" where
  "sample_user i name role = \<lparr> u_ID = i, u_Username = name, u_Email = name @ ''@example.com'',
     u_PasswordHash = ''hash-of-'' @ name, u_FullName = None, u_Bio = None, u_AvatarURL = None, u_Role = role,
     u_EmailVerified = True, u_EmailVerificationToken = None, u_PasswordResetToken = None,
     u_PasswordResetExpiry = None, u_LastLoginAt = None, u_OAuthProvider = None, u_OAuthProviderID = None,
     u_OAuthAvatarURL = None, u_IsBanned = False, u_BanReason = None, u_BanExpiry = None, u_BannedAt = None,
     u_BannedBy = None, u_CreatedAt = 0, u_UpdatedAt = 0, u_DeletedAt = None \<rparr>"

definition sample_request :: "Principal option \<Rightarrow> string \<Rightarrow> request" where
  "sample_request p i = \<lparr> rq_principal = p, rq_param = (\<lambda>_. i), rq_query = (\<lambda>_. None) \<rparr>"

definition as_user :: "uuid \<Rightarrow> Principal" where
  "as_user i = \<lparr> pr_UserID = i, pr_Username = ''x'', pr_Role = RoleUser \<rparr>"

definition video_db :: "VideoStatus \<Rightarrow> VideoVisibility \<Rightarrow> db" where
  "video_db status visibility = empty_db\<lparr> db_videos := [sample_video 7 1 status visibility],
     db_users := [sample_user 1 ''alice'' RoleUser, sample_user 2 ''bob'' RoleUser] \<rparr>"

lemma sample_parse [simp]: "uuid_Parse sample_lib (nat_string n) = Some (of_nat n)"
  by (simp add: sample_lib_def digits_value_nat_string)

lemmas sample_defs = calm_env_def calm_world_def disturb_def sample_lib_def sample_cfg_def sample_video_def
  sample_user_def sample_request_def video_db_def empty_db_def

end
