(* ===== verification/CoreProps.thy ===== *)
theory CoreProps
  imports Http Storage Samples
begin

text \<open>
  Properties of the shared layers: storage keys never leave their directory, page parameters and
  their 64-bit arithmetic, the email expression against its language, and the order of roles.
\<close>

section \<open>Cleaned paths\<close>

definition cleaned :: "bool \<Rightarrow> string list \<Rightarrow> bool" where
  "cleaned rooted segs = (\<exists>n us. segs = replicate n ''..'' @ us
     \<and> (\<forall>u \<in> set us. u \<noteq> '''' \<and> u \<noteq> ''.'' \<and> u \<noteq> ''..'') \<and> (rooted \<longrightarrow> n = 0))"

lemma cleaned_push: "cleaned r segs \<Longrightarrow> u \<noteq> '''' \<Longrightarrow> u \<noteq> ''.'' \<Longrightarrow> u \<noteq> ''..'' \<Longrightarrow> cleaned r (segs @ [u])"
  unfolding cleaned_def by (elim exE conjE) (rule_tac x = n in exI, rule_tac x = "us @ [u]" in exI, auto)

lemma cleaned_dots: "cleaned False segs \<Longrightarrow> segs = [] \<or> last segs = ''..'' \<Longrightarrow> cleaned False (segs @ [''..''])"
proof -
  assume c: "cleaned False segs" and l: "segs = [] \<or> last segs = ''..''"
  from c obtain n us where s: "segs = replicate n ''..'' @ us" "\<forall>u \<in> set us. u \<noteq> '''' \<and> u \<noteq> ''.'' \<and> u \<noteq> ''..''"
    by (auto simp: cleaned_def)
  have "us = []"
  proof (rule ccontr)
    assume ne: "us \<noteq> []"
    with l s have "last us = ''..''" by auto
    with s(2) last_in_set[OF ne] show False by metis
  qed
  with s have "segs @ [''..''] = replicate (Suc n) ''..'' @ []" by (simp add: replicate_append_same)
  then show ?thesis unfolding cleaned_def by (intro exI[of _ "Suc n"] exI[of _ "[]"]) simp
qed

lemma cleaned_Nil [simp]: "cleaned r []"
  by (simp add: cleaned_def)

lemma cleaned_nonempty:
  assumes "cleaned r segs" "w \<in> set segs" shows "w \<noteq> ''''"
proof -
  from assms(1) obtain n us where s: "segs = replicate n ''..'' @ us" "\<forall>u \<in> set us. u \<noteq> ''''"
    by (auto simp: cleaned_def)
  have "w = ''..'' \<or> w \<in> set us" using assms(2) by (auto simp: s(1))
  with s(2) show ?thesis by auto
qed

lemma cleaned_rooted: "cleaned True segs \<Longrightarrow> ''..'' \<notin> set segs"
  by (auto simp: cleaned_def)

lemma cleaned_pop: "cleaned r (segs @ [u]) \<Longrightarrow> u \<noteq> ''..'' \<Longrightarrow> cleaned r segs"
proof -
  assume c: "cleaned r (segs @ [u])" and u: "u \<noteq> ''..''"
  from c obtain n us where s: "segs @ [u] = replicate n ''..'' @ us" "\<forall>u \<in> set us. u \<noteq> '''' \<and> u \<noteq> ''.'' \<and> u \<noteq> ''..''" "r \<longrightarrow> n = 0"
    by (auto simp: cleaned_def)
  have "us \<noteq> []"
  proof
    assume "us = []"
    with s(1) have "u \<in> set (replicate n ''..'')" by (metis append_Nil2 in_set_conv_decomp)
    with u show False by simp
  qed
  then obtain vs v where "us = vs @ [v]" by (metis rev_exhaust)
  with s show ?thesis unfolding cleaned_def by (intro exI[of _ n] exI[of _ vs]) auto
qed

lemma clean_segments_cleaned: "cleaned r (rev stack) \<Longrightarrow> cleaned r (clean_segments r stack ws)"
proof (induction r stack ws rule: clean_segments.induct)
  case (2 rooted stack w ws)
  show ?case
  proof (cases "w = '''' \<or> w = ''.'' \<or> w \<noteq> ''..''")
    case True
    with 2 cleaned_push[of rooted "rev stack" w] show ?thesis by auto
  next
    case False
    then have w: "w = ''..''" by simp
    show ?thesis
    proof (cases stack)
      case Nil
      with 2 w cleaned_dots[of "[]"] show ?thesis by (cases rooted) simp_all
    next
      case (Cons up rest)
      show ?thesis
      proof (cases "up = ''..''")
        case True
        with "2.prems" Cons cleaned_rooted[of "rev stack"] have "\<not> rooted" by auto
        with 2 w Cons True cleaned_dots[of "rev stack"] show ?thesis by simp
      next
        case False
        with 2 w Cons cleaned_pop[of rooted "rev rest" up] show ?thesis by simp
      qed
    qed
  qed
qed simp

lemma clean_segments_id:
  assumes "cleaned r segs" shows "clean_segments r [] segs = segs"
proof -
  have plain: "clean_segments r stack us = rev stack @ us"
    if "\<forall>u \<in> set us. u \<noteq> '''' \<and> u \<noteq> ''.'' \<and> u \<noteq> ''..''" for us stack
    using that by (induction us arbitrary: stack) auto
  have dots: "clean_segments False (replicate m ''..'') (replicate n ''..'' @ us) = replicate (m + n) ''..'' @ us"
    if "\<forall>u \<in> set us. u \<noteq> '''' \<and> u \<noteq> ''.'' \<and> u \<noteq> ''..''" for m n us
  proof (induction n arbitrary: m)
    case 0
    have "clean_segments False (replicate m ''..'') us = replicate m ''..'' @ us" if "\<forall>u \<in> set us. u \<noteq> '''' \<and> u \<noteq> ''.'' \<and> u \<noteq> ''..''" for us
    proof -
      have "clean_segments False stack us = rev stack @ us" for stack
        using that by (induction us arbitrary: stack) auto
      then show ?thesis by simp
    qed
    with that show ?case by simp
  next
    case (Suc n)
    then show ?case using Suc.IH[of "Suc m"] by (cases m) auto
  qed
  from assms obtain n us where s: "segs = replicate n ''..'' @ us" "\<forall>u \<in> set us. u \<noteq> '''' \<and> u \<noteq> ''.'' \<and> u \<noteq> ''..''" "r \<longrightarrow> n = 0"
    by (auto simp: cleaned_def)
  then show ?thesis using plain[OF s(2), of "[]"] dots[OF s(2), of 0 n] by (cases r) auto
qed

lemma clean_segments_subset: "set (clean_segments r stack ws) \<subseteq> insert ''..'' (set stack \<union> set ws)"
  by (induction r stack ws rule: clean_segments.induct) (auto split: list.splits)

lemma split_word: "d \<notin> set w \<Longrightarrow> split_on d w = [w]"
  by (induction w) auto

lemma split_join: "\<lbrakk>ws \<noteq> []; \<forall>w \<in> set ws. d \<notin> set w\<rbrakk> \<Longrightarrow> split_on d (join_with [d] ws) = ws"
proof (induction ws)
  case (Cons w ws)
  then show ?case by (cases ws) (auto simp: split_word split_on_append)
qed simp

lemma path_segments_Clean: "path_segments (path_Clean p) = path_segments p"
proof -
  define r where "r = HasPrefix p ''/''"
  define segs where "segs = clean_segments r [] (split_on CHR ''/'' p)"
  have c: "cleaned r segs" unfolding segs_def by (rule clean_segments_cleaned) simp
  have free: "\<forall>w \<in> set segs. CHR ''/'' \<notin> set w"
    using clean_segments_subset[of r "[]" "split_on CHR ''/'' p"] by (auto simp: segs_def dest: split_on_free)
  have p: "path_segments p = segs" by (simp add: path_segments_def segs_def r_def)
  have clean: "path_Clean p = (if r then ''/'' @ join_with ''/'' segs else if segs = [] then ''.'' else join_with ''/'' segs)"
    by (simp add: path_Clean_def segs_def r_def)
  have id: "clean_segments r [] segs = segs" by (rule clean_segments_id[OF c])
  consider "r" | "\<not> r" "segs = []" | x xs where "\<not> r" "segs = x # xs" by (cases segs) auto
  then show ?thesis
  proof cases
    case 1
    have "path_segments (''/'' @ join_with ''/'' segs) = clean_segments True [] (split_on CHR ''/'' (join_with ''/'' segs))"
      by (simp add: path_segments_def HasPrefix_def)
    also have "\<dots> = segs"
      using id 1 free by (cases "segs = []") (simp_all add: split_join)
    finally show ?thesis using 1 by (simp add: clean p)
  next
    case 2
    then show ?thesis by (simp add: clean p) (simp add: path_segments_def HasPrefix_def)
  next
    case 3
    have "x \<noteq> ''''" by (rule cleaned_nonempty[OF c]) (simp add: 3)
    with free 3 obtain c cs where x: "x = c # cs" "c \<noteq> CHR ''/''" by (cases x) auto
    have "\<not> HasPrefix (join_with ''/'' segs) ''/''"
      unfolding 3 x(1) join_with_Cons_char using x(2) by (simp add: HasPrefix_def)
    moreover have "split_on CHR ''/'' (join_with ''/'' segs) = segs"
      using 3 free by (intro split_join) auto
    ultimately have "path_segments (join_with ''/'' segs) = segs"
      using id 3(1) by (simp add: path_segments_def)
    with 3 show ?thesis by (simp add: clean p)
  qed
qed

section \<open>Properties\<close>

text \<open>C11: A storage key never escapes: whatever key the local backend resolves, the path it gets lies, segment by
  segment, under the directory the key's area is mapped to, with no parent reference after it.  Keys with a
  parent reference, an absolute path or a drive are refused.\<close>

theorem resolve_contained:
  assumes "resolve cfg key = Inr p" "key_root cfg key \<noteq> ''''"
  shows "(\<exists>ws. path_segments p = path_segments (key_root cfg key) @ ws \<and> ''..'' \<notin> set ws)
    \<and> ''..'' \<notin> set (split_on CHR ''/'' key) \<and> \<not> HasPrefix key ''/''"
proof -
  from assms(1) have v: "validateKey key = None" by (auto simp: resolve_def split: option.splits)
  from resolve_segments[OF assms] obtain rest where p: "p = path_Clean (key_root cfg key @ rest)"
    and "\<exists>ws. path_segments (key_root cfg key @ rest) = path_segments (key_root cfg key) @ ws \<and> ''..'' \<notin> set ws" by blast
  then show ?thesis
    using validateKey_segments[OF v] v by (auto simp: path_segments_Clean validateKey_def split: if_splits)
qed

theorem resolve_contained_witness:
  "(\<exists>ws. path_segments ''uploads/transcoded/7/720p/index.m3u8'' = path_segments ''uploads/transcoded'' @ ws \<and> ''..'' \<notin> set ws)
   \<and> resolve sample_cfg ''transcoded/../../etc/passwd'' = Inl ErrStorageKeyInvalid"
proof -
  have "resolve sample_cfg ''transcoded/7/./720p//index.m3u8'' = Inr ''uploads/transcoded/7/720p/index.m3u8''" by code_simp
  from resolve_contained[OF this] have "\<exists>ws. path_segments ''uploads/transcoded/7/720p/index.m3u8''
      = path_segments (key_root sample_cfg ''transcoded/7/./720p//index.m3u8'') @ ws \<and> ''..'' \<notin> set ws"
    by (simp add: key_root_def Cut_def mounts_def sample_cfg_def)
  moreover have "key_root sample_cfg ''transcoded/7/./720p//index.m3u8'' = ''uploads/transcoded''" by code_simp
  moreover have "resolve sample_cfg ''transcoded/../../etc/passwd'' = Inl ErrStorageKeyInvalid" by code_simp
  ultimately show ?thesis by simp
qed

section \<open>Page parameters\<close>

text \<open>Page parameters are safe for the database and mean what they say: the limit is between 1 and 100 whatever
  the query string holds, and for any page number up to 2^56 the offset is the exact number of rows before that
  page, with no wrap-around.\<close>

theorem parsePage_exact:
  assumes "requested_page c \<le> 2 ^ 56"
  shows "1 \<le> Limit (parsePage c) \<and> Limit (parsePage c) \<le> 100
    \<and> Offset (parsePage c) = (requested_page c - 1) * Limit (parsePage c) \<and> 0 \<le> Offset (parsePage c)"
proof -
  have "0 \<le> (requested_page c - 1) * Limit (parsePage c)"
    using requested_page_range[of c] parsePage_limit[of c] by simp
  then show ?thesis using parsePage_limit[of c] parsePage_offset_small[OF assms] by simp
qed

definition page_request :: "string \<Rightarrow> string \<Rightarrow> request" where
  "page_request p l = (sample_request None '''')\<lparr> rq_query := [''page'' \<mapsto> p, ''limit'' \<mapsto> l] \<rparr>"

theorem parsePage_exact_witness: "parsePage (page_request ''3'' ''50'') = \<lparr> Limit = 50, Offset = 100 \<rparr>"
proof -
  have p: "requested_page (page_request ''3'' ''50'') = 3" "Limit (parsePage (page_request ''3'' ''50'')) = 50"
    by code_simp+
  then have "Offset (parsePage (page_request ''3'' ''50'')) = 100"
    using parsePage_exact[of "page_request ''3'' ''50''"] by simp
  with p show ?thesis by simp
qed

lemma wrap64_shift: "wrap64 (i + k * 2 ^ 64) = wrap64 i"
proof -
  have z: "(2 :: 64 word) ^ 64 = 0"
    using word_exp_length_eq_0[where 'a = 64] by simp
  have "(word_of_int (i + k * 2 ^ 64) :: 64 word) = word_of_int i"
    by (simp only: of_int_add of_int_mult of_int_power of_int_numeral z mult_zero_right add_0_right)
  then show ?thesis by (simp add: wrap64_def)
qed

text \<open>The multiplication is not guarded: a large page number that \<^verbatim>\<open>strconv.Atoi\<close> accepts wraps to a negative
  offset, which the database refuses, so the listing answers with an error instead of an empty page.\<close>

theorem parsePage_overflows:
  "parsePage (page_request ''9223372036854775807'' ''100'') = \<lparr> Limit = 100, Offset = - 200 \<rparr>
   \<and> window (parsePage (page_request ''9223372036854775807'' ''100'')) rows = Inl (ErrOther ''LIMIT must not be negative'')"
proof -
  have p: "Atoi ''9223372036854775807'' = Some 9223372036854775807" "Atoi ''100'' = Some 100"
    by (simp_all add: Atoi_def digits_value_def is_digit_def cont_def byte_def)
  have "wrap64 (9223372036854775806 * 100) = wrap64 (- 200 + 50 * 2 ^ 64)" by simp
  also have "\<dots> = - 200" unfolding wrap64_shift by (rule wrap64_id) simp_all
  finally have "parsePage (page_request ''9223372036854775807'' ''100'') = \<lparr> Limit = 100, Offset = - 200 \<rparr>"
    by (simp add: parsePage_def page_request_def sample_request_def DefaultQuery_def p maxPageLimit_def wrap64_id Let_def)
  then show ?thesis by (simp add: window_def)
qed

text \<open>The pagination block of a list answer is right: for page numbers and totals a database can hold, the current
  page is the one asked for, there are as many pages as the rows need, a next page is announced exactly when rows
  remain behind this one, and a previous page exactly when rows were skipped.\<close>

theorem paginationMeta_correct:
  assumes "requested_page c \<le> 2 ^ 56" "0 \<le> rows" "rows < 2 ^ 62" and m: "m = paginationMeta rows (parsePage c)"
  shows "pm_Page m = requested_page c
    \<and> pm_TotalPages m * Limit (parsePage c) \<ge> rows \<and> (pm_TotalPages m - 1) * Limit (parsePage c) < rows + (if rows = 0 then 1 else 0)
    \<and> (pm_HasNext m \<longleftrightarrow> Offset (parsePage c) + Limit (parsePage c) < rows)
    \<and> (pm_HasPrevious m \<longleftrightarrow> 0 < Offset (parsePage c))"
proof -
  let ?L = "Limit (parsePage c)" and ?p = "requested_page c" and ?O = "Offset (parsePage c)"
  have L: "1 \<le> ?L" "?L \<le> 100" and O: "?O = (?p - 1) * ?L" "0 \<le> ?O"
    using parsePage_limit[of c] parsePage_offset_small[OF assms(1)] requested_page_range[of c] by simp_all
  have p: "1 \<le> ?p" "?p < 2 ^ 63" using requested_page_range[of c] by simp_all
  have "quot ?O ?L = ?p - 1" using L O by (simp add: quot_nonneg)
  then have page: "pm_Page m = ?p"
    using p by (simp add: m paginationMeta_def Let_def wrap64_id)
  have w: "wrap64 (wrap64 (rows + ?L) - 1) = rows + ?L - 1"
    using assms(2,3) L by (simp add: wrap64_id)
  have total: "pm_TotalPages m = (rows + ?L - 1) div ?L"
    using assms(2) L by (simp add: m paginationMeta_def Let_def w quot_nonneg)
  have "0 \<le> (rows + ?L - 1) mod ?L" "(rows + ?L - 1) mod ?L < ?L" using L by simp_all
  with div_mult_mod_eq[of "rows + ?L - 1" ?L]
  have ge: "rows \<le> pm_TotalPages m * ?L" and le: "pm_TotalPages m * ?L \<le> rows + ?L - 1"
    unfolding total by linarith+
  have next': "?p < pm_TotalPages m \<longleftrightarrow> ?p * ?L < rows"
  proof
    assume "?p < pm_TotalPages m"
    then have "?p * ?L \<le> (pm_TotalPages m - 1) * ?L" using L by (intro mult_right_mono) simp_all
    with le L show "?p * ?L < rows" by (simp add: algebra_simps)
  next
    assume "?p * ?L < rows"
    with ge have "?p * ?L < pm_TotalPages m * ?L" by simp
    then show "?p < pm_TotalPages m" using L by (simp add: mult_less_cancel_right)
  qed
  have "pm_HasNext m = (pm_Page m < pm_TotalPages m)" "pm_HasPrevious m = (1 < pm_Page m)"
    by (simp_all add: m paginationMeta_def Let_def)
  moreover have "?O + ?L = ?p * ?L" using O(1) by (simp add: algebra_simps)
  moreover have "1 < ?p \<longleftrightarrow> 0 < ?O" unfolding O(1) using L p by (simp add: zero_less_mult_iff)
  ultimately have "pm_HasNext m \<longleftrightarrow> ?O + ?L < rows" "pm_HasPrevious m \<longleftrightarrow> 0 < ?O"
    using page next' by simp_all
  with page ge le show ?thesis by (simp add: algebra_simps)
qed

theorem paginationMeta_correct_witness:
  "pm_HasNext (paginationMeta 101 (parsePage (page_request ''2'' ''50''))) \<and> pm_Page (paginationMeta 101 (parsePage (page_request ''2'' ''50''))) = 2"
proof -
  have "requested_page (page_request ''2'' ''50'') = 2" "parsePage (page_request ''2'' ''50'') = \<lparr> Limit = 50, Offset = 50 \<rparr>"
    by code_simp+
  then show ?thesis using paginationMeta_correct[of "page_request ''2'' ''50''" 101] by simp
qed

section \<open>Email addresses\<close>

lemma dropWhile_head: "dropWhile P s = x # xs \<Longrightarrow> \<not> P x"
  by (induction s) (auto split: if_splits)

lemma cut_at_last:
  assumes "d \<in> set s"
  shows "s = rev (drop 1 (dropWhile (\<lambda>c. c \<noteq> d) (rev s))) @ d # rev (takeWhile (\<lambda>c. c \<noteq> d) (rev s))"
proof -
  have "dropWhile (\<lambda>c. c \<noteq> d) (rev s) \<noteq> []" using assms by auto
  then obtain xs where xs: "dropWhile (\<lambda>c. c \<noteq> d) (rev s) = d # xs"
    by (cases "dropWhile (\<lambda>c. c \<noteq> d) (rev s)") (auto dest: dropWhile_head)
  have "rev s = takeWhile (\<lambda>c. c \<noteq> d) (rev s) @ d # xs" by (metis xs takeWhile_dropWhile_id)
  then have "s = rev (takeWhile (\<lambda>c. c \<noteq> d) (rev s) @ d # xs)" by (metis rev_rev_ident)
  with xs show ?thesis by simp
qed

text \<open>The decision procedure for email addresses (cut at the first at-sign and the last dot, as a greedy
  matcher ends up doing) accepts exactly the language of the regular expression in the code, which justifies its
  use in the model.\<close>

theorem emailRegex_language: "emailRegex s = email_language s"
proof
  assume e: "emailRegex s"
  define loc rest where "loc = takeWhile (\<lambda>c. c \<noteq> CHR ''@'') s" and "rest = dropWhile (\<lambda>c. c \<noteq> CHR ''@'') s"
  define host where "host = drop 1 rest"
  define tld dom where "tld = rev (takeWhile (\<lambda>c. c \<noteq> CHR ''.'') (rev host))"
    and "dom = rev (drop 1 (dropWhile (\<lambda>c. c \<noteq> CHR ''.'') (rev host)))"
  note defs = loc_def rest_def host_def tld_def dom_def
  from e have f: "rest \<noteq> []" "loc \<noteq> []" "list_all email_local_char loc" "CHR ''.'' \<in> set host" "dom \<noteq> []"
    "list_all email_domain_char dom" "2 \<le> length tld" "list_all is_alpha tld"
    by (simp_all add: emailRegex_def Let_def defs)
  then have "rest = CHR ''@'' # host"
    using dropWhile_head[of _ s] by (cases rest) (auto simp: rest_def host_def)
  then have "s = loc @ ''@'' @ host" unfolding loc_def rest_def by (metis append_Cons append_Nil takeWhile_dropWhile_id)
  moreover have "host = dom @ ''.'' @ tld" using cut_at_last[OF f(4)] by (simp add: defs)
  ultimately show "email_language s"
    using f unfolding email_language_def list_all_iff by (intro exI[of _ loc] exI[of _ dom] exI[of _ tld]) auto
next
  assume "email_language s"
  then obtain loc dom tld where s: "s = loc @ ''@'' @ dom @ ''.'' @ tld"
    and f: "loc \<noteq> []" "\<forall>c \<in> set loc. email_local_char c" "dom \<noteq> []" "\<forall>c \<in> set dom. email_domain_char c"
      "2 \<le> length tld" "\<forall>c \<in> set tld. is_alpha c"
    unfolding email_language_def by blast
  have at: "\<forall>c \<in> set loc. c \<noteq> CHR ''@''" using f(2) email_char_facts(1) by auto
  have dot: "\<forall>c \<in> set (rev tld). c \<noteq> CHR ''.''" using f(6) email_char_facts(2) by auto
  have "takeWhile (\<lambda>c. c \<noteq> CHR ''@'') s = loc" "dropWhile (\<lambda>c. c \<noteq> CHR ''@'') s = ''@'' @ dom @ ''.'' @ tld"
    unfolding s using at by (simp_all add: takeWhile_append2 dropWhile_append2)
  moreover have "takeWhile (\<lambda>c. c \<noteq> CHR ''.'') (rev (dom @ ''.'' @ tld)) = rev tld"
    "dropWhile (\<lambda>c. c \<noteq> CHR ''.'') (rev (dom @ ''.'' @ tld)) = ''.'' @ rev dom"
    using dot takeWhile_append2[of "rev tld" "\<lambda>c. c \<noteq> CHR ''.''"] dropWhile_append2[of "rev tld" "\<lambda>c. c \<noteq> CHR ''.''"] by auto
  ultimately show "emailRegex s"
    using f by (simp add: emailRegex_def Let_def list_all_iff)
qed

section \<open>Roles\<close>

text \<open>The permission table orders the roles as their names suggest, with one exception: a name outside the five
  has no permission at all, guests may do least, users less than premium members and moderators, and admins
  everything; premium members and moderators are incomparable, since only the former see analytics.\<close>

theorem role_order:
  "(\<forall>r. r \<le> RoleAdmin \<and> RoleOther s \<le> r \<and> \<not> HasPermission (RoleOther s) p) \<and> RoleGuest < RoleUser \<and> RoleUser < RolePremium
   \<and> RoleUser < RoleModerator \<and> RolePremium < RoleAdmin \<and> RoleModerator < RoleAdmin
   \<and> \<not> RolePremium \<le> RoleModerator \<and> \<not> RoleModerator \<le> RolePremium \<and> HasPermission RoleAdmin p"
proof -
  have p: "HasPermission RoleAdmin p" for p by (cases p) (simp_all add: role_defs)
  have top: "r \<le> RoleAdmin" for r using p by (simp add: role_le_iff)
  have bot: "RoleOther s \<le> r" "\<not> HasPermission (RoleOther s) p" for r p
    by (simp_all add: less_eq_Role_def role_defs)
  have "RoleGuest < RoleUser" "RoleUser < RolePremium" "RoleUser < RoleModerator" "RolePremium < RoleAdmin"
    "RoleModerator < RoleAdmin" "\<not> RolePremium \<le> RoleModerator" "\<not> RoleModerator \<le> RolePremium"
    by (simp_all add: less_Role_def less_eq_Role_def role_defs)
  with p top bot show ?thesis by blast
qed


end
