(* ===== verification/Schema.thy ===== *)
theory Schema
  imports World "HOL-Library.Multiset"
begin

text \<open>
  What the migrations make the database do by itself: the triggers of migrations 9 and 11 that
  maintain the denormalised counters (videos.like_count, videos.comment_count,
  comments.reply_count, users.subscriber_count, playlists.video_count), the triggers that stamp
  \<^verbatim>\<open>updated_at\<close>, and the \<^verbatim>\<open>ON DELETE CASCADE\<close> of the foreign keys.  The locale
  \<^verbatim>\<open>counter_trigger\<close> is the contract of one such counter; it is interpreted for all five.
\<close>

section \<open>References\<close>

definition video_exists :: "db \<Rightarrow> uuid \<Rightarrow> bool" where
  "video_exists d i = list_ex (\<lambda>v. v_ID v = i) (db_videos d)"

definition user_exists :: "db \<Rightarrow> uuid \<Rightarrow> bool" where
  "user_exists d i = list_ex (\<lambda>u. u_ID u = i) (db_users d)"

definition comment_exists :: "db \<Rightarrow> uuid \<Rightarrow> bool" where
  "comment_exists d i = list_ex (\<lambda>c. c_ID c = i) (db_comments d)"

definition playlist_exists :: "db \<Rightarrow> uuid \<Rightarrow> bool" where
  "playlist_exists d i = list_ex (\<lambda>p. p_ID p = i) (db_playlists d)"

section \<open>Counters\<close>

definition bump_like_count :: "time \<Rightarrow> uuid \<Rightarrow> int \<Rightarrow> db \<Rightarrow> db" where
  "bump_like_count t i n d = d\<lparr> db_videos :=
     modify v_ID i (\<lambda>v. v\<lparr> v_LikeCount := v_LikeCount v + n, v_UpdatedAt := t \<rparr>) (db_videos d) \<rparr>"

definition bump_comment_count :: "time \<Rightarrow> uuid \<Rightarrow> int \<Rightarrow> db \<Rightarrow> db" where
  "bump_comment_count t i n d = d\<lparr> db_videos :=
     modify v_ID i (\<lambda>v. v\<lparr> v_CommentCount := v_CommentCount v + n, v_UpdatedAt := t \<rparr>) (db_videos d) \<rparr>"

definition bump_reply_count :: "time \<Rightarrow> uuid \<Rightarrow> int \<Rightarrow> db \<Rightarrow> db" where
  "bump_reply_count t i n d = d\<lparr> db_comments :=
     modify c_ID i (\<lambda>c. c\<lparr> c_ReplyCount := c_ReplyCount c + n, c_UpdatedAt := t \<rparr>) (db_comments d) \<rparr>"

definition bump_subscriber_count :: "time \<Rightarrow> uuid \<Rightarrow> int \<Rightarrow> db \<Rightarrow> db" where
  "bump_subscriber_count t i n d = d\<lparr>
     db_subscriber_count := (db_subscriber_count d)(i := db_subscriber_count d i + n),
     db_users := modify u_ID i (\<lambda>u. u\<lparr> u_UpdatedAt := t \<rparr>) (db_users d) \<rparr>"

definition bump_video_count :: "time \<Rightarrow> uuid \<Rightarrow> int \<Rightarrow> db \<Rightarrow> db" where
  "bump_video_count t i n d = d\<lparr> db_playlists :=
     modify p_ID i (\<lambda>p. p\<lparr> p_VideoCount := p_VideoCount p + n, p_UpdatedAt := t \<rparr>) (db_playlists d) \<rparr>"

lemmas bump_defs = bump_like_count_def bump_comment_count_def bump_reply_count_def
  bump_subscriber_count_def bump_video_count_def

section \<open>Triggers\<close>

definition like_inserted :: "time \<Rightarrow> Like \<Rightarrow> db \<Rightarrow> db" where
  "like_inserted t l d = (if l_IsLike l then bump_like_count t (l_VideoID l) 1 d else d)"

definition like_updated :: "time \<Rightarrow> Like \<Rightarrow> Like \<Rightarrow> db \<Rightarrow> db" where
  "like_updated t old new d =
     (if l_IsLike old \<noteq> l_IsLike new
      then bump_like_count t (l_VideoID new) (if l_IsLike new then 1 else - 1) d else d)"

definition like_deleted :: "time \<Rightarrow> Like \<Rightarrow> db \<Rightarrow> db" where
  "like_deleted t l d = (if l_IsLike l then bump_like_count t (l_VideoID l) (- 1) d else d)"

definition bump_parent :: "time \<Rightarrow> uuid option \<Rightarrow> int \<Rightarrow> db \<Rightarrow> db" where
  "bump_parent t parent n d = (case parent of None \<Rightarrow> d | Some p \<Rightarrow> bump_reply_count t p n d)"

definition comment_inserted :: "time \<Rightarrow> Comment \<Rightarrow> db \<Rightarrow> db" where
  "comment_inserted t c d =
     (if c_DeletedAt c = None
      then bump_parent t (c_ParentID c) 1 (bump_comment_count t (c_VideoID c) 1 d) else d)"

definition comment_updated :: "time \<Rightarrow> Comment \<Rightarrow> Comment \<Rightarrow> db \<Rightarrow> db" where
  "comment_updated t old new d =
     (if c_DeletedAt old = None \<and> c_DeletedAt new \<noteq> None
      then bump_parent t (c_ParentID new) (- 1) (bump_comment_count t (c_VideoID new) (- 1) d)
      else if c_DeletedAt old \<noteq> None \<and> c_DeletedAt new = None
      then bump_parent t (c_ParentID new) 1 (bump_comment_count t (c_VideoID new) 1 d)
      else d)"

definition comment_deleted :: "time \<Rightarrow> Comment \<Rightarrow> db \<Rightarrow> db" where
  "comment_deleted t c d =
     (if c_DeletedAt c = None
      then bump_parent t (c_ParentID c) (- 1) (bump_comment_count t (c_VideoID c) (- 1) d) else d)"

definition subscription_inserted :: "time \<Rightarrow> Subscription \<Rightarrow> db \<Rightarrow> db" where
  "subscription_inserted t s d = bump_subscriber_count t (s_CreatorID s) 1 d"

definition subscription_deleted :: "time \<Rightarrow> Subscription \<Rightarrow> db \<Rightarrow> db" where
  "subscription_deleted t s d = bump_subscriber_count t (s_CreatorID s) (- 1) d"

definition playlist_video_inserted :: "time \<Rightarrow> PlaylistVideo \<Rightarrow> db \<Rightarrow> db" where
  "playlist_video_inserted t pv d = bump_video_count t (pv_PlaylistID pv) 1 d"

definition playlist_video_deleted :: "time \<Rightarrow> PlaylistVideo \<Rightarrow> db \<Rightarrow> db" where
  "playlist_video_deleted t pv d = bump_video_count t (pv_PlaylistID pv) (- 1) d"

lemmas trigger_defs = like_inserted_def like_updated_def like_deleted_def comment_inserted_def
  comment_updated_def comment_deleted_def subscription_inserted_def subscription_deleted_def
  playlist_video_inserted_def playlist_video_deleted_def bump_parent_def

section \<open>The contract of one counter\<close>

text \<open>
  \<^verbatim>\<open>targets d\<close> is the multiset of the rows that count, each by the key of the row that counts
  it; \<^verbatim>\<open>count_of d k\<close> is the counter stored in row \<^verbatim>\<open>k\<close> when there is one.  A counter is
  consistent when every stored value is the number of rows that count.
\<close>

locale counter_trigger =
  fixes targets :: "'d \<Rightarrow> uuid multiset"
    and count_of :: "'d \<Rightarrow> uuid \<Rightarrow> int option"
    and bump :: "uuid \<Rightarrow> int \<Rightarrow> 'd \<Rightarrow> 'd"
  assumes bump_targets: "targets (bump k n d) = targets d"
    and bump_count: "count_of (bump k n d) j = (if j = k then map_option (\<lambda>i. i + n) (count_of d j) else count_of d j)"
begin

lemma consistent_insert:
  assumes "\<forall>k n. count_of d k = Some n \<longrightarrow> n = int (count (targets d) k)"
    and "targets d' = add_mset k (targets d)" "count_of d' = count_of d"
  shows "\<forall>j n. count_of (bump k 1 d') j = Some n \<longrightarrow> n = int (count (targets (bump k 1 d')) j)"
  using assms by (auto simp: bump_targets bump_count split: if_splits)

lemma consistent_remove:
  assumes "\<forall>k n. count_of d k = Some n \<longrightarrow> n = int (count (targets d) k)"
    and "targets d = add_mset k (targets d')" "count_of d' = count_of d"
  shows "\<forall>j n. count_of (bump k (- 1) d') j = Some n \<longrightarrow> n = int (count (targets (bump k (- 1) d')) j)"
proof (intro allI impI)
  fix j n assume "count_of (bump k (- 1) d') j = Some n"
  then show "n = int (count (targets (bump k (- 1) d')) j)"
    using assms(1)[rule_format, of j] assms(2,3)
    by (auto simp: bump_targets bump_count split: if_splits)
qed

lemma consistent_same:
  assumes "\<forall>k n. count_of d k = Some n \<longrightarrow> n = int (count (targets d) k)"
    and "targets d' = targets d" "\<And>k. count_of d' k = None \<or> count_of d' k = count_of d k"
  shows "\<forall>k n. count_of d' k = Some n \<longrightarrow> n = int (count (targets d') k)"
  using assms by (metis option.distinct(1))

end

definition like_targets :: "db \<Rightarrow> uuid multiset" where
  "like_targets d = image_mset l_VideoID (filter_mset l_IsLike (mset (db_likes d)))"

definition comment_targets :: "db \<Rightarrow> uuid multiset" where
  "comment_targets d = image_mset c_VideoID (filter_mset (\<lambda>c. c_DeletedAt c = None) (mset (db_comments d)))"

definition reply_targets :: "db \<Rightarrow> uuid multiset" where
  "reply_targets d = image_mset (\<lambda>c. the (c_ParentID c))
     (filter_mset (\<lambda>c. c_DeletedAt c = None \<and> c_ParentID c \<noteq> None) (mset (db_comments d)))"

definition subscriber_targets :: "db \<Rightarrow> uuid multiset" where
  "subscriber_targets d = image_mset s_CreatorID (mset (db_subscriptions d))"

definition playlist_targets :: "db \<Rightarrow> uuid multiset" where
  "playlist_targets d = image_mset pv_PlaylistID (mset (db_playlist_videos d))"

lemmas targets_defs = like_targets_def comment_targets_def reply_targets_def
  subscriber_targets_def playlist_targets_def

definition like_count_of :: "db \<Rightarrow> uuid \<Rightarrow> int option" where
  "like_count_of d i = map_option v_LikeCount (lookup v_ID i (db_videos d))"

definition comment_count_of :: "db \<Rightarrow> uuid \<Rightarrow> int option" where
  "comment_count_of d i = map_option v_CommentCount (lookup v_ID i (db_videos d))"

definition reply_count_of :: "db \<Rightarrow> uuid \<Rightarrow> int option" where
  "reply_count_of d i = map_option c_ReplyCount (lookup c_ID i (db_comments d))"

definition subscriber_count_of :: "db \<Rightarrow> uuid \<Rightarrow> int option" where
  "subscriber_count_of d i = Some (db_subscriber_count d i)"

definition video_count_of :: "db \<Rightarrow> uuid \<Rightarrow> int option" where
  "video_count_of d i = map_option p_VideoCount (lookup p_ID i (db_playlists d))"

lemmas count_of_defs = like_count_of_def comment_count_of_def reply_count_of_def
  subscriber_count_of_def video_count_of_def

text \<open>The specification of the denormalised counters.\<close>

definition counters_ok :: "db \<Rightarrow> bool" where
  "counters_ok d =
     ((\<forall>k n. like_count_of d k = Some n \<longrightarrow> n = int (count (like_targets d) k))
    \<and> (\<forall>k n. comment_count_of d k = Some n \<longrightarrow> n = int (count (comment_targets d) k))
    \<and> (\<forall>k n. reply_count_of d k = Some n \<longrightarrow> n = int (count (reply_targets d) k))
    \<and> (\<forall>k n. subscriber_count_of d k = Some n \<longrightarrow> n = int (count (subscriber_targets d) k))
    \<and> (\<forall>k n. video_count_of d k = Some n \<longrightarrow> n = int (count (playlist_targets d) k)))"

lemma image_filter_mset_modify:
  assumes "\<And>r. p (f r) = p r" "\<And>r. g (f r) = g r"
  shows "image_mset g (filter_mset p (mset (modify key k f rows))) = image_mset g (filter_mset p (mset rows))"
  using assms by (induction rows) auto

lemma image_mset_modify:
  assumes "\<And>r. g (f r) = g r"
  shows "image_mset g (mset (modify key k f rows)) = image_mset g (mset rows)"
  using assms by (induction rows) auto

interpretation like_counter: counter_trigger like_targets like_count_of "bump_like_count t" for t
  by unfold_locales
     (simp_all add: bump_like_count_def like_targets_def like_count_of_def lookup_modify
        option.map_comp comp_def)

interpretation comment_counter: counter_trigger comment_targets comment_count_of "bump_comment_count t" for t
  by unfold_locales
     (simp_all add: bump_comment_count_def comment_targets_def comment_count_of_def lookup_modify
        option.map_comp comp_def)

interpretation reply_counter: counter_trigger reply_targets reply_count_of "bump_reply_count t" for t
  by unfold_locales
     (simp_all add: bump_reply_count_def reply_targets_def reply_count_of_def lookup_modify
        option.map_comp comp_def image_filter_mset_modify)

interpretation subscriber_counter:
  counter_trigger subscriber_targets subscriber_count_of "bump_subscriber_count t" for t
  by unfold_locales
     (simp_all add: bump_subscriber_count_def subscriber_targets_def subscriber_count_of_def)

interpretation playlist_counter: counter_trigger playlist_targets video_count_of "bump_video_count t" for t
  by unfold_locales
     (simp_all add: bump_video_count_def playlist_targets_def video_count_of_def lookup_modify
        option.map_comp comp_def)

text \<open>A bump leaves every other counter alone.\<close>

lemma bump_like_frame [simp]:
  "comment_count_of (bump_like_count t k n d) = comment_count_of d"
  "reply_count_of (bump_like_count t k n d) = reply_count_of d"
  "subscriber_count_of (bump_like_count t k n d) = subscriber_count_of d"
  "video_count_of (bump_like_count t k n d) = video_count_of d"
  "comment_targets (bump_like_count t k n d) = comment_targets d"
  "reply_targets (bump_like_count t k n d) = reply_targets d"
  "subscriber_targets (bump_like_count t k n d) = subscriber_targets d"
  "playlist_targets (bump_like_count t k n d) = playlist_targets d"
  by (auto simp: bump_like_count_def count_of_defs targets_defs lookup_modify option.map_comp comp_def)

lemma bump_comment_frame [simp]:
  "like_count_of (bump_comment_count t k n d) = like_count_of d"
  "reply_count_of (bump_comment_count t k n d) = reply_count_of d"
  "subscriber_count_of (bump_comment_count t k n d) = subscriber_count_of d"
  "video_count_of (bump_comment_count t k n d) = video_count_of d"
  "like_targets (bump_comment_count t k n d) = like_targets d"
  "reply_targets (bump_comment_count t k n d) = reply_targets d"
  "subscriber_targets (bump_comment_count t k n d) = subscriber_targets d"
  "playlist_targets (bump_comment_count t k n d) = playlist_targets d"
  by (auto simp: bump_comment_count_def count_of_defs targets_defs lookup_modify option.map_comp comp_def)

lemma bump_reply_frame [simp]:
  "like_count_of (bump_reply_count t k n d) = like_count_of d"
  "comment_count_of (bump_reply_count t k n d) = comment_count_of d"
  "subscriber_count_of (bump_reply_count t k n d) = subscriber_count_of d"
  "video_count_of (bump_reply_count t k n d) = video_count_of d"
  "like_targets (bump_reply_count t k n d) = like_targets d"
  "comment_targets (bump_reply_count t k n d) = comment_targets d"
  "subscriber_targets (bump_reply_count t k n d) = subscriber_targets d"
  "playlist_targets (bump_reply_count t k n d) = playlist_targets d"
  by (auto simp: bump_reply_count_def count_of_defs targets_defs image_filter_mset_modify)

lemma bump_subscriber_frame [simp]:
  "like_count_of (bump_subscriber_count t k n d) = like_count_of d"
  "comment_count_of (bump_subscriber_count t k n d) = comment_count_of d"
  "reply_count_of (bump_subscriber_count t k n d) = reply_count_of d"
  "video_count_of (bump_subscriber_count t k n d) = video_count_of d"
  "like_targets (bump_subscriber_count t k n d) = like_targets d"
  "comment_targets (bump_subscriber_count t k n d) = comment_targets d"
  "reply_targets (bump_subscriber_count t k n d) = reply_targets d"
  "playlist_targets (bump_subscriber_count t k n d) = playlist_targets d"
  by (auto simp: bump_subscriber_count_def count_of_defs targets_defs)

lemma bump_video_frame [simp]:
  "like_count_of (bump_video_count t k n d) = like_count_of d"
  "comment_count_of (bump_video_count t k n d) = comment_count_of d"
  "reply_count_of (bump_video_count t k n d) = reply_count_of d"
  "subscriber_count_of (bump_video_count t k n d) = subscriber_count_of d"
  "like_targets (bump_video_count t k n d) = like_targets d"
  "comment_targets (bump_video_count t k n d) = comment_targets d"
  "reply_targets (bump_video_count t k n d) = reply_targets d"
  "subscriber_targets (bump_video_count t k n d) = subscriber_targets d"
  by (auto simp: bump_video_count_def count_of_defs targets_defs)

lemma counters_okI:
  assumes "\<forall>k n. like_count_of d k = Some n \<longrightarrow> n = int (count (like_targets d) k)"
    and "\<forall>k n. comment_count_of d k = Some n \<longrightarrow> n = int (count (comment_targets d) k)"
    and "\<forall>k n. reply_count_of d k = Some n \<longrightarrow> n = int (count (reply_targets d) k)"
    and "\<forall>k n. subscriber_count_of d k = Some n \<longrightarrow> n = int (count (subscriber_targets d) k)"
    and "\<forall>k n. video_count_of d k = Some n \<longrightarrow> n = int (count (playlist_targets d) k)"
  shows "counters_ok d"
  using assms by (simp add: counters_ok_def)

text \<open>A change of the tables that neither moves a counter nor a row that counts.\<close>

definition same_counts :: "db \<Rightarrow> db \<Rightarrow> bool" where
  "same_counts d d' =
     (like_targets d' = like_targets d \<and> comment_targets d' = comment_targets d
      \<and> reply_targets d' = reply_targets d \<and> subscriber_targets d' = subscriber_targets d
      \<and> playlist_targets d' = playlist_targets d
      \<and> like_count_of d' = like_count_of d \<and> comment_count_of d' = comment_count_of d
      \<and> reply_count_of d' = reply_count_of d \<and> subscriber_count_of d' = subscriber_count_of d
      \<and> video_count_of d' = video_count_of d)"

lemma same_counts_ok: "same_counts d d' \<Longrightarrow> counters_ok d \<Longrightarrow> counters_ok d'"
  by (simp add: same_counts_def counters_ok_def)

section \<open>Deletion of a video and its cascades\<close>

text \<open>The comments reachable from \<^verbatim>\<open>ids\<close> through \<^verbatim>\<open>parent_id\<close>; one round per comment is enough.\<close>

fun reply_closure :: "nat \<Rightarrow> Comment list \<Rightarrow> uuid list \<Rightarrow> uuid list" where
  "reply_closure 0 cs ids = ids"
| "reply_closure (Suc n) cs ids = reply_closure n cs
     (ids @ map c_ID (filter (\<lambda>c. (case c_ParentID c of Some p \<Rightarrow> p \<in> set ids | None \<Rightarrow> False)
                                 \<and> c_ID c \<notin> set ids) cs))"

definition cascade_comments :: "time \<Rightarrow> uuid list \<Rightarrow> db \<Rightarrow> db" where
  "cascade_comments t roots d =
     (let ids = reply_closure (length (db_comments d)) (db_comments d) roots;
          gone = filter (\<lambda>c. c_ID c \<in> set ids) (db_comments d);
          d1 = d\<lparr> db_comments := delete_rows (\<lambda>c. c_ID c \<in> set ids) (db_comments d),
                  db_notifications := delete_rows (\<lambda>n. case n_CommentID n of Some c \<Rightarrow> c \<in> set ids | None \<Rightarrow> False)
                    (db_notifications d) \<rparr>
      in fold (comment_deleted t) gone d1)"

definition cascade_video :: "time \<Rightarrow> uuid \<Rightarrow> db \<Rightarrow> db" where
  "cascade_video t i d =
     (let d1 = d\<lparr> db_videos := remove v_ID i (db_videos d) \<rparr>;
          d2 = fold (like_deleted t) (filter (\<lambda>l. l_VideoID l = i) (db_likes d1))
                 (d1\<lparr> db_likes := delete_rows (\<lambda>l. l_VideoID l = i) (db_likes d1) \<rparr>);
          d3 = fold (playlist_video_deleted t) (filter (\<lambda>pv. pv_VideoID pv = i) (db_playlist_videos d2))
                 (d2\<lparr> db_playlist_videos := delete_rows (\<lambda>pv. pv_VideoID pv = i) (db_playlist_videos d2) \<rparr>);
          d4 = cascade_comments t (map c_ID (filter (\<lambda>c. c_VideoID c = i) (db_comments d3))) d3
      in d4\<lparr> db_watch_history := delete_rows (\<lambda>h. wh_VideoID h = i) (db_watch_history d4),
             db_watch_later := delete_rows (\<lambda>x. wl_VideoID x = i) (db_watch_later d4),
             db_notifications := delete_rows (\<lambda>n. n_VideoID n = Some i) (db_notifications d4),
             db_reports := delete_rows (\<lambda>r. r_VideoID r = Some i) (db_reports d4),
             db_video_views := delete_rows (\<lambda>x. vr_VideoID x = i) (db_video_views d4) \<rparr>)"

lemma bump_videos_frame:
  "db_videos (bump_video_count t k n d) = db_videos d"
  "db_videos (bump_reply_count t k n d) = db_videos d"
  "db_videos (bump_subscriber_count t k n d) = db_videos d"
  by (simp_all add: bump_defs)

end
