(* ===== verification/VideoRepo.thy ===== *)
theory VideoRepo
  imports Schema
begin

text \<open>
  The PostgreSQL video repository (\<^verbatim>\<open>internal/repository/postgres/video_repository.go\<close>): one
  program per method.  The lemmas say what each method does to the row it names, to every other
  row and to the other tables, under every outcome of the statement.
\<close>

definition status_name :: "VideoStatus \<Rightarrow> string" where
  "status_name s = (case s of VideoStatusUploading \<Rightarrow> ''uploading'' | VideoStatusProcessing \<Rightarrow> ''processing''
     | VideoStatusReady \<Rightarrow> ''ready'' | VideoStatusFailed \<Rightarrow> ''failed'')"

section \<open>Methods\<close>

text \<open>
  \<^verbatim>\<open>INSERT INTO videos\<close>: the columns the statement omits take the defaults of migrations 1, 2, 8
  and 9; the primary key, the owner reference and the size check are the constraints.
\<close>

definition video_row :: "Video \<Rightarrow> Video" where
  "video_row v = v\<lparr> v_ThumbnailPath := None, v_TranscodingProgress := 0, v_AvailableQualities := [],
     v_HLSMasterPath := None, v_HLSReady := False, v_StreamingProtocol := ''progressive'',
     v_Category := '''', v_Tags := [], v_Language := ''en'',
     v_ViewCount := 0, v_LikeCount := 0, v_CommentCount := 0, v_ProcessedAt := None \<rparr>"

definition VideoRepo_Create :: "Video \<Rightarrow> (err + unit) prog" where
  "VideoRepo_Create v = run_stmt ''creating video'' (\<lambda>t d.
     if video_exists d (v_ID v) then Inl (ErrOther ''duplicate key value'')
     else if (case v_UserID v of Some u \<Rightarrow> \<not> user_exists d u | None \<Rightarrow> False)
       then Inl (ErrOther ''foreign key violation'')
     else if v_FileSize v \<le> 0 then Inl (ErrOther ''check constraint violation'')
     else Inr ((), d\<lparr> db_videos := db_videos d @ [video_row v] \<rparr>))"

definition VideoRepo_GetByID :: "uuid \<Rightarrow> (err + Video) prog" where
  "VideoRepo_GetByID i = row_or ErrVideoNotFound ''getting video'' (\<lambda>d. lookup v_ID i (db_videos d))"

record VideoFilter =
  vf_Status :: "string option"
  vf_OwnerID :: "uuid option"
  vf_Visibility :: "VideoVisibility option"
  vf_Search :: string

text \<open>
  The WHERE clause as a predicate on rows (a status outside the enum of migration 1 makes
  PostgreSQL reject the statement, \<^verbatim>\<open>filter_ok\<close>); \<^verbatim>\<open>matches\<close> is PostgreSQL's full-text match of
  \<^verbatim>\<open>search_vector\<close> against \<^verbatim>\<open>plainto_tsquery\<close>, a parameter.
\<close>

type_synonym text_match = "string \<Rightarrow> Video \<Rightarrow> bool"

definition buildFilter :: "text_match \<Rightarrow> VideoFilter \<Rightarrow> Video \<Rightarrow> bool" where
  "buildFilter matches f v =
     ((case vf_Status f of Some s \<Rightarrow> status_name (v_Status v) = s | None \<Rightarrow> True)
    \<and> (case vf_OwnerID f of Some u \<Rightarrow> v_UserID v = Some u | None \<Rightarrow> True)
    \<and> (case vf_Visibility f of Some x \<Rightarrow> v_Visibility v = x | None \<Rightarrow> True)
    \<and> (let search = TrimSpace (vf_Search f) in search \<noteq> '''' \<longrightarrow> matches search v))"

definition filter_ok :: "VideoFilter \<Rightarrow> bool" where
  "filter_ok f = (case vf_Status f of None \<Rightarrow> True
     | Some s \<Rightarrow> s \<in> set [''uploading'', ''processing'', ''ready'', ''failed''])"

text \<open>\<^verbatim>\<open>ORDER BY created_at DESC\<close>; rows with equal keys keep table order.\<close>

definition newest_first :: "('r \<Rightarrow> time) \<Rightarrow> 'r list \<Rightarrow> 'r list" where
  "newest_first created rows = sort_key (\<lambda>r. - created r) rows"

definition VideoRepo_List :: "text_match \<Rightarrow> VideoFilter \<Rightarrow> Page \<Rightarrow> (err + Video list) prog" where
  "VideoRepo_List matches f pg = State_Monad.bind
     (page_query ''listing videos'' pg
        (\<lambda>d. newest_first v_CreatedAt (filter (buildFilter matches f) (db_videos d))))
     (\<lambda>r. State_Monad.return (if filter_ok f then r else Inl (ErrOther ''listing videos'')))"

definition VideoRepo_Count :: "text_match \<Rightarrow> VideoFilter \<Rightarrow> (err + nat) prog" where
  "VideoRepo_Count matches f = State_Monad.bind
     (run_query ''counting videos'' (\<lambda>d. length (filter (buildFilter matches f) (db_videos d))))
     (\<lambda>r. State_Monad.return (if filter_ok f then r else Inl (ErrOther ''counting videos'')))"

text \<open>The shared \<^verbatim>\<open>exec\<close>: \<^verbatim>\<open>UPDATE videos SET ... WHERE id = $1\<close>, \<^verbatim>\<open>updated_at\<close> included.\<close>

definition video_exec :: "(time \<Rightarrow> Video \<Rightarrow> Video) \<Rightarrow> uuid \<Rightarrow> (err + unit) prog" where
  "video_exec f i = rows_or ErrVideoNotFound (run_stmt ''updating video'' (\<lambda>t d.
     Inr (affected (\<lambda>v. v_ID v = i) (db_videos d),
          d\<lparr> db_videos := modify v_ID i (f t) (db_videos d) \<rparr>)))"

definition VideoRepo_Delete :: "uuid \<Rightarrow> (err + unit) prog" where
  "VideoRepo_Delete i = rows_or ErrVideoNotFound (run_stmt ''updating video'' (\<lambda>t d.
     Inr (affected (\<lambda>v. v_ID v = i) (db_videos d),
          if video_exists d i then cascade_video t i d else d)))"

definition VideoRepo_UpdateStatus :: "uuid \<Rightarrow> VideoStatus \<Rightarrow> (err + unit) prog" where
  "VideoRepo_UpdateStatus i status = video_exec (\<lambda>t v. v\<lparr> v_Status := status, v_UpdatedAt := t \<rparr>) i"

text \<open>The CHECK of migration 1 rejects a progress outside 0..100 when there is a row to update.\<close>

definition VideoRepo_UpdateProgress :: "uuid \<Rightarrow> int \<Rightarrow> (err + unit) prog" where
  "VideoRepo_UpdateProgress i progress = rows_or ErrVideoNotFound (run_stmt ''updating video'' (\<lambda>t d.
     if video_exists d i \<and> \<not> (0 \<le> progress \<and> progress \<le> 100) then Inl (ErrOther ''check constraint violation'')
     else Inr (affected (\<lambda>v. v_ID v = i) (db_videos d),
          d\<lparr> db_videos := modify v_ID i (\<lambda>v. v\<lparr> v_TranscodingProgress := progress, v_UpdatedAt := t \<rparr>)
             (db_videos d) \<rparr>)))"

definition VideoRepo_UpdateDuration :: "uuid \<Rightarrow> int \<Rightarrow> (err + unit) prog" where
  "VideoRepo_UpdateDuration i duration = video_exec (\<lambda>t v. v\<lparr> v_Duration := duration, v_UpdatedAt := t \<rparr>) i"

definition VideoRepo_UpdateResolution :: "uuid \<Rightarrow> string \<Rightarrow> (err + unit) prog" where
  "VideoRepo_UpdateResolution i resolution =
     video_exec (\<lambda>t v. v\<lparr> v_OriginalResolution := resolution, v_UpdatedAt := t \<rparr>) i"

definition VideoRepo_UpdateHLSInfo :: "uuid \<Rightarrow> string \<Rightarrow> bool \<Rightarrow> (err + unit) prog" where
  "VideoRepo_UpdateHLSInfo i hlsMasterPath hlsReady = video_exec (\<lambda>t v.
     v\<lparr> v_HLSMasterPath := Some hlsMasterPath, v_HLSReady := hlsReady, v_StreamingProtocol := ''hls'',
        v_UpdatedAt := t \<rparr>) i"

definition VideoRepo_MarkAsReady :: "uuid \<Rightarrow> string list \<Rightarrow> string \<Rightarrow> (err + unit) prog" where
  "VideoRepo_MarkAsReady i qualities thumbnailPath = video_exec (\<lambda>t v.
     v\<lparr> v_Status := VideoStatusReady, v_AvailableQualities := qualities,
        v_ThumbnailPath := Some thumbnailPath, v_TranscodingProgress := 100,
        v_ProcessedAt := Some t, v_UpdatedAt := t \<rparr>) i"

definition VideoRepo_MarkAsFailed :: "uuid \<Rightarrow> (err + unit) prog" where
  "VideoRepo_MarkAsFailed i = video_exec (\<lambda>t v. v\<lparr> v_Status := VideoStatusFailed, v_UpdatedAt := t \<rparr>) i"

section \<open>What a method does to the table\<close>

text \<open>
  \<^verbatim>\<open>row_moves i F d d'\<close>: the only difference between the two databases is the row of video
  \<^verbatim>\<open>i\<close>, which moved along \<^verbatim>\<open>F\<close>.
\<close>

definition row_move :: "uuid \<Rightarrow> (Video \<Rightarrow> Video \<Rightarrow> bool) \<Rightarrow> Video \<Rightarrow> Video \<Rightarrow> bool" where
  "row_move i F v v' = (v_ID v' = v_ID v \<and> (if v_ID v = i then F v v' else v' = v))"

definition row_moves :: "uuid \<Rightarrow> (Video \<Rightarrow> Video \<Rightarrow> bool) \<Rightarrow> db \<Rightarrow> db \<Rightarrow> bool" where
  "row_moves i F d d' =
     (d'\<lparr> db_videos := [] \<rparr> = d\<lparr> db_videos := [] \<rparr> \<and> list_all2 (row_move i F) (db_videos d) (db_videos d'))"

lemma row_moves_preorder:
  assumes "\<And>v. F v v" "\<And>u v x. F u v \<Longrightarrow> F v x \<Longrightarrow> F u x"
  shows "preorder (row_moves i F)"
proof (rule preorderI)
  fix d show "row_moves i F d d"
    by (simp add: row_moves_def row_move_def list.rel_refl assms(1))
next
  fix d1 d2 d3 assume a: "row_moves i F d1 d2" "row_moves i F d2 d3"
  have "list_all2 (row_move i F) (db_videos d1) (db_videos d3)"
    by (rule list_all2_trans[of "row_move i F" "row_move i F" _ _ "db_videos d2"])
       (use a assms(2) in \<open>auto simp: row_moves_def row_move_def split: if_splits\<close>)
  with a show "row_moves i F d1 d3" by (simp add: row_moves_def)
qed

lemma row_moves_modify:
  assumes "\<And>v. v_ID (f v) = v_ID v" "\<And>v. F v (f v)"
  shows "row_moves i F d (d\<lparr> db_videos := modify v_ID i f (db_videos d) \<rparr>)"
proof -
  have "list_all2 (row_move i F) vs (modify v_ID i f vs)" for vs
    using assms by (induction vs) (auto simp: row_move_def)
  then show ?thesis by (simp add: row_moves_def)
qed

lemma row_moves_rows:
  "list_all2 (row_move i F) vs vs' \<Longrightarrow>
      (j \<noteq> i \<longrightarrow> lookup v_ID j vs' = lookup v_ID j vs)
    \<and> (lookup v_ID i vs = Some v \<longrightarrow> (\<exists>v'. lookup v_ID i vs' = Some v' \<and> F v v'))
    \<and> (lookup v_ID i vs = None \<longrightarrow> lookup v_ID i vs' = None)"
  by (induction vs vs' rule: list_all2_induct) (auto simp: row_move_def split: if_splits)

lemma row_moves_lookup:
  assumes "row_moves i F d d'"
  shows "j \<noteq> i \<Longrightarrow> lookup v_ID j (db_videos d') = lookup v_ID j (db_videos d)"
    and "lookup v_ID i (db_videos d) = Some v \<Longrightarrow> \<exists>v'. lookup v_ID i (db_videos d') = Some v' \<and> F v v'"
    and "lookup v_ID i (db_videos d) = None \<Longrightarrow> lookup v_ID i (db_videos d') = None"
  using row_moves_rows[of i F "db_videos d" "db_videos d'"] assms by (auto simp: row_moves_def)

lemma row_moves_mono: "row_moves i F d d' \<Longrightarrow> (\<And>v v'. F v v' \<Longrightarrow> G v v') \<Longrightarrow> row_moves i G d d'"
  unfolding row_moves_def by (auto simp: row_move_def elim!: list_all2_mono split: if_splits)

lemma steps_video_exec:
  assumes "preorder (row_moves i F)" "\<And>t v. v_ID (f t v) = v_ID v" "\<And>t v. F v (f t v)"
  shows "steps (on_db (row_moves i F)) (video_exec f i)"
  unfolding video_exec_def
  using assms by (auto intro!: steps_rows_or steps_run_stmt row_moves_modify)

lemma steps_UpdateProgress:
  assumes "preorder (row_moves i F)"
    and "\<And>t v. 0 \<le> p \<and> p \<le> 100 \<Longrightarrow> F v (v\<lparr> v_TranscodingProgress := p, v_UpdatedAt := t \<rparr>)"
  shows "steps (on_db (row_moves i F)) (VideoRepo_UpdateProgress i p)"
proof -
  have none: "\<not> video_exists d i \<Longrightarrow> modify v_ID i f (db_videos d) = db_videos d" for d f
    by (intro modify_id) (auto simp: video_exists_def list_ex_iff lookup_None)
  show ?thesis unfolding VideoRepo_UpdateProgress_def
  proof (intro steps_rows_or preorder_on_db assms(1) steps_run_stmt)
    fix t d x d'
    assume s: "(if video_exists d i \<and> \<not> (0 \<le> p \<and> p \<le> 100) then Inl (ErrOther ''check constraint violation'')
      else Inr (affected (\<lambda>v. v_ID v = i) (db_videos d), d\<lparr> db_videos := modify v_ID i
        (\<lambda>v. v\<lparr> v_TranscodingProgress := p, v_UpdatedAt := t \<rparr>) (db_videos d) \<rparr>)) = Inr (x, d')"
    show "row_moves i F d d'"
    proof (cases "video_exists d i")
      case True
      with s have "0 \<le> p \<and> p \<le> 100" by (auto split: if_splits)
      with s True show ?thesis using assms(2) by (auto intro!: row_moves_modify)
    next
      case False
      with s have "d' = d" by (simp add: none)
      then show ?thesis using assms(1) by (simp add: preorder_refl)
    qed
  qed
qed

lemma wp_video_exec [wp_simps]:
  "wp (video_exec f i) Q = (\<lambda>w.
     (let w0 = w\<lparr> w_tick := Suc (w_tick w) \<rparr>; t = clock_at (w_env w) (w_tick w);
          w1 = w0\<lparr> w_db := (w_db w)\<lparr> db_videos := modify v_ID i (f t) (db_videos (w_db w)) \<rparr> \<rparr>
      in case outcome_at (w_env w) (w_tick w) of
           Refused \<Rightarrow> Q (Inl (ErrOther ''updating video'')) w0
         | Lost \<Rightarrow> Q (Inl (ErrOther ''updating video'')) w1
         | Done \<Rightarrow> Q (if lookup v_ID i (db_videos (w_db w)) = None then Inl ErrVideoNotFound else Inr ()) w1))"
  unfolding video_exec_def rows_or_def
  by (rule ext) (auto simp: wp_simps wp_run_stmt affected_lookup affected_lookup_pos Let_def split: outcome.splits)

lemma wp_UpdateProgress_ok:
  assumes "0 \<le> p" "p \<le> 100"
  shows "wp (VideoRepo_UpdateProgress i p) Q w =
    wp (video_exec (\<lambda>t v. v\<lparr> v_TranscodingProgress := p, v_UpdatedAt := t \<rparr>) i) Q w"
  using assms unfolding video_exec_def VideoRepo_UpdateProgress_def by simp

end
