(* ===== verification/Trail.thy ===== *)
theory Trail
  imports VideoRepo
begin

text \<open>
  What the tables pass through while a program runs.  \<^verbatim>\<open>stopped n w\<close> is the world \<^verbatim>\<open>w\<close> in which every
  external call from the \<^verbatim>\<open>n\<close>-th on is refused, so a run there leaves the tables as the full run
  has them after its first \<^verbatim>\<open>n\<close> calls (or as a process killed at that point leaves them).
  \<^verbatim>\<open>trail\<close> lists what a view of the tables shows at these points, one after the other, without
  repetitions.  The trail of a sequence is put together from the trails of its parts
  (\<^verbatim>\<open>trail_bind\<close>), a single statement has at most two points (\<^verbatim>\<open>trail_video_exec\<close>), and a
  program that leaves the view alone has one (\<^verbatim>\<open>trail_still\<close>).
\<close>

section \<open>Cutting a run off\<close>

definition stopped_env :: "nat \<Rightarrow> env \<Rightarrow> env" where
  "stopped_env n e = e\<lparr> outcome_at := (\<lambda>k. if k < n then outcome_at e k else Refused) \<rparr>"

definition stopped :: "nat \<Rightarrow> world \<Rightarrow> world" where
  "stopped n w = w\<lparr> w_env := stopped_env n (w_env w) \<rparr>"

definition db_at :: "'a prog \<Rightarrow> world \<Rightarrow> nat \<Rightarrow> db" where
  "db_at m w n = w_db (snd (run_state m (stopped n w)))"

definition trail :: "(db \<Rightarrow> 'b) \<Rightarrow> 'a prog \<Rightarrow> world \<Rightarrow> 'b list" where
  "trail view m w = remdups_adj
     (map (\<lambda>n. view (db_at m w n)) [w_tick w ..< Suc (w_tick (snd (run_state m w)))])"

lemma stopped_env_simps [simp]:
  "clock_at (stopped_env n e) = clock_at e" "uuid_at (stopped_env n e) = uuid_at e" "probe_at (stopped_env n e) = probe_at e"
  "exec_at (stopped_env n e) = exec_at e" "walk_at (stopped_env n e) = walk_at e" "count_at (stopped_env n e) = count_at e"
  "read_at (stopped_env n e) = read_at e" "rand_at (stopped_env n e) = rand_at e"
  "outcome_at (stopped_env n e) k = (if k < n then outcome_at e k else Refused)"
  "stopped_env n (stopped_env n e) = stopped_env n e"
  by (simp_all add: stopped_env_def cong: if_cong)

lemma stopped_simps [simp]:
  "w_env (stopped n w) = stopped_env n (w_env w)" "w_tick (stopped n w) = w_tick w" "w_db (stopped n w) = w_db w"
  "w_commands (stopped n w) = w_commands w" "w_files (stopped n w) = w_files w" "w_jobs (stopped n w) = w_jobs w"
  "(stopped n w)\<lparr> w_tick := k \<rparr> = stopped n (w\<lparr> w_tick := k \<rparr>)"
  "(stopped n w)\<lparr> w_db := d \<rparr> = stopped n (w\<lparr> w_db := d \<rparr>)"
  "(stopped n w)\<lparr> w_commands := cs \<rparr> = stopped n (w\<lparr> w_commands := cs \<rparr>)"
  "(stopped n w)\<lparr> w_files := fs \<rparr> = stopped n (w\<lparr> w_files := fs \<rparr>)"
  "(stopped n w)\<lparr> w_jobs := js \<rparr> = stopped n (w\<lparr> w_jobs := js \<rparr>)"
  by (simp_all add: stopped_def)

text \<open>What holds of every program: the calls are numbered in order, a run with few calls does not
  notice the cut, one that starts beyond it leaves the tables alone, and one that crosses it ends
  beyond it.\<close>

definition cuttable :: "'a prog \<Rightarrow> bool" where
  "cuttable m = (\<forall>w n. case run_state m w of (x, w1) \<Rightarrow>
     w_env w1 = w_env w \<and> w_tick w \<le> w_tick w1
   \<and> (w_tick w1 \<le> n \<longrightarrow> run_state m (stopped n w) = (x, stopped n w1))
   \<and> (n \<le> w_tick w \<longrightarrow> w_db (snd (run_state m (stopped n w))) = w_db w)
   \<and> (n < w_tick w1 \<longrightarrow> n < w_tick (snd (run_state m (stopped n w)))))"

lemma cuttableI:
  assumes "\<And>w x w1 n. run_state m w = (x, w1) \<Longrightarrow> w_env w1 = w_env w \<and> w_tick w \<le> w_tick w1
   \<and> (w_tick w1 \<le> n \<longrightarrow> run_state m (stopped n w) = (x, stopped n w1))
   \<and> (n \<le> w_tick w \<longrightarrow> w_db (snd (run_state m (stopped n w))) = w_db w)
   \<and> (n < w_tick w1 \<longrightarrow> n < w_tick (snd (run_state m (stopped n w))))"
  shows "cuttable m"
  using assms by (simp add: cuttable_def split: prod.split)

lemma cuttableD:
  assumes "cuttable m" "run_state m w = (x, w1)"
  shows "w_env w1 = w_env w" "w_tick w \<le> w_tick w1"
    "w_tick w1 \<le> n \<Longrightarrow> run_state m (stopped n w) = (x, stopped n w1)"
    "n \<le> w_tick w \<Longrightarrow> w_db (snd (run_state m (stopped n w))) = w_db w"
    "n < w_tick w1 \<Longrightarrow> n < w_tick (snd (run_state m (stopped n w)))"
  using assms by (auto simp: cuttable_def split: prod.splits)

named_theorems cut_intros

lemma cuttable_return [cut_intros]: "cuttable (State_Monad.return x)"
  by (rule cuttableI) (auto simp: State_Monad.return_def)

lemma cut_again: "w_env u = stopped_env n e \<Longrightarrow> stopped n u = u"
  by (simp add: stopped_def)

text \<open>Beyond the cut a program only advances the tick.\<close>

lemma beyond_cut:
  assumes "cuttable m" "w_env u = stopped_env n e" "n \<le> w_tick u"
  shows "w_db (snd (run_state m u)) = w_db u" "w_tick u \<le> w_tick (snd (run_state m u))"
proof -
  obtain x u1 where r: "run_state m u = (x, u1)" by fastforce
  show "w_tick u \<le> w_tick (snd (run_state m u))" using cuttableD(2)[OF assms(1) r] r by simp
  show "w_db (snd (run_state m u)) = w_db u"
    using cuttableD(4)[OF assms(1) r assms(3)] by (simp add: cut_again[OF assms(2)])
qed

lemma cuttable_bind [cut_intros]:
  assumes m: "cuttable m" and f: "\<And>x. cuttable (f x)"
  shows "cuttable (State_Monad.bind m f)"
proof (rule cuttableI)
  fix w y w2 n
  assume run: "run_state (State_Monad.bind m f) w = (y, w2)"
  obtain x w1 where r1: "run_state m w = (x, w1)" by fastforce
  have r2: "run_state (f x) w1 = (y, w2)" using run by (simp add: r1)
  obtain x' u where ru: "run_state m (stopped n w) = (x', u)" by fastforce
  note M = cuttableD[OF m r1] and F = cuttableD[OF f r2]
  have env: "w_env u = stopped_env n (w_env w)" using cuttableD(1)[OF m ru] by simp
  have tick: "w_tick w \<le> w_tick u" using cuttableD(2)[OF m ru] by simp
  have "w_tick w2 \<le> n \<longrightarrow> run_state (State_Monad.bind m f) (stopped n w) = (y, stopped n w2)"
    using M(3) F(2,3) by auto
  moreover have "n \<le> w_tick w \<longrightarrow> w_db (snd (run_state (State_Monad.bind m f) (stopped n w))) = w_db w"
    using M(4)[of n] tick beyond_cut(1)[OF f env] by (simp add: ru)
  moreover have "n < w_tick w2 \<longrightarrow> n < w_tick (snd (run_state (State_Monad.bind m f) (stopped n w)))"
  proof (cases "n < w_tick w1")
    case True
    then have "n < w_tick u" using M(5)[of n] by (simp add: ru)
    then show ?thesis using beyond_cut(2)[OF f env, of x'] by (simp add: ru)
  next
    case False
    then show ?thesis using F(5) by (simp add: M(3))
  qed
  ultimately show "w_env w2 = w_env w \<and> w_tick w \<le> w_tick w2
     \<and> (w_tick w2 \<le> n \<longrightarrow> run_state (State_Monad.bind m f) (stopped n w) = (y, stopped n w2))
     \<and> (n \<le> w_tick w \<longrightarrow> w_db (snd (run_state (State_Monad.bind m f) (stopped n w))) = w_db w)
     \<and> (n < w_tick w2 \<longrightarrow> n < w_tick (snd (run_state (State_Monad.bind m f) (stopped n w))))"
    using M(1,2) F(1,2) by simp
qed

lemma cuttable_if [cut_intros]:
  "(b \<Longrightarrow> cuttable m) \<Longrightarrow> (\<not> b \<Longrightarrow> cuttable n) \<Longrightarrow> cuttable (if b then m else n)"
  by simp

lemma cuttable_case_sum [cut_intros]:
  "(\<And>e. r = Inl e \<Longrightarrow> cuttable (m e)) \<Longrightarrow> (\<And>v. r = Inr v \<Longrightarrow> cuttable (n v))
   \<Longrightarrow> cuttable (case r of Inl e \<Rightarrow> m e | Inr v \<Rightarrow> n v)"
  by (cases r) simp_all

lemma cuttable_case_option [cut_intros]:
  "(r = None \<Longrightarrow> cuttable m) \<Longrightarrow> (\<And>v. r = Some v \<Longrightarrow> cuttable (n v))
   \<Longrightarrow> cuttable (case r of None \<Rightarrow> m | Some v \<Rightarrow> n v)"
  by (cases r) simp_all

lemma cuttable_case_prod [cut_intros]:
  "(\<And>x y. r = (x, y) \<Longrightarrow> cuttable (m x y)) \<Longrightarrow> cuttable (case r of (x, y) \<Rightarrow> m x y)"
  by (cases r) simp

lemma cuttable_Let [cut_intros]: "cuttable (f x) \<Longrightarrow> cuttable (Let x f)"
  by simp

lemma cuttable_foreach [cut_intros]:
  "(\<And>x acc. cuttable (body x acc)) \<Longrightarrow> cuttable (foreach xs body acc)"
  by (induction xs arbitrary: acc) (simp_all add: cuttable_return cuttable_bind)

lemma cuttable_observe:
  "(\<And>n e. f (stopped_env n e) = f e) \<Longrightarrow> cuttable (observe f)"
  by (rule cuttableI) (auto simp: observe_def)

lemma cuttable_observations [cut_intros]:
  "cuttable (observe probe_at)" "cuttable (observe count_at)" "cuttable run_exec" "cuttable time_Now" "cuttable uuid_New"
  by (simp_all add: cuttable_observe run_exec_def time_Now_def uuid_New_def)

lemma cuttable_run_command [cut_intros]: "cuttable (run_command args)"
  by (rule cuttableI) (auto simp: run_command_def)

lemma cuttable_run_query [cut_intros]: "cuttable (run_query msg q)"
  by (rule cuttableI) (auto simp: run_query_def Let_def split: outcome.splits)

lemma cuttable_run_stmt [cut_intros]: "cuttable (run_stmt msg stmt)"
  by (rule cuttableI) (auto simp: run_stmt_def Let_def split: outcome.splits sum.splits)

lemma cuttable_run_put:
  assumes "\<And>t w. w_env (f t w) = w_env w \<and> w_tick (f t w) = w_tick w" "\<And>t w n. f t (stopped n w) = stopped n (f t w)"
  shows "cuttable (run_put msg f)"
  by (rule cuttableI) (auto simp: run_put_def Let_def assms split: outcome.splits)

lemma cuttable_update:
  assumes "\<And>w. w_env (f w) = w_env w \<and> w_tick (f w) = w_tick w \<and> w_db (f w) = w_db w" "\<And>w n. f (stopped n w) = stopped n (f w)"
  shows "cuttable (State_Monad.update f)"
  by (rule cuttableI) (auto simp: State_Monad.update_def State_Monad.get_def State_Monad.set_def State_Monad.bind_def assms)

lemma cuttable_row_or [cut_intros]: "cuttable (row_or missing msg q)"
  unfolding row_or_def by (intro cut_intros)

lemma cuttable_rows_or [cut_intros]: "cuttable m \<Longrightarrow> cuttable (rows_or missing m)"
  unfolding rows_or_def by (intro cut_intros)

lemma cuttable_video_exec [cut_intros]: "cuttable (video_exec f i)"
  unfolding video_exec_def by (intro cut_intros)

lemma cuttable_video_repo [cut_intros]:
  "cuttable (VideoRepo_GetByID i)" "cuttable (VideoRepo_UpdateStatus i st)" "cuttable (VideoRepo_UpdateProgress i p)"
  "cuttable (VideoRepo_UpdateDuration i n)" "cuttable (VideoRepo_UpdateResolution i s)"
  "cuttable (VideoRepo_UpdateHLSInfo i s b)" "cuttable (VideoRepo_MarkAsReady i qs s)" "cuttable (VideoRepo_MarkAsFailed i)"
  unfolding VideoRepo_GetByID_def VideoRepo_UpdateStatus_def VideoRepo_UpdateProgress_def VideoRepo_UpdateDuration_def
    VideoRepo_UpdateResolution_def VideoRepo_UpdateHLSInfo_def VideoRepo_MarkAsReady_def VideoRepo_MarkAsFailed_def
  by (intro cut_intros)+

section \<open>The tables after so many calls\<close>

lemma db_at_start: "cuttable m \<Longrightarrow> n \<le> w_tick w \<Longrightarrow> db_at m w n = w_db w"
  using cuttableD(4)[of m w _ _ n] by (metis db_at_def prod.collapse)

lemma db_at_end: "cuttable m \<Longrightarrow> run_state m w = (x, w1) \<Longrightarrow> w_tick w1 \<le> n \<Longrightarrow> db_at m w n = w_db w1"
  by (simp add: db_at_def cuttableD(3))

lemma db_at_bind:
  assumes m: "cuttable m" and f: "\<And>x. cuttable (f x)" and r: "run_state m w = (x, w1)"
  shows "db_at (State_Monad.bind m f) w n = (if n < w_tick w1 then db_at m w n else db_at (f x) w1 n)"
proof (cases "n < w_tick w1")
  case True
  obtain x' u where ru: "run_state m (stopped n w) = (x', u)" by fastforce
  have "w_env u = stopped_env n (w_env w)" "n < w_tick u"
    using cuttableD(1)[OF m ru] cuttableD(5)[OF m r True] by (simp_all add: ru)
  then show ?thesis using True beyond_cut(1)[OF f, of u n "w_env w" x'] by (simp add: db_at_def ru)
next
  case False
  then show ?thesis using cuttableD(3)[OF m r, of n] by (simp add: db_at_def)
qed

lemma trail_not_Nil [simp]: "cuttable m \<Longrightarrow> trail view m w \<noteq> []"
  using cuttableD(2)[of m w] by (auto simp: trail_def) (metis le_SucI prod.collapse)


section \<open>The trail\<close>

lemma upt_split: "i \<le> j \<Longrightarrow> j \<le> k \<Longrightarrow> [i..<k] = [i..<j] @ [j..<k]"
  by (metis le_Suc_ex upt_add_eq_append)

lemma points_hd: "i \<le> k \<Longrightarrow> [i..<Suc k] = i # [Suc i..<Suc k]"
  by (simp add: upt_conv_Cons)

lemma trail_ends:
  assumes "cuttable m" "run_state m w = (x, w1)"
  shows "hd (trail view m w) = view (w_db w)" "last (trail view m w) = view (w_db w1)" "trail view m w \<noteq> []"
proof -
  have le: "w_tick w \<le> w_tick w1" by (rule cuttableD(2)[OF assms])
  show "trail view m w \<noteq> []" using le by (simp add: trail_def assms(2))
  show "hd (trail view m w) = view (w_db w)"
    unfolding trail_def assms(2) snd_conv points_hd[OF le] by (simp add: db_at_start[OF assms(1)] hd_remdups_adj del: upt_Suc)
  show "last (trail view m w) = view (w_db w1)"
    using le by (simp add: trail_def assms(2) db_at_end[OF assms])
qed

lemma trail_bind:
  assumes m: "cuttable m" and f: "\<And>x. cuttable (f x)" and r: "run_state m w = (x, w1)"
  shows "trail view (State_Monad.bind m f) w = trail view m w @ tl (trail view (f x) w1)"
proof -
  obtain y w2 where r2: "run_state (f x) w1 = (y, w2)" by fastforce
  have le: "w_tick w \<le> w_tick w1" "w_tick w1 \<le> w_tick w2"
    using cuttableD(2)[OF m r] cuttableD(2)[OF f r2] by simp_all
  let ?shown = "\<lambda>p (u :: world) n. view (db_at p u n)" and ?v = "view (w_db w1)"
  have "map (?shown (State_Monad.bind m f) w) [w_tick w ..< Suc (w_tick w2)]
      = map (?shown m w) [w_tick w ..< w_tick w1] @ map (?shown (f x) w1) [w_tick w1 ..< Suc (w_tick w2)]"
    unfolding upt_split[OF le(1) le_SucI[OF le(2)]] by (simp add: db_at_bind[OF m f r] del: upt_Suc)
  also have "map (?shown (f x) w1) [w_tick w1 ..< Suc (w_tick w2)]
      = ?v # map (?shown (f x) w1) [Suc (w_tick w1) ..< Suc (w_tick w2)]"
    unfolding points_hd[OF le(2)] by (simp add: db_at_start[OF f] del: upt_Suc)
  finally have "trail view (State_Monad.bind m f) w
      = remdups_adj (map (?shown m w) [w_tick w ..< w_tick w1] @ [?v])
        @ tl (remdups_adj (?v # map (?shown (f x) w1) [Suc (w_tick w1) ..< Suc (w_tick w2)]))"
    by (simp add: trail_def r r2 remdups_adj_append[of _ _ "map (?shown (f x) w1) [Suc (w_tick w1) ..< Suc (w_tick w2)]"] del: upt_Suc)
  moreover have "trail view m w = remdups_adj (map (?shown m w) [w_tick w ..< w_tick w1] @ [?v])"
    using le by (simp add: trail_def r db_at_end[OF m r])
  moreover have "trail view (f x) w1 = remdups_adj (?v # map (?shown (f x) w1) [Suc (w_tick w1) ..< Suc (w_tick w2)])"
    unfolding trail_def r2 snd_conv points_hd[OF le(2)] by (simp add: db_at_start[OF f] del: upt_Suc)
  ultimately show ?thesis by simp
qed

lemma remdups_adj_constant: "xs \<noteq> [] \<Longrightarrow> (\<forall>x \<in> set xs. x = a) \<Longrightarrow> remdups_adj xs = [a]"
  by (induction xs rule: remdups_adj.induct) auto

text \<open>A program that leaves the view alone, whatever the world, shows one point.\<close>

definition still :: "(db \<Rightarrow> 'b) \<Rightarrow> 'a prog \<Rightarrow> bool" where
  "still view m = (\<forall>w. view (w_db (snd (run_state m w))) = view (w_db w))"

lemma trail_still:
  assumes "cuttable m" "still view m"
  shows "trail view m w = [view (w_db w)]"
proof -
  have "view (db_at m w n) = view (w_db w)" for n
    using assms(2) by (simp add: still_def db_at_def)
  moreover have "w_tick w \<le> w_tick (snd (run_state m w))"
    using cuttableD(2)[OF assms(1)] by (metis prod.collapse)
  ultimately show ?thesis unfolding trail_def by (intro remdups_adj_constant) auto
qed

lemma still_steps:
  "steps (on_db r) m \<Longrightarrow> (\<And>d d'. r d d' \<Longrightarrow> view d' = view d) \<Longrightarrow> still view m"
  by (auto simp: steps_def on_db_def still_def)

text \<open>A statement that updates one row of the videos shows the row before and after it, or before only.\<close>

lemma trail_video_exec:
  assumes r: "run_state (video_exec f i) w = (x, w1)"
  shows "trail view (video_exec f i) w = remdups_adj [view (w_db w), view (w_db w1)]"
proof -
  have "wp (video_exec f i) (\<lambda>_ w'. w_tick w' = Suc (w_tick w)) w"
    by (auto simp: wp_video_exec Let_def split: outcome.splits)
  from wp_result[OF this r] show ?thesis
    by (simp add: trail_def r db_at_start[OF cuttable_video_exec] db_at_end[OF cuttable_video_exec r])
qed

section \<open>A calculus\<close>

text \<open>\<^verbatim>\<open>shows view m Q w\<close>: the result of \<^verbatim>\<open>m\<close> in \<^verbatim>\<open>w\<close> and its trail satisfy \<^verbatim>\<open>Q\<close>.\<close>

definition displays :: "(db \<Rightarrow> 'b) \<Rightarrow> 'a prog \<Rightarrow> ('a \<Rightarrow> 'b list \<Rightarrow> bool) \<Rightarrow> world \<Rightarrow> bool" where
  "displays view m Q w = Q (fst (run_state m w)) (trail view m w)"

lemma displays_mono: "displays view m P w \<Longrightarrow> (\<And>x ts. P x ts \<Longrightarrow> Q x ts) \<Longrightarrow> displays view m Q w"
  by (simp add: displays_def)

lemma displays_bind:
  assumes "cuttable m" "\<And>x. cuttable (f x)"
    and "\<And>x w1. run_state m w = (x, w1) \<Longrightarrow> displays view (f x) (\<lambda>y ts. Q y (trail view m w @ tl ts)) w1"
  shows "displays view (State_Monad.bind m f) Q w"
proof -
  obtain x w1 where r: "run_state m w = (x, w1)" by fastforce
  show ?thesis using assms(3)[OF r] trail_bind[OF assms(1,2) r, of view] by (simp add: displays_def r)
qed

lemma displays_still_run:
  assumes m: "cuttable m" "still view m" and f: "\<And>x. cuttable (f x)"
    and k: "\<And>x w1. run_state m w = (x, w1) \<Longrightarrow> view (w_db w1) = view (w_db w) \<Longrightarrow> displays view (f x) Q w1"
  shows "displays view (State_Monad.bind m f) Q w"
proof (rule displays_bind[OF m(1) f])
  fix x w1 assume r: "run_state m w = (x, w1)"
  have same: "view (w_db w1) = view (w_db w)" using m(2) by (auto simp: still_def r dest: spec[of _ w])
  obtain y w2 where r2: "run_state (f x) w1 = (y, w2)" by fastforce
  have "trail view m w @ tl (trail view (f x) w1) = trail view (f x) w1"
    using trail_ends(1,3)[OF f r2, of view] by (cases "trail view (f x) w1") (auto simp: trail_still[OF m] same)
  then show "displays view (f x) (\<lambda>y ts. Q y (trail view m w @ tl ts)) w1"
    using k[OF r same] by (simp add: displays_def)
qed

lemma displays_still_bind:
  assumes "cuttable m" "still view m" "\<And>x. cuttable (f x)"
    and "\<And>x w1. view (w_db w1) = view (w_db w) \<Longrightarrow> displays view (f x) Q w1"
  shows "displays view (State_Monad.bind m f) Q w"
  by (rule displays_still_run[OF assms(1-3)]) (rule assms(4))

lemma displays_still:
  "cuttable m \<Longrightarrow> still view m \<Longrightarrow> (\<And>x. Q x [view (w_db w)]) \<Longrightarrow> displays view m Q w"
  by (simp add: displays_def trail_still)

lemma displays_return: "Q x [view (w_db w)] \<Longrightarrow> displays view (State_Monad.return x) Q w"
  by (simp add: displays_def trail_def db_at_def State_Monad.return_def)

end
