(* ===== verification/Transcode.thy ===== *)
theory Transcode
  imports VideoRepo Storage Http
begin

text \<open>
  The transcoding pipeline: \<^verbatim>\<open>internal/service/transcoding_service.go\<close> (the quality ladder,
  ProcessVideo, HLS conversion, the master playlist, the thumbnail), the queue client and the
  worker's task handler (\<^verbatim>\<open>internal/queue\<close>), and the admin retry endpoint.  ffmpeg and ffprobe
  are observed through the environment: each run succeeds or fails as the environment says.
\<close>

section \<open>The quality ladder\<close>

record QualitySpec =
  qs_Name :: string
  qs_Width :: int
  qs_Height :: int
  qs_Bitrate :: string
  qs_MaxRate :: string
  qs_BufSize :: string
  qs_FPS :: int

text \<open>A missing key of the Go map reads as the zero value.\<close>

definition qualitySpecs :: "string \<Rightarrow> QualitySpec" where
  "qualitySpecs q =
    (if q = ''360p'' then \<lparr> qs_Name = ''360p'', qs_Width = 640, qs_Height = 360, qs_Bitrate = ''800k'',
        qs_MaxRate = ''900k'', qs_BufSize = ''1800k'', qs_FPS = 30 \<rparr>
     else if q = ''480p'' then \<lparr> qs_Name = ''480p'', qs_Width = 854, qs_Height = 480, qs_Bitrate = ''1400k'',
        qs_MaxRate = ''1500k'', qs_BufSize = ''3000k'', qs_FPS = 30 \<rparr>
     else if q = ''720p'' then \<lparr> qs_Name = ''720p'', qs_Width = 1280, qs_Height = 720, qs_Bitrate = ''2800k'',
        qs_MaxRate = ''3000k'', qs_BufSize = ''6000k'', qs_FPS = 30 \<rparr>
     else if q = ''1080p'' then \<lparr> qs_Name = ''1080p'', qs_Width = 1920, qs_Height = 1080, qs_Bitrate = ''5000k'',
        qs_MaxRate = ''5500k'', qs_BufSize = ''11000k'', qs_FPS = 60 \<rparr>
     else \<lparr> qs_Name = '''', qs_Width = 0, qs_Height = 0, qs_Bitrate = '''', qs_MaxRate = '''', qs_BufSize = '''', qs_FPS = 0 \<rparr>)"

definition qualities :: "string list" where
  "qualities = [''360p'', ''480p'', ''720p'', ''1080p'']"

section \<open>ffmpeg and ffprobe\<close>

text \<open>ExtractMetadata as an observation: ffprobe fails, times out or reports the metadata.\<close>

definition ExtractMetadata :: "string \<Rightarrow> (err + VideoMetadata) prog" where
  "ExtractMetadata filePath = State_Monad.bind (observe probe_at) (\<lambda>m. case m of
     None \<Rightarrow> State_Monad.return (Inl (ErrOther ''ffprobe execution failed''))
   | Some md \<Rightarrow> State_Monad.return (Inr md))"

definition transcode_args :: "string \<Rightarrow> string \<Rightarrow> QualitySpec \<Rightarrow> string list" where
  "transcode_args inputPath outputPath spec =
     [''-i'', inputPath, ''-vf'', ''scale='' @ Itoa (qs_Width spec) @ '':'' @ Itoa (qs_Height spec),
      ''-c:v'', ''libx264'', ''-preset'', ''medium'', ''-crf'', ''23'', ''-b:v'', qs_Bitrate spec,
      ''-maxrate'', qs_MaxRate spec, ''-bufsize'', qs_BufSize spec, ''-r'', Itoa (qs_FPS spec),
      ''-c:a'', ''aac'', ''-b:a'', ''128k'', ''-movflags'', ''+faststart'', ''-y'', outputPath]"

definition transcodeVideo :: "string \<Rightarrow> string \<Rightarrow> QualitySpec \<Rightarrow> (err + unit) prog" where
  "transcodeVideo inputPath outputPath spec =
     State_Monad.bind (run_command (transcode_args inputPath outputPath spec)) (\<lambda>ok.
       State_Monad.return (if ok then Inr () else Inl (ErrOther ''ffmpeg failed'')))"

text \<open>\<^verbatim>\<open>%.2f\<close> of a non-negative number, a tie to the even digit (the exact value stands for the float).\<close>

definition round_even :: "rat \<Rightarrow> int" where
  "round_even r = (let n = \<lfloor>r\<rfloor>; f = r - of_int n in if f < 1 / 2 \<or> (f = 1 / 2 \<and> even n) then n else n + 1)"

definition fixed2 :: "rat \<Rightarrow> string" where
  "fixed2 r = (let n = round_even (r * 100) in
     Itoa (n div 100) @ ''.'' @ Itoa (n mod 100 div 10) @ Itoa (n mod 10))"

definition generateThumbnail :: "StorageConfig \<Rightarrow> string \<Rightarrow> string \<Rightarrow> rat \<Rightarrow> (err + string) prog" where
  "generateThumbnail cfg inputPath videoID duration = do {
     made \<leftarrow> run_exec;
     if \<not> made then State_Monad.return (Inl (ErrOther ''failed to create thumbnail directory''))
     else do {
       let thumbnailPath = path_Join [ThumbnailPath cfg, videoID @ ''.jpg''];
       let seekTime = (if duration / 10 > 10 then 10 else duration / 10);
       ok \<leftarrow> run_command [''-i'', inputPath, ''-ss'', fixed2 seekTime, ''-vframes'', ''1'',
                          ''-vf'', ''scale=320:180'', ''-y'', thumbnailPath];
       if \<not> ok then State_Monad.return (Inl (ErrOther ''ffmpeg thumbnail generation failed''))
       else State_Monad.return (Inr (path_Join [''thumbnails'', videoID @ ''.jpg'']))
     }
   }"

definition hls_args :: "string \<Rightarrow> string \<Rightarrow> string \<Rightarrow> string list" where
  "hls_args mp4Path segmentPattern playlistPath =
     [''-i'', mp4Path, ''-c:v'', ''copy'', ''-c:a'', ''copy'', ''-f'', ''hls'', ''-hls_time'', ''6'',
      ''-hls_playlist_type'', ''vod'', ''-hls_segment_filename'', segmentPattern,
      ''-hls_list_size'', ''0'', ''-y'', playlistPath]"

text \<open>After the conversion: at least one segment and the playlist must be on disk.\<close>

definition check_hls_output :: "(err + unit) prog" where
  "check_hls_output = do {
     globbed \<leftarrow> run_exec;
     segments \<leftarrow> observe count_at;
     if \<not> globbed then State_Monad.return (Inl (ErrOther ''failed to verify segments''))
     else if segments = 0 then State_Monad.return (Inl (ErrOther ''no segments generated''))
     else do {
       present \<leftarrow> run_exec;
       State_Monad.return (if present then Inr () else Inl (ErrOther ''playlist file not created''))
     }
   }"

definition ConvertToHLS :: "StorageConfig \<Rightarrow> string \<Rightarrow> string \<Rightarrow> string \<Rightarrow> (err + unit) prog" where
  "ConvertToHLS cfg videoID quality mp4Path = do {
     let hlsDir = path_Join [TranscodedPath cfg, videoID, ''hls'', quality];
     made \<leftarrow> run_exec;
     if \<not> made then State_Monad.return (Inl (ErrOther ''failed to create HLS directory''))
     else do {
       let args = hls_args mp4Path (path_Join [hlsDir, ''segment_%03d.ts'']) (path_Join [hlsDir, ''playlist.m3u8'']);
       ok \<leftarrow> run_command args;
       if ok then check_hls_output
       else do {
         live \<leftarrow> run_exec;
         if \<not> live then State_Monad.return (Inl (ErrOther ''HLS conversion cancelled or timed out''))
         else do {
           ok2 \<leftarrow> run_command args;
           if \<not> ok2 then State_Monad.return (Inl (ErrOther ''HLS conversion failed after retry''))
           else check_hls_output
         }
       }
     }
   }"

section \<open>The master playlist\<close>

definition bandwidthMap :: "string \<Rightarrow> int" where
  "bandwidthMap q = (if q = ''360p'' then 800000 else if q = ''480p'' then 1400000
     else if q = ''720p'' then 2800000 else if q = ''1080p'' then 5000000 else 0)"

definition resolutionMap :: "string \<Rightarrow> string" where
  "resolutionMap q = (if q = ''360p'' then ''640x360'' else if q = ''480p'' then ''854x480''
     else if q = ''720p'' then ''1280x720'' else if q = ''1080p'' then ''1920x1080'' else '''')"

abbreviation newline :: string where "newline \<equiv> [CHR 0x0A]"

definition master_entry :: "string \<Rightarrow> string" where
  "master_entry quality = ''#EXT-X-STREAM-INF:BANDWIDTH='' @ Itoa (bandwidthMap quality) @ '',RESOLUTION=''
     @ resolutionMap quality @ newline @ quality @ ''/playlist.m3u8'' @ newline"

definition GenerateMasterPlaylist :: "StorageConfig \<Rightarrow> string \<Rightarrow> string list \<Rightarrow> (err + unit) prog" where
  "GenerateMasterPlaylist cfg videoID qs = do {
     let masterPath = path_Join [path_Join [TranscodedPath cfg, videoID, ''hls''], ''master.m3u8''];
     created \<leftarrow> run_exec;
     if \<not> created then State_Monad.return (Inl (ErrOther ''failed to create master playlist''))
     else do {
       content \<leftarrow> foreach qs (\<lambda>quality acc. do {
           present \<leftarrow> run_exec;
           State_Monad.return (if present then acc @ master_entry quality else acc)
         }) (''#EXTM3U'' @ newline @ ''#EXT-X-VERSION:3'' @ newline);
       State_Monad.update (\<lambda>w. w\<lparr> w_files := (w_files w)(masterPath := Some content) \<rparr>);
       State_Monad.return (Inr ())
     }
   }"

section \<open>ProcessVideo\<close>

text \<open>\<^verbatim>\<open>int(float64(i) / float64(totalSteps) * 100)\<close>.\<close>

definition step_progress :: "nat \<Rightarrow> int" where
  "step_progress i = int (i * 100 div (length qualities + 2))"

text \<open>The body of the rendition loop; errors of the progress update are only logged.\<close>

definition render_quality :: "string \<Rightarrow> uuid \<Rightarrow> string \<Rightarrow> VideoMetadata \<Rightarrow> nat \<times> string \<Rightarrow> string list
    \<Rightarrow> string list prog" where
  "render_quality outputDir i filePath metadata iq transcoded = (case iq of (n, quality) \<Rightarrow>
     let spec = qualitySpecs quality in
     if md_Height metadata < qs_Height spec then State_Monad.return transcoded
     else do {
       _ \<leftarrow> VideoRepo_UpdateProgress i (step_progress n);
       r \<leftarrow> transcodeVideo filePath (path_Join [outputDir, quality @ ''.mp4'']) spec;
       State_Monad.return (case r of Inl e \<Rightarrow> transcoded | Inr _ \<Rightarrow> transcoded @ [quality])
     })"

definition convert_quality :: "StorageConfig \<Rightarrow> string \<Rightarrow> string \<Rightarrow> string \<Rightarrow> string list \<Rightarrow> string list prog" where
  "convert_quality cfg outputDir videoID quality hlsQualities = do {
     r \<leftarrow> ConvertToHLS cfg videoID quality (path_Join [outputDir, quality @ ''.mp4'']);
     State_Monad.return (case r of Inl e \<Rightarrow> hlsQualities | Inr _ \<Rightarrow> hlsQualities @ [quality])
   }"

definition publish_hls :: "StorageConfig \<Rightarrow> string \<Rightarrow> uuid \<Rightarrow> string list \<Rightarrow> unit prog" where
  "publish_hls cfg videoID i hlsQualities =
     (if length hlsQualities > 0 then do {
        r \<leftarrow> GenerateMasterPlaylist cfg videoID hlsQualities;
        case r of Inl e \<Rightarrow> State_Monad.return ()
        | Inr _ \<Rightarrow> do {
            _ \<leftarrow> VideoRepo_UpdateHLSInfo i (''transcoded/'' @ videoID @ ''/hls/master.m3u8'') True;
            State_Monad.return ()
          }
      } else State_Monad.return ())"

text \<open>From the first progress update to the end (lines 149--271).\<close>

definition process_renditions :: "StorageConfig \<Rightarrow> string \<Rightarrow> uuid \<Rightarrow> string \<Rightarrow> VideoMetadata \<Rightarrow> string
    \<Rightarrow> (err + unit) prog" where
  "process_renditions cfg videoID i filePath metadata outputDir = do {
     transcoded \<leftarrow> foreach (List.enumerate 0 qualities) (render_quality outputDir i filePath metadata) [];
     if length transcoded = 0 then do {
       _ \<leftarrow> VideoRepo_MarkAsFailed i;
       State_Monad.return (Inl (ErrOther ''failed to transcode any quality''))
     } else do {
       _ \<leftarrow> VideoRepo_UpdateProgress i (step_progress (length qualities));
       hlsQualities \<leftarrow> foreach transcoded (convert_quality cfg outputDir videoID) [];
       _ \<leftarrow> publish_hls cfg videoID i hlsQualities;
       _ \<leftarrow> VideoRepo_UpdateProgress i (step_progress (length qualities + 1));
       t \<leftarrow> generateThumbnail cfg filePath videoID (md_Duration metadata);
       let thumbnailPath = (case t of Inl e \<Rightarrow> '''' | Inr p \<Rightarrow> p);
       ready \<leftarrow> VideoRepo_MarkAsReady i transcoded thumbnailPath;
       case ready of Inl e \<Rightarrow> State_Monad.return (Inl e)
       | Inr _ \<Rightarrow> do {
           _ \<leftarrow> VideoRepo_UpdateProgress i 100;
           State_Monad.return (Inr ())
         }
     }
   }"

text \<open>\<^verbatim>\<open>int(metadata.Duration)\<close> truncates towards zero.\<close>

definition trunc :: "rat \<Rightarrow> int" where
  "trunc r = (if 0 \<le> r then \<lfloor>r\<rfloor> else \<lceil>r\<rceil>)"

definition process_claimed :: "StorageConfig \<Rightarrow> string \<Rightarrow> uuid \<Rightarrow> string \<Rightarrow> (err + unit) prog" where
  "process_claimed cfg videoID i filePath = do {
     m \<leftarrow> ExtractMetadata filePath;
     case m of Inl e \<Rightarrow> do {
         _ \<leftarrow> VideoRepo_MarkAsFailed i;
         State_Monad.return (Inl e)
       }
     | Inr metadata \<Rightarrow> do {
         _ \<leftarrow> VideoRepo_UpdateDuration i (trunc (md_Duration metadata));
         _ \<leftarrow> VideoRepo_UpdateResolution i (Itoa (md_Width metadata) @ ''x'' @ Itoa (md_Height metadata));
         let outputDir = path_Join [TranscodedPath cfg, videoID];
         made \<leftarrow> run_exec;
         if \<not> made then do {
           _ \<leftarrow> VideoRepo_MarkAsFailed i;
           State_Monad.return (Inl (ErrOther ''failed to create output directory''))
         } else process_renditions cfg videoID i filePath metadata outputDir
       }
   }"

definition ProcessVideo :: "uuid_lib \<Rightarrow> StorageConfig \<Rightarrow> string \<Rightarrow> (err + unit) prog" where
  "ProcessVideo lib cfg videoID = (case uuid_Parse lib videoID of
     None \<Rightarrow> State_Monad.return (Inl (ErrOther ''invalid video ID''))
   | Some i \<Rightarrow> do {
       g \<leftarrow> VideoRepo_GetByID i;
       case g of Inl e \<Rightarrow> State_Monad.return (Inl e)
       | Inr video \<Rightarrow>
           if v_Status video \<noteq> VideoStatusUploading \<and> v_Status video \<noteq> VideoStatusFailed
           then State_Monad.return (Inl (ErrOther ''video status is not uploading or failed''))
           else do {
             u \<leftarrow> VideoRepo_UpdateStatus i VideoStatusProcessing;
             case u of Inl e \<Rightarrow> State_Monad.return (Inl e)
             | Inr _ \<Rightarrow> process_claimed cfg videoID i (v_FilePath video)
           }
     })"

section \<open>The queue and the admin retry endpoint\<close>

definition getQueueName :: "int \<Rightarrow> string" where
  "getQueueName priority = (if priority \<ge> 2 then ''critical'' else if priority \<le> - 1 then ''low'' else ''default'')"

definition EnqueueVideoProcessing :: "uuid \<Rightarrow> int \<Rightarrow> (err + unit) prog" where
  "EnqueueVideoProcessing i priority = run_put ''failed to enqueue task''
     (\<lambda>t w. w\<lparr> w_jobs := w_jobs w @ [\<lparr> job_VideoID = i, job_Priority = priority, job_Queue = getQueueName priority \<rparr>] \<rparr>)"

definition RetryVideo :: "uuid_lib \<Rightarrow> request \<Rightarrow> uuid response prog" where
  "RetryVideo lib c = (case ValidateUUID lib (rq_param c ''id'') of
     Inl e \<Rightarrow> State_Monad.return (ValidationError ''Invalid video ID format'')
   | Inr videoID \<Rightarrow> do {
       g \<leftarrow> VideoRepo_GetByID videoID;
       case g of Inl e \<Rightarrow> State_Monad.return
           (if e = ErrVideoNotFound then NotFound ''Video not found'' else InternalError ''Failed to retrieve video'')
       | Inr video \<Rightarrow>
           if v_Status video \<noteq> VideoStatusFailed
           then State_Monad.return (BadRequest ''Only failed videos can be retried'')
           else do {
             u \<leftarrow> VideoRepo_UpdateStatus videoID VideoStatusUploading;
             case u of Inl e \<Rightarrow> State_Monad.return (InternalError ''Failed to update video status'')
             | Inr _ \<Rightarrow> do {
                 q \<leftarrow> EnqueueVideoProcessing videoID 1;
                 case q of Inl e \<Rightarrow> State_Monad.return (InternalError ''Failed to enqueue video for processing'')
                 | Inr _ \<Rightarrow> State_Monad.return (Success 200 videoID)
               }
           }
     })"

end
