(* ===== verification/TranscodeProps.thy ===== *)
theory TranscodeProps
  imports Transcode Trail Samples "HOL-Library.Sublist"
begin

text \<open>
  Correctness of the pipeline: the lifecycle of a video, that is the statuses one run of
  ProcessVideo or of the admin retry takes it through, and the refinement of it by the code; the
  result of ProcessVideo on each path; and the bounds of the progress column, each under every
  outcome of every external call.
\<close>

section \<open>The lifecycle\<close>

text \<open>
  \<^verbatim>\<open>process_path s ok p\<close>: a run of ProcessVideo on a video in status \<^verbatim>\<open>s\<close> that returns no error
  exactly if \<^verbatim>\<open>ok\<close> takes it through the statuses \<^verbatim>\<open>p\<close>.  A run that returns an error may stop
  anywhere: the last statement may have been applied and its acknowledgement lost.
\<close>

inductive process_path :: "VideoStatus \<Rightarrow> bool \<Rightarrow> VideoStatus list \<Rightarrow> bool" where
  refused: "process_path s False [s]"
| claimed: "s \<in> {VideoStatusUploading, VideoStatusFailed} \<Longrightarrow> process_path s False [s, VideoStatusProcessing]"
| failed: "s \<in> {VideoStatusUploading, VideoStatusFailed}
    \<Longrightarrow> process_path s False [s, VideoStatusProcessing, VideoStatusFailed]"
| ready: "s \<in> {VideoStatusUploading, VideoStatusFailed}
    \<Longrightarrow> process_path s ok [s, VideoStatusProcessing, VideoStatusReady]"

text \<open>The same of the admin retry, where success is the answer 200.\<close>

inductive retry_path :: "VideoStatus \<Rightarrow> bool \<Rightarrow> VideoStatus list \<Rightarrow> bool" where
  kept: "retry_path s False [s]"
| restarted: "retry_path VideoStatusFailed ok [VideoStatusFailed, VideoStatusUploading]"

inductive_simps process_path_True: "process_path s True p"
inductive_cases retry_path_True: "retry_path s True p"

definition status_at :: "uuid \<Rightarrow> db \<Rightarrow> VideoStatus option" where
  "status_at i d = map_option v_Status (lookup v_ID i (db_videos d))"

definition in_progress_range :: "Video \<Rightarrow> bool" where
  "in_progress_range v = (0 \<le> v_TranscodingProgress v \<and> v_TranscodingProgress v \<le> 100)"

definition touched :: "uuid \<Rightarrow> db \<Rightarrow> db \<Rightarrow> bool" where
  "touched i = row_moves i (\<lambda>v v'. in_progress_range v \<longrightarrow> in_progress_range v')"

definition quiet :: "uuid \<Rightarrow> db \<Rightarrow> db \<Rightarrow> bool" where
  "quiet i = row_moves i (\<lambda>v v'. v_Status v' = v_Status v \<and> (in_progress_range v \<longrightarrow> in_progress_range v'))"

definition status_in :: "uuid \<Rightarrow> VideoStatus set \<Rightarrow> db \<Rightarrow> bool" where
  "status_in i S d = (\<forall>v. lookup v_ID i (db_videos d) = Some v \<longrightarrow> v_Status v \<in> S)"

lemma preorder_touched [simp]: "preorder (touched i)"
  unfolding touched_def by (rule row_moves_preorder) auto

lemma preorder_quiet [simp]: "preorder (quiet i)"
  unfolding quiet_def by (rule row_moves_preorder) auto

lemma quiet_touched: "quiet i d d' \<Longrightarrow> touched i d d'"
  unfolding quiet_def touched_def by (auto elim: row_moves_mono)

lemma quiet_status:
  assumes "quiet i d d'" "status_in i S d"
  shows "status_in i S d'"
proof -
  have "lookup v_ID i (db_videos d') = Some v' \<Longrightarrow> v_Status v' \<in> S" for v'
    using assms row_moves_lookup(2,3)[of i _ d d']
    unfolding quiet_def status_in_def by (cases "lookup v_ID i (db_videos d)") fastforce+
  then show ?thesis by (simp add: status_in_def)
qed

lemma wp_steps: "steps R m \<Longrightarrow> (\<And>x t. R s t \<Longrightarrow> Q x t) \<Longrightarrow> wp m Q s"
  by (simp add: steps_def wp_def case_prod_unfold)

lemma steps_update_db: "preorder r \<Longrightarrow> (\<And>w. w_db (f w) = w_db w) \<Longrightarrow> steps (on_db r) (State_Monad.update f)"
  by (simp add: steps_def State_Monad.update_def State_Monad.get_def State_Monad.set_def on_db_def preorder_refl)

section \<open>What each operation does to the row\<close>

lemma quiet_exec:
  assumes "\<And>t v. v_ID (f t v) = v_ID v" "\<And>t v. v_Status (f t v) = v_Status v"
    "\<And>t v. v_TranscodingProgress (f t v) = v_TranscodingProgress v"
  shows "steps (on_db (quiet i)) (video_exec f i)"
  using assms preorder_quiet[of i] unfolding quiet_def
  by (intro steps_video_exec) (auto simp: in_progress_range_def)

lemma quiet_UpdateProgress: "steps (on_db (quiet i)) (VideoRepo_UpdateProgress i p)"
  using preorder_quiet[of i] unfolding quiet_def
  by (rule steps_UpdateProgress) (auto simp: in_progress_range_def)

lemma quiet_UpdateDuration: "steps (on_db (quiet i)) (VideoRepo_UpdateDuration i n)"
  unfolding VideoRepo_UpdateDuration_def by (rule quiet_exec) simp_all

lemma quiet_UpdateResolution: "steps (on_db (quiet i)) (VideoRepo_UpdateResolution i s)"
  unfolding VideoRepo_UpdateResolution_def by (rule quiet_exec) simp_all

lemma quiet_UpdateHLSInfo: "steps (on_db (quiet i)) (VideoRepo_UpdateHLSInfo i p b)"
  unfolding VideoRepo_UpdateHLSInfo_def by (rule quiet_exec) simp_all

lemma touched_MarkAsFailed: "steps (on_db (touched i)) (VideoRepo_MarkAsFailed i)"
  unfolding VideoRepo_MarkAsFailed_def touched_def
  by (rule steps_video_exec) (use preorder_touched[of i, unfolded touched_def] in \<open>auto simp: in_progress_range_def\<close>)

lemma steps_transcodeVideo [steps_intros]: "preorder r \<Longrightarrow> steps (on_db r) (transcodeVideo a b s)"
  unfolding transcodeVideo_def by (intro steps_intros preorder_on_db)

lemma steps_check_hls_output [steps_intros]: "preorder r \<Longrightarrow> steps (on_db r) check_hls_output"
  unfolding check_hls_output_def by (intro steps_intros preorder_on_db)

lemma steps_generateThumbnail [steps_intros]: "preorder r \<Longrightarrow> steps (on_db r) (generateThumbnail cfg a b d)"
  unfolding generateThumbnail_def by (intro steps_intros preorder_on_db)

lemma steps_ConvertToHLS [steps_intros]: "preorder r \<Longrightarrow> steps (on_db r) (ConvertToHLS cfg a b d)"
  unfolding ConvertToHLS_def by (intro steps_intros preorder_on_db)

lemma steps_GenerateMasterPlaylist [steps_intros]:
  "preorder r \<Longrightarrow> steps (on_db r) (GenerateMasterPlaylist cfg a qs)"
  unfolding GenerateMasterPlaylist_def by (intro steps_intros steps_update_db preorder_on_db) auto

lemma steps_convert_quality [steps_intros]: "preorder r \<Longrightarrow> steps (on_db r) (convert_quality cfg a b q acc)"
  unfolding convert_quality_def by (intro steps_intros preorder_on_db)

lemma quiet_render_quality: "steps (on_db (quiet i)) (render_quality dir i fp md iq acc)"
  unfolding render_quality_def by (intro steps_intros preorder_on_db quiet_UpdateProgress) simp_all

lemma quiet_publish_hls: "steps (on_db (quiet i)) (publish_hls cfg videoID i qs)"
  unfolding publish_hls_def by (intro steps_intros preorder_on_db quiet_UpdateHLSInfo) simp_all

lemma quiet_renditions: "steps (on_db (quiet i)) (foreach xs (render_quality dir i fp md) acc)"
  by (intro steps_foreach quiet_render_quality) simp

section \<open>The renditions\<close>

definition fits :: "VideoMetadata \<Rightarrow> string \<Rightarrow> bool" where
  "fits md q = (qs_Height (qualitySpecs q) \<le> md_Height md)"

lemma wp_render_quality:
  assumes "subseq acc (filter (fits md) qs)"
  shows "wp (render_quality dir i fp md (n, q) acc) (\<lambda>acc' _. subseq acc' (filter (fits md) (qs @ [q]))) w"
proof (cases "md_Height md < qs_Height (qualitySpecs q)")
  case True
  then show ?thesis
    using assms by (simp add: render_quality_def wp_simps fits_def)
next
  case False
  have grow: "subseq acc (filter (fits md) qs @ [q])"
    using assms by (metis append_Nil2 list_emb_append_mono list_emb_Nil)
  have both: "subseq (acc @ [q]) (filter (fits md) qs @ [q])"
    using assms by (simp add: list_emb_append_mono)
  show ?thesis
    using False grow both
    by (auto simp: render_quality_def wp_simps Let_def fits_def transcodeVideo_def wpI
        intro!: wp_steps[OF steps_mono[OF quiet_UpdateProgress, of _ "\<lambda>_ _. True"]])
qed

lemma wp_renditions:
  "wp (foreach (List.enumerate 0 qualities) (render_quality dir i fp md) [])
     (\<lambda>acc _. subseq acc (filter (fits md) qualities)) w"
proof -
  have "wp (foreach xs (render_quality dir i fp md) [])
     (\<lambda>acc _. subseq acc (filter (fits md) (map snd xs))) w" for xs
  proof (rule wp_foreach)
    fix ys zs :: "(nat \<times> string) list" and x acc s
    assume "subseq acc (filter (fits md) (map snd ys))"
    from wp_render_quality[OF this, of dir i fp "fst x" "snd x" s]
    show "wp (render_quality dir i fp md x acc)
        (\<lambda>acc' t. subseq acc' (filter (fits md) (map snd (ys @ [x])))) s" by simp
  qed simp
  from this[of "List.enumerate 0 qualities"] show ?thesis by simp
qed

section \<open>ProcessVideo\<close>

text \<open>The state between claiming the video and settling it.\<close>

definition claimed :: "uuid \<Rightarrow> db \<Rightarrow> world \<Rightarrow> bool" where
  "claimed i d w = (touched i d (w_db w) \<and> status_in i {VideoStatusProcessing} (w_db w))"

definition settled :: "uuid \<Rightarrow> db \<Rightarrow> world \<Rightarrow> bool" where
  "settled i d w = (touched i d (w_db w)
     \<and> status_in i {VideoStatusProcessing, VideoStatusReady, VideoStatusFailed} (w_db w))"

definition published :: "uuid \<Rightarrow> VideoMetadata \<Rightarrow> world \<Rightarrow> bool" where
  "published i md w = (\<exists>v. lookup v_ID i (db_videos (w_db w)) = Some v \<and> v_Status v = VideoStatusReady
     \<and> v_AvailableQualities v \<noteq> [] \<and> subseq (v_AvailableQualities v) (filter (fits md) qualities)
     \<and> v_TranscodingProgress v = 100)"

lemma claimed_quiet:
  "steps (on_db (quiet i)) m \<Longrightarrow> claimed i d w \<Longrightarrow> (\<And>x w'. claimed i d w' \<Longrightarrow> Q x w') \<Longrightarrow> wp m Q w"
  by (erule wp_steps)
     (auto simp: claimed_def on_db_def dest: quiet_status
        intro: preorder_trans[OF preorder_touched _ quiet_touched])

lemma claimed_bind:
  assumes "steps (on_db (quiet i)) m" "claimed i d w" "\<And>x w'. claimed i d w' \<Longrightarrow> wp (f x) Q w'"
  shows "wp (State_Monad.bind m f) Q w"
  unfolding wp_bind by (rule claimed_quiet[OF assms])

lemma claimed_settled: "claimed i d w \<Longrightarrow> settled i d w"
  by (auto simp: claimed_def settled_def status_in_def)

lemma wp_exec_settled:
  assumes "claimed i d w" "\<And>t v. v_ID (f t v) = v_ID v"
    "\<And>t v. v_Status (f t v) \<in> {VideoStatusReady, VideoStatusFailed}"
    "\<And>t v. in_progress_range v \<Longrightarrow> in_progress_range (f t v)"
  shows "wp (video_exec f i) (\<lambda>r w'. settled i d w'
    \<and> (r = Inr () \<longrightarrow> (\<exists>v t. lookup v_ID i (db_videos (w_db w')) = Some (f t v)))) w"
proof -
  have "steps (on_db (touched i)) (video_exec f i)"
    unfolding touched_def using assms(2,4)
    by (intro steps_video_exec) (use preorder_touched[of i, unfolded touched_def] in auto)
  then have "wp (video_exec f i) (\<lambda>r w'. touched i d (w_db w')) w"
    by (rule wp_steps) (use assms(1) in \<open>auto simp: on_db_def claimed_def intro: preorder_trans[OF preorder_touched]\<close>)
  moreover have "wp (video_exec f i) (\<lambda>r w'.
      status_in i {VideoStatusProcessing, VideoStatusReady, VideoStatusFailed} (w_db w')
      \<and> (r = Inr () \<longrightarrow> (\<exists>v t. lookup v_ID i (db_videos (w_db w')) = Some (f t v)))) w"
    using assms(1,3)
    by (auto simp: wp_video_exec Let_def claimed_def status_in_def lookup_modify assms(2)
        split: outcome.splits)
  ultimately show ?thesis
    by (auto dest: wp_conj simp: settled_def elim: wp_mono)
qed

lemma wp_MarkAsFailed_settled:
  "claimed i d w \<Longrightarrow> wp (VideoRepo_MarkAsFailed i) (\<lambda>r w'. settled i d w') w"
  unfolding VideoRepo_MarkAsFailed_def
  by (rule wp_mono[OF wp_exec_settled]) (auto simp: in_progress_range_def)

lemma wp_MarkAsReady_settled:
  "claimed i d w \<Longrightarrow> wp (VideoRepo_MarkAsReady i qs p) (\<lambda>r w'. settled i d w'
     \<and> (r = Inr () \<longrightarrow> (\<exists>v. lookup v_ID i (db_videos (w_db w')) = Some v \<and> v_Status v = VideoStatusReady
          \<and> v_AvailableQualities v = qs \<and> v_TranscodingProgress v = 100))) w"
  unfolding VideoRepo_MarkAsReady_def
  by (rule wp_mono[OF wp_exec_settled]) (auto simp: in_progress_range_def)

lemma wp_final_progress:
  assumes "settled i d w" "lookup v_ID i (db_videos (w_db w)) = Some v" "v_Status v = VideoStatusReady"
    "v_AvailableQualities v = qs" "v_TranscodingProgress v = 100" "qs \<noteq> []" "subseq qs (filter (fits md) qualities)"
  shows "wp (VideoRepo_UpdateProgress i 100) (\<lambda>_ w'. settled i d w' \<and> published i md w') w"
proof -
  have "wp (VideoRepo_UpdateProgress i 100) (\<lambda>_ w'. settled i d w') w"
    by (rule wp_steps[OF quiet_UpdateProgress])
       (use assms(1) in \<open>auto simp: on_db_def settled_def dest: quiet_touched quiet_status
          intro: preorder_trans[OF preorder_touched]\<close>)
  moreover have "wp (VideoRepo_UpdateProgress i 100) (\<lambda>_ w'. published i md w') w"
    using assms(2-) by (auto simp: wp_UpdateProgress_ok wp_video_exec Let_def published_def lookup_modify
        split: outcome.splits)
  ultimately show ?thesis by (rule wp_conj)
qed

lemma wp_process_renditions:
  assumes "claimed i d w"
  shows "wp (process_renditions cfg s i fp md dir)
    (\<lambda>r w'. settled i d w' \<and> (r = Inr () \<longrightarrow> published i md w')) w"
proof -
  have loop: "wp (foreach (List.enumerate 0 qualities) (render_quality dir i fp md) [])
      (\<lambda>acc w'. subseq acc (filter (fits md) qualities) \<and> claimed i d w') w"
    by (intro wp_conj wp_renditions claimed_quiet[OF quiet_renditions assms])
  have pub: "wp (do {
       _ \<leftarrow> VideoRepo_UpdateProgress i (step_progress (length qualities));
       hlsQualities \<leftarrow> foreach qs (convert_quality cfg dir s) [];
       _ \<leftarrow> publish_hls cfg s i hlsQualities;
       _ \<leftarrow> VideoRepo_UpdateProgress i (step_progress (length qualities + 1));
       t \<leftarrow> generateThumbnail cfg fp s (md_Duration md);
       let thumbnailPath = (case t of Inl e \<Rightarrow> '''' | Inr p \<Rightarrow> p);
       ready \<leftarrow> VideoRepo_MarkAsReady i qs thumbnailPath;
       case ready of Inl e \<Rightarrow> State_Monad.return (Inl e)
       | Inr _ \<Rightarrow> do { _ \<leftarrow> VideoRepo_UpdateProgress i 100; State_Monad.return (Inr ()) } })
      (\<lambda>r w'. settled i d w' \<and> (r = Inr () \<longrightarrow> published i md w')) w'"
    if "claimed i d w'" "qs \<noteq> []" "subseq qs (filter (fits md) qualities)" for qs w'
    unfolding Let_def
    apply (rule claimed_bind[OF quiet_UpdateProgress that(1)])
    apply (rule claimed_bind[where i = i and d = d], intro steps_intros preorder_on_db preorder_quiet, assumption)
    apply (rule claimed_bind[OF quiet_publish_hls], assumption)
    apply (rule claimed_bind[OF quiet_UpdateProgress], assumption)
    apply (rule claimed_bind[where i = i and d = d], intro steps_intros preorder_on_db preorder_quiet, assumption)
    apply (subst wp_bind, rule wp_mono[OF wp_MarkAsReady_settled], assumption)
    using that(2,3) by (auto simp: wp_case_sum wp_bind wp_return split: sum.splits
        intro!: wp_final_progress)
  show ?thesis
    unfolding process_renditions_def
    apply (subst wp_bind, rule wp_mono[OF loop])
    using pub by (auto simp: wp_if wp_bind[of "VideoRepo_MarkAsFailed i"] wp_return
        intro: wp_MarkAsFailed_settled)
qed

lemma wp_process_claimed:
  assumes "claimed i d w"
  shows "wp (process_claimed cfg s i fp) (\<lambda>r w'. settled i d w'
    \<and> (r = Inr () \<longrightarrow> (\<exists>md. probe_at (w_env w) (w_tick w) = Some md \<and> published i md w'))) w"
proof (cases "probe_at (w_env w) (w_tick w)")
  case None
  have "claimed i d (w\<lparr> w_tick := Suc (w_tick w) \<rparr>)"
    using assms by (simp add: claimed_def)
  with None show ?thesis
    by (auto simp: process_claimed_def ExtractMetadata_def wp_simps intro: wp_MarkAsFailed_settled
        elim: wp_mono)
next
  case (Some md)
  have c: "claimed i d (w\<lparr> w_tick := Suc (w_tick w) \<rparr>)"
    using assms by (simp add: claimed_def)
  show ?thesis
    unfolding process_claimed_def ExtractMetadata_def Let_def
    apply (simp add: wp_bind[of "observe probe_at"] wp_bind[of "State_Monad.bind (observe probe_at) f" for f]
        wp_observe wp_return Some)
    apply (rule claimed_bind[OF quiet_UpdateDuration c])
    apply (rule claimed_bind[OF quiet_UpdateResolution], assumption)
    apply (rule claimed_bind[where i = i and d = d], intro steps_intros preorder_on_db preorder_quiet, assumption)
    by (auto simp: wp_if wp_bind[of "VideoRepo_MarkAsFailed i"] wp_return
        intro: wp_MarkAsFailed_settled wp_process_renditions)
qed

text \<open>The whole outcome of ProcessVideo, from any state and under any failures.\<close>

definition process_outcome :: "uuid \<Rightarrow> world \<Rightarrow> err + unit \<Rightarrow> world \<Rightarrow> bool" where
  "process_outcome i w r w' =
     (touched i (w_db w) (w_db w')
    \<and> (r = Inr () \<longrightarrow> (\<exists>md. probe_at (w_env w) (w_tick w + 2) = Some md \<and> published i md w')))"

lemma process_outcome_same:
  "w_db w' = w_db w \<Longrightarrow> process_outcome i w (Inl e) w'"
  by (simp add: process_outcome_def preorder_refl[OF preorder_touched])

lemma settled_outcome:
  assumes "settled i (w_db w) w'"
    and "r = Inr () \<Longrightarrow> \<exists>md. probe_at (w_env w) (w_tick w + 2) = Some md \<and> published i md w'"
  shows "process_outcome i w r w'"
  using assms by (auto simp: process_outcome_def settled_def)

lemma wp_ProcessVideo:
  assumes "uuid_Parse lib s = Some i"
  shows "wp (ProcessVideo lib cfg s) (process_outcome i w) w"
proof (cases "outcome_at (w_env w) (w_tick w) = Done")
  case False
  then show ?thesis
    by (simp add: ProcessVideo_def assms VideoRepo_GetByID_def wp_simps process_outcome_same)
next
  case read: True
  show ?thesis
  proof (cases "lookup v_ID i (db_videos (w_db w))")
    case None
    then show ?thesis using read
      by (simp add: ProcessVideo_def assms VideoRepo_GetByID_def wp_simps process_outcome_same)
  next
    case (Some v)
    show ?thesis
    proof (cases "v_Status v = VideoStatusUploading \<or> v_Status v = VideoStatusFailed")
      case False
      then show ?thesis using read Some
        by (auto simp: ProcessVideo_def assms VideoRepo_GetByID_def wp_simps process_outcome_same)
    next
      case True
      let ?w1 = "w\<lparr> w_tick := Suc (w_tick w) \<rparr>"
      let ?d2 = "(w_db w)\<lparr> db_videos := modify v_ID i (\<lambda>v. v\<lparr> v_Status := VideoStatusProcessing,
         v_UpdatedAt := clock_at (w_env w) (Suc (w_tick w)) \<rparr>) (db_videos (w_db w)) \<rparr>"
      let ?w2 = "w\<lparr> w_tick := Suc (Suc (w_tick w)), w_db := ?d2 \<rparr>"
      have c: "claimed i (w_db w) ?w2"
        by (auto simp: claimed_def touched_def status_in_def lookup_modify in_progress_range_def
            intro!: row_moves_modify)

      have "wp (process_claimed cfg s i (v_FilePath v)) (process_outcome i w) ?w2"
        by (rule wp_mono[OF wp_process_claimed[OF c]]) (use True in \<open>auto intro!: settled_outcome simp: Some\<close>)
      moreover have "process_outcome i w (Inl e) ?w2" for e
        using claimed_settled[OF c] by (rule settled_outcome) (use True in \<open>auto simp: Some\<close>)
      ultimately show ?thesis using read Some True
        by (auto simp: ProcessVideo_def assms VideoRepo_GetByID_def VideoRepo_UpdateStatus_def wp_simps Let_def
            process_outcome_same split: outcome.splits)
    qed
  qed
qed

text \<open>A video in \<^verbatim>\<open>processing\<close> or \<^verbatim>\<open>ready\<close> is refused before anything is written.\<close>

lemma ProcessVideo_refuses:
  assumes "uuid_Parse lib s = Some i"
    and "\<forall>v. lookup v_ID i (db_videos (w_db w)) = Some v \<longrightarrow>
           v_Status v \<notin> {VideoStatusUploading, VideoStatusFailed}"
  shows "wp (ProcessVideo lib cfg s) (\<lambda>r w'. (\<exists>e. r = Inl e) \<and> w' = w\<lparr> w_tick := Suc (w_tick w) \<rparr>) w"
  using assms by (auto simp: ProcessVideo_def VideoRepo_GetByID_def wp_simps Let_def split: option.splits)

section \<open>RetryVideo\<close>

lemma wp_RetryVideo_not_failed:
  assumes "uuid_Parse lib (rq_param c ''id'') = Some i"
    and "lookup v_ID i (db_videos (w_db w)) = Some v" "v_Status v \<noteq> VideoStatusFailed"
  shows "wp (RetryVideo lib c) (\<lambda>r w'. status_of r \<in> {400, 500} \<and> w' = w\<lparr> w_tick := Suc (w_tick w) \<rparr>) w"
  using assms by (simp add: RetryVideo_def ValidateUUID_def VideoRepo_GetByID_def wp_simps Let_def response_defs)

lemma RetryVideo_touched:
  assumes "uuid_Parse lib (rq_param c ''id'') = Some i"
  shows "steps (on_db (touched i)) (RetryVideo lib c)"
proof -
  have "steps (on_db (touched i)) (VideoRepo_UpdateStatus i s)" for s
    unfolding VideoRepo_UpdateStatus_def touched_def
    by (rule steps_video_exec) (use preorder_touched[of i, unfolded touched_def] in \<open>auto simp: in_progress_range_def\<close>)
  then show ?thesis
    unfolding RetryVideo_def ValidateUUID_def assms EnqueueVideoProcessing_def VideoRepo_GetByID_def option.case sum.case
    by (intro steps_intros steps_run_put preorder_on_db preorder_touched) simp_all
qed

section \<open>The statuses a run passes through\<close>

lemma quiet_still: "steps (on_db (quiet i)) m \<Longrightarrow> still (status_at i) m"
proof (erule still_steps)
  fix d d' assume "quiet i d d'"
  from row_moves_lookup(2,3)[OF this[unfolded quiet_def]] show "status_at i d' = status_at i d"
    by (cases "lookup v_ID i (db_videos d)") (auto simp: status_at_def)
qed

lemmas still_intros = quiet_still[OF quiet_UpdateProgress] quiet_still[OF quiet_UpdateDuration]
  quiet_still[OF quiet_UpdateResolution] quiet_still[OF quiet_publish_hls] quiet_still[OF quiet_renditions]

lemma cuttable_pipeline [cut_intros]:
  "cuttable (ExtractMetadata p)" "cuttable (transcodeVideo a b spec)" "cuttable (generateThumbnail cfg a b d)"
  "cuttable check_hls_output"
  unfolding ExtractMetadata_def transcodeVideo_def generateThumbnail_def check_hls_output_def
  by (intro cut_intros)+

lemma cuttable_ConvertToHLS [cut_intros]: "cuttable (ConvertToHLS cfg a q b)"
  unfolding ConvertToHLS_def by (intro cut_intros)

lemma cuttable_GenerateMasterPlaylist [cut_intros]: "cuttable (GenerateMasterPlaylist cfg a qs)"
  unfolding GenerateMasterPlaylist_def by (intro cut_intros cuttable_update) simp_all

lemma cuttable_loops [cut_intros]:
  "cuttable (render_quality dir i fp md iq acc)" "cuttable (convert_quality cfg dir s q acc')"
  "cuttable (publish_hls cfg s i qs)"
  unfolding render_quality_def convert_quality_def publish_hls_def by (intro cut_intros)+

lemma cuttable_process_renditions [cut_intros]: "cuttable (process_renditions cfg s i fp md dir)"
  unfolding process_renditions_def by (intro cut_intros)

lemma cuttable_process_claimed [cut_intros]: "cuttable (process_claimed cfg s i fp)"
  unfolding process_claimed_def by (intro cut_intros)

lemma cuttable_ProcessVideo [cut_intros]: "cuttable (ProcessVideo lib cfg s)"
  unfolding ProcessVideo_def by (intro cut_intros)

lemma cuttable_EnqueueVideoProcessing [cut_intros]: "cuttable (EnqueueVideoProcessing i n)"
  unfolding EnqueueVideoProcessing_def by (rule cuttable_run_put) simp_all

lemma cuttable_RetryVideo [cut_intros]: "cuttable (RetryVideo lib c)"
  unfolding RetryVideo_def by (intro cut_intros)

text \<open>A statement that sets the status shows it before and after, or only before when it did not get through.\<close>

lemma exec_shows:
  assumes r: "run_state (video_exec f i) w = (x, w1)" and s: "status_at i (w_db w) = Some s"
    and f: "\<And>t v. v_ID (f t v) = v_ID v" "\<And>t v. v_Status (f t v) = st" and "s \<noteq> st"
  shows "trail (status_at i) (video_exec f i) w = [Some s] \<and> x \<noteq> Inr () \<and> status_at i (w_db w1) = Some s
    \<or> trail (status_at i) (video_exec f i) w = [Some s, Some st] \<and> status_at i (w_db w1) = Some st"
proof -
  have "wp (video_exec f i) (\<lambda>x w1. status_at i (w_db w1) = Some s \<and> x \<noteq> Inr () \<or> status_at i (w_db w1) = Some st) w"
    using s f by (auto simp: wp_video_exec Let_def status_at_def lookup_modify split: outcome.splits)
  from wp_result[OF this r] show ?thesis
    using s \<open>s \<noteq> st\<close> by (auto simp: trail_video_exec[OF r])
qed

text \<open>What is left of a run after the claim: it stops, the video fails, or it becomes ready.\<close>

definition work_trail :: "err + unit \<Rightarrow> VideoStatus option list \<Rightarrow> bool" where
  "work_trail r ts = ((ts = [Some VideoStatusProcessing] \<or> ts = [Some VideoStatusProcessing, Some VideoStatusFailed]) \<and> r \<noteq> Inr ()
     \<or> ts = [Some VideoStatusProcessing, Some VideoStatusReady])"

abbreviation processing :: "uuid \<Rightarrow> world \<Rightarrow> bool" where
  "processing i w \<equiv> status_at i (w_db w) = Some VideoStatusProcessing"

lemma trail_fail:
  assumes "processing i w"
  shows "displays (status_at i) (do { _ \<leftarrow> VideoRepo_MarkAsFailed i; State_Monad.return (Inl e) }) work_trail w"
proof (rule displays_bind)
  fix x w1 assume "run_state (VideoRepo_MarkAsFailed i) w = (x, w1)"
  from exec_shows[OF this[unfolded VideoRepo_MarkAsFailed_def] assms, of VideoStatusFailed]
  show "displays (status_at i) (State_Monad.return (Inl e))
      (\<lambda>y ts. work_trail y (trail (status_at i) (VideoRepo_MarkAsFailed i) w @ tl ts)) w1"
    by (intro displays_return) (auto simp: VideoRepo_MarkAsFailed_def work_trail_def)
qed (intro cut_intros)+

lemma trail_finish:
  assumes "processing i w"
  shows "displays (status_at i) (do {
       ready \<leftarrow> VideoRepo_MarkAsReady i qs p;
       case ready of Inl e \<Rightarrow> State_Monad.return (Inl e)
       | Inr _ \<Rightarrow> do { _ \<leftarrow> VideoRepo_UpdateProgress i 100; State_Monad.return (Inr ()) } }) work_trail w"
proof (rule displays_bind)
  fix x w1 assume "run_state (VideoRepo_MarkAsReady i qs p) w = (x, w1)"
  from exec_shows[OF this[unfolded VideoRepo_MarkAsReady_def] assms, of VideoStatusReady]
  have c: "trail (status_at i) (VideoRepo_MarkAsReady i qs p) w = [Some VideoStatusProcessing] \<and> x \<noteq> Inr ()
    \<or> trail (status_at i) (VideoRepo_MarkAsReady i qs p) w = [Some VideoStatusProcessing, Some VideoStatusReady]"
    by (auto simp: VideoRepo_MarkAsReady_def)
  show "displays (status_at i) (case x of Inl e \<Rightarrow> State_Monad.return (Inl e)
       | Inr _ \<Rightarrow> do { _ \<leftarrow> VideoRepo_UpdateProgress i 100; State_Monad.return (Inr ()) })
      (\<lambda>y ts. work_trail y (trail (status_at i) (VideoRepo_MarkAsReady i qs p) w @ tl ts)) w1"
  proof (cases x)
    case (Inl e)
    then show ?thesis using c by (auto simp: work_trail_def intro!: displays_return)
  next
    case (Inr u)
    then show ?thesis using c
      by (auto simp: work_trail_def intro!: displays_still_bind displays_return still_intros cut_intros)
  qed
qed (intro cut_intros)+

lemma trail_renditions:
  assumes "processing i w"
  shows "displays (status_at i) (process_renditions cfg s i fp md dir) work_trail w"
proof -
  have quiet: "still (status_at i) (foreach qs (convert_quality cfg dir s) [])"
    "still (status_at i) (generateThumbnail cfg fp s d)" for qs d
    by (rule quiet_still, intro steps_intros preorder_on_db preorder_quiet)+
  show ?thesis
    unfolding process_renditions_def Let_def
    by (intro displays_still_bind still_intros quiet cut_intros, simp only: split: if_split)
       (auto intro!: displays_still_bind still_intros quiet cut_intros trail_fail trail_finish simp: assms)
qed

lemma trail_work:
  assumes "processing i w"
  shows "displays (status_at i) (process_claimed cfg s i fp) work_trail w"
proof -
  have quiet: "still (status_at i) (ExtractMetadata p)" "still (status_at i) run_exec" for p
    unfolding ExtractMetadata_def by (rule quiet_still, intro steps_intros preorder_on_db preorder_quiet)+
  show ?thesis
    unfolding process_claimed_def Let_def
    by (intro displays_still_bind quiet cut_intros)
       (auto intro!: displays_still_bind still_intros quiet cut_intros trail_fail trail_renditions simp: assms split: sum.split)
qed

lemma map_Some_eq:
  "([Some a] = map Some p) = (p = [a])" "([Some a, Some b] = map Some p) = (p = [a, b])"
  "([Some a, Some b, Some c] = map Some p) = (p = [a, b, c])"
  by auto

lemma trail_ProcessVideo:
  assumes "uuid_Parse lib s = Some i" and row: "lookup v_ID i (db_videos (w_db w)) = Some v"
  shows "displays (status_at i) (ProcessVideo lib cfg s)
    (\<lambda>r ts. \<exists>p. ts = map Some p \<and> process_path (v_Status v) (r = Inr ()) p) w" (is "displays _ _ ?Q w")
proof -
  have st: "status_at i (w_db w) = Some (v_Status v)" by (simp add: status_at_def row)
  have quiet: "still (status_at i) (VideoRepo_GetByID i)"
    unfolding VideoRepo_GetByID_def by (rule quiet_still, intro steps_intros preorder_on_db preorder_quiet)
  have claim: "displays (status_at i) (do {
             u \<leftarrow> VideoRepo_UpdateStatus i VideoStatusProcessing;
             case u of Inl e \<Rightarrow> State_Monad.return (Inl e)
             | Inr _ \<Rightarrow> process_claimed cfg s i fp }) ?Q w1"
    if start: "v_Status v \<in> {VideoStatusUploading, VideoStatusFailed}" and "status_at i (w_db w1) = Some (v_Status v)" for w1 fp
  proof (rule displays_bind)
    fix x w2 assume "run_state (VideoRepo_UpdateStatus i VideoStatusProcessing) w1 = (x, w2)"
    from exec_shows[OF this[unfolded VideoRepo_UpdateStatus_def] that(2), of VideoStatusProcessing] start
    have c: "trail (status_at i) (VideoRepo_UpdateStatus i VideoStatusProcessing) w1 = [Some (v_Status v)] \<and> x \<noteq> Inr ()
      \<or> trail (status_at i) (VideoRepo_UpdateStatus i VideoStatusProcessing) w1 = [Some (v_Status v), Some VideoStatusProcessing]
        \<and> processing i w2"
      by (auto simp: VideoRepo_UpdateStatus_def)
    show "displays (status_at i) (case x of Inl e \<Rightarrow> State_Monad.return (Inl e) | Inr _ \<Rightarrow> process_claimed cfg s i fp)
        (\<lambda>y ts. ?Q y (trail (status_at i) (VideoRepo_UpdateStatus i VideoStatusProcessing) w1 @ tl ts)) w2"
    proof (cases x)
      case (Inl e)
      from c show ?thesis unfolding Inl
        by (auto intro!: displays_return simp: map_Some_eq process_path.refused process_path.claimed[OF start])
    next
      case (Inr u)
      then show ?thesis using c
        by (auto intro!: displays_mono[OF trail_work]
            simp: work_trail_def map_Some_eq process_path.intros(2-4)[OF start])
    qed
  qed (intro cut_intros)+
  show ?thesis
    unfolding ProcessVideo_def assms option.case
  proof (rule displays_still_run[OF _ quiet])
    fix x w1 assume r: "run_state (VideoRepo_GetByID i) w = (x, w1)" and s1: "status_at i (w_db w1) = status_at i (w_db w)"
    have "wp (VideoRepo_GetByID i) (\<lambda>x _. x = Inr v \<or> (\<exists>e. x = Inl e)) w"
      using row by (simp add: VideoRepo_GetByID_def wp_simps Let_def)
    from wp_result[OF this r] show "displays (status_at i) (case x of Inl e \<Rightarrow> State_Monad.return (Inl e)
       | Inr video \<Rightarrow>
           if v_Status video \<noteq> VideoStatusUploading \<and> v_Status video \<noteq> VideoStatusFailed
           then State_Monad.return (Inl (ErrOther ''video status is not uploading or failed''))
           else do {
             u \<leftarrow> VideoRepo_UpdateStatus i VideoStatusProcessing;
             case u of Inl e \<Rightarrow> State_Monad.return (Inl e)
             | Inr _ \<Rightarrow> process_claimed cfg s i (v_FilePath video)
           }) ?Q w1"
      using claim[of w1] st s1 by (auto intro!: displays_return simp: map_Some_eq process_path.refused)
  qed (intro cut_intros)+
qed

lemma trail_RetryVideo:
  assumes "uuid_Parse lib (rq_param c ''id'') = Some i" and row: "lookup v_ID i (db_videos (w_db w)) = Some v"
  shows "displays (status_at i) (RetryVideo lib c)
    (\<lambda>r ts. \<exists>p. ts = map Some p \<and> retry_path (v_Status v) (status_of r = 200) p) w" (is "displays _ _ ?Q w")
proof -
  have st: "status_at i (w_db w) = Some (v_Status v)" by (simp add: status_at_def row)
  have codes: "status_of (InternalError m :: uuid response) \<noteq> 200" "status_of (BadRequest m :: uuid response) \<noteq> 200"
    "status_of (NotFound m :: uuid response) \<noteq> 200" for m
    by (simp_all add: response_defs)
  have quiet: "still (status_at i) (VideoRepo_GetByID i)" "still (status_at i) (EnqueueVideoProcessing i 1)"
    unfolding VideoRepo_GetByID_def EnqueueVideoProcessing_def
    by (rule quiet_still, intro steps_intros steps_run_put preorder_on_db preorder_quiet; simp)+
  have restart: "displays (status_at i) (do {
             u \<leftarrow> VideoRepo_UpdateStatus i VideoStatusUploading;
             case u of Inl e \<Rightarrow> State_Monad.return (InternalError ''Failed to update video status'')
             | Inr _ \<Rightarrow> do {
                 q \<leftarrow> EnqueueVideoProcessing i 1;
                 case q of Inl e \<Rightarrow> State_Monad.return (InternalError ''Failed to enqueue video for processing'')
                 | Inr _ \<Rightarrow> State_Monad.return (Success 200 i)
               } }) ?Q w1"
    if start: "v_Status v = VideoStatusFailed" and "status_at i (w_db w1) = Some (v_Status v)" for w1
  proof (rule displays_bind)
    fix x w2 assume "run_state (VideoRepo_UpdateStatus i VideoStatusUploading) w1 = (x, w2)"
    from exec_shows[OF this[unfolded VideoRepo_UpdateStatus_def] that(2), of VideoStatusUploading] start
    have c: "trail (status_at i) (VideoRepo_UpdateStatus i VideoStatusUploading) w1 = [Some VideoStatusFailed] \<and> x \<noteq> Inr ()
      \<or> trail (status_at i) (VideoRepo_UpdateStatus i VideoStatusUploading) w1 = [Some VideoStatusFailed, Some VideoStatusUploading]"
      by (auto simp: VideoRepo_UpdateStatus_def)
    show "displays (status_at i) (case x of Inl e \<Rightarrow> State_Monad.return (InternalError ''Failed to update video status'')
             | Inr _ \<Rightarrow> do {
                 q \<leftarrow> EnqueueVideoProcessing i 1;
                 case q of Inl e \<Rightarrow> State_Monad.return (InternalError ''Failed to enqueue video for processing'')
                 | Inr _ \<Rightarrow> State_Monad.return (Success 200 i)
               })
        (\<lambda>y ts. ?Q y (trail (status_at i) (VideoRepo_UpdateStatus i VideoStatusUploading) w1 @ tl ts)) w2"
    proof (cases x)
      case (Inl e)
      from c show ?thesis unfolding Inl start
        by (auto intro!: displays_return simp: map_Some_eq retry_path.intros response_defs)
    next
      case (Inr u)
      then show ?thesis using c unfolding start
        by (auto intro!: displays_still_bind displays_return quiet cut_intros
            simp: map_Some_eq retry_path.restarted split: sum.split)
    qed
  qed (intro cut_intros)+
  show ?thesis
    unfolding RetryVideo_def ValidateUUID_def assms option.case sum.case
  proof (rule displays_still_run[OF _ quiet(1)])
    fix x w1 assume r: "run_state (VideoRepo_GetByID i) w = (x, w1)" and s1: "status_at i (w_db w1) = status_at i (w_db w)"
    have "wp (VideoRepo_GetByID i) (\<lambda>x _. x = Inr v \<or> (\<exists>e. x = Inl e)) w"
      using row by (simp add: VideoRepo_GetByID_def wp_simps Let_def)
    from wp_result[OF this r] show "displays (status_at i) (case x of Inl e \<Rightarrow> State_Monad.return
           (if e = ErrVideoNotFound then NotFound ''Video not found'' else InternalError ''Failed to retrieve video'')
       | Inr video \<Rightarrow>
           if v_Status video \<noteq> VideoStatusFailed
           then State_Monad.return (BadRequest ''Only failed videos can be retried'')
           else do {
             u \<leftarrow> VideoRepo_UpdateStatus i VideoStatusUploading;
             case u of Inl e \<Rightarrow> State_Monad.return (InternalError ''Failed to update video status'')
             | Inr _ \<Rightarrow> do {
                 q \<leftarrow> EnqueueVideoProcessing i 1;
                 case q of Inl e \<Rightarrow> State_Monad.return (InternalError ''Failed to enqueue video for processing'')
                 | Inr _ \<Rightarrow> State_Monad.return (Success 200 i)
               }
           }) ?Q w1"
      using restart[of w1] st s1 by (auto intro!: displays_return simp: map_Some_eq retry_path.kept codes)
  qed (intro cut_intros)+
qed

lemma ProcessVideo_touched: "uuid_Parse lib s = Some i \<Longrightarrow> steps (on_db (touched i)) (ProcessVideo lib cfg s)"
  using wpD[OF wp_ProcessVideo] by (auto simp: steps_def on_db_def process_outcome_def)

lemma touched_at: "steps (on_db (touched i)) m \<Longrightarrow> touched i (w_db w) (db_at m w n)"
  by (simp add: db_at_def steps_def on_db_def) (metis stopped_simps(3))

lemma touched_frame:
  assumes "touched i d d'"
  shows "map v_ID (db_videos d') = map v_ID (db_videos d)
    \<and> (\<forall>j. j \<noteq> i \<longrightarrow> lookup v_ID j (db_videos d') = lookup v_ID j (db_videos d))"
proof -
  have "list_all2 (row_move i F) vs vs' \<Longrightarrow> map v_ID vs' = map v_ID vs" for F vs vs'
    by (induction vs vs' rule: list_all2_induct) (auto simp: row_move_def)
  with assms show ?thesis
    using row_moves_lookup(1)[of i _ d d'] unfolding touched_def by (auto simp: row_moves_def)
qed

lemma trail_last:
  assumes "cuttable m" "run_state m w = (x, w1)" "trail view m w = map Some p"
  shows "view (w_db w1) = Some (last p)"
  using trail_ends(2,3)[OF assms(1,2), of view] assms(3) by (simp add: last_map)

section \<open>Properties\<close>

text \<open>C1: When ProcessVideo returns without an error, under whatever failures of the database, of
  ffmpeg and of the file system happened on the way, the video is ready, its progress is 100, it
  has at least one quality, and the qualities are a subsequence of the ladder none of which is
  taller than the source that ffprobe measured.\<close>

theorem ProcessVideo_success:
  assumes "uuid_Parse lib s = Some i" "run_state (ProcessVideo lib cfg s) w = (Inr (), w')"
  shows "\<exists>md v. probe_at (w_env w) (w_tick w + 2) = Some md
    \<and> lookup v_ID i (db_videos (w_db w')) = Some v \<and> v_Status v = VideoStatusReady
    \<and> v_TranscodingProgress v = 100 \<and> v_AvailableQualities v \<noteq> []
    \<and> subseq (v_AvailableQualities v)
        (filter (\<lambda>q. qs_Height (qualitySpecs q) \<le> md_Height md) [''360p'', ''480p'', ''720p'', ''1080p''])"
  using wp_result[OF wp_ProcessVideo[OF assms(1)] assms(2)]
  unfolding process_outcome_def published_def qualities_def fits_def by blast

lemma sample_run: "fst (run_state (ProcessVideo sample_lib sample_cfg ''7'')
    (calm_world (video_db VideoStatusUploading VisibilityPublic))) = Inr ()"
  by code_simp

lemma sample_id: "uuid_Parse sample_lib ''7'' = Some 7"
  by code_simp

theorem ProcessVideo_success_witness:
  "\<exists>v. lookup v_ID 7 (db_videos (w_db (snd (run_state (ProcessVideo sample_lib sample_cfg ''7'')
      (calm_world (video_db VideoStatusUploading VisibilityPublic)))))) = Some v \<and> v_Status v = VideoStatusReady"
proof -
  have "run_state (ProcessVideo sample_lib sample_cfg ''7'') (calm_world (video_db VideoStatusUploading VisibilityPublic))
      = (Inr (), snd (run_state (ProcessVideo sample_lib sample_cfg ''7'')
          (calm_world (video_db VideoStatusUploading VisibilityPublic))))"
    using sample_run by (metis prod.collapse)
  from ProcessVideo_success[OF sample_id this] show ?thesis by blast
qed

text \<open>C2: ProcessVideo and the admin retry refine the lifecycle uploading \<rightarrow> processing \<rightarrow> ready | failed,
  failed \<rightarrow> processing | uploading.  From any state and under any failures, the statuses ProcessVideo takes the
  video through are, in order: its own status only, then processing, then failed or ready, the later ones only from
  uploading or failed, and all the way to ready when it returns no error.  The retry leaves the status as it is or
  takes it from failed to uploading, which it has done when it answers 200.  The last status of the list is the one
  the row ends with; after any number of external calls of either run, every other row is untouched and no row has
  appeared or disappeared.\<close>

theorem pipeline_refines_lifecycle:
  assumes "uuid_Parse lib s = Some i" "rq_param c ''id'' = s" "lookup v_ID i (db_videos (w_db w)) = Some v"
    and "run_state (ProcessVideo lib cfg s) w = (r, w1)" "run_state (RetryVideo lib c) w = (resp, w2)"
  shows "(\<exists>p. trail (status_at i) (ProcessVideo lib cfg s) w = map Some p \<and> process_path (v_Status v) (r = Inr ()) p
        \<and> status_at i (w_db w1) = Some (last p))
    \<and> (\<exists>q. trail (status_at i) (RetryVideo lib c) w = map Some q \<and> retry_path (v_Status v) (status_of resp = 200) q
        \<and> status_at i (w_db w2) = Some (last q))
    \<and> (\<forall>n d. d = db_at (ProcessVideo lib cfg s) w n \<or> d = db_at (RetryVideo lib c) w n \<longrightarrow>
        map v_ID (db_videos d) = map v_ID (db_videos (w_db w))
        \<and> (\<forall>j. j \<noteq> i \<longrightarrow> lookup v_ID j (db_videos d) = lookup v_ID j (db_videos (w_db w))))"
proof -
  have p: "\<exists>p. trail (status_at i) (ProcessVideo lib cfg s) w = map Some p \<and> process_path (v_Status v) (r = Inr ()) p
        \<and> status_at i (w_db w1) = Some (last p)"
    using trail_ProcessVideo[OF assms(1,3), of cfg] trail_last[OF cuttable_ProcessVideo assms(4)]
    by (auto simp: displays_def assms(4))
  have q: "\<exists>q. trail (status_at i) (RetryVideo lib c) w = map Some q \<and> retry_path (v_Status v) (status_of resp = 200) q
        \<and> status_at i (w_db w2) = Some (last q)"
    using trail_RetryVideo[of lib c i w v] assms trail_last[OF cuttable_RetryVideo assms(5)]
    by (auto simp: displays_def)
  have "touched i (w_db w) d" if "d = db_at (ProcessVideo lib cfg s) w n \<or> d = db_at (RetryVideo lib c) w n" for d n
    using that touched_at[OF ProcessVideo_touched[OF assms(1)]] touched_at[OF RetryVideo_touched[of lib c i]] assms(1,2)
    by auto
  then show ?thesis using p q touched_frame by blast
qed

theorem pipeline_refines_lifecycle_witness:
  "status_at 7 (w_db (snd (run_state (ProcessVideo sample_lib sample_cfg ''7'')
      (calm_world (video_db VideoStatusFailed VisibilityPublic))))) = Some VideoStatusReady
   \<and> (\<exists>q. trail (status_at 7) (RetryVideo sample_lib (sample_request None ''7''))
          (calm_world (video_db VideoStatusFailed VisibilityPublic)) = map Some q
        \<and> q = [VideoStatusFailed, VideoStatusUploading])"
proof -
  let ?w = "calm_world (video_db VideoStatusFailed VisibilityPublic)"
  have row: "lookup v_ID 7 (db_videos (w_db ?w)) = Some (sample_video 7 1 VideoStatusFailed VisibilityPublic)"
    by (simp add: calm_world_def video_db_def sample_video_def)
  have ok: "fst (run_state (ProcessVideo sample_lib sample_cfg ''7'') ?w) = Inr ()"
    "status_of (fst (run_state (RetryVideo sample_lib (sample_request None ''7'')) ?w)) = 200"
    by code_simp+
  from pipeline_refines_lifecycle[OF sample_id _ row prod.collapse[symmetric] prod.collapse[symmetric],
      where c = "sample_request None ''7''" and cfg = sample_cfg]
  show ?thesis unfolding ok
    by (auto simp: sample_request_def process_path_True sample_video_def elim!: retry_path_True)
qed

text \<open>C3: A video in processing (or already ready) is never taken up again: ProcessVideo and the admin
  retry both answer with an error and change nothing but the tick, whatever happens.  In particular a
  video whose MarkAsFailed was lost stays in processing for good.\<close>

theorem processing_is_stuck:
  assumes "uuid_Parse lib s = Some i" "rq_param c ''id'' = s" "lookup v_ID i (db_videos (w_db w)) = Some v"
    and "v_Status v = VideoStatusProcessing \<or> v_Status v = VideoStatusReady"
  shows "(\<exists>e w'. run_state (ProcessVideo lib cfg s) w = (Inl e, w') \<and> w_db w' = w_db w \<and> w_jobs w' = w_jobs w)
    \<and> (\<exists>r w'. run_state (RetryVideo lib c) w = (r, w') \<and> status_of r \<in> {400, 500}
         \<and> w_db w' = w_db w \<and> w_jobs w' = w_jobs w)"
proof -
  have "\<forall>x. lookup v_ID i (db_videos (w_db w)) = Some x \<longrightarrow> v_Status x \<notin> {VideoStatusUploading, VideoStatusFailed}"
    using assms(3,4) by auto
  from wpD[OF ProcessVideo_refuses[OF assms(1) this]]
    wpD[OF wp_RetryVideo_not_failed[of lib c i w v]] assms
  show ?thesis
    by (auto simp: prod_eq_iff)
qed

theorem processing_is_stuck_witness:
  "\<exists>r w'. run_state (RetryVideo sample_lib (sample_request None ''7''))
      (calm_world (video_db VideoStatusProcessing VisibilityPublic)) = (r, w') \<and> status_of r \<in> {400, 500}"
proof -
  have "lookup v_ID 7 (db_videos (w_db (calm_world (video_db VideoStatusProcessing VisibilityPublic))))
      = Some (sample_video 7 1 VideoStatusProcessing VisibilityPublic)"
    by (simp add: calm_world_def video_db_def sample_video_def)
  from processing_is_stuck[OF sample_id _ this, where cfg = sample_cfg and c = "sample_request None ''7''"]
  show ?thesis
    by (simp add: sample_video_def sample_request_def) blast
qed



end
