(* ===== verification/UserRepo.thy ===== *)
theory UserRepo
  imports Schema
begin

text \<open>
  The PostgreSQL user repository (\<^verbatim>\<open>internal/repository/postgres/user_repository.go\<close>): reads see
  only rows that are not soft-deleted, writes are rejected by the unique constraints on username
  and email, which range over the deleted rows as well.
\<close>

definition live_user :: "User \<Rightarrow> bool" where
  "live_user u = (u_DeletedAt u = None)"

definition getBy :: "(User \<Rightarrow> bool) \<Rightarrow> (err + User) prog" where
  "getBy clause = row_or ErrUserNotFound ''getting user''
     (\<lambda>d. find_row (\<lambda>u. clause u \<and> live_user u) (db_users d))"

definition UserRepo_GetByID :: "uuid \<Rightarrow> (err + User) prog" where
  "UserRepo_GetByID i = getBy (\<lambda>u. u_ID u = i)"

definition UserRepo_GetByUsername :: "string \<Rightarrow> (err + User) prog" where
  "UserRepo_GetByUsername username = getBy (\<lambda>u. u_Username u = TrimSpace username)"

definition UserRepo_GetByEmail :: "unicode_tables \<Rightarrow> string \<Rightarrow> (err + User) prog" where
  "UserRepo_GetByEmail ut email = getBy (\<lambda>u. u_Email u = ToLower ut (TrimSpace email))"

text \<open>The columns the INSERT omits take their defaults.\<close>

definition user_row :: "User \<Rightarrow> User" where
  "user_row u = u\<lparr> u_PasswordResetToken := None, u_PasswordResetExpiry := None, u_LastLoginAt := None,
     u_IsBanned := False, u_BanReason := None, u_BanExpiry := None, u_BannedAt := None, u_BannedBy := None,
     u_DeletedAt := None \<rparr>"

definition UserRepo_Create :: "User \<Rightarrow> (err + unit) prog" where
  "UserRepo_Create user = run_stmt ''creating user'' (\<lambda>t d.
     if list_ex (\<lambda>u. u_ID u = u_ID user \<or> u_Username u = u_Username user \<or> u_Email u = u_Email user) (db_users d)
     then Inl ErrUserAlreadyExists
     else Inr ((), d\<lparr> db_users := db_users d @ [user_row user],
                     db_subscriber_count := (db_subscriber_count d)(u_ID user := 0) \<rparr>))"

text \<open>The columns \<^verbatim>\<open>Update\<close> writes; the moderation columns are not among them.\<close>

definition user_written :: "time \<Rightarrow> User \<Rightarrow> User \<Rightarrow> User" where
  "user_written t user u = u\<lparr> u_Username := u_Username user, u_Email := u_Email user,
     u_PasswordHash := u_PasswordHash user, u_FullName := u_FullName user, u_Bio := u_Bio user,
     u_AvatarURL := u_AvatarURL user, u_Role := u_Role user, u_EmailVerified := u_EmailVerified user,
     u_EmailVerificationToken := u_EmailVerificationToken user,
     u_PasswordResetToken := u_PasswordResetToken user, u_PasswordResetExpiry := u_PasswordResetExpiry user,
     u_LastLoginAt := u_LastLoginAt user, u_OAuthProvider := u_OAuthProvider user,
     u_OAuthProviderID := u_OAuthProviderID user, u_OAuthAvatarURL := u_OAuthAvatarURL user,
     u_UpdatedAt := t \<rparr>"

definition update_live :: "uuid \<Rightarrow> (User \<Rightarrow> User) \<Rightarrow> db \<Rightarrow> nat \<times> db" where
  "update_live i f d = (affected (\<lambda>u. u_ID u = i \<and> live_user u) (db_users d),
     d\<lparr> db_users := update_rows (\<lambda>u. u_ID u = i \<and> live_user u) f (db_users d) \<rparr>)"

definition UserRepo_Update :: "User \<Rightarrow> (err + unit) prog" where
  "UserRepo_Update user = rows_or ErrUserNotFound (run_stmt ''updating user'' (\<lambda>t d.
     if list_ex (\<lambda>u. u_ID u = u_ID user \<and> live_user u) (db_users d)
        \<and> list_ex (\<lambda>u. u_ID u \<noteq> u_ID user \<and> (u_Username u = u_Username user \<or> u_Email u = u_Email user)) (db_users d)
     then Inl ErrUserAlreadyExists
     else Inr (update_live (u_ID user) (user_written t user) d)))"

definition execUser :: "(time \<Rightarrow> User \<Rightarrow> User) \<Rightarrow> uuid \<Rightarrow> (err + unit) prog" where
  "execUser f i = rows_or ErrUserNotFound (run_stmt ''updating user'' (\<lambda>t d. Inr (update_live i (f t) d)))"

definition UserRepo_Delete :: "uuid \<Rightarrow> (err + unit) prog" where
  "UserRepo_Delete i = execUser (\<lambda>t u. u\<lparr> u_DeletedAt := Some t, u_UpdatedAt := t \<rparr>) i"

definition UserRepo_BanUser :: "uuid \<Rightarrow> string \<Rightarrow> time option \<Rightarrow> (err + unit) prog" where
  "UserRepo_BanUser i reason until = execUser (\<lambda>t u. u\<lparr> u_IsBanned := True, u_BanReason := Some reason,
     u_BanExpiry := until, u_BannedAt := Some t, u_UpdatedAt := t \<rparr>) i"

definition UserRepo_UnbanUser :: "uuid \<Rightarrow> (err + unit) prog" where
  "UserRepo_UnbanUser i = execUser (\<lambda>t u. u\<lparr> u_IsBanned := False, u_BanReason := None, u_BanExpiry := None,
     u_BannedAt := None, u_BannedBy := None, u_UpdatedAt := t \<rparr>) i"

definition UserRepo_List :: "Page \<Rightarrow> (err + User list) prog" where
  "UserRepo_List pg = page_query ''listing users'' pg
     (\<lambda>d. sort_key (\<lambda>u. - u_CreatedAt u) (filter live_user (db_users d)))"

definition UserRepo_Count :: "(err + nat) prog" where
  "UserRepo_Count = run_query ''counting users'' (\<lambda>d. length (filter live_user (db_users d)))"

section \<open>Lemmas\<close>

lemma wp_getBy [wp_simps]:
  "wp (getBy clause) Q = (\<lambda>w. let w' = w\<lparr> w_tick := Suc (w_tick w) \<rparr> in
      if outcome_at (w_env w) (w_tick w) = Done
      then (case find_row (\<lambda>u. clause u \<and> live_user u) (db_users (w_db w)) of
              None \<Rightarrow> Q (Inl ErrUserNotFound) w' | Some x \<Rightarrow> Q (Inr x) w')
      else Q (Inl (ErrOther ''getting user'')) w')"
  by (simp add: getBy_def wp_row_or)

lemma wp_execUser [wp_simps]:
  "wp (execUser f i) Q = (\<lambda>w.
     let w0 = w\<lparr> w_tick := Suc (w_tick w) \<rparr>; t = clock_at (w_env w) (w_tick w);
         w1 = w0\<lparr> w_db := snd (update_live i (f t) (w_db w)) \<rparr>
     in case outcome_at (w_env w) (w_tick w) of
          Refused \<Rightarrow> Q (Inl (ErrOther ''updating user'')) w0
        | Lost \<Rightarrow> Q (Inl (ErrOther ''updating user'')) w1
        | Done \<Rightarrow> Q (if fst (update_live i (f t) (w_db w)) = 0 then Inl ErrUserNotFound else Inr ()) w1)"
  unfolding execUser_def rows_or_def
  by (rule ext) (auto simp: wp_simps wp_run_stmt update_live_def Let_def split: outcome.splits)

text \<open>Usernames and emails stay unique.\<close>

definition users_unique :: "db \<Rightarrow> bool" where
  "users_unique d = (distinct (map u_ID (db_users d)) \<and> distinct (map u_Username (db_users d))
     \<and> distinct (map u_Email (db_users d)))"

lemma unique_execUser:
  assumes "\<And>t u. u_ID (f t u) = u_ID u" "\<And>t u. u_Username (f t u) = u_Username u" "\<And>t u. u_Email (f t u) = u_Email u"
  shows "steps (on_db (keeping users_unique)) (execUser f i)"
  unfolding execUser_def update_live_def
  by (intro steps_rows_or steps_run_stmt preorder_on_db preorder_keeping)
     (auto simp: users_unique_def map_update_rows assms)

lemma unique_Create: "steps (on_db (keeping users_unique)) (UserRepo_Create user)"
  unfolding UserRepo_Create_def
  by (intro steps_run_stmt preorder_keeping)
     (auto simp: users_unique_def user_row_def list_ex_iff split: if_splits, blast+)

lemma distinct_update_one:
  assumes "distinct (map key rows)" "\<forall>r \<in> set rows. key r \<noteq> k \<longrightarrow> g r \<noteq> x" "distinct (map g rows)"
    "\<And>r. g (f r) = x"
  shows "distinct (map g (update_rows (\<lambda>r. key r = k \<and> p r) f rows))"
  using assms(1-3)
proof (induction rows)
  case (Cons r rs)
  have "g s \<noteq> x" if "key r = k" "s \<in> set rs" for s
    using Cons.prems that by (auto simp: image_iff) metis
  moreover have "update_rows (\<lambda>r. key r = k \<and> p r) f rs = rs" if "key r = k"
    using Cons.prems(1) that by (intro update_rows_id) (auto simp: image_iff)
  moreover have "g r \<notin> g ` set (update_rows (\<lambda>r. key r = k \<and> p r) f rs)" if "key r \<noteq> k"
    using Cons.prems that by (auto simp: set_update_rows assms(4) split: if_splits)
  ultimately show ?case
    using Cons by (cases "key r = k") (auto simp: assms(4) image_iff)
qed simp

lemma unique_Update: "steps (on_db (keeping users_unique)) (UserRepo_Update user)"
  unfolding UserRepo_Update_def
proof (intro steps_rows_or steps_run_stmt preorder_on_db preorder_keeping impI)
  fix t d x d'
  assume s: "(if list_ex (\<lambda>u. u_ID u = u_ID user \<and> live_user u) (db_users d)
        \<and> list_ex (\<lambda>u. u_ID u \<noteq> u_ID user \<and> (u_Username u = u_Username user \<or> u_Email u = u_Email user)) (db_users d)
     then Inl ErrUserAlreadyExists else Inr (update_live (u_ID user) (user_written t user) d)) = Inr (x, d')"
    and u: "users_unique d"
  have d': "d' = d\<lparr> db_users := update_rows (\<lambda>u. u_ID u = u_ID user \<and> live_user u) (user_written t user) (db_users d) \<rparr>"
    using s by (auto simp: update_live_def split: if_splits)
  show "users_unique d'"
  proof (cases "list_ex (\<lambda>u. u_ID u = u_ID user \<and> live_user u) (db_users d)")
    case True
    with s have "\<forall>u \<in> set (db_users d). u_ID u \<noteq> u_ID user \<longrightarrow> u_Username u \<noteq> u_Username user"
      "\<forall>u \<in> set (db_users d). u_ID u \<noteq> u_ID user \<longrightarrow> u_Email u \<noteq> u_Email user"
      by (auto simp: list_ex_iff split: if_splits)
    with u show ?thesis
      by (auto simp: users_unique_def d' user_written_def map_update_rows intro!: distinct_update_one)
  next
    case False
    then have "update_rows (\<lambda>u. u_ID u = u_ID user \<and> live_user u) (user_written t user) (db_users d) = db_users d"
      by (intro update_rows_id) (auto simp: list_ex_iff)
    with u show ?thesis by (simp add: d' users_unique_def)
  qed
qed

end
