(* ===== verification/SocialRepo.thy ===== *)
theory SocialRepo
  imports VideoRepo UserRepo
begin

text \<open>
  The PostgreSQL store behind likes, comments, subscriptions, playlists, watch-later and
  notifications (\<^verbatim>\<open>internal/repository/postgres/social_repository.go\<close>), with the constraints and
  triggers of the migrations from \<^verbatim>\<open>Schema\<close>.  A unique pair of columns is the key of its table.
\<close>

definition like_key :: "Like \<Rightarrow> uuid \<times> uuid" where "like_key l = (l_UserID l, l_VideoID l)"
definition subscription_key :: "Subscription \<Rightarrow> uuid \<times> uuid" where "subscription_key s = (s_SubscriberID s, s_CreatorID s)"
definition playlist_video_key :: "PlaylistVideo \<Rightarrow> uuid \<times> uuid" where "playlist_video_key pv = (pv_PlaylistID pv, pv_VideoID pv)"
definition watch_later_key :: "WatchLater \<Rightarrow> uuid \<times> uuid" where "watch_later_key x = (wl_UserID x, wl_VideoID x)"

text \<open>\<^verbatim>\<open>DELETE ... WHERE key = k\<close> on a table with a row trigger.\<close>

definition delete_keyed :: "('r \<Rightarrow> 'k) \<Rightarrow> 'k \<Rightarrow> (db \<Rightarrow> 'r list) \<Rightarrow> ('r list \<Rightarrow> db \<Rightarrow> db) \<Rightarrow> ('r \<Rightarrow> db \<Rightarrow> db) \<Rightarrow> db \<Rightarrow> nat \<times> db" where
  "delete_keyed key k table store trigger d = (case lookup key k (table d) of
     None \<Rightarrow> (0, d) | Some r \<Rightarrow> (1, trigger r (store (remove key k (table d)) d)))"

section \<open>Likes\<close>

definition UpsertLike :: "Like \<Rightarrow> (err + Like) prog" where
  "UpsertLike like = run_stmt ''upserting like'' (\<lambda>t d.
     case lookup like_key (like_key like) (db_likes d) of
       Some old \<Rightarrow> let new = old\<lparr> l_IsLike := l_IsLike like \<rparr> in
         Inr (like\<lparr> l_ID := l_ID old, l_CreatedAt := l_CreatedAt old \<rparr>,
              like_updated t old new (d\<lparr> db_likes := modify like_key (like_key like) (\<lambda>_. new) (db_likes d) \<rparr>))
     | None \<Rightarrow>
         if list_ex (\<lambda>l. l_ID l = l_ID like) (db_likes d) then Inl (ErrOther ''duplicate key value'')
         else if \<not> user_exists d (l_UserID like) \<or> \<not> video_exists d (l_VideoID like)
           then Inl (ErrOther ''foreign key violation'')
         else Inr (like, like_inserted t like (d\<lparr> db_likes := db_likes d @ [like] \<rparr>)))"

definition DeleteLike :: "uuid \<Rightarrow> uuid \<Rightarrow> (err + unit) prog" where
  "DeleteLike userID videoID = rows_or ErrLikeNotFound (run_stmt ''deleting like'' (\<lambda>t d.
     Inr (delete_keyed like_key (userID, videoID) db_likes (\<lambda>ls d. d\<lparr> db_likes := ls \<rparr>) (like_deleted t) d)))"

definition GetLike :: "uuid \<Rightarrow> uuid \<Rightarrow> (err + Like) prog" where
  "GetLike userID videoID = row_or ErrLikeNotFound ''getting like'' (\<lambda>d. lookup like_key (userID, videoID) (db_likes d))"

section \<open>Comments\<close>

text \<open>\<^verbatim>\<open>COALESCE(u.oauth_avatar_url, u.avatar_url, '')\<close>.\<close>

definition coalesce_avatar :: "User \<Rightarrow> string" where
  "coalesce_avatar u = (case u_OAuthAvatarURL u of Some a \<Rightarrow> a
     | None \<Rightarrow> (case u_AvatarURL u of Some a \<Rightarrow> a | None \<Rightarrow> ''''))"

text \<open>The join of \<^verbatim>\<open>commentColumns\<close> with users.\<close>

definition joined_comment :: "db \<Rightarrow> Comment \<Rightarrow> Comment option" where
  "joined_comment d c = (case lookup u_ID (c_UserID c) (db_users d) of None \<Rightarrow> None
     | Some u \<Rightarrow> Some (c\<lparr> c_Username := u_Username u, c_AvatarURL := coalesce_avatar u \<rparr>))"

definition comment_row :: "Comment \<Rightarrow> Comment" where
  "comment_row c = c\<lparr> c_LikeCount := 0, c_ReplyCount := 0, c_Pinned := False, c_EditedAt := None,
     c_DeletedAt := None, c_Username := '''', c_AvatarURL := '''' \<rparr>"

definition SocialRepo_CreateComment :: "Comment \<Rightarrow> (err + unit) prog" where
  "SocialRepo_CreateComment c = run_stmt ''creating comment'' (\<lambda>t d.
     if comment_exists d (c_ID c) then Inl (ErrOther ''duplicate key value'')
     else if \<not> video_exists d (c_VideoID c) \<or> \<not> user_exists d (c_UserID c)
       \<or> (case c_ParentID c of None \<Rightarrow> False | Some p \<Rightarrow> \<not> comment_exists d p)
       then Inl (ErrOther ''foreign key violation'')
     else if RuneCount (c_Content c) = 0 \<or> RuneCount (c_Content c) > 10000 then Inl (ErrOther ''check constraint violation'')
     else Inr ((), comment_inserted t (comment_row c) (d\<lparr> db_comments := db_comments d @ [comment_row c] \<rparr>)))"

definition GetCommentByID :: "uuid \<Rightarrow> (err + Comment) prog" where
  "GetCommentByID i = row_or ErrCommentNotFound ''getting comment''
     (\<lambda>d. case lookup c_ID i (db_comments d) of None \<Rightarrow> None | Some c \<Rightarrow> joined_comment d c)"

text \<open>\<^verbatim>\<open>listComments\<close>: the clause, the join, the order, the page.\<close>

definition listComments :: "(Comment \<Rightarrow> bool) \<Rightarrow> (Comment list \<Rightarrow> Comment list) \<Rightarrow> Page \<Rightarrow> (err + Comment list) prog" where
  "listComments clause order page = page_query ''listing comments'' page
     (\<lambda>d. order (List.map_filter (joined_comment d) (filter clause (db_comments d))))"

definition top_level :: "uuid \<Rightarrow> Comment \<Rightarrow> bool" where
  "top_level videoID c = (c_VideoID c = videoID \<and> c_ParentID c = None \<and> c_DeletedAt c = None)"

definition reply_to :: "uuid \<Rightarrow> Comment \<Rightarrow> bool" where
  "reply_to parentID c = (c_ParentID c = Some parentID \<and> c_DeletedAt c = None)"

definition SocialRepo_ListComments :: "uuid \<Rightarrow> Page \<Rightarrow> (err + Comment list) prog" where
  "SocialRepo_ListComments videoID = listComments (top_level videoID)
     (\<lambda>cs. sort_key (\<lambda>c. if c_Pinned c then 0 else (1::nat)) (newest_first c_CreatedAt cs))"

definition CountComments :: "uuid \<Rightarrow> (err + nat) prog" where
  "CountComments videoID = run_query ''counting rows'' (\<lambda>d. length (filter (top_level videoID) (db_comments d)))"

definition SocialRepo_ListReplies :: "uuid \<Rightarrow> Page \<Rightarrow> (err + Comment list) prog" where
  "SocialRepo_ListReplies parentID = listComments (reply_to parentID) (sort_key c_CreatedAt)"

definition CountReplies :: "uuid \<Rightarrow> (err + nat) prog" where
  "CountReplies parentID = run_query ''counting rows'' (\<lambda>d. length (filter (reply_to parentID) (db_comments d)))"

definition live_comment :: "db \<Rightarrow> uuid \<Rightarrow> Comment option" where
  "live_comment d i = (case lookup c_ID i (db_comments d) of None \<Rightarrow> None
     | Some c \<Rightarrow> if c_DeletedAt c = None then Some c else None)"

definition UpdateCommentContent :: "uuid \<Rightarrow> string \<Rightarrow> (err + unit) prog" where
  "UpdateCommentContent i content = rows_or ErrCommentNotFound (run_stmt ''updating comment'' (\<lambda>t d.
     case live_comment d i of None \<Rightarrow> Inr (0, d)
     | Some c \<Rightarrow> if RuneCount content = 0 \<or> RuneCount content > 10000 then Inl (ErrOther ''check constraint violation'')
         else let new = c\<lparr> c_Content := content, c_EditedAt := Some t, c_UpdatedAt := t \<rparr> in
           Inr (1, comment_updated t c new (d\<lparr> db_comments := modify c_ID i (\<lambda>_. new) (db_comments d) \<rparr>))))"

definition SoftDeleteComment :: "uuid \<Rightarrow> (err + unit) prog" where
  "SoftDeleteComment i = rows_or ErrCommentNotFound (run_stmt ''deleting comment'' (\<lambda>t d.
     case live_comment d i of None \<Rightarrow> Inr (0, d)
     | Some c \<Rightarrow> let new = c\<lparr> c_DeletedAt := Some t, c_UpdatedAt := t \<rparr> in
         Inr (1, comment_updated t c new (d\<lparr> db_comments := modify c_ID i (\<lambda>_. new) (db_comments d) \<rparr>))))"

section \<open>Subscriptions\<close>

definition CreateSubscription :: "Subscription \<Rightarrow> (err + bool) prog" where
  "CreateSubscription s = run_stmt ''creating subscription'' (\<lambda>t d.
     if s_SubscriberID s = s_CreatorID s then Inl (ErrOther ''check constraint violation'')
     else if lookup subscription_key (subscription_key s) (db_subscriptions d) \<noteq> None then Inr (False, d)
     else if list_ex (\<lambda>x. s_ID x = s_ID s) (db_subscriptions d) then Inl (ErrOther ''duplicate key value'')
     else if \<not> user_exists d (s_SubscriberID s) \<or> \<not> user_exists d (s_CreatorID s) then Inl (ErrOther ''foreign key violation'')
     else Inr (True, subscription_inserted t s (d\<lparr> db_subscriptions := db_subscriptions d @ [s] \<rparr>)))"

definition DeleteSubscription :: "uuid \<Rightarrow> uuid \<Rightarrow> (err + unit) prog" where
  "DeleteSubscription subscriberID creatorID = rows_or ErrSubscriptionNotFound (run_stmt ''deleting subscription'' (\<lambda>t d.
     Inr (delete_keyed subscription_key (subscriberID, creatorID) db_subscriptions
       (\<lambda>ss d. d\<lparr> db_subscriptions := ss \<rparr>) (subscription_deleted t) d)))"

record SubscriptionEntry =
  se_UserID :: uuid
  se_Username :: string
  se_AvatarURL :: string
  se_SubscriberCount :: int
  se_NotifyUploads :: bool
  se_SubscribedAt :: time

definition subscription_entry :: "(Subscription \<Rightarrow> uuid) \<Rightarrow> db \<Rightarrow> Subscription \<Rightarrow> SubscriptionEntry option" where
  "subscription_entry counterpart d s = (case lookup u_ID (counterpart s) (db_users d) of None \<Rightarrow> None
     | Some u \<Rightarrow> Some \<lparr> se_UserID = u_ID u, se_Username = u_Username u, se_AvatarURL = coalesce_avatar u,
         se_SubscriberCount = db_subscriber_count d (u_ID u), se_NotifyUploads = s_NotifyUploads s,
         se_SubscribedAt = s_CreatedAt s \<rparr>)"

definition listSubscriptionEntries :: "(Subscription \<Rightarrow> bool) \<Rightarrow> (Subscription \<Rightarrow> uuid) \<Rightarrow> Page
    \<Rightarrow> (err + SubscriptionEntry list) prog" where
  "listSubscriptionEntries clause counterpart page = page_query ''listing subscriptions'' page
     (\<lambda>d. newest_first se_SubscribedAt (List.map_filter (subscription_entry counterpart d) (filter clause (db_subscriptions d))))"

definition SocialRepo_ListSubscribers :: "uuid \<Rightarrow> Page \<Rightarrow> (err + SubscriptionEntry list) prog" where
  "SocialRepo_ListSubscribers creatorID = listSubscriptionEntries (\<lambda>s. s_CreatorID s = creatorID) s_SubscriberID"

definition CountSubscribers :: "uuid \<Rightarrow> (err + nat) prog" where
  "CountSubscribers creatorID = run_query ''counting rows'' (\<lambda>d. length (filter (\<lambda>s. s_CreatorID s = creatorID) (db_subscriptions d)))"

definition SocialRepo_ListSubscriptions :: "uuid \<Rightarrow> Page \<Rightarrow> (err + SubscriptionEntry list) prog" where
  "SocialRepo_ListSubscriptions subscriberID = listSubscriptionEntries (\<lambda>s. s_SubscriberID s = subscriberID) s_CreatorID"

definition CountSubscriptions :: "uuid \<Rightarrow> (err + nat) prog" where
  "CountSubscriptions subscriberID = run_query ''counting rows'' (\<lambda>d. length (filter (\<lambda>s. s_SubscriberID s = subscriberID) (db_subscriptions d)))"

section \<open>Playlists\<close>

definition playlist_row :: "Playlist \<Rightarrow> Playlist" where
  "playlist_row p = p\<lparr> p_VideoCount := 0 \<rparr>"

definition SocialRepo_CreatePlaylist :: "Playlist \<Rightarrow> (err + unit) prog" where
  "SocialRepo_CreatePlaylist p = run_stmt ''creating playlist'' (\<lambda>t d.
     if playlist_exists d (p_ID p) then Inl (ErrOther ''duplicate key value'')
     else if \<not> user_exists d (p_UserID p) then Inl (ErrOther ''foreign key violation'')
     else if p_Visibility p \<notin> set [''public'', ''private'', ''unlisted''] \<or> RuneCount (p_Title p) > 255
       then Inl (ErrOther ''check constraint violation'')
     else Inr ((), d\<lparr> db_playlists := db_playlists d @ [playlist_row p] \<rparr>))"

definition GetPlaylistByID :: "uuid \<Rightarrow> (err + Playlist) prog" where
  "GetPlaylistByID i = row_or ErrPlaylistNotFound ''getting playlist'' (\<lambda>d. lookup p_ID i (db_playlists d))"

definition SocialRepo_UpdatePlaylist :: "Playlist \<Rightarrow> (err + unit) prog" where
  "SocialRepo_UpdatePlaylist p = rows_or ErrPlaylistNotFound (run_stmt ''updating playlist'' (\<lambda>t d.
     if playlist_exists d (p_ID p) \<and> (p_Visibility p \<notin> set [''public'', ''private'', ''unlisted''] \<or> RuneCount (p_Title p) > 255)
       then Inl (ErrOther ''check constraint violation'')
     else Inr (affected (\<lambda>q. p_ID q = p_ID p) (db_playlists d),
          d\<lparr> db_playlists := modify p_ID (p_ID p) (\<lambda>q. q\<lparr> p_Title := p_Title p, p_Description := p_Description p,
               p_Visibility := p_Visibility p, p_UpdatedAt := t \<rparr>) (db_playlists d) \<rparr>)))"

definition drop_playlist :: "time \<Rightarrow> uuid \<Rightarrow> db \<Rightarrow> db" where
  "drop_playlist t i d =
     (let gone = filter (\<lambda>pv. pv_PlaylistID pv = i) (db_playlist_videos d)
      in fold (playlist_video_deleted t) gone
           (d\<lparr> db_playlists := remove p_ID i (db_playlists d),
               db_playlist_videos := delete_rows (\<lambda>pv. pv_PlaylistID pv = i) (db_playlist_videos d) \<rparr>))"

definition SocialRepo_DeletePlaylist :: "uuid \<Rightarrow> (err + unit) prog" where
  "SocialRepo_DeletePlaylist i = rows_or ErrPlaylistNotFound (run_stmt ''deleting playlist'' (\<lambda>t d.
     if playlist_exists d i then Inr (1, drop_playlist t i d) else Inr (0, d)))"

definition ListPlaylistsByUser :: "uuid \<Rightarrow> Page \<Rightarrow> (err + Playlist list) prog" where
  "ListPlaylistsByUser userID page = page_query ''listing playlists'' page
     (\<lambda>d. newest_first p_UpdatedAt (filter (\<lambda>p. p_UserID p = userID) (db_playlists d)))"

definition CountPlaylistsByUser :: "uuid \<Rightarrow> (err + nat) prog" where
  "CountPlaylistsByUser userID = run_query ''counting rows'' (\<lambda>d. length (filter (\<lambda>p. p_UserID p = userID) (db_playlists d)))"

text \<open>\<^verbatim>\<open>COALESCE(MAX(position), -1) + 1\<close> over the rows of the playlist; the column is an INTEGER.\<close>

definition next_position :: "db \<Rightarrow> uuid \<Rightarrow> int" where
  "next_position d playlistID =
     (let ps = map pv_Position (filter (\<lambda>pv. pv_PlaylistID pv = playlistID) (db_playlist_videos d))
      in (if ps = [] then - 1 else Max (set ps)) + 1)"

definition insert_playlist_video :: "time \<Rightarrow> uuid \<Rightarrow> uuid \<Rightarrow> uuid \<Rightarrow> db \<Rightarrow> err + PlaylistVideo \<times> db" where
  "insert_playlist_video t i playlistID videoID d =
     (let entry = \<lparr> pv_ID = i, pv_PlaylistID = playlistID, pv_VideoID = videoID,
                    pv_Position = next_position d playlistID, pv_AddedAt = t \<rparr>
      in if pv_Position entry > 2147483647 then Inl (ErrOther ''integer out of range'')
         else if list_ex (\<lambda>pv. pv_ID pv = i) (db_playlist_videos d)
           \<or> lookup playlist_video_key (playlistID, videoID) (db_playlist_videos d) \<noteq> None
           then Inl ErrVideoAlreadyInPlaylist
         else if \<not> video_exists d videoID \<or> \<not> playlist_exists d playlistID then Inl (ErrOther ''foreign key violation'')
         else Inr (entry, playlist_video_inserted t entry (d\<lparr> db_playlist_videos := db_playlist_videos d @ [entry] \<rparr>)))"

text \<open>The transaction: begin (which fixes \<^verbatim>\<open>NOW()\<close>), lock, insert, commit; what the insert did becomes
  visible with the commit, and any earlier error rolls back.\<close>

definition SocialRepo_AddPlaylistVideo :: "uuid \<Rightarrow> uuid \<Rightarrow> (err + PlaylistVideo) prog" where
  "SocialRepo_AddPlaylistVideo playlistID videoID = do {
     b \<leftarrow> run_stmt ''beginning transaction'' (\<lambda>t d. Inr (t, d));
     case b of Inl e \<Rightarrow> State_Monad.return (Inl e)
     | Inr t0 \<Rightarrow> do {
         l \<leftarrow> row_or ErrPlaylistNotFound ''locking playlist'' (\<lambda>d. lookup p_ID playlistID (db_playlists d));
         case l of Inl e \<Rightarrow> State_Monad.return (Inl e)
         | Inr locked \<Rightarrow> do {
             i \<leftarrow> uuid_New;
             r \<leftarrow> run_query ''adding video to playlist'' (\<lambda>d. insert_playlist_video t0 i playlistID videoID d);
             case r of Inl e \<Rightarrow> State_Monad.return (Inl e)
             | Inr (Inl e) \<Rightarrow> State_Monad.return (Inl e)
             | Inr (Inr _) \<Rightarrow> run_stmt ''committing playlist add'' (\<lambda>t d. insert_playlist_video t0 i playlistID videoID d)
           }
       }
   }"

definition SocialRepo_RemovePlaylistVideo :: "uuid \<Rightarrow> uuid \<Rightarrow> (err + unit) prog" where
  "SocialRepo_RemovePlaylistVideo playlistID videoID = rows_or ErrPlaylistVideoNotFound (run_stmt ''removing video from playlist''
     (\<lambda>t d. Inr (delete_keyed playlist_video_key (playlistID, videoID) db_playlist_videos
        (\<lambda>pvs d. d\<lparr> db_playlist_videos := pvs \<rparr>) (playlist_video_deleted t) d)))"

record PlaylistItem =
  pi_Position :: int
  pi_AddedAt :: time
  pi_Video :: Video

definition playlist_item :: "db \<Rightarrow> PlaylistVideo \<Rightarrow> PlaylistItem option" where
  "playlist_item d pv = (case lookup v_ID (pv_VideoID pv) (db_videos d) of None \<Rightarrow> None
     | Some v \<Rightarrow> Some \<lparr> pi_Position = pv_Position pv, pi_AddedAt = pv_AddedAt pv, pi_Video = v \<rparr>)"

definition SocialRepo_ListPlaylistVideos :: "uuid \<Rightarrow> Page \<Rightarrow> (err + PlaylistItem list) prog" where
  "SocialRepo_ListPlaylistVideos playlistID page = page_query ''listing playlist videos'' page
     (\<lambda>d. sort_key pi_Position (List.map_filter (playlist_item d)
            (filter (\<lambda>pv. pv_PlaylistID pv = playlistID) (db_playlist_videos d))))"

definition CountPlaylistVideos :: "uuid \<Rightarrow> (err + nat) prog" where
  "CountPlaylistVideos playlistID = run_query ''counting rows''
     (\<lambda>d. length (filter (\<lambda>pv. pv_PlaylistID pv = playlistID) (db_playlist_videos d)))"

section \<open>Watch later\<close>

definition UpsertWatchLater :: "WatchLater \<Rightarrow> (err + unit) prog" where
  "UpsertWatchLater x = run_stmt ''adding to watch later'' (\<lambda>t d.
     if lookup watch_later_key (watch_later_key x) (db_watch_later d) \<noteq> None then Inr ((), d)
     else if list_ex (\<lambda>y. wl_ID y = wl_ID x) (db_watch_later d) then Inl (ErrOther ''duplicate key value'')
     else if \<not> user_exists d (wl_UserID x) \<or> \<not> video_exists d (wl_VideoID x) then Inl (ErrOther ''foreign key violation'')
     else Inr ((), d\<lparr> db_watch_later := db_watch_later d @ [x] \<rparr>))"

definition DeleteWatchLater :: "uuid \<Rightarrow> uuid \<Rightarrow> (err + unit) prog" where
  "DeleteWatchLater userID videoID = rows_or ErrWatchLaterNotFound (run_stmt ''removing from watch later'' (\<lambda>t d.
     Inr (delete_keyed watch_later_key (userID, videoID) db_watch_later (\<lambda>ws d. d\<lparr> db_watch_later := ws \<rparr>) (\<lambda>_ d. d) d)))"

record WatchLaterItem =
  wi_AddedAt :: time
  wi_Video :: Video

definition watch_later_item :: "db \<Rightarrow> WatchLater \<Rightarrow> WatchLaterItem option" where
  "watch_later_item d x = (case lookup v_ID (wl_VideoID x) (db_videos d) of None \<Rightarrow> None
     | Some v \<Rightarrow> Some \<lparr> wi_AddedAt = wl_AddedAt x, wi_Video = v \<rparr>)"

definition SocialRepo_ListWatchLater :: "uuid \<Rightarrow> Page \<Rightarrow> (err + WatchLaterItem list) prog" where
  "SocialRepo_ListWatchLater userID page = page_query ''listing watch later'' page
     (\<lambda>d. newest_first wi_AddedAt (List.map_filter (watch_later_item d) (filter (\<lambda>x. wl_UserID x = userID) (db_watch_later d))))"

definition CountWatchLater :: "uuid \<Rightarrow> (err + nat) prog" where
  "CountWatchLater userID = run_query ''counting rows'' (\<lambda>d. length (filter (\<lambda>x. wl_UserID x = userID) (db_watch_later d)))"

section \<open>Notifications\<close>

definition opt_ok :: "('a \<Rightarrow> bool) \<Rightarrow> 'a option \<Rightarrow> bool" where
  "opt_ok p x = (case x of None \<Rightarrow> True | Some a \<Rightarrow> p a)"

definition CreateNotification :: "Notification \<Rightarrow> (err + unit) prog" where
  "CreateNotification n = run_stmt ''creating notification'' (\<lambda>t d.
     if list_ex (\<lambda>m. n_ID m = n_ID n) (db_notifications d) then Inl (ErrOther ''duplicate key value'')
     else if \<not> user_exists d (n_UserID n) \<or> \<not> opt_ok (user_exists d) (n_ActorID n)
       \<or> \<not> opt_ok (video_exists d) (n_VideoID n) \<or> \<not> opt_ok (comment_exists d) (n_CommentID n)
       then Inl (ErrOther ''foreign key violation'')
     else if (case n_Type n of NotificationOther _ \<Rightarrow> True | _ \<Rightarrow> False) \<or> RuneCount (n_Title n) > 255
       then Inl (ErrOther ''invalid value'')
     else Inr ((), d\<lparr> db_notifications := db_notifications d @ [n\<lparr> n_Read := False \<rparr>] \<rparr>))"

definition notification_of :: "uuid \<Rightarrow> bool \<Rightarrow> Notification \<Rightarrow> bool" where
  "notification_of userID unreadOnly n = (n_UserID n = userID \<and> (unreadOnly \<longrightarrow> \<not> n_Read n))"

definition SocialRepo_ListNotifications :: "uuid \<Rightarrow> bool \<Rightarrow> Page \<Rightarrow> (err + Notification list) prog" where
  "SocialRepo_ListNotifications userID unreadOnly page = page_query ''listing notifications'' page
     (\<lambda>d. newest_first n_CreatedAt (filter (notification_of userID unreadOnly) (db_notifications d)))"

definition CountNotifications :: "uuid \<Rightarrow> bool \<Rightarrow> (err + nat) prog" where
  "CountNotifications userID unreadOnly = run_query ''counting rows''
     (\<lambda>d. length (filter (notification_of userID unreadOnly) (db_notifications d)))"

definition SocialRepo_MarkNotificationRead :: "uuid \<Rightarrow> uuid \<Rightarrow> (err + unit) prog" where
  "SocialRepo_MarkNotificationRead i userID = rows_or ErrNotificationNotFound (run_stmt ''marking notification read'' (\<lambda>t d.
     Inr (affected (\<lambda>n. n_ID n = i \<and> n_UserID n = userID) (db_notifications d),
          d\<lparr> db_notifications := update_rows (\<lambda>n. n_ID n = i \<and> n_UserID n = userID) (\<lambda>n. n\<lparr> n_Read := True \<rparr>) (db_notifications d) \<rparr>)))"

definition SocialRepo_MarkAllNotificationsRead :: "uuid \<Rightarrow> (err + nat) prog" where
  "SocialRepo_MarkAllNotificationsRead userID = run_stmt ''marking notifications read'' (\<lambda>t d.
     Inr (affected (notification_of userID True) (db_notifications d),
          d\<lparr> db_notifications := update_rows (notification_of userID True) (\<lambda>n. n\<lparr> n_Read := True \<rparr>) (db_notifications d) \<rparr>))"

end
