(* ===== verification/SocialInv.thy ===== *)
theory SocialInv
  imports SocialRepo
begin

text \<open>
  The invariant of the social tables: the unique columns are unique, references point to rows, and
  the counters the triggers maintain are exact.  One lemma per statement of the repository shows
  that it preserves the invariant; the contract \<^verbatim>\<open>counter_trigger\<close> does the counting.
\<close>

section \<open>One row of a keyed table\<close>

lemma mset_keyed:
  assumes "distinct (map key rows)" "lookup key k rows = Some r"
  shows "mset rows = add_mset r (mset (remove key k rows))"
    and "mset (modify key k f rows) = add_mset (f r) (mset (remove key k rows))"
  using assms
proof (induction rows)
  case (Cons x xs)
  have none: "lookup key (key x) xs = None" if "distinct (map key (x # xs))" using that by (auto simp: lookup_None)
  have id: "modify key (key x) f xs = xs" if "distinct (map key (x # xs))" by (rule modify_id[OF none[OF that]])
  have rem: "remove key (key x) xs = xs" if "distinct (map key (x # xs))"
    using none[OF that] by (induction xs) (auto split: if_splits)
  { case 1 then show ?case using Cons rem[OF 1(1)] by (auto split: if_splits) }
  { case 2 then show ?case using Cons rem[OF 2(1)] id[OF 2(1)] by (auto split: if_splits) }
qed simp_all

context counter_trigger
begin

lemma consistent_add:
  assumes "\<forall>j n. count_of d j = Some n \<longrightarrow> n = int (count T j)" "targets d = add_mset k T"
  shows "\<forall>j n. count_of (bump k 1 d) j = Some n \<longrightarrow> n = int (count (targets (bump k 1 d)) j)"
  using assms by (auto simp: bump_targets bump_count split: if_splits)

lemma consistent_drop:
  assumes "\<forall>j n. count_of d j = Some n \<longrightarrow> n = int (count (add_mset k (targets d)) j)"
  shows "\<forall>j n. count_of (bump k (- 1) d) j = Some n \<longrightarrow> n = int (count (targets (bump k (- 1) d)) j)"
proof (intro allI impI)
  fix j n assume "count_of (bump k (- 1) d) j = Some n"
  then show "n = int (count (targets (bump k (- 1) d)) j)"
    using assms[rule_format, of j] by (auto simp: bump_targets bump_count split: if_splits)
qed

end

section \<open>The invariant\<close>

definition keys_ok :: "db \<Rightarrow> bool" where
  "keys_ok d = (distinct (map v_ID (db_videos d)) \<and> distinct (map like_key (db_likes d))
     \<and> distinct (map c_ID (db_comments d)) \<and> distinct (map subscription_key (db_subscriptions d))
     \<and> distinct (map p_ID (db_playlists d)) \<and> distinct (map playlist_video_key (db_playlist_videos d))
     \<and> distinct (map (\<lambda>pv. (pv_PlaylistID pv, pv_Position pv)) (db_playlist_videos d)))"

definition refs_ok :: "db \<Rightarrow> bool" where
  "refs_ok d = (l_VideoID ` set (db_likes d) \<subseteq> v_ID ` set (db_videos d)
     \<and> c_VideoID ` set (db_comments d) \<subseteq> v_ID ` set (db_videos d)
     \<and> c_ParentID ` set (db_comments d) \<subseteq> insert None (Some ` c_ID ` set (db_comments d))
     \<and> s_CreatorID ` set (db_subscriptions d) \<subseteq> u_ID ` set (db_users d)
     \<and> pv_PlaylistID ` set (db_playlist_videos d) \<subseteq> p_ID ` set (db_playlists d)
     \<and> pv_VideoID ` set (db_playlist_videos d) \<subseteq> v_ID ` set (db_videos d))"

definition social_ok :: "db \<Rightarrow> bool" where
  "social_ok d = (keys_ok d \<and> refs_ok d \<and> counters_ok d)"

lemma exists_iff:
  "video_exists d i \<longleftrightarrow> i \<in> v_ID ` set (db_videos d)" "user_exists d i \<longleftrightarrow> i \<in> u_ID ` set (db_users d)"
  "comment_exists d i \<longleftrightarrow> i \<in> c_ID ` set (db_comments d)" "playlist_exists d i \<longleftrightarrow> i \<in> p_ID ` set (db_playlists d)"
  by (auto simp: video_exists_def user_exists_def comment_exists_def playlist_exists_def list_ex_iff)

text \<open>A bump keeps every key and reference.\<close>

lemma image_modify: "(\<And>r. g (f r) = g r) \<Longrightarrow> g ` set (modify key k f rows) = g ` set rows"
  using map_modify[of g f key k rows] by (metis set_map)

lemma bump_keys [simp]:
  "keys_ok (bump_like_count t k n d) = keys_ok d" "keys_ok (bump_comment_count t k n d) = keys_ok d"
  "keys_ok (bump_reply_count t k n d) = keys_ok d" "keys_ok (bump_subscriber_count t k n d) = keys_ok d"
  "keys_ok (bump_video_count t k n d) = keys_ok d"
  by (simp_all add: keys_ok_def bump_defs map_modify)


lemma bump_refs [simp]:
  "refs_ok (bump_like_count t k n d) = refs_ok d" "refs_ok (bump_comment_count t k n d) = refs_ok d"
  "refs_ok (bump_reply_count t k n d) = refs_ok d" "refs_ok (bump_subscriber_count t k n d) = refs_ok d"
  "refs_ok (bump_video_count t k n d) = refs_ok d"
  by (simp_all add: refs_ok_def bump_defs image_modify)

section \<open>Likes\<close>

lemma likes_frame:
  "comment_count_of (d\<lparr> db_likes := ls \<rparr>) = comment_count_of d" "reply_count_of (d\<lparr> db_likes := ls \<rparr>) = reply_count_of d"
  "subscriber_count_of (d\<lparr> db_likes := ls \<rparr>) = subscriber_count_of d" "video_count_of (d\<lparr> db_likes := ls \<rparr>) = video_count_of d"
  "like_count_of (d\<lparr> db_likes := ls \<rparr>) = like_count_of d"
  "comment_targets (d\<lparr> db_likes := ls \<rparr>) = comment_targets d" "reply_targets (d\<lparr> db_likes := ls \<rparr>) = reply_targets d"
  "subscriber_targets (d\<lparr> db_likes := ls \<rparr>) = subscriber_targets d" "playlist_targets (d\<lparr> db_likes := ls \<rparr>) = playlist_targets d"
  by (simp_all add: count_of_defs targets_defs fun_eq_iff)

lemma likes_count:
  assumes "counters_ok d"
  shows "like_targets (d\<lparr> db_likes := ls \<rparr>) = add_mset k (like_targets d) \<Longrightarrow> counters_ok (bump_like_count t k 1 (d\<lparr> db_likes := ls \<rparr>))"
    and "add_mset k (like_targets (d\<lparr> db_likes := ls \<rparr>)) = like_targets d \<Longrightarrow> counters_ok (bump_like_count t k (- 1) (d\<lparr> db_likes := ls \<rparr>))"
    and "like_targets (d\<lparr> db_likes := ls \<rparr>) = like_targets d \<Longrightarrow> counters_ok (d\<lparr> db_likes := ls \<rparr>)"
proof -
  note c = assms[unfolded counters_ok_def]
  { assume "like_targets (d\<lparr> db_likes := ls \<rparr>) = add_mset k (like_targets d)"
    then show "counters_ok (bump_like_count t k 1 (d\<lparr> db_likes := ls \<rparr>))"
      using c by (intro counters_okI like_counter.consistent_add) (simp_all add: likes_frame) }
  { assume "add_mset k (like_targets (d\<lparr> db_likes := ls \<rparr>)) = like_targets d"
    then show "counters_ok (bump_like_count t k (- 1) (d\<lparr> db_likes := ls \<rparr>))"
      using c by (intro counters_okI like_counter.consistent_drop) (simp_all add: likes_frame) }
  { assume "like_targets (d\<lparr> db_likes := ls \<rparr>) = like_targets d"
    then show "counters_ok (d\<lparr> db_likes := ls \<rparr>)"
      using c by (intro counters_okI) (simp_all add: likes_frame) }
qed

lemma like_rows:
  assumes "distinct (map like_key (db_likes d))" "lookup like_key k (db_likes d) = Some old"
  shows "like_targets d = (if l_IsLike old then {# l_VideoID old #} else {#}) + like_targets (d\<lparr> db_likes := remove like_key k (db_likes d) \<rparr>)"
    "like_targets (d\<lparr> db_likes := modify like_key k (\<lambda>_. new) (db_likes d) \<rparr>)
      = (if l_IsLike new then {# l_VideoID new #} else {#}) + like_targets (d\<lparr> db_likes := remove like_key k (db_likes d) \<rparr>)"
  using mset_keyed[OF assms] by (simp_all add: like_targets_def)

lemma social_UpsertLike: "steps (on_db (keeping social_ok)) (UpsertLike like)"
  unfolding UpsertLike_def
proof (intro steps_run_stmt preorder_keeping impI)
  fix t d x d'
  assume s: "(case lookup like_key (like_key like) (db_likes d) of
       Some old \<Rightarrow> let new = old\<lparr> l_IsLike := l_IsLike like \<rparr> in
         Inr (like\<lparr> l_ID := l_ID old, l_CreatedAt := l_CreatedAt old \<rparr>,
              like_updated t old new (d\<lparr> db_likes := modify like_key (like_key like) (\<lambda>_. new) (db_likes d) \<rparr>))
     | None \<Rightarrow>
         if list_ex (\<lambda>l. l_ID l = l_ID like) (db_likes d) then Inl (ErrOther ''duplicate key value'')
         else if \<not> user_exists d (l_UserID like) \<or> \<not> video_exists d (l_VideoID like)
           then Inl (ErrOther ''foreign key violation'')
         else Inr (like, like_inserted t like (d\<lparr> db_likes := db_likes d @ [like] \<rparr>))) = Inr (x, d')"
    and ok: "social_ok d"
  have k: "keys_ok d" "refs_ok d" "counters_ok d" using ok by (simp_all add: social_ok_def)
  show "social_ok d'"
  proof (cases "lookup like_key (like_key like) (db_likes d)")
    case None
    let ?d = "d\<lparr> db_likes := db_likes d @ [like] \<rparr>"
    have d': "d' = like_inserted t like ?d" "video_exists d (l_VideoID like)"
      using s None by (auto split: if_splits)
    have "keys_ok ?d" "refs_ok ?d"
      using k(1,2) None d'(2) by (auto simp: keys_ok_def refs_ok_def lookup_None exists_iff)
    moreover have "counters_ok d'"
      using likes_count[OF k(3), where ls = "db_likes d @ [like]"] by (auto simp: d' like_inserted_def like_targets_def)
    ultimately show ?thesis by (simp add: social_ok_def d' like_inserted_def)
  next
    case (Some old)
    define new where "new = old\<lparr> l_IsLike := l_IsLike like \<rparr>"
    let ?d = "d\<lparr> db_likes := modify like_key (like_key like) (\<lambda>_. new) (db_likes d) \<rparr>"
    have d': "d' = like_updated t old new ?d" using s Some by (auto simp: Let_def new_def)
    have key: "like_key new = like_key like" "l_VideoID new = l_VideoID old"
      using lookup_key[OF Some] by (simp_all add: new_def like_key_def)
    have "keys_ok ?d" using k(1) distinct_modify[of like_key, OF _ key(1)] by (simp add: keys_ok_def)
    moreover have "refs_ok ?d"
      using k(2) lookup_mem[OF Some] by (auto simp: refs_ok_def set_modify key(2))
    moreover have "counters_ok d'"
      using likes_count[OF k(3), where ls = "modify like_key (like_key like) (\<lambda>_. new) (db_likes d)"] k(1)
        like_rows(1)[OF _ Some] like_rows(2)[OF _ Some, of new] by (auto simp: d' like_updated_def keys_ok_def key(2) split: if_splits)
    ultimately show ?thesis by (simp add: social_ok_def d' like_updated_def)
  qed
qed

lemma social_DeleteLike: "steps (on_db (keeping social_ok)) (DeleteLike u v)"
  unfolding DeleteLike_def
proof (intro steps_rows_or steps_run_stmt preorder_on_db preorder_keeping impI)
  fix t d x d'
  assume s: "Inr (delete_keyed like_key (u, v) db_likes (\<lambda>ls d. d\<lparr> db_likes := ls \<rparr>) (like_deleted t) d) = (Inr (x, d') :: err + nat \<times> db)"
    and ok: "social_ok d"
  have k: "keys_ok d" "refs_ok d" "counters_ok d" using ok by (simp_all add: social_ok_def)
  show "social_ok d'"
  proof (cases "lookup like_key (u, v) (db_likes d)")
    case None
    with s ok show ?thesis by (simp add: delete_keyed_def)
  next
    case (Some old)
    let ?d = "d\<lparr> db_likes := remove like_key (u, v) (db_likes d) \<rparr>"
    have d': "d' = like_deleted t old ?d" using s Some by (simp add: delete_keyed_def)
    have "keys_ok ?d" "refs_ok ?d"
      using k(1,2) by (auto simp: keys_ok_def refs_ok_def distinct_remove set_remove)
    moreover have "counters_ok d'"
      using likes_count[OF k(3), where ls = "remove like_key (u, v) (db_likes d)"] k(1) like_rows(1)[OF _ Some]
      by (auto simp: d' like_deleted_def keys_ok_def split: if_splits)
    ultimately show ?thesis by (simp add: social_ok_def d' like_deleted_def)
  qed
qed

section \<open>Comments\<close>

lemma comments_frame:
  "like_count_of (d\<lparr> db_comments := cs \<rparr>) = like_count_of d" "comment_count_of (d\<lparr> db_comments := cs \<rparr>) = comment_count_of d"
  "subscriber_count_of (d\<lparr> db_comments := cs \<rparr>) = subscriber_count_of d" "video_count_of (d\<lparr> db_comments := cs \<rparr>) = video_count_of d"
  "like_targets (d\<lparr> db_comments := cs \<rparr>) = like_targets d"
  "subscriber_targets (d\<lparr> db_comments := cs \<rparr>) = subscriber_targets d" "playlist_targets (d\<lparr> db_comments := cs \<rparr>) = playlist_targets d"
  by (simp_all add: count_of_defs targets_defs fun_eq_iff)

lemma comments_count:
  assumes "counters_ok d"
    and reply: "\<forall>j n. reply_count_of (d\<lparr> db_comments := cs \<rparr>) j = Some n \<longrightarrow> n = int (count (reply_targets d) j)"
  shows "comment_targets (d\<lparr> db_comments := cs \<rparr>) = add_mset v (comment_targets d) \<Longrightarrow>
      reply_targets (d\<lparr> db_comments := cs \<rparr>) = (case p of None \<Rightarrow> {#} | Some p \<Rightarrow> {# p #}) + reply_targets d \<Longrightarrow>
      counters_ok (bump_parent t p 1 (bump_comment_count t v 1 (d\<lparr> db_comments := cs \<rparr>)))"
    and "comment_targets d = add_mset v (comment_targets (d\<lparr> db_comments := cs \<rparr>)) \<Longrightarrow>
      reply_targets d = (case p of None \<Rightarrow> {#} | Some p \<Rightarrow> {# p #}) + reply_targets (d\<lparr> db_comments := cs \<rparr>) \<Longrightarrow>
      counters_ok (bump_parent t p (- 1) (bump_comment_count t v (- 1) (d\<lparr> db_comments := cs \<rparr>)))"
    and "comment_targets (d\<lparr> db_comments := cs \<rparr>) = comment_targets d \<Longrightarrow>
      reply_targets (d\<lparr> db_comments := cs \<rparr>) = reply_targets d \<Longrightarrow> counters_ok (d\<lparr> db_comments := cs \<rparr>)"
proof -
  let ?d = "d\<lparr> db_comments := cs \<rparr>"
  note c = assms(1)[unfolded counters_ok_def]
  { assume a: "comment_targets ?d = add_mset v (comment_targets d)"
      "reply_targets ?d = (case p of None \<Rightarrow> {#} | Some p \<Rightarrow> {# p #}) + reply_targets d"
    show "counters_ok (bump_parent t p 1 (bump_comment_count t v 1 ?d))"
    proof (cases p)
      case None
      have "counters_ok (bump_comment_count t v 1 ?d)"
        using a c reply None by (intro counters_okI comment_counter.consistent_add) (simp_all add: comments_frame)
      with None show ?thesis by (simp add: bump_parent_def)
    next
      case (Some q)
      have v: "\<forall>j n. comment_count_of (bump_comment_count t v 1 ?d) j = Some n
          \<longrightarrow> n = int (count (comment_targets (bump_comment_count t v 1 ?d)) j)"
        using a c by (intro comment_counter.consistent_add) (simp_all add: comments_frame)
      have "counters_ok (bump_reply_count t q 1 (bump_comment_count t v 1 ?d))"
        using a c reply Some v by (intro counters_okI reply_counter.consistent_add) (simp_all add: comments_frame)
      with Some show ?thesis by (simp add: bump_parent_def)
    qed }
  { assume a: "comment_targets d = add_mset v (comment_targets ?d)"
      "reply_targets d = (case p of None \<Rightarrow> {#} | Some p \<Rightarrow> {# p #}) + reply_targets ?d"
    show "counters_ok (bump_parent t p (- 1) (bump_comment_count t v (- 1) ?d))"
    proof (cases p)
      case None
      have "counters_ok (bump_comment_count t v (- 1) ?d)"
        using a c reply None by (intro counters_okI comment_counter.consistent_drop) (simp_all add: comments_frame)
      with None show ?thesis by (simp add: bump_parent_def)
    next
      case (Some q)
      have v: "\<forall>j n. comment_count_of (bump_comment_count t v (- 1) ?d) j = Some n
          \<longrightarrow> n = int (count (comment_targets (bump_comment_count t v (- 1) ?d)) j)"
        using a c by (intro comment_counter.consistent_drop) (simp_all add: comments_frame)
      have "counters_ok (bump_reply_count t q (- 1) (bump_comment_count t v (- 1) ?d))"
        using a c reply Some v by (intro counters_okI reply_counter.consistent_drop) (simp_all add: comments_frame)
      with Some show ?thesis by (simp add: bump_parent_def)
    qed }
  { assume "comment_targets ?d = comment_targets d" "reply_targets ?d = reply_targets d"
    then show "counters_ok ?d" using c reply by (intro counters_okI) (simp_all add: comments_frame) }
qed

lemma comment_rows:
  assumes "distinct (map c_ID (db_comments d))" "lookup c_ID i (db_comments d) = Some old"
  shows "comment_targets d = (if c_DeletedAt old = None then {# c_VideoID old #} else {#})
      + comment_targets (d\<lparr> db_comments := remove c_ID i (db_comments d) \<rparr>)"
    "comment_targets (d\<lparr> db_comments := modify c_ID i (\<lambda>_. new) (db_comments d) \<rparr>)
      = (if c_DeletedAt new = None then {# c_VideoID new #} else {#})
      + comment_targets (d\<lparr> db_comments := remove c_ID i (db_comments d) \<rparr>)"
    "reply_targets d = (if c_DeletedAt old = None then (case c_ParentID old of None \<Rightarrow> {#} | Some p \<Rightarrow> {# p #}) else {#})
      + reply_targets (d\<lparr> db_comments := remove c_ID i (db_comments d) \<rparr>)"
    "reply_targets (d\<lparr> db_comments := modify c_ID i (\<lambda>_. new) (db_comments d) \<rparr>)
      = (if c_DeletedAt new = None then (case c_ParentID new of None \<Rightarrow> {#} | Some p \<Rightarrow> {# p #}) else {#})
      + reply_targets (d\<lparr> db_comments := remove c_ID i (db_comments d) \<rparr>)"
  using mset_keyed[OF assms] by (auto simp: comment_targets_def reply_targets_def split: option.splits)

text \<open>Replacing a comment by one with the same identity, video, parent and reply count.\<close>

lemma comment_replaced:
  assumes ok: "social_ok d" and old: "lookup c_ID i (db_comments d) = Some old"
    and new: "c_ID new = c_ID old" "c_VideoID new = c_VideoID old" "c_ParentID new = c_ParentID old"
      "c_ReplyCount new = c_ReplyCount old" "c_DeletedAt old = None"
  shows "social_ok (comment_updated t old new (d\<lparr> db_comments := modify c_ID i (\<lambda>_. new) (db_comments d) \<rparr>))"
proof -
  let ?d = "d\<lparr> db_comments := modify c_ID i (\<lambda>_. new) (db_comments d) \<rparr>"
  have k: "keys_ok d" "refs_ok d" "counters_ok d" using ok by (simp_all add: social_ok_def)
  have i: "c_ID new = i" using new(1) lookup_key[OF old] by simp
  have dist: "distinct (map c_ID (db_comments d))" using k(1) by (simp add: keys_ok_def)
  have keys: "keys_ok ?d" using k(1) distinct_modify[OF dist i] by (simp add: keys_ok_def)
  have "c_ID ` set (modify c_ID i (\<lambda>_. new) (db_comments d)) = c_ID ` set (db_comments d)"
    using map_modify_const[of c_ID new i "db_comments d", OF i] by (metis set_map)
  then have refs: "refs_ok ?d"
    using k(2) lookup_mem[OF old] by (auto simp: refs_ok_def set_modify new)
  have "reply_count_of ?d = reply_count_of d"
    using old new(4) i by (auto simp: reply_count_of_def fun_eq_iff lookup_modify_const)
  then have reply: "\<forall>j n. reply_count_of ?d j = Some n \<longrightarrow> n = int (count (reply_targets d) j)"
    using k(3) by (simp add: counters_ok_def)
  have "counters_ok (comment_updated t old new ?d)"
  proof (cases "c_DeletedAt new = None")
    case True
    with new(5) show ?thesis
      using comments_count(3)[OF k(3) reply] comment_rows[OF dist old] new by (simp add: comment_updated_def)
  next
    case False
    have "counters_ok (bump_parent t (c_ParentID old) (- 1) (bump_comment_count t (c_VideoID old) (- 1) ?d))"
      using comment_rows(1,3)[OF dist old] comment_rows(2,4)[OF dist old, of new] new(5) False
      by (intro comments_count(2)[OF k(3) reply]) simp_all
    with False new show ?thesis by (simp add: comment_updated_def)
  qed
  with keys refs show ?thesis
    by (auto simp: social_ok_def comment_updated_def bump_parent_def split: option.splits)
qed

lemma live_comment_Some: "live_comment d i = Some c \<Longrightarrow> lookup c_ID i (db_comments d) = Some c \<and> c_DeletedAt c = None"
  by (auto simp: live_comment_def split: option.splits if_splits)

lemma social_UpdateCommentContent: "steps (on_db (keeping social_ok)) (UpdateCommentContent i content)"
  unfolding UpdateCommentContent_def
  by (intro steps_rows_or steps_run_stmt preorder_on_db preorder_keeping impI)
     (auto simp: Let_def dest!: live_comment_Some intro!: comment_replaced split: option.splits if_splits)

lemma social_SoftDeleteComment: "steps (on_db (keeping social_ok)) (SoftDeleteComment i)"
  unfolding SoftDeleteComment_def
  by (intro steps_rows_or steps_run_stmt preorder_on_db preorder_keeping impI)
     (auto simp: Let_def dest!: live_comment_Some intro!: comment_replaced split: option.splits)

lemma social_CreateComment: "steps (on_db (keeping social_ok)) (SocialRepo_CreateComment c)"
  unfolding SocialRepo_CreateComment_def
proof (intro steps_run_stmt preorder_keeping impI)
  fix t x and d d' :: db
  let ?row = "comment_row c"
  let ?d = "d\<lparr> db_comments := db_comments d @ [?row] \<rparr>"
  assume s: "(if comment_exists d (c_ID c) then Inl (ErrOther ''duplicate key value'')
     else if \<not> video_exists d (c_VideoID c) \<or> \<not> user_exists d (c_UserID c)
       \<or> (case c_ParentID c of None \<Rightarrow> False | Some p \<Rightarrow> \<not> comment_exists d p)
       then Inl (ErrOther ''foreign key violation'')
     else if RuneCount (c_Content c) = 0 \<or> RuneCount (c_Content c) > 10000 then Inl (ErrOther ''check constraint violation'')
     else Inr ((), comment_inserted t ?row ?d)) = Inr (x, d')"
    and ok: "social_ok d"
  have k: "keys_ok d" "refs_ok d" "counters_ok d" using ok by (simp_all add: social_ok_def)
  have row: "c_ID ?row = c_ID c" "c_VideoID ?row = c_VideoID c" "c_ParentID ?row = c_ParentID c"
    "c_DeletedAt ?row = None" "c_ReplyCount ?row = 0" by (simp_all add: comment_row_def)
  have d': "d' = comment_inserted t ?row ?d" and fresh: "c_ID c \<notin> c_ID ` set (db_comments d)"
    and refs: "c_VideoID c \<in> v_ID ` set (db_videos d)" "\<And>p. c_ParentID c = Some p \<Longrightarrow> p \<in> c_ID ` set (db_comments d)"
    using s by (auto simp: exists_iff split: if_splits option.splits)
  have "c_ID c \<notin># reply_targets d"
  proof
    assume "c_ID c \<in># reply_targets d"
    then obtain x where "x \<in> set (db_comments d)" "c_ParentID x = Some (c_ID c)"
      by (auto simp: reply_targets_def)
    then have "Some (c_ID c) \<in> c_ParentID ` set (db_comments d)" by (metis image_eqI)
    moreover have "c_ParentID ` set (db_comments d) \<subseteq> insert None (Some ` c_ID ` set (db_comments d))"
      using k(2) by (simp add: refs_ok_def)
    ultimately have "Some (c_ID c) \<in> insert None (Some ` c_ID ` set (db_comments d))" by (rule rev_subsetD)
    with fresh show False by (simp add: inj_image_mem_iff)
  qed
  then have "count (reply_targets d) (c_ID c) = 0" by (simp add: count_eq_zero_iff)
  moreover have none: "lookup c_ID (c_ID c) (db_comments d) = None" using fresh by (simp add: lookup_None)
  moreover have "reply_count_of ?d j = (if j = c_ID c then Some 0 else reply_count_of d j)" for j
    using none row by (auto simp: reply_count_of_def lookup_append split: option.splits)
  moreover have "\<forall>j n. reply_count_of d j = Some n \<longrightarrow> n = int (count (reply_targets d) j)"
    using k(3) by (simp add: counters_ok_def)
  ultimately have "\<forall>j n. reply_count_of ?d j = Some n \<longrightarrow> n = int (count (reply_targets d) j)" by auto
  then have "counters_ok d'"
    using comments_count(1)[OF k(3), of "db_comments d @ [?row]" "c_VideoID c" "c_ParentID c" t] row
    by (simp add: d' comment_inserted_def comment_targets_def reply_targets_def split: option.splits)
  moreover have "keys_ok ?d" "refs_ok ?d"
    using k(1,2) fresh refs row by (auto simp: keys_ok_def refs_ok_def)
  ultimately show "social_ok d'"
    by (auto simp: social_ok_def d' comment_inserted_def bump_parent_def row split: option.splits)
qed

section \<open>Subscriptions\<close>

lemma subscriptions_frame:
  "like_count_of (d\<lparr> db_subscriptions := ss \<rparr>) = like_count_of d" "comment_count_of (d\<lparr> db_subscriptions := ss \<rparr>) = comment_count_of d"
  "reply_count_of (d\<lparr> db_subscriptions := ss \<rparr>) = reply_count_of d" "video_count_of (d\<lparr> db_subscriptions := ss \<rparr>) = video_count_of d"
  "subscriber_count_of (d\<lparr> db_subscriptions := ss \<rparr>) = subscriber_count_of d"
  "like_targets (d\<lparr> db_subscriptions := ss \<rparr>) = like_targets d" "comment_targets (d\<lparr> db_subscriptions := ss \<rparr>) = comment_targets d"
  "reply_targets (d\<lparr> db_subscriptions := ss \<rparr>) = reply_targets d" "playlist_targets (d\<lparr> db_subscriptions := ss \<rparr>) = playlist_targets d"
  by (simp_all add: count_of_defs targets_defs fun_eq_iff)

lemma social_CreateSubscription: "steps (on_db (keeping social_ok)) (CreateSubscription s)"
  unfolding CreateSubscription_def
proof (intro steps_run_stmt preorder_keeping impI)
  fix t x and d d' :: db
  assume s: "(if s_SubscriberID s = s_CreatorID s then Inl (ErrOther ''check constraint violation'')
     else if lookup subscription_key (subscription_key s) (db_subscriptions d) \<noteq> None then Inr (False, d)
     else if list_ex (\<lambda>x. s_ID x = s_ID s) (db_subscriptions d) then Inl (ErrOther ''duplicate key value'')
     else if \<not> user_exists d (s_SubscriberID s) \<or> \<not> user_exists d (s_CreatorID s) then Inl (ErrOther ''foreign key violation'')
     else Inr (True, subscription_inserted t s (d\<lparr> db_subscriptions := db_subscriptions d @ [s] \<rparr>))) = Inr (x, d')"
    and ok: "social_ok d"
  have k: "keys_ok d" "refs_ok d" "counters_ok d" using ok by (simp_all add: social_ok_def)
  let ?d = "d\<lparr> db_subscriptions := db_subscriptions d @ [s] \<rparr>"
  show "social_ok d'"
  proof (cases "d' = d")
    case False
    with s have d': "d' = bump_subscriber_count t (s_CreatorID s) 1 ?d" "user_exists d (s_CreatorID s)"
      "lookup subscription_key (subscription_key s) (db_subscriptions d) = None"
      by (auto simp: subscription_inserted_def split: if_splits)
    have "keys_ok ?d" "refs_ok ?d"
      using k(1,2) d'(2,3) by (auto simp: keys_ok_def refs_ok_def lookup_None exists_iff)
    moreover have "counters_ok d'" unfolding d'(1)
      using k(3)[unfolded counters_ok_def]
      by (intro counters_okI subscriber_counter.consistent_add[where T = "subscriber_targets d"])
         (simp_all add: subscriptions_frame subscriber_targets_def)
    ultimately show ?thesis by (simp add: social_ok_def d')
  qed (use ok in simp)
qed

lemma social_DeleteSubscription: "steps (on_db (keeping social_ok)) (DeleteSubscription a b)"
  unfolding DeleteSubscription_def
proof (intro steps_rows_or steps_run_stmt preorder_on_db preorder_keeping impI)
  fix t x and d d' :: db
  assume s: "Inr (delete_keyed subscription_key (a, b) db_subscriptions
       (\<lambda>ss d. d\<lparr> db_subscriptions := ss \<rparr>) (subscription_deleted t) d) = (Inr (x, d') :: err + nat \<times> db)"
    and ok: "social_ok d"
  have k: "keys_ok d" "refs_ok d" "counters_ok d" using ok by (simp_all add: social_ok_def)
  show "social_ok d'"
  proof (cases "lookup subscription_key (a, b) (db_subscriptions d)")
    case None
    with s ok show ?thesis by (simp add: delete_keyed_def)
  next
    case (Some old)
    let ?d = "d\<lparr> db_subscriptions := remove subscription_key (a, b) (db_subscriptions d) \<rparr>"
    have d': "d' = bump_subscriber_count t (s_CreatorID old) (- 1) ?d"
      using s Some by (simp add: delete_keyed_def subscription_deleted_def)
    have "keys_ok ?d" "refs_ok ?d"
      using k(1,2) by (auto simp: keys_ok_def refs_ok_def distinct_remove set_remove)
    moreover have "distinct (map subscription_key (db_subscriptions d))" using k(1) by (simp add: keys_ok_def)
    from mset_keyed(1)[OF this Some] have "subscriber_targets d = add_mset (s_CreatorID old) (subscriber_targets ?d)"
      by (simp add: subscriber_targets_def)
    then have "counters_ok d'" unfolding d'
      using k(3)[unfolded counters_ok_def]
      by (intro counters_okI subscriber_counter.consistent_drop) (simp_all add: subscriptions_frame)
    ultimately show ?thesis by (simp add: social_ok_def d')
  qed
qed

section \<open>Playlists\<close>

lemma playlist_videos_frame:
  "like_count_of (d\<lparr> db_playlist_videos := ps \<rparr>) = like_count_of d" "comment_count_of (d\<lparr> db_playlist_videos := ps \<rparr>) = comment_count_of d"
  "reply_count_of (d\<lparr> db_playlist_videos := ps \<rparr>) = reply_count_of d" "video_count_of (d\<lparr> db_playlist_videos := ps \<rparr>) = video_count_of d"
  "subscriber_count_of (d\<lparr> db_playlist_videos := ps \<rparr>) = subscriber_count_of d"
  "like_targets (d\<lparr> db_playlist_videos := ps \<rparr>) = like_targets d" "comment_targets (d\<lparr> db_playlist_videos := ps \<rparr>) = comment_targets d"
  "reply_targets (d\<lparr> db_playlist_videos := ps \<rparr>) = reply_targets d" "subscriber_targets (d\<lparr> db_playlist_videos := ps \<rparr>) = subscriber_targets d"
  by (simp_all add: count_of_defs targets_defs fun_eq_iff)

lemma playlists_frame:
  "like_count_of (d\<lparr> db_playlists := ps \<rparr>) = like_count_of d" "comment_count_of (d\<lparr> db_playlists := ps \<rparr>) = comment_count_of d"
  "reply_count_of (d\<lparr> db_playlists := ps \<rparr>) = reply_count_of d" "subscriber_count_of (d\<lparr> db_playlists := ps \<rparr>) = subscriber_count_of d"
  "like_targets (d\<lparr> db_playlists := ps \<rparr>) = like_targets d" "comment_targets (d\<lparr> db_playlists := ps \<rparr>) = comment_targets d"
  "reply_targets (d\<lparr> db_playlists := ps \<rparr>) = reply_targets d" "subscriber_targets (d\<lparr> db_playlists := ps \<rparr>) = subscriber_targets d"
  "playlist_targets (d\<lparr> db_playlists := ps \<rparr>) = playlist_targets d"
  by (simp_all add: count_of_defs targets_defs fun_eq_iff)

text \<open>The next position is larger than every position of the playlist.\<close>

lemma next_position_fresh:
  assumes "pv \<in> set (db_playlist_videos d)" "pv_PlaylistID pv = pl"
  shows "pv_Position pv < next_position d pl"
proof -
  let ?ps = "map pv_Position (filter (\<lambda>pv. pv_PlaylistID pv = pl) (db_playlist_videos d))"
  have m: "pv_Position pv \<in> set ?ps" using assms by auto
  then have "?ps \<noteq> []" by (metis empty_iff empty_set)
  moreover have "pv_Position pv \<le> Max (set ?ps)" using m by (intro Max_ge) simp_all
  ultimately show ?thesis unfolding next_position_def Let_def by (simp del: set_map set_filter map_is_Nil_conv)
qed

lemma social_insert_playlist_video:
  assumes s: "insert_playlist_video t i pl vid d = Inr (x, d')" and ok: "social_ok d"
  shows "social_ok d'"
proof -
  have k: "keys_ok d" "refs_ok d" "counters_ok d" using ok by (simp_all add: social_ok_def)
  let ?d = "d\<lparr> db_playlist_videos := db_playlist_videos d @ [x] \<rparr>"
  have x: "x = \<lparr> pv_ID = i, pv_PlaylistID = pl, pv_VideoID = vid, pv_Position = next_position d pl, pv_AddedAt = t \<rparr>"
    and d': "d' = bump_video_count t pl 1 ?d"
    and ex: "lookup playlist_video_key (pl, vid) (db_playlist_videos d) = None" "video_exists d vid" "playlist_exists d pl"
    using s by (auto simp: insert_playlist_video_def playlist_video_inserted_def Let_def split: if_splits)
  have "(pl, next_position d pl) \<notin> (\<lambda>pv. (pv_PlaylistID pv, pv_Position pv)) ` set (db_playlist_videos d)"
    using next_position_fresh[of _ d pl] by fastforce
  then have "keys_ok ?d" "refs_ok ?d"
    using k(1,2) ex by (auto simp: keys_ok_def refs_ok_def lookup_None exists_iff x playlist_video_key_def)
  moreover have "counters_ok d'" unfolding d'(1)
    using k(3)[unfolded counters_ok_def]
    by (intro counters_okI playlist_counter.consistent_add[where T = "playlist_targets d"])
       (simp_all add: playlist_videos_frame playlist_targets_def x)
  ultimately show ?thesis by (simp add: social_ok_def d')
qed

lemma social_AddPlaylistVideo: "steps (on_db (keeping social_ok)) (SocialRepo_AddPlaylistVideo pl vid)"
  unfolding SocialRepo_AddPlaylistVideo_def
  by (intro steps_intros steps_run_stmt preorder_on_db preorder_keeping impI)
     (auto intro: social_insert_playlist_video)

lemma social_RemovePlaylistVideo: "steps (on_db (keeping social_ok)) (SocialRepo_RemovePlaylistVideo a b)"
  unfolding SocialRepo_RemovePlaylistVideo_def
proof (intro steps_rows_or steps_run_stmt preorder_on_db preorder_keeping impI)
  fix t x and d d' :: db
  assume s: "Inr (delete_keyed playlist_video_key (a, b) db_playlist_videos
        (\<lambda>pvs d. d\<lparr> db_playlist_videos := pvs \<rparr>) (playlist_video_deleted t) d) = (Inr (x, d') :: err + nat \<times> db)"
    and ok: "social_ok d"
  have k: "keys_ok d" "refs_ok d" "counters_ok d" using ok by (simp_all add: social_ok_def)
  show "social_ok d'"
  proof (cases "lookup playlist_video_key (a, b) (db_playlist_videos d)")
    case None
    with s ok show ?thesis by (simp add: delete_keyed_def)
  next
    case (Some old)
    let ?d = "d\<lparr> db_playlist_videos := remove playlist_video_key (a, b) (db_playlist_videos d) \<rparr>"
    have d': "d' = bump_video_count t (pv_PlaylistID old) (- 1) ?d"
      using s Some by (simp add: delete_keyed_def playlist_video_deleted_def)
    have "keys_ok ?d" "refs_ok ?d"
      using k(1,2) by (auto simp: keys_ok_def refs_ok_def distinct_remove set_remove)
    moreover have "distinct (map playlist_video_key (db_playlist_videos d))" using k(1) by (simp add: keys_ok_def)
    from mset_keyed(1)[OF this Some] have "playlist_targets d = add_mset (pv_PlaylistID old) (playlist_targets ?d)"
      by (simp add: playlist_targets_def)
    then have "counters_ok d'" unfolding d'
      using k(3)[unfolded counters_ok_def]
      by (intro counters_okI playlist_counter.consistent_drop) (simp_all add: playlist_videos_frame)
    ultimately show ?thesis by (simp add: social_ok_def d')
  qed
qed

lemma social_UpdatePlaylist: "steps (on_db (keeping social_ok)) (SocialRepo_UpdatePlaylist p)"
  unfolding SocialRepo_UpdatePlaylist_def
proof (intro steps_rows_or steps_run_stmt preorder_on_db preorder_keeping impI)
  fix t x and d d' :: db
  assume s: "(if playlist_exists d (p_ID p) \<and> (p_Visibility p \<notin> set [''public'', ''private'', ''unlisted''] \<or> RuneCount (p_Title p) > 255)
       then Inl (ErrOther ''check constraint violation'')
     else Inr (affected (\<lambda>q. p_ID q = p_ID p) (db_playlists d),
          d\<lparr> db_playlists := modify p_ID (p_ID p) (\<lambda>q. q\<lparr> p_Title := p_Title p, p_Description := p_Description p,
               p_Visibility := p_Visibility p, p_UpdatedAt := t \<rparr>) (db_playlists d) \<rparr>)) = Inr (x, d')"
    and ok: "social_ok d"
  have d': "d' = d\<lparr> db_playlists := modify p_ID (p_ID p) (\<lambda>q. q\<lparr> p_Title := p_Title p, p_Description := p_Description p,
               p_Visibility := p_Visibility p, p_UpdatedAt := t \<rparr>) (db_playlists d) \<rparr>"
    using s by (auto split: if_splits)
  have "video_count_of d' = video_count_of d"
    by (simp add: d' video_count_of_def lookup_modify option.map_comp comp_def fun_eq_iff)
  then have "same_counts d d'" by (simp add: same_counts_def d' playlists_frame)
  then show "social_ok d'"
    using ok same_counts_ok by (auto simp: social_ok_def keys_ok_def refs_ok_def d' map_modify image_modify)
qed

lemma social_CreatePlaylist: "steps (on_db (keeping social_ok)) (SocialRepo_CreatePlaylist p)"
  unfolding SocialRepo_CreatePlaylist_def
proof (intro steps_run_stmt preorder_keeping impI)
  fix t x and d d' :: db
  assume s: "(if playlist_exists d (p_ID p) then Inl (ErrOther ''duplicate key value'')
     else if \<not> user_exists d (p_UserID p) then Inl (ErrOther ''foreign key violation'')
     else if p_Visibility p \<notin> set [''public'', ''private'', ''unlisted''] \<or> RuneCount (p_Title p) > 255
       then Inl (ErrOther ''check constraint violation'')
     else Inr ((), d\<lparr> db_playlists := db_playlists d @ [playlist_row p] \<rparr>)) = Inr (x, d')"
    and ok: "social_ok d"
  have k: "keys_ok d" "refs_ok d" "counters_ok d" using ok by (simp_all add: social_ok_def)
  have d': "d' = d\<lparr> db_playlists := db_playlists d @ [playlist_row p] \<rparr>" and fresh: "p_ID p \<notin> p_ID ` set (db_playlists d)"
    using s by (auto simp: exists_iff split: if_splits)
  have "p_ID p \<notin> pv_PlaylistID ` set (db_playlist_videos d)" using k(2) fresh by (auto simp: refs_ok_def)
  then have "count (playlist_targets d) (p_ID p) = 0"
    by (auto simp: playlist_targets_def count_eq_zero_iff)
  moreover have none: "lookup p_ID (p_ID p) (db_playlists d) = None" using fresh by (simp add: lookup_None)
  moreover have "video_count_of d' j = (if j = p_ID p then Some 0 else video_count_of d j)" for j
    using none by (auto simp: video_count_of_def d' lookup_append playlist_row_def split: option.splits)
  ultimately have "counters_ok d'"
    using k(3)[unfolded counters_ok_def] by (intro counters_okI) (auto simp: d' playlists_frame)
  then show "social_ok d'"
    using k fresh by (auto simp: social_ok_def keys_ok_def refs_ok_def d' playlist_row_def)
qed

lemma drop_missing_playlist:
  "\<lbrakk>\<forall>pv \<in> set gone. pv_PlaylistID pv = i; lookup p_ID i (db_playlists d) = None\<rbrakk> \<Longrightarrow> fold (playlist_video_deleted t) gone d = d"
  by (induction gone) (simp_all add: playlist_video_deleted_def bump_video_count_def modify_id)

lemma social_DeletePlaylist: "steps (on_db (keeping social_ok)) (SocialRepo_DeletePlaylist i)"
  unfolding SocialRepo_DeletePlaylist_def
proof (intro steps_rows_or steps_run_stmt preorder_on_db preorder_keeping impI)
  fix t x and d d' :: db
  assume s: "(if playlist_exists d i then Inr (1, drop_playlist t i d) else Inr (0, d)) = (Inr (x, d') :: err + nat \<times> db)"
    and ok: "social_ok d"
  have k: "keys_ok d" "refs_ok d" "counters_ok d" using ok by (simp_all add: social_ok_def)
  show "social_ok d'"
  proof (cases "playlist_exists d i")
    case False
    with s ok show ?thesis by simp
  next
    case True
    have d': "d' = d\<lparr> db_playlists := remove p_ID i (db_playlists d),
         db_playlist_videos := delete_rows (\<lambda>pv. pv_PlaylistID pv = i) (db_playlist_videos d) \<rparr>"
      using s True drop_missing_playlist[of "filter (\<lambda>pv. pv_PlaylistID pv = i) (db_playlist_videos d)" i
          "d\<lparr> db_playlists := remove p_ID i (db_playlists d),
              db_playlist_videos := delete_rows (\<lambda>pv. pv_PlaylistID pv = i) (db_playlist_videos d) \<rparr>"]
      by (simp add: drop_playlist_def Let_def lookup_remove)
    have "count (playlist_targets d') j = (if j = i then 0 else count (playlist_targets d) j)" for j
    proof -
      have "count (image_mset pv_PlaylistID (mset (delete_rows (\<lambda>pv. pv_PlaylistID pv = i) rows))) j
          = (if j = i then 0 else count (image_mset pv_PlaylistID (mset rows)) j)" for rows
        by (induction rows) auto
      from this[of "db_playlist_videos d"] show ?thesis
        by (cases "j = i") (simp_all add: playlist_targets_def d')
    qed
    moreover have "video_count_of d' j = (if j = i then None else video_count_of d j)" for j
      by (simp add: video_count_of_def d' lookup_remove)
    ultimately have "counters_ok d'"
      using k(3)[unfolded counters_ok_def]
      by (intro counters_okI) (auto simp: d' playlists_frame playlist_videos_frame split: if_splits)
    moreover have "keys_ok d'" "refs_ok d'"
      using k(1,2) by (auto simp: keys_ok_def refs_ok_def d' distinct_remove distinct_map_delete set_remove)
    ultimately show ?thesis by (simp add: social_ok_def)
  qed
qed

section \<open>The other tables\<close>

text \<open>Watch-later entries, notifications, history and reports do not touch what the invariant speaks of.\<close>

definition social_view :: "db \<Rightarrow> db" where
  "social_view d = d\<lparr> db_watch_later := [], db_notifications := [], db_watch_history := [], db_reports := [],
     db_video_views := [], db_audit_logs := [] \<rparr>"

lemma social_view_ok: "social_ok (social_view d) = social_ok d"
  by (simp add: social_view_def social_ok_def keys_ok_def refs_ok_def counters_ok_def count_of_defs targets_defs)

lemma social_view_eq: "social_view d' = social_view d \<Longrightarrow> social_ok d \<Longrightarrow> social_ok d'"
  by (metis social_view_ok)

lemma social_UpsertWatchLater: "steps (on_db (keeping social_ok)) (UpsertWatchLater x)"
  unfolding UpsertWatchLater_def
  by (intro steps_run_stmt preorder_keeping) (auto simp: social_view_def split: if_splits elim!: social_view_eq[rotated])

lemma social_DeleteWatchLater: "steps (on_db (keeping social_ok)) (DeleteWatchLater a b)"
  unfolding DeleteWatchLater_def delete_keyed_def
  by (intro steps_rows_or steps_run_stmt preorder_on_db preorder_keeping)
     (auto simp: social_view_def split: option.splits elim!: social_view_eq[rotated])

lemma social_CreateNotification: "steps (on_db (keeping social_ok)) (CreateNotification n)"
  unfolding CreateNotification_def
  by (intro steps_run_stmt preorder_keeping) (auto simp: social_view_def split: if_splits elim!: social_view_eq[rotated])

lemma social_MarkNotificationRead: "steps (on_db (keeping social_ok)) (SocialRepo_MarkNotificationRead a b)"
  unfolding SocialRepo_MarkNotificationRead_def
  by (intro steps_rows_or steps_run_stmt preorder_on_db preorder_keeping) (auto simp: social_view_def elim!: social_view_eq[rotated])

lemma social_MarkAllNotificationsRead: "steps (on_db (keeping social_ok)) (SocialRepo_MarkAllNotificationsRead a)"
  unfolding SocialRepo_MarkAllNotificationsRead_def
  by (intro steps_run_stmt preorder_keeping) (auto simp: social_view_def elim!: social_view_eq[rotated])

text \<open>New videos start with empty counters; updates of a video leave its counters alone.\<close>

lemma videos_frame:
  "reply_count_of (d\<lparr> db_videos := vs \<rparr>) = reply_count_of d" "subscriber_count_of (d\<lparr> db_videos := vs \<rparr>) = subscriber_count_of d"
  "video_count_of (d\<lparr> db_videos := vs \<rparr>) = video_count_of d"
  "like_targets (d\<lparr> db_videos := vs \<rparr>) = like_targets d" "comment_targets (d\<lparr> db_videos := vs \<rparr>) = comment_targets d"
  "reply_targets (d\<lparr> db_videos := vs \<rparr>) = reply_targets d" "subscriber_targets (d\<lparr> db_videos := vs \<rparr>) = subscriber_targets d"
  "playlist_targets (d\<lparr> db_videos := vs \<rparr>) = playlist_targets d"
  by (simp_all add: count_of_defs targets_defs fun_eq_iff)

lemma social_modify_video:
  assumes "\<And>v. v_ID (f v) = v_ID v" "\<And>v. v_LikeCount (f v) = v_LikeCount v" "\<And>v. v_CommentCount (f v) = v_CommentCount v"
    and "social_ok d"
  shows "social_ok (d\<lparr> db_videos := modify v_ID i f (db_videos d) \<rparr>)"
proof -
  let ?d = "d\<lparr> db_videos := modify v_ID i f (db_videos d) \<rparr>"
  have "like_count_of ?d = like_count_of d" "comment_count_of ?d = comment_count_of d"
    using assms(2,3) by (simp_all add: like_count_of_def comment_count_of_def lookup_modify[where key = v_ID, OF assms(1)]
        option.map_comp comp_def fun_eq_iff)
  then have "same_counts d ?d" by (simp add: same_counts_def videos_frame)
  with assms(4) same_counts_ok[of d ?d] show ?thesis
    by (auto simp: social_ok_def keys_ok_def refs_ok_def map_modify[of v_ID, OF assms(1)] image_modify[of v_ID, OF assms(1)])
qed

lemma social_video_exec:
  assumes "\<And>t v. v_ID (f t v) = v_ID v" "\<And>t v. v_LikeCount (f t v) = v_LikeCount v" "\<And>t v. v_CommentCount (f t v) = v_CommentCount v"
  shows "steps (on_db (keeping social_ok)) (video_exec f i)"
  unfolding video_exec_def
  by (intro steps_rows_or steps_run_stmt preorder_on_db preorder_keeping) (auto intro!: social_modify_video simp: assms)

lemma social_VideoRepo_Create: "steps (on_db (keeping social_ok)) (VideoRepo_Create v)"
  unfolding VideoRepo_Create_def
proof (intro steps_run_stmt preorder_keeping impI)
  fix t x and d d' :: db
  assume s: "(if video_exists d (v_ID v) then Inl (ErrOther ''duplicate key value'')
     else if (case v_UserID v of Some u \<Rightarrow> \<not> user_exists d u | None \<Rightarrow> False)
       then Inl (ErrOther ''foreign key violation'')
     else if v_FileSize v \<le> 0 then Inl (ErrOther ''check constraint violation'')
     else Inr ((), d\<lparr> db_videos := db_videos d @ [video_row v] \<rparr>)) = Inr (x, d')"
    and ok: "social_ok d"
  have k: "keys_ok d" "refs_ok d" "counters_ok d" using ok by (simp_all add: social_ok_def)
  have d': "d' = d\<lparr> db_videos := db_videos d @ [video_row v] \<rparr>" and fresh: "v_ID v \<notin> v_ID ` set (db_videos d)"
    using s by (auto simp: exists_iff split: if_splits)
  have row: "v_ID (video_row v) = v_ID v" "v_LikeCount (video_row v) = 0" "v_CommentCount (video_row v) = 0"
    by (simp_all add: video_row_def)
  have "v_ID v \<notin> l_VideoID ` set (db_likes d)" "v_ID v \<notin> c_VideoID ` set (db_comments d)"
    using k(2) fresh by (auto simp: refs_ok_def)
  then have "count (like_targets d) (v_ID v) = 0" "count (comment_targets d) (v_ID v) = 0"
    by (auto simp: like_targets_def comment_targets_def count_eq_zero_iff)
  moreover have none: "lookup v_ID (v_ID v) (db_videos d) = None" using fresh by (simp add: lookup_None)
  moreover have "like_count_of d' j = (if j = v_ID v then Some 0 else like_count_of d j)"
    "comment_count_of d' j = (if j = v_ID v then Some 0 else comment_count_of d j)" for j
    using none by (auto simp: like_count_of_def comment_count_of_def d' lookup_append row split: option.splits)
  ultimately have "counters_ok d'"
    using k(3)[unfolded counters_ok_def] by (intro counters_okI) (auto simp: d' videos_frame)
  then show "social_ok d'"
    using k fresh by (auto simp: social_ok_def keys_ok_def refs_ok_def d' row)
qed

text \<open>Users are only appended, with no subscriber, or changed in place.\<close>

lemma users_frame:
  "like_count_of (d\<lparr> db_users := us \<rparr>) = like_count_of d" "comment_count_of (d\<lparr> db_users := us \<rparr>) = comment_count_of d"
  "reply_count_of (d\<lparr> db_users := us \<rparr>) = reply_count_of d" "subscriber_count_of (d\<lparr> db_users := us \<rparr>) = subscriber_count_of d"
  "video_count_of (d\<lparr> db_users := us \<rparr>) = video_count_of d"
  "like_targets (d\<lparr> db_users := us \<rparr>) = like_targets d" "comment_targets (d\<lparr> db_users := us \<rparr>) = comment_targets d"
  "reply_targets (d\<lparr> db_users := us \<rparr>) = reply_targets d" "subscriber_targets (d\<lparr> db_users := us \<rparr>) = subscriber_targets d"
  "playlist_targets (d\<lparr> db_users := us \<rparr>) = playlist_targets d"
  by (simp_all add: count_of_defs targets_defs fun_eq_iff)

lemma social_update_users:
  assumes "social_ok d" "\<And>u. p u \<Longrightarrow> u_ID (f u) = u_ID u"
  shows "social_ok (d\<lparr> db_users := update_rows p f (db_users d) \<rparr>)"
proof -
  have "u_ID ` set (update_rows p f (db_users d)) = u_ID ` set (db_users d)"
    using map_update_rows[of p u_ID f "db_users d"] assms(2) by (metis set_map)
  with assms(1) show ?thesis
    by (auto simp: social_ok_def keys_ok_def refs_ok_def counters_ok_def users_frame)
qed

lemma social_execUser: "(\<And>t u. u_ID (f t u) = u_ID u) \<Longrightarrow> steps (on_db (keeping social_ok)) (execUser f i)"
  unfolding execUser_def update_live_def
  by (intro steps_rows_or steps_run_stmt preorder_on_db preorder_keeping) (auto intro!: social_update_users)

lemma social_UserRepo_Update: "steps (on_db (keeping social_ok)) (UserRepo_Update user)"
  unfolding UserRepo_Update_def update_live_def
  by (intro steps_rows_or steps_run_stmt preorder_on_db preorder_keeping)
     (auto intro!: social_update_users simp: user_written_def split: if_splits)

lemma social_UserRepo_Create: "steps (on_db (keeping social_ok)) (UserRepo_Create user)"
  unfolding UserRepo_Create_def
proof (intro steps_run_stmt preorder_keeping impI)
  fix t x and d d' :: db
  assume s: "(if list_ex (\<lambda>u. u_ID u = u_ID user \<or> u_Username u = u_Username user \<or> u_Email u = u_Email user) (db_users d)
     then Inl ErrUserAlreadyExists
     else Inr ((), d\<lparr> db_users := db_users d @ [user_row user],
                     db_subscriber_count := (db_subscriber_count d)(u_ID user := 0) \<rparr>)) = Inr (x, d')"
    and ok: "social_ok d"
  have k: "keys_ok d" "refs_ok d" "counters_ok d" using ok by (simp_all add: social_ok_def)
  have d': "d' = d\<lparr> db_users := db_users d @ [user_row user], db_subscriber_count := (db_subscriber_count d)(u_ID user := 0) \<rparr>"
    and fresh: "u_ID user \<notin> u_ID ` set (db_users d)"
    using s by (auto simp: list_ex_iff split: if_splits)
  have "u_ID user \<notin> s_CreatorID ` set (db_subscriptions d)" using k(2) fresh by (auto simp: refs_ok_def)
  then have "count (subscriber_targets d) (u_ID user) = 0"
    by (auto simp: subscriber_targets_def count_eq_zero_iff)
  then have "counters_ok d'"
    using k(3)[unfolded counters_ok_def]
    by (intro counters_okI) (auto simp: d' count_of_defs targets_defs)
  then show "social_ok d'"
    using k by (auto simp: social_ok_def keys_ok_def refs_ok_def d')
qed

lemmas social_intros = social_UpsertLike social_DeleteLike social_CreateComment social_UpdateCommentContent
  social_SoftDeleteComment social_CreateSubscription social_DeleteSubscription social_AddPlaylistVideo
  social_RemovePlaylistVideo social_UpdatePlaylist social_CreatePlaylist social_DeletePlaylist
  social_UpsertWatchLater social_DeleteWatchLater social_CreateNotification social_MarkNotificationRead
  social_MarkAllNotificationsRead social_VideoRepo_Create social_UserRepo_Update social_UserRepo_Create

section \<open>Deleting a video\<close>

definition replies_closed :: "Comment list \<Rightarrow> uuid list \<Rightarrow> bool" where
  "replies_closed cs ids = (\<forall>c \<in> set cs. \<forall>p. c_ParentID c = Some p \<longrightarrow> p \<in> set ids \<longrightarrow> c_ID c \<in> set ids)"

lemma closed_stays: "replies_closed cs ids \<Longrightarrow> reply_closure n cs ids = ids"
proof (induction n)
  case (Suc n)
  have "filter (\<lambda>c. (case c_ParentID c of Some p \<Rightarrow> p \<in> set ids | None \<Rightarrow> False) \<and> c_ID c \<notin> set ids) cs = []"
    using Suc.prems by (auto simp: replies_closed_def filter_empty_conv split: option.splits)
  then show ?case using Suc by simp
qed simp

lemma closure_grows: "set ids \<subseteq> set (reply_closure n cs ids)"
  by (induction n arbitrary: ids) (simp, fastforce)

lemma closure_closed: "card (c_ID ` set cs - set ids) \<le> n \<Longrightarrow> replies_closed cs (reply_closure n cs ids)"
proof (induction n arbitrary: ids)
  case 0
  then have "c_ID ` set cs \<subseteq> set ids" by auto
  then show ?case by (auto simp: replies_closed_def)
next
  case (Suc n)
  let ?new = "filter (\<lambda>c. (case c_ParentID c of Some p \<Rightarrow> p \<in> set ids | None \<Rightarrow> False) \<and> c_ID c \<notin> set ids) cs"
  show ?case
  proof (cases "?new = []")
    case True
    then have "replies_closed cs ids"
      by (auto simp: replies_closed_def filter_empty_conv split: option.splits)
    then show ?thesis by (simp add: closed_stays del: reply_closure.simps)
  next
    case False
    from hd_in_set[OF False] have c: "hd ?new \<in> set cs" "c_ID (hd ?new) \<notin> set ids" "hd ?new \<in> set ?new" by auto
    have "c_ID (hd ?new) \<in> set (ids @ map c_ID ?new)" using c(3) unfolding set_append set_map by blast
    with c(1,2) have "c_ID ` set cs - set (ids @ map c_ID ?new) \<subset> c_ID ` set cs - set ids"
      unfolding set_append by blast
    then have "card (c_ID ` set cs - set (ids @ map c_ID ?new)) < card (c_ID ` set cs - set ids)"
      by (intro psubset_card_mono) auto
    with Suc.prems have "card (c_ID ` set cs - set (ids @ map c_ID ?new)) \<le> n" by linarith
    then show ?thesis using Suc.IH by simp
  qed
qed

lemma closure_of_table: "replies_closed cs (reply_closure (length cs) cs ids)"
proof (rule closure_closed)
  have "card (c_ID ` set cs - set ids) \<le> card (c_ID ` set cs)" by (intro card_mono) auto
  also have "\<dots> \<le> length cs" using card_image_le[of "set cs" c_ID] card_length[of cs] by simp
  finally show "card (c_ID ` set cs - set ids) \<le> length cs" .
qed

text \<open>A fold of row triggers over deleted rows.\<close>

definition live_videos :: "Comment list \<Rightarrow> uuid multiset" where
  "live_videos cs = image_mset c_VideoID (filter_mset (\<lambda>c. c_DeletedAt c = None) (mset cs))"

definition live_parents :: "Comment list \<Rightarrow> uuid multiset" where
  "live_parents cs = image_mset (\<lambda>c. the (c_ParentID c)) (filter_mset (\<lambda>c. c_DeletedAt c = None \<and> c_ParentID c \<noteq> None) (mset cs))"

definition excess_ok :: "uuid multiset \<Rightarrow> uuid multiset \<Rightarrow> db \<Rightarrow> bool" where
  "excess_ok V P d = ((\<forall>k n. like_count_of d k = Some n \<longrightarrow> n = int (count (like_targets d) k))
    \<and> (\<forall>k n. comment_count_of d k = Some n \<longrightarrow> n = int (count (comment_targets d + V) k))
    \<and> (\<forall>k n. reply_count_of d k = Some n \<longrightarrow> n = int (count (reply_targets d + P) k))
    \<and> (\<forall>k n. subscriber_count_of d k = Some n \<longrightarrow> n = int (count (subscriber_targets d) k))
    \<and> (\<forall>k n. video_count_of d k = Some n \<longrightarrow> n = int (count (playlist_targets d) k)))"

lemma excess_none: "excess_ok {#} {#} d = counters_ok d"
  by (simp add: excess_ok_def counters_ok_def)

lemma excess_comment:
  assumes "excess_ok (add_mset v V) P d" shows "excess_ok V P (bump_comment_count t v (- 1) d)"
  using assms unfolding excess_ok_def
  by (simp add: comment_counter.bump_targets comment_counter.bump_count) force

lemma excess_reply:
  assumes "excess_ok V (add_mset p P) d" shows "excess_ok V P (bump_reply_count t p (- 1) d)"
  using assms unfolding excess_ok_def
  by (simp add: reply_counter.bump_targets reply_counter.bump_count) force

lemma fold_comment_deleted:
  "excess_ok (live_videos gone) (live_parents gone) d \<Longrightarrow> counters_ok (fold (comment_deleted t) gone d)"
proof (induction gone arbitrary: d)
  case Nil
  then show ?case by (simp add: live_videos_def live_parents_def excess_none)
next
  case (Cons c cs)
  have "excess_ok (live_videos cs) (live_parents cs) (comment_deleted t c d)"
  proof (cases "c_DeletedAt c")
    case None
    then have "excess_ok (add_mset (c_VideoID c) (live_videos cs)) (live_parents (c # cs)) d"
      using Cons.prems by (simp add: live_videos_def)
    from excess_comment[OF this, of t] None show ?thesis
      by (cases "c_ParentID c") (simp_all add: comment_deleted_def bump_parent_def live_parents_def excess_reply)
  next
    case (Some x)
    then show ?thesis using Cons.prems by (simp add: comment_deleted_def live_videos_def live_parents_def)
  qed
  then show ?case using Cons.IH by simp
qed

lemma fold_comment_frame:
  "keys_ok (fold (comment_deleted t) gone d) = keys_ok d" "refs_ok (fold (comment_deleted t) gone d) = refs_ok d"
  by (induction gone arbitrary: d)
     (simp_all add: comment_deleted_def bump_parent_def split: option.splits)

lemma fold_playlist_video_frame:
  "keys_ok (fold (playlist_video_deleted t) gone d) = keys_ok d" "refs_ok (fold (playlist_video_deleted t) gone d) = refs_ok d"
  by (induction gone arbitrary: d) (simp_all add: playlist_video_deleted_def)

lemma fold_playlist_video_counts:
  assumes "\<forall>k n. video_count_of d k = Some n \<longrightarrow> n = int (count (playlist_targets d + image_mset pv_PlaylistID (mset gone)) k)"
    and "\<forall>k n. like_count_of d k = Some n \<longrightarrow> n = int (count (like_targets d) k)"
    and "\<forall>k n. comment_count_of d k = Some n \<longrightarrow> n = int (count (comment_targets d) k)"
    and "\<forall>k n. reply_count_of d k = Some n \<longrightarrow> n = int (count (reply_targets d) k)"
    and "\<forall>k n. subscriber_count_of d k = Some n \<longrightarrow> n = int (count (subscriber_targets d) k)"
  shows "counters_ok (fold (playlist_video_deleted t) gone d)"
  using assms
proof (induction gone arbitrary: d)
  case Nil
  then show ?case by (simp add: counters_ok_def)
next
  case (Cons pv pvs)
  let ?d = "bump_video_count t (pv_PlaylistID pv) (- 1) d"
  have "\<forall>k n. video_count_of ?d k = Some n \<longrightarrow> n = int (count (playlist_targets ?d + image_mset pv_PlaylistID (mset pvs)) k)"
    using Cons.prems(1) by (simp add: playlist_counter.bump_targets playlist_counter.bump_count) force
  then have "counters_ok (fold (playlist_video_deleted t) pvs ?d)"
    using Cons.prems(2-) by (intro Cons.IH) simp_all
  then show ?case by (simp add: playlist_video_deleted_def[of t pv])
qed

lemma image_split_rows:
  "image_mset g (filter_mset q (mset (delete_rows p rows))) + image_mset g (filter_mset q (filter_mset p (mset rows)))
     = image_mset g (filter_mset q (mset rows))"
  "image_mset g (mset (delete_rows p rows)) + image_mset g (filter_mset p (mset rows)) = image_mset g (mset rows)"
  by (induction rows) auto

lemma fold_likes_missing:
  "\<lbrakk>\<forall>l \<in> set gone. l_VideoID l = i; lookup v_ID i (db_videos d) = None\<rbrakk> \<Longrightarrow> fold (like_deleted t) gone d = d"
  by (induction gone) (simp_all add: like_deleted_def bump_like_count_def modify_id)

lemma fold_playlist_video_shape:
  "\<exists>ps. fold (playlist_video_deleted t) gone d = d\<lparr> db_playlists := ps \<rparr> \<and> map p_ID ps = map p_ID (db_playlists d)"
proof (induction gone arbitrary: d)
  case Nil
  show ?case by (intro exI[of _ "db_playlists d"]) simp
next
  case (Cons pv pvs)
  let ?d = "playlist_video_deleted t pv d"
  from Cons[of ?d] obtain ps where "fold (playlist_video_deleted t) pvs ?d = ?d\<lparr> db_playlists := ps \<rparr>"
    "map p_ID ps = map p_ID (db_playlists ?d)" by blast
  then show ?case
    by (intro exI[of _ ps]) (simp add: playlist_video_deleted_def[of t pv] bump_video_count_def map_modify)
qed

lemma count_deleted_rows:
  "count (image_mset g (filter_mset q (mset (delete_rows (\<lambda>r. g r = i) rows)))) j
    = (if j = i then 0 else count (image_mset g (filter_mset q (mset rows))) j)"
  by (induction rows) auto

text \<open>The comments of a table and all their replies go together.\<close>

lemma cascade_comments_counts:
  assumes "counters_ok d"
  shows "counters_ok (cascade_comments t roots d)"
proof -
  define ids where "ids = reply_closure (length (db_comments d)) (db_comments d) roots"
  define ns where "ns = delete_rows (\<lambda>n. case n_CommentID n of Some c \<Rightarrow> c \<in> set ids | None \<Rightarrow> False) (db_notifications d)"
  let ?gone = "filter (\<lambda>c. c_ID c \<in> set ids) (db_comments d)"
  let ?d = "d\<lparr> db_comments := delete_rows (\<lambda>c. c_ID c \<in> set ids) (db_comments d), db_notifications := ns \<rparr>"
  have targets: "comment_targets ?d + live_videos ?gone = comment_targets d" "reply_targets ?d + live_parents ?gone = reply_targets d"
    by (simp_all add: comment_targets_def reply_targets_def live_videos_def live_parents_def image_split_rows)
  have lookup: "lookup c_ID j (delete_rows (\<lambda>c. c_ID c \<in> set ids) cs) = (if j \<in> set ids then None else lookup c_ID j cs)" for j cs
    by (induction cs) auto
  have "reply_count_of ?d j = (if j \<in> set ids then None else reply_count_of d j)" for j
    by (simp add: reply_count_of_def lookup)
  moreover have "like_count_of ?d = like_count_of d" "comment_count_of ?d = comment_count_of d"
    "subscriber_count_of ?d = subscriber_count_of d" "video_count_of ?d = video_count_of d"
    "like_targets ?d = like_targets d" "subscriber_targets ?d = subscriber_targets d" "playlist_targets ?d = playlist_targets d"
    by (simp_all add: count_of_defs targets_defs fun_eq_iff)
  ultimately have "excess_ok (live_videos ?gone) (live_parents ?gone) ?d"
    using assms unfolding excess_ok_def targets counters_ok_def by simp
  from fold_comment_deleted[OF this, of t] show ?thesis
    unfolding cascade_comments_def Let_def ids_def ns_def .
qed

lemma social_cascade_video:
  assumes ok: "social_ok d"
  shows "social_ok (cascade_video t i d)"
proof -
  have k: "keys_ok d" "refs_ok d" "counters_ok d" using ok by (simp_all add: social_ok_def)
  let ?vs = "remove v_ID i (db_videos d)" and ?ls = "delete_rows (\<lambda>l. l_VideoID l = i) (db_likes d)"
  let ?pvs = "delete_rows (\<lambda>pv. pv_VideoID pv = i) (db_playlist_videos d)"
  define d2 where "d2 = d\<lparr> db_videos := ?vs, db_likes := ?ls \<rparr>"
  have "lookup v_ID i ?vs = None" by (simp add: lookup_remove)
  then have d2: "fold (like_deleted t) (filter (\<lambda>l. l_VideoID l = i) (db_likes d)) d2 = d2"
    by (intro fold_likes_missing[where i = i]) (simp_all add: d2_def)
  have counts: "counters_ok d2"
  proof -
    have "like_count_of d2 j = (if j = i then None else like_count_of d j)"
      "comment_count_of d2 j = (if j = i then None else comment_count_of d j)"
      "count (like_targets d2) j = (if j = i then 0 else count (like_targets d) j)" for j
      using count_deleted_rows[of l_VideoID l_IsLike i "db_likes d" j]
      by (simp_all add: like_count_of_def comment_count_of_def d2_def lookup_remove like_targets_def)
    moreover have "comment_targets d2 = comment_targets d" "reply_count_of d2 = reply_count_of d" "reply_targets d2 = reply_targets d"
      "subscriber_count_of d2 = subscriber_count_of d" "subscriber_targets d2 = subscriber_targets d"
      "video_count_of d2 = video_count_of d" "playlist_targets d2 = playlist_targets d"
      by (simp_all add: d2_def count_of_defs targets_defs fun_eq_iff)
    ultimately show ?thesis using k(3) by (auto simp: counters_ok_def split: if_splits)
  qed
  let ?gone = "filter (\<lambda>pv. pv_VideoID pv = i) (db_playlist_videos d)"
  define d3 where "d3 = fold (playlist_video_deleted t) ?gone (d2\<lparr> db_playlist_videos := ?pvs \<rparr>)"
  have counts3: "counters_ok d3"
  proof -
    have "playlist_targets (d2\<lparr> db_playlist_videos := ?pvs \<rparr>) + image_mset pv_PlaylistID (mset ?gone) = playlist_targets d2"
      by (simp add: playlist_targets_def d2_def image_split_rows)
    then show ?thesis unfolding d3_def using counts[unfolded counters_ok_def]
      by (intro fold_playlist_video_counts) (simp_all add: playlist_videos_frame)
  qed
  obtain ps where d3: "d3 = d2\<lparr> db_playlist_videos := ?pvs, db_playlists := ps \<rparr>" and ps: "map p_ID ps = map p_ID (db_playlists d)"
    using fold_playlist_video_shape[of t ?gone "d2\<lparr> db_playlist_videos := ?pvs \<rparr>"] by (auto simp: d3_def d2_def)
  have ps_set: "p_ID ` set ps = p_ID ` set (db_playlists d)" using ps by (metis set_map)
  define roots where "roots = map c_ID (filter (\<lambda>c. c_VideoID c = i) (db_comments d))"
  define ids where "ids = reply_closure (length (db_comments d)) (db_comments d) roots"
  let ?cs = "delete_rows (\<lambda>c. c_ID c \<in> set ids) (db_comments d)"
  have closed: "replies_closed (db_comments d) ids" unfolding ids_def by (rule closure_of_table)
  have roots: "set roots \<subseteq> set ids" unfolding ids_def by (rule closure_grows)
  define d4 where "d4 = cascade_comments t roots d3"
  have shape: "keys_ok d4 = keys_ok (d3\<lparr> db_comments := ?cs \<rparr>)" "refs_ok d4 = refs_ok (d3\<lparr> db_comments := ?cs \<rparr>)"
    unfolding d4_def cascade_comments_def Let_def fold_comment_frame
    by (simp_all add: d3 d2_def ids_def keys_ok_def refs_ok_def)
  have "keys_ok d4" unfolding shape
    using k(1) ps by (simp add: keys_ok_def d3 d2_def distinct_remove distinct_map_delete)
  moreover have "refs_ok d4"
  proof -
    have "c_ParentID ` set ?cs \<subseteq> insert None (Some ` c_ID ` set ?cs)"
    proof
      fix q assume "q \<in> c_ParentID ` set ?cs"
      then obtain c where c: "c \<in> set (db_comments d)" "c_ID c \<notin> set ids" "q = c_ParentID c" by auto
      show "q \<in> insert None (Some ` c_ID ` set ?cs)"
      proof (cases q)
        case (Some p)
        have "Some p \<in> c_ParentID ` set (db_comments d)" using c Some by (metis image_eqI)
        moreover have "c_ParentID ` set (db_comments d) \<subseteq> insert None (Some ` c_ID ` set (db_comments d))"
          using k(2) by (simp add: refs_ok_def)
        ultimately have "Some p \<in> insert None (Some ` c_ID ` set (db_comments d))" by (rule rev_subsetD)
        then obtain c' where "c' \<in> set (db_comments d)" "c_ID c' = p" by auto
        moreover have "p \<notin> set ids" using closed c Some by (auto simp: replies_closed_def)
        ultimately show ?thesis using Some by auto
      qed simp
    qed
    moreover have "c_VideoID ` set ?cs \<subseteq> v_ID ` set ?vs"
    proof
      fix q assume "q \<in> c_VideoID ` set ?cs"
      then obtain c where c: "c \<in> set (db_comments d)" "c_ID c \<notin> set ids" "q = c_VideoID c" by auto
      have "q \<noteq> i" using c roots by (auto simp: roots_def)
      moreover have "q \<in> v_ID ` set (db_videos d)" using k(2) c by (auto simp: refs_ok_def)
      ultimately show "q \<in> v_ID ` set ?vs" by (auto simp: set_remove)
    qed
    moreover have "l_VideoID ` set ?ls \<subseteq> v_ID ` set ?vs" "pv_VideoID ` set ?pvs \<subseteq> v_ID ` set ?vs"
      "pv_PlaylistID ` set ?pvs \<subseteq> p_ID ` set (db_playlists d)"
      using k(2) by (auto simp: refs_ok_def set_remove)
    moreover have "s_CreatorID ` set (db_subscriptions d) \<subseteq> u_ID ` set (db_users d)" using k(2) by (simp add: refs_ok_def)
    ultimately show ?thesis unfolding shape by (simp add: refs_ok_def d3 d2_def ps_set)
  qed
  moreover have "counters_ok d4" unfolding d4_def by (rule cascade_comments_counts[OF counts3])
  ultimately have "social_ok d4" by (simp add: social_ok_def)
  moreover have "social_view (cascade_video t i d) = social_view d4"
  proof -
    have "db_comments d3 = db_comments d" by (simp add: d3 d2_def)
    then show ?thesis using d2 unfolding cascade_video_def Let_def
      by (simp add: d4_def d3_def roots_def d2_def social_view_def)
  qed
  ultimately show ?thesis using social_view_eq by blast
qed

lemma social_VideoRepo_Delete: "steps (on_db (keeping social_ok)) (VideoRepo_Delete i)"
  unfolding VideoRepo_Delete_def
  by (intro steps_rows_or steps_run_stmt preorder_on_db preorder_keeping) (auto intro: social_cascade_video split: if_splits)

end
