(* ===== verification/GoTime.thy ===== *)
theory GoTime
  imports Prelude GoLib
begin

text \<open>
  The parts of Go's \<^verbatim>\<open>time\<close> package the service uses: the civil date and the RFC 1123 format of
  mail headers, \<^verbatim>\<open>Duration.String\<close> and \<^verbatim>\<open>ParseDuration\<close>.
\<close>

section \<open>Dates\<close>

definition pad_left :: "nat \<Rightarrow> string \<Rightarrow> string" where
  "pad_left n s = replicate (n - length s) (CHR ''0'') @ s"

text \<open>Year, month and day of a number of days since the epoch.\<close>

definition civil_of_days :: "int \<Rightarrow> int \<times> int \<times> int" where
  "civil_of_days days =
     (let z = days + 719468; era = z div 146097; doe = z mod 146097;
          yoe = (doe - doe div 1460 + doe div 36524 - doe div 146096) div 365;
          doy = doe - (365 * yoe + yoe div 4 - yoe div 100);
          mp = (5 * doy + 2) div 153;
          d = doy - (153 * mp + 2) div 5 + 1;
          m = (if mp < 10 then mp + 3 else mp - 9)
      in (yoe + era * 400 + (if m \<le> 2 then 1 else 0), m, d))"

definition days_of_civil :: "int \<Rightarrow> int \<Rightarrow> int \<Rightarrow> int" where
  "days_of_civil y m d =
     (let y' = (if m \<le> 2 then y - 1 else y); era = y' div 400; yoe = y' mod 400;
          doy = (153 * ((m + 9) mod 12) + 2) div 5 + d - 1
      in era * 146097 + (yoe * 365 + yoe div 4 - yoe div 100 + doy) - 719468)"

text \<open>\<^verbatim>\<open>AddDate\<close> in a zone of fixed offset: the day of the month may overflow into the next one.\<close>

definition AddDate :: "int \<Rightarrow> time \<Rightarrow> int \<Rightarrow> int \<Rightarrow> int \<Rightarrow> time" where
  "AddDate zone t years months days =
     (let loc = t + zone * Second; day = loc div (86400 * Second); (y, m, d) = civil_of_days day;
          mm = y * 12 + (m - 1) + years * 12 + months
      in (days_of_civil (mm div 12) (mm mod 12 + 1) d + days) * (86400 * Second) + loc mod (86400 * Second) - zone * Second)"

definition weekday_names :: "string list" where
  "weekday_names = [''Sun'', ''Mon'', ''Tue'', ''Wed'', ''Thu'', ''Fri'', ''Sat'']"

definition month_names :: "string list" where
  "month_names = [''Jan'', ''Feb'', ''Mar'', ''Apr'', ''May'', ''Jun'', ''Jul'', ''Aug'', ''Sep'', ''Oct'', ''Nov'', ''Dec'']"

definition RFC1123Z :: "int \<Rightarrow> time \<Rightarrow> string" where
  "RFC1123Z zone t =
     (let s = t div Second + zone; days = s div 86400; sec = s mod 86400; (y, m, d) = civil_of_days days;
          two = (\<lambda>n. pad_left 2 (nat_string (nat n)))
      in weekday_names ! nat ((days + 4) mod 7) @ '', '' @ two d @ '' '' @ month_names ! nat (m - 1) @ '' ''
         @ (if y < 0 then ''-'' else '''') @ pad_left 4 (nat_string (nat \<bar>y\<bar>)) @ '' '' @ two (sec div 3600) @ '':''
         @ two (sec div 60 mod 60) @ '':'' @ two (sec mod 60) @ '' '' @ (if zone < 0 then ''-'' else ''+'')
         @ two (\<bar>zone\<bar> div 3600) @ two (\<bar>zone\<bar> div 60 mod 60))"

section \<open>Durations\<close>

text \<open>\<^verbatim>\<open>time.Duration.String\<close>: the fraction is printed without trailing zeros.\<close>

definition fraction_string :: "nat \<Rightarrow> nat \<Rightarrow> string" where
  "fraction_string digits n =
     (let ds = rev (dropWhile (\<lambda>c. c = CHR ''0'') (rev (pad_left digits (nat_string (n mod 10 ^ digits)))))
      in if ds = '''' then '''' else ''.'' @ ds)"

definition duration_String :: "duration \<Rightarrow> string" where
  "duration_String d =
     (let u = nat \<bar>d\<bar>; sign = (if d < 0 then ''-'' else ''''); s = u div 10 ^ 9 in
      if u = 0 then ''0s''
      else if u < 1000 then sign @ nat_string u @ ''ns''
      else if u < 10 ^ 6 then sign @ nat_string (u div 1000) @ fraction_string 3 u @ [CHR 0xC2, CHR 0xB5] @ ''s''
      else if u < 10 ^ 9 then sign @ nat_string (u div 10 ^ 6) @ fraction_string 6 u @ ''ms''
      else sign @ (if s \<ge> 3600 then nat_string (s div 3600) @ ''h'' else '''')
         @ (if s \<ge> 60 then nat_string (s div 60 mod 60) @ ''m'' else '''')
         @ nat_string (s mod 60) @ fraction_string 9 u @ ''s'')"

definition duration_units :: "(string \<times> nat) list" where
  "duration_units = [(''ns'', 1), (''us'', 1000), ([CHR 0xC2, CHR 0xB5, CHR ''s''], 1000), ([CHR 0xCE, CHR 0xBC, CHR ''s''], 1000),
     (''ms'', 10 ^ 6), (''s'', 10 ^ 9), (''m'', 60 * 10 ^ 9), (''h'', 3600 * 10 ^ 9)]"

lemma shorter_rest: "takeWhile P r \<noteq> [] \<Longrightarrow> length r \<le> n \<Longrightarrow> length (dropWhile P r) < n"
  by (metis add_less_cancel_right add_0 length_0_conv length_append length_greater_0_conv less_le_trans
      takeWhile_dropWhile_id)

text \<open>One term after the other: digits, an optional fraction, a unit; a sum beyond \<^verbatim>\<open>2^63\<close> is an error.  The
  fraction is computed exactly and truncated (the library rounds it as a float64).\<close>

function duration_terms :: "string \<Rightarrow> nat \<Rightarrow> nat option" where
  "duration_terms s d =
     (if s = [] then Some d
      else let ds = takeWhile is_digit s; r = dropWhile is_digit s;
               dot = (r \<noteq> [] \<and> hd r = CHR ''.'');
               fs = (if dot then takeWhile is_digit (tl r) else []);
               r2 = (if dot then dropWhile is_digit (tl r) else r);
               u = takeWhile (\<lambda>c. \<not> is_digit c \<and> c \<noteq> CHR ''.'') r2;
               r3 = dropWhile (\<lambda>c. \<not> is_digit c \<and> c \<noteq> CHR ''.'') r2
           in if (ds = [] \<and> fs = []) \<or> u = [] then None
              else case map_of duration_units u of
                None \<Rightarrow> None
              | Some unit \<Rightarrow>
                  let v = (if ds = [] then 0 else the (digits_value ds));
                      f = (if fs = [] then 0 else the (digits_value fs));
                      x = d + v * unit + f * unit div 10 ^ length fs
                  in if x > 2 ^ 63 then None else duration_terms r3 x)"
  by pat_completeness auto

termination
proof (relation "measure (\<lambda>(s, d). length s)", goal_cases)
  case (2 s d ds r dot fs r2 u r3)
  have "length (dropWhile is_digit t) \<le> length t" for t by (rule length_dropWhile_le)
  moreover have "length (tl r) \<le> length r" by simp
  ultimately have "length r2 \<le> length s"
    using 2 by (metis order_trans)
  then show ?case using 2 shorter_rest[of _ r2 "length s"] by auto
qed simp

declare duration_terms.simps [simp del]

definition ParseDuration :: "string \<Rightarrow> duration option" where
  "ParseDuration s =
     (let neg = (s \<noteq> [] \<and> hd s = CHR ''-''); r = (if s \<noteq> [] \<and> (hd s = CHR ''-'' \<or> hd s = CHR ''+'') then tl s else s)
      in if r = ''0'' then Some 0
         else if r = [] then None
         else case duration_terms r 0 of
           None \<Rightarrow> None
         | Some d \<Rightarrow> if neg then Some (- int d) else if d > 2 ^ 63 - 1 then None else Some (int d))"

end
