(* ===== verification/Views.thy ===== *)
theory Views
  imports Schema Http GoTime
begin

text \<open>
  Views and watch history: the writing half of
  \<^verbatim>\<open>internal/repository/postgres/analytics_repository.go\<close>, the tracker
  (\<^verbatim>\<open>internal/service/view_tracker.go\<close>) with its counters in Redis, and the handlers
  (\<^verbatim>\<open>internal/handler/view_handler.go\<close>).  The commands of a Redis pipeline succeed or fail one by
  one; the time zone of the host is a parameter.
\<close>

section \<open>The tables\<close>

text \<open>NULLIF and the widths of migration 5, counted in characters.\<close>

definition nullif_empty :: "string \<Rightarrow> string option" where
  "nullif_empty s = (if s = '''' then None else Some s)"

definition view_widths_ok :: "ViewRow \<Rightarrow> bool" where
  "view_widths_ok r = (let fits = (\<lambda>n s. case s of None \<Rightarrow> True | Some x \<Rightarrow> RuneCount x \<le> n) in
     fits 255 (vr_SessionID r) \<and> fits 45 (vr_IPAddress r) \<and> fits 10 (vr_Quality r) \<and> fits 20 (vr_DeviceType r)
     \<and> fits 2 (vr_Country r) \<and> fits 50 (vr_Source r))"

definition count_view :: "time \<Rightarrow> Video \<Rightarrow> Video" where
  "count_view t v = v\<lparr> v_ViewCount := v_ViewCount v + 1, v_UpdatedAt := t \<rparr>"

text \<open>The transaction: the row and the counter of the video, or neither.\<close>

definition insert_view :: "time \<Rightarrow> ViewRow \<Rightarrow> db \<Rightarrow> err + unit \<times> db" where
  "insert_view t r d =
     (if \<not> view_widths_ok r \<or> list_ex (\<lambda>x. vr_ID x = vr_ID r) (db_video_views d) then Inl (ErrOther ''recording view'')
      else if \<not> video_exists d (vr_VideoID r) then Inl ErrVideoNotFound
      else if (case vr_UserID r of None \<Rightarrow> False | Some u \<Rightarrow> \<not> user_exists d u) then Inl (ErrOther ''recording view'')
      else Inr ((), d\<lparr> db_video_views := db_video_views d @ [r],
                       db_videos := modify v_ID (vr_VideoID r) (count_view t) (db_videos d) \<rparr>))"

definition Repo_RecordView :: "uuid \<Rightarrow> uuid option \<Rightarrow> string \<Rightarrow> string \<Rightarrow> string \<Rightarrow> string \<Rightarrow> string \<Rightarrow> string \<Rightarrow> string
    \<Rightarrow> (err + unit) prog" where
  "Repo_RecordView videoID userID sessionID ipAddress userAgent quality deviceType country source = do {
     i \<leftarrow> uuid_New;
     run_stmt ''recording view'' (\<lambda>t. insert_view t \<lparr> vr_ID = i, vr_VideoID = videoID, vr_UserID = userID,
        vr_SessionID = nullif_empty sessionID, vr_IPAddress = nullif_empty ipAddress, vr_UserAgent = nullif_empty userAgent,
        vr_Quality = nullif_empty quality, vr_DeviceType = nullif_empty deviceType, vr_Country = nullif_empty country,
        vr_Source = nullif_empty source, vr_WatchDuration = 0, vr_WatchPercent = 0, vr_CreatedAt = t \<rparr>)
   }"

definition UpdateViewDuration :: "uuid \<Rightarrow> int \<Rightarrow> rat \<Rightarrow> (err + unit) prog" where
  "UpdateViewDuration viewID dur percent = run_stmt ''updating view'' (\<lambda>t d.
     if - (2 ^ 31) \<le> dur \<and> dur < 2 ^ 31
     then Inr ((), d\<lparr> db_video_views := modify vr_ID viewID (\<lambda>r. r\<lparr> vr_WatchDuration := dur, vr_WatchPercent := percent \<rparr>)
            (db_video_views d) \<rparr>)
     else Inl (ErrOther ''updating view''))"

definition same_watch :: "WatchHistory \<Rightarrow> WatchHistory \<Rightarrow> bool" where
  "same_watch a b = (wh_UserID a = wh_UserID b \<and> wh_VideoID a = wh_VideoID b)"

definition watch_merged :: "time \<Rightarrow> WatchHistory \<Rightarrow> WatchHistory \<Rightarrow> WatchHistory" where
  "watch_merged t new old = old\<lparr> wh_WatchDuration := max (wh_WatchDuration old) (wh_WatchDuration new),
     wh_Completed := (wh_Completed old \<or> wh_Completed new), wh_LastPosition := wh_LastPosition new, wh_WatchedAt := t \<rparr>"

definition upsert_watch :: "time \<Rightarrow> WatchHistory \<Rightarrow> db \<Rightarrow> err + unit \<times> db" where
  "upsert_watch t entry d =
     (if list_ex (same_watch entry) (db_watch_history d)
      then Inr ((), d\<lparr> db_watch_history := update_rows (same_watch entry) (watch_merged t entry) (db_watch_history d) \<rparr>)
      else if \<not> user_exists d (wh_UserID entry) \<or> list_ex (\<lambda>x. wh_ID x = wh_ID entry) (db_watch_history d)
        then Inl (ErrOther ''upserting watch history'')
      else if \<not> video_exists d (wh_VideoID entry) then Inl ErrVideoNotFound
      else Inr ((), d\<lparr> db_watch_history := db_watch_history d @ [entry\<lparr> wh_WatchedAt := t \<rparr>] \<rparr>))"

definition UpsertWatchHistory :: "WatchHistory \<Rightarrow> (err + unit) prog" where
  "UpsertWatchHistory entry = do {
     i \<leftarrow> uuid_New;
     run_stmt ''upserting watch history'' (\<lambda>t. upsert_watch t (entry\<lparr> wh_ID := i \<rparr>))
   }"

definition ListWatchHistory :: "uuid \<Rightarrow> Page \<Rightarrow> (err + WatchHistory list \<times> nat) prog" where
  "ListWatchHistory userID pg = with_total
     (page_query ''listing watch history'' pg
        (\<lambda>d. sort_key (\<lambda>h. - wh_WatchedAt h) (filter (\<lambda>h. wh_UserID h = userID) (db_watch_history d))))
     (run_query ''counting watch history'' (\<lambda>d. length (filter (\<lambda>h. wh_UserID h = userID) (db_watch_history d))))"

definition ClearWatchHistory :: "uuid \<Rightarrow> (err + unit) prog" where
  "ClearWatchHistory userID = run_stmt ''clearing watch history'' (\<lambda>t d.
     Inr ((), d\<lparr> db_watch_history := delete_rows (\<lambda>h. wh_UserID h = userID) (db_watch_history d) \<rparr>))"

definition DeleteWatchHistoryEntry :: "uuid \<Rightarrow> uuid \<Rightarrow> (err + unit) prog" where
  "DeleteWatchHistoryEntry userID videoID = rows_or ErrWatchHistoryNotFound (run_stmt ''deleting watch history entry'' (\<lambda>t d.
     Inr (affected (\<lambda>h. wh_UserID h = userID \<and> wh_VideoID h = videoID) (db_watch_history d),
          d\<lparr> db_watch_history := delete_rows (\<lambda>h. wh_UserID h = userID \<and> wh_VideoID h = videoID) (db_watch_history d) \<rparr>)))"

section \<open>Sorted sets and absolute expiry of Redis\<close>

definition redis_ExpireAt :: "string \<Rightarrow> time \<Rightarrow> (err + unit) prog" where
  "redis_ExpireAt key due = run_put ''redis EXPIREAT'' (\<lambda>t w. case redis_live t (w_redis w key) of
       None \<Rightarrow> w
     | Some v \<Rightarrow> w\<lparr> w_redis := (w_redis w)(key := (if due \<le> t then None else Some (v, Some due))) \<rparr>)"

definition redis_ZAdd :: "string \<Rightarrow> int \<Rightarrow> string \<Rightarrow> (err + unit) prog" where
  "redis_ZAdd key score member = run_put ''redis ZADD'' (\<lambda>t w.
     w\<lparr> w_zsets := (w_zsets w)(key := filter (\<lambda>(m, s). m \<noteq> member) (w_zsets w key) @ [(member, score)]) \<rparr>)"

definition redis_ZRemRangeByScore :: "string \<Rightarrow> int \<Rightarrow> int \<Rightarrow> (err + unit) prog" where
  "redis_ZRemRangeByScore key lo hi = run_put ''redis ZREMRANGEBYSCORE'' (\<lambda>t w.
     w\<lparr> w_zsets := (w_zsets w)(key := filter (\<lambda>(m, s). \<not> (lo \<le> s \<and> s \<le> hi)) (w_zsets w key)) \<rparr>)"

definition redis_ZCountFrom :: "string \<Rightarrow> int \<Rightarrow> (err + int) prog" where
  "redis_ZCountFrom key lo = State (\<lambda>w. let n = w_tick w; w' = w\<lparr> w_tick := Suc n \<rparr> in
     if outcome_at (w_env w) n = Done then (Inr (int (length (filter (\<lambda>(m, s). lo \<le> s) (w_zsets w key)))), w')
     else (Inl (ErrOther ''redis ZCOUNT''), w'))"

section \<open>The tracker\<close>

record ViewEvent =
  ev_VideoID :: uuid
  ev_UserID :: "uuid option"
  ev_SessionID :: string
  ev_IPAddress :: string
  ev_UserAgent :: string
  ev_Quality :: string
  ev_DeviceType :: string
  ev_Country :: string
  ev_Source :: string

definition viewer :: "uuid_lib \<Rightarrow> ViewEvent \<Rightarrow> string option" where
  "viewer lib e = (case ev_UserID e of
     Some u \<Rightarrow> if u \<noteq> Nil_uuid then Some (uuid_String lib u)
        else if ev_SessionID e \<noteq> '''' then Some (ev_SessionID e) else None
   | None \<Rightarrow> if ev_SessionID e \<noteq> '''' then Some (ev_SessionID e) else None)"

definition viewDedupeWindow :: duration where "viewDedupeWindow = 30 * Minute"

definition dedupeKeyOf :: "uuid_lib \<Rightarrow> uuid \<Rightarrow> string \<Rightarrow> string" where
  "dedupeKeyOf lib i who = ''video:view_dedupe:'' @ uuid_String lib i @ '':'' @ who"

definition viewsKey :: "uuid_lib \<Rightarrow> uuid \<Rightarrow> string \<Rightarrow> string" where
  "viewsKey lib i period = ''video:views:'' @ uuid_String lib i @ '':'' @ period"

definition activeViewersKey :: "uuid_lib \<Rightarrow> uuid \<Rightarrow> string" where
  "activeViewersKey lib i = ''active_viewers:'' @ uuid_String lib i"

text \<open>The next local midnight, for a zone of fixed offset in seconds.\<close>

definition next_midnight :: "int \<Rightarrow> time \<Rightarrow> time" where
  "next_midnight zone now = (((now div Second + zone) div 86400 + 1) * 86400 - zone) * Second"

text \<open>The pipeline, whose errors are only logged.\<close>

definition refresh_counters :: "uuid_lib \<Rightarrow> int \<Rightarrow> ViewEvent \<Rightarrow> time \<Rightarrow> unit prog" where
  "refresh_counters lib zone e now = (let i = ev_VideoID e in do {
     _ \<leftarrow> redis_Incr (viewsKey lib i ''total'');
     _ \<leftarrow> redis_Incr (viewsKey lib i ''today'');
     _ \<leftarrow> redis_ExpireAt (viewsKey lib i ''today'') (next_midnight zone now);
     _ \<leftarrow> redis_Incr (viewsKey lib i ''hour'');
     _ \<leftarrow> redis_Expire (viewsKey lib i ''hour'') Hour;
     _ \<leftarrow> (case viewer lib e of None \<Rightarrow> State_Monad.return (Inr ())
         | Some who \<Rightarrow> redis_ZAdd (activeViewersKey lib i) (now div Second) who);
     _ \<leftarrow> redis_ZRemRangeByScore (activeViewersKey lib i) 0 ((now - 5 * Minute) div Second);
     State_Monad.return ()
   })"

definition recordView :: "uuid_lib \<Rightarrow> int \<Rightarrow> ViewEvent \<Rightarrow> (err + unit) prog" where
  "recordView lib zone e = try_then
     (Repo_RecordView (ev_VideoID e) (ev_UserID e) (ev_SessionID e) (ev_IPAddress e) (ev_UserAgent e) (ev_Quality e)
        (ev_DeviceType e) (ev_Country e) (ev_Source e))
     (\<lambda>_. do {
        now \<leftarrow> time_Now;
        refresh_counters lib zone e now;
        State_Monad.return (Inr ())
      })"

definition TrackView :: "uuid_lib \<Rightarrow> int \<Rightarrow> ViewEvent \<Rightarrow> (err + bool) prog" where
  "TrackView lib zone e = (case viewer lib e of
     None \<Rightarrow> State_Monad.return (Inl ErrInvalidInput)
   | Some who \<Rightarrow> let dedupeKey = dedupeKeyOf lib (ev_VideoID e) who in do {
       fresh \<leftarrow> redis_SetNX dedupeKey ''1'' viewDedupeWindow;
       if fresh = Inr False then State_Monad.return (Inr False)
       else do {
         r \<leftarrow> recordView lib zone e;
         case r of
           Inl err \<Rightarrow> do { _ \<leftarrow> redis_Del dedupeKey; State_Monad.return (Inl err) }
         | Inr _ \<Rightarrow> State_Monad.return (Inr True)
       }
     })"

definition Tracker_SaveProgress :: "uuid \<Rightarrow> uuid \<Rightarrow> int \<Rightarrow> int \<Rightarrow> bool \<Rightarrow> (err + unit) prog" where
  "Tracker_SaveProgress userID videoID position dur completed =
     (if position < 0 \<or> dur < 0 \<or> position > 2 ^ 31 - 1 then State_Monad.return (Inl ErrInvalidProgress)
      else if dur > 0 \<and> position > dur then State_Monad.return (Inl ErrInvalidProgress)
      else let entry = \<lparr> wh_ID = Nil_uuid, wh_UserID = userID, wh_VideoID = videoID, wh_WatchedAt = 0,
             wh_WatchDuration = position, wh_Completed = completed, wh_LastPosition = position \<rparr> in
        check_valid (WatchHistory_Validate entry) (UpsertWatchHistory entry))"

definition History :: "uuid \<Rightarrow> Page \<Rightarrow> (err + WatchHistory list \<times> nat) prog" where
  "History userID pg = ListWatchHistory userID pg"

definition Tracker_ClearHistory :: "uuid \<Rightarrow> (err + unit) prog" where
  "Tracker_ClearHistory userID = ClearWatchHistory userID"

definition RemoveHistoryEntry :: "uuid \<Rightarrow> uuid \<Rightarrow> (err + unit) prog" where
  "RemoveHistoryEntry userID videoID = DeleteWatchHistoryEntry userID videoID"

definition GetActiveViewers :: "uuid_lib \<Rightarrow> uuid \<Rightarrow> (err + int) prog" where
  "GetActiveViewers lib videoID = do {
     now \<leftarrow> time_Now;
     redis_ZCountFrom (activeViewersKey lib videoID) ((now - 5 * Minute) div Second)
   }"

definition counter_value :: "string \<Rightarrow> (err + int) prog" where
  "counter_value key = do {
     r \<leftarrow> redis_Get key;
     State_Monad.return (case r of Inl e \<Rightarrow> Inl e | Inr None \<Rightarrow> Inr 0
       | Inr (Some s) \<Rightarrow> (case Atoi s of None \<Rightarrow> Inl (ErrOther ''failed to get views'') | Some n \<Rightarrow> Inr n))
   }"

definition GetTodayViews :: "uuid_lib \<Rightarrow> uuid \<Rightarrow> (err + int) prog" where
  "GetTodayViews lib videoID = counter_value (viewsKey lib videoID ''today'')"

definition GetHourViews :: "uuid_lib \<Rightarrow> uuid \<Rightarrow> (err + int) prog" where
  "GetHourViews lib videoID = counter_value (viewsKey lib videoID ''hour'')"

section \<open>The handlers\<close>

fun Contains :: "string \<Rightarrow> string \<Rightarrow> bool" where
  "Contains s sub = (HasPrefix s sub \<or> (case s of [] \<Rightarrow> False | _ # r \<Rightarrow> Contains r sub))"

definition deviceTypeFrom :: "unicode_tables \<Rightarrow> string \<Rightarrow> string" where
  "deviceTypeFrom ut userAgent = (let ua = ToLower ut userAgent in
     if ua = '''' then ''''
     else if Contains ua ''ipad'' \<or> Contains ua ''tablet'' \<or> (Contains ua ''android'' \<and> \<not> Contains ua ''mobi'') then ''tablet''
     else if Contains ua ''mobi'' \<or> Contains ua ''android'' then ''mobile''
     else ''desktop'')"

datatype view_body = CountedBody bool | ViewMessage string | HistoryBody "WatchHistory list"

text \<open>The body is quality, source and session; the user agent and the client address come with the request.\<close>

definition Handler_RecordView :: "uuid_lib \<Rightarrow> unicode_tables \<Rightarrow> int \<Rightarrow> string \<Rightarrow> string \<Rightarrow> request
    \<Rightarrow> (string \<times> string \<times> string) option \<Rightarrow> view_body response prog" where
  "Handler_RecordView lib ut zone userAgent clientIP c body = pathUUID lib c ''id'' ''video ID'' (\<lambda>videoID.
     bound body ''request body must be JSON'' (\<lambda>(quality, source, session).
       let event = \<lparr> ev_VideoID = videoID, ev_UserID = viewerID c, ev_SessionID = TrimSpace session, ev_IPAddress = clientIP,
             ev_UserAgent = userAgent, ev_Quality = TrimSpace quality, ev_DeviceType = deviceTypeFrom ut userAgent,
             ev_Country = '''', ev_Source = TrimSpace source \<rparr> in
       if viewerID c = None \<and> ev_SessionID event = ''''
       then State_Monad.return (ValidationError ''session_id is required for anonymous views'')
       else answer (TrackView lib zone event)
         (\<lambda>e. if e = ErrVideoNotFound then NotFound ''Video not found''
            else if e = ErrInvalidInput then ValidationError ''session_id is required for anonymous views''
            else InternalError ''Failed to record view'')
         (\<lambda>counted. Success (if counted then 201 else 200) (CountedBody counted))))"

definition Handler_SaveProgress :: "uuid_lib \<Rightarrow> request \<Rightarrow> (int \<times> int \<times> bool) option \<Rightarrow> view_body response prog" where
  "Handler_SaveProgress lib c body = pathUUID lib c ''id'' ''video ID'' (\<lambda>videoID. requirePrincipal c (\<lambda>p.
     bound body ''position and duration are required'' (\<lambda>(position, dur, completed).
       answer (Tracker_SaveProgress (pr_UserID p) videoID position dur completed)
         (\<lambda>e. if e = ErrVideoNotFound then NotFound ''Video not found''
            else if e = ErrInvalidProgress \<or> e = ErrInvalidInput
              then ValidationError ''position and duration must be non-negative seconds, with position within duration''
            else InternalError ''Failed to save progress'')
         (\<lambda>_. Success 200 (ViewMessage ''Progress saved'')))))"

definition Handler_GetHistory :: "request \<Rightarrow> view_body response prog" where
  "Handler_GetHistory c = requirePrincipal c (\<lambda>p. let page = parsePage c in
     answer_page (History (pr_UserID p) page) page (\<lambda>e. InternalError ''Failed to load watch history'') HistoryBody)"

definition Handler_ClearHistory :: "request \<Rightarrow> view_body response prog" where
  "Handler_ClearHistory c = requirePrincipal c (\<lambda>p.
     answer (Tracker_ClearHistory (pr_UserID p)) (\<lambda>e. InternalError ''Failed to clear watch history'')
       (\<lambda>_. Success 200 (ViewMessage ''Watch history cleared'')))"

definition Handler_DeleteHistoryEntry :: "uuid_lib \<Rightarrow> request \<Rightarrow> view_body response prog" where
  "Handler_DeleteHistoryEntry lib c = pathUUID lib c ''videoId'' ''video ID'' (\<lambda>videoID. requirePrincipal c (\<lambda>p.
     answer (RemoveHistoryEntry (pr_UserID p) videoID)
       (\<lambda>e. if e = ErrWatchHistoryNotFound then NotFound ''Watch history entry not found''
          else InternalError ''Failed to delete watch history entry'')
       (\<lambda>_. Success 200 (ViewMessage ''Watch history entry removed''))))"

end
