(* ===== verification/Upload.thy ===== *)
theory Upload
  imports Transcode
begin

text \<open>
  Receiving an upload: the file checks of \<^verbatim>\<open>pkg/validator/validator.go\<close> and the upload service
  \<^verbatim>\<open>internal/service/upload_service.go\<close>, which stores the file, records the row and takes the file
  away again when recording fails.  A multipart file is what its first read yields (at most 512
  bytes, \<^verbatim>\<open>None\<close> for an error) and whether it can be rewound.
\<close>

section \<open>Validation\<close>

definition allowedExtensions :: "string list" where
  "allowedExtensions = [''.mp4'', ''.mov'', ''.avi'', ''.mkv'', ''.webm'']"

definition magicEBML :: string where "magicEBML = [CHR 0x1A, CHR 0x45, CHR 0xDF, CHR 0xA3]"
definition magicRIFF :: string where "magicRIFF = ''RIFF''"
definition magicAVI :: string where "magicAVI = ''AVI ''"
definition magicFTYP :: string where "magicFTYP = ''ftyp''"

text \<open>\<^verbatim>\<open>buf[i:j]\<close>, of a buffer long enough.\<close>

definition slice :: "nat \<Rightarrow> nat \<Rightarrow> string \<Rightarrow> string" where
  "slice i j buf = take (j - i) (drop i buf)"

definition isVideoFile :: "string \<Rightarrow> bool" where
  "isVideoFile buf =
     (if length buf \<ge> 8 \<and> slice 4 8 buf = magicFTYP then True
      else if HasPrefix buf magicEBML then True
      else if length buf \<ge> 12 \<and> HasPrefix buf magicRIFF \<and> slice 8 12 buf = magicAVI then True
      else False)"

record FileHeader =
  fh_Filename :: string
  fh_Size :: int
  fh_ContentType :: string

record MultipartFile =
  mf_head :: "string option"
  mf_seekable :: bool

definition ValidateVideoFile :: "unicode_tables \<Rightarrow> MultipartFile \<Rightarrow> FileHeader \<Rightarrow> int \<Rightarrow> err option" where
  "ValidateVideoFile U file header maxSize =
     (if fh_Size header > maxSize then Some V_ErrFileTooLarge
      else if fh_Size header < 1024 then Some V_ErrInvalidFormat
      else let ext = ToLower U (path_Ext (fh_Filename header)) in
        if ext \<notin> set allowedExtensions then Some V_ErrInvalidFormat
        else case mf_head file of None \<Rightarrow> Some (ErrOther ''failed to read file header'')
        | Some buf \<Rightarrow>
            if \<not> mf_seekable file then Some (ErrOther ''failed to reset file pointer'')
            else if \<not> isVideoFile buf then Some V_ErrInvalidFormat else None)"

definition ValidateTitle :: "string \<Rightarrow> err option" where
  "ValidateTitle title0 = (let title = TrimSpace title0 in
     if title = '''' then Some V_ErrInvalidTitle else if length title > 255 then Some V_ErrInvalidTitle else None)"

definition ValidateDescription :: "string \<Rightarrow> err option" where
  "ValidateDescription description = (if length description > 5000
     then Some (ErrOther ''description cannot exceed 5000 characters'') else None)"

definition ValidatePageParams :: "int \<Rightarrow> int \<Rightarrow> err option" where
  "ValidatePageParams page limit = (if page < 1 then Some V_ErrInvalidPagination
     else if limit < 1 \<or> limit > 100 then Some V_ErrInvalidPagination else None)"

definition SanitizeString :: "string \<Rightarrow> string" where
  "SanitizeString s = TrimSpace s"

section \<open>The upload service\<close>

record UploadRequest =
  ur_File :: MultipartFile
  ur_Header :: FileHeader
  ur_Title :: string
  ur_Description :: string
  ur_OwnerID :: uuid
  ur_Visibility :: string

definition mimeTypeOf :: "unicode_tables \<Rightarrow> FileHeader \<Rightarrow> string" where
  "mimeTypeOf U header = (if fh_ContentType header \<noteq> '''' then fh_ContentType header
     else ''video/'' @ TrimPrefix (ToLower U (path_Ext (fh_Filename header))) ''.'')"

text \<open>What the service is constructed with.\<close>

record UploadService =
  us_uuid :: uuid_lib
  us_unicode :: unicode_tables
  us_storageCfg :: StorageConfig
  us_store :: Store

definition persistFile :: "UploadService \<Rightarrow> FileHeader \<Rightarrow> (err + string \<times> string) prog" where
  "persistFile S header = do {
     i \<leftarrow> uuid_New;
     let name = uuid_String (us_uuid S) i @ ToLower (us_unicode S) (path_Ext (fh_Filename header));
     let key = Key [''raw'', name];
     r \<leftarrow> sto_Save (us_store S) key;
     State_Monad.return (case r of Inl e \<Rightarrow> Inl e
       | Inr _ \<Rightarrow> Inr (key, path_Join [UploadPath (us_storageCfg S), ''raw'', name]))
   }"

text \<open>ffprobe on the stored file, when it has a local path; a failed probe leaves the fields empty.\<close>

definition probe_upload :: "UploadService \<Rightarrow> string \<Rightarrow> Video \<Rightarrow> Video prog" where
  "probe_upload S filePath video =
     (if IsRemote (us_store S) then State_Monad.return video
      else do {
        m \<leftarrow> ExtractMetadata filePath;
        State_Monad.return (case m of Inl e \<Rightarrow> video
          | Inr metadata \<Rightarrow> video\<lparr> v_Duration := trunc (md_Duration metadata),
              v_OriginalResolution := Itoa (md_Width metadata) @ ''x'' @ Itoa (md_Height metadata) \<rparr>)
      })"

text \<open>From the stored file on; any error runs the deferred removal of the file.\<close>

definition record_upload :: "UploadService \<Rightarrow> UploadRequest \<Rightarrow> string \<Rightarrow> string \<Rightarrow> VideoVisibility \<Rightarrow> string
    \<Rightarrow> (err + Video) prog" where
  "record_upload S req title description visibility filePath = do {
     i \<leftarrow> uuid_New; t1 \<leftarrow> time_Now; t2 \<leftarrow> time_Now;
     case NewVideo i t1 t2 title description (path_Base filePath) filePath
            (mimeTypeOf (us_unicode S) (ur_Header req)) (fh_Size (ur_Header req)) of
       Inl e \<Rightarrow> State_Monad.return (Inl e)
     | Inr v0 \<Rightarrow> do {
         let v1 = v0\<lparr> v_Visibility := visibility \<rparr>;
         let v2 = (if ur_OwnerID req \<noteq> Nil_uuid then v1\<lparr> v_UserID := Some (ur_OwnerID req) \<rparr> else v1);
         video \<leftarrow> probe_upload S filePath v2;
         r \<leftarrow> VideoRepo_Create video;
         State_Monad.return (case r of Inl e \<Rightarrow> Inl e | Inr _ \<Rightarrow> Inr video)
       }
   }"

definition store_upload :: "UploadService \<Rightarrow> UploadRequest \<Rightarrow> string \<Rightarrow> string \<Rightarrow> VideoVisibility \<Rightarrow> (err + Video) prog" where
  "store_upload S req title description visibility = try_then (persistFile S (ur_Header req)) (\<lambda>(key, filePath). do {
     r \<leftarrow> record_upload S req title description visibility filePath;
     case r of Inr video \<Rightarrow> State_Monad.return (Inr video)
     | Inl e \<Rightarrow> do { _ \<leftarrow> sto_Delete (us_store S) key; State_Monad.return (Inl e) }
   })"

definition UploadVideo :: "UploadService \<Rightarrow> UploadRequest \<Rightarrow> (err + Video) prog" where
  "UploadVideo S req =
     (let title = SanitizeString (ur_Title req); description = SanitizeString (ur_Description req);
          visibility = (if ur_Visibility req = '''' then VisibilityPublic else visibility_of_name (ur_Visibility req))
      in if ValidateTitle title \<noteq> None then State_Monad.return (Inl ErrInvalidTitle)
         else if ValidateDescription description \<noteq> None then State_Monad.return (Inl ErrInvalidInput)
         else check_valid (ValidateVideoFile (us_unicode S) (ur_File req) (ur_Header req) (MaxFileSize (us_storageCfg S)))
           (if \<not> VideoVisibility_IsValid visibility then State_Monad.return (Inl ErrInvalidInput)
            else store_upload S req title description visibility))"

text \<open>Best effort: errors are logged.\<close>

definition RemoveVideoFiles :: "UploadService \<Rightarrow> Video \<Rightarrow> unit prog" where
  "RemoveVideoFiles S video = do {
     _ \<leftarrow> (if v_FilePath video \<noteq> '''' then sto_Delete (us_store S) (Key [''raw'', path_Base (v_FilePath video)])
          else State_Monad.return (Inr ()));
     _ \<leftarrow> sto_DeletePrefix (us_store S) (Key [''transcoded'', uuid_String (us_uuid S) (v_ID video)]);
     _ \<leftarrow> sto_Delete (us_store S) (Key [''thumbnails'', uuid_String (us_uuid S) (v_ID video) @ ''.jpg'']);
     State_Monad.return ()
   }"

end
