(* ===== verification/Moderation.thy ===== *)
theory Moderation
  imports UserRepo VideoRepo Upload Http GoTime
begin

text \<open>
  Moderation: the report and audit tables
  (\<^verbatim>\<open>internal/repository/postgres/report_repository.go\<close>, \<^verbatim>\<open>audit_log_repository.go\<close>), the services
  (\<^verbatim>\<open>internal/service/moderation_service.go\<close>, \<^verbatim>\<open>audit_service.go\<close>) and the handlers
  (\<^verbatim>\<open>internal/handler/moderation_handler.go\<close>).  The details of an audit entry are kept as the
  values the service passes, before their encoding as JSON.
\<close>

section \<open>The report table\<close>

definition report_type_of :: "string \<Rightarrow> ReportType" where
  "report_type_of s = (if s = ''spam'' then ReportTypeSpam else if s = ''harassment'' then ReportTypeHarassment
     else if s = ''hate_speech'' then ReportTypeHateSpeech else if s = ''violence'' then ReportTypeViolence
     else if s = ''copyright'' then ReportTypeCopyright else if s = ''nudity'' then ReportTypeNudity
     else if s = ''misinformation'' then ReportTypeMisinformation else if s = ''other'' then ReportTypeOther
     else ReportTypeUnknown s)"

text \<open>The constraints of migration 6: primary key, foreign keys, the length of the reason in characters, the
  enumeration and the target check.\<close>

definition report_accepted :: "db \<Rightarrow> ContentReport \<Rightarrow> bool" where
  "report_accepted d r = (\<not> list_ex (\<lambda>x. r_ID x = r_ID r) (db_reports d)
     \<and> (case r_VideoID r of None \<Rightarrow> True | Some v \<Rightarrow> video_exists d v)
     \<and> (case r_UserID r of None \<Rightarrow> True | Some u \<Rightarrow> user_exists d u)
     \<and> user_exists d (r_ReporterID r)
     \<and> ReportType_IsValid (r_ReportType r) \<and> RuneCount (r_Reason r) \<le> 100
     \<and> \<not> (r_VideoID r = None \<and> r_UserID r = None \<and> r_CommentID r = None))"

text \<open>The columns the INSERT omits are NULL.\<close>

definition ReportRepo_Create :: "ContentReport \<Rightarrow> (err + unit) prog" where
  "ReportRepo_Create report = run_stmt ''creating report'' (\<lambda>t d.
     if report_accepted d report
     then Inr ((), d\<lparr> db_reports := db_reports d @ [report\<lparr> r_ReviewedBy := None, r_ReviewedAt := None, r_Action := None \<rparr>] \<rparr>)
     else Inl (ErrOther ''content_reports constraint''))"

definition ReportRepo_GetByID :: "uuid \<Rightarrow> (err + ContentReport) prog" where
  "ReportRepo_GetByID i = row_or ErrReportNotFound ''getting report'' (\<lambda>d. lookup r_ID i (db_reports d))"

definition ReportRepo_GetPending :: "Page \<Rightarrow> (err + ContentReport list) prog" where
  "ReportRepo_GetPending pg = page_query ''listing reports'' pg
     (\<lambda>d. sort_key (\<lambda>r. - r_CreatedAt r) (filter (\<lambda>r. r_Status r = ReportStatusPending) (db_reports d)))"

text \<open>No row is no error.  The reviewer is a foreign key, checked when there is a row to update.\<close>

definition report_written :: "ContentReport \<Rightarrow> ContentReport \<Rightarrow> ContentReport" where
  "report_written report r = r\<lparr> r_Status := r_Status report, r_ReviewedBy := r_ReviewedBy report,
     r_ReviewedAt := r_ReviewedAt report, r_Action := r_Action report, r_UpdatedAt := r_UpdatedAt report \<rparr>"

definition ReportRepo_Update :: "ContentReport \<Rightarrow> (err + unit) prog" where
  "ReportRepo_Update report = run_stmt ''updating report'' (\<lambda>t d.
     if lookup r_ID (r_ID report) (db_reports d) \<noteq> None
        \<and> (case r_ReviewedBy report of None \<Rightarrow> False | Some m \<Rightarrow> \<not> user_exists d m)
     then Inl (ErrOther ''content_reports_reviewed_by_fkey'')
     else Inr ((), d\<lparr> db_reports := modify r_ID (r_ID report) (report_written report) (db_reports d) \<rparr>))"

definition CountByStatus :: "ReportStatus \<Rightarrow> (err + nat) prog" where
  "CountByStatus status = run_query ''counting reports by status'' (\<lambda>d. length (filter (\<lambda>r. r_Status r = status) (db_reports d)))"

definition CountByReporterAndVideo :: "uuid \<Rightarrow> uuid \<Rightarrow> (err + nat) prog" where
  "CountByReporterAndVideo reporterID videoID = run_query ''counting reports by reporter''
     (\<lambda>d. length (filter (\<lambda>r. r_ReporterID r = reporterID \<and> r_VideoID r = Some videoID) (db_reports d)))"

section \<open>The audit log\<close>

definition AuditRepo_Create :: "AuditLog \<Rightarrow> (err + unit) prog" where
  "AuditRepo_Create entry = run_stmt ''creating audit log'' (\<lambda>t d.
     if list_ex (\<lambda>x. al_ID x = al_ID entry) (db_audit_logs d)
        \<or> (case al_UserID entry of None \<Rightarrow> False | Some u \<Rightarrow> \<not> user_exists d u)
        \<or> RuneCount (al_Action entry) > 100 \<or> RuneCount (al_TargetType entry) > 50 \<or> RuneCount (al_IPAddress entry) > 45
     then Inl (ErrOther ''audit_logs constraint'')
     else Inr ((), d\<lparr> db_audit_logs := db_audit_logs d @ [entry] \<rparr>))"

definition AuditRepo_GetRecent :: "Page \<Rightarrow> (err + AuditLog list) prog" where
  "AuditRepo_GetRecent pg = page_query ''listing audit logs'' pg (\<lambda>d. sort_key (\<lambda>l. - al_CreatedAt l) (db_audit_logs d))"

definition AuditRepo_Count :: "(err + nat) prog" where
  "AuditRepo_Count = run_query ''counting audit logs'' (\<lambda>d. length (db_audit_logs d))"

definition AuditRepo_GetByUser :: "uuid \<Rightarrow> Page \<Rightarrow> (err + AuditLog list) prog" where
  "AuditRepo_GetByUser userID pg = page_query ''listing audit logs'' pg
     (\<lambda>d. sort_key (\<lambda>l. - al_CreatedAt l) (filter (\<lambda>l. al_UserID l = Some userID) (db_audit_logs d)))"

definition AuditRepo_CountByUser :: "uuid \<Rightarrow> (err + nat) prog" where
  "AuditRepo_CountByUser userID = run_query ''counting audit logs''
     (\<lambda>d. length (filter (\<lambda>l. al_UserID l = Some userID) (db_audit_logs d)))"

text \<open>The context of a request carries its values under typed keys (\<^verbatim>\<open>pkg/appctx\<close>), so the lookups by the plain
  strings \<^verbatim>\<open>user_id\<close>, \<^verbatim>\<open>ip_address\<close> and \<^verbatim>\<open>user_agent\<close> find nothing: the context values are the argument.\<close>

type_synonym context_values = "string \<Rightarrow> audit_value option"

definition request_values :: context_values where "request_values = (\<lambda>_. None)"

definition getUserIDFromContext :: "context_values \<Rightarrow> uuid option" where
  "getUserIDFromContext ctx = (case ctx ''user_id'' of Some (AuditID i) \<Rightarrow> Some i | _ \<Rightarrow> None)"

definition getIPFromContext :: "context_values \<Rightarrow> string" where
  "getIPFromContext ctx = (case ctx ''ip_address'' of Some (AuditText s) \<Rightarrow> s | _ \<Rightarrow> '''')"

definition getUserAgentFromContext :: "context_values \<Rightarrow> string" where
  "getUserAgentFromContext ctx = (case ctx ''user_agent'' of Some (AuditText s) \<Rightarrow> s | _ \<Rightarrow> '''')"

text \<open>The insertion runs in a goroutine of its own and its error is dropped; it shares nothing with the request and
  is placed where it is started.\<close>

definition Audit_Log :: "context_values \<Rightarrow> string \<Rightarrow> string \<Rightarrow> uuid option \<Rightarrow> (string \<times> audit_value) list \<Rightarrow> (err + unit) prog" where
  "Audit_Log ctx action targetType targetID details = do {
     i \<leftarrow> uuid_New;
     now \<leftarrow> time_Now;
     _ \<leftarrow> AuditRepo_Create (NewAuditLog i now (getUserIDFromContext ctx) action targetType targetID (getIPFromContext ctx)
           (getUserAgentFromContext ctx) details);
     State_Monad.return (Inr ())
   }"

text \<open>A filter value is a UUID, a pointer to one, a string, or of another type.\<close>

datatype filter_value = FilterID uuid | FilterRef "uuid option" | FilterText string | FilterOther

definition auditUserFilter :: "uuid_lib \<Rightarrow> (string \<Rightarrow> filter_value option) \<Rightarrow> uuid option" where
  "auditUserFilter lib filters = (case filters ''user_id'' of
     None \<Rightarrow> None
   | Some (FilterID v) \<Rightarrow> if v \<noteq> Nil_uuid then Some v else None
   | Some (FilterRef v) \<Rightarrow> if v = None \<or> v = Some Nil_uuid then None else v
   | Some (FilterText s) \<Rightarrow> (case uuid_Parse lib s of None \<Rightarrow> None | Some i \<Rightarrow> if i \<noteq> Nil_uuid then Some i else None)
   | Some FilterOther \<Rightarrow> None)"

definition GetLogs :: "uuid_lib \<Rightarrow> (string \<Rightarrow> filter_value option) \<Rightarrow> Page \<Rightarrow> (err + AuditLog list \<times> nat) prog" where
  "GetLogs lib filters pg = (case auditUserFilter lib filters of
     Some userID \<Rightarrow> with_total (AuditRepo_GetByUser userID pg) (AuditRepo_CountByUser userID)
   | None \<Rightarrow> with_total (AuditRepo_GetRecent pg) AuditRepo_Count)"

section \<open>The service\<close>

abbreviation ActionReportCreate :: string where "ActionReportCreate \<equiv> ''report.create''"
abbreviation ActionReportReview :: string where "ActionReportReview \<equiv> ''report.review''"
abbreviation ActionUserBan :: string where "ActionUserBan \<equiv> ''user.ban''"
abbreviation ActionUserUnban :: string where "ActionUserUnban \<equiv> ''user.unban''"

definition ReportType_name :: "ReportType \<Rightarrow> string" where
  "ReportType_name t = (case t of ReportTypeSpam \<Rightarrow> ''spam'' | ReportTypeHarassment \<Rightarrow> ''harassment''
     | ReportTypeHateSpeech \<Rightarrow> ''hate_speech'' | ReportTypeViolence \<Rightarrow> ''violence'' | ReportTypeCopyright \<Rightarrow> ''copyright''
     | ReportTypeNudity \<Rightarrow> ''nudity'' | ReportTypeMisinformation \<Rightarrow> ''misinformation'' | ReportTypeOther \<Rightarrow> ''other''
     | ReportTypeUnknown s \<Rightarrow> s)"

definition getReportTargetType :: "ContentReport \<Rightarrow> string" where
  "getReportTargetType report = (if r_VideoID report \<noteq> None then ''video'' else if r_UserID report \<noteq> None then ''user''
     else if r_CommentID report \<noteq> None then ''comment'' else ''unknown'')"

definition CreateReport :: "ContentReport \<Rightarrow> (err + unit) prog" where
  "CreateReport report = check_valid (ContentReport_Validate report) (
     try_then (case r_VideoID report of
         None \<Rightarrow> State_Monad.return (Inr 0)
       | Some v \<Rightarrow> CountByReporterAndVideo (r_ReporterID report) v) (\<lambda>existingCount.
       if existingCount > 0 then State_Monad.return (Inl ErrDuplicateReport)
       else try_then (ReportRepo_Create report) (\<lambda>_.
         Audit_Log request_values ActionReportCreate ''report'' (Some (r_ID report))
           [(''report_type'', AuditText (ReportType_name (r_ReportType report))),
            (''target_type'', AuditText (getReportTargetType report))])))"

definition GetPendingReports :: "Page \<Rightarrow> (err + ContentReport list \<times> nat) prog" where
  "GetPendingReports pg = with_total (ReportRepo_GetPending pg) (CountByStatus ReportStatusPending)"

text \<open>The effect of each action: what happens before the report is written, and the report to write.\<close>

definition resolved :: "uuid \<Rightarrow> string \<Rightarrow> ContentReport \<Rightarrow> (err + ContentReport) prog" where
  "resolved moderatorID action report = do { now \<leftarrow> time_Now; State_Monad.return (Inr (Resolve now moderatorID action report)) }"

definition review_delete_video :: "UploadService option \<Rightarrow> uuid \<Rightarrow> ContentReport \<Rightarrow> (err + ContentReport) prog" where
  "review_delete_video files moderatorID report = (case r_VideoID report of
     None \<Rightarrow> resolved moderatorID ''delete_video'' report
   | Some v \<Rightarrow> try_then (VideoRepo_GetByID v) (\<lambda>video. try_then (VideoRepo_Delete v) (\<lambda>_. do {
       (case files of None \<Rightarrow> State_Monad.return () | Some S \<Rightarrow> RemoveVideoFiles S video);
       resolved moderatorID ''delete_video'' report
     })))"

definition review_ban_target :: "ContentReport \<Rightarrow> (err + uuid) prog" where
  "review_ban_target report = (case r_UserID report of
     Some u \<Rightarrow> State_Monad.return (Inr u)
   | None \<Rightarrow> (case r_VideoID report of
       Some v \<Rightarrow> try_then (VideoRepo_GetByID v) (\<lambda>video. State_Monad.return (case v_UserID video of
          None \<Rightarrow> Inl ErrInvalidInput | Some u \<Rightarrow> Inr u))
     | None \<Rightarrow> State_Monad.return (Inl ErrMissingReportTarget)))"

definition review_action :: "UploadService option \<Rightarrow> uuid \<Rightarrow> string \<Rightarrow> string \<Rightarrow> ContentReport \<Rightarrow> (err + ContentReport) prog" where
  "review_action files moderatorID action notes report =
     (if action = ''delete_video'' then review_delete_video files moderatorID report
      else if action = ''ban_user'' then
        try_then (review_ban_target report) (\<lambda>u. try_then (UserRepo_BanUser u notes None)
          (\<lambda>_. resolved moderatorID action report))
      else if action = ''warn_user'' then resolved moderatorID action report
      else if action = ''dismiss'' then do { now \<leftarrow> time_Now; State_Monad.return (Inr (Dismiss now moderatorID report)) }
      else State_Monad.return (Inl (ErrOther ''invalid action'')))"

definition ReviewReport :: "UploadService option \<Rightarrow> uuid \<Rightarrow> uuid \<Rightarrow> string \<Rightarrow> string \<Rightarrow> (err + unit) prog" where
  "ReviewReport files reportID moderatorID action notes =
     try_then (ReportRepo_GetByID reportID) (\<lambda>report.
     try_then (review_action files moderatorID action notes report) (\<lambda>report'.
     try_then (ReportRepo_Update report') (\<lambda>_.
       Audit_Log request_values ActionReportReview ''report'' (Some reportID)
         [(''action'', AuditText action), (''notes'', AuditText notes), (''moderator_id'', AuditID moderatorID)])))"

definition Mod_BanUser :: "uuid \<Rightarrow> uuid \<Rightarrow> string \<Rightarrow> duration option \<Rightarrow> (err + unit) prog" where
  "Mod_BanUser userID moderatorID reason dur = do {
     banExpiry \<leftarrow> (case dur of None \<Rightarrow> State_Monad.return None
       | Some d \<Rightarrow> do { now \<leftarrow> time_Now; State_Monad.return (Some (now + d)) });
     try_then (UserRepo_BanUser userID reason banExpiry) (\<lambda>_.
       Audit_Log request_values ActionUserBan ''user'' (Some userID)
         [(''reason'', AuditText reason), (''duration'', AuditDuration dur), (''moderator_id'', AuditID moderatorID)])
   }"

definition Mod_UnbanUser :: "uuid \<Rightarrow> uuid \<Rightarrow> (err + unit) prog" where
  "Mod_UnbanUser userID moderatorID = try_then (UserRepo_UnbanUser userID) (\<lambda>_.
     Audit_Log request_values ActionUserUnban ''user'' (Some userID) [(''moderator_id'', AuditID moderatorID)])"

section \<open>The handlers\<close>

definition reviewActions :: "string list" where
  "reviewActions = [''delete_video'', ''ban_user'', ''warn_user'', ''dismiss'']"

record createReportRequest =
  cr_VideoID :: string
  cr_UserID :: string
  cr_CommentID :: string
  cr_ReportType :: string
  cr_Reason :: string
  cr_Description :: string

datatype moderation_body = ReportBody ContentReport | ReportListBody "ContentReport list"
  | ReviewedBody uuid string | UserMessageBody string uuid

definition respondReportError :: "err \<Rightarrow> moderation_body response" where
  "respondReportError e =
     (if e = ErrDuplicateReport then Error 409 ''DUPLICATE_REPORT'' (Lit ''You have already reported this content'')
      else if e \<in> set [ErrInvalidReportType, ErrMissingReportTarget, ErrMissingReportReason, ErrInvalidInput]
        then Error 400 ''VALIDATION_ERROR'' (ErrText e)
      else InternalError ''Failed to create report'')"

definition Handler_CreateReport :: "uuid_lib \<Rightarrow> request \<Rightarrow> createReportRequest option \<Rightarrow> moderation_body response prog" where
  "Handler_CreateReport lib c body = (case PrincipalFrom c of
     None \<Rightarrow> State_Monad.return (Unauthorized ''Authentication required to report content'')
   | Some p \<Rightarrow> bound body ''report_type and reason are required'' (\<lambda>req. do {
       i \<leftarrow> uuid_New; t1 \<leftarrow> time_Now; t2 \<leftarrow> time_Now;
       optionalUUID lib (cr_VideoID req) ''video_id'' (\<lambda>video.
       optionalUUID lib (cr_UserID req) ''user_id'' (\<lambda>user.
       optionalUUID lib (cr_CommentID req) ''comment_id'' (\<lambda>comment.
         let report = \<lparr> r_ID = i, r_VideoID = video, r_UserID = user, r_CommentID = comment, r_ReporterID = pr_UserID p,
               r_ReportType = report_type_of (TrimSpace (cr_ReportType req)), r_Reason = TrimSpace (cr_Reason req),
               r_Description = TrimSpace (cr_Description req), r_Status = ReportStatusPending, r_ReviewedBy = None,
               r_ReviewedAt = None, r_Action = None, r_CreatedAt = t1, r_UpdatedAt = t2 \<rparr>
         in answer (CreateReport report) respondReportError (\<lambda>_. Success 201 (ReportBody report)))))
     }))"

definition ListPendingReports :: "request \<Rightarrow> moderation_body response prog" where
  "ListPendingReports c = (let page = parsePage c in
     answer_page (GetPendingReports page) page (\<lambda>e. InternalError ''Failed to retrieve pending reports'') ReportListBody)"

definition respondReviewError :: "err \<Rightarrow> moderation_body response" where
  "respondReviewError e =
     (if e = ErrReportNotFound then NotFound ''Report not found''
      else if e = ErrVideoNotFound then NotFound ''The reported video no longer exists''
      else if e = ErrUserNotFound then NotFound ''The reported user no longer exists''
      else if e = ErrMissingReportTarget \<or> e = ErrInvalidInput then Error 400 ''VALIDATION_ERROR'' (ErrText e)
      else InternalError ''Failed to review report'')"

definition Handler_ReviewReport :: "uuid_lib \<Rightarrow> UploadService option \<Rightarrow> request \<Rightarrow> (string \<times> string) option \<Rightarrow> moderation_body response prog" where
  "Handler_ReviewReport lib files c body = pathUUID lib c ''id'' ''report ID'' (\<lambda>reportID.
     requirePrincipal c (\<lambda>p. bound body ''action is required'' (\<lambda>(rawAction, notes).
       let action = TrimSpace rawAction in
       if action \<notin> set reviewActions
       then State_Monad.return (ValidationError ''action must be one of: delete_video, ban_user, warn_user, dismiss'')
       else if action = ''ban_user'' \<and> \<not> Principal_HasPermission p PermissionManageUsers
       then State_Monad.return (forbidden ''Banning a user requires the manage_users permission'')
       else answer (ReviewReport files reportID (pr_UserID p) action (TrimSpace notes)) respondReviewError
         (\<lambda>_. Success 200 (ReviewedBody reportID action)))))"

definition Handler_BanUser :: "uuid_lib \<Rightarrow> request \<Rightarrow> (string \<times> string) option \<Rightarrow> moderation_body response prog" where
  "Handler_BanUser lib c body = pathUUID lib c ''id'' ''user ID'' (\<lambda>userID.
     requirePrincipal c (\<lambda>p. bound body ''reason is required'' (\<lambda>(reason, rawDuration).
       if userID = pr_UserID p then State_Monad.return (ValidationError ''You cannot ban yourself'')
       else let raw = TrimSpace rawDuration;
                ban = (\<lambda>dur. answer (Mod_BanUser userID (pr_UserID p) (TrimSpace reason) dur)
                  (\<lambda>e. if e = ErrUserNotFound then NotFound ''User not found'' else InternalError ''Failed to ban user'')
                  (\<lambda>_. Success 200 (UserMessageBody ''User banned'' userID)))
            in if raw = '''' then ban None
               else (case ParseDuration raw of
                 None \<Rightarrow> State_Monad.return (ValidationError ''duration must be a positive Go duration such as 72h'')
               | Some d \<Rightarrow> if d \<le> 0
                   then State_Monad.return (ValidationError ''duration must be a positive Go duration such as 72h'')
                   else ban (Some d)))))"

definition Handler_UnbanUser :: "uuid_lib \<Rightarrow> request \<Rightarrow> moderation_body response prog" where
  "Handler_UnbanUser lib c = pathUUID lib c ''id'' ''user ID'' (\<lambda>userID. requirePrincipal c (\<lambda>p.
     answer (Mod_UnbanUser userID (pr_UserID p))
       (\<lambda>e. if e = ErrUserNotFound then NotFound ''User not found'' else InternalError ''Failed to unban user'')
       (\<lambda>_. Success 200 (UserMessageBody ''User unbanned'' userID))))"

end
