(* ===== verification/TableInv.thy ===== *)
theory TableInv
  imports SocialInv UserRepo Views Moderation Samples
begin

text \<open>
  The invariant of the whole schema under any interleaving of statements: the primary keys and
  unique columns are unique, the foreign keys resolve, and the denormalised counters are exact.
  \<^verbatim>\<open>SocialInv\<close> has the part the counters need; here are the remaining keys and references and the
  statements on accounts, views, watch history, reports and the audit log.
\<close>

section \<open>The remaining keys and references\<close>

definition unique_ok :: "db \<Rightarrow> bool" where
  "unique_ok d = (users_unique d \<and> distinct (map l_ID (db_likes d)) \<and> distinct (map s_ID (db_subscriptions d))
     \<and> distinct (map pv_ID (db_playlist_videos d))
     \<and> distinct (map watch_later_key (db_watch_later d)) \<and> distinct (map wl_ID (db_watch_later d))
     \<and> distinct (map (\<lambda>h. (wh_UserID h, wh_VideoID h)) (db_watch_history d)) \<and> distinct (map wh_ID (db_watch_history d))
     \<and> distinct (map n_ID (db_notifications d)) \<and> distinct (map vr_ID (db_video_views d))
     \<and> distinct (map r_ID (db_reports d)) \<and> distinct (map al_ID (db_audit_logs d)))"

text \<open>Foreign keys to users, to videos and to comments; an optional one may be NULL.\<close>

definition users_linked :: "db \<Rightarrow> bool" where
  "users_linked d = (let us = u_ID ` set (db_users d) in
     l_UserID ` set (db_likes d) \<subseteq> us \<and> c_UserID ` set (db_comments d) \<subseteq> us
     \<and> s_SubscriberID ` set (db_subscriptions d) \<subseteq> us \<and> p_UserID ` set (db_playlists d) \<subseteq> us
     \<and> wl_UserID ` set (db_watch_later d) \<subseteq> us \<and> wh_UserID ` set (db_watch_history d) \<subseteq> us
     \<and> n_UserID ` set (db_notifications d) \<subseteq> us \<and> n_ActorID ` set (db_notifications d) \<subseteq> insert None (Some ` us)
     \<and> v_UserID ` set (db_videos d) \<subseteq> insert None (Some ` us) \<and> vr_UserID ` set (db_video_views d) \<subseteq> insert None (Some ` us)
     \<and> r_ReporterID ` set (db_reports d) \<subseteq> us \<and> r_UserID ` set (db_reports d) \<subseteq> insert None (Some ` us)
     \<and> r_ReviewedBy ` set (db_reports d) \<subseteq> insert None (Some ` us)
     \<and> al_UserID ` set (db_audit_logs d) \<subseteq> insert None (Some ` us)
     \<and> u_BannedBy ` set (db_users d) \<subseteq> insert None (Some ` us))"

definition content_linked :: "db \<Rightarrow> bool" where
  "content_linked d = (let vs = v_ID ` set (db_videos d); cs = c_ID ` set (db_comments d) in
     wl_VideoID ` set (db_watch_later d) \<subseteq> vs \<and> wh_VideoID ` set (db_watch_history d) \<subseteq> vs
     \<and> vr_VideoID ` set (db_video_views d) \<subseteq> vs \<and> n_VideoID ` set (db_notifications d) \<subseteq> insert None (Some ` vs)
     \<and> r_VideoID ` set (db_reports d) \<subseteq> insert None (Some ` vs)
     \<and> n_CommentID ` set (db_notifications d) \<subseteq> insert None (Some ` cs))"

definition rest_ok :: "db \<Rightarrow> bool" where
  "rest_ok d = (unique_ok d \<and> users_linked d \<and> content_linked d)"

definition tables_ok :: "db \<Rightarrow> bool" where
  "tables_ok d = (social_ok d \<and> rest_ok d)"

lemmas rest_defs = rest_ok_def unique_ok_def users_unique_def users_linked_def content_linked_def Let_def

lemma rest_bump [simp]:
  "rest_ok (bump_like_count t k n d) = rest_ok d" "rest_ok (bump_comment_count t k n d) = rest_ok d"
  "rest_ok (bump_reply_count t k n d) = rest_ok d" "rest_ok (bump_subscriber_count t k n d) = rest_ok d"
  "rest_ok (bump_video_count t k n d) = rest_ok d"
  by (simp_all add: rest_defs bump_defs map_modify image_modify)

text \<open>A table can be replaced by one that keeps what is asked of it.\<close>

lemma rest_frames:
  assumes "rest_ok d"
  shows "l_UserID ` set ls \<subseteq> u_ID ` set (db_users d) \<Longrightarrow> distinct (map l_ID ls) \<Longrightarrow> rest_ok (d\<lparr> db_likes := ls \<rparr>)"
    and "s_SubscriberID ` set ss \<subseteq> u_ID ` set (db_users d) \<Longrightarrow> distinct (map s_ID ss) \<Longrightarrow> rest_ok (d\<lparr> db_subscriptions := ss \<rparr>)"
    and "p_UserID ` set ps \<subseteq> u_ID ` set (db_users d) \<Longrightarrow> rest_ok (d\<lparr> db_playlists := ps \<rparr>)"
    and "distinct (map pv_ID pvs) \<Longrightarrow> rest_ok (d\<lparr> db_playlist_videos := pvs \<rparr>)"
    and "wl_UserID ` set xs \<subseteq> u_ID ` set (db_users d) \<Longrightarrow> wl_VideoID ` set xs \<subseteq> v_ID ` set (db_videos d)
      \<Longrightarrow> distinct (map watch_later_key xs) \<Longrightarrow> distinct (map wl_ID xs) \<Longrightarrow> rest_ok (d\<lparr> db_watch_later := xs \<rparr>)"
    and "wh_UserID ` set hs \<subseteq> u_ID ` set (db_users d) \<Longrightarrow> wh_VideoID ` set hs \<subseteq> v_ID ` set (db_videos d)
      \<Longrightarrow> distinct (map (\<lambda>h. (wh_UserID h, wh_VideoID h)) hs) \<Longrightarrow> distinct (map wh_ID hs) \<Longrightarrow> rest_ok (d\<lparr> db_watch_history := hs \<rparr>)"
    and "n_UserID ` set ns \<subseteq> u_ID ` set (db_users d) \<Longrightarrow> n_ActorID ` set ns \<subseteq> insert None (Some ` u_ID ` set (db_users d))
      \<Longrightarrow> n_VideoID ` set ns \<subseteq> insert None (Some ` v_ID ` set (db_videos d))
      \<Longrightarrow> n_CommentID ` set ns \<subseteq> insert None (Some ` c_ID ` set (db_comments d)) \<Longrightarrow> distinct (map n_ID ns)
      \<Longrightarrow> rest_ok (d\<lparr> db_notifications := ns \<rparr>)"
    and "vr_VideoID ` set rs \<subseteq> v_ID ` set (db_videos d) \<Longrightarrow> vr_UserID ` set rs \<subseteq> insert None (Some ` u_ID ` set (db_users d))
      \<Longrightarrow> distinct (map vr_ID rs) \<Longrightarrow> rest_ok (d\<lparr> db_video_views := rs \<rparr>)"
    and "r_ReporterID ` set qs \<subseteq> u_ID ` set (db_users d) \<Longrightarrow> r_UserID ` set qs \<subseteq> insert None (Some ` u_ID ` set (db_users d))
      \<Longrightarrow> r_ReviewedBy ` set qs \<subseteq> insert None (Some ` u_ID ` set (db_users d))
      \<Longrightarrow> r_VideoID ` set qs \<subseteq> insert None (Some ` v_ID ` set (db_videos d)) \<Longrightarrow> distinct (map r_ID qs)
      \<Longrightarrow> rest_ok (d\<lparr> db_reports := qs \<rparr>)"
    and "al_UserID ` set as \<subseteq> insert None (Some ` u_ID ` set (db_users d)) \<Longrightarrow> distinct (map al_ID as)
      \<Longrightarrow> rest_ok (d\<lparr> db_audit_logs := as \<rparr>)"
  using assms by (simp_all add: rest_defs)

lemma rest_subset_trans: "A \<subseteq> insert None (Some ` B) \<Longrightarrow> B \<subseteq> C \<Longrightarrow> A \<subseteq> insert None (Some ` C)"
  by blast

lemma rest_comments:
  assumes "rest_ok d" "c_UserID ` set cs \<subseteq> u_ID ` set (db_users d)" "c_ID ` set (db_comments d) \<subseteq> c_ID ` set cs"
  shows "rest_ok (d\<lparr> db_comments := cs \<rparr>)"
  using assms(1,2) rest_subset_trans[OF _ assms(3), of "n_CommentID ` set (db_notifications d)"] by (simp add: rest_defs)

lemma rest_videos:
  assumes "rest_ok d" "v_UserID ` set vs \<subseteq> insert None (Some ` u_ID ` set (db_users d))" "v_ID ` set (db_videos d) \<subseteq> v_ID ` set vs"
  shows "rest_ok (d\<lparr> db_videos := vs \<rparr>)"
  using assms(1,2) rest_subset_trans[OF _ assms(3), of "n_VideoID ` set (db_notifications d)"]
    rest_subset_trans[OF _ assms(3), of "r_VideoID ` set (db_reports d)"] subset_trans[OF _ assms(3)]
  by (simp add: rest_defs)

lemma rest_users:
  assumes "rest_ok d" "users_unique (d\<lparr> db_users := us \<rparr>)" "u_ID ` set (db_users d) \<subseteq> u_ID ` set us"
    and "u_BannedBy ` set us \<subseteq> insert None (Some ` u_ID ` set us)"
  shows "rest_ok (d\<lparr> db_users := us \<rparr>)"
  using assms(1,2,4) rest_subset_trans[OF _ assms(3)] subset_trans[OF _ assms(3)] by (simp add: rest_defs)

text \<open>Adding a row, and dropping rows of a table nothing refers to.\<close>

lemma rest_add:
  assumes "rest_ok d"
  shows "l_UserID l \<in> u_ID ` set (db_users d) \<Longrightarrow> l_ID l \<notin> l_ID ` set (db_likes d) \<Longrightarrow> rest_ok (d\<lparr> db_likes := db_likes d @ [l] \<rparr>)"
    and "s_SubscriberID s \<in> u_ID ` set (db_users d) \<Longrightarrow> s_ID s \<notin> s_ID ` set (db_subscriptions d)
      \<Longrightarrow> rest_ok (d\<lparr> db_subscriptions := db_subscriptions d @ [s] \<rparr>)"
    and "p_UserID p \<in> u_ID ` set (db_users d) \<Longrightarrow> rest_ok (d\<lparr> db_playlists := db_playlists d @ [p] \<rparr>)"
    and "pv_ID pv \<notin> pv_ID ` set (db_playlist_videos d) \<Longrightarrow> rest_ok (d\<lparr> db_playlist_videos := db_playlist_videos d @ [pv] \<rparr>)"
    and "wl_UserID x \<in> u_ID ` set (db_users d) \<Longrightarrow> wl_VideoID x \<in> v_ID ` set (db_videos d)
      \<Longrightarrow> watch_later_key x \<notin> watch_later_key ` set (db_watch_later d) \<Longrightarrow> wl_ID x \<notin> wl_ID ` set (db_watch_later d)
      \<Longrightarrow> rest_ok (d\<lparr> db_watch_later := db_watch_later d @ [x] \<rparr>)"
    and "wh_UserID h \<in> u_ID ` set (db_users d) \<Longrightarrow> wh_VideoID h \<in> v_ID ` set (db_videos d)
      \<Longrightarrow> (wh_UserID h, wh_VideoID h) \<notin> (\<lambda>h. (wh_UserID h, wh_VideoID h)) ` set (db_watch_history d)
      \<Longrightarrow> wh_ID h \<notin> wh_ID ` set (db_watch_history d) \<Longrightarrow> rest_ok (d\<lparr> db_watch_history := db_watch_history d @ [h] \<rparr>)"
    and "n_UserID n \<in> u_ID ` set (db_users d) \<Longrightarrow> n_ActorID n \<in> insert None (Some ` u_ID ` set (db_users d))
      \<Longrightarrow> n_VideoID n \<in> insert None (Some ` v_ID ` set (db_videos d)) \<Longrightarrow> n_CommentID n \<in> insert None (Some ` c_ID ` set (db_comments d))
      \<Longrightarrow> n_ID n \<notin> n_ID ` set (db_notifications d) \<Longrightarrow> rest_ok (d\<lparr> db_notifications := db_notifications d @ [n] \<rparr>)"
    and "vr_VideoID r \<in> v_ID ` set (db_videos d) \<Longrightarrow> vr_UserID r \<in> insert None (Some ` u_ID ` set (db_users d))
      \<Longrightarrow> vr_ID r \<notin> vr_ID ` set (db_video_views d) \<Longrightarrow> rest_ok (d\<lparr> db_video_views := db_video_views d @ [r] \<rparr>)"
    and "r_ReporterID q \<in> u_ID ` set (db_users d) \<Longrightarrow> r_UserID q \<in> insert None (Some ` u_ID ` set (db_users d))
      \<Longrightarrow> r_ReviewedBy q \<in> insert None (Some ` u_ID ` set (db_users d)) \<Longrightarrow> r_VideoID q \<in> insert None (Some ` v_ID ` set (db_videos d))
      \<Longrightarrow> r_ID q \<notin> r_ID ` set (db_reports d) \<Longrightarrow> rest_ok (d\<lparr> db_reports := db_reports d @ [q] \<rparr>)"
    and "al_UserID a \<in> insert None (Some ` u_ID ` set (db_users d)) \<Longrightarrow> al_ID a \<notin> al_ID ` set (db_audit_logs d)
      \<Longrightarrow> rest_ok (d\<lparr> db_audit_logs := db_audit_logs d @ [a] \<rparr>)"
  using assms by (simp_all add: rest_frames rest_defs)

lemma rest_add_comment:
  "rest_ok d \<Longrightarrow> c_UserID c \<in> u_ID ` set (db_users d) \<Longrightarrow> rest_ok (d\<lparr> db_comments := db_comments d @ [c] \<rparr>)"
  by (rule rest_comments) (simp_all add: rest_defs subset_insertI)

lemma rest_add_video:
  "rest_ok d \<Longrightarrow> v_UserID v \<in> insert None (Some ` u_ID ` set (db_users d)) \<Longrightarrow> rest_ok (d\<lparr> db_videos := db_videos d @ [v] \<rparr>)"
  by (rule rest_videos) (simp_all add: rest_defs subset_insertI)

lemma image_delete: "g ` set rows \<subseteq> B \<Longrightarrow> g ` set (delete_rows p rows) \<subseteq> B"
  by auto

lemma rest_drop:
  assumes "rest_ok d"
  shows "rest_ok (d\<lparr> db_likes := delete_rows pl (db_likes d) \<rparr>)"
    and "rest_ok (d\<lparr> db_subscriptions := delete_rows ps (db_subscriptions d) \<rparr>)"
    and "rest_ok (d\<lparr> db_playlists := delete_rows pp (db_playlists d) \<rparr>)"
    and "rest_ok (d\<lparr> db_playlist_videos := delete_rows pv (db_playlist_videos d) \<rparr>)"
    and "rest_ok (d\<lparr> db_watch_later := delete_rows pw (db_watch_later d) \<rparr>)"
    and "rest_ok (d\<lparr> db_watch_history := delete_rows ph (db_watch_history d) \<rparr>)"
    and "rest_ok (d\<lparr> db_notifications := delete_rows pn (db_notifications d) \<rparr>)"
    and "rest_ok (d\<lparr> db_video_views := delete_rows pvr (db_video_views d) \<rparr>)"
    and "rest_ok (d\<lparr> db_reports := delete_rows pr (db_reports d) \<rparr>)"
  using assms by (simp_all add: rest_frames distinct_map_delete image_delete rest_defs del: set_delete_rows)

lemma list_ex_key: "list_ex (\<lambda>r. g r = k) rows = (k \<in> g ` set rows)"
  by (auto simp: list_ex_iff)

section \<open>From a statement to the program that runs it\<close>

text \<open>What a program keeps, the statement it runs keeps: take a world in which it gets through.\<close>

definition quiet_world :: "time \<Rightarrow> db \<Rightarrow> world" where
  "quiet_world t d = (calm_world d)\<lparr> w_env := (w_env (calm_world d))\<lparr> clock_at := (\<lambda>_. t) \<rparr> \<rparr>"

lemma steps_stmtD:
  assumes "steps (on_db r) (run_stmt msg stmt)" "stmt t d = Inr (x, d')"
  shows "r d d'"
  using stepsD[OF assms(1), of "quiet_world t d"] assms(2)
  by (simp add: run_stmt_def on_db_def quiet_world_def calm_world_def calm_env_def)

lemma steps_rowsD:
  assumes "steps (on_db r) (rows_or missing (run_stmt msg stmt))" "stmt t d = Inr (x, d')"
  shows "r d d'"
  using stepsD[OF assms(1), of "quiet_world t d"] assms(2)
  by (simp add: rows_or_def run_stmt_def on_db_def quiet_world_def calm_world_def calm_env_def split: if_splits)

lemma tables_stmt:
  assumes "steps (on_db (keeping social_ok)) (run_stmt msg stmt)"
    and "\<And>t d x d'. stmt t d = Inr (x, d') \<Longrightarrow> social_ok d \<Longrightarrow> rest_ok d \<Longrightarrow> rest_ok d'"
  shows "steps (on_db (keeping tables_ok)) (run_stmt msg stmt)"
proof (intro steps_run_stmt preorder_keeping impI)
  fix t x and d d' :: db
  assume "stmt t d = Inr (x, d')" "tables_ok d"
  then show "tables_ok d'" using steps_stmtD[OF assms(1)] assms(2) by (auto simp: tables_ok_def)
qed

lemma tables_rows:
  assumes "steps (on_db (keeping social_ok)) (rows_or missing (run_stmt msg stmt))"
    and "\<And>t d x d'. stmt t d = Inr (x, d') \<Longrightarrow> social_ok d \<Longrightarrow> rest_ok d \<Longrightarrow> rest_ok d'"
  shows "steps (on_db (keeping tables_ok)) (rows_or missing (run_stmt msg stmt))"
proof (intro steps_rows_or steps_run_stmt preorder_on_db preorder_keeping impI)
  fix t x and d d' :: db
  assume "stmt t d = Inr (x, d')" "tables_ok d"
  then show "tables_ok d'" using steps_rowsD[OF assms(1)] assms(2) by (auto simp: tables_ok_def)
qed


section \<open>Likes, comments, subscriptions\<close>

text \<open>Replacing the rows of one key by one row of that key.\<close>

lemma image_modify_const:
  "lookup key k rows \<noteq> None \<Longrightarrow> key new = k \<Longrightarrow> key ` set (modify key k (\<lambda>_. new) rows) = key ` set rows"
  using map_modify_const[of key new k rows] by (metis set_map)

lemma image_replaced:
  "lookup key k rows = Some old \<Longrightarrow> g new = g old \<Longrightarrow> g ` set (modify key k (\<lambda>_. new) rows) \<subseteq> g ` set rows"
  using lookup_mem[of key k rows old] by (auto simp: set_modify)

lemma distinct_replaced:
  assumes "distinct (map key rows)" "lookup key k rows = Some old" "g new = g old" "distinct (map g rows)"
  shows "distinct (map g (modify key k (\<lambda>_. new) rows))"
proof -
  have "map g (modify key k (\<lambda>_. new) rows) = map g rows" using assms(1,2)
  proof (induction rows)
    case (Cons r rs)
    have "modify key (key r) (\<lambda>_. new) rs = rs" using Cons.prems(1) by (intro modify_id) (auto simp: lookup_None)
    then show ?case using Cons assms(3) by (auto split: if_splits)
  qed simp
  then show ?thesis using assms(4) by simp
qed

lemma rest_trigger [simp]:
  "rest_ok (like_inserted t l d) = rest_ok d" "rest_ok (like_updated t old new d) = rest_ok d"
  "rest_ok (like_deleted t l d) = rest_ok d" "rest_ok (comment_inserted t c d) = rest_ok d"
  "rest_ok (comment_updated t c c' d) = rest_ok d" "rest_ok (comment_deleted t c d) = rest_ok d"
  "rest_ok (subscription_inserted t s d) = rest_ok d" "rest_ok (subscription_deleted t s d) = rest_ok d"
  "rest_ok (playlist_video_inserted t pv d) = rest_ok d" "rest_ok (playlist_video_deleted t pv d) = rest_ok d"
  by (simp_all add: trigger_defs split: option.split)

lemma rest_users_of:
  assumes "rest_ok d"
  shows "l_UserID ` set (db_likes d) \<subseteq> u_ID ` set (db_users d)" "c_UserID ` set (db_comments d) \<subseteq> u_ID ` set (db_users d)"
  using assms by (simp_all add: rest_defs)

lemma tables_UpsertLike: "steps (on_db (keeping tables_ok)) (UpsertLike like)"
  unfolding UpsertLike_def
proof (rule tables_stmt[OF social_UpsertLike[unfolded UpsertLike_def]])
  fix t x and d d' :: db
  assume s: "(case lookup like_key (like_key like) (db_likes d) of
       Some old \<Rightarrow> let new = old\<lparr> l_IsLike := l_IsLike like \<rparr> in
         Inr (like\<lparr> l_ID := l_ID old, l_CreatedAt := l_CreatedAt old \<rparr>,
              like_updated t old new (d\<lparr> db_likes := modify like_key (like_key like) (\<lambda>_. new) (db_likes d) \<rparr>))
     | None \<Rightarrow>
         if list_ex (\<lambda>l. l_ID l = l_ID like) (db_likes d) then Inl (ErrOther ''duplicate key value'')
         else if \<not> user_exists d (l_UserID like) \<or> \<not> video_exists d (l_VideoID like)
           then Inl (ErrOther ''foreign key violation'')
         else Inr (like, like_inserted t like (d\<lparr> db_likes := db_likes d @ [like] \<rparr>))) = Inr (x, d')"
    and ok: "social_ok d" "rest_ok d"
  have keys: "distinct (map like_key (db_likes d))" "distinct (map l_ID (db_likes d))"
    using ok by (simp_all add: social_ok_def keys_ok_def rest_defs)
  show "rest_ok d'"
  proof (cases "lookup like_key (like_key like) (db_likes d)")
    case None
    then show ?thesis using s ok(2) by (auto simp: list_ex_key exists_iff intro!: rest_add(1) split: if_splits)
  next
    case (Some old)
    have "l_UserID ` set (modify like_key (like_key like) (\<lambda>_. old\<lparr> l_IsLike := l_IsLike like \<rparr>) (db_likes d)) \<subseteq> u_ID ` set (db_users d)"
      using image_replaced[OF Some, of l_UserID] rest_users_of(1)[OF ok(2)] by (intro subset_trans[OF image_replaced[OF Some]]) simp_all
    then show ?thesis using s Some ok(2) distinct_replaced[OF keys(1) Some _ keys(2)]
      by (auto simp: Let_def intro!: rest_frames(1))
  qed
qed

lemma tables_DeleteLike: "steps (on_db (keeping tables_ok)) (DeleteLike u v)"
  unfolding DeleteLike_def
  by (rule tables_rows[OF social_DeleteLike[unfolded DeleteLike_def]])
     (auto simp: delete_keyed_def remove_def rest_drop split: option.splits)

lemma tables_CreateComment: "steps (on_db (keeping tables_ok)) (SocialRepo_CreateComment c)"
  unfolding SocialRepo_CreateComment_def
  by (rule tables_stmt[OF social_CreateComment[unfolded SocialRepo_CreateComment_def]])
     (auto simp: exists_iff comment_row_def intro!: rest_add_comment split: if_splits)

lemma rest_replaced_comment:
  assumes "rest_ok d" "live_comment d i = Some c" "c_ID new = c_ID c" "c_UserID new = c_UserID c"
  shows "rest_ok (d\<lparr> db_comments := modify c_ID i (\<lambda>_. new) (db_comments d) \<rparr>)"
proof -
  have l: "lookup c_ID i (db_comments d) = Some c" using live_comment_Some[OF assms(2)] by simp
  have "c_ID new = i" using lookup_key[OF l] assms(3) by simp
  then have "c_ID ` set (modify c_ID i (\<lambda>_. new) (db_comments d)) = c_ID ` set (db_comments d)"
    using l by (intro image_modify_const) simp_all
  then show ?thesis
    using image_replaced[OF l assms(4)] rest_users_of(2)[OF assms(1)] by (intro rest_comments assms(1)) auto
qed

lemma tables_UpdateCommentContent: "steps (on_db (keeping tables_ok)) (UpdateCommentContent i content)"
  unfolding UpdateCommentContent_def
  by (rule tables_rows[OF social_UpdateCommentContent[unfolded UpdateCommentContent_def]])
     (auto simp: Let_def intro!: rest_replaced_comment split: option.splits if_splits)

lemma tables_SoftDeleteComment: "steps (on_db (keeping tables_ok)) (SoftDeleteComment i)"
  unfolding SoftDeleteComment_def
  by (rule tables_rows[OF social_SoftDeleteComment[unfolded SoftDeleteComment_def]])
     (auto simp: Let_def intro!: rest_replaced_comment split: option.splits if_splits)

lemma tables_CreateSubscription: "steps (on_db (keeping tables_ok)) (CreateSubscription s)"
  unfolding CreateSubscription_def
  by (rule tables_stmt[OF social_CreateSubscription[unfolded CreateSubscription_def]])
     (auto simp: exists_iff list_ex_key intro!: rest_add(2) split: if_splits)

lemma tables_DeleteSubscription: "steps (on_db (keeping tables_ok)) (DeleteSubscription a b)"
  unfolding DeleteSubscription_def
  by (rule tables_rows[OF social_DeleteSubscription[unfolded DeleteSubscription_def]])
     (auto simp: delete_keyed_def remove_def rest_drop split: option.splits)


section \<open>Playlists, watch later, notifications\<close>

lemma tables_CreatePlaylist: "steps (on_db (keeping tables_ok)) (SocialRepo_CreatePlaylist p)"
  unfolding SocialRepo_CreatePlaylist_def
  by (rule tables_stmt[OF social_CreatePlaylist[unfolded SocialRepo_CreatePlaylist_def]])
     (auto simp: exists_iff playlist_row_def intro!: rest_add(3) split: if_splits)

lemma rest_same_playlists:
  "rest_ok d \<Longrightarrow> (\<And>p. p_UserID (f p) = p_UserID p) \<Longrightarrow> rest_ok (d\<lparr> db_playlists := modify p_ID i f (db_playlists d) \<rparr>)"
  by (rule rest_frames(3)) (simp_all add: image_modify rest_defs)

lemma tables_UpdatePlaylist: "steps (on_db (keeping tables_ok)) (SocialRepo_UpdatePlaylist p)"
  unfolding SocialRepo_UpdatePlaylist_def
  by (rule tables_rows[OF social_UpdatePlaylist[unfolded SocialRepo_UpdatePlaylist_def]])
     (auto intro!: rest_same_playlists split: if_splits)

lemma fold_rest:
  assumes "\<And>x d. rest_ok (f x d) = rest_ok d" shows "rest_ok (fold f xs d) = rest_ok d"
  by (induction xs arbitrary: d) (simp_all add: assms)

lemma tables_DeletePlaylist: "steps (on_db (keeping tables_ok)) (SocialRepo_DeletePlaylist i)"
  unfolding SocialRepo_DeletePlaylist_def
proof (rule tables_rows[OF social_DeletePlaylist[unfolded SocialRepo_DeletePlaylist_def]])
  fix t x and d d' :: db
  assume "(if playlist_exists d i then Inr (1, drop_playlist t i d) else Inr (0, d)) = (Inr (x, d') :: err + nat \<times> db)" "rest_ok d"
  then show "rest_ok d'"
    using rest_drop(4)[OF rest_drop(3)[OF \<open>rest_ok d\<close>]]
    by (auto simp: drop_playlist_def Let_def fold_rest remove_def split: if_splits)
qed

lemma rest_insert_playlist_video:
  "insert_playlist_video t i pl vid d = Inr (x, d') \<Longrightarrow> rest_ok d \<Longrightarrow> rest_ok d'"
  by (auto simp: insert_playlist_video_def Let_def list_ex_key intro!: rest_add(4) split: if_splits)

lemma tables_AddPlaylistVideo: "steps (on_db (keeping tables_ok)) (SocialRepo_AddPlaylistVideo pl vid)"
  unfolding SocialRepo_AddPlaylistVideo_def
  by (intro steps_intros steps_run_stmt preorder_on_db preorder_keeping impI)
     (auto simp: tables_ok_def intro: social_insert_playlist_video rest_insert_playlist_video)

lemma tables_RemovePlaylistVideo: "steps (on_db (keeping tables_ok)) (SocialRepo_RemovePlaylistVideo a b)"
  unfolding SocialRepo_RemovePlaylistVideo_def
  by (rule tables_rows[OF social_RemovePlaylistVideo[unfolded SocialRepo_RemovePlaylistVideo_def]])
     (auto simp: delete_keyed_def remove_def rest_drop split: option.splits)

lemma tables_UpsertWatchLater: "steps (on_db (keeping tables_ok)) (UpsertWatchLater x)"
  unfolding UpsertWatchLater_def
  by (rule tables_stmt[OF social_UpsertWatchLater[unfolded UpsertWatchLater_def]])
     (auto simp: exists_iff list_ex_key lookup_None intro!: rest_add(5) split: if_splits)

lemma tables_DeleteWatchLater: "steps (on_db (keeping tables_ok)) (DeleteWatchLater a b)"
  unfolding DeleteWatchLater_def
  by (rule tables_rows[OF social_DeleteWatchLater[unfolded DeleteWatchLater_def]])
     (auto simp: delete_keyed_def remove_def rest_drop split: option.splits)

lemma opt_ok_insert: "opt_ok (\<lambda>i. i \<in> A) x = (x \<in> insert None (Some ` A))"
  by (cases x) (auto simp: opt_ok_def)

lemma tables_CreateNotification: "steps (on_db (keeping tables_ok)) (CreateNotification n)"
  unfolding CreateNotification_def
proof (rule tables_stmt[OF social_CreateNotification[unfolded CreateNotification_def]])
  fix t x and d d' :: db
  assume s: "(if list_ex (\<lambda>m. n_ID m = n_ID n) (db_notifications d) then Inl (ErrOther ''duplicate key value'')
     else if \<not> user_exists d (n_UserID n) \<or> \<not> opt_ok (user_exists d) (n_ActorID n)
       \<or> \<not> opt_ok (video_exists d) (n_VideoID n) \<or> \<not> opt_ok (comment_exists d) (n_CommentID n)
       then Inl (ErrOther ''foreign key violation'')
     else if (case n_Type n of NotificationOther _ \<Rightarrow> True | _ \<Rightarrow> False) \<or> RuneCount (n_Title n) > 255
       then Inl (ErrOther ''invalid value'')
     else Inr ((), d\<lparr> db_notifications := db_notifications d @ [n\<lparr> n_Read := False \<rparr>] \<rparr>)) = Inr (x, d')"
    and ok: "rest_ok d"
  from s have d': "d' = d\<lparr> db_notifications := db_notifications d @ [n\<lparr> n_Read := False \<rparr>] \<rparr>"
    and c: "\<not> list_ex (\<lambda>m. n_ID m = n_ID n) (db_notifications d)" "user_exists d (n_UserID n)"
      "opt_ok (user_exists d) (n_ActorID n)" "opt_ok (video_exists d) (n_VideoID n)" "opt_ok (comment_exists d) (n_CommentID n)"
    by (simp_all split: if_splits)
  from c show "rest_ok d'" unfolding d' exists_iff list_ex_key opt_ok_insert by (intro rest_add(7) ok) simp_all
qed

lemma rest_same_notifications:
  assumes "rest_ok d"
  shows "rest_ok (d\<lparr> db_notifications := update_rows p (\<lambda>n. n\<lparr> n_Read := True \<rparr>) (db_notifications d) \<rparr>)"
proof -
  have same: "map g (update_rows p (\<lambda>n. n\<lparr> n_Read := True \<rparr>) ns) = map g ns" if "\<And>n. g (n\<lparr> n_Read := True \<rparr>) = g n" for g ns
    by (rule map_update_rows) (simp add: that)
  have img: "g ` set (update_rows p (\<lambda>n. n\<lparr> n_Read := True \<rparr>) ns) = g ` set ns" if "\<And>n. g (n\<lparr> n_Read := True \<rparr>) = g n" for g ns
    using same[of g ns, OF that] by (metis set_map)
  show ?thesis
    using assms by (intro rest_frames(7)) (simp_all add: same img rest_defs)
qed

lemma tables_MarkNotificationRead: "steps (on_db (keeping tables_ok)) (SocialRepo_MarkNotificationRead a b)"
  unfolding SocialRepo_MarkNotificationRead_def
  by (rule tables_rows[OF social_MarkNotificationRead[unfolded SocialRepo_MarkNotificationRead_def]])
     (auto intro!: rest_same_notifications)

lemma tables_MarkAllNotificationsRead: "steps (on_db (keeping tables_ok)) (SocialRepo_MarkAllNotificationsRead a)"
  unfolding SocialRepo_MarkAllNotificationsRead_def
  by (rule tables_stmt[OF social_MarkAllNotificationsRead[unfolded SocialRepo_MarkAllNotificationsRead_def]])
     (auto intro!: rest_same_notifications)

section \<open>Accounts\<close>

lemma subset_insert_trans: "A \<subseteq> insert x B \<Longrightarrow> B \<subseteq> insert x C \<Longrightarrow> A \<subseteq> insert x C"
  by blast

lemma rest_update_users:
  assumes "rest_ok d" "users_unique (d\<lparr> db_users := update_rows p f (db_users d) \<rparr>)"
    and "\<And>u. p u \<Longrightarrow> u_ID (f u) = u_ID u" "\<And>u. p u \<Longrightarrow> u_BannedBy (f u) = u_BannedBy u \<or> u_BannedBy (f u) = None"
  shows "rest_ok (d\<lparr> db_users := update_rows p f (db_users d) \<rparr>)"
proof -
  have ids: "u_ID ` set (update_rows p f (db_users d)) = u_ID ` set (db_users d)"
    using map_update_rows[of p u_ID f "db_users d"] assms(3) by (metis set_map)
  have "u_BannedBy ` set (db_users d) \<subseteq> insert None (Some ` u_ID ` set (db_users d))" using assms(1) by (simp add: rest_defs)
  moreover have "u_BannedBy ` set (update_rows p f (db_users d)) \<subseteq> insert None (u_BannedBy ` set (db_users d))"
    using assms(4) by (auto simp: set_update_rows)
  ultimately have "u_BannedBy ` set (update_rows p f (db_users d)) \<subseteq> insert None (Some ` u_ID ` set (db_users d))"
    by (rule subset_insert_trans[rotated])
  then show ?thesis using assms(1,2) ids by (intro rest_users) simp_all
qed

lemma tables_execUser:
  assumes "\<And>t u. u_ID (f t u) = u_ID u" "\<And>t u. u_Username (f t u) = u_Username u" "\<And>t u. u_Email (f t u) = u_Email u"
    and "\<And>t u. u_BannedBy (f t u) = u_BannedBy u \<or> u_BannedBy (f t u) = None"
  shows "steps (on_db (keeping tables_ok)) (execUser f i)"
  unfolding execUser_def
proof (rule tables_rows[OF social_execUser[of f i, OF assms(1), unfolded execUser_def]])
  fix t x and d d' :: db
  assume s: "Inr (update_live i (f t) d) = (Inr (x, d') :: err + nat \<times> db)" and ok: "rest_ok d"
  have "users_unique d'"
    using steps_rowsD[OF unique_execUser[of f i, OF assms(1-3), unfolded execUser_def] s] ok by (simp add: rest_defs)
  moreover have "d' = d\<lparr> db_users := update_rows (\<lambda>u. u_ID u = i \<and> live_user u) (f t) (db_users d) \<rparr>"
    using s by (simp add: update_live_def)
  ultimately show "rest_ok d'" using rest_update_users[OF ok _ assms(1,4)] by simp
qed

lemma tables_user_statements:
  "steps (on_db (keeping tables_ok)) (UserRepo_Delete i)" "steps (on_db (keeping tables_ok)) (UserRepo_BanUser i reason until)"
  "steps (on_db (keeping tables_ok)) (UserRepo_UnbanUser i)"
  unfolding UserRepo_Delete_def UserRepo_BanUser_def UserRepo_UnbanUser_def by (rule tables_execUser; simp)+

lemma tables_UserRepo_Update: "steps (on_db (keeping tables_ok)) (UserRepo_Update user)"
  unfolding UserRepo_Update_def
proof (rule tables_rows[OF social_UserRepo_Update[unfolded UserRepo_Update_def]])
  fix t x and d d' :: db
  assume s: "(if list_ex (\<lambda>u. u_ID u = u_ID user \<and> live_user u) (db_users d)
        \<and> list_ex (\<lambda>u. u_ID u \<noteq> u_ID user \<and> (u_Username u = u_Username user \<or> u_Email u = u_Email user)) (db_users d)
     then Inl ErrUserAlreadyExists
     else Inr (update_live (u_ID user) (user_written t user) d)) = Inr (x, d')" and ok: "rest_ok d"
  have "users_unique d'"
    using steps_rowsD[OF unique_Update[unfolded UserRepo_Update_def] s] ok by (simp add: rest_defs)
  then show "rest_ok d'" using s ok
    by (auto simp: update_live_def user_written_def intro!: rest_update_users split: if_splits)
qed

lemma tables_UserRepo_Create: "steps (on_db (keeping tables_ok)) (UserRepo_Create user)"
  unfolding UserRepo_Create_def
proof (rule tables_stmt[OF social_UserRepo_Create[unfolded UserRepo_Create_def]])
  fix t x and d d' :: db
  assume s: "(if list_ex (\<lambda>u. u_ID u = u_ID user \<or> u_Username u = u_Username user \<or> u_Email u = u_Email user) (db_users d)
     then Inl ErrUserAlreadyExists
     else Inr ((), d\<lparr> db_users := db_users d @ [user_row user],
                     db_subscriber_count := (db_subscriber_count d)(u_ID user := 0) \<rparr>)) = Inr (x, d')" and ok: "rest_ok d"
  have u: "users_unique d'" using steps_stmtD[OF unique_Create[unfolded UserRepo_Create_def] s] ok by (simp add: rest_defs)
  have d': "d' = d\<lparr> db_users := db_users d @ [user_row user], db_subscriber_count := (db_subscriber_count d)(u_ID user := 0) \<rparr>"
    using s by (auto split: if_splits)
  have "u_BannedBy ` set (db_users d) \<subseteq> insert None (Some ` u_ID ` set (db_users d))" using ok by (simp add: rest_defs)
  then have "rest_ok (d\<lparr> db_users := db_users d @ [user_row user] \<rparr>)"
    using ok u by (intro rest_users) (auto simp: d' user_row_def users_unique_def)
  then show "rest_ok d'" by (simp add: d' rest_defs)
qed


section \<open>Videos\<close>

lemma rest_modify_video:
  assumes "rest_ok d" "\<And>v. v_ID (f v) = v_ID v" "\<And>v. v_UserID (f v) = v_UserID v"
  shows "rest_ok (d\<lparr> db_videos := modify v_ID i f (db_videos d) \<rparr>)"
  using assms(1) by (intro rest_videos) (simp_all add: image_modify assms(2,3) rest_defs)

lemma tables_video_exec:
  assumes "\<And>t v. v_ID (f t v) = v_ID v" "\<And>t v. v_UserID (f t v) = v_UserID v"
    "\<And>t v. v_LikeCount (f t v) = v_LikeCount v" "\<And>t v. v_CommentCount (f t v) = v_CommentCount v"
  shows "steps (on_db (keeping tables_ok)) (video_exec f i)"
  unfolding video_exec_def
  by (rule tables_rows[OF social_video_exec[of f i, OF assms(1,3,4), unfolded video_exec_def]])
     (auto intro!: rest_modify_video simp: assms)

lemma tables_video_updates:
  "steps (on_db (keeping tables_ok)) (VideoRepo_UpdateStatus i st)"
  "steps (on_db (keeping tables_ok)) (VideoRepo_UpdateDuration i n)"
  "steps (on_db (keeping tables_ok)) (VideoRepo_UpdateResolution i s)"
  "steps (on_db (keeping tables_ok)) (VideoRepo_UpdateHLSInfo i s b)"
  "steps (on_db (keeping tables_ok)) (VideoRepo_MarkAsReady i qs s)"
  "steps (on_db (keeping tables_ok)) (VideoRepo_MarkAsFailed i)"
  by (simp_all add: VideoRepo_UpdateStatus_def VideoRepo_UpdateDuration_def VideoRepo_UpdateResolution_def
      VideoRepo_UpdateHLSInfo_def VideoRepo_MarkAsReady_def VideoRepo_MarkAsFailed_def tables_video_exec)

lemma tables_UpdateProgress: "steps (on_db (keeping tables_ok)) (VideoRepo_UpdateProgress i n)"
  unfolding VideoRepo_UpdateProgress_def
  by (intro steps_rows_or steps_run_stmt preorder_on_db preorder_keeping impI)
     (auto simp: tables_ok_def intro!: social_modify_video rest_modify_video split: if_splits)

lemma tables_VideoRepo_Create: "steps (on_db (keeping tables_ok)) (VideoRepo_Create v)"
  unfolding VideoRepo_Create_def
  by (rule tables_stmt[OF social_VideoRepo_Create[unfolded VideoRepo_Create_def]])
     (auto simp: exists_iff video_row_def intro!: rest_add_video split: if_splits option.splits)

text \<open>The triggers of deleted comments change no key and no reference.\<close>

lemma fold_comment_shape:
  "\<exists>vs cs. fold (comment_deleted t) gone d = d\<lparr> db_videos := vs, db_comments := cs \<rparr>
     \<and> map v_ID vs = map v_ID (db_videos d) \<and> map v_UserID vs = map v_UserID (db_videos d)
     \<and> map c_ID cs = map c_ID (db_comments d) \<and> map c_UserID cs = map c_UserID (db_comments d)"
proof (induction gone arbitrary: d)
  case Nil
  show ?case by (intro exI[of _ "db_videos d"] exI[of _ "db_comments d"]) simp
next
  case (Cons c gone)
  let ?d = "comment_deleted t c d"
  have "\<exists>vs cs. ?d = d\<lparr> db_videos := vs, db_comments := cs \<rparr>
     \<and> map v_ID vs = map v_ID (db_videos d) \<and> map v_UserID vs = map v_UserID (db_videos d)
     \<and> map c_ID cs = map c_ID (db_comments d) \<and> map c_UserID cs = map c_UserID (db_comments d)"
  proof (cases "c_DeletedAt c")
    case None
    let ?vs = "modify v_ID (c_VideoID c) (\<lambda>v. v\<lparr> v_CommentCount := v_CommentCount v + - 1, v_UpdatedAt := t \<rparr>) (db_videos d)"
    show ?thesis
    proof (cases "c_ParentID c")
      case None': None
      show ?thesis
        by (intro exI[of _ ?vs] exI[of _ "db_comments d"])
           (simp add: comment_deleted_def None None' bump_parent_def bump_comment_count_def map_modify)
    next
      case (Some p)
      show ?thesis
        by (intro exI[of _ ?vs] exI[of _ "modify c_ID p (\<lambda>c. c\<lparr> c_ReplyCount := c_ReplyCount c + - 1, c_UpdatedAt := t \<rparr>) (db_comments d)"])
           (simp add: comment_deleted_def None Some bump_parent_def bump_comment_count_def bump_reply_count_def map_modify)
    qed
  next
    case (Some x)
    then show ?thesis by (intro exI[of _ "db_videos d"] exI[of _ "db_comments d"]) (simp add: comment_deleted_def)
  qed
  then obtain vs cs where 1: "?d = d\<lparr> db_videos := vs, db_comments := cs \<rparr>"
     "map v_ID vs = map v_ID (db_videos d)" "map v_UserID vs = map v_UserID (db_videos d)"
     "map c_ID cs = map c_ID (db_comments d)" "map c_UserID cs = map c_UserID (db_comments d)" by blast
  from Cons[of ?d] obtain vs' cs' where "fold (comment_deleted t) gone ?d = ?d\<lparr> db_videos := vs', db_comments := cs' \<rparr>"
     "map v_ID vs' = map v_ID (db_videos ?d)" "map v_UserID vs' = map v_UserID (db_videos ?d)"
     "map c_ID cs' = map c_ID (db_comments ?d)" "map c_UserID cs' = map c_UserID (db_comments ?d)" by blast
  with 1 show ?case by (intro exI[of _ vs'] exI[of _ cs']) simp
qed

lemma fold_playlist_owner_shape:
  "\<exists>ps. fold (playlist_video_deleted t) gone d = d\<lparr> db_playlists := ps \<rparr> \<and> map p_UserID ps = map p_UserID (db_playlists d)"
proof (induction gone arbitrary: d)
  case Nil
  show ?case by (intro exI[of _ "db_playlists d"]) simp
next
  case (Cons pv pvs)
  let ?d = "playlist_video_deleted t pv d"
  from Cons[of ?d] obtain ps where "fold (playlist_video_deleted t) pvs ?d = ?d\<lparr> db_playlists := ps \<rparr>"
    "map p_UserID ps = map p_UserID (db_playlists ?d)" by blast
  then show ?case
    by (intro exI[of _ ps]) (simp add: playlist_video_deleted_def[of t pv] bump_video_count_def map_modify)
qed

text \<open>What \<^verbatim>\<open>DELETE FROM videos\<close> leaves, up to the counters of the rows that stay.\<close>

lemma cascade_shape:
  obtains vs cs ps ids where
    "cascade_video t i d = d\<lparr> db_videos := vs, db_likes := delete_rows (\<lambda>l. l_VideoID l = i) (db_likes d),
       db_playlist_videos := delete_rows (\<lambda>pv. pv_VideoID pv = i) (db_playlist_videos d), db_playlists := ps, db_comments := cs,
       db_watch_history := delete_rows (\<lambda>h. wh_VideoID h = i) (db_watch_history d),
       db_watch_later := delete_rows (\<lambda>x. wl_VideoID x = i) (db_watch_later d),
       db_notifications := delete_rows (\<lambda>n. n_VideoID n = Some i)
         (delete_rows (\<lambda>n. case n_CommentID n of Some c \<Rightarrow> c \<in> set ids | None \<Rightarrow> False) (db_notifications d)),
       db_reports := delete_rows (\<lambda>r. r_VideoID r = Some i) (db_reports d),
       db_video_views := delete_rows (\<lambda>x. vr_VideoID x = i) (db_video_views d) \<rparr>"
    "map v_ID vs = map v_ID (remove v_ID i (db_videos d))" "map v_UserID vs = map v_UserID (remove v_ID i (db_videos d))"
    "map c_ID cs = map c_ID (delete_rows (\<lambda>c. c_ID c \<in> set ids) (db_comments d))"
    "map c_UserID cs = map c_UserID (delete_rows (\<lambda>c. c_ID c \<in> set ids) (db_comments d))"
    "map p_UserID ps = map p_UserID (db_playlists d)"
proof -
  define d2 where "d2 = d\<lparr> db_videos := remove v_ID i (db_videos d), db_likes := delete_rows (\<lambda>l. l_VideoID l = i) (db_likes d) \<rparr>"
  have "lookup v_ID i (remove v_ID i (db_videos d)) = None" by (simp add: lookup_remove)
  then have d2: "fold (like_deleted t) (filter (\<lambda>l. l_VideoID l = i) (db_likes d)) d2 = d2"
    by (intro fold_likes_missing[where i = i]) (simp_all add: d2_def)
  let ?pvs = "delete_rows (\<lambda>pv. pv_VideoID pv = i) (db_playlist_videos d)"
  define d3 where "d3 = fold (playlist_video_deleted t) (filter (\<lambda>pv. pv_VideoID pv = i) (db_playlist_videos d)) (d2\<lparr> db_playlist_videos := ?pvs \<rparr>)"
  obtain ps where d3: "d3 = d2\<lparr> db_playlist_videos := ?pvs, db_playlists := ps \<rparr>" and ps: "map p_UserID ps = map p_UserID (db_playlists d)"
    using fold_playlist_owner_shape[of t _ "d2\<lparr> db_playlist_videos := ?pvs \<rparr>"] by (fastforce simp: d3_def d2_def)
  define ids where "ids = reply_closure (length (db_comments d)) (db_comments d) (map c_ID (filter (\<lambda>c. c_VideoID c = i) (db_comments d)))"
  have c3: "db_comments d3 = db_comments d" "db_notifications d3 = db_notifications d" by (simp_all add: d3 d2_def)
  define d4 where "d4 = cascade_comments t (map c_ID (filter (\<lambda>c. c_VideoID c = i) (db_comments d3))) d3"
  obtain vs cs where d4: "d4 = d3\<lparr>
      db_notifications := delete_rows (\<lambda>n. case n_CommentID n of Some c \<Rightarrow> c \<in> set ids | None \<Rightarrow> False) (db_notifications d),
      db_videos := vs, db_comments := cs \<rparr>"
    and shape: "map v_ID vs = map v_ID (db_videos d3)" "map v_UserID vs = map v_UserID (db_videos d3)"
      "map c_ID cs = map c_ID (delete_rows (\<lambda>c. c_ID c \<in> set ids) (db_comments d))"
      "map c_UserID cs = map c_UserID (delete_rows (\<lambda>c. c_ID c \<in> set ids) (db_comments d))"
    using fold_comment_shape[of t "filter (\<lambda>c. c_ID c \<in> set ids) (db_comments d)"
        "d3\<lparr> db_comments := delete_rows (\<lambda>c. c_ID c \<in> set ids) (db_comments d),
             db_notifications := delete_rows (\<lambda>n. case n_CommentID n of Some c \<Rightarrow> c \<in> set ids | None \<Rightarrow> False) (db_notifications d) \<rparr>"]
    unfolding d4_def cascade_comments_def Let_def c3 ids_def[symmetric] by auto
  have "cascade_video t i d = d4\<lparr> db_watch_history := delete_rows (\<lambda>h. wh_VideoID h = i) (db_watch_history d4),
       db_watch_later := delete_rows (\<lambda>x. wl_VideoID x = i) (db_watch_later d4),
       db_notifications := delete_rows (\<lambda>n. n_VideoID n = Some i) (db_notifications d4),
       db_reports := delete_rows (\<lambda>r. r_VideoID r = Some i) (db_reports d4),
       db_video_views := delete_rows (\<lambda>x. vr_VideoID x = i) (db_video_views d4) \<rparr>"
    using d2 unfolding cascade_video_def Let_def by (simp add: d4_def d3_def d2_def)
  with shape ps show thesis by (intro that[where vs = vs and cs = cs and ids = ids and ps = ps]) (simp_all add: d4 d3 d2_def)
qed


lemma rest_cascade_video:
  assumes ok: "rest_ok d"
  shows "rest_ok (cascade_video t i d)"
proof -
  obtain vs cs ps ids where shape:
    "cascade_video t i d = d\<lparr> db_videos := vs, db_likes := delete_rows (\<lambda>l. l_VideoID l = i) (db_likes d),
       db_playlist_videos := delete_rows (\<lambda>pv. pv_VideoID pv = i) (db_playlist_videos d), db_playlists := ps, db_comments := cs,
       db_watch_history := delete_rows (\<lambda>h. wh_VideoID h = i) (db_watch_history d),
       db_watch_later := delete_rows (\<lambda>x. wl_VideoID x = i) (db_watch_later d),
       db_notifications := delete_rows (\<lambda>n. n_VideoID n = Some i)
         (delete_rows (\<lambda>n. case n_CommentID n of Some c \<Rightarrow> c \<in> set ids | None \<Rightarrow> False) (db_notifications d)),
       db_reports := delete_rows (\<lambda>r. r_VideoID r = Some i) (db_reports d),
       db_video_views := delete_rows (\<lambda>x. vr_VideoID x = i) (db_video_views d) \<rparr>" (is "_ = ?d")
    and maps: "map v_ID vs = map v_ID (remove v_ID i (db_videos d))" "map v_UserID vs = map v_UserID (remove v_ID i (db_videos d))"
      "map c_ID cs = map c_ID (delete_rows (\<lambda>c. c_ID c \<in> set ids) (db_comments d))"
      "map c_UserID cs = map c_UserID (delete_rows (\<lambda>c. c_ID c \<in> set ids) (db_comments d))"
      "map p_UserID ps = map p_UserID (db_playlists d)"
    by (rule cascade_shape)
  let ?rest = "delete_rows (\<lambda>c. c_ID c \<in> set ids) (db_comments d)"
  have sets: "v_ID ` set vs = v_ID ` set (remove v_ID i (db_videos d))" "v_UserID ` set vs = v_UserID ` set (remove v_ID i (db_videos d))"
    "c_ID ` set cs = c_ID ` set ?rest" "c_UserID ` set cs = c_UserID ` set ?rest" "p_UserID ` set ps = p_UserID ` set (db_playlists d)"
    using maps by (metis set_map)+
  have vids: "v_ID ` set (remove v_ID i (db_videos d)) = v_ID ` set (db_videos d) - {i}" by (auto simp: set_remove)
  have cids: "c_ID ` set ?rest = c_ID ` set (db_comments d) - set ids" by auto
  have away: "g ` set (delete_rows (\<lambda>r. g r = k) rows) \<subseteq> A - {k}" if "g ` set rows \<subseteq> A" for g :: "'r \<Rightarrow> 'k" and k rows A
    using that by auto
  have some: "insert None (Some ` V) - {Some k} \<subseteq> insert None (Some ` (V - {k}))" for V :: "uuid set" and k by auto
  have "users_linked ?d"
    using ok by (simp add: rest_ok_def users_linked_def Let_def sets image_delete remove_def del: set_delete_rows)
  moreover have "unique_ok ?d"
    using ok by (simp add: rest_defs distinct_map_delete)
  moreover have "content_linked ?d"
  proof -
    note c = ok[unfolded rest_ok_def content_linked_def Let_def]
    let ?ns = "delete_rows (\<lambda>n. case n_CommentID n of Some c \<Rightarrow> c \<in> set ids | None \<Rightarrow> False) (db_notifications d)"
    have "n_CommentID ` set ?ns \<subseteq> insert None (Some ` (c_ID ` set (db_comments d) - set ids))"
    proof
      fix q assume "q \<in> n_CommentID ` set ?ns"
      then obtain n where n: "n \<in> set (db_notifications d)" "q = n_CommentID n"
        "\<not> (case n_CommentID n of Some c \<Rightarrow> c \<in> set ids | None \<Rightarrow> False)" by auto
      have "n_CommentID n \<in> insert None (Some ` c_ID ` set (db_comments d))" using c n(1) by blast
      with n(2,3) show "q \<in> insert None (Some ` (c_ID ` set (db_comments d) - set ids))" by (auto split: option.splits)
    qed
    moreover have "n_VideoID ` set ?ns \<subseteq> insert None (Some ` v_ID ` set (db_videos d))"
      using c by (simp add: image_delete del: set_delete_rows)
    ultimately show ?thesis
      using c away[of wl_VideoID "db_watch_later d" _ i] away[of wh_VideoID "db_watch_history d" _ i]
        away[of vr_VideoID "db_video_views d" _ i] away[of n_VideoID ?ns _ "Some i", THEN subset_trans[OF _ some]]
        away[of r_VideoID "db_reports d" _ "Some i", THEN subset_trans[OF _ some]]
      by (simp add: content_linked_def Let_def sets vids cids image_delete del: set_delete_rows)
  qed
  ultimately show ?thesis by (simp add: shape rest_ok_def)
qed

lemma tables_VideoRepo_Delete: "steps (on_db (keeping tables_ok)) (VideoRepo_Delete i)"
  unfolding VideoRepo_Delete_def
  by (intro steps_rows_or steps_run_stmt preorder_on_db preorder_keeping impI)
     (auto simp: tables_ok_def intro: social_cascade_video rest_cascade_video split: if_splits)

section \<open>Views, watch history, reports, the audit log\<close>

lemma social_other:
  "social_ok (d\<lparr> db_video_views := a \<rparr>) = social_ok d" "social_ok (d\<lparr> db_watch_history := b \<rparr>) = social_ok d"
  "social_ok (d\<lparr> db_reports := c \<rparr>) = social_ok d" "social_ok (d\<lparr> db_audit_logs := e \<rparr>) = social_ok d"
  using social_view_ok[of "d\<lparr> db_video_views := a \<rparr>"] social_view_ok[of "d\<lparr> db_watch_history := b \<rparr>"]
    social_view_ok[of "d\<lparr> db_reports := c \<rparr>"] social_view_ok[of "d\<lparr> db_audit_logs := e \<rparr>"] social_view_ok[of d]
  by (simp_all add: social_view_def)

lemma opt_in: "(case x of None \<Rightarrow> False | Some u \<Rightarrow> \<not> u \<in> A) = (x \<notin> insert None (Some ` A))"
  by (cases x) auto

lemma opt_in': "(case x of None \<Rightarrow> True | Some u \<Rightarrow> u \<in> A) = (x \<in> insert None (Some ` A))"
  by (cases x) auto

lemma tables_insert_view:
  assumes s: "insert_view t r d = Inr (x, d')" and ok: "tables_ok d"
  shows "tables_ok d'"
proof -
  have d': "d' = d\<lparr> db_video_views := db_video_views d @ [r], db_videos := modify v_ID (vr_VideoID r) (count_view t) (db_videos d) \<rparr>"
    and c: "vr_ID r \<notin> vr_ID ` set (db_video_views d)" "vr_VideoID r \<in> v_ID ` set (db_videos d)"
      "vr_UserID r \<in> insert None (Some ` u_ID ` set (db_users d))"
    using s unfolding insert_view_def list_ex_key exists_iff opt_in by (simp_all split: if_splits)
  have v: "v_ID (count_view t v) = v_ID v" "v_UserID (count_view t v) = v_UserID v"
    "v_LikeCount (count_view t v) = v_LikeCount v" "v_CommentCount (count_view t v) = v_CommentCount v" for v
    by (simp_all add: count_view_def)
  have "rest_ok (d\<lparr> db_video_views := db_video_views d @ [r] \<rparr>)"
    using ok c by (intro rest_add(8)) (simp_all add: tables_ok_def)
  from rest_modify_video[OF this v(1,2)] have "rest_ok d'" by (simp add: d')
  moreover have "social_ok (d\<lparr> db_video_views := db_video_views d @ [r] \<rparr>)" using ok by (simp add: social_other tables_ok_def)
  from social_modify_video[of "count_view t", OF v(1,3,4) this] have "social_ok d'" by (simp add: d')
  ultimately show ?thesis by (simp add: tables_ok_def)
qed

lemma tables_RecordView: "steps (on_db (keeping tables_ok)) (Repo_RecordView v u a b c e f g h)"
  unfolding Repo_RecordView_def
  by (intro steps_intros steps_run_stmt preorder_on_db preorder_keeping impI) (rule tables_insert_view)

lemma rest_same_views:
  assumes "rest_ok d" "\<And>r. vr_ID (f r) = vr_ID r" "\<And>r. vr_VideoID (f r) = vr_VideoID r" "\<And>r. vr_UserID (f r) = vr_UserID r"
  shows "rest_ok (d\<lparr> db_video_views := modify vr_ID i f (db_video_views d) \<rparr>)"
  using assms(1) by (intro rest_frames(8)) (simp_all add: map_modify image_modify assms(2-4) rest_defs)

lemma tables_UpdateViewDuration: "steps (on_db (keeping tables_ok)) (UpdateViewDuration i n p)"
  unfolding UpdateViewDuration_def
  by (intro steps_run_stmt preorder_keeping impI)
     (auto simp: tables_ok_def social_other intro!: rest_same_views split: if_splits)

lemma rest_same_history:
  assumes "rest_ok d"
  shows "rest_ok (d\<lparr> db_watch_history := update_rows p (watch_merged t entry) (db_watch_history d) \<rparr>)"
proof -
  have same: "map g (update_rows p (watch_merged t entry) hs) = map g hs" if "\<And>h. g (watch_merged t entry h) = g h" for g hs
    by (rule map_update_rows) (simp add: that)
  have img: "g ` set (update_rows p (watch_merged t entry) hs) = g ` set hs" if "\<And>h. g (watch_merged t entry h) = g h" for g hs
    using same[of g hs, OF that] by (metis set_map)
  have f: "wh_ID (watch_merged t entry h) = wh_ID h" "wh_UserID (watch_merged t entry h) = wh_UserID h"
    "wh_VideoID (watch_merged t entry h) = wh_VideoID h" for h by (simp_all add: watch_merged_def)
  show ?thesis
    using assms by (intro rest_frames(6)) (simp_all add: same img f rest_defs)
qed

lemma tables_upsert_watch: "upsert_watch t entry d = Inr (x, d') \<Longrightarrow> tables_ok d \<Longrightarrow> tables_ok d'"
proof -
  assume s: "upsert_watch t entry d = Inr (x, d')" and ok: "tables_ok d"
  have key: "list_ex (same_watch entry) hs = ((wh_UserID entry, wh_VideoID entry) \<in> (\<lambda>h. (wh_UserID h, wh_VideoID h)) ` set hs)" for hs
    by (auto simp: list_ex_iff same_watch_def)
  show "tables_ok d'"
  proof (cases "list_ex (same_watch entry) (db_watch_history d)")
    case True
    with s ok show ?thesis by (auto simp: upsert_watch_def tables_ok_def social_other intro!: rest_same_history)
  next
    case False
    then have "d' = d\<lparr> db_watch_history := db_watch_history d @ [entry\<lparr> wh_WatchedAt := t \<rparr>] \<rparr>"
      "wh_UserID entry \<in> u_ID ` set (db_users d)" "wh_VideoID entry \<in> v_ID ` set (db_videos d)" "wh_ID entry \<notin> wh_ID ` set (db_watch_history d)"
      using s unfolding upsert_watch_def list_ex_key exists_iff by (simp_all split: if_splits)
    then show ?thesis using ok False[unfolded key]
      by (simp add: tables_ok_def social_other) (rule rest_add(6), simp_all)
  qed
qed

lemma tables_UpsertWatchHistory: "steps (on_db (keeping tables_ok)) (UpsertWatchHistory entry)"
  unfolding UpsertWatchHistory_def
  by (intro steps_intros steps_run_stmt preorder_on_db preorder_keeping impI) (rule tables_upsert_watch)

lemma tables_clear_history:
  "steps (on_db (keeping tables_ok)) (ClearWatchHistory u)" "steps (on_db (keeping tables_ok)) (DeleteWatchHistoryEntry u v)"
  unfolding ClearWatchHistory_def DeleteWatchHistoryEntry_def
  by (intro steps_rows_or steps_run_stmt preorder_on_db preorder_keeping impI;
      auto simp: tables_ok_def social_other intro!: rest_drop)+

lemma tables_ReportRepo_Create: "steps (on_db (keeping tables_ok)) (ReportRepo_Create report)"
  unfolding ReportRepo_Create_def
proof (intro steps_run_stmt preorder_keeping impI)
  fix t x and d d' :: db
  assume s: "(if report_accepted d report
     then Inr ((), d\<lparr> db_reports := db_reports d @ [report\<lparr> r_ReviewedBy := None, r_ReviewedAt := None, r_Action := None \<rparr>] \<rparr>)
     else Inl (ErrOther ''content_reports constraint'')) = Inr (x, d')" and ok: "tables_ok d"
  have d': "d' = d\<lparr> db_reports := db_reports d @ [report\<lparr> r_ReviewedBy := None, r_ReviewedAt := None, r_Action := None \<rparr>] \<rparr>"
    and c: "report_accepted d report" using s by (simp_all split: if_splits)
  from c show "tables_ok d'"
    using ok unfolding report_accepted_def list_ex_key exists_iff opt_in'
    by (simp add: d' tables_ok_def social_other) (rule rest_add(9), simp_all)
qed

lemma rest_reviewed:
  assumes "rest_ok d" "r_ReviewedBy report \<in> insert None (Some ` u_ID ` set (db_users d))"
  shows "rest_ok (d\<lparr> db_reports := modify r_ID i (report_written report) (db_reports d) \<rparr>)"
proof -
  have f: "r_ID (report_written report r) = r_ID r" "r_ReporterID (report_written report r) = r_ReporterID r"
    "r_UserID (report_written report r) = r_UserID r" "r_VideoID (report_written report r) = r_VideoID r" for r
    by (simp_all add: report_written_def)
  have "r_ReviewedBy ` set (db_reports d) \<subseteq> insert None (Some ` u_ID ` set (db_users d))" using assms(1) by (simp add: rest_defs)
  then have "r_ReviewedBy ` set (modify r_ID i (report_written report) (db_reports d)) \<subseteq> insert None (Some ` u_ID ` set (db_users d))"
    using assms(2) by (auto simp: set_modify report_written_def)
  then show ?thesis
    using assms(1) by (intro rest_frames(9)) (simp_all add: map_modify image_modify f rest_defs)
qed

lemma tables_ReportRepo_Update: "steps (on_db (keeping tables_ok)) (ReportRepo_Update report)"
  unfolding ReportRepo_Update_def
proof (intro steps_run_stmt preorder_keeping impI)
  fix t x and d d' :: db
  assume s: "(if lookup r_ID (r_ID report) (db_reports d) \<noteq> None
        \<and> (case r_ReviewedBy report of None \<Rightarrow> False | Some m \<Rightarrow> \<not> user_exists d m)
     then Inl (ErrOther ''content_reports_reviewed_by_fkey'')
     else Inr ((), d\<lparr> db_reports := modify r_ID (r_ID report) (report_written report) (db_reports d) \<rparr>)) = Inr (x, d')"
    and ok: "tables_ok d"
  show "tables_ok d'"
  proof (cases "lookup r_ID (r_ID report) (db_reports d)")
    case None
    with s ok show ?thesis by (simp add: modify_id)
  next
    case (Some r)
    then show ?thesis
      using s ok unfolding exists_iff opt_in
      by (auto simp: tables_ok_def social_other intro!: rest_reviewed split: if_splits)
  qed
qed

lemma tables_AuditRepo_Create: "steps (on_db (keeping tables_ok)) (AuditRepo_Create entry)"
  unfolding AuditRepo_Create_def
proof (intro steps_run_stmt preorder_keeping impI)
  fix t x and d d' :: db
  assume s: "(if list_ex (\<lambda>x. al_ID x = al_ID entry) (db_audit_logs d)
        \<or> (case al_UserID entry of None \<Rightarrow> False | Some u \<Rightarrow> \<not> user_exists d u)
        \<or> RuneCount (al_Action entry) > 100 \<or> RuneCount (al_TargetType entry) > 50 \<or> RuneCount (al_IPAddress entry) > 45
     then Inl (ErrOther ''audit_logs constraint'')
     else Inr ((), d\<lparr> db_audit_logs := db_audit_logs d @ [entry] \<rparr>)) = Inr (x, d')" and ok: "tables_ok d"
  have "d' = d\<lparr> db_audit_logs := db_audit_logs d @ [entry] \<rparr>" "al_ID entry \<notin> al_ID ` set (db_audit_logs d)"
    "al_UserID entry \<in> insert None (Some ` u_ID ` set (db_users d))"
    using s unfolding list_ex_key exists_iff opt_in by (simp_all split: if_splits)
  then show "tables_ok d'" using ok by (simp add: tables_ok_def social_other) (rule rest_add(10), simp_all)
qed

section \<open>Any interleaving of statements\<close>

text \<open>
  Handlers run concurrently, so the tables move by single statements of any handler in any order.
  \<^verbatim>\<open>table_step\<close> is one method of a repository that writes: with any arguments, at any time, under
  any outcome.  Every INSERT, UPDATE and DELETE of \<^verbatim>\<open>internal/repository/postgres\<close> is one of them.
\<close>

inductive table_step :: "db \<Rightarrow> db \<Rightarrow> bool" where
  like: "table_step (w_db w) (w_db (snd (run_state (UpsertLike l) w)))"
| unlike: "table_step (w_db w) (w_db (snd (run_state (DeleteLike u v) w)))"
| comment: "table_step (w_db w) (w_db (snd (run_state (SocialRepo_CreateComment c) w)))"
| edit: "table_step (w_db w) (w_db (snd (run_state (UpdateCommentContent i s) w)))"
| delete_comment: "table_step (w_db w) (w_db (snd (run_state (SoftDeleteComment i) w)))"
| subscribe: "table_step (w_db w) (w_db (snd (run_state (CreateSubscription sub) w)))"
| unsubscribe: "table_step (w_db w) (w_db (snd (run_state (DeleteSubscription a b) w)))"
| playlist: "table_step (w_db w) (w_db (snd (run_state (SocialRepo_CreatePlaylist p) w)))"
| edit_playlist: "table_step (w_db w) (w_db (snd (run_state (SocialRepo_UpdatePlaylist p) w)))"
| delete_playlist: "table_step (w_db w) (w_db (snd (run_state (SocialRepo_DeletePlaylist i) w)))"
| add: "table_step (w_db w) (w_db (snd (run_state (SocialRepo_AddPlaylistVideo i v) w)))"
| drop: "table_step (w_db w) (w_db (snd (run_state (SocialRepo_RemovePlaylistVideo i v) w)))"
| save: "table_step (w_db w) (w_db (snd (run_state (UpsertWatchLater x) w)))"
| unsave: "table_step (w_db w) (w_db (snd (run_state (DeleteWatchLater u v) w)))"
| notification: "table_step (w_db w) (w_db (snd (run_state (CreateNotification n) w)))"
| seen: "table_step (w_db w) (w_db (snd (run_state (SocialRepo_MarkNotificationRead i u) w)))"
| all_seen: "table_step (w_db w) (w_db (snd (run_state (SocialRepo_MarkAllNotificationsRead u) w)))"
| video: "table_step (w_db w) (w_db (snd (run_state (VideoRepo_Create v) w)))"
| video_status: "table_step (w_db w) (w_db (snd (run_state (VideoRepo_UpdateStatus i st) w)))"
| video_progress: "table_step (w_db w) (w_db (snd (run_state (VideoRepo_UpdateProgress i n) w)))"
| video_duration: "table_step (w_db w) (w_db (snd (run_state (VideoRepo_UpdateDuration i n) w)))"
| video_resolution: "table_step (w_db w) (w_db (snd (run_state (VideoRepo_UpdateResolution i s) w)))"
| video_hls: "table_step (w_db w) (w_db (snd (run_state (VideoRepo_UpdateHLSInfo i s b) w)))"
| video_ready: "table_step (w_db w) (w_db (snd (run_state (VideoRepo_MarkAsReady i qs s) w)))"
| video_failed: "table_step (w_db w) (w_db (snd (run_state (VideoRepo_MarkAsFailed i) w)))"
| delete_video: "table_step (w_db w) (w_db (snd (run_state (VideoRepo_Delete i) w)))"
| user: "table_step (w_db w) (w_db (snd (run_state (UserRepo_Create u) w)))"
| edit_user: "table_step (w_db w) (w_db (snd (run_state (UserRepo_Update u) w)))"
| delete_user: "table_step (w_db w) (w_db (snd (run_state (UserRepo_Delete i) w)))"
| ban: "table_step (w_db w) (w_db (snd (run_state (UserRepo_BanUser i s till) w)))"
| unban: "table_step (w_db w) (w_db (snd (run_state (UserRepo_UnbanUser i) w)))"
| view: "table_step (w_db w) (w_db (snd (run_state (Repo_RecordView i u s s2 s3 s4 s5 s6 s7) w)))"
| view_duration: "table_step (w_db w) (w_db (snd (run_state (UpdateViewDuration i n q) w)))"
| watch: "table_step (w_db w) (w_db (snd (run_state (UpsertWatchHistory h) w)))"
| clear_watch: "table_step (w_db w) (w_db (snd (run_state (ClearWatchHistory i) w)))"
| delete_watch: "table_step (w_db w) (w_db (snd (run_state (DeleteWatchHistoryEntry i v) w)))"
| report: "table_step (w_db w) (w_db (snd (run_state (ReportRepo_Create r) w)))"
| review: "table_step (w_db w) (w_db (snd (run_state (ReportRepo_Update r) w)))"
| audit: "table_step (w_db w) (w_db (snd (run_state (AuditRepo_Create a) w)))"

lemma on_db_kept: "steps (on_db (keeping I)) m \<Longrightarrow> I (w_db w) \<Longrightarrow> I (w_db (snd (run_state m w)))"
  by (simp add: steps_def on_db_def)

lemmas tables_statements = tables_UpsertLike tables_DeleteLike tables_CreateComment tables_UpdateCommentContent
  tables_SoftDeleteComment tables_CreateSubscription tables_DeleteSubscription tables_CreatePlaylist tables_UpdatePlaylist
  tables_DeletePlaylist tables_AddPlaylistVideo tables_RemovePlaylistVideo tables_UpsertWatchLater tables_DeleteWatchLater
  tables_CreateNotification tables_MarkNotificationRead tables_MarkAllNotificationsRead tables_VideoRepo_Create
  tables_video_updates tables_UpdateProgress tables_VideoRepo_Delete tables_UserRepo_Create tables_UserRepo_Update
  tables_user_statements tables_RecordView tables_UpdateViewDuration tables_UpsertWatchHistory tables_clear_history
  tables_ReportRepo_Create tables_ReportRepo_Update tables_AuditRepo_Create

lemma table_step_ok: "table_step d d' \<Longrightarrow> tables_ok d \<Longrightarrow> tables_ok d'"
  by (induction rule: table_step.induct) (erule on_db_kept[where I = tables_ok, rotated], rule tables_statements)+

lemma empty_ok: "tables_ok empty_db"
  by (simp add: tables_ok_def social_ok_def keys_ok_def refs_ok_def counters_ok_def count_of_defs targets_defs rest_defs empty_db_def)

text \<open>C13: in every state of the tables that any interleaving of the statements of the repositories reaches from the
  empty schema, the primary keys and the unique columns are unique, every foreign key of the migrations resolves, and
  every denormalised counter (likes and comments of a video, replies of a comment, subscribers of a user, videos of a
  playlist) is exactly the number of live rows it stands for.\<close>

theorem counters_exact_always:
  assumes "table_step\<^sup>*\<^sup>* empty_db d"
  shows "keys_ok d \<and> unique_ok d \<and> refs_ok d \<and> users_linked d \<and> content_linked d \<and> counters_ok d"
proof -
  have "tables_ok d" using assms by (induction rule: rtranclp_induct) (auto intro: empty_ok table_step_ok)
  then show ?thesis by (simp add: tables_ok_def social_ok_def rest_ok_def)
qed

text \<open>An account, its video and a view of it.\<close>

lemma counters_exact_always_witness:
  "counters_ok (w_db (snd (run_state (Repo_RecordView 7 None [] [] [] [] [] [] [])
     (snd (run_state (VideoRepo_Create (sample_video 7 1 VideoStatusReady VisibilityPublic))
       (snd (run_state (UserRepo_Create (sample_user 1 ''alice'' RoleUser)) (calm_world empty_db))))))))"
proof -
  let ?w1 = "snd (run_state (UserRepo_Create (sample_user 1 ''alice'' RoleUser)) (calm_world empty_db))"
  let ?w2 = "snd (run_state (VideoRepo_Create (sample_video 7 1 VideoStatusReady VisibilityPublic)) ?w1)"
  let ?w3 = "snd (run_state (Repo_RecordView 7 None [] [] [] [] [] [] []) ?w2)"
  have "table_step (w_db (calm_world empty_db)) (w_db ?w1)" "table_step (w_db ?w1) (w_db ?w2)" "table_step (w_db ?w2) (w_db ?w3)"
    by (rule table_step.user table_step.video table_step.view)+
  moreover have "w_db (calm_world empty_db) = empty_db" by (simp add: calm_world_def)
  ultimately have "table_step\<^sup>*\<^sup>* empty_db (w_db ?w3)" by (auto intro: converse_rtranclp_into_rtranclp)
  from counters_exact_always[OF this] show ?thesis by blast
qed

end
