(* ===== verification/Social.thy ===== *)
theory Social
  imports SocialRepo Http
begin

text \<open>
  The social service (\<^verbatim>\<open>internal/service/social_service.go\<close>) and its handlers
  (\<^verbatim>\<open>internal/handler/social_handler.go\<close>).  A handler takes the request and what was bound from
  its JSON body, \<^verbatim>\<open>None\<close> when binding failed.
\<close>

section \<open>Notifications\<close>

text \<open>\<^verbatim>\<open>truncateForNotification\<close> cuts on a rune boundary; the ellipsis is U+2026.\<close>

definition truncateForNotification :: "string \<Rightarrow> string" where
  "truncateForNotification content =
     (let rs = runes content in if length rs \<le> 200 then content
      else string_of_runes (take 199 rs) @ string_of_runes [0x2026])"

text \<open>The notification a call of \<^verbatim>\<open>notify\<close> is given, with the fields that are not set.\<close>

definition notification :: "uuid \<Rightarrow> NotificationType \<Rightarrow> string \<Rightarrow> string \<Rightarrow> uuid \<Rightarrow> uuid option \<Rightarrow> uuid option \<Rightarrow> Notification" where
  "notification userID typ title message actor video comment = \<lparr> n_ID = Nil_uuid, n_UserID = userID, n_Type = typ,
     n_Title = title, n_Message = message, n_ActionURL = None, n_ActorID = Some actor, n_VideoID = video,
     n_CommentID = comment, n_Read = False, n_CreatedAt = 0 \<rparr>"

definition notify :: "Notification \<Rightarrow> unit prog" where
  "notify n = do {
     i \<leftarrow> uuid_New; t \<leftarrow> time_Now;
     let n' = n\<lparr> n_ID := i, n_CreatedAt := t \<rparr>;
     case Notification_Validate n' of Some e \<Rightarrow> State_Monad.return ()
     | None \<Rightarrow> do { _ \<leftarrow> CreateNotification n'; State_Monad.return () }
   }"

definition notifyForComment :: "Comment \<Rightarrow> Comment option \<Rightarrow> Video \<Rightarrow> unit prog" where
  "notifyForComment comment parent video = (case parent of
     Some p \<Rightarrow> if c_UserID p = c_UserID comment then State_Monad.return ()
       else notify (notification (c_UserID p) NotificationReply ''New reply to your comment''
              (truncateForNotification (c_Content comment)) (c_UserID comment) (Some (c_VideoID comment)) (Some (c_ID comment)))
   | None \<Rightarrow> (case v_UserID video of None \<Rightarrow> State_Monad.return ()
       | Some owner \<Rightarrow> if owner = c_UserID comment then State_Monad.return ()
           else notify (notification owner NotificationComment ''New comment on your video''
              (truncateForNotification (c_Content comment)) (c_UserID comment) (Some (c_VideoID comment)) (Some (c_ID comment)))))"

section \<open>Likes\<close>

definition SetLike :: "uuid \<Rightarrow> uuid \<Rightarrow> bool \<Rightarrow> (err + Like) prog" where
  "SetLike userID videoID isLike = try_then (VideoRepo_GetByID videoID) (\<lambda>_. do {
     i \<leftarrow> uuid_New; t \<leftarrow> time_Now;
     let like = \<lparr> l_ID = i, l_UserID = userID, l_VideoID = videoID, l_IsLike = isLike, l_CreatedAt = t \<rparr>;
     check_valid (Like_Validate like) (UpsertLike like)
   })"

definition RemoveLike :: "uuid \<Rightarrow> uuid \<Rightarrow> (err + unit) prog" where
  "RemoveLike userID videoID = DeleteLike userID videoID"

section \<open>Comments\<close>

definition ListComments :: "uuid \<Rightarrow> Page \<Rightarrow> (err + Comment list \<times> nat) prog" where
  "ListComments videoID page = try_then (VideoRepo_GetByID videoID)
     (\<lambda>_. with_total (SocialRepo_ListComments videoID page) (CountComments videoID))"

definition ListReplies :: "uuid \<Rightarrow> Page \<Rightarrow> (err + Comment list \<times> nat) prog" where
  "ListReplies parentID page = try_then (GetCommentByID parentID) (\<lambda>parent.
     if c_DeletedAt parent \<noteq> None then State_Monad.return (Inl ErrCommentNotFound)
     else with_total (SocialRepo_ListReplies parentID page) (CountReplies parentID))"

text \<open>The parent of a new comment, when one is named: it must exist, live, and sit on the same video.\<close>

definition parent_comment :: "uuid \<Rightarrow> uuid option \<Rightarrow> (err + Comment option) prog" where
  "parent_comment videoID parentID = (case parentID of None \<Rightarrow> State_Monad.return (Inr None)
     | Some p \<Rightarrow> try_then (GetCommentByID p) (\<lambda>parent. State_Monad.return
         (if c_DeletedAt parent \<noteq> None then Inl ErrCommentNotFound
          else if c_VideoID parent \<noteq> videoID then Inl ErrInvalidInput
          else Inr (Some parent))))"

definition CreateComment :: "uuid \<Rightarrow> uuid \<Rightarrow> uuid option \<Rightarrow> string \<Rightarrow> (err + Comment) prog" where
  "CreateComment userID videoID parentID content = try_then (VideoRepo_GetByID videoID) (\<lambda>video.
     try_then (parent_comment videoID parentID) (\<lambda>parent. do {
       now \<leftarrow> time_Now; i \<leftarrow> uuid_New;
       let comment = \<lparr> c_ID = i, c_VideoID = videoID, c_UserID = userID, c_ParentID = parentID, c_Content = content,
         c_LikeCount = 0, c_ReplyCount = 0, c_Pinned = False, c_EditedAt = None, c_CreatedAt = now, c_UpdatedAt = now,
         c_DeletedAt = None, c_Username = '''', c_AvatarURL = '''' \<rparr>;
       check_valid (Comment_Validate comment) (try_then (SocialRepo_CreateComment comment) (\<lambda>_. do {
         notifyForComment comment parent video;
         created \<leftarrow> GetCommentByID i;
         State_Monad.return (case created of Inl e \<Rightarrow> Inr comment | Inr c \<Rightarrow> Inr c)
       }))
     }))"

definition UpdateComment :: "uuid \<Rightarrow> uuid \<Rightarrow> string \<Rightarrow> (err + Comment) prog" where
  "UpdateComment userID commentID content = try_then (GetCommentByID commentID) (\<lambda>comment.
     if c_DeletedAt comment \<noteq> None then State_Monad.return (Inl ErrCommentNotFound)
     else if c_UserID comment \<noteq> userID then State_Monad.return (Inl ErrForbidden)
     else if length content = 0 \<or> length content > 10000 then State_Monad.return (Inl ErrInvalidInput)
     else try_then (UpdateCommentContent commentID content) (\<lambda>_. GetCommentByID commentID))"

definition DeleteComment :: "uuid \<Rightarrow> bool \<Rightarrow> uuid \<Rightarrow> (err + unit) prog" where
  "DeleteComment actorID canModerate commentID = try_then (GetCommentByID commentID) (\<lambda>comment.
     if c_DeletedAt comment \<noteq> None then State_Monad.return (Inl ErrCommentNotFound)
     else if canModerate \<or> c_UserID comment = actorID then SoftDeleteComment commentID
     else do {
       r \<leftarrow> VideoRepo_GetByID (c_VideoID comment);
       case r of
         Inl e \<Rightarrow> State_Monad.return (Inl (if e = ErrVideoNotFound then ErrForbidden else e))
       | Inr video \<Rightarrow> if IsOwnedBy video actorID then SoftDeleteComment commentID
           else State_Monad.return (Inl ErrForbidden)
     })"

section \<open>Subscriptions\<close>

definition Subscribe :: "uuid \<Rightarrow> uuid \<Rightarrow> (err + unit) prog" where
  "Subscribe subscriberID creatorID =
     (if subscriberID = creatorID then State_Monad.return (Inl ErrSelfSubscription)
      else try_then (UserRepo_GetByID creatorID) (\<lambda>creator. do {
        i \<leftarrow> uuid_New; t \<leftarrow> time_Now;
        let sub = \<lparr> s_ID = i, s_SubscriberID = subscriberID, s_CreatorID = creatorID, s_NotifyUploads = True, s_CreatedAt = t \<rparr>;
        check_valid (Subscription_Validate sub) (try_then (CreateSubscription sub) (\<lambda>inserted.
          if inserted then do {
            notify (notification (u_ID creator) NotificationSubscriber ''You have a new subscriber'' '''' subscriberID None None);
            State_Monad.return (Inr ())
          } else State_Monad.return (Inr ())))
      }))"

definition Unsubscribe :: "uuid \<Rightarrow> uuid \<Rightarrow> (err + unit) prog" where
  "Unsubscribe subscriberID creatorID = DeleteSubscription subscriberID creatorID"

definition ListSubscribers :: "uuid \<Rightarrow> Page \<Rightarrow> (err + SubscriptionEntry list \<times> nat) prog" where
  "ListSubscribers creatorID page = try_then (UserRepo_GetByID creatorID)
     (\<lambda>_. with_total (SocialRepo_ListSubscribers creatorID page) (CountSubscribers creatorID))"

definition ListSubscriptions :: "uuid \<Rightarrow> Page \<Rightarrow> (err + SubscriptionEntry list \<times> nat) prog" where
  "ListSubscriptions subscriberID page =
     with_total (SocialRepo_ListSubscriptions subscriberID page) (CountSubscriptions subscriberID)"

section \<open>Playlists\<close>

definition CreatePlaylist :: "uuid \<Rightarrow> string \<Rightarrow> string \<Rightarrow> string \<Rightarrow> (err + Playlist) prog" where
  "CreatePlaylist userID title description visibility = do {
     let vis = (if visibility = '''' then ''public'' else visibility);
     now \<leftarrow> time_Now; i \<leftarrow> uuid_New;
     let playlist = \<lparr> p_ID = i, p_UserID = userID, p_Title = title, p_Description = description, p_Visibility = vis,
       p_VideoCount = 0, p_CreatedAt = now, p_UpdatedAt = now \<rparr>;
     check_valid (Playlist_Validate playlist) (try_then (SocialRepo_CreatePlaylist playlist) (\<lambda>_. State_Monad.return (Inr playlist)))
   }"

definition GetPlaylist :: "uuid option \<Rightarrow> uuid \<Rightarrow> (err + Playlist) prog" where
  "GetPlaylist viewer i = try_then (GetPlaylistByID i) (\<lambda>playlist. State_Monad.return
     (if p_Visibility playlist = ''private'' \<and> (case viewer of None \<Rightarrow> True | Some u \<Rightarrow> u \<noteq> p_UserID playlist)
      then Inl ErrPlaylistNotFound else Inr playlist))"

definition ownedPlaylist :: "uuid \<Rightarrow> uuid \<Rightarrow> (err + Playlist) prog" where
  "ownedPlaylist userID i = try_then (GetPlaylistByID i) (\<lambda>playlist. State_Monad.return
     (if p_UserID playlist \<noteq> userID
      then (if p_Visibility playlist = ''private'' then Inl ErrPlaylistNotFound else Inl ErrForbidden)
      else Inr playlist))"

definition UpdatePlaylist :: "uuid \<Rightarrow> uuid \<Rightarrow> string option \<Rightarrow> string option \<Rightarrow> string option \<Rightarrow> (err + Playlist) prog" where
  "UpdatePlaylist userID i title description visibility = try_then (ownedPlaylist userID i) (\<lambda>p0.
     let p1 = (case title of None \<Rightarrow> p0 | Some x \<Rightarrow> p0\<lparr> p_Title := x \<rparr>);
         p2 = (case description of None \<Rightarrow> p1 | Some x \<Rightarrow> p1\<lparr> p_Description := x \<rparr>);
         p3 = (case visibility of None \<Rightarrow> p2 | Some x \<Rightarrow> p2\<lparr> p_Visibility := x \<rparr>)
     in check_valid (Playlist_Validate p3) (try_then (SocialRepo_UpdatePlaylist p3) (\<lambda>_. GetPlaylistByID i)))"

definition DeletePlaylist :: "uuid \<Rightarrow> uuid \<Rightarrow> (err + unit) prog" where
  "DeletePlaylist userID i = try_then (ownedPlaylist userID i) (\<lambda>_. SocialRepo_DeletePlaylist i)"

definition ListMyPlaylists :: "uuid \<Rightarrow> Page \<Rightarrow> (err + Playlist list \<times> nat) prog" where
  "ListMyPlaylists userID page = with_total (ListPlaylistsByUser userID page) (CountPlaylistsByUser userID)"

definition AddPlaylistVideo :: "uuid \<Rightarrow> uuid \<Rightarrow> uuid \<Rightarrow> (err + PlaylistVideo) prog" where
  "AddPlaylistVideo userID playlistID videoID = try_then (ownedPlaylist userID playlistID)
     (\<lambda>_. try_then (VideoRepo_GetByID videoID) (\<lambda>_. SocialRepo_AddPlaylistVideo playlistID videoID))"

definition RemovePlaylistVideo :: "uuid \<Rightarrow> uuid \<Rightarrow> uuid \<Rightarrow> (err + unit) prog" where
  "RemovePlaylistVideo userID playlistID videoID = try_then (ownedPlaylist userID playlistID)
     (\<lambda>_. SocialRepo_RemovePlaylistVideo playlistID videoID)"

definition ListPlaylistVideos :: "uuid option \<Rightarrow> uuid \<Rightarrow> Page \<Rightarrow> (err + PlaylistItem list \<times> nat) prog" where
  "ListPlaylistVideos viewer playlistID page = try_then (GetPlaylist viewer playlistID)
     (\<lambda>_. with_total (SocialRepo_ListPlaylistVideos playlistID page) (CountPlaylistVideos playlistID))"

section \<open>Watch later and notifications\<close>

definition AddWatchLater :: "uuid \<Rightarrow> uuid \<Rightarrow> (err + unit) prog" where
  "AddWatchLater userID videoID = try_then (VideoRepo_GetByID videoID) (\<lambda>_. do {
     i \<leftarrow> uuid_New; t \<leftarrow> time_Now;
     let entry = \<lparr> wl_ID = i, wl_UserID = userID, wl_VideoID = videoID, wl_AddedAt = t \<rparr>;
     check_valid (WatchLater_Validate entry) (UpsertWatchLater entry)
   })"

definition RemoveWatchLater :: "uuid \<Rightarrow> uuid \<Rightarrow> (err + unit) prog" where
  "RemoveWatchLater userID videoID = DeleteWatchLater userID videoID"

definition ListWatchLater :: "uuid \<Rightarrow> Page \<Rightarrow> (err + WatchLaterItem list \<times> nat) prog" where
  "ListWatchLater userID page = with_total (SocialRepo_ListWatchLater userID page) (CountWatchLater userID)"

definition ListNotifications :: "uuid \<Rightarrow> bool \<Rightarrow> Page \<Rightarrow> (err + Notification list \<times> nat) prog" where
  "ListNotifications userID unreadOnly page =
     with_total (SocialRepo_ListNotifications userID unreadOnly page) (CountNotifications userID unreadOnly)"

definition UnreadNotificationCount :: "uuid \<Rightarrow> (err + nat) prog" where
  "UnreadNotificationCount userID = CountNotifications userID True"

definition MarkNotificationRead :: "uuid \<Rightarrow> uuid \<Rightarrow> (err + unit) prog" where
  "MarkNotificationRead userID notificationID = SocialRepo_MarkNotificationRead notificationID userID"

definition MarkAllNotificationsRead :: "uuid \<Rightarrow> (err + nat) prog" where
  "MarkAllNotificationsRead userID = SocialRepo_MarkAllNotificationsRead userID"

end
