(* ===== verification/SocialHandlers.thy ===== *)
theory SocialHandlers
  imports Social
begin

text \<open>
  The handlers of the social endpoints (\<^verbatim>\<open>internal/handler/social_handler.go\<close>).  The argument
  after the request is what gin bound from the JSON body, \<^verbatim>\<open>None\<close> when binding failed (a field
  tagged required that is absent or empty included).
\<close>

datatype social_body = LikeBody Like | CommentBody Comment | CommentsBody "Comment list"
  | EntriesBody "SubscriptionEntry list" | PlaylistBody Playlist | PlaylistsBody "Playlist list"
  | PlaylistVideoBody PlaylistVideo | ItemsBody "PlaylistItem list" | LaterBody "WatchLaterItem list"
  | NotificationsBody "Notification list" | MessageWithID string uuid | UnreadCount nat | MarkedAll string nat

section \<open>Likes\<close>

definition Handler_SetLike :: "uuid_lib \<Rightarrow> request \<Rightarrow> bool option \<Rightarrow> social_body response prog" where
  "Handler_SetLike lib c body = requirePrincipal c (\<lambda>p. pathUUID lib c ''id'' ''video ID'' (\<lambda>videoID.
     bound body ''is_like is required and must be a boolean'' (\<lambda>isLike.
       answer (SetLike (pr_UserID p) videoID isLike)
         (\<lambda>e. if e = ErrVideoNotFound then NotFound ''Video not found''
              else if e = ErrInvalidInput then Error 400 ''VALIDATION_ERROR'' (ErrText e)
              else InternalError ''Failed to save rating'')
         (\<lambda>like. Success 200 (LikeBody like)))))"

definition Handler_RemoveLike :: "uuid_lib \<Rightarrow> request \<Rightarrow> social_body response prog" where
  "Handler_RemoveLike lib c = requirePrincipal c (\<lambda>p. pathUUID lib c ''id'' ''video ID'' (\<lambda>videoID.
     answer (RemoveLike (pr_UserID p) videoID)
       (\<lambda>e. if e = ErrLikeNotFound then NotFound ''You have not rated this video'' else InternalError ''Failed to remove rating'')
       (\<lambda>_. Success 200 (MessageWithID ''Rating removed'' videoID))))"

definition Handler_GetLike :: "uuid_lib \<Rightarrow> request \<Rightarrow> social_body response prog" where
  "Handler_GetLike lib c = requirePrincipal c (\<lambda>p. pathUUID lib c ''id'' ''video ID'' (\<lambda>videoID.
     answer (GetLike (pr_UserID p) videoID)
       (\<lambda>e. if e = ErrLikeNotFound then NotFound ''You have not rated this video'' else InternalError ''Failed to retrieve rating'')
       (\<lambda>like. Success 200 (LikeBody like))))"

section \<open>Comments\<close>

definition Handler_ListComments :: "uuid_lib \<Rightarrow> request \<Rightarrow> social_body response prog" where
  "Handler_ListComments lib c = pathUUID lib c ''id'' ''video ID'' (\<lambda>videoID.
     answer_page (ListComments videoID (parsePage c)) (parsePage c)
       (\<lambda>e. if e = ErrVideoNotFound then NotFound ''Video not found'' else InternalError ''Failed to retrieve comments'')
       CommentsBody)"

definition Handler_ListReplies :: "uuid_lib \<Rightarrow> request \<Rightarrow> social_body response prog" where
  "Handler_ListReplies lib c = pathUUID lib c ''id'' ''comment ID'' (\<lambda>commentID.
     answer_page (ListReplies commentID (parsePage c)) (parsePage c)
       (\<lambda>e. if e = ErrCommentNotFound then NotFound ''Comment not found'' else InternalError ''Failed to retrieve replies'')
       CommentsBody)"

definition Handler_CreateComment :: "uuid_lib \<Rightarrow> request \<Rightarrow> (string \<times> string) option \<Rightarrow> social_body response prog" where
  "Handler_CreateComment lib c body = requirePrincipal c (\<lambda>p. pathUUID lib c ''id'' ''video ID'' (\<lambda>videoID.
     bound body ''content is required'' (\<lambda>(content, rawParent). optionalUUID lib rawParent ''parent_id'' (\<lambda>parentID.
       answer (CreateComment (pr_UserID p) videoID parentID (TrimSpace content))
         (\<lambda>e. if e = ErrVideoNotFound then NotFound ''Video not found''
              else if e = ErrCommentNotFound then NotFound ''Parent comment not found''
              else if e = ErrInvalidInput
                then ValidationError ''content must be 1-10000 characters and any parent comment must be on the same video''
              else InternalError ''Failed to post comment'')
         (\<lambda>comment. Success 201 (CommentBody comment))))))"

definition Handler_UpdateComment :: "uuid_lib \<Rightarrow> request \<Rightarrow> string option \<Rightarrow> social_body response prog" where
  "Handler_UpdateComment lib c body = requirePrincipal c (\<lambda>p. pathUUID lib c ''id'' ''comment ID'' (\<lambda>commentID.
     bound body ''content is required'' (\<lambda>content.
       answer (UpdateComment (pr_UserID p) commentID (TrimSpace content))
         (\<lambda>e. if e = ErrCommentNotFound then NotFound ''Comment not found''
              else if e = ErrForbidden then forbidden ''Only the author can edit a comment''
              else if e = ErrInvalidInput then ValidationError ''content must be 1-10000 characters''
              else InternalError ''Failed to update comment'')
         (\<lambda>comment. Success 200 (CommentBody comment)))))"

definition Handler_DeleteComment :: "uuid_lib \<Rightarrow> request \<Rightarrow> social_body response prog" where
  "Handler_DeleteComment lib c = requirePrincipal c (\<lambda>p. pathUUID lib c ''id'' ''comment ID'' (\<lambda>commentID.
     answer (DeleteComment (pr_UserID p) (Principal_HasPermission p PermissionModerateContent) commentID)
       (\<lambda>e. if e = ErrCommentNotFound then NotFound ''Comment not found''
            else if e = ErrForbidden then forbidden ''You cannot delete this comment''
            else InternalError ''Failed to delete comment'')
       (\<lambda>_. Success 200 (MessageWithID ''Comment deleted'' commentID))))"

section \<open>Subscriptions\<close>

definition Handler_Subscribe :: "uuid_lib \<Rightarrow> request \<Rightarrow> social_body response prog" where
  "Handler_Subscribe lib c = requirePrincipal c (\<lambda>p. pathUUID lib c ''id'' ''user ID'' (\<lambda>creatorID.
     answer (Subscribe (pr_UserID p) creatorID)
       (\<lambda>e. if e = ErrSelfSubscription then ValidationError ''You cannot subscribe to yourself''
            else if e = ErrUserNotFound then NotFound ''User not found''
            else if e = ErrInvalidInput then Error 400 ''VALIDATION_ERROR'' (ErrText e)
            else InternalError ''Failed to subscribe'')
       (\<lambda>_. Success 200 (MessageWithID ''Subscribed'' creatorID))))"

definition Handler_Unsubscribe :: "uuid_lib \<Rightarrow> request \<Rightarrow> social_body response prog" where
  "Handler_Unsubscribe lib c = requirePrincipal c (\<lambda>p. pathUUID lib c ''id'' ''user ID'' (\<lambda>creatorID.
     answer (Unsubscribe (pr_UserID p) creatorID)
       (\<lambda>e. if e = ErrSubscriptionNotFound then NotFound ''You are not subscribed to this user'' else InternalError ''Failed to unsubscribe'')
       (\<lambda>_. Success 200 (MessageWithID ''Unsubscribed'' creatorID))))"

definition Handler_ListSubscribers :: "uuid_lib \<Rightarrow> request \<Rightarrow> social_body response prog" where
  "Handler_ListSubscribers lib c = pathUUID lib c ''id'' ''user ID'' (\<lambda>creatorID.
     answer_page (ListSubscribers creatorID (parsePage c)) (parsePage c)
       (\<lambda>e. if e = ErrUserNotFound then NotFound ''User not found'' else InternalError ''Failed to retrieve subscribers'')
       EntriesBody)"

definition Handler_ListMySubscriptions :: "request \<Rightarrow> social_body response prog" where
  "Handler_ListMySubscriptions c = requirePrincipal c (\<lambda>p.
     answer_page (ListSubscriptions (pr_UserID p) (parsePage c)) (parsePage c)
       (\<lambda>e. InternalError ''Failed to retrieve subscriptions'') EntriesBody)"

section \<open>Playlists\<close>

definition Handler_CreatePlaylist :: "request \<Rightarrow> (string \<times> string \<times> string) option \<Rightarrow> social_body response prog" where
  "Handler_CreatePlaylist c body = requirePrincipal c (\<lambda>p. bound body ''title is required'' (\<lambda>(title, description, visibility).
     answer (CreatePlaylist (pr_UserID p) (TrimSpace title) (TrimSpace description) (TrimSpace visibility))
       (\<lambda>e. if e = ErrInvalidInput
            then ValidationError ''title must be 1-255 characters and visibility one of: public, private, unlisted''
            else InternalError ''Failed to create playlist'')
       (\<lambda>playlist. Success 201 (PlaylistBody playlist))))"

definition Handler_GetPlaylist :: "uuid_lib \<Rightarrow> request \<Rightarrow> social_body response prog" where
  "Handler_GetPlaylist lib c = pathUUID lib c ''id'' ''playlist ID'' (\<lambda>playlistID.
     answer (GetPlaylist (viewerID c) playlistID)
       (\<lambda>e. if e = ErrPlaylistNotFound then NotFound ''Playlist not found'' else InternalError ''Failed to retrieve playlist'')
       (\<lambda>playlist. Success 200 (PlaylistBody playlist)))"

definition Handler_UpdatePlaylist ::
  "uuid_lib \<Rightarrow> request \<Rightarrow> (string option \<times> string option \<times> string option) option \<Rightarrow> social_body response prog" where
  "Handler_UpdatePlaylist lib c body = requirePrincipal c (\<lambda>p. pathUUID lib c ''id'' ''playlist ID'' (\<lambda>playlistID.
     bound body ''Invalid request body'' (\<lambda>(title, description, visibility).
       if title = None \<and> description = None \<and> visibility = None
       then State_Monad.return (ValidationError ''Provide at least one of: title, description, visibility'')
       else answer (UpdatePlaylist (pr_UserID p) playlistID title description visibility)
         (\<lambda>e. if e = ErrPlaylistNotFound then NotFound ''Playlist not found''
              else if e = ErrForbidden then forbidden ''Only the owner can edit a playlist''
              else if e = ErrInvalidInput
                then ValidationError ''title must be 1-255 characters and visibility one of: public, private, unlisted''
              else InternalError ''Failed to update playlist'')
         (\<lambda>playlist. Success 200 (PlaylistBody playlist)))))"

definition Handler_DeletePlaylist :: "uuid_lib \<Rightarrow> request \<Rightarrow> social_body response prog" where
  "Handler_DeletePlaylist lib c = requirePrincipal c (\<lambda>p. pathUUID lib c ''id'' ''playlist ID'' (\<lambda>playlistID.
     answer (DeletePlaylist (pr_UserID p) playlistID)
       (\<lambda>e. if e = ErrPlaylistNotFound then NotFound ''Playlist not found''
            else if e = ErrForbidden then forbidden ''Only the owner can delete a playlist''
            else InternalError ''Failed to delete playlist'')
       (\<lambda>_. Success 200 (MessageWithID ''Playlist deleted'' playlistID))))"

definition Handler_ListMyPlaylists :: "request \<Rightarrow> social_body response prog" where
  "Handler_ListMyPlaylists c = requirePrincipal c (\<lambda>p.
     answer_page (ListMyPlaylists (pr_UserID p) (parsePage c)) (parsePage c)
       (\<lambda>e. InternalError ''Failed to retrieve playlists'') PlaylistsBody)"

definition Handler_AddPlaylistVideo :: "uuid_lib \<Rightarrow> request \<Rightarrow> string option \<Rightarrow> social_body response prog" where
  "Handler_AddPlaylistVideo lib c body = requirePrincipal c (\<lambda>p. pathUUID lib c ''id'' ''playlist ID'' (\<lambda>playlistID.
     bound body ''video_id is required'' (\<lambda>raw. case ValidateUUID lib (TrimSpace raw) of
       Inl e \<Rightarrow> State_Monad.return (ValidationError ''Invalid video_id'')
     | Inr videoID \<Rightarrow> answer (AddPlaylistVideo (pr_UserID p) playlistID videoID)
         (\<lambda>e. if e = ErrPlaylistNotFound then NotFound ''Playlist not found''
              else if e = ErrForbidden then forbidden ''Only the owner can modify a playlist''
              else if e = ErrVideoNotFound then NotFound ''Video not found''
              else if e = ErrVideoAlreadyInPlaylist
                then Error 409 ''ALREADY_IN_PLAYLIST'' (Lit ''The video is already in this playlist'')
              else InternalError ''Failed to add video to playlist'')
         (\<lambda>entry. Success 201 (PlaylistVideoBody entry)))))"

definition Handler_RemovePlaylistVideo :: "uuid_lib \<Rightarrow> request \<Rightarrow> social_body response prog" where
  "Handler_RemovePlaylistVideo lib c = requirePrincipal c (\<lambda>p. pathUUID lib c ''id'' ''playlist ID'' (\<lambda>playlistID.
     pathUUID lib c ''videoId'' ''video ID'' (\<lambda>videoID.
       answer (RemovePlaylistVideo (pr_UserID p) playlistID videoID)
         (\<lambda>e. if e = ErrPlaylistNotFound then NotFound ''Playlist not found''
              else if e = ErrForbidden then forbidden ''Only the owner can modify a playlist''
              else if e = ErrPlaylistVideoNotFound then NotFound ''The video is not in this playlist''
              else InternalError ''Failed to remove video from playlist'')
         (\<lambda>_. Success 200 (MessageWithID ''Video removed from playlist'' videoID)))))"

definition Handler_ListPlaylistVideos :: "uuid_lib \<Rightarrow> request \<Rightarrow> social_body response prog" where
  "Handler_ListPlaylistVideos lib c = pathUUID lib c ''id'' ''playlist ID'' (\<lambda>playlistID.
     answer_page (ListPlaylistVideos (viewerID c) playlistID (parsePage c)) (parsePage c)
       (\<lambda>e. if e = ErrPlaylistNotFound then NotFound ''Playlist not found'' else InternalError ''Failed to retrieve playlist videos'')
       ItemsBody)"

section \<open>Watch later and notifications\<close>

definition Handler_AddWatchLater :: "uuid_lib \<Rightarrow> request \<Rightarrow> social_body response prog" where
  "Handler_AddWatchLater lib c = requirePrincipal c (\<lambda>p. pathUUID lib c ''id'' ''video ID'' (\<lambda>videoID.
     answer (AddWatchLater (pr_UserID p) videoID)
       (\<lambda>e. if e = ErrVideoNotFound then NotFound ''Video not found''
            else if e = ErrInvalidInput then Error 400 ''VALIDATION_ERROR'' (ErrText e)
            else InternalError ''Failed to save video'')
       (\<lambda>_. Success 200 (MessageWithID ''Saved to watch later'' videoID))))"

definition Handler_RemoveWatchLater :: "uuid_lib \<Rightarrow> request \<Rightarrow> social_body response prog" where
  "Handler_RemoveWatchLater lib c = requirePrincipal c (\<lambda>p. pathUUID lib c ''id'' ''video ID'' (\<lambda>videoID.
     answer (RemoveWatchLater (pr_UserID p) videoID)
       (\<lambda>e. if e = ErrWatchLaterNotFound then NotFound ''The video is not in your watch later list'' else InternalError ''Failed to remove video'')
       (\<lambda>_. Success 200 (MessageWithID ''Removed from watch later'' videoID))))"

definition Handler_ListWatchLater :: "request \<Rightarrow> social_body response prog" where
  "Handler_ListWatchLater c = requirePrincipal c (\<lambda>p.
     answer_page (ListWatchLater (pr_UserID p) (parsePage c)) (parsePage c)
       (\<lambda>e. InternalError ''Failed to retrieve watch later list'') LaterBody)"

definition Handler_ListNotifications :: "request \<Rightarrow> social_body response prog" where
  "Handler_ListNotifications c = requirePrincipal c (\<lambda>p.
     answer_page (ListNotifications (pr_UserID p) (Query c ''unread'' = ''true'') (parsePage c)) (parsePage c)
       (\<lambda>e. InternalError ''Failed to retrieve notifications'') NotificationsBody)"

definition Handler_UnreadNotificationCount :: "request \<Rightarrow> social_body response prog" where
  "Handler_UnreadNotificationCount c = requirePrincipal c (\<lambda>p.
     answer (UnreadNotificationCount (pr_UserID p)) (\<lambda>e. InternalError ''Failed to retrieve unread count'')
       (\<lambda>n. Success 200 (UnreadCount n)))"

definition Handler_MarkNotificationRead :: "uuid_lib \<Rightarrow> request \<Rightarrow> social_body response prog" where
  "Handler_MarkNotificationRead lib c = requirePrincipal c (\<lambda>p. pathUUID lib c ''id'' ''notification ID'' (\<lambda>notificationID.
     answer (MarkNotificationRead (pr_UserID p) notificationID)
       (\<lambda>e. if e = ErrNotificationNotFound then NotFound ''Notification not found'' else InternalError ''Failed to mark notification as read'')
       (\<lambda>_. Success 200 (MessageWithID ''Notification marked as read'' notificationID))))"

definition Handler_MarkAllNotificationsRead :: "request \<Rightarrow> social_body response prog" where
  "Handler_MarkAllNotificationsRead c = requirePrincipal c (\<lambda>p.
     answer (MarkAllNotificationsRead (pr_UserID p)) (\<lambda>e. InternalError ''Failed to mark notifications as read'')
       (\<lambda>n. Success 200 (MarkedAll ''All notifications marked as read'' n)))"

end
