(* ===== verification/SocialProps.thy ===== *)
theory SocialProps
  imports SocialHandlers SocialInv Samples
begin

text \<open>
  What the social features guarantee: who may touch comments and playlists, playlists as ordered lists of distinct
  videos, subscriptions, and what the endpoints disclose.
\<close>

section \<open>The endpoints as one interface\<close>

text \<open>One constructor per route of the social handler, with what was bound from the body.\<close>

datatype social_call = CallSetLike "bool option" | CallRemoveLike | CallGetLike
  | CallListComments | CallListReplies | CallCreateComment "(string \<times> string) option"
  | CallUpdateComment "string option" | CallDeleteComment
  | CallSubscribe | CallUnsubscribe | CallListSubscribers | CallListMySubscriptions
  | CallCreatePlaylist "(string \<times> string \<times> string) option" | CallGetPlaylist
  | CallUpdatePlaylist "(string option \<times> string option \<times> string option) option" | CallDeletePlaylist
  | CallListMyPlaylists | CallAddPlaylistVideo "string option" | CallRemovePlaylistVideo | CallListPlaylistVideos
  | CallAddWatchLater | CallRemoveWatchLater | CallListWatchLater
  | CallListNotifications | CallUnreadCount | CallMarkRead | CallMarkAllRead

fun social_api :: "uuid_lib \<Rightarrow> request \<Rightarrow> social_call \<Rightarrow> social_body response prog" where
  "social_api lib c (CallSetLike b) = Handler_SetLike lib c b"
| "social_api lib c CallRemoveLike = Handler_RemoveLike lib c"
| "social_api lib c CallGetLike = Handler_GetLike lib c"
| "social_api lib c CallListComments = Handler_ListComments lib c"
| "social_api lib c CallListReplies = Handler_ListReplies lib c"
| "social_api lib c (CallCreateComment b) = Handler_CreateComment lib c b"
| "social_api lib c (CallUpdateComment b) = Handler_UpdateComment lib c b"
| "social_api lib c CallDeleteComment = Handler_DeleteComment lib c"
| "social_api lib c CallSubscribe = Handler_Subscribe lib c"
| "social_api lib c CallUnsubscribe = Handler_Unsubscribe lib c"
| "social_api lib c CallListSubscribers = Handler_ListSubscribers lib c"
| "social_api lib c CallListMySubscriptions = Handler_ListMySubscriptions c"
| "social_api lib c (CallCreatePlaylist b) = Handler_CreatePlaylist c b"
| "social_api lib c CallGetPlaylist = Handler_GetPlaylist lib c"
| "social_api lib c (CallUpdatePlaylist b) = Handler_UpdatePlaylist lib c b"
| "social_api lib c CallDeletePlaylist = Handler_DeletePlaylist lib c"
| "social_api lib c CallListMyPlaylists = Handler_ListMyPlaylists c"
| "social_api lib c (CallAddPlaylistVideo b) = Handler_AddPlaylistVideo lib c b"
| "social_api lib c CallRemovePlaylistVideo = Handler_RemovePlaylistVideo lib c"
| "social_api lib c CallListPlaylistVideos = Handler_ListPlaylistVideos lib c"
| "social_api lib c CallAddWatchLater = Handler_AddWatchLater lib c"
| "social_api lib c CallRemoveWatchLater = Handler_RemoveWatchLater lib c"
| "social_api lib c CallListWatchLater = Handler_ListWatchLater c"
| "social_api lib c CallListNotifications = Handler_ListNotifications c"
| "social_api lib c CallUnreadCount = Handler_UnreadNotificationCount c"
| "social_api lib c CallMarkRead = Handler_MarkNotificationRead lib c"
| "social_api lib c CallMarkAllRead = Handler_MarkAllNotificationsRead c"

lemmas handler_defs = Handler_SetLike_def Handler_RemoveLike_def Handler_GetLike_def Handler_ListComments_def
  Handler_ListReplies_def Handler_CreateComment_def Handler_UpdateComment_def Handler_DeleteComment_def
  Handler_Subscribe_def Handler_Unsubscribe_def Handler_ListSubscribers_def Handler_ListMySubscriptions_def
  Handler_CreatePlaylist_def Handler_GetPlaylist_def Handler_UpdatePlaylist_def Handler_DeletePlaylist_def
  Handler_ListMyPlaylists_def Handler_AddPlaylistVideo_def Handler_RemovePlaylistVideo_def
  Handler_ListPlaylistVideos_def Handler_AddWatchLater_def Handler_RemoveWatchLater_def Handler_ListWatchLater_def
  Handler_ListNotifications_def Handler_UnreadNotificationCount_def Handler_MarkNotificationRead_def
  Handler_MarkAllNotificationsRead_def

lemmas service_defs = SetLike_def RemoveLike_def ListComments_def ListReplies_def parent_comment_def CreateComment_def
  UpdateComment_def DeleteComment_def Subscribe_def Unsubscribe_def ListSubscribers_def ListSubscriptions_def
  CreatePlaylist_def GetPlaylist_def ownedPlaylist_def UpdatePlaylist_def DeletePlaylist_def ListMyPlaylists_def
  AddPlaylistVideo_def RemovePlaylistVideo_def ListPlaylistVideos_def AddWatchLater_def RemoveWatchLater_def
  ListWatchLater_def ListNotifications_def UnreadNotificationCount_def MarkNotificationRead_def
  MarkAllNotificationsRead_def notify_def notifyForComment_def

lemmas read_defs = getBy_def VideoRepo_GetByID_def UserRepo_GetByID_def GetLike_def GetCommentByID_def listComments_def
  SocialRepo_ListComments_def CountComments_def SocialRepo_ListReplies_def CountReplies_def
  listSubscriptionEntries_def SocialRepo_ListSubscribers_def CountSubscribers_def SocialRepo_ListSubscriptions_def
  CountSubscriptions_def GetPlaylistByID_def ListPlaylistsByUser_def CountPlaylistsByUser_def
  SocialRepo_ListPlaylistVideos_def CountPlaylistVideos_def SocialRepo_ListWatchLater_def CountWatchLater_def
  SocialRepo_ListNotifications_def CountNotifications_def

section \<open>A call moves the tables along what its statements move them along\<close>

lemma social_api_steps:
  assumes r: "preorder r"
    and free: "\<And>l. steps (on_db r) (UpsertLike l)" "\<And>u v. steps (on_db r) (DeleteLike u v)"
      "\<And>x. steps (on_db r) (SocialRepo_CreateComment x)" "\<And>s. steps (on_db r) (CreateSubscription s)"
      "\<And>a b. steps (on_db r) (DeleteSubscription a b)" "\<And>p. steps (on_db r) (SocialRepo_CreatePlaylist p)"
      "\<And>x. steps (on_db r) (UpsertWatchLater x)" "\<And>u v. steps (on_db r) (DeleteWatchLater u v)"
      "\<And>n. steps (on_db r) (CreateNotification n)" "\<And>i u. steps (on_db r) (SocialRepo_MarkNotificationRead i u)"
      "\<And>u. steps (on_db r) (SocialRepo_MarkAllNotificationsRead u)"
    and guarded: "\<And>b. call = CallUpdateComment b \<Longrightarrow> steps (on_db r) (Handler_UpdateComment lib c b)"
      "call = CallDeleteComment \<Longrightarrow> steps (on_db r) (Handler_DeleteComment lib c)"
      "\<And>b. call = CallUpdatePlaylist b \<Longrightarrow> steps (on_db r) (Handler_UpdatePlaylist lib c b)"
      "call = CallDeletePlaylist \<Longrightarrow> steps (on_db r) (Handler_DeletePlaylist lib c)"
      "\<And>b. call = CallAddPlaylistVideo b \<Longrightarrow> steps (on_db r) (Handler_AddPlaylistVideo lib c b)"
      "call = CallRemovePlaylistVideo \<Longrightarrow> steps (on_db r) (Handler_RemovePlaylistVideo lib c)"
  shows "steps (on_db r) (social_api lib c call)"
  by (cases call; simp only: social_api.simps)
     (use guarded in \<open>(simp; fail) |
       (simp only: handler_defs service_defs read_defs Let_def,
        (intro steps_intros free preorder_on_db r)+)\<close>)+

lemma guarded_steps:
  assumes r: "preorder r"
    and writes: "\<And>i s. steps (on_db r) (UpdateCommentContent i s)" "\<And>i. steps (on_db r) (SoftDeleteComment i)"
      "\<And>p. steps (on_db r) (SocialRepo_UpdatePlaylist p)" "\<And>i. steps (on_db r) (SocialRepo_DeletePlaylist i)"
      "\<And>i v. steps (on_db r) (SocialRepo_AddPlaylistVideo i v)" "\<And>i v. steps (on_db r) (SocialRepo_RemovePlaylistVideo i v)"
  shows "steps (on_db r) (Handler_UpdateComment lib c cb)" "steps (on_db r) (Handler_DeleteComment lib c)"
    "steps (on_db r) (Handler_UpdatePlaylist lib c pb)" "steps (on_db r) (Handler_DeletePlaylist lib c)"
    "steps (on_db r) (Handler_AddPlaylistVideo lib c ab)" "steps (on_db r) (Handler_RemovePlaylistVideo lib c)"
  by (simp_all only: handler_defs service_defs read_defs Let_def)
     (intro steps_intros writes preorder_on_db r)+

text \<open>The handlers only move the tables along the invariant too, whatever happens between their statements.\<close>

lemma social_api_ok: "steps (on_db (keeping social_ok)) (social_api lib c call)"
  by (intro social_api_steps guarded_steps preorder_keeping social_intros)

section \<open>Frames of the statements\<close>

text \<open>What every statement but those on playlists leaves alone, and every statement but the edit and the
  deletion of a comment.\<close>

definition playlists_frame :: "db \<Rightarrow> db \<Rightarrow> bool" where
  "playlists_frame d d' = ((\<forall>i p. lookup p_ID i (db_playlists d) = Some p \<longrightarrow> lookup p_ID i (db_playlists d') = Some p)
     \<and> db_playlist_videos d' = db_playlist_videos d)"

definition same_comment :: "Comment \<Rightarrow> Comment \<Rightarrow> bool" where
  "same_comment k k' = (c_UserID k' = c_UserID k \<and> c_VideoID k' = c_VideoID k \<and> c_Content k' = c_Content k
     \<and> c_DeletedAt k' = c_DeletedAt k)"

definition video_owner :: "uuid \<Rightarrow> db \<Rightarrow> uuid option option" where
  "video_owner i d = map_option v_UserID (lookup v_ID i (db_videos d))"

definition comments_frame :: "db \<Rightarrow> db \<Rightarrow> bool" where
  "comments_frame d d' = ((\<forall>i k. lookup c_ID i (db_comments d) = Some k \<longrightarrow>
       (\<exists>k'. lookup c_ID i (db_comments d') = Some k' \<and> same_comment k k'))
     \<and> (\<forall>i. video_owner i d' = video_owner i d))"

lemma preorder_playlists_frame [simp]: "preorder playlists_frame"
  by (auto simp: preorder_def playlists_frame_def)

lemma preorder_comments_frame [simp]: "preorder comments_frame"
  by (rule preorderI) (force simp: comments_frame_def same_comment_def)+

lemma frame_bumps [simp]:
  "playlists_frame d (bump_like_count t k n d') = playlists_frame d d'"
  "playlists_frame d (bump_comment_count t k n d') = playlists_frame d d'"
  "playlists_frame d (bump_reply_count t k n d') = playlists_frame d d'"
  "playlists_frame d (bump_subscriber_count t k n d') = playlists_frame d d'"
  by (simp_all add: playlists_frame_def bump_defs)

lemma owner_bumps [simp]:
  "video_owner i (bump_like_count t k n d) = video_owner i d"
  "video_owner i (bump_comment_count t k n d) = video_owner i d"
  "video_owner i (bump_reply_count t k n d) = video_owner i d"
  "video_owner i (bump_subscriber_count t k n d) = video_owner i d"
  "video_owner i (bump_video_count t k n d) = video_owner i d"
  by (simp_all add: video_owner_def bump_defs lookup_modify option.map_comp comp_def)

lemma comment_frame_bumps [simp]:
  "comments_frame d (bump_like_count t k n d') = comments_frame d d'"
  "comments_frame d (bump_comment_count t k n d') = comments_frame d d'"
  "comments_frame d (bump_subscriber_count t k n d') = comments_frame d d'"
  "comments_frame d (bump_video_count t k n d') = comments_frame d d'"
  by (simp_all add: comments_frame_def) (simp_all add: bump_defs)

lemma comment_frame_bump_reply: "comments_frame d d' \<Longrightarrow> comments_frame d (bump_reply_count t k n d')"
  by (simp add: comments_frame_def bump_reply_count_def lookup_modify video_owner_def same_comment_def) force

lemma fold_bump_frame: "comments_frame d (fold (playlist_video_deleted t) xs d') = comments_frame d d'"
  by (induction xs arbitrary: d') (simp_all add: playlist_video_deleted_def)

lemmas write_defs = UpsertLike_def DeleteLike_def SocialRepo_CreateComment_def CreateSubscription_def
  DeleteSubscription_def SocialRepo_CreatePlaylist_def UpsertWatchLater_def DeleteWatchLater_def
  CreateNotification_def SocialRepo_MarkNotificationRead_def SocialRepo_MarkAllNotificationsRead_def
  UpdateCommentContent_def SoftDeleteComment_def delete_keyed_def

lemma playlists_frame_free:
  "steps (on_db playlists_frame) (UpsertLike l)" "steps (on_db playlists_frame) (DeleteLike u v)"
  "steps (on_db playlists_frame) (SocialRepo_CreateComment x)" "steps (on_db playlists_frame) (CreateSubscription s)"
  "steps (on_db playlists_frame) (DeleteSubscription u v)" "steps (on_db playlists_frame) (SocialRepo_CreatePlaylist p)"
  "steps (on_db playlists_frame) (UpsertWatchLater y)" "steps (on_db playlists_frame) (DeleteWatchLater u v)"
  "steps (on_db playlists_frame) (CreateNotification n)" "steps (on_db playlists_frame) (SocialRepo_MarkNotificationRead u v)"
  "steps (on_db playlists_frame) (SocialRepo_MarkAllNotificationsRead u)"
  "steps (on_db playlists_frame) (UpdateCommentContent u t)" "steps (on_db playlists_frame) (SoftDeleteComment u)"
  by (simp_all only: write_defs)
     ((intro steps_rows_or steps_run_stmt preorder_on_db preorder_playlists_frame,
       auto simp: trigger_defs Let_def preorder_refl playlists_frame_def bump_defs lookup_append split: if_splits option.splits)+)

lemma comments_frame_free:
  "steps (on_db comments_frame) (UpsertLike l)" "steps (on_db comments_frame) (DeleteLike u v)"
  "steps (on_db comments_frame) (CreateSubscription s)"
  "steps (on_db comments_frame) (DeleteSubscription u v)" "steps (on_db comments_frame) (SocialRepo_CreatePlaylist p)"
  "steps (on_db comments_frame) (UpsertWatchLater y)" "steps (on_db comments_frame) (DeleteWatchLater u v)"
  "steps (on_db comments_frame) (CreateNotification n)" "steps (on_db comments_frame) (SocialRepo_MarkNotificationRead u v)"
  "steps (on_db comments_frame) (SocialRepo_MarkAllNotificationsRead u)"
  by (simp_all only: write_defs)
     ((intro steps_rows_or steps_run_stmt preorder_on_db preorder_comments_frame,
       auto simp: trigger_defs Let_def preorder_refl split: if_splits option.splits;
       auto simp: comments_frame_def video_owner_def same_comment_def)+)

lemma comments_frame_more:
  "steps (on_db comments_frame) (SocialRepo_CreateComment x)"
  "steps (on_db comments_frame) (SocialRepo_UpdatePlaylist p)" "steps (on_db comments_frame) (SocialRepo_DeletePlaylist i)"
  "steps (on_db comments_frame) (SocialRepo_AddPlaylistVideo i v)"
  "steps (on_db comments_frame) (SocialRepo_RemovePlaylistVideo i v)"
proof -
  have app: "comments_frame d (d\<lparr> db_comments := db_comments d @ [y] \<rparr>)" for d y
    by (auto simp: comments_frame_def video_owner_def same_comment_def lookup_append)
  show "steps (on_db comments_frame) (SocialRepo_CreateComment x)"
    unfolding SocialRepo_CreateComment_def
    by (intro steps_run_stmt preorder_comments_frame)
       (auto simp: trigger_defs app intro!: comment_frame_bump_reply split: if_splits option.splits)
  show "steps (on_db comments_frame) (SocialRepo_UpdatePlaylist p)"
    unfolding SocialRepo_UpdatePlaylist_def
    by (intro steps_rows_or steps_run_stmt preorder_on_db preorder_comments_frame)
       (auto simp: comments_frame_def video_owner_def same_comment_def split: if_splits)
  show "steps (on_db comments_frame) (SocialRepo_DeletePlaylist i)"
    unfolding SocialRepo_DeletePlaylist_def drop_playlist_def
    by (intro steps_rows_or steps_run_stmt preorder_on_db preorder_comments_frame)
       (auto simp: Let_def fold_bump_frame preorder_refl split: if_splits;
        auto simp: comments_frame_def video_owner_def same_comment_def)
  show "steps (on_db comments_frame) (SocialRepo_AddPlaylistVideo i v)"
    unfolding SocialRepo_AddPlaylistVideo_def insert_playlist_video_def
    by (intro steps_intros steps_run_stmt preorder_on_db preorder_comments_frame)
       (auto simp: Let_def trigger_defs preorder_refl split: if_splits;
        auto simp: comments_frame_def video_owner_def same_comment_def)+
  show "steps (on_db comments_frame) (SocialRepo_RemovePlaylistVideo i v)"
    unfolding SocialRepo_RemovePlaylistVideo_def delete_keyed_def
    by (intro steps_rows_or steps_run_stmt preorder_on_db preorder_comments_frame)
       (auto simp: trigger_defs preorder_refl split: option.splits;
        auto simp: comments_frame_def video_owner_def same_comment_def)
qed

section \<open>A guard in front of a write\<close>

lemma steps_guard:
  assumes R: "preorder R"
    and g: "\<And>w. wp g (\<lambda>r w'. w_db w' = w_db w \<and> (\<forall>x. r = Inr x \<longrightarrow> P (w_db w) x)) w"
    and f: "\<And>x w. P (w_db w) x \<Longrightarrow> R (w_db w) (w_db (snd (run_state (f x) w)))"
  shows "steps (on_db R) (try_then g f)"
proof (rule stepsI)
  fix w
  have "wp (try_then g f) (\<lambda>_ w'. R (w_db w) (w_db w')) w"
    unfolding wp_try_then
  proof (rule wp_mono[OF g])
    fix r and w' :: world assume a: "w_db w' = w_db w \<and> (\<forall>x. r = Inr x \<longrightarrow> P (w_db w) x)"
    show "(case r of Inl e \<Rightarrow> R (w_db w) (w_db w') | Inr x \<Rightarrow> wp (f x) (\<lambda>_ w'. R (w_db w) (w_db w')) w')"
      using a f[of w'] by (auto simp: preorder_refl[OF R] intro!: wpI split: sum.splits)
  qed
  then show "on_db R w (snd (run_state (try_then g f) w))"
    by (auto simp: on_db_def dest: wpD)
qed

section \<open>Who may change a comment\<close>

definition by_author :: "request \<Rightarrow> Comment \<Rightarrow> bool" where
  "by_author c k = (map_option pr_UserID (PrincipalFrom c) = Some (c_UserID k))"

definition may_moderate :: "request \<Rightarrow> db \<Rightarrow> Comment \<Rightarrow> bool" where
  "may_moderate c d k = (case PrincipalFrom c of None \<Rightarrow> False
     | Some p \<Rightarrow> Principal_HasPermission p PermissionModerateContent
         \<or> video_owner (c_VideoID k) d = Some (Some (pr_UserID p)))"

definition comment_kept :: "request \<Rightarrow> uuid \<Rightarrow> db \<Rightarrow> db \<Rightarrow> bool" where
  "comment_kept c i d d' = (\<forall>k. lookup c_ID i (db_comments d) = Some k \<longrightarrow> \<not> by_author c k \<longrightarrow>
     (\<exists>k'. lookup c_ID i (db_comments d') = Some k' \<and> c_UserID k' = c_UserID k \<and> c_VideoID k' = c_VideoID k
        \<and> c_Content k' = c_Content k
        \<and> (c_DeletedAt k' = c_DeletedAt k \<or> may_moderate c d k)
        \<and> video_owner (c_VideoID k) d' = video_owner (c_VideoID k) d))"

lemma preorder_comment_kept [simp]: "preorder (comment_kept c i)"
proof (rule preorderI)
  fix d d' d'' assume a: "comment_kept c i d d'" and b: "comment_kept c i d' d''"
  show "comment_kept c i d d''" unfolding comment_kept_def
  proof (intro allI impI)
    fix k assume k: "lookup c_ID i (db_comments d) = Some k" "\<not> by_author c k"
    with a obtain k' where k': "lookup c_ID i (db_comments d') = Some k'" "c_UserID k' = c_UserID k"
      "c_VideoID k' = c_VideoID k" "c_Content k' = c_Content k" "c_DeletedAt k' = c_DeletedAt k \<or> may_moderate c d k"
      "video_owner (c_VideoID k) d' = video_owner (c_VideoID k) d"
      unfolding comment_kept_def by blast
    moreover have "\<not> by_author c k'" "may_moderate c d' k' = may_moderate c d k"
      using k k' by (simp_all add: by_author_def may_moderate_def split: option.splits)
    ultimately show "\<exists>k'. lookup c_ID i (db_comments d'') = Some k' \<and> c_UserID k' = c_UserID k \<and> c_VideoID k' = c_VideoID k
        \<and> c_Content k' = c_Content k \<and> (c_DeletedAt k' = c_DeletedAt k \<or> may_moderate c d k)
        \<and> video_owner (c_VideoID k) d'' = video_owner (c_VideoID k) d"
      using b unfolding comment_kept_def by fastforce
  qed
qed (simp add: comment_kept_def)

lemma comment_kept_frame: "steps (on_db comments_frame) m \<Longrightarrow> steps (on_db (comment_kept c i)) m"
  by (erule steps_mono) (fastforce simp: on_db_def comments_frame_def comment_kept_def same_comment_def)

lemma comment_kept_author: "lookup c_ID i (db_comments d) = Some k \<Longrightarrow> by_author c k \<Longrightarrow> comment_kept c i d d'"
  by (simp add: comment_kept_def)

text \<open>The edit and the deletion change row \<^verbatim>\<open>j\<close> and the counters of others.\<close>

definition row_frame :: "uuid \<Rightarrow> (Comment \<Rightarrow> Comment \<Rightarrow> bool) \<Rightarrow> db \<Rightarrow> db \<Rightarrow> bool" where
  "row_frame j F d d' = ((\<forall>i k. lookup c_ID i (db_comments d) = Some k \<longrightarrow>
       (\<exists>k'. lookup c_ID i (db_comments d') = Some k' \<and> c_UserID k' = c_UserID k \<and> c_VideoID k' = c_VideoID k
          \<and> (if i = j then F k k' else same_comment k k')))
     \<and> (\<forall>i. video_owner i d' = video_owner i d))"

lemma row_frame_bumps:
  "row_frame j F d (bump_comment_count t k n d') = row_frame j F d d'"
  by (simp add: row_frame_def) (simp add: bump_defs)

lemma row_frame_bump_reply:
  assumes "\<And>k k' n u. F k k' \<Longrightarrow> F k (k'\<lparr> c_ReplyCount := n, c_UpdatedAt := u \<rparr>)" "row_frame j F d d'"
  shows "row_frame j F d (bump_reply_count t p n d')"
proof -
  have o: "video_owner i (bump_reply_count t p n d') = video_owner i d'" for i by simp
  have "\<exists>k'. lookup c_ID i (db_comments (bump_reply_count t p n d')) = Some k' \<and> c_UserID k' = c_UserID k
      \<and> c_VideoID k' = c_VideoID k \<and> (if i = j then F k k' else same_comment k k')"
    if k: "lookup c_ID i (db_comments d) = Some k" for i k
  proof -
    from assms(2) k obtain k' where k': "lookup c_ID i (db_comments d') = Some k'" "c_UserID k' = c_UserID k"
      "c_VideoID k' = c_VideoID k" "if i = j then F k k' else same_comment k k'" unfolding row_frame_def by blast
    let ?k = "if i = p then k'\<lparr> c_ReplyCount := c_ReplyCount k' + n, c_UpdatedAt := t \<rparr> else k'"
    have "lookup c_ID i (db_comments (bump_reply_count t p n d')) = Some ?k"
      using k'(1) by (cases "i = p") (simp_all add: bump_reply_count_def lookup_modify)
    then show ?thesis using k' assms(1) by (auto simp: same_comment_def)
  qed
  moreover have "\<forall>i. video_owner i (bump_reply_count t p n d') = video_owner i d"
    using assms(2) o by (simp add: row_frame_def)
  ultimately show ?thesis unfolding row_frame_def by blast
qed

lemma row_replaced:
  assumes "lookup c_ID j (db_comments d) = Some k" "c_ID new = j" "F k new" "c_UserID new = c_UserID k" "c_VideoID new = c_VideoID k"
  shows "row_frame j F d (d\<lparr> db_comments := modify c_ID j (\<lambda>_. new) (db_comments d) \<rparr>)"
  using assms by (simp add: row_frame_def same_comment_def video_owner_def lookup_modify_const)

lemma preorder_row_frame: "preorder F \<Longrightarrow> preorder (row_frame j F)"
proof (rule preorderI)
  fix d d' d'' assume F: "preorder F" and a: "row_frame j F d d'" and b: "row_frame j F d' d''"
  have "\<exists>k'. lookup c_ID i (db_comments d'') = Some k' \<and> c_UserID k' = c_UserID k
      \<and> c_VideoID k' = c_VideoID k \<and> (if i = j then F k k' else same_comment k k')"
    if k: "lookup c_ID i (db_comments d) = Some k" for i k
  proof -
    from a k obtain k1 where k1: "lookup c_ID i (db_comments d') = Some k1" "c_UserID k1 = c_UserID k"
      "c_VideoID k1 = c_VideoID k" "if i = j then F k k1 else same_comment k k1" unfolding row_frame_def by blast
    from b k1(1) obtain k2 where "lookup c_ID i (db_comments d'') = Some k2" "c_UserID k2 = c_UserID k1"
      "c_VideoID k2 = c_VideoID k1" "if i = j then F k1 k2 else same_comment k1 k2" unfolding row_frame_def by blast
    then show ?thesis using k1 F by (auto simp: same_comment_def elim: preorder_trans)
  qed
  with a b show "row_frame j F d d''" unfolding row_frame_def by metis
qed (auto simp: row_frame_def same_comment_def preorder_refl)

lemma edit_row: "steps (on_db (row_frame j (\<lambda>k k'. True))) (UpdateCommentContent j s)"
proof -
  have p: "preorder (row_frame j (\<lambda>k k'. True))" by (intro preorder_row_frame preorderI) simp_all
  show ?thesis unfolding UpdateCommentContent_def
    by (intro steps_rows_or steps_run_stmt preorder_on_db p)
       (auto simp: Let_def comment_updated_def preorder_refl[OF p] dest!: live_comment_Some dest: lookup_key
         intro!: row_replaced split: option.splits if_splits)
qed

lemma delete_row: "steps (on_db (row_frame j (\<lambda>k k'. c_Content k' = c_Content k))) (SoftDeleteComment j)"
proof -
  let ?F = "row_frame j (\<lambda>k k'. c_Content k' = c_Content k)"
  have p: "preorder ?F" by (intro preorder_row_frame preorderI) simp_all
  have row: "lookup c_ID j (db_comments d) = Some k \<Longrightarrow>
      ?F d (d\<lparr> db_comments := modify c_ID j (\<lambda>_. k\<lparr> c_DeletedAt := Some t, c_UpdatedAt := t \<rparr>) (db_comments d) \<rparr>)" for d t k
    by (rule row_replaced, assumption) (auto dest: lookup_key)
  show ?thesis unfolding SoftDeleteComment_def
    by (intro steps_rows_or steps_run_stmt preorder_on_db p)
       (auto simp: Let_def comment_updated_def bump_parent_def preorder_refl[OF p] row_frame_bumps
         dest!: live_comment_Some intro!: row_frame_bump_reply row split: option.splits)
qed

lemma row_frame_kept: "row_frame j F d d' \<Longrightarrow> i \<noteq> j \<Longrightarrow> comment_kept c i d d'"
  unfolding row_frame_def comment_kept_def same_comment_def by metis

lemma row_frame_moderated:
  "row_frame j (\<lambda>k k'. c_Content k' = c_Content k) d d' \<Longrightarrow> lookup c_ID j (db_comments d) = Some k
   \<Longrightarrow> may_moderate c d k \<Longrightarrow> comment_kept c j d d'"
  unfolding row_frame_def comment_kept_def by fastforce

definition found_comment :: "uuid \<Rightarrow> db \<Rightarrow> Comment \<Rightarrow> bool" where
  "found_comment j d x = (\<exists>k. lookup c_ID j (db_comments d) = Some k \<and> c_UserID x = c_UserID k \<and> c_VideoID x = c_VideoID k)"

lemma wp_found_comment: "wp (GetCommentByID j) (\<lambda>r w'. w_db w' = w_db w \<and> (\<forall>x. r = Inr x \<longrightarrow> found_comment j (w_db w) x)) w"
  by (auto simp: GetCommentByID_def wp_simps Let_def joined_comment_def found_comment_def split: option.splits)

lemma kept_UpdateComment:
  assumes "PrincipalFrom c = Some p"
  shows "steps (on_db (comment_kept c i)) (UpdateComment (pr_UserID p) j s)"
  unfolding UpdateComment_def
proof (rule steps_guard[where P = "found_comment j", OF preorder_comment_kept wp_found_comment])
  fix x and w :: world assume x: "found_comment j (w_db w) x"
  let ?f = "if c_DeletedAt x \<noteq> None then State_Monad.return (Inl ErrCommentNotFound)
     else if c_UserID x \<noteq> pr_UserID p then State_Monad.return (Inl ErrForbidden)
     else if length s = 0 \<or> length s > 10000 then State_Monad.return (Inl ErrInvalidInput)
     else try_then (UpdateCommentContent j s) (\<lambda>_. GetCommentByID j)"
  show "comment_kept c i (w_db w) (w_db (snd (run_state ?f w)))"
  proof (cases "i = j \<and> c_UserID x = pr_UserID p")
    case True
    then obtain k where "lookup c_ID i (db_comments (w_db w)) = Some k" "by_author c k"
      using x assms by (auto simp: found_comment_def by_author_def)
    then show ?thesis by (rule comment_kept_author)
  next
    case False
    have "c_UserID x = pr_UserID p \<Longrightarrow> steps (on_db (comment_kept c i)) (UpdateCommentContent j s)"
      using False by (intro steps_mono[OF edit_row]) (auto simp: on_db_def dest: row_frame_kept)
    then have "steps (on_db (comment_kept c i)) ?f"
      unfolding GetCommentByID_def by (intro steps_intros preorder_on_db preorder_comment_kept) auto
    then show ?thesis by (simp add: steps_def on_db_def)
  qed
qed

lemma kept_SoftDelete:
  "(i = j \<Longrightarrow> lookup c_ID j (db_comments (w_db w)) = Some k \<and> (by_author c k \<or> may_moderate c (w_db w) k))
   \<Longrightarrow> comment_kept c i (w_db w) (w_db (snd (run_state (SoftDeleteComment j) w)))"
  using stepsD[OF delete_row[of j], of w] comment_kept_author row_frame_kept row_frame_moderated
  unfolding on_db_def by metis

lemma kept_DeleteComment:
  assumes "PrincipalFrom c = Some p"
  shows "steps (on_db (comment_kept c i)) (DeleteComment (pr_UserID p) (Principal_HasPermission p PermissionModerateContent) j)"
  unfolding DeleteComment_def
proof (rule steps_guard[where P = "found_comment j", OF preorder_comment_kept wp_found_comment])
  fix x and w :: world assume x: "found_comment j (w_db w) x"
  then obtain k where k: "lookup c_ID j (db_comments (w_db w)) = Some k" "c_UserID x = c_UserID k" "c_VideoID x = c_VideoID k"
    by (auto simp: found_comment_def)
  have own: "wp (VideoRepo_GetByID (c_VideoID k)) (\<lambda>r w'. w_db w' = w_db w \<and>
      (\<forall>v. r = Inr v \<longrightarrow> IsOwnedBy v (pr_UserID p) \<longrightarrow> may_moderate c (w_db w) k)) w"
    using k assms by (auto simp: VideoRepo_GetByID_def wp_simps Let_def may_moderate_def video_owner_def IsOwnedBy_def
        split: option.splits)
  let ?K = "\<lambda>_ w'. comment_kept c i (w_db w) (w_db w')"
  have sd: "by_author c k \<or> may_moderate c (w_db w) k \<Longrightarrow> w_db w' = w_db w \<Longrightarrow> wp (SoftDeleteComment j) ?K w'" for w'
    using kept_SoftDelete[where i = i and j = j and w = w' and k = k and c = c] k(1) by (auto intro!: wpI)
  have "wp (if c_DeletedAt x \<noteq> None then State_Monad.return (Inl ErrCommentNotFound)
     else if Principal_HasPermission p PermissionModerateContent \<or> c_UserID x = pr_UserID p then SoftDeleteComment j
     else do {
       r \<leftarrow> VideoRepo_GetByID (c_VideoID x);
       case r of
         Inl e \<Rightarrow> State_Monad.return (Inl (if e = ErrVideoNotFound then ErrForbidden else e))
       | Inr video \<Rightarrow> if IsOwnedBy video (pr_UserID p) then SoftDeleteComment j
           else State_Monad.return (Inl ErrForbidden)
     }) ?K w"
    using sd k assms
    by (auto simp: wp_simps by_author_def may_moderate_def preorder_refl intro!: wp_mono[OF own] split: sum.splits)
  then show "comment_kept c i (w_db w) (w_db (snd (run_state (if c_DeletedAt x \<noteq> None
     then State_Monad.return (Inl ErrCommentNotFound)
     else if Principal_HasPermission p PermissionModerateContent \<or> c_UserID x = pr_UserID p then SoftDeleteComment j
     else do {
       r \<leftarrow> VideoRepo_GetByID (c_VideoID x);
       case r of
         Inl e \<Rightarrow> State_Monad.return (Inl (if e = ErrVideoNotFound then ErrForbidden else e))
       | Inr video \<Rightarrow> if IsOwnedBy video (pr_UserID p) then SoftDeleteComment j
           else State_Monad.return (Inl ErrForbidden)
     }) w)))"
    by (rule wpD)
qed

lemma kept_social_api: "steps (on_db (comment_kept c i)) (social_api lib c call)"
proof (rule social_api_steps)
  show "steps (on_db (comment_kept c i)) (Handler_UpdateComment lib c b)" for b
    unfolding Handler_UpdateComment_def
    by (intro steps_intros preorder_on_db preorder_comment_kept kept_UpdateComment)
  show "steps (on_db (comment_kept c i)) (Handler_DeleteComment lib c)"
    unfolding Handler_DeleteComment_def
    by (intro steps_intros preorder_on_db preorder_comment_kept kept_DeleteComment)
  show "steps (on_db (comment_kept c i)) (Handler_UpdatePlaylist lib c b)" for b
    by (simp only: handler_defs service_defs read_defs Let_def)
       (intro steps_intros comment_kept_frame comments_frame_more preorder_on_db preorder_comment_kept)
  show "steps (on_db (comment_kept c i)) (Handler_DeletePlaylist lib c)"
    by (simp only: handler_defs service_defs read_defs Let_def)
       (intro steps_intros comment_kept_frame comments_frame_more preorder_on_db preorder_comment_kept)
  show "steps (on_db (comment_kept c i)) (Handler_AddPlaylistVideo lib c b)" for b
    by (simp only: handler_defs service_defs read_defs Let_def)
       (intro steps_intros comment_kept_frame comments_frame_more preorder_on_db preorder_comment_kept)
  show "steps (on_db (comment_kept c i)) (Handler_RemovePlaylistVideo lib c)"
    by (simp only: handler_defs service_defs read_defs Let_def)
       (intro steps_intros comment_kept_frame comments_frame_more preorder_on_db preorder_comment_kept)
qed (intro comment_kept_frame comments_frame_free comments_frame_more preorder_comment_kept)+

text \<open>C14: no call of the social API by anyone but its author changes the text of a comment, and none deletes
  it unless the caller is its author, owns the video it is on, or may moderate content.\<close>

theorem comments_guarded:
  assumes "lookup c_ID i (db_comments (w_db w)) = Some k" "\<not> by_author c k"
  shows "\<exists>k'. lookup c_ID i (db_comments (w_db (snd (run_state (social_api lib c call) w)))) = Some k'
    \<and> c_Content k' = c_Content k \<and> (c_DeletedAt k' = c_DeletedAt k \<or> may_moderate c (w_db w) k)"
  using stepsD[OF kept_social_api[where c = c and i = i and lib = lib and call = call], of w] assms unfolding on_db_def comment_kept_def by blast

section \<open>Who may change a playlist\<close>

definition by_owner :: "request \<Rightarrow> Playlist \<Rightarrow> bool" where
  "by_owner c p = (map_option pr_UserID (PrincipalFrom c) = Some (p_UserID p))"

definition entries :: "uuid \<Rightarrow> db \<Rightarrow> PlaylistVideo list" where
  "entries i d = filter (\<lambda>pv. pv_PlaylistID pv = i) (db_playlist_videos d)"

definition playlist_kept :: "request \<Rightarrow> uuid \<Rightarrow> db \<Rightarrow> db \<Rightarrow> bool" where
  "playlist_kept c i d d' = (\<forall>p. lookup p_ID i (db_playlists d) = Some p \<longrightarrow> \<not> by_owner c p \<longrightarrow>
     lookup p_ID i (db_playlists d') = Some p \<and> entries i d' = entries i d)"

lemma preorder_playlist_kept [simp]: "preorder (playlist_kept c i)"
  by (auto simp: preorder_def playlist_kept_def)

lemma playlist_kept_frame: "steps (on_db playlists_frame) m \<Longrightarrow> steps (on_db (playlist_kept c i)) m"
  by (erule steps_mono) (simp add: on_db_def playlists_frame_def playlist_kept_def entries_def)

lemma entries_simps [simp]:
  "entries i (bump_video_count t k n d) = entries i d"
  "entries i (d\<lparr> db_playlists := ps \<rparr>) = entries i d"
  "entries i (d\<lparr> db_playlist_videos := xs \<rparr>) = filter (\<lambda>pv. pv_PlaylistID pv = i) xs"
  "set (entries i d) = {pv \<in> set (db_playlist_videos d). pv_PlaylistID pv = i}"
  by (simp_all add: entries_def bump_defs)

lemma lookup_bump_video [simp]:
  "j \<noteq> i \<Longrightarrow> lookup p_ID i (db_playlists (bump_video_count t j n d)) = lookup p_ID i (db_playlists d)"
  by (simp add: bump_video_count_def lookup_modify)

lemma fold_drop [simp]:
  "entries i (fold (playlist_video_deleted t) xs d) = entries i d"
  "(\<forall>x \<in> set xs. pv_PlaylistID x \<noteq> i) \<Longrightarrow>
   lookup p_ID i (db_playlists (fold (playlist_video_deleted t) xs d)) = lookup p_ID i (db_playlists d)"
  by (induction xs arbitrary: d) (simp_all add: playlist_video_deleted_def)

lemma filter_remove_other:
  "j \<noteq> i \<Longrightarrow> filter (\<lambda>pv. pv_PlaylistID pv = i) (remove playlist_video_key (j, v) rows)
     = filter (\<lambda>pv. pv_PlaylistID pv = i) rows"
  by (induction rows) (auto simp: playlist_video_key_def)

lemma lookup_entry: "lookup playlist_video_key (j, v) rows = Some r \<Longrightarrow> pv_PlaylistID r = j"
  by (drule lookup_key) (simp add: playlist_video_key_def)

lemma filter_delete_other:
  "(\<And>r. p r \<Longrightarrow> \<not> q r) \<Longrightarrow> filter q (delete_rows p rows) = filter q rows"
  by (induction rows) auto

lemma kept_other_playlist:
  "p_ID x \<noteq> i \<Longrightarrow> steps (on_db (playlist_kept c i)) (SocialRepo_UpdatePlaylist x)"
  "j \<noteq> i \<Longrightarrow> steps (on_db (playlist_kept c i)) (SocialRepo_DeletePlaylist j)"
  "j \<noteq> i \<Longrightarrow> steps (on_db (playlist_kept c i)) (SocialRepo_AddPlaylistVideo j v)"
  "j \<noteq> i \<Longrightarrow> steps (on_db (playlist_kept c i)) (SocialRepo_RemovePlaylistVideo j v)"
proof -
  show "p_ID x \<noteq> i \<Longrightarrow> steps (on_db (playlist_kept c i)) (SocialRepo_UpdatePlaylist x)"
    unfolding SocialRepo_UpdatePlaylist_def
    by (intro steps_rows_or steps_run_stmt preorder_on_db preorder_playlist_kept)
       (auto simp: playlist_kept_def lookup_modify split: if_splits)
  show "j \<noteq> i \<Longrightarrow> steps (on_db (playlist_kept c i)) (SocialRepo_DeletePlaylist j)"
    unfolding SocialRepo_DeletePlaylist_def drop_playlist_def
    by (intro steps_rows_or steps_run_stmt preorder_on_db preorder_playlist_kept)
       (auto simp: playlist_kept_def Let_def lookup_remove filter_delete_other entries_def[symmetric] split: if_splits)
  show "j \<noteq> i \<Longrightarrow> steps (on_db (playlist_kept c i)) (SocialRepo_AddPlaylistVideo j v)"
    unfolding SocialRepo_AddPlaylistVideo_def insert_playlist_video_def
    by (intro steps_intros steps_run_stmt preorder_on_db preorder_playlist_kept)
       (auto simp: playlist_kept_def Let_def trigger_defs entries_def[symmetric] split: if_splits)
  show "j \<noteq> i \<Longrightarrow> steps (on_db (playlist_kept c i)) (SocialRepo_RemovePlaylistVideo j v)"
    unfolding SocialRepo_RemovePlaylistVideo_def delete_keyed_def
    by (intro steps_rows_or steps_run_stmt preorder_on_db preorder_playlist_kept)
       (auto simp: playlist_kept_def trigger_defs filter_remove_other entries_def[symmetric]
         dest: lookup_entry split: option.splits)
qed

definition own_playlist :: "uuid \<Rightarrow> uuid \<Rightarrow> db \<Rightarrow> Playlist \<Rightarrow> bool" where
  "own_playlist u j d x = (lookup p_ID j (db_playlists d) = Some x \<and> p_UserID x = u)"

lemma wp_own_playlist:
  "wp (ownedPlaylist u j) (\<lambda>r w'. w_db w' = w_db w \<and> (\<forall>x. r = Inr x \<longrightarrow> own_playlist u j (w_db w) x)) w"
  by (auto simp: ownedPlaylist_def GetPlaylistByID_def wp_simps Let_def own_playlist_def split: option.splits)

lemma steps_owned:
  assumes p: "PrincipalFrom c = Some p"
    and f: "\<And>x. p_ID x = j \<Longrightarrow> j \<noteq> i \<Longrightarrow> steps (on_db (playlist_kept c i)) (f x)"
  shows "steps (on_db (playlist_kept c i)) (try_then (ownedPlaylist (pr_UserID p) j) f)"
proof (rule steps_guard[where P = "own_playlist (pr_UserID p) j", OF preorder_playlist_kept wp_own_playlist])
  fix x and w :: world assume "own_playlist (pr_UserID p) j (w_db w) x"
  then have x: "lookup p_ID j (db_playlists (w_db w)) = Some x" "by_owner c x" "p_ID x = j"
    using p by (auto simp: own_playlist_def by_owner_def dest: lookup_key)
  show "playlist_kept c i (w_db w) (w_db (snd (run_state (f x) w)))"
  proof (cases "j = i")
    case True
    with x show ?thesis by (simp add: playlist_kept_def)
  next
    case False
    from stepsD[OF f[OF x(3) False], of w] show ?thesis by (simp add: on_db_def)
  qed
qed

lemma kept_playlist_api: "steps (on_db (playlist_kept c i)) (social_api lib c call)"
proof (rule social_api_steps)
  note io = steps_owned kept_other_playlist preorder_on_db preorder_playlist_kept
  show "steps (on_db (playlist_kept c i)) (Handler_UpdatePlaylist lib c b)" for b
    unfolding Handler_UpdatePlaylist_def UpdatePlaylist_def Let_def GetPlaylistByID_def
    by (intro steps_intros io) (auto split: option.splits)
  show "steps (on_db (playlist_kept c i)) (Handler_DeletePlaylist lib c)"
    unfolding Handler_DeletePlaylist_def DeletePlaylist_def by (intro steps_intros io)
  show "steps (on_db (playlist_kept c i)) (Handler_AddPlaylistVideo lib c b)" for b
    unfolding Handler_AddPlaylistVideo_def AddPlaylistVideo_def VideoRepo_GetByID_def by (intro steps_intros io)
  show "steps (on_db (playlist_kept c i)) (Handler_RemovePlaylistVideo lib c)"
    unfolding Handler_RemovePlaylistVideo_def RemovePlaylistVideo_def by (intro steps_intros io)
  show "steps (on_db (playlist_kept c i)) (Handler_UpdateComment lib c b)" for b
    by (simp only: handler_defs service_defs read_defs Let_def)
       (intro steps_intros playlist_kept_frame playlists_frame_free preorder_on_db preorder_playlist_kept)
  show "steps (on_db (playlist_kept c i)) (Handler_DeleteComment lib c)"
    by (simp only: handler_defs service_defs read_defs Let_def)
       (intro steps_intros playlist_kept_frame playlists_frame_free preorder_on_db preorder_playlist_kept)
qed (intro playlist_kept_frame playlists_frame_free preorder_playlist_kept)+

text \<open>C15: no call of the social API by anyone but its owner changes a playlist: its row stays as it is,
  and so do its entries and their order.\<close>

theorem playlists_guarded:
  assumes "lookup p_ID i (db_playlists (w_db w)) = Some p" "\<not> by_owner c p"
  shows "lookup p_ID i (db_playlists (w_db (snd (run_state (social_api lib c call) w)))) = Some p
    \<and> entries i (w_db (snd (run_state (social_api lib c call) w))) = entries i (w_db w)"
  using stepsD[OF kept_playlist_api[where c = c and i = i and lib = lib and call = call], of w] assms
  unfolding on_db_def playlist_kept_def by blast

section \<open>Private playlists\<close>

fun on_playlist :: "social_call \<Rightarrow> bool" where
  "on_playlist CallGetPlaylist = True"
| "on_playlist (CallUpdatePlaylist b) = True"
| "on_playlist CallDeletePlaylist = True"
| "on_playlist (CallAddPlaylistVideo b) = True"
| "on_playlist CallRemovePlaylistVideo = True"
| "on_playlist CallListPlaylistVideos = True"
| "on_playlist _ = False"

definition same_result :: "'a prog \<Rightarrow> world \<Rightarrow> world \<Rightarrow> bool" where
  "same_result m w w' = (fst (run_state m w) = fst (run_state m w'))"

lemma same_return [simp]: "same_result (State_Monad.return x) w w'"
  by (simp add: same_result_def)

lemma same_answer: "same_result m w w' \<Longrightarrow> same_result (answer m f g) w w'"
  by (simp add: same_result_def answer_def case_prod_unfold)

lemma same_answer_page: "same_result m w w' \<Longrightarrow> same_result (answer_page m pg f g) w w'"
  by (simp add: answer_page_def same_answer)

lemma same_refusal:
  assumes "wp g (\<lambda>r _. r = Inl e) w" "wp g (\<lambda>r _. r = Inl e) w'"
  shows "same_result (try_then g f) w w'"
  using wpD[OF assms(1)] wpD[OF assms(2)] by (simp add: same_result_def try_then_def case_prod_unfold)

lemma hidden_owned:
  assumes "lookup p_ID i (db_playlists (w_db w)) = Some p" "p_Visibility p = ''private''" "p_UserID p \<noteq> u"
    "lookup p_ID i (db_playlists d) = None"
  shows "same_result (try_then (ownedPlaylist u i) f) w (w\<lparr> w_db := d \<rparr>)"
  by (rule same_refusal[where e = "if outcome_at (w_env w) (w_tick w) = Done then ErrPlaylistNotFound
        else ErrOther ''getting playlist''"])
     (use assms in \<open>simp_all add: ownedPlaylist_def GetPlaylistByID_def wp_simps Let_def\<close>)

lemma wp_hidden_get:
  assumes "lookup p_ID i (db_playlists (w_db w)) = Some p" "p_Visibility p = ''private''" "viewer \<noteq> Some (p_UserID p)"
  shows "wp (GetPlaylist viewer i) (\<lambda>r _. r = Inl (if outcome_at (w_env w) (w_tick w) = Done then ErrPlaylistNotFound
        else ErrOther ''getting playlist'')) w"
  using assms by (auto simp: GetPlaylist_def GetPlaylistByID_def wp_simps Let_def split: option.splits)

lemma wp_missing_get:
  assumes "lookup p_ID i (db_playlists (w_db w)) = None"
  shows "wp (GetPlaylist viewer i) (\<lambda>r _. r = Inl (if outcome_at (w_env w) (w_tick w) = Done then ErrPlaylistNotFound
        else ErrOther ''getting playlist'')) w"
  using assms by (auto simp: GetPlaylist_def GetPlaylistByID_def wp_simps Let_def split: option.splits)

text \<open>C16: to anyone but its owner, a private playlist answers every request on it exactly as if it did not
  exist.\<close>

theorem private_playlist_hidden:
  assumes "on_playlist call" "ValidateUUID lib (rq_param c ''id'') = Inr i"
    and "lookup p_ID i (db_playlists (w_db w)) = Some p" "p_Visibility p = ''private''" "\<not> by_owner c p"
    and "lookup p_ID i (db_playlists d) = None"
  shows "fst (run_state (social_api lib c call) w) = fst (run_state (social_api lib c call) (w\<lparr> w_db := d \<rparr>))"
proof -
  have own: "same_result (try_then (ownedPlaylist (pr_UserID q) i) f) w (w\<lparr> w_db := d \<rparr>)"
    if "PrincipalFrom c = Some q" for q and f :: "Playlist \<Rightarrow> (err + 'z) prog"
    using assms that by (intro hidden_owned[where p = p]) (auto simp: by_owner_def)
  have v: "viewerID c \<noteq> Some (p_UserID p)" using assms(5) by (auto simp: by_owner_def viewerID_def)
  have get: "same_result (try_then (GetPlaylist (viewerID c) i) f) w (w\<lparr> w_db := d \<rparr>)" for f :: "Playlist \<Rightarrow> (err + 'z) prog"
    using same_refusal[OF wp_hidden_get[OF assms(3,4) v] wp_missing_get[of i "w\<lparr> w_db := d \<rparr>" "viewerID c", simplified]] assms(6)
    by simp
  have "same_result (GetPlaylist (viewerID c) i) w (w\<lparr> w_db := d \<rparr>)"
    using wpD[OF wp_hidden_get[OF assms(3,4) v]] wpD[OF wp_missing_get[of i "w\<lparr> w_db := d \<rparr>" "viewerID c"]] assms(6)
    by (simp add: same_result_def)
  then have "same_result (social_api lib c call) w (w\<lparr> w_db := d \<rparr>)"
    using assms(1)
    by (cases call; simp add: handler_defs pathUUID_def assms(2))
       (auto simp: requirePrincipal_def bound_def pathUUID_def UpdatePlaylist_def DeletePlaylist_def AddPlaylistVideo_def
          RemovePlaylistVideo_def ListPlaylistVideos_def
          intro!: own get same_answer same_answer_page split: option.splits sum.splits prod.splits)
  then show ?thesis by (simp add: same_result_def)
qed

section \<open>Playlists as lists of distinct videos\<close>

text \<open>The abstract playlist: its videos in the order they are listed.\<close>

definition videos_of :: "uuid \<Rightarrow> db \<Rightarrow> uuid list" where
  "videos_of i d = map pv_VideoID (sort_key pv_Position (entries i d))"

lemma videos_of_deleted [simp]: "videos_of i (playlist_video_deleted t x d) = videos_of i d"
  by (simp add: videos_of_def playlist_video_deleted_def)

lemma length_videos_of: "length (videos_of i d) = length (entries i d)"
  by (simp add: videos_of_def)

lemma videos_of_mem: "lookup playlist_video_key (i, v) (db_playlist_videos d) = Some x \<Longrightarrow> v \<in> set (videos_of i d)"
  by (force simp: videos_of_def playlist_video_key_def dest: lookup_key lookup_mem)

lemma videos_of_add:
  assumes "insert_playlist_video t j i v d = Inr (x, d')"
  shows "videos_of i d' = videos_of i d @ [v] \<and> v \<notin> set (videos_of i d)
    \<and> pv_VideoID x = v \<and> pv_PlaylistID x = i"
proof -
  have x: "x = \<lparr> pv_ID = j, pv_PlaylistID = i, pv_VideoID = v, pv_Position = next_position d i, pv_AddedAt = t \<rparr>"
    and d': "d' = bump_video_count t i 1 (d\<lparr> db_playlist_videos := db_playlist_videos d @ [x] \<rparr>)"
    and none: "lookup playlist_video_key (i, v) (db_playlist_videos d) = None"
    using assms by (auto simp: insert_playlist_video_def playlist_video_inserted_def Let_def split: if_splits)
  have e: "entries i d' = entries i d @ [x]" by (simp add: d' x entries_def[symmetric])
  have "\<forall>y \<in> set (entries i d). pv_Position y \<le> pv_Position x"
    using next_position_fresh[of _ d i] by (force simp: x)
  then have "videos_of i d' = videos_of i d @ [v]" by (simp add: videos_of_def e sort_key_last x)
  moreover have "v \<notin> set (videos_of i d)"
    using none by (auto simp: videos_of_def lookup_None playlist_video_key_def)
  ultimately show ?thesis by (simp add: x)
qed

lemma filter_remove_entry:
  "filter (\<lambda>pv. pv_PlaylistID pv = i) (remove playlist_video_key (i, v) rows)
     = filter (\<lambda>pv. v \<noteq> pv_VideoID pv) (filter (\<lambda>pv. pv_PlaylistID pv = i) rows)"
  by (induction rows) (auto simp: playlist_video_key_def)

lemma videos_of_remove:
  "videos_of i (d\<lparr> db_playlist_videos := remove playlist_video_key (i, v) (db_playlist_videos d) \<rparr>)
     = removeAll v (videos_of i d)"
proof -
  have "entries i (d\<lparr> db_playlist_videos := remove playlist_video_key (i, v) (db_playlist_videos d) \<rparr>)
      = filter (\<lambda>pv. v \<noteq> pv_VideoID pv) (entries i d)"
    unfolding entries_simps by (simp only: entries_def) (rule filter_remove_entry)
  then show ?thesis
    by (simp add: videos_of_def removeAll_filter_not_eq filter_sort[symmetric] filter_map comp_def)
qed

lemma videos_of_listing:
  assumes "refs_ok d"
  shows "map (\<lambda>x. v_ID (pi_Video x)) (sort_key pi_Position (List.map_filter (playlist_item d) (entries i d))) = videos_of i d"
proof -
  let ?g = "\<lambda>pv. the (playlist_item d pv)"
  have "\<exists>v. lookup v_ID (pv_VideoID pv) (db_videos d) = Some v \<and> v_ID v = pv_VideoID pv" if "pv \<in> set (entries i d)" for pv
  proof -
    have "pv_VideoID pv \<in> v_ID ` set (db_videos d)" using assms that by (auto simp: refs_ok_def)
    then obtain v where "lookup v_ID (pv_VideoID pv) (db_videos d) = Some v"
      by (cases "lookup v_ID (pv_VideoID pv) (db_videos d)") (auto simp: lookup_None)
    then show ?thesis by (blast dest: lookup_key)
  qed
  then have g: "pv \<in> set (entries i d) \<Longrightarrow> playlist_item d pv = Some (?g pv) \<and> pi_Position (?g pv) = pv_Position pv
      \<and> v_ID (pi_Video (?g pv)) = pv_VideoID pv" for pv
    by (fastforce simp: playlist_item_def)
  have "List.map_filter (playlist_item d) (entries i d) = map ?g (entries i d)"
    using g by (intro map_filter_all) blast
  moreover have "sort_key (\<lambda>pv. pi_Position (?g pv)) (entries i d) = sort_key pv_Position (entries i d)"
    using g by (intro sort_key_agree) auto
  ultimately show ?thesis
    using g by (simp add: sort_key_map videos_of_def)
qed

lemma videos_of_distinct: "keys_ok d \<Longrightarrow> distinct (videos_of i d)"
proof -
  assume "keys_ok d"
  then have "distinct (map playlist_video_key (db_playlist_videos d))" by (simp add: keys_ok_def)
  then have "distinct (map playlist_video_key (entries i d))" unfolding entries_def by (rule distinct_map_filter)
  moreover have "map playlist_video_key (entries i d) = map (\<lambda>v. (i, v)) (map pv_VideoID (entries i d))"
    by (simp add: playlist_video_key_def)
  ultimately have "distinct (map pv_VideoID (entries i d))" by (simp only: distinct_map[of "Pair i"])
  then show ?thesis
    by (simp add: videos_of_def distinct_map)
qed

text \<open>C17: a playlist is a list of distinct videos: adding appends, removing removes, listing returns the
  requested window of it with its length as the total, as long as the invariant holds.\<close>

theorem playlist_is_a_list:
  assumes "social_ok (w_db w)"
  shows "distinct (videos_of i (w_db w))
    \<and> (\<forall>x w'. run_state (AddPlaylistVideo u i v) w = (Inr x, w') \<longrightarrow>
         videos_of i (w_db w') = videos_of i (w_db w) @ [v] \<and> pv_VideoID x = v)
    \<and> (\<forall>w'. run_state (RemovePlaylistVideo u i v) w = (Inr (), w') \<longrightarrow>
         v \<in> set (videos_of i (w_db w)) \<and> videos_of i (w_db w') = remove1 v (videos_of i (w_db w)))
    \<and> (\<forall>items n w'. run_state (ListPlaylistVideos viewer i pg) w = (Inr (items, n), w') \<longrightarrow>
         map (\<lambda>x. v_ID (pi_Video x)) items = take (nat (Limit pg)) (drop (nat (Offset pg)) (videos_of i (w_db w)))
         \<and> n = length (videos_of i (w_db w)))"
proof (intro conjI allI impI)
  have ok: "keys_ok (w_db w)" "refs_ok (w_db w)" using assms by (simp_all add: social_ok_def)
  show dist: "distinct (videos_of i (w_db w))" using ok by (simp add: videos_of_distinct)
  have add: "wp (AddPlaylistVideo u i v) (\<lambda>r w'. \<forall>x. r = Inr x \<longrightarrow>
      videos_of i (w_db w') = videos_of i (w_db w) @ [v] \<and> pv_VideoID x = v) w"
    by (auto simp: AddPlaylistVideo_def ownedPlaylist_def GetPlaylistByID_def VideoRepo_GetByID_def
        SocialRepo_AddPlaylistVideo_def wp_simps Let_def wp_run_stmt dest!: videos_of_add
        split: option.splits sum.splits outcome.splits)
  have rem: "wp (RemovePlaylistVideo u i v) (\<lambda>r w'. r = Inr () \<longrightarrow>
      v \<in> set (videos_of i (w_db w)) \<and> videos_of i (w_db w') = removeAll v (videos_of i (w_db w))) w"
    by (auto simp: RemovePlaylistVideo_def ownedPlaylist_def GetPlaylistByID_def SocialRepo_RemovePlaylistVideo_def
        rows_or_def delete_keyed_def wp_simps Let_def wp_run_stmt videos_of_remove
        intro: videos_of_mem split: option.splits sum.splits outcome.splits)
  have list: "wp (ListPlaylistVideos viewer i pg) (\<lambda>r w'. \<forall>items n. r = Inr (items, n) \<longrightarrow>
      map (\<lambda>x. v_ID (pi_Video x)) items = take (nat (Limit pg)) (drop (nat (Offset pg)) (videos_of i (w_db w)))
      \<and> n = length (videos_of i (w_db w))) w"
    using videos_of_listing[OF ok(2), of i]
    by (auto simp: ListPlaylistVideos_def GetPlaylist_def GetPlaylistByID_def with_total_def window_def
        SocialRepo_ListPlaylistVideos_def CountPlaylistVideos_def wp_simps Let_def take_map[symmetric] drop_map[symmetric]
        entries_def[symmetric] length_videos_of
        split: option.splits sum.splits if_splits)
  show "videos_of i (w_db w') = videos_of i (w_db w) @ [v]" "pv_VideoID x = v"
    if "run_state (AddPlaylistVideo u i v) w = (Inr x, w')" for x w' using wp_result[OF add that] by auto
  show "v \<in> set (videos_of i (w_db w))" "videos_of i (w_db w') = remove1 v (videos_of i (w_db w))"
    if "run_state (RemovePlaylistVideo u i v) w = (Inr (), w')" for w'
    using wp_result[OF rem that] dist by (auto simp: distinct_remove1_removeAll)
  show "map (\<lambda>x. v_ID (pi_Video x)) items = take (nat (Limit pg)) (drop (nat (Offset pg)) (videos_of i (w_db w)))"
    "n = length (videos_of i (w_db w))"
    if "run_state (ListPlaylistVideos viewer i pg) w = (Inr (items, n), w')" for items n w'
    using wp_result[OF list that] by auto
qed

section \<open>Subscriptions\<close>

lemma wp_notify_subscriptions:
  "wp (notify n) (\<lambda>_ w'. db_subscriptions (w_db w') = db_subscriptions (w_db w)) w"
  by (auto simp: notify_def wp_simps Let_def CreateNotification_def wp_run_stmt split: option.splits outcome.splits sum.splits)

text \<open>subscribing to oneself is refused with nothing changed; subscribing again changes no table (so it
  notifies nobody twice); and success always leaves exactly one subscription of the pair.\<close>

theorem subscribe_once:
  assumes "run_state (Subscribe s c) w = (r, w')"
  shows "(s = c \<longrightarrow> r = Inl ErrSelfSubscription \<and> w' = w)
    \<and> (lookup subscription_key (s, c) (db_subscriptions (w_db w)) \<noteq> None \<longrightarrow> w_db w' = w_db w)
    \<and> (r = Inr () \<longrightarrow> (\<exists>x. lookup subscription_key (s, c) (db_subscriptions (w_db w')) = Some x
         \<and> (x \<in> set (db_subscriptions (w_db w)) \<or> db_subscriptions (w_db w') = db_subscriptions (w_db w) @ [x])))"
proof -
  let ?has = "lookup subscription_key (s, c) (db_subscriptions (w_db w))"
  let ?Q = "\<lambda>r w'. (s = c \<longrightarrow> r = Inl ErrSelfSubscription \<and> w' = w) \<and> (?has \<noteq> None \<longrightarrow> w_db w' = w_db w)
    \<and> (r = Inr () \<longrightarrow> (\<exists>x. lookup subscription_key (s, c) (db_subscriptions (w_db w')) = Some x
         \<and> (x \<in> set (db_subscriptions (w_db w)) \<or> db_subscriptions (w_db w') = db_subscriptions (w_db w) @ [x])))"
  have "wp (Subscribe s c) ?Q w"
  proof (cases "?has")
    case None
    then show ?thesis
      by (auto simp: Subscribe_def UserRepo_GetByID_def getBy_def wp_simps Let_def CreateSubscription_def wp_run_stmt
          subscription_key_def subscription_inserted_def bump_subscriber_count_def lookup_append
          intro!: wp_mono[OF wp_notify_subscriptions] split: option.splits outcome.splits sum.splits if_splits)
  next
    case (Some x)
    then show ?thesis
      by (auto simp: Subscribe_def UserRepo_GetByID_def getBy_def wp_simps Let_def CreateSubscription_def wp_run_stmt
          subscription_key_def dest: lookup_mem split: option.splits outcome.splits sum.splits if_splits)
  qed
  from wp_result[OF this assms] show ?thesis .
qed

section \<open>Visibility\<close>

definition with_visibility :: "VideoVisibility \<Rightarrow> world \<Rightarrow> world" where
  "with_visibility x w = w\<lparr> w_db := (w_db w)\<lparr> db_videos := map (\<lambda>v. v\<lparr> v_Visibility := x \<rparr>) (db_videos (w_db w)) \<rparr> \<rparr>"

lemma parsePage_principal: "parsePage (c\<lparr> rq_principal := q \<rparr>) = parsePage c"
  by (simp add: parsePage_def DefaultQuery_def)

lemma joined_comment_visibility: "joined_comment (d\<lparr> db_videos := vs \<rparr>) = joined_comment d"
  by (simp add: joined_comment_def fun_eq_iff)

text \<open>what the comment listing of a video answers depends neither on who asks nor on the visibility of
  the video: the comments of a private video are open to anyone who knows its identifier.\<close>

theorem comments_ignore_visibility:
  "fst (run_state (Handler_ListComments lib c) w)
   = fst (run_state (Handler_ListComments lib (c\<lparr> rq_principal := q \<rparr>)) (with_visibility x w))"
  by (simp add: Handler_ListComments_def pathUUID_def answer_page_def answer_def ListComments_def try_then_def
      with_total_def VideoRepo_GetByID_def row_or_def run_query_def Let_def lookup_map with_visibility_def
      SocialRepo_ListComments_def listComments_def page_query_def CountComments_def
      parsePage_principal joined_comment_visibility split: sum.splits outcome.splits option.splits)

section \<open>Concrete inputs\<close>

text \<open>Video 7 of user 1 is private; user 2 commented on it; user 1 keeps a private playlist with it.\<close>

definition sample_comment :: Comment where
  "sample_comment = \<lparr> c_ID = 20, c_VideoID = 7, c_UserID = 2, c_ParentID = None, c_Content = ''hello'', c_LikeCount = 0,
     c_ReplyCount = 0, c_Pinned = False, c_EditedAt = None, c_CreatedAt = 0, c_UpdatedAt = 0, c_DeletedAt = None,
     c_Username = '''', c_AvatarURL = '''' \<rparr>"

definition sample_playlist :: Playlist where
  "sample_playlist = \<lparr> p_ID = 30, p_UserID = 1, p_Title = ''mine'', p_Description = '''', p_Visibility = ''private'',
     p_VideoCount = 1, p_CreatedAt = 0, p_UpdatedAt = 0 \<rparr>"

definition social_db :: db where
  "social_db = empty_db\<lparr>
     db_videos := [(sample_video 7 1 VideoStatusReady VisibilityPrivate)\<lparr> v_CommentCount := 1 \<rparr>,
                   sample_video 8 1 VideoStatusReady VisibilityPublic],
     db_users := [sample_user 1 ''alice'' RoleUser, sample_user 2 ''bob'' RoleUser],
     db_comments := [sample_comment], db_playlists := [sample_playlist],
     db_playlist_videos := [\<lparr> pv_ID = 31, pv_PlaylistID = 30, pv_VideoID = 7, pv_Position = 0, pv_AddedAt = 0 \<rparr>] \<rparr>"

lemmas social_sample = social_db_def sample_comment_def sample_playlist_def as_user_def sample_defs

lemma social_db_ok: "social_ok social_db"
  by (simp add: social_ok_def keys_ok_def refs_ok_def counters_ok_def count_of_defs targets_defs social_sample)

lemma comments_guarded_witness:
  "\<exists>k'. lookup c_ID 20 (db_comments (w_db (snd (run_state
      (social_api sample_lib (sample_request (Some (as_user 3)) (nat_string 20)) CallDeleteComment) (calm_world social_db))))) = Some k'
     \<and> c_DeletedAt k' = None"
proof -
  have "lookup c_ID 20 (db_comments (w_db (calm_world social_db))) = Some sample_comment"
    "\<not> by_author (sample_request (Some (as_user 3)) (nat_string 20)) sample_comment"
    "\<not> may_moderate (sample_request (Some (as_user 3)) (nat_string 20)) (w_db (calm_world social_db)) sample_comment"
    "c_DeletedAt sample_comment = None"
    by (code_simp)+
  then show ?thesis using comments_guarded by metis
qed

lemma playlists_guarded_witness:
  "lookup p_ID 30 (db_playlists (w_db (snd (run_state
      (social_api sample_lib (sample_request (Some (as_user 2)) (nat_string 30)) CallDeletePlaylist) (calm_world social_db)))))
   = Some sample_playlist"
proof -
  have "lookup p_ID 30 (db_playlists (w_db (calm_world social_db))) = Some sample_playlist"
    "\<not> by_owner (sample_request (Some (as_user 2)) (nat_string 30)) sample_playlist"
    by (code_simp)+
  then show ?thesis using playlists_guarded by blast
qed

lemma private_playlist_hidden_witness:
  "fst (run_state (social_api sample_lib (sample_request (Some (as_user 2)) (nat_string 30)) CallGetPlaylist) (calm_world social_db))
   = fst (run_state (social_api sample_lib (sample_request (Some (as_user 2)) (nat_string 30)) CallGetPlaylist)
       ((calm_world social_db)\<lparr> w_db := empty_db \<rparr>))"
proof (rule private_playlist_hidden)
  show "lookup p_ID 30 (db_playlists (w_db (calm_world social_db))) = Some sample_playlist" by code_simp
  show "ValidateUUID sample_lib (rq_param (sample_request (Some (as_user 2)) (nat_string 30)) ''id'') = Inr 30"
    by (simp add: ValidateUUID_def sample_request_def)
  show "\<not> by_owner (sample_request (Some (as_user 2)) (nat_string 30)) sample_playlist" by code_simp
qed (simp_all add: social_sample)

lemma playlist_is_a_list_witness:
  "\<exists>x w'. run_state (AddPlaylistVideo 1 30 8) (calm_world social_db) = (Inr x, w') \<and> videos_of 30 (w_db w') = [7, 8]"
proof -
  have "case run_state (AddPlaylistVideo 1 30 8) (calm_world social_db) of (Inr x, w') \<Rightarrow> True | _ \<Rightarrow> False" by code_simp
  then obtain x w' where run: "run_state (AddPlaylistVideo 1 30 8) (calm_world social_db) = (Inr x, w')"
    by (auto split: prod.splits sum.splits)
  moreover have "videos_of 30 (w_db (calm_world social_db)) = [7]" by code_simp
  moreover have "social_ok (w_db (calm_world social_db))" using social_db_ok by (simp add: calm_world_def)
  ultimately show ?thesis using playlist_is_a_list[of "calm_world social_db" 30 1 8] by auto
qed

lemma subscribe_once_witness:
  "\<exists>w'. run_state (Subscribe 2 1) (calm_world social_db) = (Inr (), w')
     \<and> lookup subscription_key (2, 1) (db_subscriptions (w_db w')) \<noteq> None"
proof -
  have "fst (run_state (Subscribe 2 1) (calm_world social_db)) = Inr ()" by code_simp
  then obtain w' where run: "run_state (Subscribe 2 1) (calm_world social_db) = (Inr (), w')" by (metis prod.collapse)
  with subscribe_once[OF run] show ?thesis by auto
qed

end
