(* ===== verification/VideoHandlers.thy ===== *)
theory VideoHandlers
  imports Upload
begin

text \<open>
  The video endpoints (\<^verbatim>\<open>internal/handler/video_handler.go\<close>): upload, listing, reading, deletion and
  transcoding status, with the visibility rule they share with streaming.  The form fields of an
  upload arrive bound, \<^verbatim>\<open>None\<close> when there is no file part.
\<close>

record VideoHandler =
  vh_upload :: UploadService
  vh_matches :: text_match

definition vh_uuid :: "VideoHandler \<Rightarrow> uuid_lib" where
  "vh_uuid H = us_uuid (vh_upload H)"

text \<open>What the video and streaming endpoints send; a media file is its key, content type and
  Cache-Control header, served with range support by \<^verbatim>\<open>http.ServeContent\<close>.\<close>

record status_body =
  sb_id :: uuid
  sb_status :: VideoStatus
  sb_progress :: int
  sb_available_qualities :: "string list"
  sb_message :: string
  sb_thumbnail :: "string option"

datatype video_body = VideoBody Video | VideosBody "Video list" | StatusBody status_body | MessageBody string
  | PlaylistContent string | MediaFile string string string

section \<open>Upload\<close>

record upload_form =
  uf_file :: MultipartFile
  uf_header :: FileHeader
  uf_title :: string
  uf_description :: string
  uf_visibility :: string

definition respondUploadError :: "err \<Rightarrow> 'b response" where
  "respondUploadError e =
     (if e = V_ErrFileTooLarge \<or> e = ErrFileSizeTooLarge then Error 413 ''FILE_TOO_LARGE'' (ErrText e)
      else if e = V_ErrInvalidFormat \<or> e = ErrInvalidFormat \<or> e = V_ErrCorruptVideo then Error 415 ''INVALID_FORMAT'' (ErrText e)
      else if e = V_ErrInvalidTitle \<or> e = ErrInvalidTitle \<or> e = ErrTitleTooLong \<or> e = ErrInvalidInput
        then Error 400 ''VALIDATION_ERROR'' (ErrText e)
      else InternalError ''Failed to upload video'')"

definition Handler_Upload :: "VideoHandler \<Rightarrow> request \<Rightarrow> upload_form option \<Rightarrow> video_body response prog" where
  "Handler_Upload H c form = (case PrincipalFrom c of
     None \<Rightarrow> State_Monad.return (Unauthorized ''Authentication required to upload'')
   | Some p \<Rightarrow> (case form of
       None \<Rightarrow> State_Monad.return (ValidationError ''A video file is required'')
     | Some f \<Rightarrow> do {
         r \<leftarrow> UploadVideo (vh_upload H) \<lparr> ur_File = uf_file f, ur_Header = uf_header f, ur_Title = uf_title f,
                ur_Description = uf_description f, ur_OwnerID = pr_UserID p, ur_Visibility = uf_visibility f \<rparr>;
         case r of Inl e \<Rightarrow> State_Monad.return (respondUploadError e)
         | Inr video \<Rightarrow> do {
             _ \<leftarrow> EnqueueVideoProcessing (v_ID video) 0;
             State_Monad.return (Success 201 (VideoBody video))
           }
       }))"

section \<open>Reading\<close>

definition listFilter :: "request \<Rightarrow> VideoFilter" where
  "listFilter c =
     (let status = TrimSpace (Query c ''status'');
          f0 = \<lparr> vf_Status = (if status \<noteq> '''' then Some status else None), vf_OwnerID = None, vf_Visibility = None,
                 vf_Search = TrimSpace (Query c ''search'') \<rparr>
      in case PrincipalFrom c of
           Some p \<Rightarrow> if Query c ''mine'' = ''true'' then f0\<lparr> vf_OwnerID := Some (pr_UserID p) \<rparr>
             else f0\<lparr> vf_Visibility := Some VisibilityPublic \<rparr>
         | None \<Rightarrow> f0\<lparr> vf_Visibility := Some VisibilityPublic \<rparr>)"

definition ListVideos :: "VideoHandler \<Rightarrow> request \<Rightarrow> video_body response prog" where
  "ListVideos H c =
     (let page = parsePage c in do {
        r \<leftarrow> VideoRepo_List (vh_matches H) (listFilter c) page;
        case r of Inl e \<Rightarrow> State_Monad.return (InternalError ''Failed to retrieve videos'')
        | Inr videos \<Rightarrow> do {
            n \<leftarrow> VideoRepo_Count (vh_matches H) (listFilter c);
            State_Monad.return (case n of Inl e \<Rightarrow> InternalError ''Failed to retrieve videos''
              | Inr total_rows \<Rightarrow> SuccessWithList (VideosBody videos) (paginationMeta (int total_rows) page))
          }
      })"

definition canViewVideo :: "Principal option \<Rightarrow> Video \<Rightarrow> bool" where
  "canViewVideo viewer video =
     (if v_Visibility video \<noteq> VisibilityPrivate then True
      else case viewer of None \<Rightarrow> False
        | Some p \<Rightarrow> IsOwnedBy video (pr_UserID p) \<or> Principal_HasPermission p PermissionWatchPrivate)"

text \<open>\<^verbatim>\<open>loadVideo\<close> in front of the rest of a handler.\<close>

definition loadVideo :: "VideoHandler \<Rightarrow> request \<Rightarrow> (Video \<Rightarrow> 'b response prog) \<Rightarrow> 'b response prog" where
  "loadVideo H c k = (case ValidateUUID (vh_uuid H) (rq_param c ''id'') of
     Inl e \<Rightarrow> State_Monad.return (ValidationError ''Invalid video ID'')
   | Inr videoID \<Rightarrow> do {
       r \<leftarrow> VideoRepo_GetByID videoID;
       case r of Inl e \<Rightarrow> State_Monad.return (if e = ErrVideoNotFound then NotFound ''Video not found''
           else InternalError ''Failed to retrieve video'')
       | Inr video \<Rightarrow> k video
     })"

definition GetVideo :: "VideoHandler \<Rightarrow> request \<Rightarrow> video_body response prog" where
  "GetVideo H c = loadVideo H c (\<lambda>video.
     if \<not> canViewVideo (PrincipalFrom c) video then State_Monad.return (NotFound ''Video not found'')
     else State_Monad.return (Success 200 (VideoBody video)))"

definition statusMessage :: "VideoStatus \<Rightarrow> string" where
  "statusMessage status = (case status of VideoStatusProcessing \<Rightarrow> ''Video is being processed''
     | VideoStatusReady \<Rightarrow> ''Video is ready to stream'' | VideoStatusFailed \<Rightarrow> ''Video processing failed''
     | _ \<Rightarrow> ''Video is queued for processing'')"

definition GetVideoStatus :: "VideoHandler \<Rightarrow> request \<Rightarrow> video_body response prog" where
  "GetVideoStatus H c = loadVideo H c (\<lambda>video.
     if \<not> canViewVideo (PrincipalFrom c) video then State_Monad.return (NotFound ''Video not found'')
     else State_Monad.return (Success 200 (StatusBody \<lparr> sb_id = v_ID video, sb_status = v_Status video,
       sb_progress = v_TranscodingProgress video, sb_available_qualities = v_AvailableQualities video,
       sb_message = statusMessage (v_Status video), sb_thumbnail = v_ThumbnailPath video \<rparr>)))"

section \<open>Deletion\<close>

definition DeleteVideo :: "VideoHandler \<Rightarrow> request \<Rightarrow> video_body response prog" where
  "DeleteVideo H c = loadVideo H c (\<lambda>video. case PrincipalFrom c of
     None \<Rightarrow> State_Monad.return (Unauthorized ''Authentication required'')
   | Some p \<Rightarrow>
       if \<not> IsOwnedBy video (pr_UserID p) \<and> \<not> Principal_HasPermission p PermissionDeleteAnyVideo
       then State_Monad.return (Error 403 ''FORBIDDEN'' (Lit ''You may only delete your own videos''))
       else do {
         r \<leftarrow> VideoRepo_Delete (v_ID video);
         case r of Inl e \<Rightarrow> State_Monad.return (if e = ErrVideoNotFound then NotFound ''Video not found''
             else InternalError ''Failed to delete video'')
         | Inr _ \<Rightarrow> do {
             RemoveVideoFiles (vh_upload H) video;
             State_Monad.return (Success 200 (MessageBody ''Video deleted''))
           }
       })"

end
