(* ===== verification/Cache.thy ===== *)
theory Cache
  imports World
begin

text \<open>
  The two-tier cache (\<^verbatim>\<open>internal/cache/cache.go\<close>): the in-process \<^verbatim>\<open>LocalCache\<close>, a map bounded by
  eviction of the entry closest to expiry, in front of Redis.  The items are a list in the order a
  range over the map visits them, which the code leaves open; keys are unique.
\<close>

section \<open>The in-process tier\<close>

definition expired :: "cacheItem \<Rightarrow> time \<Rightarrow> bool" where
  "expired item now = (now > ci_expiresAt item)"

definition local_Delete :: "string \<Rightarrow> cacheItem list \<Rightarrow> cacheItem list" where
  "local_Delete key items = remove ci_key key items"

definition local_Get :: "time \<Rightarrow> string \<Rightarrow> cacheItem list \<Rightarrow> string option \<times> cacheItem list" where
  "local_Get now key items = (case lookup ci_key key items of None \<Rightarrow> (None, items)
     | Some item \<Rightarrow> if expired item now then (None, local_Delete key items) else (Some (ci_value item), items))"

text \<open>The range of \<^verbatim>\<open>evictOldestLocked\<close>: the first of the earliest.\<close>

fun earliest :: "cacheItem option \<Rightarrow> cacheItem list \<Rightarrow> cacheItem option" where
  "earliest found [] = found"
| "earliest found (item # items) = earliest (case found of None \<Rightarrow> Some item
     | Some victim \<Rightarrow> if ci_expiresAt item < ci_expiresAt victim then Some item else Some victim) items"

definition evictOldest :: "cacheItem list \<Rightarrow> cacheItem list" where
  "evictOldest items = (case earliest None items of None \<Rightarrow> items | Some victim \<Rightarrow> local_Delete (ci_key victim) items)"

definition local_Set :: "int \<Rightarrow> time \<Rightarrow> string \<Rightarrow> string \<Rightarrow> duration \<Rightarrow> cacheItem list \<Rightarrow> cacheItem list" where
  "local_Set limit now key v ttl items =
     (let items1 = (if lookup ci_key key items = None \<and> int (length items) \<ge> limit then evictOldest items else items);
          item = \<lparr> ci_key = key, ci_value = v, ci_expiresAt = now + ttl \<rparr>
      in if lookup ci_key key items1 = None then items1 @ [item] else modify ci_key key (\<lambda>_. item) items1)"

text \<open>One tick of the sweeper.\<close>

definition cleanup :: "time \<Rightarrow> cacheItem list \<Rightarrow> cacheItem list" where
  "cleanup now items = delete_rows (\<lambda>item. expired item now) items"

text \<open>The methods on the world; each reads the clock once.\<close>

definition LocalCache_Get :: "string \<Rightarrow> string option prog" where
  "LocalCache_Get key = do {
     now \<leftarrow> time_Now; w \<leftarrow> State_Monad.get;
     let (v, items) = local_Get now key (w_local w);
     State_Monad.set (w\<lparr> w_local := items \<rparr>);
     State_Monad.return v
   }"

definition LocalCache_Set :: "int \<Rightarrow> string \<Rightarrow> string \<Rightarrow> duration \<Rightarrow> unit prog" where
  "LocalCache_Set limit key v ttl = do {
     now \<leftarrow> time_Now;
     State_Monad.update (\<lambda>w. w\<lparr> w_local := local_Set limit now key v ttl (w_local w) \<rparr>)
   }"

definition LocalCache_Delete :: "string \<Rightarrow> unit prog" where
  "LocalCache_Delete key = State_Monad.update (\<lambda>w. w\<lparr> w_local := local_Delete key (w_local w) \<rparr>)"

section \<open>Both tiers\<close>

text \<open>\<^verbatim>\<open>cs_glob\<close> is the pattern match of Redis; an option of a TTL of zero means the default.\<close>

record CacheService =
  cs_max :: int
  cs_glob :: "string \<Rightarrow> string \<Rightarrow> bool"

definition defaultTTL :: duration where "defaultTTL = 5 * Minute"

definition Cache_Get :: "CacheService \<Rightarrow> string \<Rightarrow> (err + string option) prog" where
  "Cache_Get C key = do {
     found \<leftarrow> LocalCache_Get key;
     case found of Some data \<Rightarrow> State_Monad.return (Inr (Some data))
     | None \<Rightarrow> do {
         r \<leftarrow> redis_Get key;
         case r of Inl e \<Rightarrow> State_Monad.return (Inl e)
         | Inr None \<Rightarrow> State_Monad.return (Inr None)
         | Inr (Some data) \<Rightarrow> do {
             LocalCache_Set (cs_max C) key data Minute;
             State_Monad.return (Inr (Some data))
           }
       }
   }"

definition Cache_Set :: "CacheService \<Rightarrow> string \<Rightarrow> string \<Rightarrow> duration \<Rightarrow> bool \<Rightarrow> (err + unit) prog" where
  "Cache_Set C key v optTTL localCache = do {
     let ttl = (if optTTL = 0 then defaultTTL else optTTL);
     r \<leftarrow> redis_Set key v ttl;
     case r of Inl e \<Rightarrow> State_Monad.return (Inl e)
     | Inr _ \<Rightarrow> if localCache then do {
           LocalCache_Set (cs_max C) key v (if ttl > Minute then Minute else ttl);
           State_Monad.return (Inr ())
         } else State_Monad.return (Inr ())
   }"

definition Cache_Delete :: "string \<Rightarrow> (err + unit) prog" where
  "Cache_Delete key = do { LocalCache_Delete key; redis_Del key }"

text \<open>What the SCAN loop collects: the live keys that match, of the keys the iteration visits (an
  observation of the environment).\<close>

definition redis_Scan :: "(string \<Rightarrow> string \<Rightarrow> bool) \<Rightarrow> string \<Rightarrow> (err + string list) prog" where
  "redis_Scan glob pattern = State (\<lambda>w. let n = w_tick w; w' = w\<lparr> w_tick := Suc n \<rparr> in
     if outcome_at (w_env w) n = Done
     then (Inr (filter (\<lambda>k. glob pattern k \<and> redis_live (clock_at (w_env w) n) (w_redis w k) \<noteq> None) (walk_at (w_env w) n)), w')
     else (Inl (ErrOther ''redis scan error''), w'))"

definition redis_DelMany :: "string list \<Rightarrow> (err + unit) prog" where
  "redis_DelMany keys = run_put ''redis delete error''
     (\<lambda>t w. w\<lparr> w_redis := (\<lambda>k. if k \<in> set keys then None else w_redis w k) \<rparr>)"

definition DeletePattern :: "CacheService \<Rightarrow> string \<Rightarrow> (err + unit) prog" where
  "DeletePattern C pattern = try_then (redis_Scan (cs_glob C) pattern)
     (\<lambda>keys. if length keys > 0 then redis_DelMany keys else State_Monad.return (Inr ()))"

definition GetJSON :: "CacheService \<Rightarrow> (string \<Rightarrow> err + 'a) \<Rightarrow> string \<Rightarrow> (err + 'a) prog" where
  "GetJSON C unmarshal key = try_then (Cache_Get C key) (\<lambda>data. State_Monad.return
     (case data of None \<Rightarrow> Inl ErrCacheMiss | Some s \<Rightarrow> unmarshal s))"

definition SetJSON :: "CacheService \<Rightarrow> ('a \<Rightarrow> err + string) \<Rightarrow> string \<Rightarrow> 'a \<Rightarrow> duration \<Rightarrow> bool \<Rightarrow> (err + unit) prog" where
  "SetJSON C marshal key x optTTL localCache = (case marshal x of Inl e \<Rightarrow> State_Monad.return (Inl e)
     | Inr data \<Rightarrow> Cache_Set C key data optTTL localCache)"

definition Cache_Exists :: "string \<Rightarrow> (err + bool) prog" where
  "Cache_Exists key = do {
     found \<leftarrow> LocalCache_Get key;
     case found of Some _ \<Rightarrow> State_Monad.return (Inr True)
     | None \<Rightarrow> try_then (redis_Get key) (\<lambda>r. State_Monad.return (Inr (r \<noteq> None)))
   }"

section \<open>The in-process tier stays bounded\<close>

definition local_ok :: "int \<Rightarrow> cacheItem list \<Rightarrow> bool" where
  "local_ok limit items = (distinct (map ci_key items) \<and> int (length items) \<le> max 1 limit)"

lemma earliest_mem: "earliest found items = Some v \<Longrightarrow> v \<in> set items \<or> found = Some v"
  by (induction found items rule: earliest.induct) (auto split: option.splits if_splits)

lemma earliest_None: "earliest found items = None \<longleftrightarrow> found = None \<and> items = []"
  by (induction found items rule: earliest.induct) (auto split: option.splits if_splits)

lemma earliest_le:
  "earliest found items = Some v \<Longrightarrow> x \<in> set items \<or> found = Some x \<Longrightarrow> ci_expiresAt v \<le> ci_expiresAt x"
proof (induction found items arbitrary: x rule: earliest.induct)
  case (2 found item items)
  then show ?case by (fastforce split: option.splits if_splits)
qed auto

lemma evict_smaller:
  assumes "distinct (map ci_key items)" "items \<noteq> []"
  shows "Suc (length (evictOldest items)) = length items"
proof -
  obtain v where v: "earliest None items = Some v" using assms(2) by (cases "earliest None items") (auto simp: earliest_None)
  then have "v \<in> set items" using earliest_mem by fastforce
  with v show ?thesis using length_remove[OF assms(1), of "ci_key v"] by (simp add: evictOldest_def local_Delete_def)
qed

lemma evict_keys: "distinct (map ci_key items) \<Longrightarrow> distinct (map ci_key (evictOldest items))"
  by (auto simp: evictOldest_def local_Delete_def distinct_remove split: option.splits)

lemma local_ok_Set:
  assumes "local_ok limit items"
  shows "local_ok limit (local_Set limit now key v ttl items)"
proof (cases "lookup ci_key key items")
  case (Some x)
  then show ?thesis using assms
    by (simp add: local_ok_def local_Set_def Let_def map_modify_const)
next
  case None
  let ?e = "if int (length items) \<ge> limit then evictOldest items else items"
  have fresh: "key \<notin> ci_key ` set ?e"
    using None by (auto simp: lookup_None evictOldest_def local_Delete_def remove_def split: option.splits if_splits)
  moreover have "distinct (map ci_key ?e)" using assms by (auto simp: local_ok_def evict_keys)
  moreover have "int (length ?e) + 1 \<le> max 1 limit"
  proof (cases "items = []")
    case True
    then show ?thesis by (simp add: evictOldest_def)
  next
    case False
    then have "int (length items) \<ge> limit \<Longrightarrow> int (length (evictOldest items)) + 1 = int (length items)"
      using evict_smaller[of items] assms by (simp add: local_ok_def)
    with assms show ?thesis by (auto simp: local_ok_def)
  qed
  ultimately show ?thesis using None by (auto simp: local_ok_def local_Set_def Let_def lookup_None)
qed

section \<open>Rules\<close>

lemma wp_LocalCache_Get [wp_simps]:
  "wp (LocalCache_Get key) Q = (\<lambda>w. let w1 = w\<lparr> w_tick := Suc (w_tick w) \<rparr>;
     (v, items) = local_Get (clock_at (w_env w) (w_tick w)) key (w_local w) in Q v (w1\<lparr> w_local := items \<rparr>))"
  by (rule ext) (simp add: LocalCache_Get_def wp_simps Let_def split: prod.splits)

lemma wp_LocalCache_Set [wp_simps]:
  "wp (LocalCache_Set limit key v ttl) Q = (\<lambda>w. Q () (w\<lparr> w_tick := Suc (w_tick w),
     w_local := local_Set limit (clock_at (w_env w) (w_tick w)) key v ttl (w_local w) \<rparr>))"
  by (rule ext) (simp add: LocalCache_Set_def wp_simps)

lemma wp_LocalCache_Delete [wp_simps]:
  "wp (LocalCache_Delete key) Q = (\<lambda>w. Q () (w\<lparr> w_local := local_Delete key (w_local w) \<rparr>))"
  by (rule ext) (simp add: LocalCache_Delete_def wp_simps)

lemma wp_redis_Scan [wp_simps]:
  "wp (redis_Scan glob pat) Q = (\<lambda>w. let n = w_tick w; w' = w\<lparr> w_tick := Suc n \<rparr> in
     if outcome_at (w_env w) n = Done
     then Q (Inr (filter (\<lambda>k. glob pat k \<and> redis_live (clock_at (w_env w) n) (w_redis w k) \<noteq> None) (walk_at (w_env w) n))) w'
     else Q (Inl (ErrOther ''redis scan error'')) w')"
  by (rule ext) (simp add: redis_Scan_def wp_State Let_def)

lemma steps_LocalCache [steps_intros]:
  "preorder r \<Longrightarrow> steps (on_db r) (LocalCache_Get key)" "preorder r \<Longrightarrow> steps (on_db r) (LocalCache_Set limit key v ttl)"
  by (auto simp: steps_def on_db_def preorder_refl Let_def LocalCache_Get_def LocalCache_Set_def time_Now_def observe_def
      State_Monad.get_def State_Monad.set_def State_Monad.update_def split: prod.splits)

lemma steps_redis_Set [steps_intros]: "preorder r \<Longrightarrow> steps (on_db r) (redis_Set key v ttl)"
  unfolding redis_Set_def by (intro steps_run_put) simp_all

lemma steps_Cache [steps_intros]:
  "preorder r \<Longrightarrow> steps (on_db r) (Cache_Get C key)" "preorder r \<Longrightarrow> steps (on_db r) (Cache_Set C key v ttl l)"
  unfolding Cache_Get_def Cache_Set_def Let_def by (intro steps_intros preorder_on_db; assumption)+

section \<open>The invariant of the in-process tier\<close>

text \<open>Keys are unique, the bound holds, and every entry expires at most a minute after a past reading of
  the clock.\<close>

definition tier_ok :: "int \<Rightarrow> world \<Rightarrow> bool" where
  "tier_ok limit w = (local_ok limit (w_local w)
     \<and> (\<forall>item \<in> set (w_local w). \<exists>m < w_tick w. ci_expiresAt item \<le> clock_at (w_env w) m + Minute))"

definition tier_kept :: "int \<Rightarrow> world \<Rightarrow> world \<Rightarrow> bool" where
  "tier_kept limit w w' = (w_env w' = w_env w \<and> w_tick w \<le> w_tick w' \<and> (tier_ok limit w \<longrightarrow> tier_ok limit w'))"

lemma preorder_tier_kept [simp]: "preorder (tier_kept limit)"
  by (auto simp: preorder_def tier_kept_def)

lemma local_ok_subset: "local_ok limit items \<Longrightarrow> local_ok limit (local_Delete key items)"
proof -
  assume ok: "local_ok limit items"
  have "int (length (local_Delete key items)) \<le> int (length items)"
    by (simp add: local_Delete_def remove_def delete_rows_def)
  with ok show "local_ok limit (local_Delete key items)"
    unfolding local_ok_def by (auto simp: local_Delete_def distinct_remove)
qed

lemma tier_shrinks:
  "tier_ok limit w \<Longrightarrow> local_ok limit items \<Longrightarrow> set items \<subseteq> set (w_local w) \<Longrightarrow> w_local w' = items
   \<Longrightarrow> w_env w' = w_env w \<Longrightarrow> w_tick w \<le> w_tick w' \<Longrightarrow> tier_ok limit w'"
  unfolding tier_ok_def by (metis order_less_le_trans subsetD)

lemma local_Get_shrinks: "local_Get now key items = (v, items') \<Longrightarrow> local_ok limit items
   \<Longrightarrow> local_ok limit items' \<and> set items' \<subseteq> set items"
  by (auto simp: local_Get_def local_ok_subset split: option.splits if_splits) (auto simp: local_Delete_def set_remove)

lemma local_Set_items: "set (local_Set limit now key v ttl items)
   \<subseteq> insert \<lparr> ci_key = key, ci_value = v, ci_expiresAt = now + ttl \<rparr> (set items)"
  by (auto simp: local_Set_def Let_def evictOldest_def local_Delete_def set_remove set_modify split: option.splits if_splits)

lemma tier_LocalCache_Get: "steps (tier_kept limit) (LocalCache_Get key)"
proof (rule stepsI)
  fix w :: world
  have "wp (LocalCache_Get key) (\<lambda>_ w'. tier_kept limit w w') w"
  proof (cases "local_Get (clock_at (w_env w) (w_tick w)) key (w_local w)")
    case (Pair v items)
    have "tier_ok limit w \<Longrightarrow> local_ok limit items \<and> set items \<subseteq> set (w_local w)"
      using local_Get_shrinks[OF Pair] by (auto simp: tier_ok_def)
    with Pair show ?thesis by (auto simp: wp_simps Let_def tier_kept_def intro!: tier_shrinks[where w = w])
  qed
  then show "tier_kept limit w (snd (run_state (LocalCache_Get key) w))" by (rule wpD)
qed

lemma tier_LocalCache_Set:
  assumes "ttl \<le> Minute"
  shows "steps (tier_kept limit) (LocalCache_Set limit key v ttl)"
proof (rule stepsI)
  fix w :: world
  let ?items = "local_Set limit (clock_at (w_env w) (w_tick w)) key v ttl (w_local w)"
  have "\<forall>item \<in> set ?items. \<exists>m < Suc (w_tick w). ci_expiresAt item \<le> clock_at (w_env w) m + Minute" if "tier_ok limit w"
  proof
    fix item assume "item \<in> set ?items"
    then have "item = \<lparr> ci_key = key, ci_value = v, ci_expiresAt = clock_at (w_env w) (w_tick w) + ttl \<rparr> \<or> item \<in> set (w_local w)"
      using local_Set_items by blast
    then show "\<exists>m < Suc (w_tick w). ci_expiresAt item \<le> clock_at (w_env w) m + Minute"
      using that assms by (auto simp: tier_ok_def intro: less_SucI)
  qed
  then have "wp (LocalCache_Set limit key v ttl) (\<lambda>_ w'. tier_kept limit w w') w"
    by (auto simp: wp_simps tier_kept_def tier_ok_def local_ok_Set)
  then show "tier_kept limit w (snd (run_state (LocalCache_Set limit key v ttl) w))" by (rule wpD)
qed

lemma tier_LocalCache_Delete: "steps (tier_kept limit) (LocalCache_Delete key)"
  by (rule stepsI) (auto simp: LocalCache_Delete_def State_Monad.update_def State_Monad.get_def State_Monad.set_def
      tier_kept_def local_ok_subset local_Delete_def set_remove tier_ok_def local_ok_subset[unfolded local_Delete_def])

lemma tier_frame: "steps (\<lambda>w w'. w_env w' = w_env w \<and> w_tick w \<le> w_tick w' \<and> w_local w' = w_local w) m \<Longrightarrow> steps (tier_kept limit) m"
  by (erule steps_mono) (force simp: tier_kept_def tier_ok_def intro: order_less_le_trans)

lemma tier_redis:
  "steps (tier_kept limit) (redis_Get key)" "steps (tier_kept limit) (redis_Set key v ttl)"
  "steps (tier_kept limit) (redis_Del key)" "steps (tier_kept limit) (redis_Scan g p)" "steps (tier_kept limit) (redis_DelMany ks)"
  by (rule tier_frame, simp add: steps_def redis_Get_def redis_Set_def redis_Del_def redis_Scan_def redis_DelMany_def
      run_put_def Let_def split: outcome.splits)+

lemmas tier_intros = tier_LocalCache_Get tier_LocalCache_Set tier_LocalCache_Delete tier_redis preorder_tier_kept

lemma tier_ops:
  "steps (tier_kept (cs_max C)) (Cache_Get C key)" "steps (tier_kept (cs_max C)) (Cache_Set C key v ttl l)"
  "steps (tier_kept (cs_max C)) (Cache_Delete key)" "steps (tier_kept (cs_max C)) (DeletePattern C p)"
  "steps (tier_kept (cs_max C)) (Cache_Exists key)"
  unfolding Cache_Get_def Cache_Set_def Cache_Delete_def DeletePattern_def Cache_Exists_def Let_def
  by (intro steps_intros tier_intros; simp)+

end
