(* ===== verification/Streaming.thy ===== *)
theory Streaming
  imports VideoHandlers Cache
begin

text \<open>
  The streaming endpoints (\<^verbatim>\<open>internal/handler/streaming_handler.go\<close>): playlists through the cache,
  segments, MP4 files and thumbnails straight from the store, all behind the same visibility check.
\<close>

record StreamingHandler =
  sh_uuid :: uuid_lib
  sh_cache :: CacheService
  sh_store :: Store

definition playlistCacheTTL :: duration where "playlistCacheTTL = Hour"

definition transcodedKey :: "uuid_lib \<Rightarrow> uuid \<Rightarrow> string list \<Rightarrow> string" where
  "transcodedKey lib videoID parts = Key ([''transcoded'', uuid_String lib videoID] @ parts)"

definition isValidQuality :: "string \<Rightarrow> bool" where
  "isValidQuality quality = list_ex (\<lambda>q. q = quality) [''360p'', ''480p'', ''720p'', ''1080p'']"

text \<open>The regular expression \<^verbatim>\<open>^segment_\\d{3}\\.ts$\<close>.\<close>

definition isValidSegmentName :: "string \<Rightarrow> bool" where
  "isValidSegmentName segment = (length segment = 14 \<and> take 8 segment = ''segment_''
     \<and> list_all is_digit (take 3 (drop 8 segment)) \<and> drop 11 segment = ''.ts'')"

definition servePlaylistContent :: "string \<Rightarrow> video_body response" where
  "servePlaylistContent content = Success 200 (PlaylistContent content)"

text \<open>\<^verbatim>\<open>readObject\<close>: open, then read all of it.\<close>

definition readObject :: "StreamingHandler \<Rightarrow> string \<Rightarrow> (err + string) prog" where
  "readObject H key = try_then (sto_Open (sh_store H) key) (\<lambda>_. do {
     content \<leftarrow> observe read_at;
     State_Monad.return (case content of None \<Rightarrow> Inl (ErrOther ''reading object'') | Some s \<Rightarrow> Inr s)
   })"

definition servePlaylist :: "StreamingHandler \<Rightarrow> string \<Rightarrow> string \<Rightarrow> video_body response prog" where
  "servePlaylist H cacheKey key = do {
     cached \<leftarrow> Cache_Get (sh_cache H) cacheKey;
     let miss = do {
       r \<leftarrow> readObject H key;
       case r of Inl e \<Rightarrow> State_Monad.return (Error 404 ''PLAYLIST_NOT_FOUND'' (Lit ''Playlist file not found''))
       | Inr content \<Rightarrow> do {
           _ \<leftarrow> Cache_Set (sh_cache H) cacheKey content playlistCacheTTL True;
           State_Monad.return (servePlaylistContent content)
         }
     };
     case cached of
       Inr (Some data) \<Rightarrow> if length data > 0 then State_Monad.return (servePlaylistContent data) else miss
     | _ \<Rightarrow> miss
   }"

text \<open>Loading the video and the visibility check, as every handler has them.\<close>

definition viewable :: "request \<Rightarrow> uuid \<Rightarrow> (Video \<Rightarrow> 'b response prog) \<Rightarrow> 'b response prog" where
  "viewable c videoID k = do {
     r \<leftarrow> VideoRepo_GetByID videoID;
     case r of Inl e \<Rightarrow> State_Monad.return (if e = ErrVideoNotFound then NotFound ''Video not found''
         else InternalError ''Failed to retrieve video'')
     | Inr video \<Rightarrow> if \<not> canViewVideo (PrincipalFrom c) video then State_Monad.return (NotFound ''Video not found'') else k video
   }"

definition ServeMasterPlaylist :: "StreamingHandler \<Rightarrow> request \<Rightarrow> video_body response prog" where
  "ServeMasterPlaylist H c = pathUUID (sh_uuid H) c ''id'' ''video ID'' (\<lambda>videoID. viewable c videoID (\<lambda>video.
     if \<not> v_HLSReady video \<or> v_HLSMasterPath video = None
     then State_Monad.return (Error 404 ''HLS_NOT_READY'' (Lit ''HLS streaming not available for this video''))
     else servePlaylist H (''playlist:'' @ uuid_String (sh_uuid H) videoID @ '':master'')
            (transcodedKey (sh_uuid H) videoID [''hls'', ''master.m3u8''])))"

definition ServeQualityPlaylist :: "StreamingHandler \<Rightarrow> request \<Rightarrow> video_body response prog" where
  "ServeQualityPlaylist H c = pathUUID (sh_uuid H) c ''id'' ''video ID'' (\<lambda>videoID.
     let quality = rq_param c ''quality'' in
     if \<not> isValidQuality quality then State_Monad.return (ValidationError ''Invalid quality parameter'')
     else viewable c videoID (\<lambda>video.
       if \<not> v_HLSReady video then State_Monad.return (Error 404 ''HLS_NOT_READY'' (Lit ''HLS streaming not available''))
       else servePlaylist H (''playlist:'' @ uuid_String (sh_uuid H) videoID @ '':'' @ quality)
              (transcodedKey (sh_uuid H) videoID [''hls'', quality, ''playlist.m3u8''])))"

text \<open>Stat, open and serve an object with range support.\<close>

definition serveObject :: "StreamingHandler \<Rightarrow> string \<Rightarrow> video_body response \<Rightarrow> string \<Rightarrow> string \<Rightarrow> video_body response prog" where
  "serveObject H key missing contentType cacheControl = do {
     s \<leftarrow> sto_Stat (sh_store H) key;
     case s of Inl e \<Rightarrow> State_Monad.return missing
     | Inr _ \<Rightarrow> do {
         ob \<leftarrow> sto_Open (sh_store H) key;
         State_Monad.return (case ob of Inl e \<Rightarrow> missing | Inr _ \<Rightarrow> Success 200 (MediaFile key contentType cacheControl))
       }
   }"

definition ServeSegment :: "StreamingHandler \<Rightarrow> request \<Rightarrow> video_body response prog" where
  "ServeSegment H c = pathUUID (sh_uuid H) c ''id'' ''video ID'' (\<lambda>videoID.
     let quality = rq_param c ''quality''; segment = rq_param c ''segment'' in
     if \<not> isValidQuality quality then State_Monad.return (ValidationError ''Invalid quality parameter'')
     else if \<not> isValidSegmentName segment then State_Monad.return (ValidationError ''Invalid segment name'')
     else viewable c videoID (\<lambda>video.
       if \<not> v_HLSReady video then State_Monad.return (Error 404 ''HLS_NOT_READY'' (Lit ''HLS streaming not available''))
       else serveObject H (transcodedKey (sh_uuid H) videoID [''hls'', quality, segment])
              (Error 404 ''SEGMENT_NOT_FOUND'' (Lit ''Segment file not found''))
              ''video/MP2T'' ''public, max-age=31536000, immutable''))"

definition ServeMP4Fallback :: "StreamingHandler \<Rightarrow> request \<Rightarrow> video_body response prog" where
  "ServeMP4Fallback H c = pathUUID (sh_uuid H) c ''id'' ''video ID'' (\<lambda>videoID.
     let quality = rq_param c ''quality'' in
     if \<not> isValidQuality quality then State_Monad.return (ValidationError ''Invalid quality parameter'')
     else viewable c videoID (\<lambda>video.
       if v_Status video \<noteq> VideoStatusReady
       then State_Monad.return (Error 404 ''VIDEO_NOT_READY'' (Lit ''Video not ready for streaming''))
       else if \<not> list_ex (\<lambda>q. q = quality) (v_AvailableQualities video)
       then State_Monad.return (ValidationError ''Quality not available for this video'')
       else serveObject H (transcodedKey (sh_uuid H) videoID [quality @ ''.mp4''])
              (Error 404 ''FILE_NOT_FOUND'' (Lit ''Video file not found''))
              ''video/mp4'' ''public, max-age=3600''))"

definition ServeThumbnail :: "StreamingHandler \<Rightarrow> request \<Rightarrow> video_body response prog" where
  "ServeThumbnail H c = pathUUID (sh_uuid H) c ''id'' ''video ID'' (\<lambda>videoID. viewable c videoID (\<lambda>video.
     case v_ThumbnailPath video of None \<Rightarrow> State_Monad.return (NotFound ''Thumbnail not available'')
     | Some key \<Rightarrow> if key = '''' then State_Monad.return (NotFound ''Thumbnail not available'')
         else serveObject H key (NotFound ''Thumbnail not available'') ''image/jpeg'' ''public, max-age=86400, immutable''))"

definition ClearPlaylistCache :: "StreamingHandler \<Rightarrow> request \<Rightarrow> video_body response prog" where
  "ClearPlaylistCache H c = pathUUID (sh_uuid H) c ''id'' ''video ID'' (\<lambda>videoID.
     answer (DeletePattern (sh_cache H) (''playlist:'' @ uuid_String (sh_uuid H) videoID @ '':*''))
       (\<lambda>e. InternalError ''Failed to clear playlist cache'')
       (\<lambda>_. Success 200 (MessageBody ''Playlist cache cleared'')))"

end
