(* ===== verification/VideoProps.thy ===== *)
theory VideoProps
  imports Streaming Samples
begin

text \<open>
  Properties of the video endpoints, the uploads and the streaming endpoints: who sees what, who may
  delete, what an upload leaves behind, and what a media file that is served is.
\<close>

section \<open>Private videos\<close>

text \<open>The endpoints that read a video.\<close>

datatype video_call = ReadVideo | ReadStatus | ReadMaster | ReadQuality | ReadSegment | ReadMP4 | ReadThumbnail

fun video_read :: "VideoHandler \<Rightarrow> StreamingHandler \<Rightarrow> request \<Rightarrow> video_call \<Rightarrow> video_body response prog" where
  "video_read H S c ReadVideo = GetVideo H c"
| "video_read H S c ReadStatus = GetVideoStatus H c"
| "video_read H S c ReadMaster = ServeMasterPlaylist S c"
| "video_read H S c ReadQuality = ServeQualityPlaylist S c"
| "video_read H S c ReadSegment = ServeSegment S c"
| "video_read H S c ReadMP4 = ServeMP4Fallback S c"
| "video_read H S c ReadThumbnail = ServeThumbnail S c"

lemma run_GetByID:
  "run_state (VideoRepo_GetByID i) w = (if outcome_at (w_env w) (w_tick w) = Done
     then (case lookup v_ID i (db_videos (w_db w)) of None \<Rightarrow> Inl ErrVideoNotFound | Some v \<Rightarrow> Inr v)
     else Inl (ErrOther ''getting video''), w\<lparr> w_tick := Suc (w_tick w) \<rparr>)"
  by (simp add: VideoRepo_GetByID_def row_or_def run_query_def Let_def split: option.splits outcome.splits)

lemma wp_loadVideo:
  "wp (loadVideo H c k) Q w = (case ValidateUUID (vh_uuid H) (rq_param c ''id'') of
     Inl e \<Rightarrow> Q (ValidationError ''Invalid video ID'') w
   | Inr i \<Rightarrow> let w1 = w\<lparr> w_tick := Suc (w_tick w) \<rparr> in
       if outcome_at (w_env w) (w_tick w) = Done
       then (case lookup v_ID i (db_videos (w_db w)) of None \<Rightarrow> Q (NotFound ''Video not found'') w1 | Some v \<Rightarrow> wp (k v) Q w1)
       else Q (InternalError ''Failed to retrieve video'') w1)"
  by (simp add: loadVideo_def wp_def run_GetByID Let_def split: sum.splits option.splits)

text \<open>What a refusal by either guard answers.\<close>

definition not_there :: "world \<Rightarrow> 'b response" where
  "not_there w = (if outcome_at (w_env w) (w_tick w) = Done then NotFound ''Video not found''
     else InternalError ''Failed to retrieve video'')"

lemma run_viewable:
  assumes "\<And>v. lookup v_ID i (db_videos (w_db w)) = Some v \<Longrightarrow> \<not> canViewVideo (PrincipalFrom c) v"
  shows "run_state (viewable c i k) w = (not_there w, w\<lparr> w_tick := Suc (w_tick w) \<rparr>)"
  using assms by (simp add: viewable_def run_GetByID not_there_def split: option.splits)

lemma run_loadVideo:
  assumes "ValidateUUID (vh_uuid H) (rq_param c ''id'') = Inr i"
    and "\<And>v. lookup v_ID i (db_videos (w_db w)) = Some v \<Longrightarrow> \<not> canViewVideo (PrincipalFrom c) v"
  shows "run_state (loadVideo H c (\<lambda>video. if \<not> canViewVideo (PrincipalFrom c) video
       then State_Monad.return (NotFound ''Video not found'') else k video)) w
     = (not_there w, w\<lparr> w_tick := Suc (w_tick w) \<rparr>)"
  using assms by (simp add: loadVideo_def run_GetByID not_there_def split: option.splits)

lemma run_video_read:
  assumes "ValidateUUID (vh_uuid H) (rq_param c ''id'') = Inr i" "sh_uuid S = vh_uuid H"
    and "\<And>v. lookup v_ID i (db_videos (w_db w)) = Some v \<Longrightarrow> \<not> canViewVideo (PrincipalFrom c) v"
  shows "run_state (video_read H S c call) w =
     (if call \<in> {ReadQuality, ReadSegment, ReadMP4} \<and> \<not> isValidQuality (rq_param c ''quality'')
      then (ValidationError ''Invalid quality parameter'', w)
      else if call = ReadSegment \<and> \<not> isValidSegmentName (rq_param c ''segment'')
      then (ValidationError ''Invalid segment name'', w)
      else (not_there w, w\<lparr> w_tick := Suc (w_tick w) \<rparr>))"
  using assms
  by (cases call) (simp_all add: GetVideo_def GetVideoStatus_def run_loadVideo run_viewable pathUUID_def Let_def
      ServeMasterPlaylist_def ServeQualityPlaylist_def ServeSegment_def ServeMP4Fallback_def ServeThumbnail_def)

text \<open>C18: on each of the seven endpoints that read a video, a video the caller may not view answers exactly as
  if it did not exist, touches neither cache nor store, and takes the same calls.\<close>

theorem private_video_hidden:
  assumes "ValidateUUID (vh_uuid H) (rq_param c ''id'') = Inr i" "sh_uuid S = vh_uuid H"
    and "lookup v_ID i (db_videos (w_db w)) = Some v" "\<not> canViewVideo (PrincipalFrom c) v"
    and "lookup v_ID i (db_videos d) = None"
    and "run_state (video_read H S c call) w = (r, w')"
  shows "run_state (video_read H S c call) (w\<lparr> w_db := d \<rparr>) = (r, w'\<lparr> w_db := d \<rparr>)
    \<and> w_objects w' = w_objects w \<and> w_local w' = w_local w \<and> w_redis w' = w_redis w \<and> status_of r \<ge> 400"
proof -
  note there = run_video_read[OF assms(1,2), of w call] and gone = run_video_read[OF assms(1,2), of "w\<lparr> w_db := d \<rparr>" call]
  have t: "not_there (w\<lparr> w_db := d \<rparr>) = (not_there w :: video_body response)" "status_of (not_there w :: video_body response) \<ge> 400"
    by (simp_all add: not_there_def response_defs)
  show ?thesis using there gone assms(3-6) t by (auto simp: response_defs split: if_splits)
qed

section \<open>Listing\<close>

lemma sorted_window:
  "window pg rows = Inr xs \<Longrightarrow> sorted (map f rows) \<Longrightarrow> sorted (map f xs) \<and> set xs \<subseteq> set rows \<and> int (length xs) \<le> Limit pg"
  by (auto simp: window_def take_map[symmetric] drop_map[symmetric] sorted_wrt_take sorted_wrt_drop
      dest: in_set_takeD in_set_dropD split: if_splits)

lemma wp_VideoRepo_List:
  "wp (VideoRepo_List matches f pg) (\<lambda>r w'. w_db w' = w_db w \<and> (\<forall>vs. r = Inr vs \<longrightarrow>
     sorted (map (\<lambda>v. - v_CreatedAt v) vs) \<and> int (length vs) \<le> Limit pg
     \<and> (\<forall>v \<in> set vs. v \<in> set (db_videos (w_db w)) \<and> buildFilter matches f v))) w"
  using sorted_window[of pg "newest_first v_CreatedAt (filter (buildFilter matches f) (db_videos (w_db w)))" _ "\<lambda>v. - v_CreatedAt v"]
  by (auto simp: VideoRepo_List_def newest_first_def wp_simps Let_def split: sum.splits)

lemma wp_VideoRepo_Count:
  "wp (VideoRepo_Count matches f) (\<lambda>r w'. w_db w' = w_db w \<and> (\<forall>n. r = Inr n \<longrightarrow>
     n = length (filter (buildFilter matches f) (db_videos (w_db w))))) w"
  by (auto simp: VideoRepo_Count_def wp_simps Let_def)

definition may_list :: "request \<Rightarrow> Video \<Rightarrow> bool" where
  "may_list c v = (v_Visibility v = VisibilityPublic \<or> (\<exists>p. PrincipalFrom c = Some p \<and> v_UserID v = Some (pr_UserID p)))"

text \<open>C22: the listing shows public videos and the caller's own, nothing else: never a private or unlisted video
  of somebody else; at most a hundred, newest first; and the total it reports counts no others either.\<close>

theorem listing_shows_public_or_own:
  assumes "run_state (ListVideos H c) w = (SuccessWithList (VideosBody vs) m, w')"
  shows "sorted (map (\<lambda>v. - v_CreatedAt v) vs) \<and> length vs \<le> 100
    \<and> (\<forall>v \<in> set vs. v \<in> set (db_videos (w_db w)) \<and> may_list c v)
    \<and> pm_Total m \<le> int (length (filter (may_list c) (db_videos (w_db w))))"
proof -
  let ?Q = "\<lambda>r w'. \<forall>vs m. r = SuccessWithList (VideosBody vs) m \<longrightarrow> sorted (map (\<lambda>v. - v_CreatedAt v) vs) \<and> length vs \<le> 100
    \<and> (\<forall>v \<in> set vs. v \<in> set (db_videos (w_db w)) \<and> may_list c v)
    \<and> pm_Total m \<le> int (length (filter (may_list c) (db_videos (w_db w))))"
  have f: "buildFilter (vh_matches H) (listFilter c) v \<Longrightarrow> may_list c v" for v
    by (auto simp: listFilter_def Let_def buildFilter_def may_list_def split: option.splits if_splits)
  have fewer: "length (filter (buildFilter (vh_matches H) (listFilter c)) vs) \<le> length (filter (may_list c) vs)" for vs
    using f by (induction vs) auto
  have "wp (ListVideos H c) ?Q w"
    unfolding ListVideos_def Let_def wp_bind
    by (rule wp_mono[OF wp_VideoRepo_List])
       (use f fewer parsePage_limit[of c] in \<open>auto simp: wp_simps InternalError_def paginationMeta_def Let_def
          intro!: wp_mono[OF wp_VideoRepo_Count] split: sum.splits\<close>)
  from wp_result[OF this assms] show ?thesis by blast
qed

section \<open>Deletion\<close>

text \<open>A row up to the counters that deleting likes and comments moves.\<close>

definition meta :: "Video \<Rightarrow> Video" where
  "meta v = v\<lparr> v_LikeCount := 0, v_CommentCount := 0, v_UpdatedAt := 0 \<rparr>"

definition may_delete :: "request \<Rightarrow> Video \<Rightarrow> bool" where
  "may_delete c v = (\<exists>p. PrincipalFrom c = Some p \<and>
     (v_UserID v = Some (pr_UserID p) \<or> HasPermission (pr_Role p) PermissionDeleteAnyVideo))"

lemma map_modify_meta: "(\<And>v. meta (f v) = meta v) \<Longrightarrow> map meta (modify v_ID i f vs) = map meta vs"
  by (rule map_modify)

lemma meta_triggers:
  "map meta (db_videos (like_deleted t l d)) = map meta (db_videos d)"
  "map meta (db_videos (playlist_video_deleted t x d)) = map meta (db_videos d)"
  "map meta (db_videos (comment_deleted t k d)) = map meta (db_videos d)"
  by (auto simp: trigger_defs bump_defs map_modify meta_def split: option.splits)

lemma meta_folds:
  "map meta (db_videos (fold (like_deleted t) ls d)) = map meta (db_videos d)"
  "map meta (db_videos (fold (playlist_video_deleted t) xs d)) = map meta (db_videos d)"
  "map meta (db_videos (fold (comment_deleted t) ks d)) = map meta (db_videos d)"
  by (induction ls arbitrary: d, simp_all add: meta_triggers)
     (induction xs arbitrary: d, simp_all add: meta_triggers, induction ks arbitrary: d, simp_all add: meta_triggers)

lemma meta_cascade_comments: "map meta (db_videos (cascade_comments t roots d)) = map meta (db_videos d)"
  by (simp add: cascade_comments_def Let_def meta_folds)

lemma meta_cascade: "map meta (db_videos (cascade_video t i d)) = map meta (remove v_ID i (db_videos d))"
proof -
  let ?m = "\<lambda>d. map meta (db_videos d)"
  have bind: "?m a = r \<Longrightarrow> (\<And>x. ?m x = r \<Longrightarrow> ?m (f x) = r) \<Longrightarrow> ?m (Let a f) = r" for a :: db and f r
    by simp
  show ?thesis unfolding cascade_video_def
    by (rule bind, simp, rule bind, simp add: meta_folds, rule bind, simp add: meta_folds, rule bind,
        simp add: meta_cascade_comments, simp)
qed

lemma lookup_meta: "map meta vs = map meta vs' \<Longrightarrow> map_option meta (lookup v_ID i vs) = map_option meta (lookup v_ID i vs')"
proof (induction vs arbitrary: vs')
  case (Cons v vs)
  then obtain v' ws where w: "vs' = v' # ws" "meta v = meta v'" "map meta vs = map meta ws" by (cases vs') auto
  have "v_ID v = v_ID v'" using arg_cong[OF w(2), of v_ID] by (simp add: meta_def)
  with w Cons.IH[of ws] show ?case by simp
qed simp

lemma wp_VideoRepo_Delete:
  "wp (VideoRepo_Delete j) (\<lambda>r w'. (i \<noteq> j \<longrightarrow>
       map_option meta (lookup v_ID i (db_videos (w_db w'))) = map_option meta (lookup v_ID i (db_videos (w_db w))))
     \<and> (r = Inr () \<longrightarrow> lookup v_ID j (db_videos (w_db w')) = None)) w"
proof -
  have "map_option meta (lookup v_ID i (db_videos (cascade_video t j d)))
      = (if i = j then None else map_option meta (lookup v_ID i (db_videos d)))" for i t d
    using lookup_meta[OF meta_cascade, of i t j d] by (simp add: lookup_remove)
  moreover from this[of j] have "lookup v_ID j (db_videos (cascade_video t j d)) = None" for t d by simp
  moreover have "video_exists d j = (lookup v_ID j (db_videos d) \<noteq> None)" for d
    by (auto simp: video_exists_def lookup_None list_ex_iff)
  ultimately show ?thesis
    by (simp add: VideoRepo_Delete_def rows_or_def wp_simps wp_run_stmt affected_lookup_pos split: outcome.splits)
qed

lemma wp_fewer: "steps fewer_objects m \<Longrightarrow> wp m (\<lambda>_ w'. w_db w' = w_db w) w"
  by (drule steps_wp) (auto elim!: wp_mono simp: fewer_objects_def only_objects_def)

definition any_store :: "Store \<Rightarrow> bool" where
  "any_store s = ((\<exists>cfg. s = Local cfg) \<or> (\<exists>cfg. s = MinIO cfg))"

lemma wp_RemoveVideoFiles: "any_store (us_store S) \<Longrightarrow> wp (RemoveVideoFiles S v) (\<lambda>_ w'. w_db w' = w_db w) w"
  unfolding RemoveVideoFiles_def any_store_def
  by (intro wp_fewer steps_intros preorder_fewer_objects)
     (auto intro: local_store.Delete_fewer minio_store.Delete_fewer local_store.DeletePrefix_fewer minio_store.DeletePrefix_fewer)

text \<open>C21: a video its owner did not delete, nor anybody with the permission to delete any video, is still there
  after the request, the same up to its counters; a deletion that is answered with success has removed the row.\<close>

theorem delete_guarded:
  assumes "run_state (DeleteVideo H c) w = (r, w')" "any_store (us_store (vh_upload H))"
    and "lookup v_ID i (db_videos (w_db w)) = Some v"
  shows "(\<not> may_delete c v \<longrightarrow> map_option meta (lookup v_ID i (db_videos (w_db w'))) = Some (meta v))
    \<and> (\<forall>b. ValidateUUID (vh_uuid H) (rq_param c ''id'') = Inr i \<longrightarrow> r = Success 200 b \<longrightarrow>
         may_delete c v \<and> lookup v_ID i (db_videos (w_db w')) = None)"
proof -
  define Q :: "video_body response \<Rightarrow> world \<Rightarrow> bool" where "Q = (\<lambda>r w'. (\<not> may_delete c v \<longrightarrow>
       map_option meta (lookup v_ID i (db_videos (w_db w'))) = Some (meta v))
    \<and> (\<forall>b. ValidateUUID (vh_uuid H) (rq_param c ''id'') = Inr i \<longrightarrow> r = Success 200 b \<longrightarrow>
         may_delete c v \<and> lookup v_ID i (db_videos (w_db w')) = None))"
  have refused: "Q (Error s e m) w0" if "w_db w0 = w_db w" for s e m w0 using that assms(3) by (simp add: Q_def)
  have tail: "wp (State_Monad.bind (VideoRepo_Delete j) (\<lambda>r. case r of
       Inl e \<Rightarrow> State_Monad.return (if e = ErrVideoNotFound then NotFound ''Video not found'' else InternalError ''Failed to delete video'')
     | Inr _ \<Rightarrow> State_Monad.bind (RemoveVideoFiles (vh_upload H) x) (\<lambda>_. State_Monad.return (Success 200 (MessageBody ''Video deleted''))))) Q w0"
    if "w_db w0 = w_db w" "i = j \<longrightarrow> may_delete c v" "ValidateUUID (vh_uuid H) (rq_param c ''id'') = Inr j" for j x w0
    unfolding wp_bind
    by (rule wp_mono[OF wp_VideoRepo_Delete[where i = i]])
       (use that assms(3) in \<open>auto simp: Q_def wp_simps response_defs intro!: wp_mono[OF wp_RemoveVideoFiles[OF assms(2)]] split: sum.splits\<close>)
  have k: "lookup v_ID j (db_videos (w_db w)) = Some x \<Longrightarrow> v_ID x = j" for j x by (rule lookup_key)
  have "wp (DeleteVideo H c) Q w"
    unfolding DeleteVideo_def wp_loadVideo Let_def
    by (auto simp: wp_return wp_if wp_case_option response_defs may_delete_def k IsOwnedBy_def Principal_HasPermission_def
        assms(3) split: option.split sum.split intro!: tail refused)
  from wp_result[OF this assms(1)] show ?thesis by (simp only: Q_def)
qed


section \<open>Uploads\<close>

text \<open>What a successful upload leaves in the tables.\<close>

definition recorded :: "UploadService \<Rightarrow> UploadRequest \<Rightarrow> Video \<Rightarrow> db \<Rightarrow> db \<Rightarrow> bool" where
  "recorded S req v d d' =
     (d' = d\<lparr> db_videos := db_videos d @ [video_row v] \<rparr> \<and> lookup v_ID (v_ID v) (db_videos d) = None
      \<and> v_Status v = VideoStatusUploading
      \<and> v_UserID v = (if ur_OwnerID req = Nil_uuid then None else Some (ur_OwnerID req))
      \<and> v_Title v = TrimSpace (ur_Title req) \<and> v_Description v = TrimSpace (ur_Description req)
      \<and> v_FileSize v = fh_Size (ur_Header req)
      \<and> v_Visibility v = (if ur_Visibility req = '''' then VisibilityPublic else visibility_of_name (ur_Visibility req)))"

text \<open>What validation let through.\<close>

definition acceptable :: "UploadService \<Rightarrow> UploadRequest \<Rightarrow> bool" where
  "acceptable S req =
     (1024 \<le> fh_Size (ur_Header req) \<and> fh_Size (ur_Header req) \<le> MaxFileSize (us_storageCfg S)
      \<and> ToLower (us_unicode S) (path_Ext (fh_Filename (ur_Header req))) \<in> set [''.mp4'', ''.mov'', ''.avi'', ''.mkv'', ''.webm'']
      \<and> mf_seekable (ur_File req) \<and> (\<exists>buf. mf_head (ur_File req) = Some buf \<and> isVideoFile buf)
      \<and> TrimSpace (ur_Title req) \<noteq> '''' \<and> length (TrimSpace (ur_Title req)) \<le> 255
      \<and> length (TrimSpace (ur_Description req)) \<le> 5000
      \<and> VideoVisibility_IsValid (if ur_Visibility req = '''' then VisibilityPublic else visibility_of_name (ur_Visibility req)))"

text \<open>The name a file is stored under: a fresh UUID, the first thing the upload draws, with the extension of the
  client's file name and nothing else of it.\<close>

definition generated_name :: "UploadService \<Rightarrow> FileHeader \<Rightarrow> world \<Rightarrow> string" where
  "generated_name S header w = uuid_String (us_uuid S) (uuid_at (w_env w) (w_tick w))
     @ ToLower (us_unicode S) (path_Ext (fh_Filename header))"

lemma ValidateVideoFile_ok:
  "ValidateVideoFile U file header limit = None \<Longrightarrow>
   1024 \<le> fh_Size header \<and> fh_Size header \<le> limit
     \<and> ToLower U (path_Ext (fh_Filename header)) \<in> set [''.mp4'', ''.mov'', ''.avi'', ''.mkv'', ''.webm'']
     \<and> mf_seekable file \<and> (\<exists>buf. mf_head file = Some buf \<and> isVideoFile buf)"
  by (auto simp: ValidateVideoFile_def allowedExtensions_def Let_def split: if_splits option.splits)

lemma NewVideo_ok:
  "NewVideo i t1 t2 title description filename filePath mime sz = Inr v \<Longrightarrow>
   v_ID v = i \<and> v_Status v = VideoStatusUploading \<and> v_Title v = title \<and> title \<noteq> [] \<and> length title \<le> 255 \<and> v_Description v = description \<and> v_FileSize v = sz \<and> v_FilePath v = filePath
   \<and> v_UserID v = None"
  by (auto simp: NewVideo_def Video_Validate_def Let_def split: option.splits if_splits)

lemma wp_probe_upload:
  "wp (probe_upload S path v) (\<lambda>v' w'. w_db w' = w_db w \<and> w_jobs w' = w_jobs w \<and> w_objects w' = w_objects w
     \<and> w_env w' = w_env w \<and> w_tick w \<le> w_tick w'
     \<and> v_ID v' = v_ID v \<and> v_Status v' = v_Status v \<and> v_UserID v' = v_UserID v \<and> v_Title v' = v_Title v
     \<and> v_Description v' = v_Description v \<and> v_FileSize v' = v_FileSize v \<and> v_Visibility v' = v_Visibility v \<and> v_FilePath v' = v_FilePath v) w"
  by (auto simp: probe_upload_def ExtractMetadata_def wp_simps split: option.splits sum.splits)

lemma wp_VideoRepo_Create:
  "wp (VideoRepo_Create v) (\<lambda>r w'. w_jobs w' = w_jobs w \<and> w_objects w' = w_objects w \<and> w_env w' = w_env w
     \<and> w_tick w' = Suc (w_tick w)
     \<and> (case r of Inr _ \<Rightarrow> w_db w' = (w_db w)\<lparr> db_videos := db_videos (w_db w) @ [video_row v] \<rparr>
            \<and> lookup v_ID (v_ID v) (db_videos (w_db w)) = None
        | Inl e \<Rightarrow> outcome_at (w_env w) (w_tick w) \<noteq> Lost \<longrightarrow> w_db w' = w_db w)) w"
  by (auto simp: VideoRepo_Create_def wp_run_stmt video_exists_def list_ex_iff lookup_None
      split: outcome.splits sum.splits option.splits if_splits)

lemma wp_record_upload:
  "wp (record_upload S req title description visibility path) (\<lambda>r w'. w_jobs w' = w_jobs w \<and> w_objects w' = w_objects w
     \<and> w_env w' = w_env w \<and> w_tick w \<le> w_tick w'
     \<and> (case r of Inr v \<Rightarrow> w_db w' = (w_db w)\<lparr> db_videos := db_videos (w_db w) @ [video_row v] \<rparr>
            \<and> lookup v_ID (v_ID v) (db_videos (w_db w)) = None \<and> v_Status v = VideoStatusUploading
            \<and> v_UserID v = (if ur_OwnerID req = Nil_uuid then None else Some (ur_OwnerID req))
            \<and> v_Title v = title \<and> title \<noteq> [] \<and> length title \<le> 255 \<and> v_Description v = description
            \<and> v_FileSize v = fh_Size (ur_Header req) \<and> v_Visibility v = visibility \<and> v_FilePath v = path
        | Inl e \<Rightarrow> (\<forall>n. outcome_at (w_env w) n \<noteq> Lost) \<longrightarrow> w_db w' = w_db w)) w"
  by (auto simp: record_upload_def wp_return wp_bind wp_uuid_New wp_time_Now wp_case_sum Let_def
        split: sum.splits dest!: NewVideo_ok intro!: wp_mono[OF wp_probe_upload] wp_mono[OF wp_VideoRepo_Create])


text \<open>Over any object store: the file is stored and recorded, or taken away again.\<close>

context object_store begin

lemma wp_persistFile:
  assumes "us_store S = store"
  shows "wp (persistFile S header) (\<lambda>r w'. only_objects w w' \<and> (case r of
       Inl e \<Rightarrow> (\<forall>n. outcome_at (w_env w) n \<noteq> Lost) \<longrightarrow> w_objects w' = w_objects w
     | Inr (key, path) \<Rightarrow> (\<exists>f n. f = generated_name S header w \<and> key = Key [''raw'', f] \<and> path = path_Join [UploadPath (us_storageCfg S), ''raw'', f]
         \<and> name_of key = Some n \<and> n \<in> set (w_objects w') \<and> set (w_objects w') \<subseteq> insert n (set (w_objects w))))) w"
  unfolding persistFile_def assms
  by (auto simp: wp_bind wp_uuid_New wp_return Let_def only_objects_def with_one_def generated_name_def
      intro!: wp_mono[OF Save_result] split: sum.splits)

lemma wp_store_upload:
  assumes "us_store S = store"
  shows "wp (store_upload S req title description visibility) (\<lambda>r w'. w_jobs w' = w_jobs w \<and> w_env w' = w_env w \<and> (case r of
       Inr v \<Rightarrow> w_db w' = (w_db w)\<lparr> db_videos := db_videos (w_db w) @ [video_row v] \<rparr>
            \<and> lookup v_ID (v_ID v) (db_videos (w_db w)) = None \<and> v_Status v = VideoStatusUploading
            \<and> v_UserID v = (if ur_OwnerID req = Nil_uuid then None else Some (ur_OwnerID req))
            \<and> v_Title v = title \<and> title \<noteq> [] \<and> length title \<le> 255 \<and> v_Description v = description
            \<and> v_FileSize v = fh_Size (ur_Header req) \<and> v_Visibility v = visibility
            \<and> (\<exists>f n. f = generated_name S (ur_Header req) w \<and> v_FilePath v = path_Join [UploadPath (us_storageCfg S), ''raw'', f]
                \<and> name_of (Key [''raw'', f]) = Some n \<and> n \<in> set (w_objects w'))
     | Inl e \<Rightarrow> (\<forall>n. outcome_at (w_env w) n \<noteq> Lost) \<longrightarrow> w_db w' = w_db w
          \<and> (outcome_at (w_env w) (w_tick w' - 1) = Done \<longrightarrow> set (w_objects w') \<subseteq> set (w_objects w)))) w"
  unfolding store_upload_def wp_try_then
proof (rule wp_mono[OF wp_persistFile[OF assms]], goal_cases)
  case (1 r w1)
  show ?case
  proof (cases r)
    case (Inl e)
    with 1 show ?thesis by (simp add: only_objects_def)
  next
    case (Inr kp)
    obtain f n where f: "f = generated_name S (ur_Header req) w" and kp: "kp = (Key [''raw'', f], path_Join [UploadPath (us_storageCfg S), ''raw'', f])"
        "name_of (Key [''raw'', f]) = Some n" "n \<in> set (w_objects w1)" "set (w_objects w1) \<subseteq> insert n (set (w_objects w))"
      and w1: "w_db w1 = w_db w" "w_jobs w1 = w_jobs w" "w_env w1 = w_env w"
      using 1 Inr by (auto simp: only_objects_def)
    show ?thesis
      unfolding Inr kp(1) assms
      by (auto simp: wp_bind wp_case_sum wp_return w1 intro!: wp_mono[OF wp_record_upload] wp_mono[OF Delete_result] split: sum.splits)
         (use f kp(2-4) in \<open>auto simp: fewer_objects_def only_objects_def\<close>)
  qed
qed

lemma wp_UploadVideo:
  assumes "us_store S = store"
  shows "wp (UploadVideo S req) (\<lambda>r w'. w_jobs w' = w_jobs w \<and> w_env w' = w_env w \<and> (case r of
       Inr v \<Rightarrow> acceptable S req \<and> recorded S req v (w_db w) (w_db w')
            \<and> (\<exists>f n. f = generated_name S (ur_Header req) w \<and> v_FilePath v = path_Join [UploadPath (us_storageCfg S), ''raw'', f]
                \<and> name_of (Key [''raw'', f]) = Some n \<and> n \<in> set (w_objects w'))
     | Inl e \<Rightarrow> (\<forall>n. outcome_at (w_env w) n \<noteq> Lost) \<longrightarrow> w_db w' = w_db w
          \<and> (outcome_at (w_env w) (w_tick w' - 1) = Done \<longrightarrow> set (w_objects w') \<subseteq> set (w_objects w)))) w"
  unfolding UploadVideo_def SanitizeString_def Let_def wp_if wp_return wp_check_valid
  by (auto simp: wp_if wp_return recorded_def acceptable_def ValidateTitle_def ValidateDescription_def Let_def
      dest!: ValidateVideoFile_ok split: option.splits sum.splits intro!: wp_mono[OF wp_store_upload[OF assms]])

end


text \<open>The object of a key is in the store.\<close>

definition stored_in :: "Store \<Rightarrow> string \<Rightarrow> world \<Rightarrow> bool" where
  "stored_in s key w = ((\<exists>cfg n. s = Local cfg \<and> local_name cfg key = Some n \<and> n \<in> set (w_objects w))
     \<or> (\<exists>cfg n. s = MinIO cfg \<and> minio_name cfg key = Some n \<and> n \<in> set (w_objects w)))"

lemma upload_facts:
  assumes "any_store (us_store S)" "run_state (UploadVideo S req) w = (r, w')"
  shows "w_jobs w' = w_jobs w \<and> (case r of
       Inr v \<Rightarrow> acceptable S req \<and> recorded S req v (w_db w) (w_db w')
         \<and> (let f = generated_name S (ur_Header req) w in
              v_FilePath v = path_Join [UploadPath (us_storageCfg S), ''raw'', f] \<and> stored_in (us_store S) (Key [''raw'', f]) w')
     | Inl e \<Rightarrow> (\<forall>n. outcome_at (w_env w) n \<noteq> Lost) \<longrightarrow> w_db w' = w_db w
          \<and> (outcome_at (w_env w) (w_tick w' - 1) = Done \<longrightarrow> set (w_objects w') \<subseteq> set (w_objects w)))"
proof -
  consider cfg where "us_store S = Local cfg" | cfg where "us_store S = MinIO cfg"
    using assms(1) by (auto simp: any_store_def)
  then show ?thesis
  proof cases
    case 1
    show ?thesis using wp_result[OF local_store.wp_UploadVideo[OF 1] assms(2)] 1
      unfolding stored_in_def Let_def by (cases r) auto
  next
    case 2
    show ?thesis using wp_result[OF minio_store.wp_UploadVideo[OF 2] assms(2)] 2
      unfolding stored_in_def Let_def by (cases r) auto
  qed
qed

text \<open>C19: an upload that succeeds passed the checks (size, extension, content, title, description, visibility), stored
  its file under the generated name, a fresh UUID with the extension of the client's file, and added exactly one row
  with that path, in status uploading, with the caller as owner and with the title, description and visibility asked
  for; one that fails adds no row, and leaves no file either when the removal gets through, as long as no
  acknowledgement is lost on the way.\<close>

theorem upload_recorded_or_removed:
  assumes "any_store (us_store S)" "run_state (UploadVideo S req) w = (r, w')"
  shows "w_jobs w' = w_jobs w \<and> (case r of
       Inr v \<Rightarrow> acceptable S req \<and> recorded S req v (w_db w) (w_db w')
         \<and> (let f = generated_name S (ur_Header req) w in
              v_FilePath v = path_Join [UploadPath (us_storageCfg S), ''raw'', f] \<and> stored_in (us_store S) (Key [''raw'', f]) w')
     | Inl e \<Rightarrow> (\<forall>n. outcome_at (w_env w) n \<noteq> Lost) \<longrightarrow> w_db w' = w_db w
          \<and> (outcome_at (w_env w) (w_tick w' - 1) = Done \<longrightarrow> set (w_objects w') \<subseteq> set (w_objects w)))"
  by (rule upload_facts[OF assms])

lemma upload_row:
  assumes "any_store (us_store S)" "run_state (UploadVideo S req) w = (Inr v, w1)"
  shows "w_jobs w1 = w_jobs w" "\<exists>x. lookup v_ID (v_ID v) (db_videos (w_db w1)) = Some x \<and> v_Status x = VideoStatusUploading"
  using upload_facts[OF assms] by (auto simp: recorded_def lookup_append video_row_def)

lemma run_Upload:
  assumes "PrincipalFrom c = Some p"
    and "run_state (UploadVideo (vh_upload H) \<lparr> ur_File = uf_file f, ur_Header = uf_header f, ur_Title = uf_title f,
       ur_Description = uf_description f, ur_OwnerID = pr_UserID p, ur_Visibility = uf_visibility f \<rparr>) w = (Inr v, w1)"
  shows "wp (Handler_Upload H c (Some f)) (\<lambda>r w2. r = Success 201 (VideoBody v) \<and> w_db w2 = w_db w1
     \<and> w_jobs w2 = w_jobs w1 @ (if outcome_at (w_env w1) (w_tick w1) = Refused then []
          else [\<lparr> job_VideoID = v_ID v, job_Priority = 0, job_Queue = ''default'' \<rparr>])) w"
  unfolding Handler_Upload_def assms(1) option.case wp_bind
  by (rule wpI) (simp add: assms(2) wp_bind wp_return wp_case_sum EnqueueVideoProcessing_def wp_run_put getQueueName_def
    split: outcome.split)

text \<open>C23: once the upload service has stored and recorded an upload, the endpoint answers 201 whether or not the task
  could be queued; the queue has one task more, or none when it refused the call.  Then no request to the admin retry
  endpoint starts the video: the row is in status uploading, which the endpoint refuses without a change.\<close>

theorem unqueued_upload_is_stranded:
  assumes "any_store (us_store (vh_upload H))" "PrincipalFrom c = Some p"
    and "run_state (UploadVideo (vh_upload H) \<lparr> ur_File = uf_file f, ur_Header = uf_header f, ur_Title = uf_title f,
       ur_Description = uf_description f, ur_OwnerID = pr_UserID p, ur_Visibility = uf_visibility f \<rparr>) w = (Inr v, w1)"
    and "run_state (Handler_Upload H c (Some f)) w = (resp, w2)"
    and "ValidateUUID lib (rq_param c2 ''id'') = Inr (v_ID v)" "run_state (RetryVideo lib c2) w2 = (r, w3)"
  shows "resp = Success 201 (VideoBody v)
    \<and> w_jobs w2 = w_jobs w @ (if outcome_at (w_env w1) (w_tick w1) = Refused then []
         else [\<lparr> job_VideoID = v_ID v, job_Priority = 0, job_Queue = ''default'' \<rparr>])
    \<and> status_of r \<in> {400, 500} \<and> w_db w3 = w_db w2 \<and> w_jobs w3 = w_jobs w2"
proof -
  note up = upload_row[OF assms(1,3)]
  note h = wp_result[OF run_Upload[OF assms(2,3)] assms(4)]
  obtain x where x: "lookup v_ID (v_ID v) (db_videos (w_db w2)) = Some x" "v_Status x = VideoStatusUploading"
    using up(2) h by auto
  have "wp (RetryVideo lib c2) (\<lambda>r w3. status_of r \<in> {400, 500} \<and> w_db w3 = w_db w2 \<and> w_jobs w3 = w_jobs w2) w2"
    using x assms(5) by (simp add: RetryVideo_def VideoRepo_GetByID_def wp_simps Let_def response_defs)
  from wp_result[OF this assms(6)] up(1) h show ?thesis by simp
qed


section \<open>Media files\<close>

context object_store begin

lemma wp_serveObject:
  assumes "sh_store S = store" "status_of missing = 404"
  shows "wp (serveObject S key missing contentType cacheControl) (\<lambda>r w'. \<forall>k t cc. r = Success 200 (MediaFile k t cc) \<longrightarrow>
     k = key \<and> cc = cacheControl \<and> (\<exists>n. name_of key = Some n \<and> n \<in> set (w_objects w))) w"
  unfolding serveObject_def assms(1) wp_bind
  by (rule wp_mono[OF Stat_result])
     (use assms(2) in \<open>auto simp: wp_case_sum wp_return wp_bind only_objects_def intro!: wp_mono[OF Open_result] split: sum.splits\<close>)

end

lemma wp_serve_stored:
  assumes "any_store (sh_store S)" "status_of missing = 404"
  shows "wp (serveObject S key missing contentType cacheControl) (\<lambda>r w'. \<forall>k t cc. r = Success 200 (MediaFile k t cc) \<longrightarrow>
     k = key \<and> cc = cacheControl \<and> stored_in (sh_store S) key w) w"
  using assms(1) unfolding any_store_def
proof (elim disjE exE)
  fix cfg assume "sh_store S = Local cfg"
  then show ?thesis by (intro wp_mono[OF local_store.wp_serveObject[OF _ assms(2)]]) (auto simp: stored_in_def)
next
  fix cfg assume "sh_store S = MinIO cfg"
  then show ?thesis by (intro wp_mono[OF minio_store.wp_serveObject[OF _ assms(2)]]) (auto simp: stored_in_def)
qed

text \<open>Which object a request may name.\<close>

definition media_key :: "StreamingHandler \<Rightarrow> request \<Rightarrow> uuid \<Rightarrow> Video \<Rightarrow> string \<Rightarrow> bool" where
  "media_key S c i v key =
     ((v_HLSReady v \<and> isValidQuality (rq_param c ''quality'') \<and> isValidSegmentName (rq_param c ''segment'')
        \<and> key = transcodedKey (sh_uuid S) i [''hls'', rq_param c ''quality'', rq_param c ''segment''])
      \<or> (v_Status v = VideoStatusReady \<and> rq_param c ''quality'' \<in> set (v_AvailableQualities v)
        \<and> isValidQuality (rq_param c ''quality'') \<and> key = transcodedKey (sh_uuid S) i [rq_param c ''quality'' @ ''.mp4''])
      \<or> v_ThumbnailPath v = Some key)"

lemma wp_viewable:
  "wp (viewable c i k) Q w = (let w1 = w\<lparr> w_tick := Suc (w_tick w) \<rparr> in
     if outcome_at (w_env w) (w_tick w) = Done
     then (case lookup v_ID i (db_videos (w_db w)) of None \<Rightarrow> Q (NotFound ''Video not found'') w1
        | Some v \<Rightarrow> if canViewVideo (PrincipalFrom c) v then wp (k v) Q w1 else Q (NotFound ''Video not found'') w1)
     else Q (InternalError ''Failed to retrieve video'') w1)"
  by (simp add: viewable_def wp_def run_GetByID Let_def split: option.splits)

lemma wp_servePlaylist: "wp (servePlaylist S ck key) (\<lambda>r w'. \<forall>k t cc. r \<noteq> Success 200 (MediaFile k t cc)) w"
  by (rule wp_mono[where P = "\<lambda>r w'. \<exists>x. r = servePlaylistContent x \<or> status_of r = 404"])
     (auto simp: servePlaylist_def servePlaylistContent_def wp_bind wp_case_sum wp_case_option wp_if wp_return Let_def
       intro!: wpI split: sum.splits option.splits prod.splits)

text \<open>C20: a media file is only ever served to a caller who may view the video, it is an object present in the
  store, and its key is one the video's state makes available.  The answer allows shared caches to keep it, for
  private videos too.\<close>

theorem served_media_guarded:
  assumes "any_store (sh_store S)" "run_state (video_read H S c call) w = (Success 200 (MediaFile key t cc), w')"
  shows "\<exists>i v. ValidateUUID (sh_uuid S) (rq_param c ''id'') = Inr i \<and> lookup v_ID i (db_videos (w_db w)) = Some v
    \<and> canViewVideo (PrincipalFrom c) v \<and> stored_in (sh_store S) key w \<and> media_key S c i v key \<and> take 6 cc = ''public''"
proof -
  define Q :: "video_body response \<Rightarrow> world \<Rightarrow> bool" where "Q = (\<lambda>r w'. \<forall>key t cc. r = Success 200 (MediaFile key t cc) \<longrightarrow>
    (\<exists>i v. ValidateUUID (sh_uuid S) (rq_param c ''id'') = Inr i \<and> lookup v_ID i (db_videos (w_db w)) = Some v
      \<and> canViewVideo (PrincipalFrom c) v \<and> stored_in (sh_store S) key w \<and> media_key S c i v key \<and> take 6 cc = ''public''))"
  have other: "Q r w'" if "\<And>k t cc. r \<noteq> Success 200 (MediaFile k t cc)" for r w' using that by (simp add: Q_def)
  have served: "wp (serveObject S key missing t cc) Q w0"
    if "status_of missing = 404" "w_objects w0 = w_objects w" "ValidateUUID (sh_uuid S) (rq_param c ''id'') = Inr i"
      "lookup v_ID i (db_videos (w_db w)) = Some v" "canViewVideo (PrincipalFrom c) v" "media_key S c i v key" "take 6 cc = ''public''"
    for missing w0 i v key t cc
    by (rule wp_mono[OF wp_serve_stored[OF assms(1) that(1)]]) (use that in \<open>auto simp: Q_def stored_in_def\<close>)
  have list: "wp (servePlaylist S ck key) Q w0" for ck key w0
    by (rule wp_mono[OF wp_servePlaylist]) (auto intro: other)
  have "wp (video_read H S c call) Q w"
    by (cases call; simp add: GetVideo_def GetVideoStatus_def wp_loadVideo ServeMasterPlaylist_def ServeQualityPlaylist_def
          ServeSegment_def ServeMP4Fallback_def ServeThumbnail_def pathUUID_def wp_case_sum wp_return wp_if wp_viewable Let_def)
       (auto simp: wp_if wp_return wp_case_option wp_viewable Let_def response_defs media_key_def list_ex_iff
          intro!: other served list split: sum.split option.split)
  from wp_result[OF this assms(2)] show ?thesis by (simp add: Q_def)
qed

section \<open>Concrete inputs\<close>

definition sample_VH :: VideoHandler where
  "sample_VH = \<lparr> vh_upload = \<lparr> us_uuid = sample_lib\<lparr> uuid_String := (\<lambda>_. ''0001'') \<rparr>, us_unicode = no_unicode, us_storageCfg = sample_cfg, us_store = Local sample_cfg \<rparr>,
     vh_matches = (\<lambda>_ _. True) \<rparr>"

definition sample_SH :: StreamingHandler where
  "sample_SH = \<lparr> sh_uuid = sample_lib\<lparr> uuid_String := (\<lambda>_. ''0001'') \<rparr>, sh_cache = \<lparr> cs_max = 10, cs_glob = (\<lambda>_ _. True) \<rparr>, sh_store = Local sample_cfg \<rparr>"

definition sample_form :: upload_form where
  "sample_form = \<lparr> uf_file = \<lparr> mf_head = Some ''0000ftypisom0000'', mf_seekable = True \<rparr>,
     uf_header = \<lparr> fh_Filename = ''a.mp4'', fh_Size = 4096, fh_ContentType = ''video/mp4'' \<rparr>,
     uf_title = ''a title'', uf_description = '''', uf_visibility = ''private'' \<rparr>"

lemmas video_sample = sample_VH_def sample_SH_def as_user_def sample_defs vh_uuid_def

lemma sample_store [simp]: "any_store (us_store (vh_upload sample_VH))" "any_store (sh_store sample_SH)"
  by (auto simp: any_store_def sample_VH_def sample_SH_def)

lemma private_video_hidden_witness:
  "fst (run_state (video_read sample_VH sample_SH (sample_request (Some (as_user 2)) (nat_string 7)) ReadThumbnail)
     (calm_world (video_db VideoStatusReady VisibilityPrivate)))
   = fst (run_state (video_read sample_VH sample_SH (sample_request (Some (as_user 2)) (nat_string 7)) ReadThumbnail)
     ((calm_world (video_db VideoStatusReady VisibilityPrivate))\<lparr> w_db := empty_db \<rparr>))"
proof -
  let ?c = "sample_request (Some (as_user 2)) (nat_string 7)" and ?w = "calm_world (video_db VideoStatusReady VisibilityPrivate)"
  have "ValidateUUID (vh_uuid sample_VH) (rq_param ?c ''id'') = Inr 7" "sh_uuid sample_SH = vh_uuid sample_VH"
    by (simp_all add: ValidateUUID_def sample_request_def sample_VH_def sample_SH_def vh_uuid_def)
  moreover have "lookup v_ID 7 (db_videos (w_db ?w)) = Some (sample_video 7 1 VideoStatusReady VisibilityPrivate)"
    "\<not> canViewVideo (PrincipalFrom ?c) (sample_video 7 1 VideoStatusReady VisibilityPrivate)"
    by code_simp+
  moreover have "lookup v_ID 7 (db_videos empty_db) = None" by (simp add: empty_db_def)
  ultimately show ?thesis using private_video_hidden[OF _ _ _ _ _ prod.collapse[symmetric]] by (metis fst_conv)
qed

lemma listing_shows_public_or_own_witness:
  "\<exists>vs m w'. run_state (ListVideos sample_VH (sample_request (Some (as_user 2)) '''')) (calm_world (video_db VideoStatusReady VisibilityPublic))
      = (SuccessWithList (VideosBody vs) m, w') \<and> length vs = 1 \<and> length vs \<le> 100"
proof -
  let ?run = "run_state (ListVideos sample_VH (sample_request (Some (as_user 2)) '''')) (calm_world (video_db VideoStatusReady VisibilityPublic))"
  have "case fst ?run of SuccessWithList (VideosBody vs) m \<Rightarrow> length vs = 1 | _ \<Rightarrow> False" by code_simp
  then obtain vs m where "fst ?run = SuccessWithList (VideosBody vs) m" "length vs = 1"
    by (auto split: response.splits video_body.splits)
  then have run: "?run = (SuccessWithList (VideosBody vs) m, snd ?run)" by (metis prod.collapse)
  from listing_shows_public_or_own[OF run] show ?thesis using run \<open>length vs = 1\<close> by blast
qed

lemma delete_guarded_witness:
  "map_option meta (lookup v_ID 7 (db_videos (w_db (snd (run_state (DeleteVideo sample_VH (sample_request (Some (as_user 2)) (nat_string 7)))
     (calm_world (video_db VideoStatusReady VisibilityPublic)))))))
   = Some (meta (sample_video 7 1 VideoStatusReady VisibilityPublic))"
proof -
  let ?c = "sample_request (Some (as_user 2)) (nat_string 7)" and ?w = "calm_world (video_db VideoStatusReady VisibilityPublic)"
  have l: "lookup v_ID 7 (db_videos (w_db ?w)) = Some (sample_video 7 1 VideoStatusReady VisibilityPublic)" by code_simp
  have "\<not> may_delete ?c (sample_video 7 1 VideoStatusReady VisibilityPublic)"
    by (simp add: may_delete_def PrincipalFrom_def sample_request_def as_user_def sample_video_def HasPermission_def RolePermissions_def)
  with delete_guarded[OF prod.collapse[symmetric] sample_store(1) l] show ?thesis by blast
qed

definition sample_upload :: UploadRequest where
  "sample_upload = \<lparr> ur_File = uf_file sample_form, ur_Header = uf_header sample_form, ur_Title = ''a title'',
     ur_Description = '''', ur_OwnerID = 1, ur_Visibility = ''private'' \<rparr>"

lemma upload_recorded_or_removed_witness:
  "\<exists>v w'. run_state (UploadVideo (vh_upload sample_VH) sample_upload) (calm_world (video_db VideoStatusReady VisibilityPublic)) = (Inr v, w')
     \<and> v_Status v = VideoStatusUploading \<and> v_UserID v = Some 1 \<and> v_Visibility v = VisibilityPrivate"
proof -
  let ?run = "run_state (UploadVideo (vh_upload sample_VH) sample_upload) (calm_world (video_db VideoStatusReady VisibilityPublic))"
  have "case fst ?run of Inr v \<Rightarrow> True | _ \<Rightarrow> False" by code_simp
  then obtain v where "fst ?run = Inr v" by (auto split: sum.splits)
  then have run: "?run = (Inr v, snd ?run)" by (metis prod.collapse)
  from upload_recorded_or_removed[OF sample_store(1) run] run show ?thesis
    by (auto simp: recorded_def sample_upload_def visibility_of_name_def)
qed

text \<open>The queue refuses the eighth call of this upload, which enqueues the task.\<close>

definition busy_queue :: world where
  "busy_queue = disturb 7 Refused (calm_world (video_db VideoStatusReady VisibilityPublic))"

lemma unqueued_upload_is_stranded_witness:
  "\<exists>v w2. run_state (Handler_Upload sample_VH (sample_request (Some (as_user 1)) '''') (Some sample_form)) busy_queue
        = (Success 201 (VideoBody v), w2)
     \<and> w_jobs w2 = [] \<and> w_jobs (snd (run_state (RetryVideo sample_lib (sample_request (Some (as_user 9)) (nat_string 1002))) w2)) = []"
proof -
  let ?c = "sample_request (Some (as_user 1)) ''''" and ?up = "run_state (UploadVideo (vh_upload sample_VH) sample_upload) busy_queue"
  have "case ?up of (Inr v, w1) \<Rightarrow> v_ID v = 1002 \<and> w_tick w1 = 7 | _ \<Rightarrow> False" by code_simp
  then obtain v w1 where up: "?up = (Inr v, w1)" and v: "v_ID v = 1002" "w_tick w1 = 7"
    by (auto split: prod.splits sum.splits)
  have env: "w_env w1 = w_env busy_queue"
    using wp_result[OF local_store.wp_UploadVideo up] by (auto simp: sample_VH_def)
  have p: "PrincipalFrom ?c = Some (as_user 1)"
    by (simp add: PrincipalFrom_def sample_request_def)
  have "ValidateUUID sample_lib (rq_param (sample_request (Some (as_user 9)) (nat_string 1002)) ''id'') = Inr (v_ID v)"
    by (simp add: ValidateUUID_def sample_request_def v)
  from unqueued_upload_is_stranded[OF sample_store(1) p _ prod.collapse[symmetric] this prod.collapse[symmetric], of sample_form busy_queue w1]
    up v env show ?thesis
    by (auto simp: sample_upload_def sample_form_def as_user_def busy_queue_def sample_defs prod_eq_iff)
qed

definition thumbnail_world :: world where
  "thumbnail_world = (calm_world (empty_db\<lparr> db_videos :=
     [(sample_video 7 1 VideoStatusReady VisibilityPrivate)\<lparr> v_ThumbnailPath := Some ''thumbnails/7.jpg'' \<rparr>] \<rparr>))
     \<lparr> w_objects := [''uploads/thumbnails/7.jpg''] \<rparr>"

lemma served_media_guarded_witness:
  "\<exists>w'. run_state (video_read sample_VH sample_SH (sample_request (Some (as_user 1)) (nat_string 7)) ReadThumbnail) thumbnail_world
       = (Success 200 (MediaFile ''thumbnails/7.jpg'' ''image/jpeg'' ''public, max-age=86400, immutable''), w')
     \<and> stored_in (sh_store sample_SH) ''thumbnails/7.jpg'' thumbnail_world"
proof -
  let ?run = "run_state (video_read sample_VH sample_SH (sample_request (Some (as_user 1)) (nat_string 7)) ReadThumbnail) thumbnail_world"
  have "fst ?run = Success 200 (MediaFile ''thumbnails/7.jpg'' ''image/jpeg'' ''public, max-age=86400, immutable'')" by code_simp
  then obtain w' where run: "?run = (Success 200 (MediaFile ''thumbnails/7.jpg'' ''image/jpeg'' ''public, max-age=86400, immutable''), w')"
    by (metis prod.collapse)
  with served_media_guarded[OF sample_store(2) run] show ?thesis by blast
qed

end
