(* ===== verification/CacheProps.thy ===== *)
theory CacheProps
  imports Streaming Samples
begin

text \<open>
  Properties of the two-tier cache: the in-process tier is bounded and its entries short-lived in every
  reachable state; what was set is what is read back; and clearing a pattern leaves the in-process tier
  serving what it held.
\<close>

section \<open>Reachable states of the in-process tier\<close>

text \<open>The sweeper of \<^verbatim>\<open>NewCacheService\<close>, at a reading of the clock.\<close>

definition sweep :: "unit prog" where
  "sweep = do { now \<leftarrow> time_Now; State_Monad.update (\<lambda>w. w\<lparr> w_local := cleanup now (w_local w) \<rparr>) }"

inductive cache_step :: "CacheService \<Rightarrow> world \<Rightarrow> world \<Rightarrow> bool" for C where
  get: "cache_step C w (snd (run_state (Cache_Get C key) w))"
| set: "cache_step C w (snd (run_state (Cache_Set C key v ttl l) w))"
| delete: "cache_step C w (snd (run_state (Cache_Delete key) w))"
| clear: "cache_step C w (snd (run_state (DeletePattern C pattern) w))"
| exists: "cache_step C w (snd (run_state (Cache_Exists key) w))"
| sweep: "cache_step C w (snd (run_state sweep w))"

lemma tier_sweep: "steps (tier_kept limit) sweep"
proof (rule stepsI)
  fix w :: world
  let ?items = "cleanup (clock_at (w_env w) (w_tick w)) (w_local w)"
  have ok: "local_ok limit items \<Longrightarrow> local_ok limit (cleanup now items)" for now items
    by (auto simp: local_ok_def cleanup_def delete_rows_def distinct_map_filter
        intro: order_trans[OF of_nat_mono[OF length_filter_le]])
  have "tier_ok limit w \<Longrightarrow> tier_ok limit (w\<lparr> w_tick := Suc (w_tick w), w_local := ?items \<rparr>)"
    by (rule tier_shrinks[where items = ?items]) (auto simp: tier_ok_def cleanup_def intro: ok[unfolded cleanup_def])
  then have "wp sweep (\<lambda>_ w'. tier_kept limit w w') w"
    by (simp add: sweep_def wp_simps tier_kept_def)
  then show "tier_kept limit w (snd (run_state sweep w))" by (rule wpD)
qed

lemma cache_step_kept: "cache_step C w w' \<Longrightarrow> tier_kept (cs_max C) w w'"
  by (induction rule: cache_step.cases) (auto intro: stepsD[OF tier_ops(1)] stepsD[OF tier_ops(2)] stepsD[OF tier_ops(3)]
      stepsD[OF tier_ops(4)] stepsD[OF tier_ops(5)] stepsD[OF tier_sweep])

text \<open>C24: from an empty cache, through any interleaving of operations and sweeps and any failures of Redis, the
  in-process tier never holds two entries of a key nor more entries than its limit (one, for a limit below one),
  and none that outlives the minute after the clock reading it was written at.\<close>

theorem local_tier_bounded:
  assumes "(cache_step C)\<^sup>*\<^sup>* w w'" "w_local w = []"
  shows "distinct (map ci_key (w_local w')) \<and> int (length (w_local w')) \<le> max 1 (cs_max C)
    \<and> (\<forall>item \<in> set (w_local w'). \<exists>m < w_tick w'. ci_expiresAt item \<le> clock_at (w_env w) m + Minute)"
proof -
  have "tier_kept (cs_max C) w w'"
    using assms(1)
  proof (induction rule: rtranclp_induct)
    case (step x y)
    then show ?case using cache_step_kept preorder_trans[OF preorder_tier_kept] by blast
  qed (simp add: tier_kept_def)
  moreover have "tier_ok (cs_max C) w" using assms(2) by (simp add: tier_ok_def local_ok_def)
  ultimately show ?thesis by (auto simp: tier_kept_def tier_ok_def local_ok_def)
qed

section \<open>What was set is read back\<close>

lemma lookup_local_Set:
  "lookup ci_key key (local_Set limit now key v ttl items) = Some \<lparr> ci_key = key, ci_value = v, ci_expiresAt = now + ttl \<rparr>"
proof (cases "lookup ci_key key items")
  case (Some x)
  then show ?thesis by (simp add: local_Set_def Let_def lookup_modify_const)
next
  case None
  then have "lookup ci_key key (evictOldest items) = None"
    by (auto simp: evictOldest_def local_Delete_def lookup_remove split: option.splits)
  then show ?thesis using None by (simp add: local_Set_def Let_def lookup_append)
qed

definition effective_ttl :: "duration \<Rightarrow> duration" where
  "effective_ttl ttl = (if ttl = 0 then defaultTTL else ttl)"

text \<open>C25: a value set in both tiers is read back unchanged: for the shorter of its lifetime and a minute from
  memory, whatever Redis does; after that from Redis, while it answers and the entry lives there; and no read in
  between ever yields anything else.\<close>

theorem set_then_get:
  assumes "run_state (Cache_Set C key v ttl True) w = (Inr (), w1)" "run_state (Cache_Get C key) w1 = (r, w2)"
  shows "(\<forall>x. r = Inr (Some x) \<longrightarrow> x = v)
    \<and> (clock_at (w_env w) (w_tick w1) \<le> clock_at (w_env w) (Suc (w_tick w)) + min (effective_ttl ttl) Minute \<longrightarrow> r = Inr (Some v))
    \<and> (outcome_at (w_env w) (Suc (w_tick w1)) = Done \<longrightarrow>
         clock_at (w_env w) (Suc (w_tick w1)) < clock_at (w_env w) (w_tick w) + effective_ttl ttl div 1000000 * 1000000 \<longrightarrow>
         r = Inr (Some v))"
proof -
  define item where "item = \<lparr> ci_key = key, ci_value = v, ci_expiresAt = clock_at (w_env w) (Suc (w_tick w)) + min (effective_ttl ttl) Minute \<rparr>"
  have "wp (Cache_Set C key v ttl True) (\<lambda>r w1. r = Inr () \<longrightarrow> w_env w1 = w_env w \<and> lookup ci_key key (w_local w1) = Some item
      \<and> w_redis w1 key = Some (v, redis_expiry (clock_at (w_env w) (w_tick w)) (effective_ttl ttl))) w"
    by (auto simp: Cache_Set_def redis_Set_def wp_simps Let_def effective_ttl_def lookup_local_Set item_def min_def split: outcome.splits)
  from wp_result[OF this assms(1)] have w1: "w_env w1 = w_env w" "lookup ci_key key (w_local w1) = Some item"
    "w_redis w1 key = Some (v, redis_expiry (clock_at (w_env w) (w_tick w)) (effective_ttl ttl))" by auto
  have live: "redis_live t (w_redis w1 key) = Some v"
    if "t < clock_at (w_env w) (w_tick w) + effective_ttl ttl div 1000000 * 1000000" for t
    using that w1(3) by (auto simp: redis_live_def redis_expiry_def max_def)
  have old: "redis_live t (w_redis w1 key) = Some x \<Longrightarrow> x = v" for t x
    using w1(3) by (auto simp: redis_live_def split: option.splits if_splits)
  define Q :: "err + string option \<Rightarrow> world \<Rightarrow> bool" where "Q = (\<lambda>r w2. (\<forall>x. r = Inr (Some x) \<longrightarrow> x = v)
    \<and> (clock_at (w_env w) (w_tick w1) \<le> ci_expiresAt item \<longrightarrow> r = Inr (Some v))
    \<and> (outcome_at (w_env w) (Suc (w_tick w1)) = Done \<longrightarrow>
         clock_at (w_env w) (Suc (w_tick w1)) < clock_at (w_env w) (w_tick w) + effective_ttl ttl div 1000000 * 1000000 \<longrightarrow>
         r = Inr (Some v)))"
  have "wp (Cache_Get C key) Q w1"
  proof (cases "expired item (clock_at (w_env w) (w_tick w1))")
    case True
    then have "local_Get (clock_at (w_env w) (w_tick w1)) key (w_local w1) = (None, local_Delete key (w_local w1))"
      by (simp add: local_Get_def w1(2))
    with True show ?thesis
      using live[of "clock_at (w_env w) (Suc (w_tick w1))"] old[of "clock_at (w_env w) (Suc (w_tick w1))"]
      by (cases "redis_live (clock_at (w_env w) (Suc (w_tick w1))) (w_redis w1 key)")
         (simp_all add: Cache_Get_def wp_simps Let_def w1(1) expired_def Q_def, blast?)
  next
    case False
    then have "local_Get (clock_at (w_env w) (w_tick w1)) key (w_local w1) = (Some v, w_local w1)"
      by (simp add: local_Get_def w1(2) item_def)
    then show ?thesis
      by (simp add: Cache_Get_def wp_simps Let_def w1(1) Q_def)
  qed
  from wp_result[OF this assms(2)] show ?thesis unfolding Q_def item_def cacheItem.simps .
qed

section \<open>Clearing a pattern\<close>

text \<open>C26: clearing the playlist cache of a video does not reach the in-process tier: after the endpoint has
  answered with success, the same process goes on serving the old playlist until the entry expires.\<close>

theorem cleared_playlist_still_served:
  assumes "run_state (ClearPlaylistCache S c) w = (Success 200 b, w1)" "ValidateUUID (sh_uuid S) (rq_param c ''id'') = Inr i"
    and "lookup ci_key (''playlist:'' @ uuid_String (sh_uuid S) i @ '':master'') (w_local w) = Some item" "ci_value item \<noteq> []"
    and "outcome_at (w_env w) (w_tick w1) = Done" "clock_at (w_env w) (Suc (w_tick w1)) \<le> ci_expiresAt item"
    and "lookup v_ID i (db_videos (w_db w)) = Some v" "canViewVideo (PrincipalFrom c) v" "v_HLSReady v" "v_HLSMasterPath v \<noteq> None"
  shows "fst (run_state (ServeMasterPlaylist S c) w1) = Success 200 (PlaylistContent (ci_value item))"
proof -
  have "wp (ClearPlaylistCache S c) (\<lambda>r w1. w_env w1 = w_env w \<and> w_db w1 = w_db w \<and> w_local w1 = w_local w) w"
    using assms(2) by (auto simp: ClearPlaylistCache_def pathUUID_def DeletePattern_def redis_DelMany_def wp_simps Let_def
      split: outcome.splits)
  from wp_result[OF this assms(1)] have w1: "w_env w1 = w_env w" "w_db w1 = w_db w" "w_local w1 = w_local w" by auto
  have "wp (ServeMasterPlaylist S c) (\<lambda>r _. r = Success 200 (PlaylistContent (ci_value item))) w1"
    using assms by (auto simp: ServeMasterPlaylist_def pathUUID_def viewable_def VideoRepo_GetByID_def servePlaylist_def
      Cache_Get_def local_Get_def expired_def servePlaylistContent_def wp_simps Let_def w1)
  from wpD[OF this] show ?thesis .
qed

section \<open>Concrete inputs\<close>

definition small_cache :: CacheService where
  "small_cache = \<lparr> cs_max = 1, cs_glob = (\<lambda>_ _. True) \<rparr>"

definition cached_world :: world where
  "cached_world = (calm_world (empty_db\<lparr> db_videos := [(sample_video 7 1 VideoStatusReady VisibilityPublic)
       \<lparr> v_HLSReady := True, v_HLSMasterPath := Some ''m'' \<rparr>] \<rparr>))
     \<lparr> w_local := [\<lparr> ci_key = ''playlist:7:master'', ci_value = ''old'', ci_expiresAt = Minute \<rparr>] \<rparr>"

lemma local_tier_bounded_witness:
  "int (length (w_local (snd (run_state (Cache_Set small_cache ''b'' ''2'' 0 True)
     (snd (run_state (Cache_Set small_cache ''a'' ''1'' 0 True) (calm_world empty_db))))))) \<le> 1"
proof -
  let ?w = "snd (run_state (Cache_Set small_cache ''a'' ''1'' 0 True) (calm_world empty_db))"
  have "(cache_step small_cache)\<^sup>*\<^sup>* (calm_world empty_db) (snd (run_state (Cache_Set small_cache ''b'' ''2'' 0 True) ?w))"
    by (rule rtranclp.rtrancl_into_rtrancl[OF r_into_rtranclp]) (rule cache_step.set)+
  from local_tier_bounded[OF this] show ?thesis by (simp add: small_cache_def calm_world_def)
qed

lemma set_then_get_witness:
  "\<exists>w1 w2. run_state (Cache_Set small_cache ''a'' ''1'' 0 True) (calm_world empty_db) = (Inr (), w1)
     \<and> run_state (Cache_Get small_cache ''a'') w1 = (Inr (Some ''1''), w2)"
proof -
  let ?w = "calm_world empty_db"
  let ?run = "run_state (Cache_Set small_cache ''a'' ''1'' 0 True) ?w"
  have "case ?run of (Inr x, w1) \<Rightarrow> w_tick w1 = 2 | _ \<Rightarrow> False" by code_simp
  then obtain w1 where run: "?run = (Inr (), w1)" and t: "w_tick w1 = 2" by (auto split: prod.splits sum.splits)
  have "clock_at (w_env ?w) (w_tick w1) \<le> clock_at (w_env ?w) (Suc (w_tick ?w)) + min (effective_ttl 0) Minute"
    by (simp add: t calm_world_def calm_env_def effective_ttl_def defaultTTL_def)
  then have "fst (run_state (Cache_Get small_cache ''a'') w1) = Inr (Some ''1'')"
    using set_then_get[OF run prod.collapse[symmetric]] by blast
  with run show ?thesis by (metis prod.collapse)
qed

lemma cleared_playlist_still_served_witness:
  "\<exists>w1. run_state (ClearPlaylistCache \<lparr> sh_uuid = sample_lib, sh_cache = small_cache, sh_store = Local sample_cfg \<rparr>
       (sample_request None (nat_string 7))) cached_world = (Success 200 (MessageBody ''Playlist cache cleared''), w1)
     \<and> fst (run_state (ServeMasterPlaylist \<lparr> sh_uuid = sample_lib, sh_cache = small_cache, sh_store = Local sample_cfg \<rparr>
       (sample_request None (nat_string 7))) w1) = Success 200 (PlaylistContent ''old'')"
proof -
  let ?S = "\<lparr> sh_uuid = sample_lib, sh_cache = small_cache, sh_store = Local sample_cfg \<rparr>" and ?c = "sample_request None (nat_string 7)"
  let ?run = "run_state (ClearPlaylistCache ?S ?c) cached_world"
  have "case ?run of (Success s (MessageBody m), w1) \<Rightarrow> s = 200 \<and> m = ''Playlist cache cleared'' \<and> w_tick w1 = 1 | _ \<Rightarrow> False" by code_simp
  then obtain w1 where run: "?run = (Success 200 (MessageBody ''Playlist cache cleared''), w1)" and t: "w_tick w1 = 1"
    by (auto split: prod.splits response.splits video_body.splits)
  let ?item = "\<lparr> ci_key = ''playlist:7:master'', ci_value = ''old'', ci_expiresAt = Minute \<rparr>"
  let ?v = "(sample_video 7 1 VideoStatusReady VisibilityPublic)\<lparr> v_HLSReady := True, v_HLSMasterPath := Some ''m'' \<rparr>"
  have "lookup ci_key (''playlist:'' @ uuid_String (sh_uuid ?S) 7 @ '':master'') (w_local cached_world) = Some ?item"
    "lookup v_ID 7 (db_videos (w_db cached_world)) = Some ?v" "canViewVideo (PrincipalFrom ?c) ?v"
    by code_simp+
  moreover have "ValidateUUID (sh_uuid ?S) (rq_param ?c ''id'') = Inr 7" by (simp add: ValidateUUID_def sample_request_def)
  moreover have "outcome_at (w_env cached_world) (w_tick w1) = Done" "clock_at (w_env cached_world) (Suc (w_tick w1)) \<le> ci_expiresAt ?item"
    by (simp_all add: cached_world_def calm_world_def calm_env_def t)
  ultimately have "fst (run_state (ServeMasterPlaylist ?S ?c) w1) = Success 200 (PlaylistContent (ci_value ?item))"
    using run by (intro cleared_playlist_still_served[where v = ?v]) simp_all
  with run show ?thesis by auto
qed

end
