(* ===== verification/RateLimit.thy ===== *)
theory RateLimit
  imports Http
begin

text \<open>
  The request limits (\<^verbatim>\<open>internal/middleware/rate_limiter.go\<close>): fixed-window counters in Redis, the
  middleware that enforces them (open when Redis fails), and the limit on requests in flight.  The
  client address is what gin resolves, an argument; \<^verbatim>\<open>Duration.Seconds\<close> is taken exactly.
\<close>

section \<open>Rules\<close>

definition RuleGuest :: string where "RuleGuest = ''guest_api''"

record RateLimitRule =
  rl_Requests :: int
  rl_Window :: duration
  rl_BurstSize :: int

definition Rule_Limit :: "RateLimitRule \<Rightarrow> int" where
  "Rule_Limit r = wrap64 (rl_Requests r + rl_BurstSize r)"

definition rule :: "int \<Rightarrow> duration \<Rightarrow> int \<Rightarrow> RateLimitRule" where
  "rule n d b = \<lparr> rl_Requests = n, rl_Window = d, rl_BurstSize = b \<rparr>"

definition defaultRateLimits :: "string \<rightharpoonup> RateLimitRule" where
  "defaultRateLimits = map_of [(RuleGuest, rule 30 Minute 10), (''user_api'', rule 60 Minute 20),
     (''premium_api'', rule 300 Minute 50), (''upload'', rule 5 Hour 2), (''search'', rule 30 Minute 10),
     (''streaming'', rule 300 Minute 100), (''auth'', rule 10 Minute 5)]"

text \<open>The limiter is its rule set; a missing key of the Go map reads as the zero rule.\<close>

type_synonym limiter = "string \<rightharpoonup> RateLimitRule"

definition SetRule :: "string \<Rightarrow> RateLimitRule \<Rightarrow> limiter \<Rightarrow> limiter" where
  "SetRule name r rl = rl(name \<mapsto> r)"

definition Rule :: "limiter \<Rightarrow> string \<Rightarrow> RateLimitRule" where
  "Rule rl name = (case rl name of Some r \<Rightarrow> r
     | None \<Rightarrow> (case rl RuleGuest of Some r \<Rightarrow> r | None \<Rightarrow> rule 0 0 0))"

section \<open>The window counter\<close>

text \<open>\<^verbatim>\<open>Time.Truncate\<close> rounds down to a multiple of the duration since the year 1.\<close>

definition zero_time :: time where "zero_time = - 62135596800 * Second"

definition Truncate :: "time \<Rightarrow> duration \<Rightarrow> time" where
  "Truncate t d = (if d \<le> 0 then t else t - (t - zero_time) mod d)"

definition Unix :: "time \<Rightarrow> int" where "Unix t = t div Second"

record Decision =
  dc_Allowed :: bool
  dc_Limit :: int
  dc_Remaining :: int
  dc_ResetIn :: duration

definition windowKeyOf :: "string \<Rightarrow> string \<Rightarrow> time \<Rightarrow> string" where
  "windowKeyOf ruleName key windowStart = ''ratelimit:'' @ ruleName @ '':'' @ key @ '':'' @ Itoa (Unix windowStart)"

text \<open>The pipeline is its two commands; its error is the first of theirs.\<close>

definition Allow :: "limiter \<Rightarrow> string \<Rightarrow> string \<Rightarrow> (err + Decision) prog" where
  "Allow rl key ruleName = do {
     let r = Rule rl ruleName;
     now \<leftarrow> time_Now;
     let windowStart = Truncate now (rl_Window r);
     let windowKey = windowKeyOf ruleName key windowStart;
     incr \<leftarrow> redis_Incr windowKey;
     ex \<leftarrow> redis_Expire windowKey (rl_Window r);
     State_Monad.return (case incr of Inl e \<Rightarrow> Inl e
       | Inr count \<Rightarrow> (case ex of Inl e \<Rightarrow> Inl e
         | Inr _ \<Rightarrow> let limit = Rule_Limit r; remaining = wrap64 (limit - count) in
             Inr \<lparr> dc_Allowed = (count \<le> limit), dc_Limit = limit,
                   dc_Remaining = (if remaining < 0 then 0 else remaining),
                   dc_ResetIn = windowStart + rl_Window r - now \<rparr>))
   }"

section \<open>The middleware\<close>

definition rateLimitKey :: "uuid_lib \<Rightarrow> string \<Rightarrow> request \<Rightarrow> string" where
  "rateLimitKey lib clientIP c = (case PrincipalFrom c of
     Some p \<Rightarrow> ''user:'' @ uuid_String lib (pr_UserID p) | None \<Rightarrow> ''ip:'' @ clientIP)"

type_synonym headers = "(string \<times> string) list"

text \<open>The headers set and whether the request goes on.\<close>

definition rateLimitWith :: "uuid_lib \<Rightarrow> limiter \<Rightarrow> string \<Rightarrow> string \<Rightarrow> request \<Rightarrow> (headers \<times> 'b passage) prog" where
  "rateLimitWith lib rl ruleName clientIP c = do {
     d \<leftarrow> Allow rl (rateLimitKey lib clientIP c) ruleName;
     case d of Inl e \<Rightarrow> State_Monad.return ([], Next c)
     | Inr decision \<Rightarrow> do {
         now \<leftarrow> time_Now;
         let hs = [(''X-RateLimit-Limit'', Itoa (dc_Limit decision)),
                   (''X-RateLimit-Remaining'', Itoa (dc_Remaining decision)),
                   (''X-RateLimit-Reset'', Itoa (Unix (now + dc_ResetIn decision)))];
         State_Monad.return (if \<not> dc_Allowed decision
           then (hs @ [(''Retry-After'', Itoa (quot (dc_ResetIn decision) Second + 1))],
                 Answer (Error 429 ''RATE_LIMITED'' (Lit ''Rate limit exceeded'')))
           else (hs, Next c))
       }
   }"

text \<open>The limit on requests in flight wraps the rest of the chain; the release runs whatever it does.\<close>

definition ConcurrencyLimit :: "uuid_lib \<Rightarrow> int \<Rightarrow> string \<Rightarrow> request \<Rightarrow> 'b response prog \<Rightarrow> 'b response prog" where
  "ConcurrencyLimit lib maxConcurrent clientIP c handler = do {
     let key = ''concurrent:'' @ rateLimitKey lib clientIP c;
     r \<leftarrow> redis_Incr key;
     case r of Inl e \<Rightarrow> handler
     | Inr current \<Rightarrow> do {
         _ \<leftarrow> redis_Expire key Minute;
         resp \<leftarrow> (if current > maxConcurrent
           then State_Monad.return (Error 429 ''TOO_MANY_CONCURRENT'' (Lit ''Too many concurrent requests''))
           else handler);
         _ \<leftarrow> redis_Decr key;
         State_Monad.return resp
       }
   }"

end
