(* ===== verification/RateLimitProps.thy ===== *)
theory RateLimitProps
  imports RateLimit Samples
begin

text \<open>
  The rate limit holds: within one window a caller gets no more requests through than the rule allows,
  plus one for each failed call of Redis, since the middleware is open when Redis fails.
\<close>

section \<open>One request\<close>

text \<open>The counter of the window starting at \<^verbatim>\<open>s\<close> stands at \<^verbatim>\<open>n\<close> and lives to the end of the window.\<close>

definition counted :: "string \<Rightarrow> time \<Rightarrow> int \<Rightarrow> world \<Rightarrow> bool" where
  "counted k end n w = (case w_redis w k of None \<Rightarrow> n = 0
     | Some (v, x) \<Rightarrow> v = Itoa n \<and> 0 \<le> n \<and> n < 2 ^ 63 \<and> (case x of None \<Rightarrow> True | Some y \<Rightarrow> end \<le> y))"

definition fails :: "world \<Rightarrow> nat \<Rightarrow> nat \<Rightarrow> nat" where
  "fails w a b = length (filter (\<lambda>n. outcome_at (w_env w) n \<noteq> Done) [a..<b])"

lemma fails_split: "a \<le> b \<Longrightarrow> b \<le> c \<Longrightarrow> fails w a c = fails w a b + fails w b c"
  unfolding fails_def by (metis filter_append length_append le_add_diff_inverse upt_add_eq_append)

lemma fails_env: "w_env w = w_env w' \<Longrightarrow> fails w = fails w'"
  by (simp add: fails_def fun_eq_iff)

lemma counted_counter:
  "counted k end n w \<Longrightarrow> t < end \<Longrightarrow> redis_counter t (w_redis w k) = Some n"
  by (auto simp: counted_def redis_counter_def redis_live_def Atoi_Itoa split: option.splits prod.splits)

lemma wp_redis_add:
  "wp (redis_add d key) Q = (\<lambda>w. Q (fst (run_state (redis_add d key) w)) (snd (run_state (redis_add d key) w)))"
  by (rule ext) (simp add: wp_def case_prod_unfold)

lemma incr_counted:
  assumes "counted k end n w" "clock_at (w_env w) (w_tick w) < end" "n + 1 < 2 ^ 63"
  shows "wp (redis_Incr k) (\<lambda>r w'. w_env w' = w_env w \<and> w_tick w' = Suc (w_tick w)
     \<and> (counted k end n w' \<and> outcome_at (w_env w) (w_tick w) \<noteq> Done \<or> counted k end (n + 1) w')
     \<and> (case r of Inl e \<Rightarrow> outcome_at (w_env w) (w_tick w) \<noteq> Done | Inr c \<Rightarrow> c = n + 1 \<and> counted k end (n + 1) w')) w"
proof -
  have c: "redis_counter (clock_at (w_env w) (w_tick w)) (w_redis w k) = Some n"
    using assms by (intro counted_counter)
  have n: "0 \<le> n" using assms(1) by (auto simp: counted_def split: option.splits)
  show ?thesis
    using assms c n
    by (auto simp: redis_Incr_def redis_add_def wp_State Let_def counted_def redis_live_def
        split: outcome.splits option.splits prod.splits if_splits)
qed

lemma expire_counted:
  assumes "counted k end n w" "clock_at (w_env w) (w_tick w) < end" "Second dvd d" "0 < d"
    "end \<le> clock_at (w_env w) (w_tick w) + d"
  shows "wp (redis_Expire k d) (\<lambda>r w'. w_env w' = w_env w \<and> w_tick w' = Suc (w_tick w) \<and> counted k end n w'
     \<and> (case r of Inl e \<Rightarrow> outcome_at (w_env w) (w_tick w) \<noteq> Done | Inr _ \<Rightarrow> True)) w"
proof -
  have s: "expire_seconds d * Second = d" "\<not> expire_seconds d \<le> 0"
    using assms(3,4) zdvd_imp_le[OF assms(3,4)] by (auto simp: expire_seconds_def pos_imp_zdiv_pos_iff)
  have "counted k end n (w\<lparr> w_tick := x, w_redis := (w_redis w)(k := Some (v, Some (clock_at (w_env w) (w_tick w) + d))) \<rparr>)"
    if "redis_live (clock_at (w_env w) (w_tick w)) (w_redis w k) = Some v" for v x
    using assms(1,5) that by (auto simp: counted_def redis_live_def split: option.splits if_splits)
  then show ?thesis
    using assms(1) s by (auto simp: redis_Expire_def wp_run_put counted_def split: outcome.splits option.splits)
qed

lemma window_end:
  assumes "0 < d"
  shows "t < Truncate t d + d" "Truncate t d \<le> t"
  using assms pos_mod_bound[of d "t - zero_time"] pos_mod_sign[of d "t - zero_time"] by (simp_all add: Truncate_def)

text \<open>The window all readings of the clock from now on fall into.\<close>

definition in_window :: "world \<Rightarrow> duration \<Rightarrow> time \<Rightarrow> bool" where
  "in_window w d s = (\<forall>n \<ge> w_tick w. Truncate (clock_at (w_env w) n) d = s)"

lemma allow_counted:
  assumes "r = Rule rl name" "0 < rl_Window r" "Second dvd rl_Window r" "in_window w (rl_Window r) s"
    "counted (windowKeyOf name key s) (s + rl_Window r) n w" "n + 1 < 2 ^ 63"
  shows "wp (Allow rl key name) (\<lambda>x w'. w_env w' = w_env w \<and> w_tick w' = w_tick w + 3
     \<and> (\<exists>n'. counted (windowKeyOf name key s) (s + rl_Window r) n' w' \<and> n \<le> n' \<and> n' \<le> n + 1
        \<and> (case x of Inl e \<Rightarrow> 0 < fails w (w_tick w) (w_tick w') | Inr d \<Rightarrow> n' = n + 1 \<and> dc_Allowed d = (n + 1 \<le> Rule_Limit r)))) w"
proof -
  let ?k = "windowKeyOf name key s" and ?e = "s + rl_Window r" and ?t = "w_tick w"
  have clock: "clock_at (w_env w) m < ?e" "?e \<le> clock_at (w_env w) m + rl_Window r" if "?t \<le> m" for m
    using window_end[OF assms(2), of "clock_at (w_env w) m"] assms(4) that by (auto simp: in_window_def)
  have bad: "0 < fails w ?t (?t + 3)"
    if "outcome_at (w_env w) (Suc ?t) \<noteq> Done \<or> outcome_at (w_env w) (Suc (Suc ?t)) \<noteq> Done"
    using that by (auto simp: fails_def numeral_3_eq_3)
  define w1 where "w1 = w\<lparr> w_tick := Suc ?t \<rparr>"
  have w1: "w_env w1 = w_env w" "w_tick w1 = Suc ?t" "counted ?k ?e n w1" using assms(5) by (simp_all add: w1_def counted_def)
  have exp: "wp (redis_Expire ?k (rl_Window r)) (\<lambda>x w3. w_env w3 = w_env w \<and> w_tick w3 = Suc (w_tick w2) \<and> counted ?k ?e m w3
       \<and> (case x of Inl e \<Rightarrow> outcome_at (w_env w) (w_tick w2) \<noteq> Done | Inr _ \<Rightarrow> True)) w2"
    if "w_env w2 = w_env w" "w_tick w2 = Suc (Suc ?t)" "counted ?k ?e m w2" for w2 m
    by (rule wp_mono[OF expire_counted[OF that(3) _ assms(3,2)]])
       (use clock[of "Suc (Suc ?t)"] that(1,2) in \<open>auto split: sum.splits\<close>)
  have s: "Truncate (clock_at (w_env w) ?t) (rl_Window r) = s" using assms(4) by (simp add: in_window_def)
  show ?thesis
    unfolding Allow_def Let_def assms(1)[symmetric] wp_bind wp_time_Now s w1_def[symmetric] wp_return
  proof (rule wp_mono[OF incr_counted[OF w1(3) _ assms(6)]], use clock w1 in simp, goal_cases)
    case (1 x w2)
    then have w2: "w_env w2 = w_env w" "w_tick w2 = Suc (Suc ?t)" using w1 by auto
    obtain m where m: "counted ?k ?e m w2" "n \<le> m" "m \<le> n + 1" "\<And>c. x = Inr c \<Longrightarrow> c = n + 1 \<and> m = n + 1"
      using 1 by (cases x) auto
    have x: "\<And>e. x = Inl e \<Longrightarrow> outcome_at (w_env w) (Suc ?t) \<noteq> Done" using 1 w1 by auto
    show ?case
    proof (rule wp_mono[OF exp[OF w2 m(1)]], goal_cases)
      case (1 y w3)
      then have w3: "w_env w3 = w_env w" "w_tick w3 = ?t + 3" "counted ?k ?e m w3" using w2 by auto
      have y: "\<And>e. y = Inl e \<Longrightarrow> outcome_at (w_env w) (Suc (Suc ?t)) \<noteq> Done" using 1 w2 by auto
      show ?case
        unfolding w3(2) using w3(1,3) m x y bad
        by (cases x; cases y) (force intro: exI[of _ m])+
    qed
  qed
qed


section \<open>A caller's requests in one window\<close>

text \<open>\<^verbatim>\<open>m\<close> requests of one caller, one after the other.\<close>

definition requests :: "uuid_lib \<Rightarrow> limiter \<Rightarrow> string \<Rightarrow> string \<Rightarrow> request \<Rightarrow> nat \<Rightarrow> unit passage list prog" where
  "requests lib rl name clientIP c m = foreach [0..<m]
     (\<lambda>_ ps. State_Monad.bind (rateLimitWith lib rl name clientIP c) (\<lambda>p. State_Monad.return (ps @ [snd p]))) []"

definition passed :: "unit passage list \<Rightarrow> int" where
  "passed ps = int (length (filter (\<lambda>p. case p of Next _ \<Rightarrow> True | Answer _ \<Rightarrow> False) ps))"

lemma passed_snoc: "passed (ps @ [p]) = passed ps + (case p of Next _ \<Rightarrow> 1 | Answer _ \<Rightarrow> 0)"
  by (simp add: passed_def split: passage.split)

lemma in_window_later: "in_window w d s \<Longrightarrow> w_env w' = w_env w \<Longrightarrow> w_tick w \<le> w_tick w' \<Longrightarrow> in_window w' d s"
  by (simp add: in_window_def)

lemma one_request:
  assumes "r = Rule rl name" "0 < rl_Window r" "Second dvd rl_Window r" "in_window w (rl_Window r) s"
    "counted (windowKeyOf name (rateLimitKey lib clientIP c) s) (s + rl_Window r) n w" "n + 1 < 2 ^ 63"
  shows "wp (rateLimitWith lib rl name clientIP c :: (headers \<times> unit passage) prog) (\<lambda>p w'. w_env w' = w_env w \<and> w_tick w \<le> w_tick w'
     \<and> (\<exists>n'. counted (windowKeyOf name (rateLimitKey lib clientIP c) s) (s + rl_Window r) n' w' \<and> n \<le> n' \<and> n' \<le> n + 1
        \<and> (0 < fails w (w_tick w) (w_tick w') \<or> n' = n + 1 \<and> passed [snd p] = (if n + 1 \<le> Rule_Limit r then 1 else 0)))) w"
  unfolding rateLimitWith_def wp_bind
proof (rule wp_mono[OF allow_counted[OF assms]], goal_cases)
  case (1 x w2)
  let ?k = "windowKeyOf name (rateLimitKey lib clientIP c) s"
  show ?case
  proof (cases x)
    case (Inl e)
    with 1 show ?thesis by (auto simp: wp_return)
  next
    case (Inr d)
    with 1 have w2: "w_env w2 = w_env w" "w_tick w2 = w_tick w + 3" "counted ?k (s + rl_Window r) (n + 1) w2"
      "dc_Allowed d = (n + 1 \<le> Rule_Limit r)" by auto
    then have "counted ?k (s + rl_Window r) (n + 1) (w2\<lparr> w_tick := Suc (w_tick w2) \<rparr>)" by (simp add: counted_def)
    with w2 Inr show ?thesis
      by (auto simp: wp_bind wp_time_Now wp_return Let_def passed_def intro!: exI[of _ "n + 1"])
  qed
qed

lemma budget:
  fixes a q n n2 l L k :: int
  assumes "a \<le> min n l + int F1" "F1 = 0 \<longrightarrow> n = k \<and> a = min n l" "0 \<le> n" "n \<le> n2" "n2 \<le> n + 1" "q \<le> 1"
    "0 < F2 \<or> n2 = n + 1 \<and> q = (if n + 1 \<le> L then 1 else 0)" "l = max 0 L"
  shows "a + q \<le> min n2 l + int (F1 + F2) \<and> (F1 + F2 = 0 \<longrightarrow> n2 = k + 1 \<and> a + q = min n2 l)"
proof (cases "F2 = 0")
  case True
  show ?thesis
  proof (cases "n + 1 \<le> L")
    case l: True
    then have "min n l = n" "min n2 l = n2" using assms True by auto
    with True l assms show ?thesis by auto
  next
    case l: False
    then have "min n l = l" "min n2 l = l" using assms True by auto
    with True l assms show ?thesis by auto
  qed
next
  case False
  have "min n l \<le> min n2 l" using assms(4) by auto
  with False assms(1,6) show ?thesis by simp
qed

text \<open>C28: within one window, whatever else fails, the middleware passes on at most the limit of the rule plus one
  request for each failed call of Redis; if none fails it passes on exactly the first \<^verbatim>\<open>limit\<close> requests.\<close>

theorem rate_limit_holds:
  assumes "r = Rule rl name" "0 < rl_Window r" "Second dvd rl_Window r" "in_window w (rl_Window r) s"
    and "w_redis w (windowKeyOf name (rateLimitKey lib clientIP c) s) = None" "int m < 2 ^ 63"
    and "run_state (requests lib rl name clientIP c m) w = (ps, w')"
  shows "length ps = m \<and> passed ps \<le> max 0 (Rule_Limit r) + int (fails w (w_tick w) (w_tick w'))
    \<and> (fails w (w_tick w) (w_tick w') = 0 \<longrightarrow> passed ps = min (int m) (max 0 (Rule_Limit r)))"
proof -
  let ?k = "windowKeyOf name (rateLimitKey lib clientIP c) s" and ?e = "s + rl_Window r" and ?l = "max 0 (Rule_Limit r)"
  define J where "J = (\<lambda>n' (k::int) ps w'. counted ?k ?e n' w' \<and> 0 \<le> n' \<and> n' \<le> k
     \<and> passed ps \<le> min n' ?l + int (fails w (w_tick w) (w_tick w'))
     \<and> (fails w (w_tick w) (w_tick w') = 0 \<longrightarrow> n' = k \<and> passed ps = min n' ?l))"
  let ?I = "\<lambda>ys ps w'. w_env w' = w_env w \<and> w_tick w \<le> w_tick w' \<and> length ps = length ys
     \<and> (\<exists>n'. J n' (int (length ys)) ps w')"
  have "wp (requests lib rl name clientIP c m) (\<lambda>ps w'. ?I [0..<m] ps w') w"
    unfolding requests_def
  proof (rule wp_foreach[where I = ?I])
    fix ys zs :: "nat list" and x :: nat and acc and w1 :: world
    assume xs: "[0..<m] = ys @ x # zs" and I: "?I ys acc w1"
    then obtain n' where "J n' (int (length ys)) acc w1" by blast
    note n' = this[unfolded J_def, THEN conjunct1] this[unfolded J_def, THEN conjunct2, THEN conjunct1]
      this[unfolded J_def, THEN conjunct2, THEN conjunct2, THEN conjunct1]
      this[unfolded J_def, THEN conjunct2, THEN conjunct2, THEN conjunct2, THEN conjunct1]
      this[unfolded J_def, THEN conjunct2, THEN conjunct2, THEN conjunct2, THEN conjunct2]
    have "length ys < m" using arg_cong[OF xs, of length] by simp
    with n'(3) have "n' + 1 \<le> int m" by linarith
    with assms(6) have small: "n' + 1 < 2 ^ 63" by (rule order_le_less_trans[rotated])
    show "wp (State_Monad.bind (rateLimitWith lib rl name clientIP c) (\<lambda>p. State_Monad.return (acc @ [snd p])))
        (\<lambda>ps w'. ?I (ys @ [x]) ps w') w1"
      unfolding wp_bind wp_return
    proof (rule wp_mono[OF one_request[OF assms(1-3) in_window_later[OF assms(4)] n'(1) small]], use I in blast, use I in blast, goal_cases)
      case (1 p w2)
      have f: "fails w (w_tick w) (w_tick w2) = fails w (w_tick w) (w_tick w1) + fails w1 (w_tick w1) (w_tick w2)"
        using 1 I fails_split[of "w_tick w" "w_tick w1" "w_tick w2" w] fails_env[of w1 w] by simp
      have p: "passed [snd p] \<le> 1" by (simp add: passed_def)
      obtain n2 where n2: "counted ?k ?e n2 w2" "n' \<le> n2" "n2 \<le> n' + 1"
          "0 < fails w1 (w_tick w1) (w_tick w2) \<or> n2 = n' + 1 \<and> passed [snd p] = (if n' + 1 \<le> Rule_Limit r then 1 else 0)"
        using 1 by blast
      have s: "passed (acc @ [snd p]) = passed acc + passed [snd p]" by (simp add: passed_def)
      have b: "passed acc + passed [snd p] \<le> min n2 ?l + int (fails w (w_tick w) (w_tick w2))
        \<and> (fails w (w_tick w) (w_tick w2) = 0 \<longrightarrow> n2 = int (length ys) + 1 \<and> passed acc + passed [snd p] = min n2 ?l)"
        unfolding f by (rule budget[OF n'(4,5,2) n2(2,3) p n2(4) refl])
      have "w_env w2 = w_env w" "w_tick w \<le> w_tick w2" "length (acc @ [snd p]) = length (ys @ [x])"
        using 1 I by auto
      moreover have "J n2 (int (length (ys @ [x]))) (acc @ [snd p]) w2"
        unfolding J_def s using b n2(1-3) n'(2,3) by simp
      ultimately show ?case by blast
    qed
  next
    have "J 0 0 [] w" using assms(5) by (simp add: J_def counted_def passed_def fails_def)
    then show "?I [] [] w" by auto
  qed
  from wp_result[OF this assms(7)] obtain n' where "length ps = m" and J: "J n' (int m) ps w'" by auto
  note J[unfolded J_def, THEN conjunct2, THEN conjunct2, THEN conjunct2]
  then show ?thesis using \<open>length ps = m\<close> by (auto intro: order_trans)
qed


section \<open>A concrete input\<close>

definition still_world :: world where
  "still_world = (calm_world empty_db)\<lparr> w_env := calm_env\<lparr> clock_at := (\<lambda>_. 0) \<rparr> \<rparr>"

lemma rate_limit_holds_witness:
  "passed (fst (run_state (requests sample_lib defaultRateLimits ''auth'' ''10.0.0.1'' (sample_request None '''') 20) still_world)) = 15"
proof -
  let ?r = "rule 10 Minute 5" and ?s = "Truncate 0 Minute"
  have r: "?r = Rule defaultRateLimits ''auth''"
    by (simp add: Rule_def defaultRateLimits_def RuleGuest_def)
  have "0 < rl_Window ?r" "Second dvd rl_Window ?r" "in_window still_world (rl_Window ?r) ?s"
    "w_redis still_world (windowKeyOf ''auth'' (rateLimitKey sample_lib ''10.0.0.1'' (sample_request None '''')) ?s) = None"
    by (simp_all add: rule_def in_window_def still_world_def calm_world_def)
  note rate_limit_holds[OF r this _ prod.collapse[symmetric], of 20]
  moreover have "fails still_world a b = 0" for a b
    by (simp add: fails_def still_world_def calm_env_def)
  moreover have "Rule_Limit ?r = 15" by (simp add: Rule_Limit_def rule_def wrap64_id)
  ultimately show ?thesis by simp
qed


end
