(* ===== verification/Worker.thy ===== *)
theory Worker
  imports Transcode
begin

text \<open>
  The worker's task handler (\<^verbatim>\<open>internal/queue/handlers.go\<close>, \<^verbatim>\<open>tasks.go\<close>): with a remote store the raw
  file is staged first and the outputs are uploaded afterwards.  Each call of the local file system
  succeeds or fails as the environment says; a walk of the output directory visits the files the
  environment lists.  The payload is what the task's JSON decodes to, \<^verbatim>\<open>None\<close> when it does not.
\<close>

record VideoProcessingPayload =
  vp_VideoID :: string
  vp_Qualities :: "string list"
  vp_Priority :: int

definition ParseVideoProcessingPayload :: "VideoProcessingPayload option \<Rightarrow> err + VideoProcessingPayload" where
  "ParseVideoProcessingPayload task = (case task of
     None \<Rightarrow> Inl (ErrOther ''failed to unmarshal video processing payload'') | Some payload \<Rightarrow> Inr payload)"

text \<open>The payload \<^verbatim>\<open>EnqueueVideoProcessing\<close> puts into the queue.\<close>

definition payload_of :: "uuid_lib \<Rightarrow> job \<Rightarrow> VideoProcessingPayload" where
  "payload_of lib j = \<lparr> vp_VideoID = uuid_String lib (job_VideoID j),
     vp_Qualities = [''360p'', ''480p'', ''720p'', ''1080p''], vp_Priority = job_Priority j \<rparr>"

record VideoProcessingHandler =
  wh_uuid :: uuid_lib
  wh_unicode :: unicode_tables
  wh_store :: Store
  wh_storageCfg :: StorageConfig

section \<open>Staging the raw file\<close>

text \<open>A call of the file system.\<close>

definition os_call :: "string \<Rightarrow> (err + unit) prog" where
  "os_call msg = State_Monad.bind run_exec (\<lambda>ok. State_Monad.return (if ok then Inr () else Inl (ErrOther msg)))"

definition stageRawFile :: "VideoProcessingHandler \<Rightarrow> Video \<Rightarrow> (err + unit) prog" where
  "stageRawFile H video = do {
     present \<leftarrow> run_exec;
     if present then State_Monad.return (Inr ())
     else try_then (sto_Open (wh_store H) (Key [''raw'', path_Base (v_FilePath video)])) (\<lambda>_.
       try_then (os_call ''creating staging directory'') (\<lambda>_.
         try_then (os_call ''creating staging file'') (\<lambda>_. do {
           copied \<leftarrow> run_exec;
           if \<not> copied then do {
             _ \<leftarrow> run_exec;
             State_Monad.return (Inl (ErrOther ''staging raw video''))
           } else do {
             closed \<leftarrow> run_exec;
             if \<not> closed then do {
               _ \<leftarrow> run_exec;
               State_Monad.return (Inl (ErrOther ''flushing staged raw video''))
             } else State_Monad.return (Inr ())
           }
         })))
   }"

section \<open>Uploading the outputs\<close>

text \<open>The label passed to the store with each object.\<close>

definition contentTypeForFile :: "unicode_tables \<Rightarrow> string \<Rightarrow> string" where
  "contentTypeForFile U name = (let ext = ToLower U (path_Ext name) in
     if ext = ''.m3u8'' then ''application/vnd.apple.mpegurl''
     else if ext = ''.ts'' then ''video/MP2T''
     else if ext = ''.mp4'' then ''video/mp4''
     else if ext = ''.jpg'' \<or> ext = ''.jpeg'' then ''image/jpeg''
     else ''application/octet-stream'')"

definition uploadFile :: "VideoProcessingHandler \<Rightarrow> string \<Rightarrow> string \<Rightarrow> (err + unit) prog" where
  "uploadFile H path key = try_then (os_call ''opening'') (\<lambda>_. try_then (os_call ''statting'') (\<lambda>_.
     sto_Save (wh_store H) key))"

text \<open>The walk visits the files in order and stops at the first error; then it may itself have failed.\<close>

fun upload_files :: "VideoProcessingHandler \<Rightarrow> string \<Rightarrow> string \<Rightarrow> string list \<Rightarrow> (err + unit) prog" where
  "upload_files H dir keyPrefix [] = os_call ''walking''"
| "upload_files H dir keyPrefix (rel # rels) =
     try_then (uploadFile H (path_Join [dir, rel]) (Key [keyPrefix, rel])) (\<lambda>_. upload_files H dir keyPrefix rels)"

definition uploadDir :: "VideoProcessingHandler \<Rightarrow> string \<Rightarrow> string \<Rightarrow> (err + unit) prog" where
  "uploadDir H dir keyPrefix = do {
     present \<leftarrow> run_exec;
     if \<not> present then State_Monad.return (Inr ())
     else do {
       rels \<leftarrow> observe walk_at;
       upload_files H dir keyPrefix rels
     }
   }"

definition syncOutputsToStore :: "VideoProcessingHandler \<Rightarrow> Video \<Rightarrow> (err + unit) prog" where
  "syncOutputsToStore H video =
     (let videoID = uuid_String (wh_uuid H) (v_ID video);
          outputDir = path_Join [TranscodedPath (wh_storageCfg H), videoID];
          thumbnail = path_Join [ThumbnailPath (wh_storageCfg H), videoID @ ''.jpg'']
      in try_then (uploadDir H outputDir (Key [''transcoded'', videoID])) (\<lambda>_. do {
           present \<leftarrow> run_exec;
           up \<leftarrow> (if present then uploadFile H thumbnail (Key [''thumbnails'', videoID @ ''.jpg''])
                  else State_Monad.return (Inr ()));
           case up of Inl e \<Rightarrow> State_Monad.return (Inl e)
           | Inr _ \<Rightarrow> do {
               _ \<leftarrow> run_exec; _ \<leftarrow> run_exec; _ \<leftarrow> run_exec;
               State_Monad.return (Inr ())
             }
         }))"

section \<open>The task\<close>

text \<open>\<^verbatim>\<open>filepath.ToSlash\<close> on Unix.\<close>

definition ToSlash :: "string \<Rightarrow> string" where "ToSlash p = p"

definition normalizeThumbnailPath :: "uuid \<Rightarrow> unit prog" where
  "normalizeThumbnailPath i = do {
     r \<leftarrow> VideoRepo_GetByID i;
     case r of Inl e \<Rightarrow> State_Monad.return ()
     | Inr video \<Rightarrow> (case v_ThumbnailPath video of
         None \<Rightarrow> State_Monad.return ()
       | Some path \<Rightarrow>
           if v_Status video \<noteq> VideoStatusReady \<or> ToSlash path = path then State_Monad.return ()
           else do {
             _ \<leftarrow> VideoRepo_MarkAsReady i (v_AvailableQualities video) (ToSlash path);
             State_Monad.return ()
           })
   }"

text \<open>Staging and transcoding, unless an earlier attempt already finished the transcoding.\<close>

definition transcode_task :: "VideoProcessingHandler \<Rightarrow> VideoProcessingPayload \<Rightarrow> Video option \<Rightarrow> (err + unit) prog" where
  "transcode_task H payload remote_video = (case remote_video of
     None \<Rightarrow> ProcessVideo (wh_uuid H) (wh_storageCfg H) (vp_VideoID payload)
   | Some video \<Rightarrow>
       if v_Status video = VideoStatusReady then State_Monad.return (Inr ())
       else try_then (stageRawFile H video)
              (\<lambda>_. ProcessVideo (wh_uuid H) (wh_storageCfg H) (vp_VideoID payload)))"

text \<open>The video is loaded up front when the store is remote only.\<close>

definition ProcessTask :: "VideoProcessingHandler \<Rightarrow> VideoProcessingPayload option \<Rightarrow> (err + unit) prog" where
  "ProcessTask H task = (case ParseVideoProcessingPayload task of
     Inl e \<Rightarrow> State_Monad.return (Inl e)
   | Inr payload \<Rightarrow> (case uuid_Parse (wh_uuid H) (vp_VideoID payload) of
       None \<Rightarrow> State_Monad.return (Inl (ErrOther ''invalid video ID''))
     | Some i \<Rightarrow>
         try_then (if IsRemote (wh_store H)
             then try_then (VideoRepo_GetByID i) (\<lambda>video. State_Monad.return (Inr (Some video)))
             else State_Monad.return (Inr None)) (\<lambda>remote_video.
           try_then (transcode_task H payload remote_video) (\<lambda>_. do {
             normalizeThumbnailPath i;
             case remote_video of None \<Rightarrow> State_Monad.return (Inr ())
             | Some video \<Rightarrow> syncOutputsToStore H video
           }))))"

end
