(* ===== verification/WorkerProps.thy ===== *)
theory WorkerProps
  imports Worker VideoProps TranscodeProps
begin

text \<open>
  Liveness of the whole path of an upload: when nothing fails, the task an upload enqueues takes the video to
  ready, with every quality of the ladder that fits, streamable.  Both processes are on local storage here; how the
  worker stages a file from MinIO and uploads its outputs is modelled in \<^verbatim>\<open>Worker\<close>, without a liveness claim.
\<close>

section \<open>An environment in which nothing fails\<close>

definition smooth :: "env \<Rightarrow> VideoMetadata \<Rightarrow> bool" where
  "smooth e md = (\<forall>n. outcome_at e n = Done \<and> exec_at e n \<and> 0 < count_at e n \<and> probe_at e n = Some md)"

definition holds_row :: "VideoMetadata \<Rightarrow> uuid \<Rightarrow> (Video \<Rightarrow> bool) \<Rightarrow> world \<Rightarrow> bool" where
  "holds_row md i P w = (smooth (w_env w) md \<and> (\<exists>v. lookup v_ID i (db_videos (w_db w)) = Some v \<and> P v))"

lemma holds_rowI: "smooth (w_env w) md \<Longrightarrow> lookup v_ID i (db_videos (w_db w)) = Some v \<Longrightarrow> P v \<Longrightarrow> holds_row md i P w"
  by (auto simp: holds_row_def)

lemma holds_row_mono: "holds_row md i P w \<Longrightarrow> (\<And>v. P v \<Longrightarrow> Q v) \<Longrightarrow> holds_row md i Q w"
  by (auto simp: holds_row_def)

lemma holds_row_frame: "holds_row md i P w \<Longrightarrow> w_env w' = w_env w \<Longrightarrow> w_db w' = w_db w \<Longrightarrow> holds_row md i P w'"
  by (simp add: holds_row_def)

text \<open>Steps of the worker that succeed and leave the row alone.\<close>

lemma row_run_exec: "holds_row md i P w \<Longrightarrow> wp run_exec (\<lambda>ok w'. ok \<and> holds_row md i P w') w"
  by (auto simp: wp_run_exec holds_row_def smooth_def)

lemma row_run_command: "holds_row md i P w \<Longrightarrow> wp (run_command args) (\<lambda>ok w'. ok \<and> holds_row md i P w') w"
  by (auto simp: wp_run_command holds_row_def smooth_def)

lemma row_video_exec:
  assumes "holds_row md i P w" "\<And>t v. v_ID (f t v) = v_ID v" "\<And>t v. P v \<Longrightarrow> Q (f t v)"
  shows "wp (video_exec f i) (\<lambda>r w'. r = Inr () \<and> holds_row md i Q w') w"
  using assms by (auto simp: wp_video_exec Let_def holds_row_def smooth_def lookup_modify)

lemma row_UpdateProgress:
  assumes "holds_row md i P w" "0 \<le> p" "p \<le> 100" "\<And>t v. P v \<Longrightarrow> Q (v\<lparr> v_TranscodingProgress := p, v_UpdatedAt := t \<rparr>)"
  shows "wp (VideoRepo_UpdateProgress i p) (\<lambda>r w'. r = Inr () \<and> holds_row md i Q w') w"
  unfolding wp_UpdateProgress_ok[OF assms(2,3)] by (rule row_video_exec[OF assms(1)]) (auto intro: assms(4))

lemma step_progress_range: "n \<le> 6 \<Longrightarrow> 0 \<le> step_progress n \<and> step_progress n \<le> 100"
  by (auto simp: step_progress_def qualities_def)

text \<open>What the pipeline keeps of a row until it is marked ready.\<close>

definition stable :: "(Video \<Rightarrow> bool) \<Rightarrow> bool" where
  "stable P = (\<forall>v p t. P v \<longrightarrow> P (v\<lparr> v_TranscodingProgress := p, v_UpdatedAt := t \<rparr>))"

lemma row_check_hls_output: "holds_row md i P w \<Longrightarrow> wp check_hls_output (\<lambda>r w'. r = Inr () \<and> holds_row md i P w') w"
  by (auto simp: check_hls_output_def wp_simps holds_row_def smooth_def)

lemma row_ConvertToHLS: "holds_row md i P w \<Longrightarrow> wp (ConvertToHLS cfg s q mp4) (\<lambda>r w'. r = Inr () \<and> holds_row md i P w') w"
  by (auto simp: ConvertToHLS_def Let_def wp_bind wp_if wp_return
      intro!: wp_mono[OF row_run_exec] wp_mono[OF row_run_command] row_check_hls_output)

lemma row_transcodeVideo: "holds_row md i P w \<Longrightarrow> wp (transcodeVideo a b sp) (\<lambda>r w'. r = Inr () \<and> holds_row md i P w') w"
  by (auto simp: transcodeVideo_def wp_bind wp_return intro!: wp_mono[OF row_run_command])

lemma row_render:
  assumes "holds_row md i P w" "stable P" "n \<le> 6"
  shows "wp (render_quality dir i fp md (n, q) acc) (\<lambda>acc' w'. acc' = acc @ filter (fits md) [q] \<and> holds_row md i P w') w"
  using assms step_progress_range[OF assms(3)]
  by (auto simp: render_quality_def Let_def wp_if wp_bind wp_return fits_def stable_def
      intro!: wp_mono[OF row_UpdateProgress[where Q = P]] wp_mono[OF row_transcodeVideo])

lemma row_renditions:
  assumes "holds_row md i P w" "stable P"
  shows "wp (foreach (List.enumerate 0 qualities) (render_quality dir i fp md) [])
     (\<lambda>acc w'. acc = filter (fits md) qualities \<and> holds_row md i P w') w"
proof -
  have "wp (foreach (List.enumerate 0 qualities) (render_quality dir i fp md) [])
     (\<lambda>acc w'. acc = filter (fits md) (map snd (List.enumerate 0 qualities)) \<and> holds_row md i P w') w"
  proof (rule wp_foreach)
    fix ys zs :: "(nat \<times> string) list" and x acc w1
    assume x: "List.enumerate 0 qualities = ys @ x # zs" and I: "acc = filter (fits md) (map snd ys) \<and> holds_row md i P w1"
    have "x \<in> set (List.enumerate 0 qualities)" unfolding x by simp
    then have "fst x \<le> 6" by (auto simp: qualities_def)
    with I show "wp (render_quality dir i fp md x acc)
        (\<lambda>acc' t. acc' = filter (fits md) (map snd (ys @ [x])) \<and> holds_row md i P t) w1"
      using row_render[of md i P w1 "fst x" dir fp "snd x" acc] assms(2) by simp
  qed (use assms in simp)
  then show ?thesis by simp
qed

lemma row_conversions:
  assumes "holds_row md i P w"
  shows "wp (foreach qs (convert_quality cfg dir s) []) (\<lambda>acc w'. acc = qs \<and> holds_row md i P w') w"
proof (rule wp_foreach)
  fix ys zs :: "string list" and x acc w1
  assume "acc = ys \<and> holds_row md i P w1"
  then show "wp (convert_quality cfg dir s x acc) (\<lambda>acc' t. acc' = ys @ [x] \<and> holds_row md i P t) w1"
    by (auto simp: convert_quality_def wp_bind wp_return intro!: wp_mono[OF row_ConvertToHLS])
qed (use assms in simp)

lemma row_master:
  assumes "holds_row md i P w"
  shows "wp (GenerateMasterPlaylist cfg s qs) (\<lambda>r w'. r = Inr () \<and> holds_row md i P w') w"
proof -
  have loop: "wp (foreach qs (\<lambda>quality acc. State_Monad.bind run_exec (\<lambda>present.
       State_Monad.return (if present then acc @ master_entry quality else acc))) acc0) (\<lambda>_ w'. holds_row md i P w') w1"
    if "holds_row md i P w1" for acc0 w1
    by (rule wp_foreach[where I = "\<lambda>_ _. holds_row md i P"])
       (use that in \<open>auto simp: wp_bind wp_return intro!: wp_mono[OF row_run_exec]\<close>)
  show ?thesis
    using assms by (auto simp: GenerateMasterPlaylist_def Let_def wp_bind wp_if wp_return wp_update
        intro!: wp_mono[OF row_run_exec] wp_mono[OF loop] intro: holds_row_frame)
qed

lemma row_publish:
  assumes "holds_row md i P w" "qs \<noteq> []"
    "\<And>t v. P v \<Longrightarrow> Q (v\<lparr> v_HLSMasterPath := Some (''transcoded/'' @ s @ ''/hls/master.m3u8''), v_HLSReady := True,
       v_StreamingProtocol := ''hls'', v_UpdatedAt := t \<rparr>)"
  shows "wp (publish_hls cfg s i qs) (\<lambda>_ w'. holds_row md i Q w') w"
proof -
  have info: "wp (VideoRepo_UpdateHLSInfo i (''transcoded/'' @ s @ ''/hls/master.m3u8'') True) (\<lambda>r w'. r = Inr () \<and> holds_row md i Q w') w'"
    if "holds_row md i P w'" for w'
    unfolding VideoRepo_UpdateHLSInfo_def by (rule row_video_exec[OF that]) (simp, erule assms(3))
  show ?thesis
    using assms(2) by (auto simp: publish_hls_def wp_bind wp_return simp del: append_Cons intro!: wp_mono[OF row_master[OF assms(1)]] wp_mono[OF info])
qed

lemma row_thumbnail:
  "holds_row md i P w \<Longrightarrow> wp (generateThumbnail cfg fp s d)
     (\<lambda>r w'. r = Inr (path_Join [''thumbnails'', s @ ''.jpg'']) \<and> holds_row md i P w') w"
  by (auto simp: generateThumbnail_def Let_def wp_bind wp_if wp_return
      intro!: wp_mono[OF row_run_exec] wp_mono[OF row_run_command])

text \<open>What the pipeline makes of the row.\<close>

definition streamable :: "VideoMetadata \<Rightarrow> string \<Rightarrow> Video \<Rightarrow> bool" where
  "streamable md s v = (v_Status v = VideoStatusReady \<and> v_AvailableQualities v = filter (fits md) qualities
     \<and> v_TranscodingProgress v = 100 \<and> v_HLSReady v \<and> v_HLSMasterPath v = Some (''transcoded/'' @ s @ ''/hls/master.m3u8'')
     \<and> v_ThumbnailPath v = Some (path_Join [''thumbnails'', s @ ''.jpg'']))"

lemma row_process_renditions:
  assumes "holds_row md i P w" "stable P" "filter (fits md) qualities \<noteq> []"
  shows "wp (process_renditions cfg s i fp md dir) (\<lambda>r w'. r = Inr () \<and> holds_row md i (streamable md s) w') w"
proof -
  define H :: "Video \<Rightarrow> bool" where "H = (\<lambda>v. v_HLSReady v \<and> v_HLSMasterPath v = Some (''transcoded/'' @ s @ ''/hls/master.m3u8''))"
  have H: "stable H" by (simp add: H_def stable_def)
  have prog: "wp (VideoRepo_UpdateProgress i (step_progress n)) (\<lambda>_ w'. holds_row md i R w') w'"
    if "holds_row md i R w'" "stable R" "n \<le> 6" for R n w'
    using that step_progress_range[OF that(3)]
    by (auto intro!: wp_mono[OF row_UpdateProgress[where Q = R]] simp: stable_def)
  have pub: "wp (publish_hls cfg s i (filter (fits md) qualities)) (\<lambda>_ w'. holds_row md i H w') w'" if "holds_row md i P w'" for w'
    by (rule row_publish[OF that assms(3)]) (simp add: H_def)
  have ready: "wp (VideoRepo_MarkAsReady i (filter (fits md) qualities) (path_Join [''thumbnails'', s @ ''.jpg'']))
      (\<lambda>r w'. r = Inr () \<and> holds_row md i (streamable md s) w') w'" if "holds_row md i H w'" for w'
    unfolding VideoRepo_MarkAsReady_def by (rule row_video_exec[OF that]) (auto simp: streamable_def H_def)
  have last: "wp (VideoRepo_UpdateProgress i 100) (\<lambda>_ w'. holds_row md i (streamable md s) w') w'"
    if "holds_row md i (streamable md s) w'" for w'
    by (rule wp_mono[OF row_UpdateProgress[OF that, of 100 "streamable md s"]]) (auto simp: streamable_def)
  have tail: "wp (do {
       _ \<leftarrow> VideoRepo_UpdateProgress i (step_progress (length qualities));
       hlsQualities \<leftarrow> foreach (filter (fits md) qualities) (convert_quality cfg dir s) [];
       _ \<leftarrow> publish_hls cfg s i hlsQualities;
       _ \<leftarrow> VideoRepo_UpdateProgress i (step_progress (length qualities + 1));
       t \<leftarrow> generateThumbnail cfg fp s (md_Duration md);
       let thumbnailPath = (case t of Inl e \<Rightarrow> [] | Inr p \<Rightarrow> p);
       ready \<leftarrow> VideoRepo_MarkAsReady i (filter (fits md) qualities) thumbnailPath;
       case ready of Inl e \<Rightarrow> State_Monad.return (Inl e)
       | Inr _ \<Rightarrow> do { _ \<leftarrow> VideoRepo_UpdateProgress i 100; State_Monad.return (Inr ()) } })
      (\<lambda>r w'. r = Inr () \<and> holds_row md i (streamable md s) w') w1" if P: "holds_row md i P w1" for w1
    unfolding wp_bind Let_def
    apply (rule wp_mono[OF prog[OF P assms(2)]], simp add: qualities_def)
    apply (rule wp_mono[OF row_conversions], assumption)
    apply (elim conjE, hypsubst, rule wp_mono[OF pub], assumption)
    apply (rule wp_mono[OF prog[OF _ H]], assumption, simp add: qualities_def)
    apply (rule wp_mono[OF row_thumbnail], assumption)
    apply (elim conjE, hypsubst, simp only: sum.case, rule wp_mono[OF ready], assumption)
    apply (auto simp: wp_bind wp_return intro: wp_mono[OF last])
    done
  show ?thesis
    unfolding process_renditions_def wp_bind[of "foreach _ _ _"]
    by (rule wp_mono[OF row_renditions[OF assms(1,2)]], elim conjE, hypsubst) (use assms(3) tail in simp)
qed


section \<open>The task\<close>

abbreviation has_row :: "VideoMetadata \<Rightarrow> uuid \<Rightarrow> world \<Rightarrow> bool" where
  "has_row md i \<equiv> holds_row md i (\<lambda>_. True)"

lemma row_process_claimed:
  assumes "has_row md i w" "filter (fits md) qualities \<noteq> []"
  shows "wp (process_claimed cfg s i fp) (\<lambda>r w'. r = Inr () \<and> holds_row md i (streamable md s) w') w"
proof -
  have probe: "wp (observe probe_at) (\<lambda>m w'. m = Some md \<and> has_row md i w') w"
    using assms(1) by (auto simp: wp_observe holds_row_def smooth_def)
  have upd: "wp (VideoRepo_UpdateDuration i d) (\<lambda>_ w'. has_row md i w') w'"
    "wp (VideoRepo_UpdateResolution i res) (\<lambda>_ w'. has_row md i w') w'" if "has_row md i w'" for d res w'
    using row_video_exec[OF that, of _ "\<lambda>_. True"]
    by (auto simp: VideoRepo_UpdateDuration_def VideoRepo_UpdateResolution_def intro!: wp_mono[OF row_video_exec[OF that]])
  have stable: "stable (\<lambda>_. True)" by (simp add: stable_def)
  show ?thesis
    unfolding process_claimed_def ExtractMetadata_def wp_bind Let_def
    apply (rule wp_mono[OF probe], elim conjE, hypsubst, simp only: option.case wp_return sum.case wp_bind)
    apply (rule wp_mono[OF upd(1)], assumption)
    apply (rule wp_mono[OF upd(2)], assumption)
    apply (rule wp_mono[OF row_run_exec], assumption)
    apply (auto intro: row_process_renditions[OF _ stable assms(2)])
    done
qed

lemma row_ProcessVideo:
  assumes "uuid_Parse lib s = Some i"
    "holds_row md i (\<lambda>v. v_Status v = VideoStatusUploading \<or> v_Status v = VideoStatusFailed) w" "filter (fits md) qualities \<noteq> []"
  shows "wp (ProcessVideo lib cfg s) (\<lambda>r w'. r = Inr () \<and> holds_row md i (streamable md s) w') w"
proof -
  obtain v where v: "lookup v_ID i (db_videos (w_db w)) = Some v" "v_Status v = VideoStatusUploading \<or> v_Status v = VideoStatusFailed"
    and e: "smooth (w_env w) md" using assms(2) by (auto simp: holds_row_def)
  have get: "run_state (VideoRepo_GetByID i) w = (Inr v, w\<lparr> w_tick := Suc (w_tick w) \<rparr>)"
    using v e by (simp add: run_GetByID smooth_def)
  have "has_row md i (w\<lparr> w_tick := Suc (w_tick w) \<rparr>)" using v e by (simp add: holds_row_def)
  then have claim: "wp (VideoRepo_UpdateStatus i VideoStatusProcessing) (\<lambda>r w'. r = Inr () \<and> has_row md i w') (w\<lparr> w_tick := Suc (w_tick w) \<rparr>)"
    unfolding VideoRepo_UpdateStatus_def by (rule row_video_exec) auto
  show ?thesis
    unfolding ProcessVideo_def assms(1) option.case wp_bind
    using v(2) claim by (auto simp: wp_def[of "VideoRepo_GetByID i"] get wp_if wp_bind wp_return wp_case_sum
        intro!: wp_mono[OF claim] row_process_claimed[OF _ assms(3)])
qed

lemma row_keeps:
  assumes "steps only_objects m" "holds_row md i P w"
  shows "wp m (\<lambda>_ w'. holds_row md i P w') w"
  using stepsD[OF assms(1), of w] assms(2) by (auto simp: wp_def only_objects_def holds_row_def split: prod.splits)

lemma row_normalize: "holds_row md i P w \<Longrightarrow> wp (normalizeThumbnailPath i) (\<lambda>_ w'. holds_row md i P w') w"
  by (auto simp: normalizeThumbnailPath_def ToSlash_def wp_bind wp_case_sum wp_case_option wp_if wp_return
      wp_def[of "VideoRepo_GetByID i"] run_GetByID holds_row_def split: option.splits)

text \<open>With a local store the task returns no error and leaves the video streamable.\<close>

lemma row_ProcessTask_local:
  assumes "\<not> IsRemote (wh_store H)" "uuid_Parse (wh_uuid H) (vp_VideoID payload) = Some i"
    "holds_row md i (\<lambda>v. v_Status v = VideoStatusUploading \<or> v_Status v = VideoStatusFailed) w" "filter (fits md) qualities \<noteq> []"
  shows "wp (ProcessTask H (Some payload)) (\<lambda>r w'. r = Inr () \<and> holds_row md i (streamable md (vp_VideoID payload)) w') w"
  unfolding ProcessTask_def ParseVideoProcessingPayload_def option.case sum.case assms(2)
  using assms(1) by (auto simp: wp_try_then wp_return transcode_task_def wp_bind
      intro!: wp_mono[OF row_ProcessVideo[OF assms(2-4)]] wp_mono[OF row_normalize])


section \<open>From the upload to the stream\<close>

lemma fitting: "360 \<le> md_Height md \<Longrightarrow> filter (fits md) qualities \<noteq> []"
  by (simp add: qualities_def fits_def qualitySpecs_def)

lemma smooth_enqueue:
  "smooth (w_env w) md \<Longrightarrow> wp (EnqueueVideoProcessing i p) (\<lambda>r w'. w_env w' = w_env w \<and> w_db w' = w_db w
     \<and> w_jobs w' = w_jobs w @ [\<lparr> job_VideoID = i, job_Priority = p, job_Queue = getQueueName p \<rparr>]) w"
  by (simp add: EnqueueVideoProcessing_def wp_run_put smooth_def)

lemma wp_smooth_upload:
  assumes "us_store S = Local cfg"
  shows "wp (UploadVideo S req) (\<lambda>r w'. w_env w' = w_env w \<and> w_jobs w' = w_jobs w \<and> (\<forall>v. r = Inr v \<longrightarrow>
     (\<exists>x. lookup v_ID (v_ID v) (db_videos (w_db w')) = Some x \<and> v_Status x = VideoStatusUploading))) w"
  by (rule wp_mono[OF local_store.wp_UploadVideo[OF assms]])
     (auto simp: recorded_def lookup_append video_row_def split: sum.splits)

text \<open>C27: with local storage on both sides (the API stores the upload in its local store, the worker's store is not
  remote) and nothing failing, when the source is at least 360 lines high, an upload that is answered with success
  queues one task, and that task ends without an error with the video ready, at progress 100, in every quality of
  the ladder that fits, with its playlist and thumbnail recorded.  With MinIO nothing is claimed.\<close>

theorem upload_becomes_ready:
  assumes "us_store (vh_upload H) = Local cfg" "\<not> IsRemote (wh_store W)" "\<And>i. uuid_Parse (wh_uuid W) (uuid_String (wh_uuid W) i) = Some i"
    and "smooth (w_env w) md" "360 \<le> md_Height md" "run_state (Handler_Upload H c form) w = (Success 201 (VideoBody v), w1)"
  shows "\<exists>j w2 x. w_jobs w1 = w_jobs w @ [j] \<and> job_VideoID j = v_ID v
    \<and> run_state (ProcessTask W (Some (payload_of (wh_uuid W) j))) w1 = (Inr (), w2)
    \<and> lookup v_ID (v_ID v) (db_videos (w_db w2)) = Some x \<and> streamable md (uuid_String (wh_uuid W) (v_ID v)) x"
proof -
  let ?j = "\<lparr> job_VideoID = v_ID v, job_Priority = 0, job_Queue = getQueueName 0 \<rparr>"
  define Q :: "video_body response \<Rightarrow> world \<Rightarrow> bool" where "Q = (\<lambda>r w1. \<forall>v. r = Success 201 (VideoBody v) \<longrightarrow> w_env w1 = w_env w
     \<and> w_jobs w1 = w_jobs w @ [\<lparr> job_VideoID = v_ID v, job_Priority = 0, job_Queue = getQueueName 0 \<rparr>]
     \<and> (\<exists>x. lookup v_ID (v_ID v) (db_videos (w_db w1)) = Some x \<and> v_Status x = VideoStatusUploading))"
  have "wp (Handler_Upload H c form) Q w"
    using assms(4)
    by (auto simp: Handler_Upload_def Q_def wp_bind wp_return wp_case_option wp_case_sum response_defs respondUploadError_def
        intro!: wp_mono[OF wp_smooth_upload[OF assms(1)]] wp_mono[OF smooth_enqueue[where md = md]] split: option.splits sum.splits)
  from wp_result[OF this assms(6)] have w1: "w_env w1 = w_env w" "w_jobs w1 = w_jobs w @ [?j]"
    "\<exists>x. lookup v_ID (v_ID v) (db_videos (w_db w1)) = Some x \<and> v_Status x = VideoStatusUploading" by (auto simp: Q_def)
  let ?p = "payload_of (wh_uuid W) ?j"
  have "holds_row md (v_ID v) (\<lambda>v. v_Status v = VideoStatusUploading \<or> v_Status v = VideoStatusFailed) w1"
    using w1 assms(4) by (auto simp: holds_row_def)
  moreover have "uuid_Parse (wh_uuid W) (vp_VideoID ?p) = Some (v_ID v)" by (simp add: payload_of_def assms(3))
  ultimately have "wp (ProcessTask W (Some ?p)) (\<lambda>r w'. r = Inr () \<and> holds_row md (v_ID v) (streamable md (vp_VideoID ?p)) w') w1"
    using row_ProcessTask_local[OF assms(2)] fitting[OF assms(5)] by blast
  from wpD[OF this] obtain x where "fst (run_state (ProcessTask W (Some ?p)) w1) = Inr ()"
    "lookup v_ID (v_ID v) (db_videos (w_db (snd (run_state (ProcessTask W (Some ?p)) w1)))) = Some x"
    "streamable md (uuid_String (wh_uuid W) (v_ID v)) x" by (auto simp: holds_row_def payload_of_def)
  with w1(2) show ?thesis
    by (intro exI[of _ ?j] exI[of _ "snd (run_state (ProcessTask W (Some ?p)) w1)"] exI[of _ x]) (auto intro: prod_eqI)
qed

section \<open>A concrete input\<close>

text \<open>Decimal identifiers parse back.\<close>

lemma sample_roundtrip: "uuid_Parse sample_lib (uuid_String sample_lib i) = Some i"
  by (simp add: sample_lib_def digits_value_nat_string)

lemma upload_becomes_ready_witness:
  "\<exists>v w1 j w2 x. run_state (Handler_Upload sample_VH (sample_request (Some (as_user 1)) '''') (Some sample_form))
       (calm_world (video_db VideoStatusReady VisibilityPublic)) = (Success 201 (VideoBody v), w1)
     \<and> run_state (ProcessTask \<lparr> wh_uuid = sample_lib, wh_unicode = no_unicode, wh_store = Local sample_cfg,
          wh_storageCfg = sample_cfg \<rparr> (Some (payload_of sample_lib j))) w1 = (Inr (), w2)
     \<and> lookup v_ID (v_ID v) (db_videos (w_db w2)) = Some x \<and> v_AvailableQualities x = [''360p'', ''480p'', ''720p'']"
proof -
  let ?run = "run_state (Handler_Upload sample_VH (sample_request (Some (as_user 1)) '''') (Some sample_form))
       (calm_world (video_db VideoStatusReady VisibilityPublic))"
  let ?W = "\<lparr> wh_uuid = sample_lib, wh_unicode = no_unicode, wh_store = Local sample_cfg, wh_storageCfg = sample_cfg \<rparr>"
  let ?md = "\<lparr> md_Duration = 60, md_Width = 1280, md_Height = 720 \<rparr>"
  have "case ?run of (Success s (VideoBody v), w') \<Rightarrow> s = 201 | _ \<Rightarrow> False" by code_simp
  then obtain v w1 where run: "?run = (Success 201 (VideoBody v), w1)" by (auto split: prod.splits response.splits video_body.splits)
  have "us_store (vh_upload sample_VH) = Local sample_cfg" "\<not> IsRemote (wh_store ?W)"
    by (simp_all add: sample_VH_def IsRemote_def Local_def)
  moreover have "uuid_Parse (wh_uuid ?W) (uuid_String (wh_uuid ?W) i) = Some i" for i by (simp add: sample_roundtrip)
  moreover have "smooth (w_env (calm_world (video_db VideoStatusReady VisibilityPublic))) ?md" "360 \<le> md_Height ?md"
    by (simp_all add: smooth_def calm_world_def calm_env_def)
  ultimately obtain j w2 x where "run_state (ProcessTask ?W (Some (payload_of (wh_uuid ?W) j))) w1 = (Inr (), w2)"
    "lookup v_ID (v_ID v) (db_videos (w_db w2)) = Some x" "streamable ?md (uuid_String (wh_uuid ?W) (v_ID v)) x"
    using upload_becomes_ready[OF _ _ _ _ _ run] by metis
  moreover have "filter (fits ?md) qualities = [''360p'', ''480p'', ''720p'']"
    by (simp add: fits_def qualities_def qualitySpecs_def)
  ultimately show ?thesis using run unfolding streamable_def by (metis VideoProcessingHandler.select_convs(1))
qed


end
