(* ===== verification/Tokens.thy ===== *)
theory Tokens
  imports World Http
begin

text \<open>
  Credentials: password rules (\<^verbatim>\<open>pkg/security/password.go\<close>) and signed tokens
  (\<^verbatim>\<open>pkg/jwt/token.go\<close>).  bcrypt and the JWT library are parameters; \<^verbatim>\<open>jwt_ok\<close> is the one law
  of the latter the service relies on.
\<close>

section \<open>Passwords\<close>

definition MinPasswordLength :: nat where "MinPasswordLength = 8"
definition MaxPasswordLength :: nat where "MaxPasswordLength = 72"

definition commonPasswords :: "string list" where
  "commonPasswords = [''password'', ''password123'', ''123456'', ''12345678'', ''qwerty'', ''abc123'', ''monkey'',
     ''1234567'', ''letmein'', ''trustno1'', ''dragon'', ''baseball'', ''iloveyou'', ''master'', ''sunshine'',
     ''ashley'', ''bailey'', ''shadow'', ''superman'']"

text \<open>The character class of the special characters, as code points.\<close>

definition special_rune :: "nat \<Rightarrow> bool" where
  "special_rune r = (r \<in> set (map byte ''!@#$%^&*()_+-=[]{};:|,.<>/?~'') \<or> r = 39 \<or> r = 34 \<or> r = 92)"

text \<open>The switch classifies each rune by the first case that applies.\<close>

definition rune_class :: "unicode_tables \<Rightarrow> nat \<Rightarrow> nat" where
  "rune_class u r = (if rune_is_upper u r then 1 else if rune_is_lower u r then 2
     else if rune_is_number u r then 3 else if special_rune r then 4 else 0)"

definition ValidatePassword :: "unicode_tables \<Rightarrow> string \<Rightarrow> err option" where
  "ValidatePassword u password =
     (if length password < MinPasswordLength then Some (ErrOther ''password is too short'')
      else if length password > MaxPasswordLength then Some (ErrOther ''password is too long'')
      else if password \<in> set commonPasswords then Some (ErrOther ''password is too common'')
      else let classes = map (rune_class u) (runes password) in
        if 1 \<notin> set classes then Some (ErrOther ''password must contain at least one uppercase letter'')
        else if 2 \<notin> set classes then Some (ErrOther ''password must contain at least one lowercase letter'')
        else if 3 \<notin> set classes then Some (ErrOther ''password must contain at least one number'')
        else if 4 \<notin> set classes then Some (ErrOther ''password must contain at least one special character'')
        else None)"

definition ValidatePasswordStrength :: "string \<Rightarrow> string \<times> nat" where
  "ValidatePasswordStrength password =
     (let score = (if length password \<ge> 8 then 1 else 0) + (if length password \<ge> 12 then 1 else 0)
          + (if length password \<ge> 16 then 1 else 0)
          + (if list_ex (\<lambda>c. cont 97 122 (byte c)) password then 1 else 0)
          + (if list_ex (\<lambda>c. cont 65 90 (byte c)) password then 1 else 0)
          + (if list_ex is_digit password then 1 else 0)
          + (if list_ex (\<lambda>c. special_rune (byte c)) password then 1 else (0::nat))
      in (if score \<le> 2 then ''weak'' else if score \<le> 4 then ''fair'' else if score \<le> 6 then ''good'' else ''strong'', score))"

text \<open>bcrypt: hashing with a fresh salt (an observation number) may fail; comparison is a predicate.\<close>

record bcrypt_lib =
  bcrypt_hash :: "nat \<Rightarrow> string \<Rightarrow> string option"
  bcrypt_matches :: "string \<Rightarrow> string \<Rightarrow> bool"

definition HashPassword :: "unicode_tables \<Rightarrow> bcrypt_lib \<Rightarrow> string \<Rightarrow> (err + string) prog" where
  "HashPassword u bc plain = (case ValidatePassword u plain of
     Some e \<Rightarrow> State_Monad.return (Inl e)
   | None \<Rightarrow> do {
       salt \<leftarrow> observe (\<lambda>env n. n);
       State_Monad.return (case bcrypt_hash bc salt plain of
          None \<Rightarrow> Inl (ErrOther ''failed to hash password'') | Some h \<Rightarrow> Inr h)
     })"

definition ComparePassword :: "bcrypt_lib \<Rightarrow> string \<Rightarrow> string \<Rightarrow> bool" where
  "ComparePassword bc hashed plain = bcrypt_matches bc hashed plain"

section \<open>Claims\<close>

abbreviation TokenTypeAccess :: string where "TokenTypeAccess \<equiv> ''access''"
abbreviation TokenTypeRefresh :: string where "TokenTypeRefresh \<equiv> ''refresh''"

record Claims =
  cl_UserID :: string
  cl_Username :: string
  cl_Role :: string
  cl_Type :: string
  cl_IssuedAtMS :: int
  cl_ID :: string
  cl_Subject :: string
  cl_IssuedAt :: "time option"
  cl_ExpiresAt :: "time option"
  cl_NotBefore :: "time option"
  cl_Issuer :: string

definition zero_time :: time where "zero_time = - 62135596800 * Second"
definition UnixMilli :: "time \<Rightarrow> int" where "UnixMilli t = t div 1000000"

text \<open>\<^verbatim>\<open>jwt.NewNumericDate\<close> truncates to whole seconds.\<close>

definition NumericDate :: "time \<Rightarrow> time" where "NumericDate t = t - t mod Second"

definition IssuedAtTime :: "Claims \<Rightarrow> time" where
  "IssuedAtTime c = (if cl_IssuedAtMS c > 0 then cl_IssuedAtMS c * 1000000
     else case cl_IssuedAt c of Some t \<Rightarrow> t | None \<Rightarrow> zero_time)"

section \<open>The token service\<close>

record TokenService =
  ts_secretKey :: string
  ts_accessTTL :: duration
  ts_refreshTTL :: duration
  ts_issuer :: string

text \<open>The JWT library: HS256 signing, and parsing with the checks of \<^verbatim>\<open>ParseWithClaims\<close> (signature,
  HMAC method, expiry, not-before, issuer) at a given time.\<close>

record jwt_lib =
  jwt_sign :: "string \<Rightarrow> Claims \<Rightarrow> string option"
  jwt_parse :: "string \<Rightarrow> string \<Rightarrow> time \<Rightarrow> string \<Rightarrow> Claims option"

definition jwt_times_ok :: "time \<Rightarrow> Claims \<Rightarrow> bool" where
  "jwt_times_ok now c = ((case cl_ExpiresAt c of None \<Rightarrow> True | Some e \<Rightarrow> now < e)
     \<and> (case cl_NotBefore c of None \<Rightarrow> True | Some n \<Rightarrow> n \<le> now))"

text \<open>The documented behaviour of the library: a token parses exactly to the claims it was signed with,
  when the key and the issuer agree and the time is within its dates.\<close>

definition jwt_ok :: "jwt_lib \<Rightarrow> bool" where
  "jwt_ok J = (\<forall>key iss now c s. jwt_sign J key c = Some s \<longrightarrow>
     jwt_parse J key iss now s = (if cl_Issuer c = iss \<and> jwt_times_ok now c then Some c else None))"

definition sign :: "uuid_lib \<Rightarrow> jwt_lib \<Rightarrow> TokenService \<Rightarrow> string \<Rightarrow> string \<Rightarrow> string \<Rightarrow> string \<Rightarrow> duration
    \<Rightarrow> (err + string) prog" where
  "sign lib J ts userID username role typ ttl = do {
     now \<leftarrow> time_Now;
     jti \<leftarrow> uuid_New;
     let claims = \<lparr> cl_UserID = userID, cl_Username = username, cl_Role = role, cl_Type = typ,
       cl_IssuedAtMS = UnixMilli now, cl_ID = uuid_String lib jti, cl_Subject = userID,
       cl_IssuedAt = Some (NumericDate now), cl_ExpiresAt = Some (NumericDate (now + ttl)),
       cl_NotBefore = Some (NumericDate now), cl_Issuer = ts_issuer ts \<rparr>;
     State_Monad.return (case jwt_sign J (ts_secretKey ts) claims of
        None \<Rightarrow> Inl (ErrOther ''failed to sign token'') | Some s \<Rightarrow> Inr s)
   }"

definition GenerateToken :: "uuid_lib \<Rightarrow> jwt_lib \<Rightarrow> TokenService \<Rightarrow> string \<Rightarrow> string \<Rightarrow> string \<Rightarrow> (err + string) prog" where
  "GenerateToken lib J ts userID username role =
     sign lib J ts userID username role TokenTypeAccess (ts_accessTTL ts)"

definition GenerateRefreshToken :: "uuid_lib \<Rightarrow> jwt_lib \<Rightarrow> TokenService \<Rightarrow> string \<Rightarrow> string \<Rightarrow> string \<Rightarrow> (err + string) prog" where
  "GenerateRefreshToken lib J ts userID username role =
     sign lib J ts userID username role TokenTypeRefresh (ts_refreshTTL ts)"

definition ValidateToken :: "jwt_lib \<Rightarrow> TokenService \<Rightarrow> string \<Rightarrow> (err + Claims) prog" where
  "ValidateToken J ts tokenString = do {
     now \<leftarrow> time_Now;
     State_Monad.return (case jwt_parse J (ts_secretKey ts) (ts_issuer ts) now tokenString of
        None \<Rightarrow> Inl (ErrOther ''failed to parse token'') | Some c \<Rightarrow> Inr c)
   }"

text \<open>The type check of \<^verbatim>\<open>validate\<close>: a token without a type claim counts as an access token.\<close>

definition check_type :: "string \<Rightarrow> Claims \<Rightarrow> err + Claims" where
  "check_type want c = (let got = (if cl_Type c = '''' then TokenTypeAccess else cl_Type c) in
     if got \<noteq> want then Inl ErrWrongTokenType else Inr c)"

definition validate :: "jwt_lib \<Rightarrow> TokenService \<Rightarrow> string \<Rightarrow> string \<Rightarrow> (err + Claims) prog" where
  "validate J ts tokenString want = do {
     r \<leftarrow> ValidateToken J ts tokenString;
     State_Monad.return (case r of Inl e \<Rightarrow> Inl e | Inr c \<Rightarrow> check_type want c)
   }"

definition ValidateAccessToken :: "jwt_lib \<Rightarrow> TokenService \<Rightarrow> string \<Rightarrow> (err + Claims) prog" where
  "ValidateAccessToken J ts tokenString = validate J ts tokenString TokenTypeAccess"

definition ValidateRefreshToken :: "jwt_lib \<Rightarrow> TokenService \<Rightarrow> string \<Rightarrow> (err + Claims) prog" where
  "ValidateRefreshToken J ts tokenString = validate J ts tokenString TokenTypeRefresh"

section \<open>Lemmas\<close>

lemma wp_ValidateToken [wp_simps]:
  "wp (ValidateToken J ts s) Q = (\<lambda>w. Q (case jwt_parse J (ts_secretKey ts) (ts_issuer ts) (clock_at (w_env w) (w_tick w)) s of
        None \<Rightarrow> Inl (ErrOther ''failed to parse token'') | Some c \<Rightarrow> Inr c) (w\<lparr> w_tick := Suc (w_tick w) \<rparr>))"
  by (rule ext) (simp add: ValidateToken_def wp_simps)

lemma wp_validate [wp_simps]:
  "wp (validate J ts s want) Q = (\<lambda>w. Q (case jwt_parse J (ts_secretKey ts) (ts_issuer ts) (clock_at (w_env w) (w_tick w)) s of
        None \<Rightarrow> Inl (ErrOther ''failed to parse token'') | Some c \<Rightarrow> check_type want c) (w\<lparr> w_tick := Suc (w_tick w) \<rparr>))"
  by (rule ext) (simp add: validate_def wp_simps split: option.splits)

lemma check_type_exclusive: "\<not> (check_type TokenTypeAccess c = Inr c \<and> check_type TokenTypeRefresh c = Inr c)"
  by (simp add: check_type_def Let_def)

text \<open>The claims a call of \<^verbatim>\<open>sign\<close> puts into the token, by the state it runs in.\<close>

definition signed_claims :: "uuid_lib \<Rightarrow> TokenService \<Rightarrow> string \<Rightarrow> string \<Rightarrow> string \<Rightarrow> string \<Rightarrow> duration \<Rightarrow> world \<Rightarrow> Claims" where
  "signed_claims lib ts userID username role typ ttl w =
     (let now = clock_at (w_env w) (w_tick w) in
      \<lparr> cl_UserID = userID, cl_Username = username, cl_Role = role, cl_Type = typ,
       cl_IssuedAtMS = UnixMilli now, cl_ID = uuid_String lib (uuid_at (w_env w) (Suc (w_tick w))), cl_Subject = userID,
       cl_IssuedAt = Some (NumericDate now), cl_ExpiresAt = Some (NumericDate (now + ttl)),
       cl_NotBefore = Some (NumericDate now), cl_Issuer = ts_issuer ts \<rparr>)"

lemma wp_sign [wp_simps]:
  "wp (sign lib J ts userID username role typ ttl) Q = (\<lambda>w.
     Q (case jwt_sign J (ts_secretKey ts) (signed_claims lib ts userID username role typ ttl w) of
        None \<Rightarrow> Inl (ErrOther ''failed to sign token'') | Some s \<Rightarrow> Inr s) (w\<lparr> w_tick := Suc (Suc (w_tick w)) \<rparr>))"
  by (rule ext) (simp add: sign_def wp_simps signed_claims_def Let_def)

lemma steps_ValidateToken [steps_intros]: "preorder r \<Longrightarrow> steps (on_db r) (ValidateToken J ts s)"
  unfolding ValidateToken_def by (intro steps_intros preorder_on_db)

lemma steps_sign [steps_intros]: "preorder r \<Longrightarrow> steps (on_db r) (sign lib J ts a b c t ttl)"
  unfolding sign_def by (intro steps_intros preorder_on_db)

text \<open>Every common password already lacks a character class, so the blocklist refuses nothing that the
  class rules would accept.\<close>

lemma common_passwords_lack_class:
  "p \<in> set commonPasswords \<Longrightarrow> 1 \<notin> set (map (rune_class u) (runes p))"
proof -
  assume "p \<in> set commonPasswords"
  moreover have "list_all (\<lambda>p. ascii p \<and> list_all (\<lambda>c. \<not> cont 65 90 (byte c)) p) commonPasswords"
    by code_simp
  ultimately have p: "ascii p" "\<forall>c \<in> set p. \<not> cont 65 90 (byte c)"
    by (auto simp: list_all_iff)
  then have "\<forall>c \<in> set p. rune_class u (byte c) \<noteq> 1"
    by (auto simp: rune_class_def rune_is_upper_def ascii_def list_all_iff)
  with p(1) show ?thesis by (auto simp: runes_ascii)
qed

end
