(* ===== verification/Auth.thy ===== *)
theory Auth
  imports UserRepo Tokens Samples
begin

text \<open>
  Authentication: the token denylist (\<^verbatim>\<open>internal/service/session_service.go\<close>), the middleware
  (\<^verbatim>\<open>internal/middleware/auth.go\<close>), the service (\<^verbatim>\<open>internal/service/auth_service.go\<close>) and its
  handlers (\<^verbatim>\<open>internal/handler/auth_handler.go\<close>).  The locale \<^verbatim>\<open>revocation_store\<close> is the Go
  interface RevocationChecker with the law the middleware relies on; the session service
  interprets it.
\<close>

section \<open>The denylist\<close>

definition revokedTokenKeyPrefix :: string where "revokedTokenKeyPrefix = ''auth:revoked:jti:''"
definition minIssuedAtKeyPrefix :: string where "minIssuedAtKeyPrefix = ''auth:revoked:user:ms:''"

definition RevokeToken :: "duration \<Rightarrow> string \<Rightarrow> time \<Rightarrow> (err + unit) prog" where
  "RevokeToken maxTokenTTL jti expiresAt =
     (if jti = '''' then State_Monad.return (Inl ErrInvalidToken)
      else do {
        now \<leftarrow> time_Now;
        let ttl = (if expiresAt = zero_time then maxTokenTTL else expiresAt - now);
        if ttl \<le> 0 then State_Monad.return (Inr ())
        else redis_Set (revokedTokenKeyPrefix @ jti) ''1'' ttl
      })"

definition RevokeAllUserSessions :: "uuid_lib \<Rightarrow> duration \<Rightarrow> uuid \<Rightarrow> (err + unit) prog" where
  "RevokeAllUserSessions lib maxTokenTTL userID = do {
     now \<leftarrow> time_Now;
     redis_Set (minIssuedAtKeyPrefix @ uuid_String lib userID) (Itoa (UnixMilli now + 1)) maxTokenTTL
   }"

text \<open>The decision on the two values MGET returns.\<close>

definition revocation_verdict :: "string option \<Rightarrow> string option \<Rightarrow> time \<Rightarrow> err + bool" where
  "revocation_verdict v0 v1 issuedAt =
     (if v0 \<noteq> None then Inr True
      else case v1 of None \<Rightarrow> Inr False
      | Some raw \<Rightarrow> (case Atoi raw of None \<Rightarrow> Inl (ErrOther ''parsing min issued-at'')
          | Some minIssuedAt \<Rightarrow> Inr (UnixMilli issuedAt < minIssuedAt)))"

definition IsRevoked :: "string \<Rightarrow> string \<Rightarrow> time \<Rightarrow> (err + bool) prog" where
  "IsRevoked jti userID issuedAt = do {
     r \<leftarrow> redis_MGet [revokedTokenKeyPrefix @ jti, minIssuedAtKeyPrefix @ userID];
     State_Monad.return (case r of Inl e \<Rightarrow> Inl (ErrOther ''checking token revocation'')
       | Inr vals \<Rightarrow> revocation_verdict (vals ! 0) (vals ! 1) issuedAt)
   }"

section \<open>The middleware\<close>

record Authenticator =
  au_tokens :: TokenService
  au_revocations :: "(string \<Rightarrow> string \<Rightarrow> time \<Rightarrow> (err + bool) prog) option"
  au_revocationFailOpen :: bool

definition checkRevocation :: "Authenticator \<Rightarrow> Claims \<Rightarrow> (err + unit) prog" where
  "checkRevocation a claims = (case au_revocations a of
     None \<Rightarrow> State_Monad.return (Inr ())
   | Some isRevoked \<Rightarrow> do {
       r \<leftarrow> isRevoked (cl_ID claims) (cl_UserID claims) (IssuedAtTime claims);
       State_Monad.return (case r of
         Inl e \<Rightarrow> if au_revocationFailOpen a then Inr () else Inl ErrRevocationUnavailable
       | Inr revoked \<Rightarrow> if revoked then Inl ErrTokenRevoked else Inr ())
     })"

text \<open>The identity part of \<^verbatim>\<open>principalFromRequest\<close>.\<close>

definition principal_of_claims :: "uuid_lib \<Rightarrow> Claims \<Rightarrow> err + Principal" where
  "principal_of_claims lib claims = (case uuid_Parse lib (cl_UserID claims) of
     None \<Rightarrow> Inl ErrInvalidToken
   | Some userID \<Rightarrow> let role = role_of_name (cl_Role claims) in
       if \<not> Role_IsValid role then Inl ErrInvalidToken
       else Inr \<lparr> pr_UserID = userID, pr_Username = cl_Username claims, pr_Role = role \<rparr>)"

definition bearerPrefix :: string where "bearerPrefix = ''Bearer ''"

definition principalFromRequest :: "uuid_lib \<Rightarrow> jwt_lib \<Rightarrow> Authenticator \<Rightarrow> string \<Rightarrow> (err + Principal) prog" where
  "principalFromRequest lib J a header =
     (if \<not> HasPrefix header bearerPrefix then State_Monad.return (Inl ErrUnauthorized)
      else let token = TrimSpace (TrimPrefix header bearerPrefix) in
        if token = '''' then State_Monad.return (Inl ErrUnauthorized)
        else do {
          v \<leftarrow> ValidateAccessToken J (au_tokens a) token;
          case v of Inl e \<Rightarrow> State_Monad.return (Inl ErrInvalidToken)
          | Inr claims \<Rightarrow> do {
              k \<leftarrow> checkRevocation a claims;
              State_Monad.return (case k of Inl e \<Rightarrow> Inl e | Inr _ \<Rightarrow> principal_of_claims lib claims)
            }
        })"

definition RequireAuth :: "uuid_lib \<Rightarrow> jwt_lib \<Rightarrow> Authenticator \<Rightarrow> string \<Rightarrow> request \<Rightarrow> 'b passage prog" where
  "RequireAuth lib J a header c = do {
     r \<leftarrow> principalFromRequest lib J a header;
     State_Monad.return (case r of
       Inl e \<Rightarrow> Answer (if e = ErrRevocationUnavailable
                  then Error 503 ''AUTH_UNAVAILABLE'' (Lit ''Authentication is temporarily unavailable'')
                  else Unauthorized ''Valid authentication token required'')
     | Inr caller \<Rightarrow> Next (WithPrincipal c caller))
   }"

definition OptionalAuth :: "uuid_lib \<Rightarrow> jwt_lib \<Rightarrow> Authenticator \<Rightarrow> string \<Rightarrow> request \<Rightarrow> 'b passage prog" where
  "OptionalAuth lib J a header c = do {
     r \<leftarrow> principalFromRequest lib J a header;
     State_Monad.return (case r of Inl e \<Rightarrow> Next c | Inr caller \<Rightarrow> Next (WithPrincipal c caller))
   }"

definition RequirePermission :: "Permission \<Rightarrow> request \<Rightarrow> 'b passage" where
  "RequirePermission permission c = (case PrincipalFrom c of
     None \<Rightarrow> Answer (Unauthorized ''Valid authentication token required'')
   | Some caller \<Rightarrow> if \<not> Principal_HasPermission caller permission
       then Answer (Error 403 ''FORBIDDEN'' (Lit ''You do not have permission to perform this action''))
       else Next c)"

section \<open>The service\<close>

record TokenPair =
  tp_AccessToken :: string
  tp_RefreshToken :: string
  tp_TokenType :: string
  tp_ExpiresIn :: int
  tp_RefreshExpiresIn :: int
  tp_User :: User

text \<open>The collaborators of the service.\<close>

record auth_env =
  ae_uuid :: uuid_lib
  ae_jwt :: jwt_lib
  ae_bcrypt :: bcrypt_lib
  ae_unicode :: unicode_tables
  ae_tokens :: TokenService
  ae_maxTokenTTL :: duration

definition renewAccess :: "auth_env \<Rightarrow> User \<Rightarrow> string \<Rightarrow> (err + TokenPair) prog" where
  "renewAccess A user refreshToken = do {
     r \<leftarrow> GenerateToken (ae_uuid A) (ae_jwt A) (ae_tokens A) (uuid_String (ae_uuid A) (u_ID user)) (u_Username user)
            (role_name (u_Role user));
     State_Monad.return (case r of Inl e \<Rightarrow> Inl e
       | Inr access \<Rightarrow> Inr \<lparr> tp_AccessToken = access, tp_RefreshToken = refreshToken, tp_TokenType = ''Bearer'',
           tp_ExpiresIn = ts_accessTTL (ae_tokens A) div Second,
           tp_RefreshExpiresIn = ts_refreshTTL (ae_tokens A) div Second,
           tp_User = user\<lparr> u_PasswordHash := '''' \<rparr> \<rparr>)
   }"

definition issueTokens :: "auth_env \<Rightarrow> User \<Rightarrow> (err + TokenPair) prog" where
  "issueTokens A user = do {
     r \<leftarrow> GenerateRefreshToken (ae_uuid A) (ae_jwt A) (ae_tokens A) (uuid_String (ae_uuid A) (u_ID user))
            (u_Username user) (role_name (u_Role user));
     case r of Inl e \<Rightarrow> State_Monad.return (Inl e) | Inr refresh \<Rightarrow> renewAccess A user refresh
   }"

definition Auth_Register :: "auth_env \<Rightarrow> string \<Rightarrow> string \<Rightarrow> string \<Rightarrow> (err + TokenPair) prog" where
  "Auth_Register A username email password = (case ValidatePassword (ae_unicode A) password of
     Some e \<Rightarrow> State_Monad.return (Inl ErrWeakPassword)
   | None \<Rightarrow> do {
       h \<leftarrow> HashPassword (ae_unicode A) (ae_bcrypt A) password;
       case h of Inl e \<Rightarrow> State_Monad.return (Inl e)
       | Inr hash \<Rightarrow> do {
           i \<leftarrow> uuid_New; t1 \<leftarrow> time_Now; t2 \<leftarrow> time_Now;
           case NewUser (ae_unicode A) i t1 t2 username email hash RoleUser of
             Inl e \<Rightarrow> State_Monad.return (Inl e)
           | Inr user \<Rightarrow> do {
               c \<leftarrow> UserRepo_Create user;
               case c of Inl e \<Rightarrow> State_Monad.return (Inl e) | Inr _ \<Rightarrow> issueTokens A user
             }
         }
     })"

definition lookup_identifier :: "auth_env \<Rightarrow> string \<Rightarrow> (err + User) prog" where
  "lookup_identifier A identifier = (let ident = TrimSpace identifier in
     if ident = '''' then State_Monad.return (Inl ErrUserNotFound)
     else if CHR ''@'' \<in> set ident then UserRepo_GetByEmail (ae_unicode A) ident
     else UserRepo_GetByUsername ident)"

definition dummyBcryptHash :: string where
  "dummyBcryptHash = ''$2a$12$C6UzMDM.H6dfI/f/IKcEeO.wLPvfLZBrPWvpBRDDMDDNiIVKWEP.6''"

definition Auth_Login :: "auth_env \<Rightarrow> string \<Rightarrow> string \<Rightarrow> (err + TokenPair) prog" where
  "Auth_Login A identifier password = do {
     r \<leftarrow> lookup_identifier A identifier;
     case (case r of Inl e \<Rightarrow> if e = ErrUserNotFound then Inr None else Inl e | Inr user \<Rightarrow> Inr (Some user)) of
       Inl e \<Rightarrow> State_Monad.return (Inl e)
     | Inr found \<Rightarrow>
         let storedHash = (case found of None \<Rightarrow> dummyBcryptHash | Some user \<Rightarrow> u_PasswordHash user);
             passwordMatches = ComparePassword (ae_bcrypt A) storedHash password
         in (case found of None \<Rightarrow> State_Monad.return (Inl ErrInvalidCredentials)
             | Some user \<Rightarrow>
                 if \<not> passwordMatches then State_Monad.return (Inl ErrInvalidCredentials)
                 else do {
                   t1 \<leftarrow> time_Now;
                   if IsCurrentlyBanned t1 user then State_Monad.return (Inl ErrUserBanned)
                   else do {
                     t2 \<leftarrow> time_Now;
                     let user' = UpdateLastLogin t2 user;
                     _ \<leftarrow> UserRepo_Update user';
                     issueTokens A user'
                   }
                 })
   }"

definition Auth_Refresh :: "auth_env \<Rightarrow> string \<Rightarrow> (err + TokenPair) prog" where
  "Auth_Refresh A token = do {
     v \<leftarrow> ValidateRefreshToken (ae_jwt A) (ae_tokens A) token;
     case v of Inl e \<Rightarrow> State_Monad.return (Inl ErrInvalidToken)
     | Inr claims \<Rightarrow> do {
         k \<leftarrow> IsRevoked (cl_ID claims) (cl_UserID claims) (IssuedAtTime claims);
         case k of Inl e \<Rightarrow> State_Monad.return (Inl e)
         | Inr revoked \<Rightarrow>
             if revoked then State_Monad.return (Inl ErrTokenRevoked)
             else (case uuid_Parse (ae_uuid A) (cl_UserID claims) of
               None \<Rightarrow> State_Monad.return (Inl ErrInvalidToken)
             | Some i \<Rightarrow> do {
                 u \<leftarrow> UserRepo_GetByID i;
                 case u of Inl e \<Rightarrow> State_Monad.return (Inl e)
                 | Inr user \<Rightarrow> do {
                     now \<leftarrow> time_Now;
                     if IsCurrentlyBanned now user then State_Monad.return (Inl ErrUserBanned)
                     else renewAccess A user token
                   }
               })
       }
   }"

definition revokeByClaims :: "auth_env \<Rightarrow> Claims \<Rightarrow> (err + unit) prog" where
  "revokeByClaims A claims =
     (if cl_ID claims = '''' then State_Monad.return (Inr ())
      else RevokeToken (ae_maxTokenTTL A) (cl_ID claims)
             (case cl_ExpiresAt claims of None \<Rightarrow> zero_time | Some e \<Rightarrow> e))"

definition Auth_Logout :: "auth_env \<Rightarrow> string \<Rightarrow> string \<Rightarrow> (err + unit) prog" where
  "Auth_Logout A accessToken refreshToken = do {
     v \<leftarrow> ValidateToken (ae_jwt A) (ae_tokens A) accessToken;
     case v of Inl e \<Rightarrow> State_Monad.return (Inl ErrInvalidToken)
     | Inr claims \<Rightarrow> do {
         r \<leftarrow> revokeByClaims A claims;
         case r of Inl e \<Rightarrow> State_Monad.return (Inl e)
         | Inr _ \<Rightarrow>
             if refreshToken \<noteq> '''' \<and> refreshToken \<noteq> accessToken then do {
               v2 \<leftarrow> ValidateToken (ae_jwt A) (ae_tokens A) refreshToken;
               case v2 of Inl e \<Rightarrow> State_Monad.return (Inr ())
               | Inr refreshClaims \<Rightarrow> revokeByClaims A refreshClaims
             } else State_Monad.return (Inr ())
       }
   }"

definition RevokeAllSessions :: "auth_env \<Rightarrow> uuid \<Rightarrow> (err + unit) prog" where
  "RevokeAllSessions A userID = RevokeAllUserSessions (ae_uuid A) (ae_maxTokenTTL A) userID"

section \<open>The handlers\<close>

text \<open>The body is what was bound from JSON, \<^verbatim>\<open>None\<close> when binding failed.\<close>

datatype auth_body = TokenBody TokenPair | MessageBody string | UserBody User

definition respondAuthError :: "err \<Rightarrow> auth_body response" where
  "respondAuthError e =
     (if e = ErrInvalidCredentials \<or> e = ErrUserNotFound then Unauthorized ''Invalid credentials''
      else if e = ErrInvalidToken \<or> e = ErrTokenExpired \<or> e = ErrTokenRevoked then Unauthorized ''Invalid or expired token''
      else if e = ErrUserBanned then Error 403 ''USER_BANNED'' (Lit ''This account is banned'')
      else if e = ErrUserAlreadyExists then Error 409 ''ALREADY_EXISTS'' (ErrText e)
      else if e \<in> set [ErrWeakPassword, ErrInvalidUsername, ErrInvalidEmail, ErrInvalidPassword]
        then Error 400 ''VALIDATION_ERROR'' (ErrText e)
      else InternalError ''Authentication failed'')"

definition Handler_Register :: "auth_env \<Rightarrow> (string \<times> string \<times> string) option \<Rightarrow> auth_body response prog" where
  "Handler_Register A body = (case body of
     None \<Rightarrow> State_Monad.return (ValidationError ''username, a valid email, and password are required'')
   | Some (username, email, password) \<Rightarrow> do {
       r \<leftarrow> Auth_Register A username email password;
       State_Monad.return (case r of Inl e \<Rightarrow> respondAuthError e | Inr tokens \<Rightarrow> Success 201 (TokenBody tokens))
     })"

definition Handler_Login :: "auth_env \<Rightarrow> (string \<times> string) option \<Rightarrow> auth_body response prog" where
  "Handler_Login A body = (case body of
     None \<Rightarrow> State_Monad.return (ValidationError ''identifier and password are required'')
   | Some (identifier, password) \<Rightarrow> do {
       r \<leftarrow> Auth_Login A identifier password;
       State_Monad.return (case r of Inl e \<Rightarrow> respondAuthError e | Inr tokens \<Rightarrow> Success 200 (TokenBody tokens))
     })"

definition Handler_Refresh :: "auth_env \<Rightarrow> string option \<Rightarrow> auth_body response prog" where
  "Handler_Refresh A body = (case body of
     None \<Rightarrow> State_Monad.return (ValidationError ''refresh_token is required'')
   | Some token \<Rightarrow> do {
       r \<leftarrow> Auth_Refresh A token;
       State_Monad.return (case r of Inl e \<Rightarrow> respondAuthError e | Inr tokens \<Rightarrow> Success 200 (TokenBody tokens))
     })"

definition bearerToken :: "string \<Rightarrow> string" where
  "bearerToken header = (if \<not> HasPrefix header bearerPrefix then '''' else TrimSpace (TrimPrefix header bearerPrefix))"

text \<open>A body that does not bind leaves the refresh token empty.\<close>

definition Handler_Logout :: "auth_env \<Rightarrow> request \<Rightarrow> string \<Rightarrow> string \<Rightarrow> auth_body response prog" where
  "Handler_Logout A c header refresh = (case PrincipalFrom c of
     None \<Rightarrow> State_Monad.return (Unauthorized ''Authentication required'')
   | Some p \<Rightarrow> let token = bearerToken header in
       if token = '''' then State_Monad.return (Unauthorized ''Authentication required'')
       else do {
         r \<leftarrow> Auth_Logout A token (TrimSpace refresh);
         State_Monad.return (case r of
           Inl e \<Rightarrow> if e = ErrInvalidToken then Unauthorized ''Invalid or expired token'' else InternalError ''Failed to log out''
         | Inr _ \<Rightarrow> Success 200 (MessageBody ''Logged out''))
       })"

definition Handler_LogoutAll :: "auth_env \<Rightarrow> request \<Rightarrow> auth_body response prog" where
  "Handler_LogoutAll A c = (case PrincipalFrom c of
     None \<Rightarrow> State_Monad.return (Unauthorized ''Authentication required'')
   | Some p \<Rightarrow> do {
       r \<leftarrow> RevokeAllSessions A (pr_UserID p);
       State_Monad.return (case r of Inl e \<Rightarrow> InternalError ''Failed to log out''
         | Inr _ \<Rightarrow> Success 200 (MessageBody ''All sessions revoked''))
     })"

definition Handler_Me :: "request \<Rightarrow> auth_body response prog" where
  "Handler_Me c = (case PrincipalFrom c of
     None \<Rightarrow> State_Monad.return (Unauthorized ''Authentication required'')
   | Some p \<Rightarrow> do {
       r \<leftarrow> UserRepo_GetByID (pr_UserID p);
       State_Monad.return (case r of
         Inl e \<Rightarrow> if e = ErrUserNotFound then NotFound ''User not found'' else InternalError ''Failed to load user''
       | Inr user \<Rightarrow> Success 200 (UserBody user))
     })"

end
