(* ===== verification/Crypto.thy ===== *)
theory Crypto
  imports GoLib
begin

unbundle bit_operations_syntax

text \<open>
  The parts of Go's standard library the mailed tokens and the mail format are built from:
  SHA-256 (\<^verbatim>\<open>crypto/sha256\<close>), the unpadded URL alphabet of \<^verbatim>\<open>encoding/base64\<close>, lower-case
  hexadecimal, and the sixteen bytes of a UUID.  Each encoding comes with its round trip.
\<close>

section \<open>Big-endian bytes\<close>

fun be_bytes :: "nat \<Rightarrow> nat \<Rightarrow> nat list" where
  "be_bytes 0 n = []"
| "be_bytes (Suc k) n = be_bytes k (n div 256) @ [n mod 256]"

definition be_value :: "nat list \<Rightarrow> nat" where
  "be_value bs = foldl (\<lambda>a b. a * 256 + b) 0 bs"

lemma length_be_bytes [simp]: "length (be_bytes k n) = k"
  by (induction k arbitrary: n) simp_all

lemma be_bytes_small: "b \<in> set (be_bytes k n) \<Longrightarrow> b < 256"
  by (induction k arbitrary: n) auto

lemma be_value_snoc [simp]: "be_value (bs @ [b]) = be_value bs * 256 + b"
  by (simp add: be_value_def)

lemma be_value_bytes: "be_value (be_bytes k n) = n mod 256 ^ k"
proof (induction k arbitrary: n)
  case (Suc k)
  have "n mod 256 ^ Suc k = 256 * (n div 256 mod 256 ^ k) + n mod 256"
    by (simp add: mod_mult2_eq)
  then show ?case using Suc by (simp add: mult.commute)
qed (simp add: be_value_def)

definition bytes_of :: "nat list \<Rightarrow> string" where
  "bytes_of bs = map char_of bs"

lemma bytes_of_simps [simp]: "length (bytes_of bs) = length bs"
  by (simp add: bytes_of_def)

lemma byte_bytes_of: "(\<And>b. b \<in> set bs \<Longrightarrow> b < 256) \<Longrightarrow> map byte (bytes_of bs) = bs"
  by (induction bs) (auto simp: bytes_of_def byte_def)

lemma bytes_of_byte [simp]: "bytes_of (map byte s) = s"
  by (simp add: bytes_of_def byte_def comp_def)

lemma byte_less [simp]: "byte c < 256"
  by (simp add: byte_def)

section \<open>UUIDs as sixteen bytes\<close>

definition uuid_bytes :: "uuid \<Rightarrow> string" where
  "uuid_bytes i = bytes_of (be_bytes 16 (unat i))"

definition uuid_FromBytes :: "string \<Rightarrow> uuid option" where
  "uuid_FromBytes s = (if length s = 16 then Some (of_nat (be_value (map byte s))) else None)"

lemma length_uuid_bytes [simp]: "length (uuid_bytes i) = 16"
  by (simp add: uuid_bytes_def)

lemma uuid_FromBytes_bytes [simp]: "uuid_FromBytes (uuid_bytes i) = Some i"
proof -
  have "map byte (bytes_of (be_bytes 16 (unat i))) = be_bytes 16 (unat i)"
    by (rule byte_bytes_of) (rule be_bytes_small)
  moreover have "unat i < 256 ^ 16"
    by (rule order_less_le_trans[OF unsigned_less]) simp
  ultimately show ?thesis
    by (simp add: uuid_FromBytes_def uuid_bytes_def be_value_bytes del: be_bytes.simps)
qed

section \<open>Base64 with the URL alphabet, unpadded\<close>

definition b64_alphabet :: string where
  "b64_alphabet = ''ABCDEFGHIJKLMNOPQRSTUVWXYZabcdefghijklmnopqrstuvwxyz0123456789-_''"

definition b64_char :: "nat \<Rightarrow> char" where "b64_char n = b64_alphabet ! n"

definition b64_value :: "char \<Rightarrow> nat option" where
  "b64_value c = (let n = length (takeWhile (\<lambda>d. d \<noteq> c) b64_alphabet) in if n < 64 then Some n else None)"

fun b64_quanta :: "nat list \<Rightarrow> nat list" where
  "b64_quanta (a # b # c # r) =
     a div 4 # ((a mod 4) * 16 + b div 16) # ((b mod 16) * 4 + c div 64) # c mod 64 # b64_quanta r"
| "b64_quanta [a, b] = [a div 4, (a mod 4) * 16 + b div 16, (b mod 16) * 4]"
| "b64_quanta [a] = [a div 4, (a mod 4) * 16]"
| "b64_quanta [] = []"

definition b64_EncodeToString :: "string \<Rightarrow> string" where
  "b64_EncodeToString s = map b64_char (b64_quanta (map byte s))"

text \<open>Not strict: the unused bits of the last character are ignored.\<close>

fun b64_bytes :: "nat list \<Rightarrow> nat list option" where
  "b64_bytes (p # q # r # s # vs) = map_option
     (\<lambda>bs. (p * 4 + q div 16) # ((q mod 16) * 16 + r div 4) # ((r mod 4) * 64 + s) # bs) (b64_bytes vs)"
| "b64_bytes [p, q, r] = Some [p * 4 + q div 16, (q mod 16) * 16 + r div 4]"
| "b64_bytes [p, q] = Some [p * 4 + q div 16]"
| "b64_bytes [p] = None"
| "b64_bytes [] = Some []"

text \<open>The decoder skips line ends.\<close>

definition b64_DecodeString :: "string \<Rightarrow> string option" where
  "b64_DecodeString s =
     (let vs = map b64_value (filter (\<lambda>c. c \<noteq> CHR 0x0A \<and> c \<noteq> CHR 0x0D) s) in
      if None \<in> set vs then None else map_option bytes_of (b64_bytes (map the vs)))"

lemma joined_digits: "(y::nat) < m \<Longrightarrow> (x * m + y) div m = x" "(y::nat) < m \<Longrightarrow> (x * m + y) mod m = y"
  by simp_all

lemma high_digit: "(a::nat) < 256 \<Longrightarrow> a div 4 < 64" "a < 256 \<Longrightarrow> a div 16 < 16" "a < 256 \<Longrightarrow> a div 64 < 4"
  by (simp_all add: less_mult_imp_div_less)

lemma low_digit: "(a::nat) mod 4 < 4" "a mod 16 < 16" "a mod 64 < 64" by simp_all

lemma sextet_bounds:
  assumes "(b::nat) < 256" "c < 256"
  shows "(a mod 4) * 16 + b div 16 < 64 \<and> (b mod 16) * 4 + c div 64 < 64 \<and> (a mod 4) * 16 < 64 \<and> (b mod 16) * 4 < 64"
  using high_digit(2)[OF assms(1)] high_digit(3)[OF assms(2)] low_digit(1)[of a] low_digit(2)[of b] by linarith

lemma b64_quanta_small: "(\<And>b. b \<in> set bs \<Longrightarrow> b < 256) \<Longrightarrow> q \<in> set (b64_quanta bs) \<Longrightarrow> q < 64"
proof (induction bs rule: b64_quanta.induct)
  case (1 a b c r)
  then show ?case using high_digit(1)[of a] sextet_bounds[of b c a] by auto
next
  case (2 a b)
  then show ?case using high_digit(1)[of a] sextet_bounds[of b b] by auto
next
  case (3 a)
  then show ?case using high_digit(1)[of a] sextet_bounds[of a a] by auto
qed simp

lemma b64_bytes_quanta: "(\<And>b. b \<in> set bs \<Longrightarrow> b < 256) \<Longrightarrow> b64_bytes (b64_quanta bs) = Some bs"
  by (induction bs rule: b64_quanta.induct) (simp_all add: joined_digits high_digit)

lemma b64_value_char: "n < 64 \<Longrightarrow> b64_value (b64_char n) = Some n"
proof -
  assume "n < 64"
  moreover have "list_all (\<lambda>n. b64_value (b64_char n) = Some n) [0..<64]" by code_simp
  ultimately show ?thesis by (simp add: list_all_iff)
qed

lemma b64_char_visible: "n < 64 \<Longrightarrow> b64_char n \<noteq> CHR 0x0A \<and> b64_char n \<noteq> CHR 0x0D"
proof -
  assume "n < 64"
  moreover have "list_all (\<lambda>n. b64_char n \<noteq> CHR 0x0A \<and> b64_char n \<noteq> CHR 0x0D) [0..<64]" by code_simp
  ultimately show ?thesis by (simp add: list_all_iff)
qed

lemma b64_roundtrip [simp]: "b64_DecodeString (b64_EncodeToString s) = Some s"
proof -
  let ?q = "b64_quanta (map byte s)"
  have q: "\<And>n. n \<in> set ?q \<Longrightarrow> n < 64" by (rule b64_quanta_small) auto
  have "filter (\<lambda>c. c \<noteq> CHR 0x0A \<and> c \<noteq> CHR 0x0D) (map b64_char ?q) = map b64_char ?q"
    using q by (auto simp: filter_id_conv dest: b64_char_visible)
  moreover have "map b64_value (map b64_char ?q) = map Some ?q"
    using q by (simp add: b64_value_char)
  moreover have "b64_bytes ?q = Some (map byte s)" by (rule b64_bytes_quanta) auto
  moreover have "map the (map Some ?q) = ?q" by simp
  ultimately show ?thesis
    by (simp add: b64_DecodeString_def b64_EncodeToString_def Let_def image_iff del: map_map)
qed

section \<open>Hexadecimal\<close>

definition hex_char :: "nat \<Rightarrow> char" where "hex_char n = ''0123456789abcdef'' ! n"

definition hex_EncodeToString :: "string \<Rightarrow> string" where
  "hex_EncodeToString s = concat (map (\<lambda>c. [hex_char (byte c div 16), hex_char (byte c mod 16)]) s)"

section \<open>SHA-256\<close>

definition sha256_K :: "32 word list" where
  "sha256_K = [
     1116352408, 1899447441, 3049323471, 3921009573, 961987163, 1508970993, 2453635748, 2870763221,
     3624381080, 310598401, 607225278, 1426881987, 1925078388, 2162078206, 2614888103, 3248222580,
     3835390401, 4022224774, 264347078, 604807628, 770255983, 1249150122, 1555081692, 1996064986,
     2554220882, 2821834349, 2952996808, 3210313671, 3336571891, 3584528711, 113926993, 338241895,
     666307205, 773529912, 1294757372, 1396182291, 1695183700, 1986661051, 2177026350, 2456956037,
     2730485921, 2820302411, 3259730800, 3345764771, 3516065817, 3600352804, 4094571909, 275423344,
     430227734, 506948616, 659060556, 883997877, 958139571, 1322822218, 1537002063, 1747873779,
     1955562222, 2024104815, 2227730452, 2361852424, 2428436474, 2756734187, 3204031479, 3329325298]"

definition sha256_init :: "32 word list" where
  "sha256_init = [1779033703, 3144134277, 1013904242, 2773480762, 1359893119, 2600822924, 528734635, 1541459225]"

definition rotr :: "nat \<Rightarrow> 32 word \<Rightarrow> 32 word" where
  "rotr n x = drop_bit n x OR push_bit (32 - n) x"

text \<open>The padding: a one bit, zeros to a multiple of 64 bytes, and the length in bits.\<close>

definition sha256_pad :: "nat list \<Rightarrow> nat list" where
  "sha256_pad bs = bs @ 128 # replicate ((119 - length bs mod 64) mod 64) 0 @ be_bytes 8 (8 * length bs)"

text \<open>The message schedule: sixteen words of the block, extended to 64; kept in reverse.\<close>

fun sha256_extend :: "nat \<Rightarrow> 32 word list \<Rightarrow> 32 word list" where
  "sha256_extend 0 ws = ws"
| "sha256_extend (Suc k) ws =
     (let x = ws ! 14; y = ws ! 1;
          s0 = rotr 7 x XOR rotr 18 x XOR drop_bit 3 x;
          s1 = rotr 17 y XOR rotr 19 y XOR drop_bit 10 y
      in sha256_extend k ((ws ! 15 + s0 + ws ! 6 + s1) # ws))"

fun sha256_words :: "nat list \<Rightarrow> 32 word list" where
  "sha256_words (a # b # c # d # r) = of_nat (be_value [a, b, c, d]) # sha256_words r"
| "sha256_words _ = []"

fun sha256_round :: "32 word list \<Rightarrow> 32 word \<times> 32 word \<Rightarrow> 32 word list" where
  "sha256_round [a, b, c, d, e, f, g, h] (k, w) =
     (let s1 = rotr 6 e XOR rotr 11 e XOR rotr 25 e;
          ch = (e AND f) XOR (NOT e AND g);
          t1 = h + s1 + ch + k + w;
          s0 = rotr 2 a XOR rotr 13 a XOR rotr 22 a;
          maj = (a AND b) XOR (a AND c) XOR (b AND c)
      in [t1 + s0 + maj, a, b, c, d + t1, e, f, g])"
| "sha256_round st _ = st"

definition sha256_block :: "32 word list \<Rightarrow> nat list \<Rightarrow> 32 word list" where
  "sha256_block st block =
     map2 (+) st (foldl sha256_round st (zip sha256_K (rev (sha256_extend 48 (rev (sha256_words block))))))"

function sha256_blocks :: "32 word list \<Rightarrow> nat list \<Rightarrow> 32 word list" where
  "sha256_blocks st bs = (if length bs < 64 then st else sha256_blocks (sha256_block st (take 64 bs)) (drop 64 bs))"
  by pat_completeness auto
termination by (relation "measure (\<lambda>(st, bs). length bs)") auto

declare sha256_blocks.simps [simp del]

definition sha256_Sum256 :: "string \<Rightarrow> string" where
  "sha256_Sum256 s = bytes_of (concat (map (\<lambda>w. be_bytes 4 (unat w)) (sha256_blocks sha256_init (sha256_pad (map byte s)))))"

end
