(* ===== verification/Mailer.thy ===== *)
theory Mailer
  imports Crypto GoTime World
begin

text \<open>
  The mailer (\<^verbatim>\<open>pkg/mailer\<close>): the choice of the sender, the log sender, the SMTP sender with
  its refusal to go on in cleartext, and the MIME rendering.  A step of the SMTP dialogue is a
  command recorded in \<^verbatim>\<open>w_commands\<close> that succeeds or fails as the environment says; the message
  reaches \<^verbatim>\<open>w_mail\<close> when the server takes the end of its data.  The q-encoding is the Go library's, the
  local time zone a parameter.
\<close>

section \<open>Randomness\<close>

text \<open>\<^verbatim>\<open>rand.Read\<close> of \<^verbatim>\<open>n\<close> bytes: the first \<^verbatim>\<open>n\<close> of the random stream at that point.\<close>

definition rand_Read :: "nat \<Rightarrow> (err + string) prog" where
  "rand_Read n = observe (\<lambda>e k. case rand_at e k of None \<Rightarrow> Inl (ErrOther ''crypto/rand'')
     | Some s \<Rightarrow> Inr (take n (s @ replicate n (CHR 0x00))))"

section \<open>Header encoding of the Go library\<close>

text \<open>\<^verbatim>\<open>mime.QEncoding.Encode\<close> for utf-8: encoded words of at most 75 characters, split between runes.\<close>

definition q_plain :: "nat \<Rightarrow> bool" where "q_plain b = (32 \<le> b \<and> b \<le> 126)"

definition q_upper_hex :: "nat \<Rightarrow> char" where "q_upper_hex n = ''0123456789ABCDEF'' ! n"

definition q_byte :: "nat \<Rightarrow> string" where
  "q_byte b = (if b = 32 then ''_''
     else if q_plain b \<and> b \<noteq> 61 \<and> b \<noteq> 63 \<and> b \<noteq> 95 then [char_of b]
     else [CHR ''='', q_upper_hex (b div 16), q_upper_hex (b mod 16)])"

text \<open>The text cut into the byte groups of its runes.\<close>

function rune_groups :: "nat list \<Rightarrow> nat list list" where
  "rune_groups [] = []"
| "rune_groups (b # bs) = (let n = max 1 (snd (decode_rune b bs)) in take n (b # bs) # rune_groups (drop n (b # bs)))"
  by pat_completeness auto
termination by (relation "measure length") auto

fun q_words :: "nat \<Rightarrow> nat list list \<Rightarrow> string" where
  "q_words used [] = ''?=''"
| "q_words used (g # gs) =
     (let text = concat (map q_byte g) in
      if used + length text > 63 then ''?='' @ [CHR 0x0D, CHR 0x0A] @ '' =?utf-8?q?'' @ text @ q_words (length text) gs
      else text @ q_words (used + length text) gs)"

definition QEncode :: "string \<Rightarrow> string" where
  "QEncode s = (if list_all (\<lambda>c. q_plain (byte c) \<or> byte c = 9) s then s
     else ''=?utf-8?q?'' @ q_words 0 (rune_groups (map byte s)))"

section \<open>Messages (mailer.go)\<close>

record MailConfig =
  mc_Host :: string
  mc_Port :: int
  mc_Username :: string
  mc_Password :: string
  mc_From :: string
  mc_AllowInsecure :: bool

datatype Mailer = LogMailer | SMTPMailer MailConfig

definition mailer_New :: "MailConfig \<Rightarrow> Mailer" where
  "mailer_New cfg = (if mc_Host cfg = '''' then LogMailer else SMTPMailer cfg)"

section \<open>Rendering (smtp.go)\<close>

abbreviation crlf :: string where "crlf \<equiv> [CHR 0x0D, CHR 0x0A]"

definition mime_header :: "string \<Rightarrow> string \<Rightarrow> string" where
  "mime_header k v = k @ '': '' @ v @ crlf"

definition mime_part :: "string \<Rightarrow> string \<Rightarrow> string" where
  "mime_part contentType body = mime_header ''Content-Type'' contentType
     @ mime_header ''Content-Transfer-Encoding'' ''8bit'' @ crlf @ body @ crlf"

definition buildMIME :: "int \<Rightarrow> string \<Rightarrow> mail \<Rightarrow> (err + string) prog" where
  "buildMIME zone sender msg = do {
     now \<leftarrow> time_Now;
     let b = mime_header ''From'' sender @ mime_header ''To'' (ml_To msg)
       @ mime_header ''Subject'' (QEncode (ml_Subject msg)) @ mime_header ''Date'' (RFC1123Z zone now)
       @ mime_header ''MIME-Version'' ''1.0'';
     if ml_TextBody msg \<noteq> '''' \<and> ml_HTMLBody msg \<noteq> '''' then do {
       raw \<leftarrow> rand_Read 16;
       case raw of Inl e \<Rightarrow> State_Monad.return (Inl e)
       | Inr bytes \<Rightarrow>
           let boundary = hex_EncodeToString bytes in
           State_Monad.return (Inr (b
             @ mime_header ''Content-Type'' (''multipart/alternative; boundary='' @ [CHR 0x22] @ boundary @ [CHR 0x22]) @ crlf
             @ ''--'' @ boundary @ crlf @ mime_part ''text/plain; charset=utf-8'' (ml_TextBody msg)
             @ ''--'' @ boundary @ crlf @ mime_part ''text/html; charset=utf-8'' (ml_HTMLBody msg)
             @ ''--'' @ boundary @ ''--'' @ crlf))
     }
     else if ml_HTMLBody msg \<noteq> '''' then State_Monad.return (Inr (b @ mime_part ''text/html; charset=utf-8'' (ml_HTMLBody msg)))
     else State_Monad.return (Inr (b @ mime_part ''text/plain; charset=utf-8'' (ml_TextBody msg)))
   }"

section \<open>The dialogue (smtp.go)\<close>

definition JoinHostPort :: "string \<Rightarrow> string \<Rightarrow> string" where
  "JoinHostPort host port = (if CHR '':'' \<in> set host then ''['' @ host @ '']'' else host) @ '':'' @ port"

text \<open>One exchange with the server, whose failure ends the dialogue with the given error.\<close>

definition smtp :: "string list \<Rightarrow> string \<Rightarrow> (err + unit) prog" where
  "smtp command failure = do {
     ok \<leftarrow> run_command command;
     State_Monad.return (if ok then Inr () else Inl (ErrOther failure))
   }"

text \<open>STARTTLS unless the connection is TLS from the start: refused, when the server does not offer it,
  unless cleartext is allowed.\<close>

definition smtp_secure :: "MailConfig \<Rightarrow> (err + unit) prog" where
  "smtp_secure cfg = (if mc_Port cfg = 465 then State_Monad.return (Inr ())
     else do {
       offered \<leftarrow> run_exec;
       if offered then smtp [''STARTTLS''] ''starttls''
       else if \<not> mc_AllowInsecure cfg then State_Monad.return (Inl (ErrOther ''refusing to send in cleartext''))
       else State_Monad.return (Inr ())
     })"

definition smtp_auth :: "MailConfig \<Rightarrow> (err + unit) prog" where
  "smtp_auth cfg = (if mc_Username cfg \<noteq> '''' then smtp [''AUTH PLAIN'', mc_Username cfg, mc_Password cfg] ''smtp auth''
     else State_Monad.return (Inr ()))"

text \<open>Dialling; on port 465 the banner is read through TLS.\<close>

definition smtp_connect :: "MailConfig \<Rightarrow> (err + unit) prog" where
  "smtp_connect cfg =
     try_then (smtp [''DIAL'', JoinHostPort (mc_Host cfg) (Itoa (mc_Port cfg))] ''dialing smtp server'')
       (\<lambda>_. smtp (if mc_Port cfg = 465 then [''TLS'', ''EHLO''] else [''EHLO'']) ''smtp handshake'')"

definition SMTP_Send :: "int \<Rightarrow> MailConfig \<Rightarrow> mail \<Rightarrow> (err + unit) prog" where
  "SMTP_Send zone cfg msg =
     try_then (smtp_connect cfg) (\<lambda>_.
     try_then (smtp_secure cfg) (\<lambda>_.
     try_then (smtp_auth cfg) (\<lambda>_.
     try_then (smtp [''MAIL FROM'', mc_From cfg] ''smtp MAIL FROM'') (\<lambda>_.
     try_then (smtp [''RCPT TO'', ml_To msg] ''smtp RCPT TO'') (\<lambda>_.
     try_then (buildMIME zone (mc_From cfg) msg) (\<lambda>body.
     try_then (smtp [''DATA''] ''smtp DATA'') (\<lambda>_.
     try_then (smtp [''BODY'', body] ''writing message body'') (\<lambda>_.
     try_then (run_put ''finishing message body'' (\<lambda>t w. w\<lparr> w_mail := w_mail w @ [msg] \<rparr>)) (\<lambda>_.
     smtp [''QUIT''] ''quit'')))))))))"

text \<open>The log sender writes the text body to the log and changes nothing else.\<close>

definition mailer_Send :: "int \<Rightarrow> Mailer \<Rightarrow> mail \<Rightarrow> (err + unit) prog" where
  "mailer_Send zone m msg = (case m of LogMailer \<Rightarrow> State_Monad.return (Inr ()) | SMTPMailer cfg \<Rightarrow> SMTP_Send zone cfg msg)"

section \<open>Lemmas\<close>

lemma wp_rand_Read [wp_simps]:
  "wp (rand_Read n) Q = (\<lambda>w. Q (case rand_at (w_env w) (w_tick w) of None \<Rightarrow> Inl (ErrOther ''crypto/rand'')
     | Some s \<Rightarrow> Inr (take n (s @ replicate n (CHR 0x00)))) (w\<lparr> w_tick := Suc (w_tick w) \<rparr>))"
  by (rule ext) (simp add: rand_Read_def wp_simps)

text \<open>What the sender does to the world: the tables, Redis and the queue stay as they are.\<close>

definition only_mail :: "world \<Rightarrow> world \<Rightarrow> bool" where
  "only_mail w w' = (same_env w w' \<and> w_db w' = w_db w \<and> w_redis w' = w_redis w \<and> w_jobs w' = w_jobs w
     \<and> w_objects w' = w_objects w)"

lemma preorder_only_mail [simp]: "preorder only_mail"
  by (auto simp: preorder_def only_mail_def same_env_def)

lemma only_mail_smtp [steps_intros]: "steps only_mail (smtp c f)"
  unfolding smtp_def by (auto simp: steps_def run_command_def only_mail_def same_env_def Let_def split: prod.splits)

lemma only_mail_observe: "steps only_mail (observe f)"
  by (simp add: steps_def observe_def only_mail_def same_env_def)

lemma only_mail_buildMIME: "steps only_mail (buildMIME zone sender msg)"
  unfolding buildMIME_def time_Now_def rand_Read_def Let_def by (intro steps_intros only_mail_observe preorder_only_mail)

lemma only_mail_deliver: "steps only_mail (run_put f (\<lambda>t w. w\<lparr> w_mail := w_mail w @ [msg] \<rparr>))"
  by (auto simp: steps_def run_put_def only_mail_def same_env_def Let_def split: outcome.splits)

lemma only_mail_Send: "steps only_mail (mailer_Send zone m msg)"
proof (cases m)
  case (SMTPMailer cfg)
  show ?thesis
    unfolding mailer_Send_def SMTP_Send_def smtp_connect_def smtp_secure_def smtp_auth_def run_exec_def SMTPMailer Mailer.case
    by (intro steps_intros only_mail_observe only_mail_buildMIME only_mail_deliver preorder_only_mail)
qed (auto simp: mailer_Send_def intro!: steps_intros)

end
