(* ===== verification/Account.thy ===== *)
theory Account
  imports Auth Mailer
begin

text \<open>
  Email verification and password reset: the email service
  (\<^verbatim>\<open>internal/service/email_service.go\<close>) and the account handlers
  (\<^verbatim>\<open>internal/handler/account_handler.go\<close>).  A mailed token is
  \<^verbatim>\<open>base64url(userID || secret)\<close>; the users table holds the first half of the SHA-256 of the secret.
\<close>

section \<open>Tokens\<close>

definition tokenSecretBytes :: nat where "tokenSecretBytes = 32"

definition hashTokenSecret :: "string \<Rightarrow> uuid" where
  "hashTokenSecret secret = of_nat (be_value (map byte (take 16 (sha256_Sum256 secret))))"

definition token_of :: "uuid \<Rightarrow> string \<Rightarrow> string" where
  "token_of userID secret = b64_EncodeToString (uuid_bytes userID @ secret)"

definition newEmailToken :: "uuid \<Rightarrow> (err + string \<times> uuid) prog" where
  "newEmailToken userID = try_then (rand_Read tokenSecretBytes)
     (\<lambda>secret. State_Monad.return (Inr (token_of userID secret, hashTokenSecret secret)))"

definition parseEmailToken :: "string \<Rightarrow> (uuid \<times> uuid) option" where
  "parseEmailToken token = (case b64_DecodeString token of
     None \<Rightarrow> None
   | Some payload \<Rightarrow>
       if length payload \<noteq> 16 + tokenSecretBytes then None
       else (case uuid_FromBytes (take 16 payload) of
         None \<Rightarrow> None | Some userID \<Rightarrow> Some (userID, hashTokenSecret (drop 16 payload))))"

definition digestMatches :: "uuid option \<Rightarrow> uuid \<Rightarrow> bool" where
  "digestMatches stored computed = (case stored of None \<Rightarrow> False | Some d \<Rightarrow> d = computed)"

section \<open>The service\<close>

definition defaultResetTokenTTL :: duration where "defaultResetTokenTTL = Hour"

record EmailService =
  es_mail :: Mailer
  es_baseURL :: string
  es_resetTTL :: duration
  es_revoker :: "(uuid \<Rightarrow> (err + unit) prog) option"

fun drop_slashes :: "string \<Rightarrow> string" where
  "drop_slashes s = (if s \<noteq> [] \<and> last s = CHR ''/'' then drop_slashes (butlast s) else s)"

declare drop_slashes.simps [simp del]

definition NewEmailService :: "Mailer \<Rightarrow> string \<Rightarrow> duration \<Rightarrow> (uuid \<Rightarrow> (err + unit) prog) option \<Rightarrow> EmailService" where
  "NewEmailService m baseURL resetTokenTTL revoker =
     \<lparr> es_mail = m, es_baseURL = drop_slashes baseURL,
       es_resetTTL = (if resetTokenTTL \<le> 0 then defaultResetTokenTTL else resetTokenTTL), es_revoker = revoker \<rparr>"

text \<open>The collaborators of the service: those of the authentication and the time zone of the host.\<close>

record account_env =
  ac_auth :: auth_env
  ac_zone :: int

definition quoted :: "string \<Rightarrow> string" where "quoted s = [CHR 0x22] @ s @ [CHR 0x22]"

definition nl :: string where "nl = [CHR 0x0A]"

definition verification_mail :: "EmailService \<Rightarrow> User \<Rightarrow> string \<Rightarrow> mail" where
  "verification_mail S user plaintext =
     (let link = es_baseURL S @ ''/verify-email?token='' @ plaintext in
      \<lparr> ml_To = u_Email user, ml_Subject = ''Verify your email address'',
        ml_TextBody = ''Hi '' @ u_Username user @ '','' @ nl @ nl @ ''Confirm your email address by opening this link:'' @ nl @ nl
          @ link @ nl @ nl @ ''If you did not create this account, you can ignore this message.'' @ nl,
        ml_HTMLBody = ''<p>Hi '' @ u_Username user @ '',</p><p>Confirm your email address by opening this link:</p><p><a href=''
          @ quoted link @ ''>'' @ link @ ''</a></p><p>If you did not create this account, you can ignore this message.</p>'' \<rparr>)"

definition reset_mail :: "EmailService \<Rightarrow> User \<Rightarrow> string \<Rightarrow> mail" where
  "reset_mail S user plaintext =
     (let link = es_baseURL S @ ''/reset-password?token='' @ plaintext; ttl = duration_String (es_resetTTL S) in
      \<lparr> ml_To = u_Email user, ml_Subject = ''Reset your password'',
        ml_TextBody = ''Hi '' @ u_Username user @ '','' @ nl @ nl
          @ ''A password reset was requested for your account. Open this link to choose a new password:'' @ nl @ nl
          @ link @ nl @ nl @ ''The link expires in '' @ ttl
          @ ''. If you did not request this, you can ignore this message; your password is unchanged.'' @ nl,
        ml_HTMLBody = ''<p>Hi '' @ u_Username user
          @ '',</p><p>A password reset was requested for your account. Open this link to choose a new password:</p><p><a href=''
          @ quoted link @ ''>'' @ link @ ''</a></p><p>The link expires in '' @ ttl
          @ ''. If you did not request this, you can ignore this message; your password is unchanged.</p>'' \<rparr>)"

definition SendVerificationEmail :: "account_env \<Rightarrow> EmailService \<Rightarrow> uuid \<Rightarrow> (err + unit) prog" where
  "SendVerificationEmail E S userID =
     try_then (UserRepo_GetByID userID) (\<lambda>user.
       if u_EmailVerified user then State_Monad.return (Inl ErrEmailAlreadyVerified)
       else try_then (newEmailToken (u_ID user)) (\<lambda>(plaintext, digest).
         try_then (UserRepo_Update (user\<lparr> u_EmailVerificationToken := Some digest \<rparr>)) (\<lambda>_.
           mailer_Send (ac_zone E) (es_mail S) (verification_mail S user plaintext))))"

definition lookupByToken :: "string \<Rightarrow> (err + User \<times> uuid) prog" where
  "lookupByToken token = (case parseEmailToken token of
     None \<Rightarrow> State_Monad.return (Inl ErrInvalidToken)
   | Some (userID, digest) \<Rightarrow> do {
       r \<leftarrow> UserRepo_GetByID userID;
       State_Monad.return (case r of
         Inl e \<Rightarrow> if e = ErrUserNotFound then Inl ErrInvalidToken else Inl e
       | Inr user \<Rightarrow> Inr (user, digest))
     })"

definition Email_VerifyEmail :: "string \<Rightarrow> (err + unit) prog" where
  "Email_VerifyEmail token = try_then (lookupByToken token) (\<lambda>(user, digest).
     if \<not> digestMatches (u_EmailVerificationToken user) digest then State_Monad.return (Inl ErrInvalidToken)
     else do {
       now \<leftarrow> time_Now;
       UserRepo_Update (VerifyEmail now user)
     })"

text \<open>The goroutine of \<^verbatim>\<open>sendAsync\<close> shares nothing with the rest of the request; its send is placed where it
  is started, and its error is only logged.\<close>

definition sendAsync :: "account_env \<Rightarrow> EmailService \<Rightarrow> mail \<Rightarrow> unit prog" where
  "sendAsync E S msg = do { _ \<leftarrow> mailer_Send (ac_zone E) (es_mail S) msg; State_Monad.return () }"

definition RequestPasswordReset :: "account_env \<Rightarrow> EmailService \<Rightarrow> string \<Rightarrow> (err + unit) prog" where
  "RequestPasswordReset E S email = do {
     r \<leftarrow> UserRepo_GetByEmail (ae_unicode (ac_auth E)) email;
     case (case r of Inl e \<Rightarrow> if e = ErrUserNotFound then Inr None else Inl e | Inr user \<Rightarrow> Inr (Some user)) of
       Inl e \<Rightarrow> State_Monad.return (Inl e)
     | Inr found \<Rightarrow>
         try_then (newEmailToken (case found of None \<Rightarrow> Nil_uuid | Some user \<Rightarrow> u_ID user)) (\<lambda>(plaintext, digest).
           case found of
             None \<Rightarrow> State_Monad.return (Inr ())
           | Some user \<Rightarrow> do {
               now \<leftarrow> time_Now;
               try_then (UserRepo_Update (user\<lparr> u_PasswordResetToken := Some digest,
                   u_PasswordResetExpiry := Some (now + es_resetTTL S) \<rparr>))
                 (\<lambda>_. do { sendAsync E S (reset_mail S user plaintext); State_Monad.return (Inr ()) })
             })
   }"

definition revokeSessions :: "EmailService \<Rightarrow> uuid \<Rightarrow> unit prog" where
  "revokeSessions S userID = (case es_revoker S of
     None \<Rightarrow> State_Monad.return ()
   | Some revoke \<Rightarrow> do { _ \<leftarrow> revoke userID; State_Monad.return () })"

text \<open>The common end of a reset and a change: the rules, the hash, the row, the sessions.\<close>

definition set_password :: "account_env \<Rightarrow> EmailService \<Rightarrow> User \<Rightarrow> string \<Rightarrow> (err + unit) prog" where
  "set_password E S user newPassword = (let A = ac_auth E in
     case ValidatePassword (ae_unicode A) newPassword of
       Some e \<Rightarrow> State_Monad.return (Inl ErrWeakPassword)
     | None \<Rightarrow> try_then (HashPassword (ae_unicode A) (ae_bcrypt A) newPassword) (\<lambda>hash. do {
         now \<leftarrow> time_Now;
         try_then (UserRepo_Update (ClearPasswordResetToken now (user\<lparr> u_PasswordHash := hash \<rparr>)))
           (\<lambda>_. do { revokeSessions S (u_ID user); State_Monad.return (Inr ()) })
       }))"

definition ResetPassword :: "account_env \<Rightarrow> EmailService \<Rightarrow> string \<Rightarrow> string \<Rightarrow> (err + unit) prog" where
  "ResetPassword E S token newPassword = try_then (lookupByToken token) (\<lambda>(user, digest). do {
     now \<leftarrow> time_Now;
     if \<not> IsPasswordResetTokenValid now user \<or> \<not> digestMatches (u_PasswordResetToken user) digest
     then State_Monad.return (Inl ErrInvalidToken)
     else set_password E S user newPassword
   })"

definition ChangePassword :: "account_env \<Rightarrow> EmailService \<Rightarrow> uuid \<Rightarrow> string \<Rightarrow> string \<Rightarrow> (err + unit) prog" where
  "ChangePassword E S userID currentPassword newPassword = try_then (UserRepo_GetByID userID) (\<lambda>user.
     if \<not> ComparePassword (ae_bcrypt (ac_auth E)) (u_PasswordHash user) currentPassword
     then State_Monad.return (Inl ErrInvalidCredentials)
     else set_password E S user newPassword)"

section \<open>The handlers\<close>

definition Handler_SendVerificationEmail :: "account_env \<Rightarrow> EmailService \<Rightarrow> request \<Rightarrow> string response prog" where
  "Handler_SendVerificationEmail E S c = requirePrincipal c (\<lambda>p.
     answer (SendVerificationEmail E S (pr_UserID p))
       (\<lambda>e. if e = ErrEmailAlreadyVerified
          then Error 409 ''EMAIL_ALREADY_VERIFIED'' (Lit ''Your email address is already verified'')
          else if e = ErrUserNotFound then NotFound ''User not found''
          else InternalError ''Failed to send verification email'')
       (\<lambda>_. Success 200 ''Verification email sent''))"

definition Handler_VerifyEmail :: "string option \<Rightarrow> string response prog" where
  "Handler_VerifyEmail body = bound body ''token is required'' (\<lambda>token.
     answer (Email_VerifyEmail token)
       (\<lambda>e. if e = ErrInvalidToken
          then Error 400 ''INVALID_TOKEN'' (Lit ''The verification link is invalid or has already been used'')
          else InternalError ''Failed to verify email'')
       (\<lambda>_. Success 200 ''Email verified''))"

definition Handler_ForgotPassword :: "account_env \<Rightarrow> EmailService \<Rightarrow> string option \<Rightarrow> string response prog" where
  "Handler_ForgotPassword E S body = bound body ''email is required'' (\<lambda>email. do {
     _ \<leftarrow> RequestPasswordReset E S email;
     State_Monad.return (Success 200 ''If that email address is registered, a password reset link has been sent'')
   })"

definition Handler_ResetPassword :: "account_env \<Rightarrow> EmailService \<Rightarrow> (string \<times> string) option \<Rightarrow> string response prog" where
  "Handler_ResetPassword E S body = bound body ''token and password are required'' (\<lambda>(token, password).
     answer (ResetPassword E S token password)
       (\<lambda>e. if e = ErrInvalidToken then Error 400 ''INVALID_TOKEN'' (Lit ''The reset link is invalid or has expired'')
          else if e = ErrWeakPassword then Error 400 ''VALIDATION_ERROR'' (ErrText e)
          else InternalError ''Failed to reset password'')
       (\<lambda>_. Success 200 ''Password has been reset. Please log in with your new password.''))"

definition Handler_ChangePassword :: "account_env \<Rightarrow> EmailService \<Rightarrow> request \<Rightarrow> (string \<times> string) option \<Rightarrow> string response prog" where
  "Handler_ChangePassword E S c body = requirePrincipal c (\<lambda>p.
     bound body ''current_password and new_password are required'' (\<lambda>(current, new).
       answer (ChangePassword E S (pr_UserID p) current new)
         (\<lambda>e. if e = ErrInvalidCredentials
            then Error 400 ''INVALID_CURRENT_PASSWORD'' (Lit ''Current password is incorrect'')
            else if e = ErrWeakPassword then Error 400 ''VALIDATION_ERROR'' (ErrText e)
            else if e = ErrUserNotFound then NotFound ''User not found''
            else InternalError ''Failed to change password'')
         (\<lambda>_. Success 200 ''Password changed'')))"

end
