(* ===== verification/Search.thy ===== *)
theory Search
  imports VideoRepo Http GoTime
begin

text \<open>
  Search and discovery: the interaction weights and windows of
  \<^verbatim>\<open>internal/domain/recommendation.go\<close>, the read-only repository
  (\<^verbatim>\<open>internal/repository/postgres/search_repository.go\<close>), the service
  (\<^verbatim>\<open>internal/service/search_service.go\<close>) and the handlers (\<^verbatim>\<open>internal/handler/search_handler.go\<close>).
  PostgreSQL's text search, trigram similarity, case folding and collation are parameters, as is the local zone; LIKE is
  modelled.  A NULL category is the empty string and NULL tags are no tags, as the other
  queries read them.
\<close>

section \<open>Engagement (recommendation.go)\<close>

datatype InteractionType = InteractionView | InteractionLike | InteractionDislike | InteractionComment
  | InteractionShare | InteractionSkip | InteractionComplete | InteractionOther string

definition Weight :: "InteractionType \<Rightarrow> int" where
  "Weight it = (case it of InteractionView \<Rightarrow> 1 | InteractionLike \<Rightarrow> 5 | InteractionDislike \<Rightarrow> - 3
     | InteractionComment \<Rightarrow> 3 | InteractionShare \<Rightarrow> 10 | InteractionSkip \<Rightarrow> - 2 | InteractionComplete \<Rightarrow> 2
     | InteractionOther _ \<Rightarrow> 0)"

definition InteractionType_Validate :: "InteractionType \<Rightarrow> err option" where
  "InteractionType_Validate it = (case it of InteractionOther _ \<Rightarrow> Some ErrInvalidInput | _ \<Rightarrow> None)"

type_synonym TrendingWindow = string

definition Hours :: "TrendingWindow \<Rightarrow> int" where
  "Hours w = (if w = ''7d'' then 7 * 24 else if w = ''30d'' then 30 * 24 else 24)"

definition TrendingWindow_Validate :: "TrendingWindow \<Rightarrow> err option" where
  "TrendingWindow_Validate w = (if w \<in> set [''24h'', ''7d'', ''30d''] then None else Some ErrInvalidInput)"

section \<open>Text matching\<close>

record text_lib =
  tl_match :: "string \<Rightarrow> Video \<Rightarrow> bool"     \<comment> \<open>search_vector against websearch_to_tsquery\<close>
  tl_rank :: "string \<Rightarrow> Video \<Rightarrow> rat"       \<comment> \<open>ts_rank_cd\<close>
  tl_similarity :: "string \<Rightarrow> string \<Rightarrow> rat"
  tl_fold :: "string \<Rightarrow> string"             \<comment> \<open>the case folding of ILIKE\<close>
  tl_collate :: "string \<Rightarrow> rat"             \<comment> \<open>the position of a text in the collation\<close>

text \<open>SQL LIKE over characters, \<^verbatim>\<open>None\<close> when the pattern ends in its escape character.\<close>

function like_match :: "nat list \<Rightarrow> nat list \<Rightarrow> bool option" where
  "like_match [] s = Some (s = [])"
| "like_match (p # ps) s =
     (if p = 92 then (case ps of [] \<Rightarrow> None
        | q # qs \<Rightarrow> (case s of [] \<Rightarrow> Some False | x # xs \<Rightarrow> if x = q then like_match qs xs else Some False))
      else if p = 37 then (case like_match ps s of None \<Rightarrow> None | Some True \<Rightarrow> Some True
        | Some False \<Rightarrow> (case s of [] \<Rightarrow> Some False | x # xs \<Rightarrow> like_match (p # ps) xs))
      else (case s of [] \<Rightarrow> Some False | x # xs \<Rightarrow> if p = 95 \<or> x = p then like_match ps xs else Some False))"
  by pat_completeness auto
termination by (relation "measures [\<lambda>(p, s). length p + length s]") auto

text \<open>\<^verbatim>\<open>likeEscaper\<close>: a backslash before backslash, percent and underscore.\<close>

definition likeEscaper :: "string \<Rightarrow> string" where
  "likeEscaper s = concat (map (\<lambda>c. if byte c \<in> set [92, 37, 95] then [CHR 0x5C, c] else [c]) s)"

definition title_matches :: "text_lib \<Rightarrow> string \<Rightarrow> string \<Rightarrow> bool" where
  "title_matches T prefix title =
     (like_match (runes (tl_fold T (''%'' @ likeEscaper prefix @ ''%''))) (runes (tl_fold T title)) = Some True)"

section \<open>Rows\<close>

definition onlyPublicReady :: "Video \<Rightarrow> bool" where
  "onlyPublicReady v = (v_Status v = VideoStatusReady \<and> v_Visibility v = VisibilityPublic)"

text \<open>A video with the user row of its owner, deleted or not.\<close>

type_synonym joined = "Video \<times> User option"

definition searchFrom :: "db \<Rightarrow> joined list" where
  "searchFrom d = map (\<lambda>v. (v, case v_UserID v of None \<Rightarrow> None | Some u \<Rightarrow> lookup u_ID u (db_users d))) (db_videos d)"

record VideoSearchItem =
  si_VideoID :: uuid
  si_Title :: string
  si_Description :: string
  si_ThumbnailURL :: string
  si_Duration :: int
  si_Views :: int
  si_CreatedAt :: time
  si_Username :: string
  si_UserID :: uuid
  si_UserAvatarURL :: string
  si_UserVerified :: bool
  si_Relevance :: rat
  si_Snippet :: string

definition snippet :: "string \<Rightarrow> string" where
  "snippet description = (if RuneCount description \<le> 200 then description
     else string_of_runes (take 200 (runes description)) @ string_of_runes [0x2026])"

definition scanSearchItem :: "uuid_lib \<Rightarrow> (Video \<Rightarrow> rat) \<Rightarrow> joined \<Rightarrow> VideoSearchItem" where
  "scanSearchItem lib relevance row = (case row of (v, u) \<Rightarrow>
     \<lparr> si_VideoID = v_ID v, si_Title = v_Title v, si_Description = v_Description v,
       si_ThumbnailURL = (if (case v_ThumbnailPath v of None \<Rightarrow> '''' | Some p \<Rightarrow> p) \<noteq> ''''
          then VideoThumbnailURL (uuid_String lib) (v_ID v) else ''''),
       si_Duration = v_Duration v, si_Views = v_ViewCount v, si_CreatedAt = v_CreatedAt v,
       si_Username = (case u of None \<Rightarrow> '''' | Some x \<Rightarrow> u_Username x),
       si_UserID = (case u of None \<Rightarrow> Nil_uuid | Some x \<Rightarrow> u_ID x),
       si_UserAvatarURL = (case u of None \<Rightarrow> '''' | Some x \<Rightarrow> (case u_AvatarURL x of None \<Rightarrow> '''' | Some a \<Rightarrow> a)),
       si_UserVerified = (case u of None \<Rightarrow> False | Some x \<Rightarrow> u_EmailVerified x),
       si_Relevance = relevance v, si_Snippet = snippet (v_Description v) \<rparr>)"

section \<open>Search\<close>

definition ToTime :: "int \<Rightarrow> time \<Rightarrow> DateFilter \<Rightarrow> time option" where
  "ToTime zone now df = (case df of DateToday \<Rightarrow> Some (AddDate zone now 0 0 (- 1)) | DateWeek \<Rightarrow> Some (AddDate zone now 0 0 (- 7))
     | DateMonth \<Rightarrow> Some (AddDate zone now 0 (- 1) 0) | DateYear \<Rightarrow> Some (AddDate zone now (- 1) 0 0) | DateOther _ \<Rightarrow> None)"

definition at_least :: "int option \<Rightarrow> int \<Rightarrow> bool" where "at_least b x = (case b of None \<Rightarrow> True | Some n \<Rightarrow> n \<le> x)"
definition at_most :: "int option \<Rightarrow> int \<Rightarrow> bool" where "at_most b x = (case b of None \<Rightarrow> True | Some n \<Rightarrow> x \<le> n)"
definition overlap :: "string list \<Rightarrow> string list \<Rightarrow> bool" where "overlap xs ys = list_ex (\<lambda>x. x \<in> set ys) xs"

text \<open>The WHERE clause as a predicate; \<^verbatim>\<open>since\<close> is the bound of the upload date (the zero time for an unknown filter,
  which every row passes).\<close>

definition buildSearchWhere :: "text_lib \<Rightarrow> time option \<Rightarrow> SearchQuery \<Rightarrow> joined \<Rightarrow> bool" where
  "buildSearchWhere T since q row = (case row of (v, u) \<Rightarrow> let f = sq_Filters q in
     onlyPublicReady v
     \<and> tl_match T (sq_Query q) v
     \<and> (sf_Categories f \<noteq> [] \<longrightarrow> v_Category v \<noteq> '''' \<and> v_Category v \<in> set (sf_Categories f))
     \<and> (sf_Tags f \<noteq> [] \<longrightarrow> overlap (v_Tags v) (sf_Tags f))
     \<and> (case sf_Language f of None \<Rightarrow> True | Some l \<Rightarrow> v_Language v = l)
     \<and> (sf_Quality f \<noteq> [] \<longrightarrow> overlap (v_AvailableQualities v) (sf_Quality f))
     \<and> (case sf_Duration f of None \<Rightarrow> True
          | Some p \<Rightarrow> fst (ToSeconds p) \<le> v_Duration v \<and> v_Duration v \<le> snd (ToSeconds p))
     \<and> at_least (sf_MinDuration f) (v_Duration v) \<and> at_most (sf_MaxDuration f) (v_Duration v)
     \<and> (case since of None \<Rightarrow> True | Some t \<Rightarrow> t \<le> v_CreatedAt v)
     \<and> at_least (sf_MinViews f) (v_ViewCount v) \<and> at_most (sf_MaxViews f) (v_ViewCount v)
     \<and> (sf_OnlyVerified f \<longrightarrow> (case u of None \<Rightarrow> False | Some x \<Rightarrow> u_EmailVerified x)))"

text \<open>\<^verbatim>\<open>duration\<close> is a four-byte integer, so a bound outside its range cannot be bound to the statement.\<close>

definition int4 :: "int option \<Rightarrow> bool" where
  "int4 b = (case b of None \<Rightarrow> True | Some n \<Rightarrow> - (2 ^ 31) \<le> n \<and> n < 2 ^ 31)"

definition search_args_ok :: "SearchQuery \<Rightarrow> bool" where
  "search_args_ok q = (int4 (sf_MinDuration (sq_Filters q)) \<and> int4 (sf_MaxDuration (sq_Filters q)))"

text \<open>\<^verbatim>\<open>ORDER BY\<close> with a tiebreak: the sort is stable, so the last key is applied first.\<close>

definition searchOrder :: "string \<Rightarrow> (Video \<Rightarrow> rat) \<Rightarrow> joined list \<Rightarrow> joined list" where
  "searchOrder sortBy relevance rows =
     (let recent = sort_key (\<lambda>(v, u). - v_CreatedAt v) rows in
      if sortBy = ''newest'' then recent
      else if sortBy = ''views'' then sort_key (\<lambda>(v, u). - v_ViewCount v) recent
      else if sortBy = ''likes'' then sort_key (\<lambda>(v, u). - v_LikeCount v) recent
      else sort_key (\<lambda>(v, u). - relevance v) recent)"

definition Repo_Search :: "uuid_lib \<Rightarrow> text_lib \<Rightarrow> int \<Rightarrow> SearchQuery \<Rightarrow> (err + VideoSearchItem list \<times> nat) prog" where
  "Repo_Search lib T zone q = do {
     since \<leftarrow> (case sf_UploadDate (sq_Filters q) of None \<Rightarrow> State_Monad.return None
        | Some df \<Rightarrow> do { now \<leftarrow> time_Now; State_Monad.return (ToTime zone now df) });
     try_then (run_query ''counting search results'' (\<lambda>d. length (filter (buildSearchWhere T since q) (searchFrom d)))) (\<lambda>total.
       if \<not> search_args_ok q then State_Monad.return (Inl (ErrOther ''counting search results''))
       else if total = 0 then State_Monad.return (Inr ([], 0))
       else try_then (page_query ''searching videos''
             \<lparr> Limit = sq_Limit q, Offset = wrap64 (wrap64 (sq_Page q - 1) * sq_Limit q) \<rparr>
             (\<lambda>d. searchOrder (sq_SortBy q) (tl_rank T (sq_Query q)) (filter (buildSearchWhere T since q) (searchFrom d))))
           (\<lambda>rows. State_Monad.return (Inr (map (scanSearchItem lib (tl_rank T (sq_Query q))) rows, total))))
   }"

section \<open>Discovery\<close>

definition Repo_Suggest :: "text_lib \<Rightarrow> string \<Rightarrow> nat \<Rightarrow> (err + string list) prog" where
  "Repo_Suggest T prefix limit = run_query ''suggesting titles'' (\<lambda>d.
     map v_Title (take limit
       (sort_key (\<lambda>v. - tl_similarity T (v_Title v) prefix) (sort_key (\<lambda>v. - v_ViewCount v)
         (filter (\<lambda>v. onlyPublicReady v \<and> title_matches T prefix (v_Title v)) (db_videos d))))))"

definition recent_views :: "time \<Rightarrow> db \<Rightarrow> uuid \<Rightarrow> int" where
  "recent_views since d i = int (length (filter (\<lambda>x. vr_VideoID x = i \<and> since < vr_CreatedAt x) (db_video_views d)))"

text \<open>Nothing writes \<^verbatim>\<open>share_count\<close>, so the weight of shares multiplies zero.\<close>

definition trending_score :: "time \<Rightarrow> db \<Rightarrow> Video \<Rightarrow> int" where
  "trending_score since d v = recent_views since d (v_ID v) * Weight InteractionView + v_LikeCount v * Weight InteractionLike
     + v_CommentCount v * Weight InteractionComment + 0 * Weight InteractionShare"

text \<open>\<^verbatim>\<open>now()\<close> is the database clock.\<close>

definition Repo_Trending :: "uuid_lib \<Rightarrow> int \<Rightarrow> int \<Rightarrow> uuid list \<Rightarrow> (err + VideoSearchItem list) prog" where
  "Repo_Trending lib windowHours limit exclude = do {
     now \<leftarrow> time_Now;
     let since = now - windowHours * Hour;
     try_then (page_query ''listing trending videos'' \<lparr> Limit = limit, Offset = 0 \<rparr> (\<lambda>d.
         sort_key (\<lambda>(v, u). - trending_score since d v) (sort_key (\<lambda>(v, u). - v_ViewCount v) (sort_key (\<lambda>(v, u). - v_CreatedAt v)
           (filter (\<lambda>(v, u). onlyPublicReady v \<and> v_ID v \<notin> set exclude) (searchFrom d))))))
       (\<lambda>rows. State_Monad.return (Inr (map (scanSearchItem lib (\<lambda>_. 0)) rows)))
   }"

definition shared_tags :: "string list \<Rightarrow> Video \<Rightarrow> int" where
  "shared_tags tags v = int (length (remdups (filter (\<lambda>t. t \<in> set tags) (v_Tags v))))"

definition same_category :: "string \<Rightarrow> Video \<Rightarrow> bool" where
  "same_category c v = (c \<noteq> '''' \<and> v_Category v = c)"

definition Repo_Related :: "uuid_lib \<Rightarrow> uuid \<Rightarrow> int \<Rightarrow> (err + VideoSearchItem list) prog" where
  "Repo_Related lib videoID limit =
     try_then (row_or ErrVideoNotFound ''looking up source video'' (\<lambda>d. lookup v_ID videoID (db_videos d))) (\<lambda>source.
       let tags = v_Tags source; category = v_Category source in
       try_then (page_query ''listing related videos'' \<lparr> Limit = limit, Offset = 0 \<rparr> (\<lambda>d.
           sort_key (\<lambda>(v, u). - shared_tags tags v) (sort_key (\<lambda>(v, u). if same_category category v then 0 else (1::int))
             (sort_key (\<lambda>(v, u). - v_ViewCount v) (sort_key (\<lambda>(v, u). - v_CreatedAt v)
               (filter (\<lambda>(v, u). onlyPublicReady v \<and> v_ID v \<noteq> videoID \<and> (overlap (v_Tags v) tags \<or> same_category category v))
                 (searchFrom d)))))))
         (\<lambda>rows. State_Monad.return (Inr (map (scanSearchItem lib (\<lambda>_. 0)) rows))))"

text \<open>One row per video and subscription; the owner must exist.\<close>

definition feed_rows :: "uuid \<Rightarrow> db \<Rightarrow> joined list" where
  "feed_rows subscriberID d = concat (map (\<lambda>(v, u). map (\<lambda>_. (v, u))
       (filter (\<lambda>s. v_UserID v = Some (s_CreatorID s) \<and> s_SubscriberID s = subscriberID) (db_subscriptions d)))
     (filter (\<lambda>(v, u). onlyPublicReady v \<and> u \<noteq> None) (searchFrom d)))"

definition Repo_Feed :: "uuid_lib \<Rightarrow> uuid \<Rightarrow> Page \<Rightarrow> (err + VideoSearchItem list \<times> nat) prog" where
  "Repo_Feed lib subscriberID pg =
     try_then (run_query ''counting feed videos'' (\<lambda>d. length (feed_rows subscriberID d))) (\<lambda>total.
       if total = 0 then State_Monad.return (Inr ([], 0))
       else try_then (page_query ''listing feed videos'' pg (\<lambda>d. sort_key (\<lambda>(v, u). - v_CreatedAt v) (feed_rows subscriberID d)))
         (\<lambda>rows. State_Monad.return (Inr (map (scanSearchItem lib (\<lambda>_. 0)) rows, total))))"

record CategoryCount =
  cc_Category :: string
  cc_VideoCount :: int

definition category_counts :: "db \<Rightarrow> CategoryCount list" where
  "category_counts d = (let cs = map v_Category (filter (\<lambda>v. onlyPublicReady v \<and> v_Category v \<noteq> '''') (db_videos d)) in
     map (\<lambda>c. \<lparr> cc_Category = c, cc_VideoCount = int (count_list cs c) \<rparr>) (remdups cs))"

definition Repo_Categories :: "text_lib \<Rightarrow> (err + CategoryCount list) prog" where
  "Repo_Categories T = run_query ''listing categories'' (\<lambda>d.
     sort_key (\<lambda>c. - cc_VideoCount c) (sort_key (\<lambda>c. tl_collate T (cc_Category c)) (category_counts d)))"

section \<open>The service\<close>

definition suggestLimit :: nat where "suggestLimit = 10"
definition relatedFallbackWindowHours :: int where "relatedFallbackWindowHours = 7 * 24"
definition defaultDiscoveryLimit :: int where "defaultDiscoveryLimit = 20"
definition maxDiscoveryLimit :: int where "maxDiscoveryLimit = 100"

definition clampLimit :: "int \<Rightarrow> int" where
  "clampLimit limit = (if limit < 1 \<or> limit > maxDiscoveryLimit then defaultDiscoveryLimit else limit)"

record SearchResult =
  sr_Videos :: "VideoSearchItem list"
  sr_TotalCount :: int
  sr_Query :: string
  sr_Took :: duration
  sr_Page :: int
  sr_TotalPages :: int

record SearchService =
  ss_uuid :: uuid_lib
  ss_text :: text_lib
  ss_zone :: int

definition Service_Search :: "SearchService \<Rightarrow> SearchQuery \<Rightarrow> (err + SearchResult) prog" where
  "Service_Search S q0 = (case SearchQuery_Validate q0 of
     (Some e, _) \<Rightarrow> State_Monad.return (Inl e)
   | (None, q) \<Rightarrow> do {
       start \<leftarrow> time_Now;
       try_then (Repo_Search (ss_uuid S) (ss_text S) (ss_zone S) q) (\<lambda>(items, total). do {
         now \<leftarrow> time_Now;
         State_Monad.return (Inr \<lparr> sr_Videos = items, sr_TotalCount = int total, sr_Query = sq_Query q, sr_Took = now - start,
           sr_Page = sq_Page q, sr_TotalPages = quot (wrap64 (wrap64 (int total + sq_Limit q) - 1)) (sq_Limit q) \<rparr>)
       })
     })"

definition Service_Suggest :: "SearchService \<Rightarrow> string \<Rightarrow> (err + string list) prog" where
  "Service_Suggest S rawPrefix = (let prefix = TrimSpace rawPrefix in
     if prefix = '''' then State_Monad.return (Inl ErrInvalidInput)
     else Repo_Suggest (ss_text S) prefix suggestLimit)"

definition Service_Trending :: "SearchService \<Rightarrow> TrendingWindow \<Rightarrow> int \<Rightarrow> (err + VideoSearchItem list) prog" where
  "Service_Trending S w limit = check_valid (TrendingWindow_Validate w)
     (Repo_Trending (ss_uuid S) (Hours w) (clampLimit limit) [])"

definition Service_Related :: "SearchService \<Rightarrow> uuid \<Rightarrow> int \<Rightarrow> (err + VideoSearchItem list) prog" where
  "Service_Related S videoID limit0 = (let limit = clampLimit limit0 in
     try_then (Repo_Related (ss_uuid S) videoID limit) (\<lambda>items.
       if int (length items) \<ge> limit then State_Monad.return (Inr items)
       else try_then (Repo_Trending (ss_uuid S) relatedFallbackWindowHours (limit - int (length items))
             (videoID # map si_VideoID items))
           (\<lambda>fill. State_Monad.return (Inr (items @ fill)))))"

definition Service_Feed :: "SearchService \<Rightarrow> uuid \<Rightarrow> Page \<Rightarrow> (err + VideoSearchItem list \<times> nat) prog" where
  "Service_Feed S subscriberID pg = Repo_Feed (ss_uuid S) subscriberID pg"

definition Service_Categories :: "SearchService \<Rightarrow> (err + CategoryCount list) prog" where
  "Service_Categories S = Repo_Categories (ss_text S)"

section \<open>The handlers\<close>

datatype search_body = ItemsBody "VideoSearchItem list" | TitlesBody "string list" | CategoriesBody "CategoryCount list"

definition splitTags :: "string \<Rightarrow> string list" where
  "splitTags raw = filter (\<lambda>t. t \<noteq> '''') (map TrimSpace (split_on CHR '','' raw))"

definition optionalNonNegativeInt :: "request \<Rightarrow> string \<Rightarrow> (int option \<Rightarrow> 'b response prog) \<Rightarrow> 'b response prog" where
  "optionalNonNegativeInt c name k = (let raw = TrimSpace (Query c name) in
     if raw = '''' then k None
     else (case Atoi raw of
         None \<Rightarrow> State_Monad.return (ValidationError (name @ '' must be a non-negative integer''))
       | Some x \<Rightarrow> if x < 0 then State_Monad.return (ValidationError (name @ '' must be a non-negative integer''))
           else k (Some x)))"

definition searchFilters :: "request \<Rightarrow> int option \<Rightarrow> int option \<Rightarrow> SearchFilters" where
  "searchFilters c minDuration maxDuration =
     (let category = TrimSpace (Query c ''category''); language = TrimSpace (Query c ''language'') in
      \<lparr> sf_Duration = None, sf_UploadDate = None, sf_Quality = [],
        sf_Categories = (if category \<noteq> '''' then [category] else []), sf_Tags = splitTags (Query c ''tags''),
        sf_MinDuration = minDuration, sf_MaxDuration = maxDuration, sf_MinViews = None, sf_MaxViews = None,
        sf_OnlyVerified = False, sf_Language = (if language \<noteq> '''' then Some language else None) \<rparr>)"

definition Handler_Search :: "SearchService \<Rightarrow> request \<Rightarrow> search_body response prog" where
  "Handler_Search S c = (let q = TrimSpace (Query c ''q'') in
     if q = '''' then State_Monad.return (ValidationError ''q is required'')
     else let page = parsePage c in
       optionalNonNegativeInt c ''min_duration'' (\<lambda>lo. optionalNonNegativeInt c ''max_duration'' (\<lambda>hi.
         answer (Service_Search S \<lparr> sq_Query = q, sq_Filters = searchFilters c lo hi,
               sq_SortBy = TrimSpace (DefaultQuery c ''sort'' ''relevance''),
               sq_Page = wrap64 (quot (Offset page) (Limit page) + 1), sq_Limit = Limit page \<rparr>)
           (\<lambda>e. if e = ErrInvalidInput then ValidationError ''sort must be one of: relevance, newest, views, likes''
              else InternalError ''Search failed'')
           (\<lambda>result. SuccessWithList (ItemsBody (sr_Videos result)) (paginationMeta (sr_TotalCount result) page)))))"

definition Handler_Suggest :: "SearchService \<Rightarrow> request \<Rightarrow> search_body response prog" where
  "Handler_Suggest S c = (let q = TrimSpace (Query c ''q'') in
     if q = '''' then State_Monad.return (ValidationError ''q is required'')
     else answer (Service_Suggest S q) (\<lambda>e. InternalError ''Failed to load suggestions'') (\<lambda>ts. Success 200 (TitlesBody ts)))"

definition Handler_Trending :: "SearchService \<Rightarrow> request \<Rightarrow> search_body response prog" where
  "Handler_Trending S c = answer (Service_Trending S (TrimSpace (DefaultQuery c ''window'' ''24h'')) (Limit (parsePage c)))
     (\<lambda>e. if e = ErrInvalidInput then ValidationError ''window must be one of: 24h, 7d, 30d''
        else InternalError ''Failed to load trending videos'')
     (\<lambda>items. Success 200 (ItemsBody items))"

definition Handler_Related :: "SearchService \<Rightarrow> request \<Rightarrow> search_body response prog" where
  "Handler_Related S c = pathUUID (ss_uuid S) c ''id'' ''video ID'' (\<lambda>videoID.
     answer (Service_Related S videoID (Limit (parsePage c)))
       (\<lambda>e. if e = ErrVideoNotFound then NotFound ''Video not found'' else InternalError ''Failed to load related videos'')
       (\<lambda>items. Success 200 (ItemsBody items)))"

definition Handler_Feed :: "SearchService \<Rightarrow> request \<Rightarrow> search_body response prog" where
  "Handler_Feed S c = requirePrincipal c (\<lambda>p. let page = parsePage c in
     answer_page (Service_Feed S (pr_UserID p) page) page (\<lambda>e. InternalError ''Failed to load feed'') ItemsBody)"

definition Handler_Categories :: "SearchService \<Rightarrow> search_body response prog" where
  "Handler_Categories S = answer (Service_Categories S) (\<lambda>e. InternalError ''Failed to load categories'')
     (\<lambda>cs. Success 200 (CategoriesBody cs))"

end
