(* ===== verification/Analytics.thy ===== *)
theory Analytics
  imports Views
begin

text \<open>
  Reporting: the reading half of \<^verbatim>\<open>internal/repository/postgres/analytics_repository.go\<close>, the service that
  caches its answers in Redis (\<^verbatim>\<open>internal/service/analytics_service.go\<close>) and the handlers
  (\<^verbatim>\<open>internal/handler/analytics_handler.go\<close>).  \<^verbatim>\<open>encoding/json\<close> is a parameter, a codec per type;
  averages are exact rationals; \<^verbatim>\<open>DATE_TRUNC\<close> is a parameter; ties of an ORDER BY keep the table order.
\<close>

section \<open>The figures (domain/analytics.go)\<close>

record DashboardStats =
  ds_TotalUsers :: int
  ds_NewUsersToday :: int
  ds_NewUsersThisWeek :: int
  ds_ActiveUsers24h :: int
  ds_TotalVideos :: int
  ds_VideosToday :: int
  ds_VideosThisWeek :: int
  ds_ProcessingVideos :: int
  ds_FailedVideos :: int
  ds_TotalViews :: int
  ds_ViewsToday :: int
  ds_ViewsThisWeek :: int
  ds_TotalStorageBytes :: int
  ds_StorageUsedGB :: rat
  ds_QueuedJobs :: int
  ds_ActiveWorkers :: int
  ds_PremiumUsers :: int
  ds_MonthlyRevenue :: rat
  ds_LastUpdated :: time

record CountryStats =
  cs_Country :: string
  cs_Views :: int

record VideoAnalytics =
  va_VideoID :: uuid
  va_Title :: string
  va_UserID :: uuid
  va_Username :: string
  va_TotalViews :: int
  va_UniqueViewers :: int
  va_Likes :: int
  va_Dislikes :: int
  va_Comments :: int
  va_Shares :: int
  va_TotalWatchTime :: int
  va_AvgWatchTime :: rat
  va_AvgWatchPercent :: rat
  va_ViewsByQuality :: "string \<rightharpoonup> int"
  va_AvgBufferTime :: rat
  va_PlaybackErrors :: int
  va_SourceDirect :: int
  va_SourceSearch :: int
  va_SourceEmbed :: int
  va_SourceSocial :: int
  va_TopCountries :: "CountryStats list"
  va_DeviceMobile :: int
  va_DeviceDesktop :: int
  va_DeviceTablet :: int
  va_CreatedAt :: time
  va_LastViewed :: time

record UserAnalytics =
  ua_UserID :: uuid
  ua_Username :: string
  ua_VideosUploaded :: int
  ua_TotalVideoViews :: int
  ua_TotalWatchTime :: int
  ua_LastActive :: "time option"
  ua_CreatedAt :: time

record DataPoint =
  dp_Timestamp :: time
  dp_Value :: rat

record TimeSeriesData =
  td_Label :: string
  td_Datapoints :: "DataPoint list"

record RealtimeMetrics =
  rm_ActiveViewers :: int
  rm_UploadsLastHour :: int
  rm_ViewsLastHour :: int
  rm_CurrentCPU :: rat
  rm_CurrentMemory :: rat
  rm_QueuedJobs :: int
  rm_ProcessingJobs :: int
  rm_Timestamp :: time

section \<open>Aggregates of SQL\<close>

definition Day :: duration where "Day = 24 * Hour"

definition count_where :: "('r \<Rightarrow> bool) \<Rightarrow> 'r list \<Rightarrow> int" where
  "count_where p rows = int (length (filter p rows))"

text \<open>\<^verbatim>\<open>COALESCE(AVG(x), 0)\<close>.\<close>

definition avg_or_0 :: "rat list \<Rightarrow> rat" where
  "avg_or_0 xs = (if xs = [] then 0 else sum_list xs / of_nat (length xs))"

definition count_distinct :: "'a option list \<Rightarrow> int" where
  "count_distinct xs = int (length (remdups (filter (\<lambda>x. x \<noteq> None) xs)))"

text \<open>\<^verbatim>\<open>GROUP BY x\<close> with \<^verbatim>\<open>x IS NOT NULL\<close>: each value with its count.\<close>

definition group_counts :: "'a option list \<Rightarrow> ('a \<times> int) list" where
  "group_counts xs = (let ys = List.map_filter id xs in map (\<lambda>y. (y, int (count_list ys y))) (remdups ys))"

definition fits_int64 :: "int \<Rightarrow> bool" where "fits_int64 i = (- (2 ^ 63) \<le> i \<and> i < 2 ^ 63)"

section \<open>The queries\<close>

definition dashboard_of :: "time \<Rightarrow> db \<Rightarrow> time \<Rightarrow> DashboardStats" where
  "dashboard_of now d updated =
     (let users = filter (\<lambda>u. u_DeletedAt u = None) (db_users d); videos = db_videos d; views = db_video_views d;
          day = now - Day; week = now - 7 * Day; storage = sum_list (map v_FileSize videos)
      in \<lparr> ds_TotalUsers = int (length users),
        ds_NewUsersToday = count_where (\<lambda>u. day \<le> u_CreatedAt u) users,
        ds_NewUsersThisWeek = count_where (\<lambda>u. week \<le> u_CreatedAt u) users,
        ds_ActiveUsers24h = count_where (\<lambda>u. case u_LastLoginAt u of None \<Rightarrow> False | Some t \<Rightarrow> day \<le> t) users,
        ds_TotalVideos = int (length videos),
        ds_VideosToday = count_where (\<lambda>v. day \<le> v_CreatedAt v) videos,
        ds_VideosThisWeek = count_where (\<lambda>v. week \<le> v_CreatedAt v) videos,
        ds_ProcessingVideos = count_where (\<lambda>v. v_Status v = VideoStatusProcessing) videos,
        ds_FailedVideos = count_where (\<lambda>v. v_Status v = VideoStatusFailed) videos,
        ds_TotalViews = int (length views),
        ds_ViewsToday = count_where (\<lambda>r. day \<le> vr_CreatedAt r) views,
        ds_ViewsThisWeek = count_where (\<lambda>r. week \<le> vr_CreatedAt r) views,
        ds_TotalStorageBytes = storage, ds_StorageUsedGB = of_int storage / (1024 * 1024 * 1024),
        ds_QueuedJobs = 0, ds_ActiveWorkers = 0, ds_PremiumUsers = 0, ds_MonthlyRevenue = 0,
        ds_LastUpdated = updated \<rparr>)"

text \<open>The sum of file sizes is NUMERIC and must fit the \<^verbatim>\<open>int64\<close> it is scanned into.\<close>

definition GetDashboardStats :: "(err + DashboardStats) prog" where
  "GetDashboardStats = do {
     now \<leftarrow> time_Now;
     r \<leftarrow> run_query ''dashboard stats'' (\<lambda>d. dashboard_of now d);
     case r of Inl e \<Rightarrow> State_Monad.return (Inl e)
     | Inr stats \<Rightarrow>
         if \<not> fits_int64 (ds_TotalStorageBytes (stats 0)) then State_Monad.return (Inl (ErrOther ''dashboard stats''))
         else do { updated \<leftarrow> time_Now; State_Monad.return (Inr (stats updated)) }
   }"

definition views_of :: "db \<Rightarrow> uuid \<Rightarrow> ViewRow list" where
  "views_of d i = filter (\<lambda>r. vr_VideoID r = i) (db_video_views d)"

definition GetPopularQualities :: "uuid \<Rightarrow> (err + (string \<rightharpoonup> int)) prog" where
  "GetPopularQualities videoID = run_query ''popular qualities''
     (\<lambda>d. map_of (group_counts (map vr_Quality (views_of d videoID))))"

definition GetGeographyStats :: "uuid \<Rightarrow> (err + CountryStats list) prog" where
  "GetGeographyStats videoID = run_query ''geography stats'' (\<lambda>d.
     map (\<lambda>(c, n). \<lparr> cs_Country = c, cs_Views = n \<rparr>)
       (take 10 (sort_key (\<lambda>(c, n). - n) (group_counts (map vr_Country (views_of d videoID))))))"

text \<open>A video joined with its owner: the username is scanned into a string, so an absent owner is an error.\<close>

definition owner_of :: "db \<Rightarrow> Video \<Rightarrow> User option" where
  "owner_of d v = (case v_UserID v of None \<Rightarrow> None | Some u \<Rightarrow> lookup u_ID u (db_users d))"

definition blank_analytics :: "Video \<Rightarrow> User \<Rightarrow> VideoAnalytics" where
  "blank_analytics v u = \<lparr> va_VideoID = v_ID v, va_Title = v_Title v, va_UserID = u_ID u, va_Username = u_Username u,
     va_TotalViews = 0, va_UniqueViewers = 0, va_Likes = 0, va_Dislikes = 0, va_Comments = 0, va_Shares = 0,
     va_TotalWatchTime = 0, va_AvgWatchTime = 0, va_AvgWatchPercent = 0, va_ViewsByQuality = (\<lambda>_. None),
     va_AvgBufferTime = 0, va_PlaybackErrors = 0, va_SourceDirect = 0, va_SourceSearch = 0, va_SourceEmbed = 0,
     va_SourceSocial = 0, va_TopCountries = [], va_DeviceMobile = 0, va_DeviceDesktop = 0, va_DeviceTablet = 0,
     va_CreatedAt = v_CreatedAt v, va_LastViewed = - 62135596800 * Second \<rparr>"

definition with_totals :: "ViewRow list \<Rightarrow> VideoAnalytics \<Rightarrow> VideoAnalytics" where
  "with_totals rows a = a\<lparr> va_TotalViews := int (length rows),
     va_UniqueViewers := count_distinct (map vr_UserID rows),
     va_TotalWatchTime := sum_list (map vr_WatchDuration rows) \<rparr>"

definition engagement_row :: "uuid \<Rightarrow> db \<Rightarrow> VideoAnalytics option option" where
  "engagement_row videoID d = (case lookup v_ID videoID (db_videos d) of
     None \<Rightarrow> None
   | Some v \<Rightarrow> Some (case owner_of d v of None \<Rightarrow> None
       | Some u \<Rightarrow> let rows = views_of d videoID in
           Some ((with_totals rows (blank_analytics v u))\<lparr>
             va_AvgWatchTime := avg_or_0 (map (\<lambda>r. of_int (vr_WatchDuration r)) rows),
             va_AvgWatchPercent := avg_or_0 (map vr_WatchPercent rows),
             va_LastViewed := (if rows = [] then v_CreatedAt v else Max (set (map vr_CreatedAt rows))) \<rparr>)))"

definition with_devices :: "ViewRow list \<Rightarrow> VideoAnalytics \<Rightarrow> VideoAnalytics" where
  "with_devices rows a = (let n = (\<lambda>s. count_where (\<lambda>r. vr_DeviceType r = Some s) rows) in
     a\<lparr> va_DeviceMobile := n ''mobile'', va_DeviceDesktop := n ''desktop'', va_DeviceTablet := n ''tablet'' \<rparr>)"

definition with_sources :: "ViewRow list \<Rightarrow> VideoAnalytics \<Rightarrow> VideoAnalytics" where
  "with_sources rows a = (let n = (\<lambda>s. count_where (\<lambda>r. vr_Source r = Some s) rows) in
     a\<lparr> va_SourceDirect := n ''direct'', va_SourceSearch := n ''search'', va_SourceEmbed := n ''embed'',
        va_SourceSocial := n ''social'' \<rparr>)"

text \<open>The breakdowns are best effort: a failed one leaves its figures empty.\<close>

definition Repo_GetVideoAnalytics :: "uuid \<Rightarrow> (err + VideoAnalytics) prog" where
  "Repo_GetVideoAnalytics videoID =
     try_then (row_or ErrVideoNotFound ''getting analytics'' (engagement_row videoID)) (\<lambda>row. case row of
       None \<Rightarrow> State_Monad.return (Inl (ErrOther ''getting analytics''))
     | Some a0 \<Rightarrow> do {
         qualities \<leftarrow> GetPopularQualities videoID;
         let a1 = (case qualities of Inl _ \<Rightarrow> a0 | Inr q \<Rightarrow> a0\<lparr> va_ViewsByQuality := q \<rparr>);
         devices \<leftarrow> run_query ''devices'' (\<lambda>d. views_of d videoID);
         let a2 = (case devices of Inl _ \<Rightarrow> a1 | Inr rows \<Rightarrow> with_devices rows a1);
         sources \<leftarrow> run_query ''sources'' (\<lambda>d. views_of d videoID);
         let a3 = (case sources of Inl _ \<Rightarrow> a2 | Inr rows \<Rightarrow> with_sources rows a2);
         countries \<leftarrow> GetGeographyStats videoID;
         State_Monad.return (Inr (case countries of Inl _ \<Rightarrow> a3 | Inr cs \<Rightarrow> a3\<lparr> va_TopCountries := cs \<rparr>))
       })"

definition timeframe_start :: "string \<Rightarrow> time \<Rightarrow> time option" where
  "timeframe_start timeframe now = (if timeframe = ''today'' then Some (now - Day)
     else if timeframe = ''week'' then Some (now - 7 * Day)
     else if timeframe = ''month'' then Some (now - 30 * Day) else None)"

definition top_rows :: "time option \<Rightarrow> int \<Rightarrow> db \<Rightarrow> VideoAnalytics option list" where
  "top_rows since limit d =
     (let ready = filter (\<lambda>v. v_Status v = VideoStatusReady) (db_videos d);
          rows = (\<lambda>v. filter (\<lambda>r. case since of None \<Rightarrow> True | Some t \<Rightarrow> t \<le> vr_CreatedAt r) (views_of d (v_ID v)))
      in map (\<lambda>v. map_option (\<lambda>u. with_totals (rows v) (blank_analytics v u)) (owner_of d v))
           (take (nat limit) (sort_key (\<lambda>v. - int (length (rows v))) ready)))"

definition Repo_GetTopVideos :: "int \<Rightarrow> string \<Rightarrow> (err + VideoAnalytics list) prog" where
  "Repo_GetTopVideos limit timeframe = do {
     now \<leftarrow> time_Now;
     r \<leftarrow> run_query ''top videos'' (top_rows (timeframe_start timeframe now) limit);
     State_Monad.return (case r of Inl e \<Rightarrow> Inl e
       | Inr rows \<Rightarrow> if limit < 0 \<or> list_ex Option.is_none rows then Inl (ErrOther ''top videos'') else Inr (map the rows))
   }"

definition Repo_GetUserAnalytics :: "uuid \<Rightarrow> (err + UserAnalytics) prog" where
  "Repo_GetUserAnalytics userID = row_or (ErrOther ''no rows in result set'') ''user analytics'' (\<lambda>d.
     map_option (\<lambda>u. let vs = filter (\<lambda>v. v_UserID v = Some userID) (db_videos d); rows = concat (map (\<lambda>v. views_of d (v_ID v)) vs)
       in \<lparr> ua_UserID = userID, ua_Username = u_Username u, ua_VideosUploaded = int (length vs),
            ua_TotalVideoViews = int (length rows), ua_TotalWatchTime = sum_list (map vr_WatchDuration rows),
            ua_LastActive = u_LastLoginAt u, ua_CreatedAt = u_CreatedAt u \<rparr>)
       (lookup u_ID userID (db_users d)))"

definition series_window :: "string \<Rightarrow> string \<times> int" where
  "series_window interval = (if interval = ''day'' then (''day'', 30) else if interval = ''week'' then (''week'', 90)
     else if interval = ''month'' then (''month'', 365) else (''hour'', 7))"

definition Repo_GetViewsTimeSeries :: "(string \<Rightarrow> time \<Rightarrow> time) \<Rightarrow> uuid \<Rightarrow> string \<Rightarrow> (err + TimeSeriesData) prog" where
  "Repo_GetViewsTimeSeries date_trunc videoID interval = (case series_window interval of (truncFunc, days) \<Rightarrow> do {
     now \<leftarrow> time_Now;
     r \<leftarrow> run_query ''views time series'' (\<lambda>d. sort_key fst (group_counts
            (map (\<lambda>x. Some (date_trunc truncFunc (vr_CreatedAt x)))
              (filter (\<lambda>x. now - days * Day \<le> vr_CreatedAt x) (views_of d videoID)))));
     State_Monad.return (case r of Inl e \<Rightarrow> Inl e
       | Inr rows \<Rightarrow> Inr \<lparr> td_Label = ''Views'',
           td_Datapoints = map (\<lambda>(t, n). \<lparr> dp_Timestamp = t, dp_Value = of_int n \<rparr>) rows \<rparr>)
   })"

text \<open>\<^verbatim>\<open>COALESCE(user_id::text, session_id)\<close>.\<close>

definition viewer_text :: "uuid_lib \<Rightarrow> ViewRow \<Rightarrow> string option" where
  "viewer_text lib r = (case vr_UserID r of Some u \<Rightarrow> Some (uuid_String lib u) | None \<Rightarrow> vr_SessionID r)"

definition Repo_GetRealtimeMetrics :: "uuid_lib \<Rightarrow> (err + RealtimeMetrics) prog" where
  "Repo_GetRealtimeMetrics lib = do {
     now \<leftarrow> time_Now;
     r \<leftarrow> run_query ''realtime metrics'' (\<lambda>d t.
        \<lparr> rm_ActiveViewers = count_distinct (map (viewer_text lib)
            (filter (\<lambda>x. now - 5 * Minute \<le> vr_CreatedAt x) (db_video_views d))),
          rm_UploadsLastHour = count_where (\<lambda>v. now - Hour \<le> v_CreatedAt v) (db_videos d),
          rm_ViewsLastHour = count_where (\<lambda>x. now - Hour \<le> vr_CreatedAt x) (db_video_views d),
          rm_CurrentCPU = 0, rm_CurrentMemory = 0,
          rm_QueuedJobs = count_where (\<lambda>v. v_Status v = VideoStatusUploading) (db_videos d),
          rm_ProcessingJobs = count_where (\<lambda>v. v_Status v = VideoStatusProcessing) (db_videos d),
          rm_Timestamp = t \<rparr>);
     case r of Inl e \<Rightarrow> State_Monad.return (Inl e)
     | Inr m \<Rightarrow> do { t \<leftarrow> time_Now; State_Monad.return (Inr (m t)) }
   }"

section \<open>The service\<close>

record 'a codec =
  json_Marshal :: "'a \<Rightarrow> string option"
  json_Unmarshal :: "string \<Rightarrow> 'a option"

text \<open>Read through the cache: an entry that decodes is the answer, otherwise the repository is asked and its
  answer stored; a cache that fails is passed over.\<close>

definition cached :: "'a codec \<Rightarrow> string \<Rightarrow> duration \<Rightarrow> (err + 'a) prog \<Rightarrow> (err + 'a) prog" where
  "cached J key ttl fetch = do {
     r \<leftarrow> redis_Get key;
     case (case r of Inr (Some s) \<Rightarrow> json_Unmarshal J s | _ \<Rightarrow> None) of
       Some x \<Rightarrow> State_Monad.return (Inr x)
     | None \<Rightarrow> try_then fetch (\<lambda>x. case json_Marshal J x of
           None \<Rightarrow> State_Monad.return (Inr x)
         | Some s \<Rightarrow> do { _ \<leftarrow> redis_Set key s ttl; State_Monad.return (Inr x) })
   }"

record AnalyticsService =
  an_uuid :: uuid_lib
  an_date_trunc :: "string \<Rightarrow> time \<Rightarrow> time"
  an_dashboard :: "DashboardStats codec"
  an_video :: "VideoAnalytics codec"
  an_videos :: "VideoAnalytics list codec"
  an_user :: "UserAnalytics codec"
  an_series :: "TimeSeriesData codec"

definition dashboardKey :: string where "dashboardKey = ''analytics:dashboard:stats''"
definition videoAnalyticsKey :: "AnalyticsService \<Rightarrow> uuid \<Rightarrow> string" where
  "videoAnalyticsKey S i = ''analytics:video:'' @ uuid_String (an_uuid S) i"
definition userAnalyticsKey :: "AnalyticsService \<Rightarrow> uuid \<Rightarrow> string" where
  "userAnalyticsKey S i = ''analytics:user:'' @ uuid_String (an_uuid S) i"

definition GetDashboardOverview :: "AnalyticsService \<Rightarrow> (err + DashboardStats) prog" where
  "GetDashboardOverview S = cached (an_dashboard S) dashboardKey (5 * Minute) GetDashboardStats"

definition Service_GetVideoAnalytics :: "AnalyticsService \<Rightarrow> uuid \<Rightarrow> (err + VideoAnalytics) prog" where
  "Service_GetVideoAnalytics S videoID = cached (an_video S) (videoAnalyticsKey S videoID) Hour (Repo_GetVideoAnalytics videoID)"

definition Service_GetUserAnalytics :: "AnalyticsService \<Rightarrow> uuid \<Rightarrow> (err + UserAnalytics) prog" where
  "Service_GetUserAnalytics S userID = cached (an_user S) (userAnalyticsKey S userID) (30 * Minute) (Repo_GetUserAnalytics userID)"

definition GetTopVideosThisWeek :: "AnalyticsService \<Rightarrow> int \<Rightarrow> (err + VideoAnalytics list) prog" where
  "GetTopVideosThisWeek S limit = cached (an_videos S) (''analytics:top_videos:week:'' @ Itoa limit) Hour
     (Repo_GetTopVideos limit ''week'')"

definition Service_GetViewsTimeSeries :: "AnalyticsService \<Rightarrow> uuid \<Rightarrow> string \<Rightarrow> (err + TimeSeriesData) prog" where
  "Service_GetViewsTimeSeries S videoID interval = cached (an_series S)
     (''analytics:timeseries:'' @ uuid_String (an_uuid S) videoID @ '':'' @ interval) (5 * Minute)
     (Repo_GetViewsTimeSeries (an_date_trunc S) videoID interval)"

definition Service_GetRealtimeMetrics :: "AnalyticsService \<Rightarrow> (err + RealtimeMetrics) prog" where
  "Service_GetRealtimeMetrics S = Repo_GetRealtimeMetrics (an_uuid S)"

definition InvalidateVideoCache :: "AnalyticsService \<Rightarrow> uuid \<Rightarrow> (err + unit) prog" where
  "InvalidateVideoCache S videoID = redis_Del (videoAnalyticsKey S videoID)"

definition InvalidateDashboardCache :: "(err + unit) prog" where
  "InvalidateDashboardCache = redis_Del dashboardKey"

definition InvalidateUserCache :: "AnalyticsService \<Rightarrow> uuid \<Rightarrow> (err + unit) prog" where
  "InvalidateUserCache S userID = redis_Del (userAnalyticsKey S userID)"

section \<open>The handlers\<close>

datatype analytics_body = DashboardBody DashboardStats | VideoAnalyticsBody VideoAnalytics
  | TopVideosBody "VideoAnalytics list" | RealtimeBody RealtimeMetrics | SeriesBody TimeSeriesData

definition defaultTopVideosLimit :: int where "defaultTopVideosLimit = 10"
definition maxTopVideosLimit :: int where "maxTopVideosLimit = 50"

definition isValidInterval :: "string \<Rightarrow> bool" where
  "isValidInterval interval = (interval \<in> {''hour'', ''day'', ''week'', ''month''})"

definition parseLimit :: "request \<Rightarrow> int \<Rightarrow> int \<Rightarrow> 'b response + int" where
  "parseLimit c fallback most = (let raw = Query c ''limit'' in
     if raw = '''' then Inr fallback
     else let bad = Inl (ValidationError (''limit must be a number between 1 and '' @ Itoa most)) in
       case Atoi raw of None \<Rightarrow> bad | Some limit \<Rightarrow> if limit < 1 \<or> limit > most then bad else Inr limit)"

definition notFoundOr :: "string \<Rightarrow> err \<Rightarrow> 'b response" where
  "notFoundOr msg e = (if e = ErrVideoNotFound then NotFound ''Video not found'' else InternalError msg)"

definition GetDashboard :: "AnalyticsService \<Rightarrow> analytics_body response prog" where
  "GetDashboard S = answer (GetDashboardOverview S) (\<lambda>_. InternalError ''Failed to retrieve dashboard analytics'')
     (\<lambda>stats. Success 200 (DashboardBody stats))"

definition Handler_GetVideoAnalytics :: "AnalyticsService \<Rightarrow> request \<Rightarrow> analytics_body response prog" where
  "Handler_GetVideoAnalytics S c = pathUUID (an_uuid S) c ''id'' ''video ID'' (\<lambda>videoID. requirePrincipal c (\<lambda>p.
     answer (Service_GetVideoAnalytics S videoID) (notFoundOr ''Failed to retrieve video analytics'')
       (\<lambda>a. Success 200 (VideoAnalyticsBody a))))"

definition Handler_GetTopVideos :: "AnalyticsService \<Rightarrow> request \<Rightarrow> analytics_body response prog" where
  "Handler_GetTopVideos S c = (case parseLimit c defaultTopVideosLimit maxTopVideosLimit of
     Inl resp \<Rightarrow> State_Monad.return resp
   | Inr limit \<Rightarrow> answer (GetTopVideosThisWeek S limit) (\<lambda>_. InternalError ''Failed to retrieve top videos'')
       (\<lambda>vs. Success 200 (TopVideosBody vs)))"

definition Handler_GetRealtimeMetrics :: "AnalyticsService \<Rightarrow> analytics_body response prog" where
  "Handler_GetRealtimeMetrics S = answer (Service_GetRealtimeMetrics S) (\<lambda>_. InternalError ''Failed to retrieve realtime metrics'')
     (\<lambda>m. Success 200 (RealtimeBody m))"

definition Handler_GetViewsTimeSeries :: "AnalyticsService \<Rightarrow> request \<Rightarrow> analytics_body response prog" where
  "Handler_GetViewsTimeSeries S c = pathUUID (an_uuid S) c ''id'' ''video ID'' (\<lambda>videoID.
     let interval = DefaultQuery c ''interval'' ''hour'' in
     if \<not> isValidInterval interval
     then State_Monad.return (ValidationError ''interval must be one of: hour, day, week, month'')
     else answer (Service_GetViewsTimeSeries S videoID interval) (notFoundOr ''Failed to retrieve views time series'')
       (\<lambda>series. Success 200 (SeriesBody series)))"

end
