(* ===== verification/Monitoring.thy ===== *)
theory Monitoring
  imports Http
begin

text \<open>
  Operational metrics (\<^verbatim>\<open>internal/service/monitoring_service.go\<close>, \<^verbatim>\<open>internal/handler/monitoring_handler.go\<close>) and
  the queue reports of \<^verbatim>\<open>internal/handler/admin_handler.go\<close>.  What gopsutil, asynq's inspector, PostgreSQL's
  catalogue and Redis INFO answer at an observation is a parameter; floats are exact rationals.
\<close>

section \<open>What is observed\<close>

record usage =
  us_Total :: int
  us_Used :: int
  us_UsedPercent :: rat

record QueueInfo =
  qi_Size :: int
  qi_Pending :: int
  qi_Active :: int
  qi_Scheduled :: int
  qi_Retry :: int
  qi_Archived :: int
  qi_Completed :: int
  qi_Aggregating :: int
  qi_Processed :: int
  qi_Failed :: int
  qi_Paused :: bool

record ServerInfo =
  si_Host :: string
  si_PID :: int
  si_ID :: string
  si_Concurrency :: int
  si_Queues :: "(string \<times> int) list"
  si_Started :: time
  si_ActiveWorkers :: int

record monitor_lib =
  mo_cpu :: "nat \<Rightarrow> rat list option"
  mo_memory :: "nat \<Rightarrow> usage option"
  mo_disk :: "nat \<Rightarrow> usage option"
  mo_goroutines :: "nat \<Rightarrow> int"
  mo_queues :: "nat \<Rightarrow> string list option"
  mo_queue_info :: "nat \<Rightarrow> string \<Rightarrow> QueueInfo option"
  mo_servers :: "nat \<Rightarrow> ServerInfo list option"
  mo_pool :: "nat \<Rightarrow> int \<times> int \<times> int"
  mo_slow_queries :: "nat \<Rightarrow> int option"
  mo_table_sizes :: "nat \<Rightarrow> (string \<times> int) list option"
  mo_redis_info :: "nat \<Rightarrow> string option"
  mo_redis_dbsize :: "nat \<Rightarrow> int option"

definition ask :: "(nat \<Rightarrow> 'a) \<Rightarrow> 'a prog" where "ask f = observe (\<lambda>e n. f n)"

definition ask_or :: "string \<Rightarrow> (nat \<Rightarrow> 'a option) \<Rightarrow> (err + 'a) prog" where
  "ask_or msg f = observe (\<lambda>e n. case f n of None \<Rightarrow> Inl (ErrOther msg) | Some x \<Rightarrow> Inr x)"

section \<open>The figures (domain/system.go)\<close>

record SystemMetrics =
  sm_CPUPercent :: rat
  sm_MemoryTotal :: int
  sm_MemoryUsed :: int
  sm_MemoryPercent :: rat
  sm_DiskTotal :: int
  sm_DiskUsed :: int
  sm_DiskPercent :: rat
  sm_Goroutines :: int
  sm_Uptime :: duration
  sm_Timestamp :: time

record QueueMetrics =
  qm_PendingJobs :: int
  qm_ActiveJobs :: int
  qm_FailedJobs :: int
  qm_RetryQueue :: int
  qm_ArchivedJobs :: int
  qm_ProcessedLast :: int
  qm_Timestamp :: time

record DatabaseMetrics =
  dm_ActiveConnections :: int
  dm_IdleConnections :: int
  dm_MaxConnections :: int
  dm_SlowQueries :: int
  dm_TotalQueries :: int
  dm_TableSizes :: "string \<rightharpoonup> int"
  dm_Timestamp :: time

record RedisMetrics =
  rx_MemoryUsed :: int
  rx_MemoryPeak :: int
  rx_TotalKeys :: int
  rx_Hits :: int
  rx_Misses :: int
  rx_HitRate :: rat
  rx_ConnectedClients :: int
  rx_Timestamp :: time

section \<open>The service\<close>

record MonitoringService =
  mt_lib :: monitor_lib
  mt_startTime :: time

text \<open>An empty list of processors would panic on the index; the recovery middleware answers 500, as an error does.\<close>

definition GetSystemMetrics :: "MonitoringService \<Rightarrow> (err + SystemMetrics) prog" where
  "GetSystemMetrics S = (let L = mt_lib S in
     try_then (ask_or ''failed to get CPU usage'' (mo_cpu L)) (\<lambda>cpu.
     try_then (ask_or ''failed to get memory stats'' (mo_memory L)) (\<lambda>mem.
     try_then (ask_or ''failed to get disk stats'' (mo_disk L)) (\<lambda>disk.
       if cpu = [] then State_Monad.return (Inl (ErrOther ''index out of range''))
       else do {
         goroutines \<leftarrow> ask (mo_goroutines L);
         up \<leftarrow> time_Now;
         now \<leftarrow> time_Now;
         State_Monad.return (Inr \<lparr> sm_CPUPercent = hd cpu, sm_MemoryTotal = us_Total mem, sm_MemoryUsed = us_Used mem,
           sm_MemoryPercent = us_UsedPercent mem, sm_DiskTotal = us_Total disk, sm_DiskUsed = us_Used disk,
           sm_DiskPercent = us_UsedPercent disk, sm_Goroutines = goroutines, sm_Uptime = up - mt_startTime S,
           sm_Timestamp = now \<rparr>)
       }))))"

text \<open>One turn of the loop; a queue whose information cannot be had is skipped.  The sums are \<^verbatim>\<open>int64\<close>.\<close>

definition add_queue :: "QueueInfo \<Rightarrow> QueueMetrics \<Rightarrow> QueueMetrics" where
  "add_queue info m = m\<lparr> qm_PendingJobs := wrap64 (qm_PendingJobs m + qi_Pending info),
     qm_ActiveJobs := wrap64 (qm_ActiveJobs m + qi_Active info),
     qm_FailedJobs := wrap64 (qm_FailedJobs m + qi_Scheduled info),
     qm_ArchivedJobs := wrap64 (qm_ArchivedJobs m + qi_Archived info),
     qm_ProcessedLast := wrap64 (qm_ProcessedLast m + qi_Processed info) \<rparr>"

definition no_jobs :: QueueMetrics where
  "no_jobs = \<lparr> qm_PendingJobs = 0, qm_ActiveJobs = 0, qm_FailedJobs = 0, qm_RetryQueue = 0, qm_ArchivedJobs = 0,
     qm_ProcessedLast = 0, qm_Timestamp = 0 \<rparr>"

definition GetQueueMetrics :: "MonitoringService \<Rightarrow> (err + QueueMetrics) prog" where
  "GetQueueMetrics S = (let L = mt_lib S in
     try_then (ask_or ''failed to get queue list'' (mo_queues L)) (\<lambda>queues. do {
       m \<leftarrow> foreach queues (\<lambda>queue m. do {
           info \<leftarrow> ask (\<lambda>n. mo_queue_info L n queue);
           State_Monad.return (case info of None \<Rightarrow> m | Some i \<Rightarrow> add_queue i m)
         }) no_jobs;
       now \<leftarrow> time_Now;
       State_Monad.return (Inr (m\<lparr> qm_Timestamp := now \<rparr>))
     }))"

definition GetDatabaseMetrics :: "MonitoringService \<Rightarrow> (err + DatabaseMetrics) prog" where
  "GetDatabaseMetrics S = (let L = mt_lib S in do {
     pool \<leftarrow> ask (mo_pool L);
     slow \<leftarrow> ask (mo_slow_queries L);
     tables \<leftarrow> ask (mo_table_sizes L);
     now \<leftarrow> time_Now;
     State_Monad.return (case pool of (acquired, idle, most) \<Rightarrow> Inr \<lparr> dm_ActiveConnections = acquired,
       dm_IdleConnections = idle, dm_MaxConnections = most, dm_SlowQueries = (case slow of None \<Rightarrow> 0 | Some n \<Rightarrow> n),
       dm_TotalQueries = 0, dm_TableSizes = (case tables of None \<Rightarrow> (\<lambda>_. None) | Some rows \<Rightarrow> map_of (rev rows)),
       dm_Timestamp = now \<rparr>)
   })"

text \<open>\<^verbatim>\<open>strings.Cut\<close> at the colon.\<close>

definition info_line :: "string \<Rightarrow> (string \<times> string) option" where
  "info_line raw = (let line = TrimSpace raw in
     if line = '''' \<or> HasPrefix line ''#'' then None
     else if CHR '':'' \<in> set line
       then Some (takeWhile (\<lambda>c. c \<noteq> CHR '':'') line, tl (dropWhile (\<lambda>c. c \<noteq> CHR '':'') line)) else None)"

text \<open>Later lines overwrite earlier ones.\<close>

definition parseRedisInfo :: "string \<Rightarrow> (string \<rightharpoonup> string)" where
  "parseRedisInfo raw = foldl (\<lambda>info line. case info_line line of None \<Rightarrow> info | Some (k, v) \<Rightarrow> info(k \<mapsto> v))
     (\<lambda>_. None) (split_on (CHR 0x0A) raw)"

definition info_int64 :: "(string \<rightharpoonup> string) \<Rightarrow> string \<Rightarrow> int" where
  "info_int64 info field = (case Atoi (case info field of None \<Rightarrow> '''' | Some v \<Rightarrow> v) of None \<Rightarrow> 0 | Some n \<Rightarrow> n)"

definition redis_metrics_of :: "string \<Rightarrow> int \<Rightarrow> time \<Rightarrow> RedisMetrics" where
  "redis_metrics_of raw dbSize now =
     (let info = parseRedisInfo raw; hits = info_int64 info ''keyspace_hits''; misses = info_int64 info ''keyspace_misses'';
          lookups = wrap64 (hits + misses)
      in \<lparr> rx_MemoryUsed = info_int64 info ''used_memory'', rx_MemoryPeak = info_int64 info ''used_memory_peak'',
           rx_TotalKeys = dbSize, rx_Hits = hits, rx_Misses = misses,
           rx_HitRate = (if lookups > 0 then of_int hits / of_int lookups else 0),
           rx_ConnectedClients = info_int64 info ''connected_clients'', rx_Timestamp = now \<rparr>)"

definition GetRedisMetrics :: "MonitoringService \<Rightarrow> (err + RedisMetrics) prog" where
  "GetRedisMetrics S = (let L = mt_lib S in
     try_then (ask_or ''querying Redis INFO'' (mo_redis_info L)) (\<lambda>raw.
     try_then (ask_or ''querying Redis DBSIZE'' (mo_redis_dbsize L)) (\<lambda>dbSize. do {
       now \<leftarrow> time_Now;
       State_Monad.return (Inr (redis_metrics_of raw dbSize now))
     })))"

definition CheckHealth :: "(err + unit) prog" where
  "CheckHealth = do {
     db_ok \<leftarrow> run_exec;
     if \<not> db_ok then State_Monad.return (Inl (ErrOther ''database unhealthy''))
     else do {
       redis_ok \<leftarrow> run_exec;
       State_Monad.return (if redis_ok then Inr () else Inl (ErrOther ''redis unhealthy''))
     }
   }"

definition GetAllMetrics :: "MonitoringService \<Rightarrow> (err + SystemMetrics \<times> QueueMetrics \<times> DatabaseMetrics \<times> RedisMetrics) prog" where
  "GetAllMetrics S =
     try_then (GetSystemMetrics S) (\<lambda>sys. try_then (GetQueueMetrics S) (\<lambda>q. try_then (GetDatabaseMetrics S) (\<lambda>d.
       try_then (GetRedisMetrics S) (\<lambda>r. State_Monad.return (Inr (sys, q, d, r))))))"

section \<open>The handlers\<close>

datatype monitoring_body = AllMetrics SystemMetrics QueueMetrics DatabaseMetrics RedisMetrics | SystemBody SystemMetrics
  | QueueBody QueueMetrics | DatabaseBody DatabaseMetrics | RedisBody RedisMetrics
  | QueueStats QueueInfo | WorkersBody "ServerInfo list" nat

definition Handler_GetAllMetrics :: "MonitoringService \<Rightarrow> monitoring_body response prog" where
  "Handler_GetAllMetrics S = answer (GetAllMetrics S) (\<lambda>_. InternalError ''Failed to collect metrics'')
     (\<lambda>(s, q, d, r). Success 200 (AllMetrics s q d r))"

definition Handler_GetSystemMetrics :: "MonitoringService \<Rightarrow> monitoring_body response prog" where
  "Handler_GetSystemMetrics S = answer (GetSystemMetrics S) (\<lambda>_. InternalError ''Failed to collect system metrics'')
     (\<lambda>m. Success 200 (SystemBody m))"

definition Handler_GetQueueMetrics :: "MonitoringService \<Rightarrow> monitoring_body response prog" where
  "Handler_GetQueueMetrics S = answer (GetQueueMetrics S) (\<lambda>_. InternalError ''Failed to collect queue metrics'')
     (\<lambda>m. Success 200 (QueueBody m))"

definition Handler_GetDatabaseMetrics :: "MonitoringService \<Rightarrow> monitoring_body response prog" where
  "Handler_GetDatabaseMetrics S = answer (GetDatabaseMetrics S) (\<lambda>_. InternalError ''Failed to collect database metrics'')
     (\<lambda>m. Success 200 (DatabaseBody m))"

definition Handler_GetRedisMetrics :: "MonitoringService \<Rightarrow> monitoring_body response prog" where
  "Handler_GetRedisMetrics S = answer (GetRedisMetrics S) (\<lambda>_. InternalError ''Failed to collect Redis metrics'')
     (\<lambda>m. Success 200 (RedisBody m))"

definition GetQueueStats :: "MonitoringService \<Rightarrow> monitoring_body response prog" where
  "GetQueueStats S = answer (ask_or ''queue info'' (\<lambda>n. mo_queue_info (mt_lib S) n ''default''))
     (\<lambda>_. InternalError ''Failed to retrieve queue statistics'') (\<lambda>stats. Success 200 (QueueStats stats))"

definition ListActiveWorkers :: "MonitoringService \<Rightarrow> monitoring_body response prog" where
  "ListActiveWorkers S = answer (ask_or ''servers'' (mo_servers (mt_lib S)))
     (\<lambda>_. InternalError ''Failed to retrieve worker information'') (\<lambda>ws. Success 200 (WorkersBody ws (length ws)))"

end
