(* ===== verification/Pages.thy ===== *)
theory Pages
  imports VideoHandlers Transcode
begin

text \<open>
  The rendered pages (\<^verbatim>\<open>internal/handler/page_handler.go\<close>) and the formatting helpers of the templates
  (\<^verbatim>\<open>web/templates/helpers.go\<close>).  What the generated templates print is not modelled: a page is the rows
  it is rendered from.  A float is the exact quotient.
\<close>

section \<open>Formatting\<close>

definition pad2 :: "int \<Rightarrow> string" where
  "pad2 i = (let s = Itoa i in if length s < 2 then ''0'' @ s else s)"

text \<open>Seconds are a Go \<^verbatim>\<open>int\<close>; a negative number is below 60.\<close>

definition formatDuration :: "int \<Rightarrow> string" where
  "formatDuration seconds =
     (if seconds < 60 then Itoa seconds @ '' sec''
      else let minutes = seconds div 60; remainingSeconds = seconds mod 60 in
        if minutes < 60 then Itoa minutes @ '':'' @ pad2 remainingSeconds
        else Itoa (minutes div 60) @ '':'' @ pad2 (minutes mod 60) @ '':'' @ pad2 remainingSeconds)"

text \<open>The loop of \<^verbatim>\<open>formatFileSize\<close>: the divisor and the index of the unit.\<close>

function size_unit :: "int \<Rightarrow> int \<Rightarrow> nat \<Rightarrow> int \<times> nat" where
  "size_unit n d e = (if n \<ge> 1024 then size_unit (n div 1024) (wrap64 (d * 1024)) (Suc e) else (d, e))"
  by pat_completeness auto

termination by (relation "measure (\<lambda>(n, d, e). nat n)") auto

declare size_unit.simps [simp del]

text \<open>\<^verbatim>\<open>%.1f\<close> of a non-negative quotient, a tie to the even digit.\<close>

definition fixed1 :: "rat \<Rightarrow> string" where
  "fixed1 r = (let n = round_even (r * 10) in Itoa (n div 10) @ ''.'' @ Itoa (n mod 10))"

text \<open>
  The conversion of a non-negative integer to \<^verbatim>\<open>float64\<close>: the nearest multiple of the distance between
  floats of its size, a tie to the even mantissa.
\<close>

function float_spacing :: "int \<Rightarrow> int" where
  "float_spacing n = (if n < 2 ^ 53 then 1 else 2 * float_spacing (n div 2))"
  by pat_completeness auto

termination by (relation "measure nat") auto

declare float_spacing.simps [simp del]

definition float64_of_int :: "int \<Rightarrow> int" where
  "float64_of_int n = round_even (of_int n / of_int (float_spacing n)) * float_spacing n"

text \<open>\<^verbatim>\<open>None\<close> is the panic of an index out of range.\<close>

definition formatFileSize :: "int \<Rightarrow> string option" where
  "formatFileSize bytes =
     (if bytes < 1024 then Some (Itoa bytes @ '' B'')
      else case size_unit (bytes div 1024) 1024 0 of (d, e) \<Rightarrow>
        if e < length ''KMGTPE''
        then Some (fixed1 (of_int (float64_of_int bytes) / of_int d) @ '' '' @ [''KMGTPE'' ! e] @ ''B'') else None)"

definition plural_ago :: "int \<Rightarrow> string \<Rightarrow> string" where
  "plural_ago n unit = (if n = 1 then ''1 '' @ unit @ '' ago'' else Itoa n @ '' '' @ unit @ ''s ago'')"

definition formatTimeAgo :: "time \<Rightarrow> time \<Rightarrow> string" where
  "formatTimeAgo now t = (let diff = now - t in
     if diff < Minute then ''just now''
     else if diff < Hour then plural_ago (diff div Minute) ''minute''
     else if diff < 24 * Hour then plural_ago (diff div Hour) ''hour''
     else plural_ago (diff div (24 * Hour)) ''day'')"

definition badge :: "string \<Rightarrow> string" where
  "badge colour = ''inline-flex items-center px-2.5 py-0.5 rounded-full text-xs font-medium bg-'' @ colour @ ''-600/30 text-''
     @ colour @ ''-200 border border-'' @ colour @ ''-500/30''"

definition statusBadgeClass :: "VideoStatus \<Rightarrow> string" where
  "statusBadgeClass status = (if status = VideoStatusReady then badge ''green''
     else if status = VideoStatusProcessing then badge ''yellow''
     else if status = VideoStatusFailed then badge ''red'' else badge ''gray'')"

section \<open>The pages\<close>

datatype page = UploadPage | VideoListPage "Video list" | VideoPlayerPage Video | PlainText nat string

definition pageListLimit :: int where "pageListLimit = 50"

definition Page_Upload :: "page prog" where "Page_Upload = State_Monad.return UploadPage"

definition Page_VideoList :: "text_match \<Rightarrow> page prog" where
  "Page_VideoList M = do {
     r \<leftarrow> VideoRepo_List M \<lparr> vf_Status = None, vf_OwnerID = None, vf_Visibility = Some VisibilityPublic, vf_Search = '''' \<rparr> \<lparr> Limit = pageListLimit, Offset = 0 \<rparr>;
     State_Monad.return (case r of Inl e \<Rightarrow> PlainText 500 ''Failed to load videos'' | Inr videos \<Rightarrow> VideoListPage videos)
   }"

definition Page_VideoPlayer :: "uuid_lib \<Rightarrow> request \<Rightarrow> page prog" where
  "Page_VideoPlayer lib c = (case ValidateUUID lib (rq_param c ''id'') of
     Inl e \<Rightarrow> State_Monad.return (PlainText 400 ''Invalid video ID'')
   | Inr videoID \<Rightarrow> do {
       r \<leftarrow> VideoRepo_GetByID videoID;
       State_Monad.return (case r of
         Inl e \<Rightarrow> if e = ErrVideoNotFound then PlainText 404 ''Video not found'' else PlainText 500 ''Failed to load video''
       | Inr video \<Rightarrow> if v_Visibility video = VisibilityPrivate then PlainText 404 ''Video not found''
           else VideoPlayerPage video)
     })"

end
