(* ===== verification/Config.thy ===== *)
theory Config
  imports GoTime Storage
begin

text \<open>
  The configuration (\<^verbatim>\<open>internal/config/config.go\<close>): reading it from the environment with defaults,
  the rules that refuse it, and the values derived from it.  The environment maps names to values;
  \<^verbatim>\<open>godotenv.Load\<close> is a parameter.  Unicode case folding is a parameter, a canonical representative
  of each folding orbit.  The address syntax of \<^verbatim>\<open>net.ParseIP\<close> and \<^verbatim>\<open>net.ParseCIDR\<close> and the escaping
  of \<^verbatim>\<open>net/url\<close> are written out.
\<close>

section \<open>Addresses (net)\<close>

text \<open>\<^verbatim>\<open>strings.Cut\<close> at a character; \<^verbatim>\<open>None\<close> when it is absent.\<close>

definition cut_char :: "char \<Rightarrow> string \<Rightarrow> (string \<times> string) option" where
  "cut_char c s = (if c \<in> set s then Some (takeWhile (\<lambda>x. x \<noteq> c) s, tl (dropWhile (\<lambda>x. x \<noteq> c) s)) else None)"

text \<open>A dotted quad: four decimal fields up to 255 without leading zeros.\<close>

definition ipv4_field :: "string \<Rightarrow> bool" where
  "ipv4_field f = (f \<noteq> '''' \<and> list_all is_digit f \<and> (length f = 1 \<or> hd f \<noteq> CHR ''0'')
     \<and> length f \<le> 3 \<and> the (digits_value f) \<le> 255)"

definition ipv4_ok :: "string \<Rightarrow> bool" where
  "ipv4_ok s = (let fs = split_on CHR ''.'' s in length fs = 4 \<and> list_all ipv4_field fs)"

definition is_hex :: "char \<Rightarrow> bool" where
  "is_hex c = (is_digit c \<or> c \<in> set ''abcdefABCDEF'')"

text \<open>The groups of an IPv6 address after a leading \<^verbatim>\<open>::\<close>: \<^verbatim>\<open>i\<close> bytes are filled, \<^verbatim>\<open>e\<close> says that the
  ellipsis has been seen; a dotted quad may take the last four bytes.\<close>

function ipv6_groups :: "nat \<Rightarrow> bool \<Rightarrow> string \<Rightarrow> bool" where
  "ipv6_groups i e s =
     (if i \<ge> 16 then False
      else let g = takeWhile is_hex s; r = dropWhile is_hex s in
        if g = [] \<or> length g > 4 then False
        else if r \<noteq> [] \<and> hd r = CHR ''.'' then
          (e \<or> i = 12) \<and> i + 4 \<le> 16 \<and> ipv4_ok s \<and> (if i + 4 < 16 then e else \<not> e)
        else if r = [] then (if i + 2 < 16 then e else \<not> e)
        else if hd r \<noteq> CHR '':'' \<or> tl r = [] then False
        else if hd (tl r) = CHR '':'' then
          \<not> e \<and> (if tl (tl r) = [] then i + 2 < 16 else ipv6_groups (i + 2) True (tl (tl r)))
        else ipv6_groups (i + 2) e (tl r))"
  by pat_completeness auto

termination by (relation "measure (\<lambda>(i, e, s). 16 - i)") auto

declare ipv6_groups.simps [simp del]

definition ipv6_ok :: "string \<Rightarrow> bool" where
  "ipv6_ok s = (if take 2 s = ''::'' then drop 2 s = [] \<or> ipv6_groups 0 True (drop 2 s) else ipv6_groups 0 False s)"

text \<open>The number of bits of a literal address without a zone.\<close>

definition ip_bits :: "string \<Rightarrow> nat option" where
  "ip_bits s = (case dropWhile (\<lambda>c. c \<noteq> CHR ''.'' \<and> c \<noteq> CHR '':'' \<and> c \<noteq> CHR ''%'') s of
       [] \<Rightarrow> None
     | c # _ \<Rightarrow> if c = CHR ''.'' then (if ipv4_ok s then Some 32 else None)
         else if c = CHR '':'' then (if ipv6_ok s then Some 128 else None) else None)"

definition ParseIP_ok :: "string \<Rightarrow> bool" where "ParseIP_ok s = (ip_bits s \<noteq> None)"

definition ParseCIDR_ok :: "string \<Rightarrow> bool" where
  "ParseCIDR_ok s = (case cut_char CHR ''/'' s of None \<Rightarrow> False
     | Some (addr, ones) \<Rightarrow> (case (ip_bits addr, digits_value ones) of
         (Some bits, Some n) \<Rightarrow> n < 0xFFFFFF \<and> n \<le> bits | _ \<Rightarrow> False))"

section \<open>Escaping (net/url)\<close>

datatype url_mode = encodeUserPassword | encodeHost | encodePath | encodeQueryComponent

definition shouldEscape :: "url_mode \<Rightarrow> char \<Rightarrow> bool" where
  "shouldEscape mode c =
     (if is_alpha c \<or> is_digit c \<or> c \<in> set ''-_.~'' then False
      else if mode = encodeHost then c \<notin> set ''!$&()*+,;=:[]<>'' \<union> {CHR 0x27, CHR 0x22}
      else if c \<in> set ''$&+,/:;=?@'' then
        (case mode of encodePath \<Rightarrow> c = CHR ''?'' | encodeUserPassword \<Rightarrow> c \<in> set ''@/?:'' | _ \<Rightarrow> True)
      else True)"

definition upper_hex :: "nat \<Rightarrow> char" where "upper_hex n = ''0123456789ABCDEF'' ! n"

definition escape_char :: "url_mode \<Rightarrow> char \<Rightarrow> string" where
  "escape_char mode c = (if \<not> shouldEscape mode c then [c]
     else if c = CHR '' '' \<and> mode = encodeQueryComponent then ''+''
     else [CHR ''%'', upper_hex (byte c div 16), upper_hex (byte c mod 16)])"

definition url_escape :: "url_mode \<Rightarrow> string \<Rightarrow> string" where
  "url_escape mode s = concat (map (escape_char mode) s)"

section \<open>Settings\<close>

definition EnvProduction :: string where "EnvProduction = ''production''"
definition insecureDefaultJWTSecret :: string where
  "insecureDefaultJWTSecret = ''dev-only-insecure-jwt-secret-change-me''"

record ServerConfig =
  sv_Host :: string
  sv_Port :: string
  sv_Environment :: string
  sv_ReadTimeout :: duration
  sv_WriteTimeout :: duration
  sv_ShutdownTimeout :: duration
  sv_TrustedProxies :: "string list"

definition IsProduction :: "ServerConfig \<Rightarrow> bool" where
  "IsProduction c = (sv_Environment c = EnvProduction)"

definition Server_Address :: "ServerConfig \<Rightarrow> string" where
  "Server_Address c = sv_Host c @ '':'' @ sv_Port c"

record DatabaseConfig =
  dc_Host :: string
  dc_Port :: string
  dc_User :: string
  dc_Password :: string
  dc_DBName :: string
  dc_SSLMode :: string
  dc_MaxOpenConns :: int
  dc_MaxIdleConns :: int
  dc_ConnMaxLifetime :: duration

definition DSN :: "DatabaseConfig \<Rightarrow> string" where
  "DSN c = ''postgres://'' @ url_escape encodeUserPassword (dc_User c) @ '':''
     @ url_escape encodeUserPassword (dc_Password c) @ ''@''
     @ url_escape encodeHost (dc_Host c @ '':'' @ dc_Port c)
     @ (let p = (if dc_DBName c = ''*'' then ''*'' else url_escape encodePath (dc_DBName c))
        in if p \<noteq> '''' \<and> hd p \<noteq> CHR ''/'' then ''/'' @ p else p)
     @ ''?sslmode='' @ url_escape encodeQueryComponent (dc_SSLMode c)"

record RedisConfig =
  rd_Host :: string
  rd_Port :: string
  rd_Password :: string
  rd_DB :: int
  rd_PoolSize :: int
  rd_MinIdleConns :: int

definition Redis_Address :: "RedisConfig \<Rightarrow> string" where
  "Redis_Address c = rd_Host c @ '':'' @ rd_Port c"

record StorageSettings = StorageConfig +
  AllowedFormats :: "string list"

record AuthConfig =
  ag_JWTSecret :: string
  ag_JWTIssuer :: string
  ag_AccessTokenTTL :: duration
  ag_RefreshTokenTTL :: duration
  ag_RevocationFailOpen :: bool

record CORSConfig =
  co_AllowedOrigins :: "string list"
  co_AllowedMethods :: "string list"
  co_AllowedHeaders :: "string list"
  co_MaxAge :: duration

definition EqualFold :: "(nat \<Rightarrow> nat) \<Rightarrow> string \<Rightarrow> string \<Rightarrow> bool" where
  "EqualFold canon s t = (map canon (runes s) = map canon (runes t))"

definition AllowsOrigin :: "(nat \<Rightarrow> nat) \<Rightarrow> CORSConfig \<Rightarrow> string \<Rightarrow> bool" where
  "AllowsOrigin canon c origin = list_ex (\<lambda>allowed. allowed = ''*'' \<or> EqualFold canon allowed origin) (co_AllowedOrigins c)"

definition AllowsAnyOrigin :: "CORSConfig \<Rightarrow> bool" where
  "AllowsAnyOrigin c = list_ex (\<lambda>allowed. allowed = ''*'') (co_AllowedOrigins c)"

record MinIOSettings = MinIOConfig +
  mn_Enabled :: bool
  mn_Endpoint :: string
  mn_AccessKeyID :: string
  mn_SecretAccessKey :: string
  mn_UseSSL :: bool

record WorkerConfig =
  wk_MaxConcurrentJobs :: int
  wk_JobTimeout :: duration

record MailSettings =
  ms_SMTPHost :: string
  ms_SMTPPort :: int
  ms_SMTPUsername :: string
  ms_SMTPPassword :: string
  ms_SMTPAllowInsecure :: bool
  ms_From :: string
  ms_FrontendBaseURL :: string
  ms_PasswordResetTTL :: duration

record Config =
  cf_Server :: ServerConfig
  cf_Database :: DatabaseConfig
  cf_Redis :: RedisConfig
  cf_Storage :: StorageSettings
  cf_Auth :: AuthConfig
  cf_CORS :: CORSConfig
  cf_MinIO :: MinIOSettings
  cf_RateLimitEnabled :: bool
  cf_Worker :: WorkerConfig
  cf_Mail :: MailSettings
  cf_LogLevel :: string

section \<open>Reading the environment\<close>

type_synonym environ = "string \<rightharpoonup> string"

definition Getenv :: "environ \<Rightarrow> string \<Rightarrow> string" where
  "Getenv E key = (case E key of None \<Rightarrow> '''' | Some v \<Rightarrow> v)"

definition getEnv :: "environ \<Rightarrow> string \<Rightarrow> string \<Rightarrow> string" where
  "getEnv E key defaultValue = (case E key of Some v \<Rightarrow> v | None \<Rightarrow> defaultValue)"

text \<open>The typed readers: an empty or malformed value yields the default.\<close>

definition parsedEnv :: "(string \<Rightarrow> 'a option) \<Rightarrow> environ \<Rightarrow> string \<Rightarrow> 'a \<Rightarrow> 'a" where
  "parsedEnv parse E key defaultValue = (let value = Getenv E key in
     if value = '''' then defaultValue else case parse value of None \<Rightarrow> defaultValue | Some x \<Rightarrow> x)"

definition ParseBool :: "string \<Rightarrow> bool option" where
  "ParseBool s = (if s \<in> {''1'', ''t'', ''T'', ''true'', ''TRUE'', ''True''} then Some True
     else if s \<in> {''0'', ''f'', ''F'', ''false'', ''FALSE'', ''False''} then Some False else None)"

definition getIntEnv :: "environ \<Rightarrow> string \<Rightarrow> int \<Rightarrow> int" where "getIntEnv = parsedEnv Atoi"
definition getInt64Env :: "environ \<Rightarrow> string \<Rightarrow> int \<Rightarrow> int" where "getInt64Env = parsedEnv Atoi"
definition getBoolEnv :: "environ \<Rightarrow> string \<Rightarrow> bool \<Rightarrow> bool" where "getBoolEnv = parsedEnv ParseBool"
definition getDurationEnv :: "environ \<Rightarrow> string \<Rightarrow> duration \<Rightarrow> duration" where "getDurationEnv = parsedEnv ParseDuration"

definition getStringSliceEnv :: "environ \<Rightarrow> string \<Rightarrow> string list \<Rightarrow> string list" where
  "getStringSliceEnv E key defaultValue = (let value = Getenv E key in
     if value = '''' then defaultValue
     else let trimmed = filter (\<lambda>part. part \<noteq> '''') (map TrimSpace (split_on CHR '','' value))
          in if trimmed = [] then defaultValue else trimmed)"

definition config_of_env :: "environ \<Rightarrow> Config" where
  "config_of_env E = \<lparr>
     cf_Server = \<lparr>
       sv_Host = getEnv E ''SERVER_HOST'' ''0.0.0.0'',
       sv_Port = getEnv E ''SERVER_PORT'' ''8080'',
       sv_Environment = getEnv E ''ENVIRONMENT'' ''development'',
       sv_ReadTimeout = getDurationEnv E ''SERVER_READ_TIMEOUT'' (10 * Second),
       sv_WriteTimeout = getDurationEnv E ''SERVER_WRITE_TIMEOUT'' (10 * Second),
       sv_ShutdownTimeout = getDurationEnv E ''SERVER_SHUTDOWN_TIMEOUT'' (30 * Second),
       sv_TrustedProxies = getStringSliceEnv E ''SERVER_TRUSTED_PROXIES'' [] \<rparr>,
     cf_Database = \<lparr>
       dc_Host = getEnv E ''DB_HOST'' ''localhost'',
       dc_Port = getEnv E ''DB_PORT'' ''5432'',
       dc_User = getEnv E ''DB_USER'' ''postgres'',
       dc_Password = getEnv E ''DB_PASSWORD'' ''postgres'',
       dc_DBName = getEnv E ''DB_NAME'' ''video_streaming'',
       dc_SSLMode = getEnv E ''DB_SSLMODE'' ''disable'',
       dc_MaxOpenConns = getIntEnv E ''DB_MAX_OPEN_CONNS'' 25,
       dc_MaxIdleConns = getIntEnv E ''DB_MAX_IDLE_CONNS'' 5,
       dc_ConnMaxLifetime = getDurationEnv E ''DB_CONN_MAX_LIFETIME'' (5 * Minute) \<rparr>,
     cf_Redis = \<lparr>
       rd_Host = getEnv E ''REDIS_HOST'' ''localhost'',
       rd_Port = getEnv E ''REDIS_PORT'' ''6379'',
       rd_Password = getEnv E ''REDIS_PASSWORD'' '''',
       rd_DB = getIntEnv E ''REDIS_DB'' 0,
       rd_PoolSize = getIntEnv E ''REDIS_POOL_SIZE'' 10,
       rd_MinIdleConns = getIntEnv E ''REDIS_MIN_IDLE_CONNS'' 2 \<rparr>,
     cf_Storage = \<lparr>
       UploadPath = getEnv E ''STORAGE_UPLOAD_PATH'' ''./web/uploads'',
       MaxFileSize = getInt64Env E ''STORAGE_MAX_FILE_SIZE'' (2 * 1024 * 1024 * 1024),
       ThumbnailPath = getEnv E ''STORAGE_THUMBNAIL_PATH'' ''./web/uploads/thumbnails'',
       TranscodedPath = getEnv E ''STORAGE_TRANSCODED_PATH'' ''./web/uploads/transcoded'',
       AllowedFormats = getStringSliceEnv E ''STORAGE_ALLOWED_FORMATS''
         [''video/mp4'', ''video/mpeg'', ''video/quicktime'', ''video/webm'', ''video/x-matroska''] \<rparr>,
     cf_Auth = \<lparr>
       ag_JWTSecret = getEnv E ''JWT_SECRET'' insecureDefaultJWTSecret,
       ag_JWTIssuer = getEnv E ''JWT_ISSUER'' ''video-streaming-service'',
       ag_AccessTokenTTL = getDurationEnv E ''JWT_ACCESS_TOKEN_TTL'' (15 * Minute),
       ag_RefreshTokenTTL = getDurationEnv E ''JWT_REFRESH_TOKEN_TTL'' (7 * 24 * Hour),
       ag_RevocationFailOpen = getBoolEnv E ''AUTH_REVOCATION_FAIL_OPEN'' False \<rparr>,
     cf_CORS = \<lparr>
       co_AllowedOrigins = getStringSliceEnv E ''CORS_ALLOWED_ORIGINS'' [''http://localhost:8080''],
       co_AllowedMethods = getStringSliceEnv E ''CORS_ALLOWED_METHODS''
         [''GET'', ''POST'', ''PUT'', ''PATCH'', ''DELETE'', ''OPTIONS''],
       co_AllowedHeaders = getStringSliceEnv E ''CORS_ALLOWED_HEADERS''
         [''Authorization'', ''Content-Type'', ''X-Request-ID'', ''Range''],
       co_MaxAge = getDurationEnv E ''CORS_MAX_AGE'' (12 * Hour) \<rparr>,
     cf_MinIO = \<lparr>
       BucketRaw = getEnv E ''MINIO_BUCKET_RAW'' ''videos-raw'',
       BucketProcessed = getEnv E ''MINIO_BUCKET_PROCESSED'' ''videos-processed'',
       BucketThumbs = getEnv E ''MINIO_BUCKET_THUMBNAILS'' ''videos-thumbnails'',
       mn_Enabled = getBoolEnv E ''MINIO_ENABLED'' False,
       mn_Endpoint = getEnv E ''MINIO_ENDPOINT'' ''localhost:9000'',
       mn_AccessKeyID = getEnv E ''MINIO_ACCESS_KEY'' '''',
       mn_SecretAccessKey = getEnv E ''MINIO_SECRET_KEY'' '''',
       mn_UseSSL = getBoolEnv E ''MINIO_USE_SSL'' False \<rparr>,
     cf_RateLimitEnabled = getBoolEnv E ''RATE_LIMIT_ENABLED'' True,
     cf_Worker = \<lparr>
       wk_MaxConcurrentJobs = getIntEnv E ''WORKER_MAX_CONCURRENT_JOBS'' 4,
       wk_JobTimeout = getDurationEnv E ''WORKER_JOB_TIMEOUT'' (30 * Minute) \<rparr>,
     cf_Mail = \<lparr>
       ms_SMTPHost = getEnv E ''SMTP_HOST'' '''',
       ms_SMTPPort = getIntEnv E ''SMTP_PORT'' 587,
       ms_SMTPUsername = getEnv E ''SMTP_USERNAME'' '''',
       ms_SMTPPassword = getEnv E ''SMTP_PASSWORD'' '''',
       ms_SMTPAllowInsecure = getBoolEnv E ''SMTP_ALLOW_INSECURE'' False,
       ms_From = getEnv E ''MAIL_FROM'' ''no-reply@localhost'',
       ms_FrontendBaseURL = getEnv E ''MAIL_FRONTEND_BASE_URL'' ''http://localhost:3000'',
       ms_PasswordResetTTL = getDurationEnv E ''MAIL_PASSWORD_RESET_TTL'' Hour \<rparr>,
     cf_LogLevel = getEnv E ''LOG_LEVEL'' ''info'' \<rparr>"

section \<open>Validation\<close>

text \<open>A problem is named by the setting its message is about.\<close>

datatype config_problem =
    PortRequired | DatabaseRequired | MaxFileSizePositive | IdleExceedsOpen | AccessTTLPositive | OriginsRequired
  | MinIOKeysRequired | ResetTTLPositive | BadProxy string
  | DefaultSecret | ShortSecret | WildcardOrigin | PlaintextDatabase | InsecureSMTP

definition production_problems :: "Config \<Rightarrow> config_problem list" where
  "production_problems c =
     (if ag_JWTSecret (cf_Auth c) = insecureDefaultJWTSecret then [DefaultSecret] else [])
     @ (if length (ag_JWTSecret (cf_Auth c)) < 32 then [ShortSecret] else [])
     @ (if AllowsAnyOrigin (cf_CORS c) then [WildcardOrigin] else [])
     @ (if dc_SSLMode (cf_Database c) = ''disable'' then [PlaintextDatabase] else [])
     @ (if ms_SMTPHost (cf_Mail c) \<noteq> '''' \<and> ms_SMTPAllowInsecure (cf_Mail c) then [InsecureSMTP] else [])"

definition config_problems :: "Config \<Rightarrow> config_problem list" where
  "config_problems c =
     (if sv_Port (cf_Server c) = '''' then [PortRequired] else [])
     @ (if dc_Host (cf_Database c) = '''' \<or> dc_DBName (cf_Database c) = '''' then [DatabaseRequired] else [])
     @ (if MaxFileSize (cf_Storage c) \<le> 0 then [MaxFileSizePositive] else [])
     @ (if dc_MaxIdleConns (cf_Database c) > dc_MaxOpenConns (cf_Database c) then [IdleExceedsOpen] else [])
     @ (if ag_AccessTokenTTL (cf_Auth c) \<le> 0 then [AccessTTLPositive] else [])
     @ (if co_AllowedOrigins (cf_CORS c) = [] then [OriginsRequired] else [])
     @ (if mn_Enabled (cf_MinIO c) \<and> (mn_AccessKeyID (cf_MinIO c) = '''' \<or> mn_SecretAccessKey (cf_MinIO c) = '''')
        then [MinIOKeysRequired] else [])
     @ (if ms_PasswordResetTTL (cf_Mail c) \<le> 0 then [ResetTTLPositive] else [])
     @ map BadProxy (filter (\<lambda>proxy. \<not> ParseIP_ok proxy \<and> \<not> ParseCIDR_ok proxy) (sv_TrustedProxies (cf_Server c)))
     @ (if IsProduction (cf_Server c) then production_problems c else [])"

text \<open>\<^verbatim>\<open>Validate\<close> refuses a configuration with a problem; \<^verbatim>\<open>Load\<close> reads and validates.\<close>

definition Validate_config :: "Config \<Rightarrow> (config_problem list) option" where
  "Validate_config c = (let problems = config_problems c in if problems = [] then None else Some problems)"

datatype dotenv_result = DotenvLoaded environ | DotenvMissing | DotenvMalformed

datatype config_error = LoadingDotenv | ValidationFailed "config_problem list"

definition Load :: "(environ \<Rightarrow> dotenv_result) \<Rightarrow> environ \<Rightarrow> config_error + Config" where
  "Load dotenv E = (case dotenv E of DotenvMalformed \<Rightarrow> Inl LoadingDotenv
     | res \<Rightarrow> let cfg = config_of_env (case res of DotenvLoaded E' \<Rightarrow> E' | _ \<Rightarrow> E) in
         case Validate_config cfg of Some problems \<Rightarrow> Inl (ValidationFailed problems) | None \<Rightarrow> Inr cfg)"

end
