(* ===== verification/Middleware.thy ===== *)
theory Middleware
  imports RateLimit Config
begin

text \<open>
  The middleware in front of every route (\<^verbatim>\<open>internal/middleware/http.go\<close>): correlation ids, the cross-origin
  policy and the answer to a panic.  The log line of a request is in \<^verbatim>\<open>Logging\<close>.
\<close>

definition RequestIDHeader :: string where "RequestIDHeader = ''X-Request-ID''"

text \<open>The inbound id or a fresh one, which also goes into the context.\<close>

definition RequestID :: "uuid_lib \<Rightarrow> string \<Rightarrow> (headers \<times> string) prog" where
  "RequestID lib inbound = do {
     i \<leftarrow> (if inbound = '''' then do { u \<leftarrow> uuid_New; State_Monad.return (uuid_String lib u) }
           else State_Monad.return inbound);
     State_Monad.return ([(RequestIDHeader, i)], i)
   }"

definition corsExposedHeaders :: string where
  "corsExposedHeaders = ''Content-Length, Content-Range, Accept-Ranges, X-Request-ID''"

definition corsRequiredRequestHeaders :: "string list" where
  "corsRequiredRequestHeaders = [''Authorization'', ''Content-Type'', ''Range'']"

definition mergeHeaderNames :: "(nat \<Rightarrow> nat) \<Rightarrow> string list \<Rightarrow> string list \<Rightarrow> string list" where
  "mergeHeaderNames canon configured required =
     configured @ filter (\<lambda>name. \<not> list_ex (\<lambda>existing. EqualFold canon existing name) configured) required"

text \<open>The headers of a response to a request with the given \<^verbatim>\<open>Origin\<close> header (empty when absent).\<close>

definition cors_headers :: "(nat \<Rightarrow> nat) \<Rightarrow> CORSConfig \<Rightarrow> string \<Rightarrow> headers" where
  "cors_headers canon cfg origin =
     (if origin \<noteq> '''' \<and> AllowsOrigin canon cfg origin
      then (if AllowsAnyOrigin cfg then [(''Access-Control-Allow-Origin'', ''*'')]
            else [(''Access-Control-Allow-Origin'', origin), (''Access-Control-Allow-Credentials'', ''true''), (''Vary'', ''Origin'')])
        @ [(''Access-Control-Allow-Methods'', join_with '', '' (co_AllowedMethods cfg)),
           (''Access-Control-Allow-Headers'',
            join_with '', '' (mergeHeaderNames canon (co_AllowedHeaders cfg) corsRequiredRequestHeaders)),
           (''Access-Control-Expose-Headers'', corsExposedHeaders),
           (''Access-Control-Max-Age'', Itoa (quot (co_MaxAge cfg) Second))]
      else [])"

definition CORS :: "(nat \<Rightarrow> nat) \<Rightarrow> CORSConfig \<Rightarrow> string \<Rightarrow> string \<Rightarrow> request \<Rightarrow> headers \<times> 'b passage" where
  "CORS canon cfg verb origin c =
     (cors_headers canon cfg origin, if verb = ''OPTIONS'' then Answer (NoBody 204) else Next c)"

definition Recovery :: "'b response" where "Recovery = InternalError ''Internal server error''"

end
