(* ===== verification/App.thy ===== *)
theory App
  imports Streaming Account Moderation Search Analytics Monitoring Pages Worker SocialHandlers Middleware
begin

text \<open>
  The wiring of the API process (\<^verbatim>\<open>internal/app/app.go\<close>, \<^verbatim>\<open>internal/storage/storage.go\<close>, the start of the MinIO
  backend) and of the worker (\<^verbatim>\<open>cmd/worker/main.go\<close>): every service built from the configuration.  What the
  services take from libraries outside the repository is collected in \<^verbatim>\<open>runtime\<close>.
\<close>

section \<open>What the program is linked against\<close>

record runtime =
  rn_uuid :: uuid_lib
  rn_jwt :: jwt_lib
  rn_bcrypt :: bcrypt_lib
  rn_unicode :: unicode_tables
  rn_canon :: "nat \<Rightarrow> nat"
  rn_zone :: int
  rn_glob :: "string \<Rightarrow> string \<Rightarrow> bool"
  rn_text :: text_lib
  rn_matches :: text_match
  rn_analytics :: AnalyticsService
  rn_monitor :: monitor_lib

section \<open>Choosing the store\<close>

definition sq :: "string \<Rightarrow> string" where "sq s = [CHR 0x22] @ s @ [CHR 0x22]"

definition policy_line :: "nat \<Rightarrow> string \<Rightarrow> string" where
  "policy_line n s = [CHR 0x0A] @ replicate n (CHR 0x09) @ s"

text \<open>The document that lets everybody read every object of a bucket.\<close>

definition publicReadPolicy :: "string \<Rightarrow> string" where
  "publicReadPolicy bucket = ''{''
     @ policy_line 2 (sq ''Version'' @ '': '' @ sq ''2012-10-17'' @ '','')
     @ policy_line 2 (sq ''Statement'' @ '': ['')
     @ policy_line 3 ''{''
     @ policy_line 4 (sq ''Effect'' @ '': '' @ sq ''Allow'' @ '','')
     @ policy_line 4 (sq ''Principal'' @ '': {'' @ sq ''AWS'' @ '': ['' @ sq ''*'' @ '']},'')
     @ policy_line 4 (sq ''Action'' @ '': ['' @ sq ''s3:GetObject'' @ ''],'')
     @ policy_line 4 (sq ''Resource'' @ '': ['' @ sq (''arn:aws:s3:::'' @ bucket @ ''/*'') @ '']'')
     @ policy_line 3 ''}''
     @ policy_line 2 '']''
     @ policy_line 1 ''}''"

text \<open>A loop that ends at the first error.\<close>

primrec each_ok :: "('a \<Rightarrow> (err + unit) prog) \<Rightarrow> 'a list \<Rightarrow> (err + unit) prog" where
  "each_ok f [] = State_Monad.return (Inr ())"
| "each_ok f (x # xs) = try_then (f x) (\<lambda>_. each_ok f xs)"

text \<open>Requests to the object store that administer buckets are commands of \<^verbatim>\<open>w_commands\<close>.\<close>

definition bucket_command :: "string list \<Rightarrow> (err + unit) prog" where
  "bucket_command args = State_Monad.bind (run_command args)
     (\<lambda>ok. State_Monad.return (if ok then Inr () else Inl (ErrOther ''bucket'')))"

definition ensureBuckets :: "MinIOSettings \<Rightarrow> (err + unit) prog" where
  "ensureBuckets cfg =
     try_then (each_ok (\<lambda>bucket. try_then
         (observe (\<lambda>e n. if outcome_at e n = Done then Inr (exec_at e n) else Inl (ErrOther ''checking bucket'')))
         (\<lambda>present. if present then State_Monad.return (Inr ()) else bucket_command [''MakeBucket'', bucket]))
       [BucketRaw cfg, BucketProcessed cfg, BucketThumbs cfg])
     (\<lambda>_. each_ok (\<lambda>bucket. bucket_command [''SetBucketPolicy'', bucket, publicReadPolicy bucket])
       [BucketProcessed cfg, BucketThumbs cfg])"

definition NewMinIO :: "MinIOSettings \<Rightarrow> (err + Store) prog" where
  "NewMinIO cfg = try_then (os_call ''creating MinIO client'') (\<lambda>_. try_then (ensureBuckets cfg) (\<lambda>_.
     State_Monad.return (Inr (MinIO (MinIOConfig.truncate cfg)))))"

definition storage_New :: "Config \<Rightarrow> (err + Store) prog" where
  "storage_New cfg = (if mn_Enabled (cf_MinIO cfg) then NewMinIO (cf_MinIO cfg)
     else State_Monad.return (Inr (Local (StorageConfig.truncate (cf_Storage cfg)))))"

section \<open>Connections\<close>

record PoolConfig =
  pc_DSN :: string
  pc_MaxConns :: int
  pc_MinConns :: int
  pc_MaxConnLifetime :: duration

definition wrap32 :: "int \<Rightarrow> int" where "wrap32 i = sint (word_of_int i :: 32 word)"

definition pool_config :: "DatabaseConfig \<Rightarrow> PoolConfig" where
  "pool_config c = \<lparr> pc_DSN = DSN c, pc_MaxConns = wrap32 (dc_MaxOpenConns c), pc_MinConns = wrap32 (dc_MaxIdleConns c),
     pc_MaxConnLifetime = dc_ConnMaxLifetime c \<rparr>"

definition openDatabase :: "DatabaseConfig \<Rightarrow> (err + PoolConfig) prog" where
  "openDatabase c = try_then (os_call ''parsing database DSN'') (\<lambda>_. try_then (os_call ''creating database pool'') (\<lambda>_.
     try_then (os_call ''connecting to database'') (\<lambda>_. State_Monad.return (Inr (pool_config c)))))"

text \<open>How a Redis server is addressed.\<close>

record RedisOptions =
  ro_Addr :: string
  ro_Password :: string
  ro_DB :: int

definition redis_options :: "RedisConfig \<Rightarrow> RedisOptions" where
  "redis_options c = \<lparr> ro_Addr = Redis_Address c, ro_Password = rd_Password c, ro_DB = rd_DB c \<rparr>"

definition openRedis :: "RedisConfig \<Rightarrow> (err + RedisOptions) prog" where
  "openRedis c = try_then (os_call ''connecting to Redis'') (\<lambda>_. State_Monad.return (Inr (redis_options c)))"

text \<open>The queue clients are given the address alone.\<close>

definition queue_options :: "RedisConfig \<Rightarrow> RedisOptions" where
  "queue_options c = \<lparr> ro_Addr = Redis_Address c, ro_Password = '''', ro_DB = 0 \<rparr>"

section \<open>The graph\<close>

record App =
  ap_cfg :: Config
  ap_startedAt :: time
  ap_pool :: PoolConfig
  ap_redis :: RedisOptions
  ap_inspector :: RedisOptions
  ap_queueClient :: RedisOptions
  ap_store :: Store
  ap_cache :: CacheService
  ap_auth :: auth_env
  ap_authenticator :: Authenticator
  ap_rateLimiter :: limiter
  ap_email :: EmailService
  ap_upload :: UploadService
  ap_search :: SearchService
  ap_analytics :: AnalyticsService
  ap_monitoring :: MonitoringService

definition localCacheEntries :: int where "localCacheEntries = 10000"

definition token_service :: "AuthConfig \<Rightarrow> TokenService" where
  "token_service c = \<lparr> ts_secretKey = ag_JWTSecret c, ts_accessTTL = ag_AccessTokenTTL c,
     ts_refreshTTL = ag_RefreshTokenTTL c, ts_issuer = ag_JWTIssuer c \<rparr>"

text \<open>The denylist is built with the lifetime of access tokens.\<close>

definition auth_service :: "runtime \<Rightarrow> Config \<Rightarrow> auth_env" where
  "auth_service R cfg = \<lparr> ae_uuid = rn_uuid R, ae_jwt = rn_jwt R, ae_bcrypt = rn_bcrypt R, ae_unicode = rn_unicode R,
     ae_tokens = token_service (cf_Auth cfg), ae_maxTokenTTL = ag_AccessTokenTTL (cf_Auth cfg) \<rparr>"

definition mail_config :: "MailSettings \<Rightarrow> MailConfig" where
  "mail_config m = \<lparr> mc_Host = ms_SMTPHost m, mc_Port = ms_SMTPPort m, mc_Username = ms_SMTPUsername m,
     mc_Password = ms_SMTPPassword m, mc_From = ms_From m, mc_AllowInsecure = ms_SMTPAllowInsecure m \<rparr>"

definition app_graph :: "runtime \<Rightarrow> Config \<Rightarrow> time \<Rightarrow> time \<Rightarrow> Store \<Rightarrow> PoolConfig \<Rightarrow> RedisOptions \<Rightarrow> App" where
  "app_graph R cfg started monitored store pool redis = (let A = auth_service R cfg in
     \<lparr> ap_cfg = cfg, ap_startedAt = started, ap_pool = pool, ap_redis = redis,
       ap_inspector = redis_options (cf_Redis cfg), ap_queueClient = queue_options (cf_Redis cfg),
       ap_store = store, ap_cache = \<lparr> cs_max = localCacheEntries, cs_glob = rn_glob R \<rparr>,
       ap_auth = A,
       ap_authenticator = \<lparr> au_tokens = ae_tokens A, au_revocations = Some IsRevoked,
          au_revocationFailOpen = ag_RevocationFailOpen (cf_Auth cfg) \<rparr>,
       ap_rateLimiter = defaultRateLimits,
       ap_email = NewEmailService (mailer_New (mail_config (cf_Mail cfg))) (ms_FrontendBaseURL (cf_Mail cfg))
          (ms_PasswordResetTTL (cf_Mail cfg)) (Some (RevokeAllSessions A)),
       ap_upload = \<lparr> us_uuid = rn_uuid R, us_unicode = rn_unicode R,
          us_storageCfg = StorageConfig.truncate (cf_Storage cfg), us_store = store \<rparr>,
       ap_search = \<lparr> ss_uuid = rn_uuid R, ss_text = rn_text R, ss_zone = rn_zone R \<rparr>,
       ap_analytics = (rn_analytics R)\<lparr> an_uuid := rn_uuid R \<rparr>,
       ap_monitoring = \<lparr> mt_lib = rn_monitor R, mt_startTime = monitored \<rparr> \<rparr>)"

text \<open>\<^verbatim>\<open>New\<close>: the store, the database and Redis, then the graph; the first failure ends it.\<close>

definition new_app :: "runtime \<Rightarrow> Config \<Rightarrow> (err + App) prog" where
  "new_app R cfg = do {
     started \<leftarrow> time_Now;
     try_then (storage_New cfg) (\<lambda>store. try_then (openDatabase (cf_Database cfg)) (\<lambda>pool.
       try_then (openRedis (cf_Redis cfg)) (\<lambda>redis. do {
         monitored \<leftarrow> time_Now;
         State_Monad.return (Inr (app_graph R cfg started monitored store pool redis))
       })))
   }"

section \<open>The handlers of an app\<close>

definition video_handler :: "runtime \<Rightarrow> App \<Rightarrow> VideoHandler" where
  "video_handler R a = \<lparr> vh_upload = ap_upload a, vh_matches = rn_matches R \<rparr>"

definition streaming_handler :: "App \<Rightarrow> StreamingHandler" where
  "streaming_handler a = \<lparr> sh_uuid = us_uuid (ap_upload a), sh_cache = ap_cache a, sh_store = ap_store a \<rparr>"

definition account_service :: "runtime \<Rightarrow> App \<Rightarrow> account_env" where
  "account_service R a = \<lparr> ac_auth = ap_auth a, ac_zone = rn_zone R \<rparr>"

section \<open>The worker\<close>

record WorkerServer =
  ws_redis :: RedisOptions
  ws_concurrency :: int
  ws_queues :: "(string \<times> int) list"
  ws_handler :: VideoProcessingHandler

definition retry_delay :: "nat \<Rightarrow> duration" where
  "retry_delay n = (let delays = [Minute, 5 * Minute, 30 * Minute] in if n < length delays then delays ! n else last delays)"

definition initDatabase :: "Config \<Rightarrow> (err + PoolConfig) prog" where
  "initDatabase cfg = try_then (os_call ''unable to parse database config'') (\<lambda>_.
     try_then (os_call ''unable to create connection pool'') (\<lambda>_.
     try_then (os_call ''unable to ping database'') (\<lambda>_. State_Monad.return (Inr (pool_config (cf_Database cfg))))))"

definition initRedis :: "Config \<Rightarrow> (err + RedisOptions) prog" where
  "initRedis cfg = try_then (os_call ''unable to connect to Redis'') (\<lambda>_. State_Monad.return (Inr (redis_options (cf_Redis cfg))))"

text \<open>Any failure is fatal.\<close>

definition new_worker :: "runtime \<Rightarrow> Config \<Rightarrow> (err + WorkerServer) prog" where
  "new_worker R cfg = try_then (storage_New cfg) (\<lambda>store. try_then (initDatabase cfg) (\<lambda>_.
     try_then (initRedis cfg) (\<lambda>_. State_Monad.return (Inr
       \<lparr> ws_redis = queue_options (cf_Redis cfg), ws_concurrency = wk_MaxConcurrentJobs (cf_Worker cfg),
         ws_queues = [(''critical'', 6), (''default'', 3), (''low'', 1)],
         ws_handler = \<lparr> wh_uuid = rn_uuid R, wh_unicode = rn_unicode R, wh_store = store,
            wh_storageCfg = StorageConfig.truncate (cf_Storage cfg) \<rparr> \<rparr>))))"

definition ginMode :: "string \<Rightarrow> string" where
  "ginMode environment = (if environment = EnvProduction then ''release'' else ''debug'')"

section \<open>Health\<close>

record health_body =
  hb_status :: string
  hb_database :: bool
  hb_redis :: bool
  hb_uptime :: string
  hb_timestamp :: time

definition health :: "App \<Rightarrow> health_body response prog" where
  "health a = do {
     database \<leftarrow> run_exec;
     redis \<leftarrow> run_exec;
     up \<leftarrow> time_Now;
     now \<leftarrow> time_Now;
     let well = (database \<and> redis);
     State_Monad.return (Success (if well then 200 else 503)
       \<lparr> hb_status = (if well then ''healthy'' else ''unhealthy''), hb_database = database, hb_redis = redis,
         hb_uptime = duration_String (up - ap_startedAt a), hb_timestamp = now \<rparr>)
   }"

end
