(* ===== verification/Router.thy ===== *)
theory Router
  imports App
begin

text \<open>
  The HTTP surface (\<^verbatim>\<open>internal/app/router.go\<close>): the table of routes with the middleware of each, and serving
  one request from its raw form to the response.  gin's matching of a path against the table and its JSON
  binding are parameters; a request that no route matches gets gin's 404.
\<close>

section \<open>Routes\<close>

datatype site_endpoint =
    E_Health | E_Metrics | E_Static | E_Docs | E_OpenAPI
  | E_UploadPage | E_VideoListPage | E_VideoPlayerPage

datatype account_endpoint =
    E_Register | E_Login | E_Refresh | E_Me | E_Logout
  | E_LogoutAll | E_SendVerificationEmail | E_VerifyEmail | E_ForgotPassword | E_ResetPassword
  | E_ChangePassword

datatype video_endpoint =
    E_ListVideos | E_GetVideo | E_GetVideoStatus | E_Upload | E_DeleteVideo
  | E_ServeMasterPlaylist | E_ServeQualityPlaylist | E_ServeSegment | E_ServeMP4Fallback | E_ServeThumbnail
  | E_RecordView | E_SaveProgress | E_GetHistory | E_ClearHistory | E_DeleteHistoryEntry

datatype search_endpoint =
    E_Trending | E_Related | E_Search | E_Suggest | E_Categories
  | E_Feed

datatype social_endpoint =
    E_SetLike | E_RemoveLike | E_GetLike | E_ListComments | E_CreateComment
  | E_ListReplies | E_UpdateComment | E_DeleteComment | E_AddWatchLater | E_RemoveWatchLater
  | E_Subscribe | E_Unsubscribe | E_ListSubscribers | E_CreatePlaylist | E_GetPlaylist
  | E_UpdatePlaylist | E_DeletePlaylist | E_AddPlaylistVideo | E_RemovePlaylistVideo | E_ListPlaylistVideos
  | E_ListMySubscriptions | E_ListMyPlaylists | E_ListWatchLater | E_ListNotifications | E_UnreadNotificationCount
  | E_MarkAllNotificationsRead | E_MarkNotificationRead

datatype admin_endpoint =
    E_CreateReport | E_RetryVideo | E_GetQueueStats | E_ListActiveWorkers | E_ClearPlaylistCache
  | E_ListPendingReports | E_ReviewReport | E_BanUser | E_UnbanUser

datatype metrics_endpoint =
    E_GetDashboard | E_GetRealtimeMetrics | E_GetTopVideos | E_GetVideoAnalytics | E_GetViewsTimeSeries
  | E_GetAllMetrics | E_GetSystemMetrics | E_GetQueueMetrics | E_GetDatabaseMetrics | E_GetRedisMetrics

datatype endpoint = SiteE site_endpoint | AccountE account_endpoint | VideoE video_endpoint | SearchE search_endpoint | SocialE social_endpoint | AdminE admin_endpoint | MetricsE metrics_endpoint

datatype guard = Limited string | NeedAuth | MayAuth | NeedPermission Permission

record route =
  rt_Method :: string
  rt_Path :: string
  rt_Guards :: "guard list"
  rt_Endpoint :: endpoint

definition handle_route :: "string \<Rightarrow> string \<Rightarrow> guard list \<Rightarrow> endpoint \<Rightarrow> route" where
  "handle_route verb p gs e = \<lparr> rt_Method = verb, rt_Path = p, rt_Guards = gs, rt_Endpoint = e \<rparr>"

text \<open>A group prefixes the paths of its routes and puts its middleware in front of theirs.\<close>

definition Group :: "string \<Rightarrow> guard list \<Rightarrow> route list \<Rightarrow> route list" where
  "Group prefix gs = map (\<lambda>r. r\<lparr> rt_Path := prefix @ rt_Path r, rt_Guards := gs @ rt_Guards r \<rparr>)"

abbreviation GET :: "string \<Rightarrow> guard list \<Rightarrow> endpoint \<Rightarrow> route" where "GET \<equiv> handle_route ''GET''"
abbreviation POST :: "string \<Rightarrow> guard list \<Rightarrow> endpoint \<Rightarrow> route" where "POST \<equiv> handle_route ''POST''"
abbreviation PUT :: "string \<Rightarrow> guard list \<Rightarrow> endpoint \<Rightarrow> route" where "PUT \<equiv> handle_route ''PUT''"
abbreviation PATCH :: "string \<Rightarrow> guard list \<Rightarrow> endpoint \<Rightarrow> route" where "PATCH \<equiv> handle_route ''PATCH''"
abbreviation DELETE :: "string \<Rightarrow> guard list \<Rightarrow> endpoint \<Rightarrow> route" where "DELETE \<equiv> handle_route ''DELETE''"

definition ops_routes :: "route list" where
  "ops_routes = [GET ''/health'' [] (SiteE E_Health), GET ''/metrics'' [] (SiteE E_Metrics), GET ''/static/*filepath'' [] (SiteE E_Static),
     handle_route ''HEAD'' ''/static/*filepath'' [] (SiteE E_Static), GET ''/docs'' [] (SiteE E_Docs), GET ''/openapi.yaml'' [] (SiteE E_OpenAPI)]"

definition page_routes :: "route list" where
  "page_routes = [GET ''/'' [] (SiteE E_UploadPage), GET ''/videos'' [] (SiteE E_VideoListPage), GET ''/videos/:id'' [] (SiteE E_VideoPlayerPage)]"

definition auth_routes :: "route list" where
  "auth_routes = Group ''/auth'' [Limited ''auth'']
     [POST ''/register'' [] (AccountE E_Register), POST ''/login'' [] (AccountE E_Login), POST ''/refresh'' [] (AccountE E_Refresh),
      GET ''/me'' [NeedAuth] (AccountE E_Me), POST ''/logout'' [NeedAuth] (AccountE E_Logout), POST ''/logout-all'' [NeedAuth] (AccountE E_LogoutAll),
      POST ''/verify-email/send'' [NeedAuth] (AccountE E_SendVerificationEmail), POST ''/verify-email'' [] (AccountE E_VerifyEmail),
      POST ''/forgot-password'' [] (AccountE E_ForgotPassword), POST ''/reset-password'' [] (AccountE E_ResetPassword)]"

definition video_routes :: "route list" where
  "video_routes = Group ''/videos'' [Limited ''user_api'']
     [GET '''' [MayAuth] (VideoE E_ListVideos), GET ''/trending'' [] (SearchE E_Trending), GET ''/:id'' [MayAuth] (VideoE E_GetVideo),
      GET ''/:id/status'' [MayAuth] (VideoE E_GetVideoStatus), GET ''/:id/related'' [] (SearchE E_Related),
      POST ''/upload'' [NeedAuth, NeedPermission PermissionUploadVideo, Limited ''upload''] (VideoE E_Upload),
      DELETE ''/:id'' [NeedAuth] (VideoE E_DeleteVideo),
      POST ''/:id/view'' [MayAuth] (VideoE E_RecordView), POST ''/:id/progress'' [NeedAuth] (VideoE E_SaveProgress),
      PUT ''/:id/like'' [NeedAuth] (SocialE E_SetLike), DELETE ''/:id/like'' [NeedAuth] (SocialE E_RemoveLike), GET ''/:id/like'' [NeedAuth] (SocialE E_GetLike),
      GET ''/:id/comments'' [] (SocialE E_ListComments), POST ''/:id/comments'' [NeedAuth] (SocialE E_CreateComment),
      PUT ''/:id/watch-later'' [NeedAuth] (SocialE E_AddWatchLater), DELETE ''/:id/watch-later'' [NeedAuth] (SocialE E_RemoveWatchLater)]"

definition streaming_routes :: "route list" where
  "streaming_routes = Group ''/videos/:id'' [Limited ''streaming'', MayAuth]
     [GET ''/hls/master.m3u8'' [] (VideoE E_ServeMasterPlaylist), GET ''/hls/:quality/playlist.m3u8'' [] (VideoE E_ServeQualityPlaylist),
      GET ''/hls/:quality/:segment'' [] (VideoE E_ServeSegment), GET ''/stream/:quality'' [] (VideoE E_ServeMP4Fallback),
      GET ''/thumbnail'' [] (VideoE E_ServeThumbnail)]"

definition community_routes :: "route list" where
  "community_routes =
     Group ''/comments'' [Limited ''user_api'']
       [GET ''/:id/replies'' [] (SocialE E_ListReplies), PATCH ''/:id'' [NeedAuth] (SocialE E_UpdateComment), DELETE ''/:id'' [NeedAuth] (SocialE E_DeleteComment)]
     @ Group ''/users'' [Limited ''user_api'']
       [POST ''/:id/subscribe'' [NeedAuth] (SocialE E_Subscribe), DELETE ''/:id/subscribe'' [NeedAuth] (SocialE E_Unsubscribe),
        GET ''/:id/subscribers'' [] (SocialE E_ListSubscribers)]
     @ Group ''/playlists'' [Limited ''user_api'']
       [POST '''' [NeedAuth] (SocialE E_CreatePlaylist), GET ''/:id'' [MayAuth] (SocialE E_GetPlaylist), PATCH ''/:id'' [NeedAuth] (SocialE E_UpdatePlaylist),
        DELETE ''/:id'' [NeedAuth] (SocialE E_DeletePlaylist), POST ''/:id/videos'' [NeedAuth] (SocialE E_AddPlaylistVideo),
        DELETE ''/:id/videos/:videoId'' [NeedAuth] (SocialE E_RemovePlaylistVideo), GET ''/:id/videos'' [MayAuth] (SocialE E_ListPlaylistVideos)]
     @ Group '''' [Limited ''user_api'']
       [GET ''/search'' [] (SearchE E_Search), GET ''/search/suggest'' [] (SearchE E_Suggest), GET ''/categories'' [] (SearchE E_Categories)]"

definition me_routes :: "route list" where
  "me_routes = Group ''/me'' [Limited ''user_api'', NeedAuth]
     [GET ''/feed'' [] (SearchE E_Feed), GET ''/subscriptions'' [] (SocialE E_ListMySubscriptions), GET ''/playlists'' [] (SocialE E_ListMyPlaylists),
      GET ''/watch-later'' [] (SocialE E_ListWatchLater), GET ''/history'' [] (VideoE E_GetHistory), DELETE ''/history'' [] (VideoE E_ClearHistory),
      DELETE ''/history/:videoId'' [] (VideoE E_DeleteHistoryEntry), GET ''/notifications'' [] (SocialE E_ListNotifications),
      GET ''/notifications/unread-count'' [] (SocialE E_UnreadNotificationCount),
      POST ''/notifications/read-all'' [] (SocialE E_MarkAllNotificationsRead), POST ''/notifications/:id/read'' [] (SocialE E_MarkNotificationRead),
      POST ''/change-password'' [Limited ''auth''] (AccountE E_ChangePassword)]
     @ Group ''/reports'' [Limited ''user_api'', NeedAuth] [POST '''' [] (AdminE E_CreateReport)]"

definition admin_routes :: "route list" where
  "admin_routes = Group ''/admin'' [NeedAuth]
     (Group '''' [NeedPermission PermissionModerateContent]
        [POST ''/videos/:id/retry'' [] (AdminE E_RetryVideo), GET ''/queue/stats'' [] (AdminE E_GetQueueStats), GET ''/workers'' [] (AdminE E_ListActiveWorkers),
         DELETE ''/videos/:id/cache'' [] (AdminE E_ClearPlaylistCache), GET ''/reports/pending'' [] (AdminE E_ListPendingReports),
         POST ''/reports/:id/review'' [] (AdminE E_ReviewReport)]
      @ Group ''/users'' [NeedPermission PermissionManageUsers]
        [POST ''/:id/ban'' [] (AdminE E_BanUser), POST ''/:id/unban'' [] (AdminE E_UnbanUser)]
      @ Group ''/analytics'' [NeedPermission PermissionViewAnalytics]
        [GET ''/dashboard'' [] (MetricsE E_GetDashboard), GET ''/realtime'' [] (MetricsE E_GetRealtimeMetrics), GET ''/top-videos'' [] (MetricsE E_GetTopVideos),
         GET ''/videos/:id'' [] (MetricsE E_GetVideoAnalytics), GET ''/videos/:id/views'' [] (MetricsE E_GetViewsTimeSeries)]
      @ Group ''/monitoring'' [NeedPermission PermissionManageUsers]
        [GET ''/metrics'' [] (MetricsE E_GetAllMetrics), GET ''/system'' [] (MetricsE E_GetSystemMetrics), GET ''/queue'' [] (MetricsE E_GetQueueMetrics),
         GET ''/database'' [] (MetricsE E_GetDatabaseMetrics), GET ''/redis'' [] (MetricsE E_GetRedisMetrics)])"

definition api_routes :: "route list" where
  "api_routes = auth_routes @ video_routes @ streaming_routes @ community_routes @ me_routes @ admin_routes"

text \<open>The API is mounted twice.\<close>

definition routes :: "route list" where
  "routes = ops_routes @ page_routes @ Group ''/api'' [] api_routes @ Group ''/api/v1'' [] api_routes"

section \<open>Requests\<close>

record http_request =
  hq_Method :: string
  hq_Path :: string
  hq_Query :: "string \<Rightarrow> string option"
  hq_Authorization :: string
  hq_Origin :: string
  hq_RequestID :: string
  hq_UserAgent :: string
  hq_ClientIP :: string
  hq_Body :: string

text \<open>gin: the route a method and a path select, with the values of its parameters, and the binding of a body to
  each of the request types; \<^verbatim>\<open>None\<close> when it does not bind.\<close>

record gin =
  gin_match :: "route list \<Rightarrow> string \<Rightarrow> string \<Rightarrow> (route \<times> (string \<Rightarrow> string)) option"
  gin_pair :: "endpoint \<Rightarrow> string \<Rightarrow> (string \<times> string) option"
  gin_triple :: "endpoint \<Rightarrow> string \<Rightarrow> (string \<times> string \<times> string) option"
  gin_field :: "endpoint \<Rightarrow> string \<Rightarrow> string option"
  gin_flag :: "endpoint \<Rightarrow> string \<Rightarrow> bool option"
  gin_progress :: "string \<Rightarrow> (int \<times> int \<times> bool) option"
  gin_patch :: "string \<Rightarrow> (string option \<times> string option \<times> string option) option"
  gin_upload :: "string \<Rightarrow> upload_form option"
  gin_report :: "string \<Rightarrow> createReportRequest option"

section \<open>Handlers\<close>

datatype body = AuthB auth_body | AccountB string | VideoB video_body | SearchB search_body | ViewB view_body
  | SocialB social_body | ModerationB moderation_body | RetryB uuid | AnalyticsB analytics_body | MonitoringB monitoring_body
  | HealthB health_body | PageB page | FileB string

definition as_body :: "('b \<Rightarrow> body) \<Rightarrow> 'b response prog \<Rightarrow> body response prog" where
  "as_body f m = State_Monad.bind m (\<lambda>r. State_Monad.return (map_response f r))"

definition page_response :: "page \<Rightarrow> body response" where
  "page_response p = (case p of PlainText s m \<Rightarrow> Error s '''' (Lit m) | _ \<Rightarrow> Success 200 (PageB p))"

definition handle_site :: "runtime \<Rightarrow> App \<Rightarrow> gin \<Rightarrow> http_request \<Rightarrow> site_endpoint \<Rightarrow> request \<Rightarrow> body response prog" where
  "handle_site R a G hq e c = (let lib = rn_uuid R in
     case e of
       E_Health \<Rightarrow> as_body HealthB (health a)
     | E_UploadPage \<Rightarrow> State_Monad.bind Page_Upload (\<lambda>p. State_Monad.return (page_response p))
     | E_VideoListPage \<Rightarrow> State_Monad.bind (Page_VideoList (rn_matches R)) (\<lambda>p. State_Monad.return (page_response p))
     | E_VideoPlayerPage \<Rightarrow> State_Monad.bind (Page_VideoPlayer lib c) (\<lambda>p. State_Monad.return (page_response p))
     | _ \<Rightarrow> State_Monad.return (Success 200 (FileB (hq_Path hq))))"

definition handle_account :: "runtime \<Rightarrow> App \<Rightarrow> gin \<Rightarrow> http_request \<Rightarrow> account_endpoint \<Rightarrow> request \<Rightarrow> body response prog" where
  "handle_account R a G hq e c = (let A = ap_auth a; body = hq_Body hq; ep = AccountE e; AS = account_service R a; ES = ap_email a in
     case e of
       E_Register \<Rightarrow> as_body AuthB (Handler_Register A (gin_triple G ep body))
     | E_Login \<Rightarrow> as_body AuthB (Handler_Login A (gin_pair G ep body))
     | E_Refresh \<Rightarrow> as_body AuthB (Handler_Refresh A (gin_field G ep body))
     | E_Me \<Rightarrow> as_body AuthB (Handler_Me c)
     | E_Logout \<Rightarrow> as_body AuthB (Handler_Logout A c (hq_Authorization hq) (case gin_field G ep body of None \<Rightarrow> '''' | Some t \<Rightarrow> t))
     | E_LogoutAll \<Rightarrow> as_body AuthB (Handler_LogoutAll A c)
     | E_SendVerificationEmail \<Rightarrow> as_body AccountB (Handler_SendVerificationEmail AS ES c)
     | E_VerifyEmail \<Rightarrow> as_body AccountB (Handler_VerifyEmail (gin_field G ep body))
     | E_ForgotPassword \<Rightarrow> as_body AccountB (Handler_ForgotPassword AS ES (gin_field G ep body))
     | E_ResetPassword \<Rightarrow> as_body AccountB (Handler_ResetPassword AS ES (gin_pair G ep body))
     | E_ChangePassword \<Rightarrow> as_body AccountB (Handler_ChangePassword AS ES c (gin_pair G ep body)))"

definition handle_video :: "runtime \<Rightarrow> App \<Rightarrow> gin \<Rightarrow> http_request \<Rightarrow> video_endpoint \<Rightarrow> request \<Rightarrow> body response prog" where
  "handle_video R a G hq e c = (let lib = rn_uuid R; body = hq_Body hq; VH = video_handler R a; SH = streaming_handler a in
     case e of
       E_ListVideos \<Rightarrow> as_body VideoB (ListVideos VH c)
     | E_GetVideo \<Rightarrow> as_body VideoB (GetVideo VH c)
     | E_GetVideoStatus \<Rightarrow> as_body VideoB (GetVideoStatus VH c)
     | E_Upload \<Rightarrow> as_body VideoB (Handler_Upload VH c (gin_upload G body))
     | E_DeleteVideo \<Rightarrow> as_body VideoB (DeleteVideo VH c)
     | E_ServeMasterPlaylist \<Rightarrow> as_body VideoB (ServeMasterPlaylist SH c)
     | E_ServeQualityPlaylist \<Rightarrow> as_body VideoB (ServeQualityPlaylist SH c)
     | E_ServeSegment \<Rightarrow> as_body VideoB (ServeSegment SH c)
     | E_ServeMP4Fallback \<Rightarrow> as_body VideoB (ServeMP4Fallback SH c)
     | E_ServeThumbnail \<Rightarrow> as_body VideoB (ServeThumbnail SH c)
     | E_RecordView \<Rightarrow> as_body ViewB (Handler_RecordView lib (rn_unicode R) (rn_zone R) (hq_UserAgent hq) (hq_ClientIP hq) c
           (gin_triple G (VideoE e) body))
     | E_SaveProgress \<Rightarrow> as_body ViewB (Handler_SaveProgress lib c (gin_progress G body))
     | E_GetHistory \<Rightarrow> as_body ViewB (Handler_GetHistory c)
     | E_ClearHistory \<Rightarrow> as_body ViewB (Handler_ClearHistory c)
     | E_DeleteHistoryEntry \<Rightarrow> as_body ViewB (Handler_DeleteHistoryEntry lib c))"

definition handle_search :: "runtime \<Rightarrow> App \<Rightarrow> gin \<Rightarrow> http_request \<Rightarrow> search_endpoint \<Rightarrow> request \<Rightarrow> body response prog" where
  "handle_search R a G hq e c = (let SS = ap_search a in
     case e of
       E_Trending \<Rightarrow> as_body SearchB (Handler_Trending SS c)
     | E_Related \<Rightarrow> as_body SearchB (Handler_Related SS c)
     | E_Search \<Rightarrow> as_body SearchB (Handler_Search SS c)
     | E_Suggest \<Rightarrow> as_body SearchB (Handler_Suggest SS c)
     | E_Categories \<Rightarrow> as_body SearchB (Handler_Categories SS)
     | E_Feed \<Rightarrow> as_body SearchB (Handler_Feed SS c))"

definition handle_social :: "runtime \<Rightarrow> App \<Rightarrow> gin \<Rightarrow> http_request \<Rightarrow> social_endpoint \<Rightarrow> request \<Rightarrow> body response prog" where
  "handle_social R a G hq e c = (let lib = rn_uuid R; body = hq_Body hq; ep = SocialE e in
     case e of
       E_SetLike \<Rightarrow> as_body SocialB (Handler_SetLike lib c (gin_flag G ep body))
     | E_RemoveLike \<Rightarrow> as_body SocialB (Handler_RemoveLike lib c)
     | E_GetLike \<Rightarrow> as_body SocialB (Handler_GetLike lib c)
     | E_ListComments \<Rightarrow> as_body SocialB (Handler_ListComments lib c)
     | E_CreateComment \<Rightarrow> as_body SocialB (Handler_CreateComment lib c (gin_pair G ep body))
     | E_ListReplies \<Rightarrow> as_body SocialB (Handler_ListReplies lib c)
     | E_UpdateComment \<Rightarrow> as_body SocialB (Handler_UpdateComment lib c (gin_field G ep body))
     | E_DeleteComment \<Rightarrow> as_body SocialB (Handler_DeleteComment lib c)
     | E_AddWatchLater \<Rightarrow> as_body SocialB (Handler_AddWatchLater lib c)
     | E_RemoveWatchLater \<Rightarrow> as_body SocialB (Handler_RemoveWatchLater lib c)
     | E_Subscribe \<Rightarrow> as_body SocialB (Handler_Subscribe lib c)
     | E_Unsubscribe \<Rightarrow> as_body SocialB (Handler_Unsubscribe lib c)
     | E_ListSubscribers \<Rightarrow> as_body SocialB (Handler_ListSubscribers lib c)
     | E_CreatePlaylist \<Rightarrow> as_body SocialB (Handler_CreatePlaylist c (gin_triple G ep body))
     | E_GetPlaylist \<Rightarrow> as_body SocialB (Handler_GetPlaylist lib c)
     | E_UpdatePlaylist \<Rightarrow> as_body SocialB (Handler_UpdatePlaylist lib c (gin_patch G body))
     | E_DeletePlaylist \<Rightarrow> as_body SocialB (Handler_DeletePlaylist lib c)
     | E_AddPlaylistVideo \<Rightarrow> as_body SocialB (Handler_AddPlaylistVideo lib c (gin_field G ep body))
     | E_RemovePlaylistVideo \<Rightarrow> as_body SocialB (Handler_RemovePlaylistVideo lib c)
     | E_ListPlaylistVideos \<Rightarrow> as_body SocialB (Handler_ListPlaylistVideos lib c)
     | E_ListMySubscriptions \<Rightarrow> as_body SocialB (Handler_ListMySubscriptions c)
     | E_ListMyPlaylists \<Rightarrow> as_body SocialB (Handler_ListMyPlaylists c)
     | E_ListWatchLater \<Rightarrow> as_body SocialB (Handler_ListWatchLater c)
     | E_ListNotifications \<Rightarrow> as_body SocialB (Handler_ListNotifications c)
     | E_UnreadNotificationCount \<Rightarrow> as_body SocialB (Handler_UnreadNotificationCount c)
     | E_MarkAllNotificationsRead \<Rightarrow> as_body SocialB (Handler_MarkAllNotificationsRead c)
     | E_MarkNotificationRead \<Rightarrow> as_body SocialB (Handler_MarkNotificationRead lib c))"

definition handle_admin :: "runtime \<Rightarrow> App \<Rightarrow> gin \<Rightarrow> http_request \<Rightarrow> admin_endpoint \<Rightarrow> request \<Rightarrow> body response prog" where
  "handle_admin R a G hq e c = (let lib = rn_uuid R; body = hq_Body hq; M = ap_monitoring a in
     case e of
       E_CreateReport \<Rightarrow> as_body ModerationB (Handler_CreateReport lib c (gin_report G body))
     | E_RetryVideo \<Rightarrow> as_body RetryB (RetryVideo lib c)
     | E_GetQueueStats \<Rightarrow> as_body MonitoringB (GetQueueStats M)
     | E_ListActiveWorkers \<Rightarrow> as_body MonitoringB (ListActiveWorkers M)
     | E_ClearPlaylistCache \<Rightarrow> as_body VideoB (ClearPlaylistCache (streaming_handler a) c)
     | E_ListPendingReports \<Rightarrow> as_body ModerationB (ListPendingReports c)
     | E_ReviewReport \<Rightarrow> as_body ModerationB (Handler_ReviewReport lib (Some (ap_upload a)) c (gin_pair G (AdminE e) body))
     | E_BanUser \<Rightarrow> as_body ModerationB (Handler_BanUser lib c (gin_pair G (AdminE e) body))
     | E_UnbanUser \<Rightarrow> as_body ModerationB (Handler_UnbanUser lib c))"

definition handle_metrics :: "runtime \<Rightarrow> App \<Rightarrow> gin \<Rightarrow> http_request \<Rightarrow> metrics_endpoint \<Rightarrow> request \<Rightarrow> body response prog" where
  "handle_metrics R a G hq e c = (let AN = ap_analytics a; M = ap_monitoring a in
     case e of
       E_GetDashboard \<Rightarrow> as_body AnalyticsB (GetDashboard AN)
     | E_GetRealtimeMetrics \<Rightarrow> as_body AnalyticsB (Handler_GetRealtimeMetrics AN)
     | E_GetTopVideos \<Rightarrow> as_body AnalyticsB (Handler_GetTopVideos AN c)
     | E_GetVideoAnalytics \<Rightarrow> as_body AnalyticsB (Handler_GetVideoAnalytics AN c)
     | E_GetViewsTimeSeries \<Rightarrow> as_body AnalyticsB (Handler_GetViewsTimeSeries AN c)
     | E_GetAllMetrics \<Rightarrow> as_body MonitoringB (Handler_GetAllMetrics M)
     | E_GetSystemMetrics \<Rightarrow> as_body MonitoringB (Handler_GetSystemMetrics M)
     | E_GetQueueMetrics \<Rightarrow> as_body MonitoringB (Handler_GetQueueMetrics M)
     | E_GetDatabaseMetrics \<Rightarrow> as_body MonitoringB (Handler_GetDatabaseMetrics M)
     | E_GetRedisMetrics \<Rightarrow> as_body MonitoringB (Handler_GetRedisMetrics M))"

definition handle :: "runtime \<Rightarrow> App \<Rightarrow> gin \<Rightarrow> http_request \<Rightarrow> endpoint \<Rightarrow> request \<Rightarrow> body response prog" where
  "handle R a G hq e c = (case e of
       SiteE x \<Rightarrow> handle_site R a G hq x c
     | AccountE x \<Rightarrow> handle_account R a G hq x c
     | VideoE x \<Rightarrow> handle_video R a G hq x c
     | SearchE x \<Rightarrow> handle_search R a G hq x c
     | SocialE x \<Rightarrow> handle_social R a G hq x c
     | AdminE x \<Rightarrow> handle_admin R a G hq x c
     | MetricsE x \<Rightarrow> handle_metrics R a G hq x c)"

section \<open>Serving\<close>

definition run_guard :: "runtime \<Rightarrow> App \<Rightarrow> http_request \<Rightarrow> guard \<Rightarrow> request \<Rightarrow> (headers \<times> body passage) prog" where
  "run_guard R a hq g c = (let lib = rn_uuid R; plain = (\<lambda>m. State_Monad.bind m (\<lambda>p. State_Monad.return ([], p))) in case g of
     Limited ruleName \<Rightarrow>
       if cf_RateLimitEnabled (ap_cfg a) then rateLimitWith lib (ap_rateLimiter a) ruleName (hq_ClientIP hq) c
       else State_Monad.return ([], Next c)
   | NeedAuth \<Rightarrow> plain (RequireAuth lib (rn_jwt R) (ap_authenticator a) (hq_Authorization hq) c)
   | MayAuth \<Rightarrow> plain (OptionalAuth lib (rn_jwt R) (ap_authenticator a) (hq_Authorization hq) c)
   | NeedPermission p \<Rightarrow> State_Monad.return ([], RequirePermission p c))"

text \<open>The chain: each middleware in turn, until one answers; then the handler.\<close>

primrec run_chain :: "runtime \<Rightarrow> App \<Rightarrow> http_request \<Rightarrow> guard list \<Rightarrow> headers \<Rightarrow> request
    \<Rightarrow> (request \<Rightarrow> body response prog) \<Rightarrow> (headers \<times> body response) prog" where
  "run_chain R a hq [] hs c k = do { resp \<leftarrow> k c; State_Monad.return (hs, resp) }"
| "run_chain R a hq (g # gs) hs c k = do {
     r \<leftarrow> run_guard R a hq g c;
     case r of (hs', Answer resp) \<Rightarrow> State_Monad.return (hs @ hs', resp)
     | (hs', Next c') \<Rightarrow> run_chain R a hq gs (hs @ hs') c' k
   }"

definition serve :: "runtime \<Rightarrow> gin \<Rightarrow> App \<Rightarrow> http_request \<Rightarrow> (headers \<times> body response) prog" where
  "serve R G a hq = do {
     rid \<leftarrow> RequestID (rn_uuid R) (hq_RequestID hq);
     let c0 = \<lparr> rq_principal = None, rq_param = (\<lambda>_. ''''), rq_query = hq_Query hq \<rparr>;
     case CORS (rn_canon R) (cf_CORS (ap_cfg a)) (hq_Method hq) (hq_Origin hq) c0 of
       (hs, Answer resp) \<Rightarrow> State_Monad.return (fst rid @ hs, resp)
     | (hs, Next c) \<Rightarrow> (case gin_match G routes (hq_Method hq) (hq_Path hq) of
           None \<Rightarrow> State_Monad.return (fst rid @ hs, NoBody 404)
         | Some (rt, params) \<Rightarrow> run_chain R a hq (rt_Guards rt) (fst rid @ hs) (c\<lparr> rq_param := params \<rparr>)
             (handle R a G hq (rt_Endpoint rt)))
   }"

end
