(* ===== verification/AuthProps.thy ===== *)
theory AuthProps
  imports Auth
begin

text \<open>
  What authentication guarantees: what a request must carry to pass the middleware, what logging
  out does to outstanding tokens for as long as they could be used, the separation of the two
  kinds of token, and what the service gives away on login and refresh.
\<close>

section \<open>The revocation contract\<close>

text \<open>
  The interface RevocationChecker: whenever the store answers, its answer is \<^verbatim>\<open>denied\<close>, and asking
  changes neither tables nor store.
\<close>

locale revocation_store =
  fixes isRevoked :: "string \<Rightarrow> string \<Rightarrow> time \<Rightarrow> (err + bool) prog"
    and denied :: "world \<Rightarrow> string \<Rightarrow> string \<Rightarrow> time \<Rightarrow> bool"
  assumes answer: "wp (isRevoked jti uid t) (\<lambda>r w'. w_db w' = w_db w \<and> w_redis w' = w_redis w \<and> w_env w' = w_env w
      \<and> (\<forall>b. r = Inr b \<longrightarrow> b = denied w jti uid t)) w"
begin

lemma checkRevocation_closed:
  assumes "au_revocations a = Some isRevoked" "\<not> au_revocationFailOpen a"
  shows "wp (checkRevocation a c) (\<lambda>r w'. r = Inr () \<longrightarrow> \<not> denied w (cl_ID c) (cl_UserID c) (IssuedAtTime c)) w"
  unfolding checkRevocation_def assms(1) option.case wp_bind wp_return
  by (rule wp_mono[OF answer]) (auto simp: assms(2) split: sum.splits if_splits)

lemma checkRevocation_denied:
  assumes "au_revocations a = Some isRevoked" "denied w (cl_ID c) (cl_UserID c) (IssuedAtTime c)"
    "\<not> au_revocationFailOpen a"
  shows "wp (checkRevocation a c) (\<lambda>r w'. r = Inl ErrTokenRevoked \<or> r = Inl ErrRevocationUnavailable) w"
  unfolding checkRevocation_def assms(1) option.case wp_bind wp_return
  by (rule wp_mono[OF answer]) (auto simp: assms(2,3) split: sum.splits if_splits)

lemma checkRevocation_open:
  assumes "au_revocations a = Some isRevoked"
  shows "wp (checkRevocation a c) (\<lambda>r w'. denied w (cl_ID c) (cl_UserID c) (IssuedAtTime c) \<longrightarrow>
     r = Inl ErrTokenRevoked \<or> r = Inl ErrRevocationUnavailable
     \<or> (au_revocationFailOpen a \<and> (\<exists>e w2. run_state (isRevoked (cl_ID c) (cl_UserID c) (IssuedAtTime c)) w = (Inl e, w2)))) w"
proof -
  obtain r w2 where run: "run_state (isRevoked (cl_ID c) (cl_UserID c) (IssuedAtTime c)) w = (r, w2)"
    by (cases "run_state (isRevoked (cl_ID c) (cl_UserID c) (IssuedAtTime c)) w")
  show ?thesis
    using wp_result[OF answer run]
    by (auto simp: checkRevocation_def assms wp_simps wp_def run split: sum.splits)
qed

end

definition denied_at :: "time \<Rightarrow> world \<Rightarrow> string \<Rightarrow> string \<Rightarrow> time \<Rightarrow> bool" where
  "denied_at now w jti uid t =
     (revocation_verdict (redis_live now (w_redis w (revokedTokenKeyPrefix @ jti)))
        (redis_live now (w_redis w (minIssuedAtKeyPrefix @ uid))) t = Inr True)"

interpretation sessions: revocation_store IsRevoked "\<lambda>w. denied_at (clock_at (w_env w) (w_tick w)) w"
proof
  fix jti uid t w
  show "wp (IsRevoked jti uid t) (\<lambda>r w'. w_db w' = w_db w \<and> w_redis w' = w_redis w \<and> w_env w' = w_env w
      \<and> (\<forall>b. r = Inr b \<longrightarrow> b = denied_at (clock_at (w_env w) (w_tick w)) w jti uid t)) w"
    by (simp add: IsRevoked_def wp_simps denied_at_def)
qed

section \<open>The middleware\<close>

lemma principal_of_claims_valid: "principal_of_claims lib c = Inr p \<Longrightarrow> Role_IsValid (pr_Role p)
    \<and> uuid_Parse lib (cl_UserID c) = Some (pr_UserID p) \<and> role_name (pr_Role p) = cl_Role c"
  by (auto simp: principal_of_claims_def Let_def role_name_of_name split: option.splits if_splits)

definition accepts :: "uuid_lib \<Rightarrow> jwt_lib \<Rightarrow> Authenticator \<Rightarrow> string \<Rightarrow> world \<Rightarrow> Principal \<Rightarrow> bool" where
  "accepts lib J a header w p = (\<exists>claims.
     jwt_parse J (ts_secretKey (au_tokens a)) (ts_issuer (au_tokens a)) (clock_at (w_env w) (w_tick w)) (bearerToken header) = Some claims
     \<and> cl_Type claims \<in> {'''', ''access''}
     \<and> \<not> denied_at (clock_at (w_env w) (Suc (w_tick w))) w (cl_ID claims) (cl_UserID claims) (IssuedAtTime claims)
     \<and> principal_of_claims lib claims = Inr p)"

lemma check_type_access: "check_type TokenTypeAccess c =
    (if cl_Type c = '''' \<or> cl_Type c = ''access'' then Inr c else Inl ErrWrongTokenType)"
  by (simp add: check_type_def Let_def)

lemma check_type_refresh: "check_type TokenTypeRefresh c =
    (if cl_Type c = ''refresh'' then Inr c else Inl ErrWrongTokenType)"
  by (simp add: check_type_def Let_def)

lemma wp_principalFromRequest:
  assumes "au_revocations a = Some IsRevoked" "\<not> au_revocationFailOpen a"
  shows "wp (principalFromRequest lib J a header) (\<lambda>r w'. \<forall>p. r = Inr p \<longrightarrow> accepts lib J a header w p) w"
proof -
  let ?now = "clock_at (w_env w) (w_tick w)"
  let ?w1 = "w\<lparr> w_tick := Suc (w_tick w) \<rparr>"
  have c: "wp (checkRevocation a c) (\<lambda>r w'. r = Inr () \<longrightarrow>
      \<not> denied_at (clock_at (w_env w) (Suc (w_tick w))) w (cl_ID c) (cl_UserID c) (IssuedAtTime c)) ?w1" for c
    using sessions.checkRevocation_closed[OF assms, of c ?w1] by (simp add: denied_at_def)
  show ?thesis
  proof (cases "jwt_parse J (ts_secretKey (au_tokens a)) (ts_issuer (au_tokens a)) ?now (bearerToken header)")
    case None
    then show ?thesis
      by (auto simp: principalFromRequest_def wp_simps ValidateAccessToken_def bearerToken_def Let_def)
  next
    case (Some claims)
    then show ?thesis
      using c[of claims]
      by (auto simp: principalFromRequest_def wp_simps ValidateAccessToken_def bearerToken_def Let_def
          check_type_access accepts_def elim!: wp_mono split: sum.splits if_splits)
  qed
qed

section \<open>Revocation\<close>

lemma wp_redis_Set:
  "wp (redis_Set k v ttl) (\<lambda>r w'. r = Inr () \<longrightarrow>
     w' = w\<lparr> w_tick := Suc (w_tick w),
            w_redis := (w_redis w)(k := Some (v, redis_expiry (clock_at (w_env w) (w_tick w)) ttl)) \<rparr>) w"
  by (simp add: redis_Set_def wp_simps split: outcome.splits)

lemma redis_live_expiry:
  assumes "0 < ttl" "T < t + ttl div 1000000 * 1000000"
  shows "redis_live T (Some (v, redis_expiry t ttl)) = Some v"
proof -
  have "t + ttl div 1000000 * 1000000 \<le> t + max 1 (ttl div 1000000) * 1000000"
    by (simp add: mult_right_mono)
  with assms show ?thesis by (simp add: redis_live_def redis_expiry_def)
qed

lemma wp_RevokeAll:
  "wp (RevokeAllUserSessions lib ttl i) (\<lambda>r w'. r = Inr () \<longrightarrow>
     w_redis w' = (w_redis w)(minIssuedAtKeyPrefix @ uuid_String lib i :=
        Some (Itoa (UnixMilli (clock_at (w_env w) (w_tick w)) + 1),
              redis_expiry (clock_at (w_env w) (Suc (w_tick w))) ttl))) w"
  unfolding RevokeAllUserSessions_def wp_bind wp_time_Now
  by (rule wp_mono[OF wp_redis_Set]) simp

lemma cutoff_denies:
  assumes "w_redis w (minIssuedAtKeyPrefix @ uid) = Some (Itoa (UnixMilli now + 1), redis_expiry t ttl)"
    and "0 \<le> now" "now < 2 ^ 63" "0 < ttl" "T < t + ttl div 1000000 * 1000000" "issued \<le> now"
  shows "denied_at T w jti uid issued"
proof -
  have "UnixMilli now \<le> now" using zdiv_mono2[of now 1 1000000] assms(2) by (simp add: UnixMilli_def)
  then have "Atoi (Itoa (UnixMilli now + 1)) = Some (UnixMilli now + 1)"
    using assms(2,3) by (intro Atoi_Itoa) (simp_all add: UnixMilli_def)
  moreover have "UnixMilli issued < UnixMilli now + 1"
    using zdiv_mono1[OF assms(6), of 1000000] by (simp add: UnixMilli_def)
  ultimately show ?thesis
    using redis_live_expiry[OF assms(4,5)] assms(1) by (simp add: denied_at_def revocation_verdict_def)
qed

section \<open>Login and refresh\<close>

lemma wp_renewAccess:
  "wp (renewAccess A user refresh) (\<lambda>r w'. w_db w' = w_db w \<and> w_redis w' = w_redis w \<and> (\<forall>tp. r = Inr tp \<longrightarrow>
     tp_User tp = user\<lparr> u_PasswordHash := '''' \<rparr> \<and> tp_RefreshToken tp = refresh
     \<and> jwt_sign (ae_jwt A) (ts_secretKey (ae_tokens A))
         (signed_claims (ae_uuid A) (ae_tokens A) (uuid_String (ae_uuid A) (u_ID user)) (u_Username user)
            (role_name (u_Role user)) ''access'' (ts_accessTTL (ae_tokens A)) w) = Some (tp_AccessToken tp))) w"
  by (simp add: renewAccess_def GenerateToken_def wp_simps split: option.splits)

lemma wp_issueTokens:
  "wp (issueTokens A user) (\<lambda>r w'. w_db w' = w_db w \<and> w_redis w' = w_redis w \<and> (\<forall>tp. r = Inr tp \<longrightarrow>
     tp_User tp = user\<lparr> u_PasswordHash := '''' \<rparr>
     \<and> (\<exists>c. jwt_sign (ae_jwt A) (ts_secretKey (ae_tokens A)) c = Some (tp_RefreshToken tp) \<and> cl_Type c = ''refresh'')
     \<and> (\<exists>c. jwt_sign (ae_jwt A) (ts_secretKey (ae_tokens A)) c = Some (tp_AccessToken tp) \<and> cl_Type c = ''access''))) w"
proof -
  let ?c = "signed_claims (ae_uuid A) (ae_tokens A) (uuid_String (ae_uuid A) (u_ID user)) (u_Username user)
            (role_name (u_Role user)) ''refresh'' (ts_refreshTTL (ae_tokens A)) w"
  show ?thesis
  proof (cases "jwt_sign (ae_jwt A) (ts_secretKey (ae_tokens A)) ?c")
    case None
    then show ?thesis by (simp add: issueTokens_def GenerateRefreshToken_def wp_simps)
  next
    case (Some s)
    have "cl_Type ?c = ''refresh''" by (simp add: signed_claims_def Let_def)
    moreover have "cl_Type (signed_claims lib ts a b d ''access'' ttl w) = ''access''" for lib ts a b d ttl w
      by (simp add: signed_claims_def Let_def)
    ultimately show ?thesis using Some
      by (auto simp: issueTokens_def GenerateRefreshToken_def wp_simps intro!: wp_mono[OF wp_renewAccess])
  qed
qed

definition no_hash :: "err + TokenPair \<Rightarrow> bool" where
  "no_hash r = (\<forall>tp. r = Inr tp \<longrightarrow> u_PasswordHash (tp_User tp) = '''')"

lemma wp_issueTokens_no_hash: "wp (issueTokens A user) (\<lambda>r _. no_hash r) w"
  by (rule wp_mono[OF wp_issueTokens]) (auto simp: no_hash_def)

lemma wp_renewAccess_no_hash: "wp (renewAccess A user refresh) (\<lambda>r _. no_hash r) w"
  by (rule wp_mono[OF wp_renewAccess]) (auto simp: no_hash_def)

lemma no_hash_Inl [simp]: "no_hash (Inl e)"
  by (simp add: no_hash_def)

text \<open>A program that keeps a property of results through every continuation.\<close>

lemma wp_any: "(\<And>x t. Q x t) \<Longrightarrow> wp m Q s"
  by (simp add: wp_def case_prod_unfold)

lemma no_hash_Register: "wp (Auth_Register A u e p) (\<lambda>r _. no_hash r) w"
  unfolding Auth_Register_def
  by (auto simp: wp_simps Let_def split: option.splits sum.splits intro!: wp_any wp_issueTokens_no_hash)

lemma no_hash_Login: "wp (Auth_Login A ident p) (\<lambda>r _. no_hash r) w"
  unfolding Auth_Login_def
  by (auto simp: wp_bind wp_case_sum wp_case_option wp_return wp_if wp_Let wp_time_Now
      split: option.splits sum.splits intro!: wp_any wp_issueTokens_no_hash)

lemma no_hash_Refresh: "wp (Auth_Refresh A token) (\<lambda>r _. no_hash r) w"
  unfolding Auth_Refresh_def
  by (auto simp: wp_bind wp_case_sum wp_case_option wp_return wp_if wp_Let wp_time_Now
      split: option.splits sum.splits intro!: wp_any wp_renewAccess_no_hash)

lemma wp_lookup_identifier:
  assumes "outcome_at (w_env w) (w_tick w) = Done" "TrimSpace ident \<noteq> ''''"
  shows "wp (lookup_identifier A ident) (\<lambda>r w'. w_db w' = w_db w) w"
  using assms by (simp add: lookup_identifier_def wp_simps Let_def UserRepo_GetByEmail_def
      UserRepo_GetByUsername_def split: option.splits)

lemma wp_Auth_Refresh:
  "wp (Auth_Refresh A token) (\<lambda>r w'. \<forall>tp. r = Inr tp \<longrightarrow> (\<exists>c user.
      jwt_parse (ae_jwt A) (ts_secretKey (ae_tokens A)) (ts_issuer (ae_tokens A)) (clock_at (w_env w) (w_tick w)) token = Some c
      \<and> cl_Type c = ''refresh''
      \<and> \<not> denied_at (clock_at (w_env w) (w_tick w + 1)) w (cl_ID c) (cl_UserID c) (IssuedAtTime c)
      \<and> uuid_Parse (ae_uuid A) (cl_UserID c) = Some (u_ID user)
      \<and> user \<in> set (db_users (w_db w)) \<and> live_user user
      \<and> \<not> IsCurrentlyBanned (clock_at (w_env w) (w_tick w + 3)) user
      \<and> tp_User tp = user\<lparr> u_PasswordHash := '''' \<rparr> \<and> tp_RefreshToken tp = token
      \<and> (\<exists>ac. jwt_sign (ae_jwt A) (ts_secretKey (ae_tokens A)) ac = Some (tp_AccessToken tp)
           \<and> cl_Role ac = role_name (u_Role user) \<and> cl_Type ac = ''access''))) w"
proof (cases "jwt_parse (ae_jwt A) (ts_secretKey (ae_tokens A)) (ts_issuer (ae_tokens A)) (clock_at (w_env w) (w_tick w)) token")
  case None
  then show ?thesis by (simp add: Auth_Refresh_def ValidateRefreshToken_def wp_simps)
next
  case (Some c)
  have claims: "cl_Role (signed_claims lib ts a b d e ttl w) = d" "cl_Type (signed_claims lib ts a b d e ttl w) = e"
    for lib ts a b d e ttl w by (simp_all add: signed_claims_def Let_def)
  show ?thesis
  proof (cases "cl_Type c = ''refresh''")
    case False
    with Some show ?thesis by (simp add: Auth_Refresh_def ValidateRefreshToken_def wp_simps check_type_refresh)
  next
    case True
    have deny: "revocation_verdict (redis_live t (w_redis w (revokedTokenKeyPrefix @ cl_ID c)))
        (redis_live t (w_redis w (minIssuedAtKeyPrefix @ cl_UserID c))) (IssuedAtTime c) = Inr b
        \<Longrightarrow> b = denied_at t w (cl_ID c) (cl_UserID c) (IssuedAtTime c)" for t b
      by (simp add: denied_at_def)
    show ?thesis
      using Some True deny claims
      by (auto simp: Auth_Refresh_def ValidateRefreshToken_def wp_simps check_type_refresh IsRevoked_def
          UserRepo_GetByID_def Let_def numeral_2_eq_2 numeral_3_eq_3 dest!: find_row_Some
          split: sum.splits option.splits if_splits intro!: wp_mono[OF wp_renewAccess]) blast
  qed
qed

section \<open>Instances of the library parameters\<close>

text \<open>A JWT library that signs the claims of a list under the names given there, and a bcrypt whose
  hash is the password behind a mark: both satisfy what the service relies on.\<close>

definition toy_jwt :: "(string \<times> Claims) list \<Rightarrow> jwt_lib" where
  "toy_jwt cs = \<lparr> jwt_sign = (\<lambda>key c. map_option fst (List.find (\<lambda>(s, d). d = c) cs)),
     jwt_parse = (\<lambda>key iss now s. case map_of cs s of None \<Rightarrow> None
        | Some c \<Rightarrow> if cl_Issuer c = iss \<and> jwt_times_ok now c then Some c else None) \<rparr>"

definition toy_bcrypt :: bcrypt_lib where
  "toy_bcrypt = \<lparr> bcrypt_hash = (\<lambda>salt p. Some (''$'' @ p)), bcrypt_matches = (\<lambda>h p. h = ''$'' @ p) \<rparr>"

lemma toy_jwt_ok: "distinct (map fst cs) \<Longrightarrow> jwt_ok (toy_jwt cs)"
  unfolding jwt_ok_def
proof (intro allI impI)
  fix key iss now c s
  assume d: "distinct (map fst cs)" and s: "jwt_sign (toy_jwt cs) key c = Some s"
  from s obtain p where "List.find (\<lambda>(s, d). d = c) cs = Some p" "fst p = s"
    by (auto simp: toy_jwt_def)
  then have "(s, c) \<in> set cs"
    by (auto simp: find_Some_iff split: prod.splits) (metis nth_mem prod.collapse)
  with d show "jwt_parse (toy_jwt cs) key iss now s = (if cl_Issuer c = iss \<and> jwt_times_ok now c then Some c else None)"
    by (simp add: toy_jwt_def)
qed

definition sample_claims :: "string \<Rightarrow> string \<Rightarrow> string \<Rightarrow> time \<Rightarrow> duration \<Rightarrow> string \<Rightarrow> Claims" where
  "sample_claims uid name role now ttl typ = \<lparr> cl_UserID = uid, cl_Username = name, cl_Role = role, cl_Type = typ,
     cl_IssuedAtMS = UnixMilli now, cl_ID = ''jti-'' @ typ, cl_Subject = uid, cl_IssuedAt = Some (NumericDate now),
     cl_ExpiresAt = Some (NumericDate (now + ttl)), cl_NotBefore = Some (NumericDate now), cl_Issuer = ''vss'' \<rparr>"

definition sample_tokens :: TokenService where
  "sample_tokens = \<lparr> ts_secretKey = ''secret'', ts_accessTTL = 15 * Minute, ts_refreshTTL = 168 * Hour, ts_issuer = ''vss'' \<rparr>"

definition sample_auth :: "(string \<times> Claims) list \<Rightarrow> auth_env" where
  "sample_auth cs = \<lparr> ae_uuid = sample_lib, ae_jwt = toy_jwt cs, ae_bcrypt = toy_bcrypt, ae_unicode = no_unicode,
     ae_tokens = sample_tokens, ae_maxTokenTTL = 168 * Hour \<rparr>"

definition sample_middleware :: Authenticator where
  "sample_middleware = \<lparr> au_tokens = sample_tokens, au_revocations = Some IsRevoked, au_revocationFailOpen = False \<rparr>"

definition sample_tokens_list :: "(string \<times> Claims) list" where
  "sample_tokens_list = [(''A'', sample_claims ''1'' ''alice'' ''user'' (10 * Second) (15 * Minute) ''access''),
     (''R'', sample_claims ''1'' ''alice'' ''user'' (10 * Second) (168 * Hour) ''refresh'')]"

definition at_tick :: "nat \<Rightarrow> world \<Rightarrow> world" where
  "at_tick n w = w\<lparr> w_tick := n \<rparr>"

section \<open>Properties\<close>

section \<open>Logging out one session\<close>

definition denied_until :: "time \<Rightarrow> world \<Rightarrow> string \<Rightarrow> bool" where
  "denied_until x w jti = (\<forall>T < x. redis_live T (w_redis w (revokedTokenKeyPrefix @ jti)) \<noteq> None)"

lemma denied_until_denies: "denied_until x w jti \<Longrightarrow> T < x \<Longrightarrow> denied_at T w jti uid t"
  by (auto simp: denied_until_def denied_at_def revocation_verdict_def)

lemma denied_until_SET:
  assumes "now \<le> t" "0 < e - now"
  shows "denied_until (e - 1000000) (w\<lparr> w_tick := n, w_redis := (w_redis w)(revokedTokenKeyPrefix @ j := Some (v, redis_expiry t (e - now))) \<rparr>) j"
proof -
  have "(e - now) - 1000000 < (e - now) div 1000000 * 1000000"
    using minus_mod_eq_div_mult[of "e - now" 1000000] pos_mod_bound[of 1000000 "e - now"] by linarith
  then have "T < e - 1000000 \<Longrightarrow> T < t + (e - now) div 1000000 * 1000000" for T
    using assms by linarith
  then show ?thesis
    by (auto simp: denied_until_def redis_live_expiry[OF assms(2)])
qed

definition revoked_to :: "world \<Rightarrow> Claims \<Rightarrow> time \<Rightarrow> world \<Rightarrow> bool" where
  "revoked_to w c e w' = (same_env w w'
     \<and> (\<forall>j. j \<noteq> cl_ID c \<longrightarrow> w_redis w' (revokedTokenKeyPrefix @ j) = w_redis w (revokedTokenKeyPrefix @ j))
     \<and> (e \<le> clock_at (w_env w) (w_tick w) \<or> denied_until (e - 1000000) w' (cl_ID c)))"

lemma wp_revokeByClaims:
  assumes "cl_ID c \<noteq> ''''" "cl_ExpiresAt c = Some e" "e \<noteq> zero_time" "mono (clock_at (w_env w))"
  shows "wp (revokeByClaims A c) (\<lambda>r w'. r = Inr () \<longrightarrow> revoked_to w c e w') w"
proof -
  let ?now = "clock_at (w_env w) (w_tick w)"
  have le: "?now \<le> clock_at (w_env w) (Suc (w_tick w))" by (rule monoD[OF assms(4)]) simp
  show ?thesis
  proof (cases "e - ?now \<le> 0")
    case True
    then show ?thesis
      using assms by (simp add: revokeByClaims_def RevokeToken_def wp_simps Let_def revoked_to_def same_env_def)
  next
    case False
    have "wp (redis_Set (revokedTokenKeyPrefix @ cl_ID c) ''1'' (e - ?now)) (\<lambda>r w'. r = Inr () \<longrightarrow> revoked_to w c e w')
        (w\<lparr> w_tick := Suc (w_tick w) \<rparr>)"
      using False denied_until_SET[OF le, of e w]
      by (intro wp_mono[OF wp_redis_Set]) (auto simp: revoked_to_def same_env_def)
    with False assms show ?thesis
      by (simp add: revokeByClaims_def RevokeToken_def wp_simps Let_def)
  qed
qed

text \<open>A token that is past its expiry or denied until then (to the millisecond Redis keeps).\<close>

definition dead :: "world \<Rightarrow> Claims \<Rightarrow> time \<Rightarrow> bool" where
  "dead w c e = (e \<le> clock_at (w_env w) (w_tick w) \<or> denied_until (e - 1000000) w (cl_ID c))"

lemma revoked_to_dead:
  assumes "revoked_to w c e w'" "mono (clock_at (w_env w))"
  shows "dead w' c e"
  using assms monoD[OF assms(2), of "w_tick w" "w_tick w'"]
  by (auto simp: revoked_to_def dead_def same_env_def)

lemma revoked_to_other_dead:
  assumes "revoked_to w c e w'" "dead w c' e'" "cl_ID c' \<noteq> cl_ID c" "mono (clock_at (w_env w))"
  shows "dead w' c' e'"
  using assms monoD[OF assms(4), of "w_tick w" "w_tick w'"]
  by (auto simp: revoked_to_def dead_def same_env_def denied_until_def)

lemma same_env_dead:
  assumes "same_env w w'" "dead w c e" "mono (clock_at (w_env w))"
    "w_redis w' (revokedTokenKeyPrefix @ cl_ID c) = w_redis w (revokedTokenKeyPrefix @ cl_ID c)"
  shows "dead w' c e"
  using assms monoD[OF assms(3), of "w_tick w" "w_tick w'"]
  by (auto simp: dead_def same_env_def denied_until_def)

text \<open>Signed, with an identifier of its own and an expiry; not before some moment that has passed.\<close>

definition issued_token :: "auth_env \<Rightarrow> string \<Rightarrow> Claims \<Rightarrow> time \<Rightarrow> time \<Rightarrow> bool" where
  "issued_token A s c now e = (jwt_sign (ae_jwt A) (ts_secretKey (ae_tokens A)) c = Some s \<and> s \<noteq> ''''
     \<and> cl_ID c \<noteq> '''' \<and> cl_ExpiresAt c = Some e \<and> cl_Issuer c = ts_issuer (ae_tokens A)
     \<and> (case cl_NotBefore c of None \<Rightarrow> True | Some n \<Rightarrow> n \<le> now))"

lemma jwt_okD: "jwt_ok J \<Longrightarrow> jwt_sign J key c = Some s \<Longrightarrow>
    jwt_parse J key iss now s = (if cl_Issuer c = iss \<and> jwt_times_ok now c then Some c else None)"
  by (simp add: jwt_ok_def)

lemma issued_token_parse:
  assumes "issued_token A s c now e" "jwt_ok (ae_jwt A)" "now \<le> t"
  shows "jwt_parse (ae_jwt A) (ts_secretKey (ae_tokens A)) (ts_issuer (ae_tokens A)) t s = (if t < e then Some c else None)"
  using assms by (auto simp: issued_token_def jwt_okD jwt_times_ok_def split: option.splits)

lemma wp_Auth_Logout:
  assumes A: "jwt_ok (ae_jwt A)" "issued_token A access ac now ea" "issued_token A refresh rc now er" "cl_ID ac \<noteq> cl_ID rc"
    and w: "mono (clock_at (w_env w))" "now \<le> clock_at (w_env w) (w_tick w)" "0 \<le> now"
  shows "wp (Auth_Logout A access refresh) (\<lambda>r w'. r = Inr () \<longrightarrow> same_env w w' \<and> dead w' ac ea \<and> dead w' rc er) w"
proof (cases "clock_at (w_env w) (w_tick w) < ea")
  case False
  then show ?thesis using issued_token_parse[OF A(2,1) w(2)] by (simp add: Auth_Logout_def wp_simps)
next
  case True
  let ?w = "w\<lparr> w_tick := Suc (w_tick w) \<rparr>"
  have z: "e \<noteq> zero_time" if "now < e" for e using w(3) that by (auto simp: zero_time_def)
  have zero: "ea \<noteq> zero_time" using z True w(2) by simp
  have ne: "refresh \<noteq> ''''" using A(3) by (simp add: issued_token_def)
  have neq: "refresh \<noteq> access"
  proof
    assume "refresh = access"
    with issued_token_parse[OF A(2,1) w(2)] issued_token_parse[OF A(3,1) w(2)] True have "ac = rc"
      by (auto split: if_splits)
    with A(4) show False by simp
  qed
  have second: "wp (do { v2 \<leftarrow> ValidateToken (ae_jwt A) (ae_tokens A) refresh;
        case v2 of Inl e \<Rightarrow> State_Monad.return (Inr ()) | Inr c \<Rightarrow> revokeByClaims A c })
     (\<lambda>r w'. r = Inr () \<longrightarrow> same_env w w' \<and> dead w' ac ea \<and> dead w' rc er) v"
    if v: "revoked_to ?w ac ea v" for v
  proof -
    have env: "w_env v = w_env w" "w_tick w \<le> w_tick v" using v by (simp_all add: revoked_to_def same_env_def)
    let ?v = "v\<lparr> w_tick := Suc (w_tick v) \<rparr>"
    have now: "now \<le> clock_at (w_env v) (w_tick v)"
      using monoD[OF w(1) env(2)] w(2) env(1) by simp
    have dead: "dead ?v ac ea"
      using revoked_to_dead[OF v] w(1) env same_env_dead[of v ?v ac ea] by (simp add: same_env_def)
    show ?thesis
    proof (cases "clock_at (w_env v) (w_tick v) < er")
      case False
      then have "dead ?v rc er"
        using monoD[OF w(1), of "w_tick v" "Suc (w_tick v)"] by (simp add: dead_def env)
      with False dead env show ?thesis
        using issued_token_parse[OF A(3,1) now] by (simp add: wp_simps same_env_def)
    next
      case True
      have "wp (revokeByClaims A rc) (\<lambda>r w'. r = Inr () \<longrightarrow> revoked_to ?v rc er w') ?v"
        using A(3) z[of er] now True w(1) env by (intro wp_revokeByClaims) (simp_all add: issued_token_def)
      then have "wp (revokeByClaims A rc) (\<lambda>r w'. r = Inr () \<longrightarrow> same_env w w' \<and> dead w' ac ea \<and> dead w' rc er) ?v"
        using revoked_to_dead[of ?v rc er] revoked_to_other_dead[of ?v rc er _ ac ea] dead A(4) w(1) env
        by (elim wp_mono) (auto simp: same_env_def revoked_to_def)
      with True show ?thesis using issued_token_parse[OF A(3,1) now] by (simp add: wp_simps)
    qed
  qed
  have first: "wp (revokeByClaims A ac) (\<lambda>r w'. r = Inr () \<longrightarrow> revoked_to ?w ac ea w') ?w"
    using A(2) zero w(1) by (intro wp_revokeByClaims) (simp_all add: issued_token_def)
  let ?Q = "\<lambda>r w'. r = Inr () \<longrightarrow> same_env w w' \<and> dead w' ac ea \<and> dead w' rc er"
  let ?rest = "\<lambda>r. case r of Inl e \<Rightarrow> State_Monad.return (Inl e) | Inr _ \<Rightarrow> do {
      v2 \<leftarrow> ValidateToken (ae_jwt A) (ae_tokens A) refresh;
      case v2 of Inl e \<Rightarrow> State_Monad.return (Inr ()) | Inr c \<Rightarrow> revokeByClaims A c }"
  have "wp (?rest r) ?Q v" if "r = Inr () \<longrightarrow> revoked_to ?w ac ea v" for r v
    using second[of v] that by (cases r) (simp_all add: wp_return)
  then have "wp (revokeByClaims A ac \<bind> ?rest) ?Q ?w"
    unfolding wp_bind by (rule wp_mono[OF first])
  moreover have "Auth_Logout A access refresh = do {
      v \<leftarrow> ValidateToken (ae_jwt A) (ae_tokens A) access;
      case v of Inl e \<Rightarrow> State_Monad.return (Inl ErrInvalidToken) | Inr c \<Rightarrow> revokeByClaims A c \<bind> ?rest }"
    using neq ne by (simp add: Auth_Logout_def)
  ultimately show ?thesis
    using issued_token_parse[OF A(2,1) w(2)] True
    by (simp only: wp_bind[of "ValidateToken _ _ access"] wp_ValidateToken) simp
qed

text \<open>C4: A request that RequireAuth lets through carried a bearer token that the service's own key and
  issuer verify at that moment, that is no refresh token, that is not denied by the denylist, and the principal
  attached is the one of its claims, with one of the five roles.  A store that does not answer lets nobody
  through.\<close>

theorem RequireAuth_sound:
  assumes "au_revocations a = Some IsRevoked" "\<not> au_revocationFailOpen a"
    and "run_state (RequireAuth lib J a header c) w = (Next c', w')"
  shows "\<exists>p. c' = WithPrincipal c p \<and> accepts lib J a header w p \<and> Role_IsValid (pr_Role p)"
proof -
  have "wp (RequireAuth lib J a header c) (\<lambda>r w'. \<forall>c'. r = Next c' \<longrightarrow>
      (\<exists>p. c' = WithPrincipal c p \<and> accepts lib J a header w p)) w"
    unfolding RequireAuth_def wp_bind wp_return
    by (rule wp_mono[OF wp_principalFromRequest[OF assms(1,2)]]) (auto split: sum.splits)
  from wp_result[OF this assms(3)] obtain p where p: "c' = WithPrincipal c p" "accepts lib J a header w p" by blast
  then have "Role_IsValid (pr_Role p)"
    by (auto simp: accepts_def dest: principal_of_claims_valid)
  with p show ?thesis by blast
qed

lemma sample_access_passes:
  "(case run_state (RequireAuth sample_lib (toy_jwt sample_tokens_list) sample_middleware ''Bearer A'' (sample_request None ''''))
      (at_tick 20 (calm_world empty_db)) of (Next c', _) \<Rightarrow> rq_principal c' | _ \<Rightarrow> None)
    = Some \<lparr> pr_UserID = 1, pr_Username = ''alice'', pr_Role = RoleUser \<rparr>"
  by code_simp

theorem RequireAuth_sound_witness:
  "\<exists>c' p. fst (run_state (RequireAuth sample_lib (toy_jwt sample_tokens_list) sample_middleware ''Bearer A''
        (sample_request None '''') :: unit passage prog)
      (at_tick 20 (calm_world empty_db))) = Next c' \<and> c' = WithPrincipal (sample_request None '''') p
    \<and> accepts sample_lib (toy_jwt sample_tokens_list) sample_middleware ''Bearer A'' (at_tick 20 (calm_world empty_db)) p"
proof -
  let ?m = "RequireAuth sample_lib (toy_jwt sample_tokens_list) sample_middleware ''Bearer A'' (sample_request None '''') :: unit passage prog"
  let ?w = "at_tick 20 (calm_world empty_db)"
  obtain c' w' where run: "run_state ?m ?w = (Next c', w')"
    using sample_access_passes by (auto split: prod.splits passage.splits)
  have "\<exists>p. c' = WithPrincipal (sample_request None '''') p
      \<and> accepts sample_lib (toy_jwt sample_tokens_list) sample_middleware ''Bearer A'' ?w p \<and> Role_IsValid (pr_Role p)"
    by (rule RequireAuth_sound[OF _ _ run]) (simp_all add: sample_middleware_def)
  with run show ?thesis by auto
qed

lemma RequireAuth_answer: "wp (RequireAuth lib J a header c) (\<lambda>r w'. \<forall>resp. r = Answer resp \<longrightarrow> status_of resp \<in> {401, 503}) w"
  unfolding RequireAuth_def wp_bind wp_return
  by (rule wp_any) (auto simp: response_defs split: sum.splits)

lemma RequireAuth_refuses:
  assumes "au_revocations a = Some IsRevoked" "\<not> au_revocationFailOpen a" "\<And>p. \<not> accepts lib J a header w p"
  shows "\<exists>resp. fst (run_state (RequireAuth lib J a header c :: 'b passage prog) w) = Answer resp \<and> status_of resp \<in> {401, 503}"
proof -
  obtain r w' where run: "run_state (RequireAuth lib J a header c :: 'b passage prog) w = (r, w')" by (meson surj_pair)
  have next1: "wp (RequireAuth lib J a header c) (\<lambda>r w'. \<forall>c'. r = Next c' \<longrightarrow> (\<exists>p. accepts lib J a header w p)) w"
    unfolding RequireAuth_def wp_bind wp_return
    by (rule wp_mono[OF wp_principalFromRequest[OF assms(1,2)]]) (auto split: sum.splits)
  from wp_result[OF next1 run] assms(3) wp_result[OF RequireAuth_answer run] show ?thesis
    by (cases r) (auto simp: run)
qed

text \<open>C6: Once Logout has returned without error, neither the access token nor the refresh token it was given is
  of any use in any later state of the service that has not touched their two denylist entries: until its expiry,
  less the millisecond that the store's resolution may lose, the access token does not pass RequireAuth and the
  refresh token buys no new access token.\<close>

theorem logout_revokes_tokens:
  assumes run: "run_state (Auth_Logout A (bearerToken header) refresh) w = (Inr (), w1)"
    and A: "jwt_ok (ae_jwt A)" "issued_token A (bearerToken header) ac now ea" "issued_token A refresh rc now er" "cl_ID ac \<noteq> cl_ID rc"
    and w: "mono (clock_at (w_env w))" "now \<le> clock_at (w_env w) (w_tick w)" "0 \<le> now"
    and a: "au_tokens a = ae_tokens A" "au_revocations a = Some IsRevoked" "\<not> au_revocationFailOpen a"
    and later: "same_env w1 w2" "w_redis w2 (revokedTokenKeyPrefix @ cl_ID ac) = w_redis w1 (revokedTokenKeyPrefix @ cl_ID ac)"
      "w_redis w2 (revokedTokenKeyPrefix @ cl_ID rc) = w_redis w1 (revokedTokenKeyPrefix @ cl_ID rc)"
    and T: "T = clock_at (w_env w2) (Suc (w_tick w2))"
  shows "(T < ea - 1000000 \<longrightarrow> (\<exists>resp. fst (run_state (RequireAuth lib (ae_jwt A) a header rq) w2) = Answer resp \<and> status_of resp \<in> {401, 503}))
    \<and> (T < er - 1000000 \<longrightarrow> (\<exists>e. fst (run_state (Auth_Refresh A refresh) w2) = Inl e))"
proof -
  from wp_result[OF wp_Auth_Logout[OF A w] run]
  have w1: "same_env w w1" "dead w1 ac ea" "dead w1 rc er" by auto
  have m: "mono (clock_at (w_env w1))" "mono (clock_at (w_env w2))"
    using w(1) w1(1) later(1) by (simp_all add: same_env_def)
  have le: "clock_at (w_env w2) (w_tick w2) \<le> T" unfolding T by (rule monoD[OF m(2)]) simp
  have denied: "T < e - 1000000 \<Longrightarrow> denied_at T w2 (cl_ID c) u t" if "dead w2 c e" for c e u t
    using that le denied_until_denies[of "e - 1000000" w2 "cl_ID c" T] by (auto simp: dead_def)
  have dead: "dead w2 ac ea" "dead w2 rc er"
    using same_env_dead[OF later(1) w1(2) m(1) later(2)] same_env_dead[OF later(1) w1(3) m(1) later(3)] .
  have parse: "jwt_parse (ae_jwt A) (ts_secretKey (ae_tokens A)) (ts_issuer (ae_tokens A)) t s = Some c' \<Longrightarrow> c' = c"
    if "issued_token A s c now e" for s c c' e t
    using that A(1) by (auto simp: issued_token_def jwt_okD split: if_splits)
  have "\<exists>resp. fst (run_state (RequireAuth lib (ae_jwt A) a header rq :: 'a passage prog) w2) = Answer resp \<and> status_of resp \<in> {401, 503}"
    if "T < ea - 1000000"
    using denied[OF dead(1) that] parse[OF A(2)] a(1)
    by (intro RequireAuth_refuses[OF a(2,3)]) (auto simp: accepts_def T)
  moreover have "\<exists>e. fst (run_state (Auth_Refresh A refresh) w2) = Inl e" if "T < er - 1000000"
  proof (rule ccontr)
    assume "\<nexists>e. fst (run_state (Auth_Refresh A refresh) w2) = Inl e"
    then obtain tp w3 where "run_state (Auth_Refresh A refresh) w2 = (Inr tp, w3)"
      by (metis fst_conv old.sum.exhaust surj_pair)
    from wp_result[OF wp_Auth_Refresh this] denied[OF dead(2) that] show False
      using parse[OF A(3)] by (auto simp: T)
  qed
  ultimately show ?thesis by blast
qed

lemma mono_calm: "mono (clock_at calm_env)"
  by (auto simp: mono_def calm_env_def)

lemma sample_jwt_ok: "jwt_ok (ae_jwt (sample_auth sample_tokens_list))"
  by (simp add: sample_auth_def toy_jwt_ok sample_tokens_list_def)

lemma sample_env: "w_env (at_tick n (calm_world d)) = calm_env" "w_tick (at_tick n (calm_world d)) = n"
  by (simp_all add: at_tick_def calm_world_def)

definition logged_out :: world where
  "logged_out = snd (run_state (Auth_Logout (sample_auth sample_tokens_list) ''A'' ''R'') (at_tick 20 (calm_world empty_db)))"

lemma logged_out_run: "run_state (Auth_Logout (sample_auth sample_tokens_list) ''A'' ''R'') (at_tick 20 (calm_world empty_db))
    = (Inr (), logged_out)"
proof -
  have "fst (run_state (Auth_Logout (sample_auth sample_tokens_list) ''A'' ''R'') (at_tick 20 (calm_world empty_db))) = Inr ()"
    by code_simp
  then show ?thesis unfolding logged_out_def by (metis prod.collapse)
qed

lemma sample_issued:
  "issued_token (sample_auth sample_tokens_list) ''A'' (sample_claims ''1'' ''alice'' ''user'' (10 * Second) (15 * Minute) ''access'') (10 * Second) (910 * Second)"
  "issued_token (sample_auth sample_tokens_list) ''R'' (sample_claims ''1'' ''alice'' ''user'' (10 * Second) (168 * Hour) ''refresh'') (10 * Second) (604810 * Second)"
  by code_simp+

theorem logout_revokes_tokens_witness:
  "\<exists>resp. fst (run_state (RequireAuth sample_lib (ae_jwt (sample_auth sample_tokens_list)) sample_middleware ''Bearer A''
      (sample_request None '''') :: unit passage prog) (at_tick 50 logged_out)) = Answer resp \<and> status_of resp \<in> {401, 503}"
proof -
  have b: "bearerToken ''Bearer A'' = ''A''" by code_simp
  have tick: "w_tick logged_out \<le> 50" by code_simp
  have c20: "10000000000 \<le> clock_at calm_env 20" by (simp add: calm_env_def)
  have env: "w_env (at_tick 50 logged_out) = w_env logged_out" "w_tick (at_tick 50 logged_out) = 50"
    "w_redis (at_tick 50 logged_out) = w_redis logged_out" by (simp_all add: at_tick_def)
  have T: "clock_at (w_env logged_out) 51 = 51 * Second" by code_simp
  have "(T < 910 * Second - 1000000 \<longrightarrow> (\<exists>resp. fst (run_state (RequireAuth sample_lib (ae_jwt (sample_auth sample_tokens_list)) sample_middleware ''Bearer A''
      (sample_request None '''') :: unit passage prog) (at_tick 50 logged_out)) = Answer resp \<and> status_of resp \<in> {401, 503}))
    \<and> (T < 604810 * Second - 1000000 \<longrightarrow> (\<exists>e. fst (run_state (Auth_Refresh (sample_auth sample_tokens_list) ''R'') (at_tick 50 logged_out)) = Inl e))"
    if "T = clock_at (w_env (at_tick 50 logged_out)) (Suc (w_tick (at_tick 50 logged_out)))" for T
    by (rule logout_revokes_tokens[where header = "''Bearer A''", OF _ sample_jwt_ok _ sample_issued(2), unfolded b, OF logged_out_run sample_issued(1) _ _ _ _ _ _ _ _ _ _ that])
       (auto simp: sample_env mono_calm c20 sample_claims_def sample_middleware_def sample_auth_def same_env_def env tick)
  from this[of "51 * Second"] show ?thesis by (simp add: env T)
qed

text \<open>C5: After a logout-all that answered 200, no access token the user was issued before it gets a request past
  RequireAuth, in any later state that still holds the user's cutoff and for as long as the token lives: every
  such request is answered 401, or 503 when the denylist cannot be read.\<close>

theorem logout_all_ends_sessions:
  assumes "run_state (Handler_LogoutAll A rq) w = (Success 200 b, w1)" "rq_principal rq = Some p"
    and a: "au_tokens a = ae_tokens A" "au_revocations a = Some IsRevoked" "\<not> au_revocationFailOpen a"
    and jwt: "jwt_ok (ae_jwt A)" "jwt_sign (ae_jwt A) (ts_secretKey (ae_tokens A)) claims = Some (bearerToken header)"
    and uid: "cl_UserID claims = uuid_String (ae_uuid A) (pr_UserID p)"
    and now: "now = clock_at (w_env w) (w_tick w)" "0 \<le> now" "now < 2 ^ 63" "now \<le> clock_at (w_env w) (Suc (w_tick w))"
    and tok: "IssuedAtTime claims \<le> now" "cl_ExpiresAt claims = Some e" "e \<le> now + ae_maxTokenTTL A"
    and ttl: "0 < ae_maxTokenTTL A" "1000000 dvd ae_maxTokenTTL A"
    and keep: "w_redis w2 (minIssuedAtKeyPrefix @ cl_UserID claims) = w_redis w1 (minIssuedAtKeyPrefix @ cl_UserID claims)"
    and alive: "clock_at (w_env w2) (Suc (w_tick w2)) < e"
  shows "\<exists>resp. fst (run_state (RequireAuth lib (ae_jwt A) a header rq2) w2) = Answer resp \<and> status_of resp \<in> {401, 503}"
proof (rule RequireAuth_refuses[OF a(2,3)])
  let ?T = "clock_at (w_env w2) (Suc (w_tick w2))" and ?t = "clock_at (w_env w) (Suc (w_tick w))"
  have "wp (Handler_LogoutAll A rq) (\<lambda>r w'. r = Success 200 b \<longrightarrow>
     w_redis w' = (w_redis w)(minIssuedAtKeyPrefix @ uuid_String (ae_uuid A) (pr_UserID p) :=
        Some (Itoa (UnixMilli now + 1), redis_expiry ?t (ae_maxTokenTTL A)))) w"
    unfolding Handler_LogoutAll_def PrincipalFrom_def assms(2) option.case RevokeAllSessions_def wp_bind wp_return now(1)
    by (rule wp_mono[OF wp_RevokeAll]) (auto simp: response_defs split: sum.splits)
  from wp_result[OF this assms(1)]
  have "w_redis w2 (minIssuedAtKeyPrefix @ cl_UserID claims) =
      Some (Itoa (UnixMilli now + 1), redis_expiry ?t (ae_maxTokenTTL A))"
    using keep uid by simp
  from cutoff_denies[OF this now(2,3) ttl(1) _ tok(1), of ?T "cl_ID claims"]
  have "denied_at ?T w2 (cl_ID claims) (cl_UserID claims) (IssuedAtTime claims)"
    using now(4) tok(3) ttl(2) alive by simp
  then show "\<not> accepts lib (ae_jwt A) a header w2 q" for q
    using a(1) jwt by (auto simp: accepts_def jwt_ok_def split: if_splits)
qed

definition alice_request :: request where
  "alice_request = sample_request (Some \<lparr> pr_UserID = 1, pr_Username = ''alice'', pr_Role = RoleUser \<rparr>) ''''"

definition all_logged_out :: world where
  "all_logged_out = snd (run_state (Handler_LogoutAll (sample_auth sample_tokens_list) alice_request) (at_tick 20 (calm_world empty_db)))"

lemma all_logged_out_run:
  "run_state (Handler_LogoutAll (sample_auth sample_tokens_list) alice_request) (at_tick 20 (calm_world empty_db))
    = (Success 200 (MessageBody ''All sessions revoked''), all_logged_out)"
proof -
  have "fst (run_state (Handler_LogoutAll (sample_auth sample_tokens_list) alice_request) (at_tick 20 (calm_world empty_db)))
      = Success 200 (MessageBody ''All sessions revoked'')"
    by code_simp
  then show ?thesis unfolding all_logged_out_def by (metis prod.collapse)
qed

theorem logout_all_ends_sessions_witness:
  "\<exists>resp. fst (run_state (RequireAuth sample_lib (ae_jwt (sample_auth sample_tokens_list)) sample_middleware ''Bearer A''
      (sample_request None '''') :: unit passage prog) (at_tick 50 all_logged_out)) = Answer resp \<and> status_of resp \<in> {401, 503}"
proof (rule logout_all_ends_sessions[OF all_logged_out_run, where now = "20 * Second" and e = "910 * Second"
      and claims = "sample_claims ''1'' ''alice'' ''user'' (10 * Second) (15 * Minute) ''access''"])
  show "jwt_ok (ae_jwt (sample_auth sample_tokens_list))" by (rule sample_jwt_ok)
  show "clock_at (w_env (at_tick 50 all_logged_out)) (Suc (w_tick (at_tick 50 all_logged_out))) < 910 * Second" by code_simp
  show "jwt_sign (ae_jwt (sample_auth sample_tokens_list)) (ts_secretKey (ae_tokens (sample_auth sample_tokens_list)))
      (sample_claims ''1'' ''alice'' ''user'' (10 * Second) (15 * Minute) ''access'') = Some (bearerToken ''Bearer A'')"
    by code_simp
  show "IssuedAtTime (sample_claims ''1'' ''alice'' ''user'' (10 * Second) (15 * Minute) ''access'') \<le> 20 * Second" by code_simp
  show "cl_UserID (sample_claims ''1'' ''alice'' ''user'' (10 * Second) (15 * Minute) ''access'')
    = uuid_String (ae_uuid (sample_auth sample_tokens_list)) (pr_UserID \<lparr> pr_UserID = 1, pr_Username = ''alice'', pr_Role = RoleUser \<rparr>)"
    by code_simp
  show "cl_ExpiresAt (sample_claims ''1'' ''alice'' ''user'' (10 * Second) (15 * Minute) ''access'') = Some (910 * Second)" by code_simp
qed (auto simp: alice_request_def sample_request_def sample_middleware_def sample_auth_def sample_env calm_env_def at_tick_def calm_world_def)

text \<open>C7: The two kinds of token are kept apart: whatever Login hands out as the refresh token never passes
  RequireAuth, and whatever it hands out as the access token is never accepted by Refresh, in any state.\<close>

theorem token_kinds_separate:
  assumes "jwt_ok (ae_jwt A)" "au_tokens a = ae_tokens A" "au_revocations a = Some IsRevoked" "\<not> au_revocationFailOpen a"
    and run: "run_state (Auth_Login A identifier password) w = (Inr tp, w1)"
  shows "(bearerToken header = tp_RefreshToken tp \<longrightarrow>
       (\<exists>resp. fst (run_state (RequireAuth lib (ae_jwt A) a header rq) w2) = Answer resp \<and> status_of resp \<in> {401, 503}))
    \<and> (\<exists>e. fst (run_state (Auth_Refresh A (tp_AccessToken tp)) w2) = Inl e)"
proof -
  let ?kinds = "\<lambda>r. \<forall>tp. r = Inr tp \<longrightarrow>
     (\<exists>c. jwt_sign (ae_jwt A) (ts_secretKey (ae_tokens A)) c = Some (tp_RefreshToken tp) \<and> cl_Type c = ''refresh'')
     \<and> (\<exists>c. jwt_sign (ae_jwt A) (ts_secretKey (ae_tokens A)) c = Some (tp_AccessToken tp) \<and> cl_Type c = ''access'')"
  have issue: "wp (issueTokens A user) (\<lambda>r _. ?kinds r) v" for user v
    by (rule wp_mono[OF wp_issueTokens]) blast
  have "wp (Auth_Login A identifier password) (\<lambda>r _. ?kinds r) w"
    unfolding Auth_Login_def
    by (auto simp: wp_bind wp_case_sum wp_case_option wp_return wp_if wp_Let wp_time_Now
        split: option.splits sum.splits intro!: wp_any issue)
  from wp_result[OF this run] obtain rc ac where
    rc: "jwt_sign (ae_jwt A) (ts_secretKey (ae_tokens A)) rc = Some (tp_RefreshToken tp)" "cl_Type rc = ''refresh''"
    and ac: "jwt_sign (ae_jwt A) (ts_secretKey (ae_tokens A)) ac = Some (tp_AccessToken tp)" "cl_Type ac = ''access''"
    by blast
  have "\<exists>resp. fst (run_state (RequireAuth lib (ae_jwt A) a header rq :: 'a passage prog) w2) = Answer resp \<and> status_of resp \<in> {401, 503}"
    if "bearerToken header = tp_RefreshToken tp"
    using that rc assms(1,2) by (intro RequireAuth_refuses[OF assms(3,4)]) (auto simp: accepts_def jwt_okD split: if_splits)
  moreover have "\<exists>e. fst (run_state (Auth_Refresh A (tp_AccessToken tp)) w2) = Inl e"
  proof (rule ccontr)
    assume "\<nexists>e. fst (run_state (Auth_Refresh A (tp_AccessToken tp)) w2) = Inl e"
    then obtain tp' w3 where "run_state (Auth_Refresh A (tp_AccessToken tp)) w2 = (Inr tp', w3)"
      by (metis fst_conv old.sum.exhaust surj_pair)
    from wp_result[OF wp_Auth_Refresh this] ac assms(1) show False
      by (auto simp: jwt_okD split: if_splits)
  qed
  ultimately show ?thesis by blast
qed

text \<open>The tokens a login at call number 10 of the calm world signs.\<close>

definition login_db :: db where
  "login_db = empty_db\<lparr> db_users := [(sample_user 1 ''alice'' RoleUser)\<lparr> u_PasswordHash := ''$pw'' \<rparr>] \<rparr>"

definition login_tokens :: "(string \<times> Claims) list" where
  "login_tokens = (let w = at_tick 14 (calm_world login_db) in
     [(''R'', signed_claims sample_lib sample_tokens ''1'' ''alice'' ''user'' ''refresh'' (168 * Hour) w),
      (''A'', signed_claims sample_lib sample_tokens ''1'' ''alice'' ''user'' ''access'' (15 * Minute) (at_tick 16 w))])"

lemma sample_login:
  "(case fst (run_state (Auth_Login (sample_auth login_tokens) ''alice'' ''pw'') (at_tick 10 (calm_world login_db))) of
     Inl e \<Rightarrow> None | Inr tp \<Rightarrow> Some (tp_AccessToken tp, tp_RefreshToken tp)) = Some (''A'', ''R'')"
  by code_simp

theorem token_kinds_separate_witness:
  "(\<exists>e. fst (run_state (Auth_Refresh (sample_auth login_tokens) ''A'') (at_tick 30 (calm_world login_db))) = Inl e)
   \<and> (\<exists>resp. fst (run_state (RequireAuth sample_lib (toy_jwt login_tokens) sample_middleware ''Bearer R'' alice_request :: unit passage prog)
        (at_tick 30 (calm_world login_db))) = Answer resp \<and> status_of resp \<in> {401, 503})"
proof -
  obtain tp w1 where run: "run_state (Auth_Login (sample_auth login_tokens) ''alice'' ''pw'') (at_tick 10 (calm_world login_db)) = (Inr tp, w1)"
    and tp: "tp_AccessToken tp = ''A''" "tp_RefreshToken tp = ''R''"
    using sample_login by (auto split: sum.splits) (metis prod.collapse)
  have b: "bearerToken ''Bearer R'' = ''R''" by code_simp
  have j: "jwt_ok (ae_jwt (sample_auth login_tokens))"
    by (simp add: sample_auth_def toy_jwt_ok login_tokens_def Let_def)
  show ?thesis
    using token_kinds_separate[OF j _ _ _ run, of sample_middleware "''Bearer R''" sample_lib alice_request "at_tick 30 (calm_world login_db)",
        where ?'a = unit]
    by (simp add: tp b sample_middleware_def sample_auth_def)
qed

text \<open>C8: Logging in with an identifier nobody has and with a wrong password cannot be told apart: as long as the
  database answers, every attempt whose password is not the one of the account found, or that finds no account,
  gets the same 401 response and leaves the tables and the store unchanged, banned accounts included.\<close>

theorem login_does_not_enumerate:
  assumes "outcome_at (w_env w) (w_tick w) = Done"
    and "\<And>user. fst (run_state (lookup_identifier A identifier) w) = Inr user \<Longrightarrow>
           \<not> bcrypt_matches (ae_bcrypt A) (u_PasswordHash user) password"
  shows "fst (run_state (Handler_Login A (Some (identifier, password))) w) = Unauthorized ''Invalid credentials''
    \<and> w_db (snd (run_state (Handler_Login A (Some (identifier, password))) w)) = w_db w
    \<and> w_redis (snd (run_state (Handler_Login A (Some (identifier, password))) w)) = w_redis w"
proof -
  have "wp (lookup_identifier A identifier) (\<lambda>r v. w_db v = w_db w \<and> w_redis v = w_redis w \<and> (r = Inl ErrUserNotFound \<or> (\<exists>u. r = Inr u))) w"
    using assms(1) by (simp add: lookup_identifier_def wp_simps Let_def UserRepo_GetByEmail_def
        UserRepo_GetByUsername_def split: option.splits)
  then have "wp (lookup_identifier A identifier) (\<lambda>r v. w_db v = w_db w \<and> w_redis v = w_redis w
      \<and> (r = Inl ErrUserNotFound \<or> (\<exists>u. r = Inr u \<and> \<not> bcrypt_matches (ae_bcrypt A) (u_PasswordHash u) password))) w"
    using assms(2) by (auto simp: wp_def split: prod.splits)
  then have "wp (Handler_Login A (Some (identifier, password)))
      (\<lambda>r v. r = Unauthorized ''Invalid credentials'' \<and> w_db v = w_db w \<and> w_redis v = w_redis w) w"
    unfolding Handler_Login_def Auth_Login_def
    by (auto simp: wp_bind wp_case_sum wp_case_option wp_return wp_if wp_Let ComparePassword_def respondAuthError_def elim!: wp_mono)
  from wpD[OF this] show ?thesis by simp
qed

theorem login_does_not_enumerate_witness:
  "fst (run_state (Handler_Login (sample_auth login_tokens) (Some (''alice'', ''guess''))) (calm_world login_db))
     = fst (run_state (Handler_Login (sample_auth login_tokens) (Some (''nobody'', ''guess''))) (calm_world login_db))"
proof -
  have wrong: "fst (run_state (lookup_identifier (sample_auth login_tokens) ident) (calm_world login_db)) = Inr user \<Longrightarrow>
      \<not> bcrypt_matches (ae_bcrypt (sample_auth login_tokens)) (u_PasswordHash user) ''guess''"
    if "ident \<in> {''alice'', ''nobody''}" for ident user
  proof -
    have "(case fst (run_state (lookup_identifier (sample_auth login_tokens) ''alice'') (calm_world login_db)) of Inl _ \<Rightarrow> True
       | Inr u \<Rightarrow> u_PasswordHash u = ''$pw'')"
      "(case fst (run_state (lookup_identifier (sample_auth login_tokens) ''nobody'') (calm_world login_db)) of Inl _ \<Rightarrow> True
       | Inr u \<Rightarrow> u_PasswordHash u = ''$pw'')"
      by code_simp+
    then show "fst (run_state (lookup_identifier (sample_auth login_tokens) ident) (calm_world login_db)) = Inr user \<Longrightarrow>
      \<not> bcrypt_matches (ae_bcrypt (sample_auth login_tokens)) (u_PasswordHash user) ''guess''"
      using that by (auto simp: sample_auth_def toy_bcrypt_def)
  qed
  have up: "outcome_at (w_env (calm_world login_db)) (w_tick (calm_world login_db)) = Done"
    by (simp add: calm_world_def calm_env_def)
  have "fst (run_state (Handler_Login (sample_auth login_tokens) (Some (ident, ''guess''))) (calm_world login_db))
      = Unauthorized ''Invalid credentials''" if "ident \<in> {''alice'', ''nobody''}" for ident
    using login_does_not_enumerate[OF up wrong[OF that]] by blast
  then show ?thesis by simp
qed

text \<open>No response of Register, Login or Refresh carries a password hash: the user in the token pair has an
  empty one, whatever the stored row holds and whatever fails on the way.\<close>

theorem password_hash_withheld:
  "no_hash (fst (run_state (Auth_Register A username email password) w))
   \<and> no_hash (fst (run_state (Auth_Login A identifier password) w))
   \<and> no_hash (fst (run_state (Auth_Refresh A token) w))"
  using wpD[OF no_hash_Register] wpD[OF no_hash_Login] wpD[OF no_hash_Refresh] by blast

text \<open>C9: A refresh that succeeds presented a live refresh token of this service that no denylist entry covers, and
  the access token it returns is built from the user row as it is at that moment: the account still exists, is not
  banned, and the role signed into the new token is the one stored now, not the one of the presented token.  The
  refresh token itself is handed back unchanged.\<close>

theorem refresh_rereads_the_account:
  assumes "run_state (Auth_Refresh A token) w = (Inr tp, w')"
  shows "\<exists>c user. jwt_parse (ae_jwt A) (ts_secretKey (ae_tokens A)) (ts_issuer (ae_tokens A)) (clock_at (w_env w) (w_tick w)) token = Some c
      \<and> cl_Type c = ''refresh''
      \<and> \<not> denied_at (clock_at (w_env w) (w_tick w + 1)) w (cl_ID c) (cl_UserID c) (IssuedAtTime c)
      \<and> uuid_Parse (ae_uuid A) (cl_UserID c) = Some (u_ID user)
      \<and> user \<in> set (db_users (w_db w)) \<and> live_user user
      \<and> \<not> IsCurrentlyBanned (clock_at (w_env w) (w_tick w + 3)) user
      \<and> tp_User tp = user\<lparr> u_PasswordHash := '''' \<rparr> \<and> tp_RefreshToken tp = token
      \<and> (\<exists>ac. jwt_sign (ae_jwt A) (ts_secretKey (ae_tokens A)) ac = Some (tp_AccessToken tp)
           \<and> cl_Role ac = role_name (u_Role user) \<and> cl_Type ac = ''access'')"
  using wp_result[OF wp_Auth_Refresh assms] by blast

definition refresh_tokens :: "(string \<times> Claims) list" where
  "refresh_tokens = [(''R'', sample_claims ''1'' ''alice'' ''user'' (10 * Second) (168 * Hour) ''refresh''),
     (''A'', signed_claims sample_lib sample_tokens ''1'' ''alice'' ''admin'' ''access'' (15 * Minute) (at_tick 24 (calm_world empty_db)))]"

definition promoted_db :: db where
  "promoted_db = empty_db\<lparr> db_users := [sample_user 1 ''alice'' RoleAdmin] \<rparr>"

lemma sample_refresh:
  "(case fst (run_state (Auth_Refresh (sample_auth refresh_tokens) ''R'') (at_tick 20 (calm_world promoted_db))) of
     Inl e \<Rightarrow> None | Inr tp \<Rightarrow> Some (tp_AccessToken tp)) = Some ''A''"
  by code_simp

theorem refresh_rereads_the_account_witness:
  "\<exists>ac. jwt_sign (toy_jwt refresh_tokens) ''secret'' ac = Some ''A'' \<and> cl_Role ac = ''admin''"
proof -
  obtain tp w1 where run: "run_state (Auth_Refresh (sample_auth refresh_tokens) ''R'') (at_tick 20 (calm_world promoted_db)) = (Inr tp, w1)"
    and tp: "tp_AccessToken tp = ''A''"
    using sample_refresh by (auto split: sum.splits) (metis prod.collapse)
  from refresh_rereads_the_account[OF run] tp show ?thesis
    by (auto simp: sample_auth_def sample_tokens_def at_tick_def calm_world_def promoted_db_def sample_user_def role_name_def)
qed


section \<open>Registration\<close>

definition registers :: "auth_env \<Rightarrow> string \<Rightarrow> string \<Rightarrow> string \<Rightarrow> db \<Rightarrow> db \<Rightarrow> bool" where
  "registers A username email password d d' = (\<exists>u. db_users d' = db_users d @ [u]
     \<and> u_Role u = RoleUser \<and> \<not> u_EmailVerified u \<and> \<not> u_IsBanned u
     \<and> u_Username u = TrimSpace username \<and> usernameRegex (u_Username u) \<and> emailRegex (u_Email u)
     \<and> ValidatePassword (ae_unicode A) password = None
     \<and> (\<exists>salt. bcrypt_hash (ae_bcrypt A) salt password = Some (u_PasswordHash u))
     \<and> (\<forall>v \<in> set (db_users d). u_Username v \<noteq> u_Username u \<and> u_Email v \<noteq> u_Email u))"

lemma wp_Create_adds:
  "wp (UserRepo_Create user) (\<lambda>r w'. w_db w' = w_db w \<or>
     (db_users (w_db w') = db_users (w_db w) @ [user_row user]
      \<and> (\<forall>v \<in> set (db_users (w_db w)). u_Username v \<noteq> u_Username user \<and> u_Email v \<noteq> u_Email user))) w"
  unfolding UserRepo_Create_def
  by (rule wp_run_stmtI) (auto simp: list_ex_iff split: if_splits)

lemma issueTokens_keeps: "P (w_db w) \<Longrightarrow> wp (issueTokens A user) (\<lambda>_ w'. P (w_db w')) w"
  by (rule wp_mono[OF wp_issueTokens]) simp

lemma valid_user_name: "User_Validate u = None \<Longrightarrow> usernameRegex (u_Username u) \<and> emailRegex (u_Email u)"
  by (simp add: User_Validate_def split: if_splits)

lemma wp_Auth_Register:
  "wp (Auth_Register A username email password) (\<lambda>r w'. w_db w' = w_db w \<or> registers A username email password (w_db w) (w_db w')) w"
proof -
  let ?Q = "\<lambda>d. d = w_db w \<or> registers A username email password (w_db w) d"
  have create: "wp (UserRepo_Create user) (\<lambda>r w'. ?Q (w_db w')) v"
    if "NewUser (ae_unicode A) i t1 t2 username email hash RoleUser = Inr user" "ValidatePassword (ae_unicode A) password = None"
      "bcrypt_hash (ae_bcrypt A) salt password = Some hash" "w_db v = w_db w" for i t1 t2 hash user salt v
    using NewUser_fields[OF that(1)] valid_user_name[of user] that(2-4)
    by (intro wp_mono[OF wp_Create_adds]) (auto simp: registers_def user_row_def)
  show ?thesis
    unfolding Auth_Register_def HashPassword_def
    by (auto simp: wp_bind wp_case_sum wp_case_option wp_return wp_time_Now wp_uuid_New wp_observe
        split: option.splits sum.splits intro!: wp_mono[OF create] issueTokens_keeps)
qed

text \<open>C10: Registration, whatever fails on the way, either leaves the tables as they were or appends exactly one
  account: an unverified, unbanned one with the plain user role, a well-formed username and email that no
  existing account has, and a hash of a password that passed the rules.  No input makes it more than a user.\<close>

theorem register_adds_one_plain_user:
  "w_db (snd (run_state (Auth_Register A username email password) w)) = w_db w
   \<or> registers A username email password (w_db w) (w_db (snd (run_state (Auth_Register A username email password) w)))"
  using wpD[OF wp_Auth_Register] .

lemma unique_auth:
  assumes "users_unique (w_db w)"
  shows "users_unique (w_db (snd (run_state (Auth_Register A username email password) w)))"
    "users_unique (w_db (snd (run_state (Auth_Login A identifier password) w)))"
    "users_unique (w_db (snd (run_state (Auth_Refresh A token) w)))"
proof -
  note keep = preorder_keeping[of users_unique]
  note intros = steps_intros preorder_on_db keep unique_Create unique_Update
  have lookup: "steps (on_db (keeping users_unique)) (lookup_identifier A i)" for i
    unfolding lookup_identifier_def UserRepo_GetByEmail_def UserRepo_GetByUsername_def getBy_def Let_def
    by (intro intros)
  have issue: "steps (on_db (keeping users_unique)) (renewAccess A u t)" "steps (on_db (keeping users_unique)) (issueTokens A u)" for u t
    unfolding issueTokens_def renewAccess_def GenerateToken_def GenerateRefreshToken_def by (intro intros)+
  have "steps (on_db (keeping users_unique)) (Auth_Register A username email password)"
    unfolding Auth_Register_def HashPassword_def by (intro intros issue)
  then show "users_unique (w_db (snd (run_state (Auth_Register A username email password) w)))"
    using stepsD[of "on_db (keeping users_unique)" _ w] assms by (simp add: on_db_def)
  have "steps (on_db (keeping users_unique)) (Auth_Login A identifier password)"
    unfolding Auth_Login_def Let_def by (intro intros issue lookup)
  then show "users_unique (w_db (snd (run_state (Auth_Login A identifier password) w)))"
    using stepsD[of "on_db (keeping users_unique)" _ w] assms by (simp add: on_db_def)
  have "steps (on_db (keeping users_unique)) (Auth_Refresh A token)"
    unfolding Auth_Refresh_def ValidateRefreshToken_def validate_def IsRevoked_def UserRepo_GetByID_def getBy_def
    by (intro intros issue)
  then show "users_unique (w_db (snd (run_state (Auth_Refresh A token) w)))"
    using stepsD[of "on_db (keeping users_unique)" _ w] assms by (simp add: on_db_def)
qed

text \<open>Usernames and email addresses stay unique, over soft-deleted accounts too, through every authentication
  operation, from any state in which they are.\<close>

theorem auth_keeps_users_unique:
  assumes "users_unique (w_db w)"
  shows "users_unique (w_db (snd (run_state (Auth_Register A username email password) w)))
    \<and> users_unique (w_db (snd (run_state (Auth_Login A identifier password) w)))
    \<and> users_unique (w_db (snd (run_state (Auth_Refresh A token) w)))"
  using unique_auth[OF assms] by blast

theorem auth_keeps_users_unique_witness:
  "users_unique (w_db (snd (run_state (Auth_Register (sample_auth login_tokens) ''bob'' ''bob@example.com'' ''Secret-123'') (calm_world login_db))))
   \<and> length (db_users (w_db (snd (run_state (Auth_Register (sample_auth login_tokens) ''bob'' ''bob@example.com'' ''Secret-123'') (calm_world login_db))))) = 2"
proof -
  have "users_unique (w_db (calm_world login_db))" by code_simp
  moreover have "length (db_users (w_db (snd (run_state (Auth_Register (sample_auth login_tokens) ''bob'' ''bob@example.com'' ''Secret-123'') (calm_world login_db))))) = 2"
    by code_simp
  ultimately show ?thesis using auth_keeps_users_unique by blast
qed

end
