(* ===== verification/AccountProps.thy ===== *)
theory AccountProps
  imports Account AuthProps
begin

text \<open>
  What the mailed tokens guarantee: a password only changes for whoever presents the secret that was
  mailed, in time and once, and the change ends the sessions of the account; and the way from
  the request for a reset through the mail to the new password works.
\<close>

section \<open>Tokens\<close>

lemma parse_token_of:
  "length secret = tokenSecretBytes \<Longrightarrow> parseEmailToken (token_of i secret) = Some (i, hashTokenSecret secret)"
  by (simp add: parseEmailToken_def token_of_def)

lemma wp_newEmailToken [wp_simps]:
  "wp (newEmailToken i) Q = wp (rand_Read tokenSecretBytes) (\<lambda>r. Q (case r of Inl e \<Rightarrow> Inl e
     | Inr secret \<Rightarrow> Inr (token_of i secret, hashTokenSecret secret)))"
  by (rule ext) (simp add: newEmailToken_def wp_simps split: option.splits)

section \<open>What a write to the users table does\<close>

definition set_users :: "uuid \<Rightarrow> (User \<Rightarrow> User) \<Rightarrow> db \<Rightarrow> db" where
  "set_users i f d = snd (update_live i f d)"

lemma wp_Update_cases:
  "wp (UserRepo_Update user) (\<lambda>r w'. w_env w' = w_env w \<and> w_tick w' = Suc (w_tick w) \<and> w_redis w' = w_redis w
     \<and> (w_db w' = w_db w \<and> r \<noteq> Inr ()
        \<or> w_db w' = set_users (u_ID user) (user_written (clock_at (w_env w) (w_tick w)) user) (w_db w))) w"
  unfolding UserRepo_Update_def rows_or_def
  by (auto simp: wp_simps wp_run_stmt set_users_def update_live_def split: outcome.splits)

text \<open>The written account, read back.\<close>

lemma find_set_users:
  assumes "\<And>u. u_ID (f u) = u_ID u" "\<And>u. live_user (f u) = live_user u"
  shows "find_row (\<lambda>u. u_ID u = i \<and> live_user u) (db_users (set_users i f d))
     = map_option f (find_row (\<lambda>u. u_ID u = i \<and> live_user u) (db_users d))"
proof -
  have "find_row (\<lambda>u. u_ID u = i \<and> live_user u) (update_rows (\<lambda>u. u_ID u = i \<and> live_user u) f rows)
     = map_option f (find_row (\<lambda>u. u_ID u = i \<and> live_user u) rows)" for rows
    by (induction rows) (auto simp: assms)
  then show ?thesis by (simp add: set_users_def update_live_def)
qed

section \<open>Setting a password\<close>

text \<open>The account as \<^verbatim>\<open>set_password\<close> leaves it.\<close>

definition with_password :: "time \<Rightarrow> time \<Rightarrow> string \<Rightarrow> User \<Rightarrow> User \<Rightarrow> User" where
  "with_password now t h user = user_written t (ClearPasswordResetToken now (user\<lparr> u_PasswordHash := h \<rparr>))"

text \<open>The sessions of a user are cut off at a time: the entry the middleware compares with.\<close>

definition cut_off :: "auth_env \<Rightarrow> uuid \<Rightarrow> world \<Rightarrow> bool" where
  "cut_off A i w = (\<exists>now t. w_redis w (minIssuedAtKeyPrefix @ uuid_String (ae_uuid A) i)
     = Some (Itoa (UnixMilli now + 1), redis_expiry t (ae_maxTokenTTL A)))"

definition password_set :: "auth_env \<Rightarrow> User \<Rightarrow> string \<Rightarrow> db \<Rightarrow> db \<Rightarrow> bool" where
  "password_set A user pw d d' = (ValidatePassword (ae_unicode A) pw = None
     \<and> (\<exists>salt h now t. bcrypt_hash (ae_bcrypt A) salt pw = Some h \<and> d' = set_users (u_ID user) (with_password now t h user) d))"

lemma set_password_cases:
  assumes "es_revoker S = Some (RevokeAllSessions (ac_auth E))"
  shows "wp (set_password E S user pw) (\<lambda>r w'.
     (w_db w' = w_db w \<and> r \<noteq> Inr ()
      \<or> password_set (ac_auth E) user pw (w_db w) (w_db w')
        \<and> (r = Inr () \<longrightarrow> (\<forall>n. outcome_at (w_env w) n \<noteq> Refused) \<longrightarrow> cut_off (ac_auth E) (u_ID user) w'))) w"
proof -
  let ?A = "ac_auth E"
  define Q :: "err + unit \<Rightarrow> world \<Rightarrow> bool" where "Q = (\<lambda>r w'. w_db w' = w_db w \<and> r \<noteq> Inr ()
      \<or> password_set ?A user pw (w_db w) (w_db w')
        \<and> (r = Inr () \<longrightarrow> (\<forall>n. outcome_at (w_env w) n \<noteq> Refused) \<longrightarrow> cut_off ?A (u_ID user) w'))"
  have rev: "wp (revokeSessions S (u_ID user)) (\<lambda>_ w'. w_db w' = w_db v
      \<and> ((\<forall>n. outcome_at (w_env v) n \<noteq> Refused) \<longrightarrow> cut_off ?A (u_ID user) w')) v" for v
    unfolding revokeSessions_def assms option.case RevokeAllSessions_def RevokeAllUserSessions_def redis_Set_def
    by (auto simp: wp_simps cut_off_def split: outcome.splits)
  have "wp (set_password E S user pw) Q w"
    unfolding set_password_def Let_def
  proof (cases "ValidatePassword (ae_unicode ?A) pw")
    case None
    have upd: "wp (UserRepo_Update (ClearPasswordResetToken now (user\<lparr> u_PasswordHash := h \<rparr>)))
        (\<lambda>r w1. (w_db w1 = w_db v \<and> r \<noteq> Inr () \<or> password_set ?A user pw (w_db v) (w_db w1)) \<and> w_env w1 = w_env v) v"
      if "bcrypt_hash (ae_bcrypt ?A) salt pw = Some h" for salt h now v
      by (rule wp_mono[OF wp_Update_cases])
         (use that None in \<open>auto simp: password_set_def with_password_def ClearPasswordResetToken_def\<close>)
    show "wp (case ValidatePassword (ae_unicode ?A) pw of Some e \<Rightarrow> State_Monad.return (Inl ErrWeakPassword)
        | None \<Rightarrow> try_then (HashPassword (ae_unicode ?A) (ae_bcrypt ?A) pw) (\<lambda>hash. do {
         now \<leftarrow> time_Now;
         try_then (UserRepo_Update (ClearPasswordResetToken now (user\<lparr> u_PasswordHash := hash \<rparr>)))
           (\<lambda>_. do { revokeSessions S (u_ID user); State_Monad.return (Inr ()) })
       })) Q w"
      unfolding None option.case HashPassword_def
      by (auto simp: wp_simps Q_def split: option.splits
          intro!: wp_mono[OF upd] wp_mono[OF rev] split: sum.splits)
  qed (simp add: wp_simps Q_def)
  then show ?thesis by (simp add: Q_def)
qed

section \<open>Resetting a password\<close>

lemma wp_lookupByToken [wp_simps]:
  "wp (lookupByToken token) Q = (\<lambda>w. case parseEmailToken token of
     None \<Rightarrow> Q (Inl ErrInvalidToken) w
   | Some (i, d) \<Rightarrow> let w' = w\<lparr> w_tick := Suc (w_tick w) \<rparr> in
       if outcome_at (w_env w) (w_tick w) = Done
       then (case find_row (\<lambda>u. u_ID u = i \<and> live_user u) (db_users (w_db w)) of
          None \<Rightarrow> Q (Inl ErrInvalidToken) w' | Some u \<Rightarrow> Q (Inr (u, d)) w')
       else Q (Inl (ErrOther ''getting user'')) w')"
  by (rule ext) (simp add: lookupByToken_def UserRepo_GetByID_def wp_simps Let_def split: option.splits)

definition live_row :: "uuid \<Rightarrow> db \<Rightarrow> User option" where
  "live_row i d = find_row (\<lambda>u. u_ID u = i \<and> live_user u) (db_users d)"

text \<open>The token names a live account that holds its digest, unexpired at the given time.\<close>

definition token_opens :: "string \<Rightarrow> time \<Rightarrow> db \<Rightarrow> User \<Rightarrow> bool" where
  "token_opens token now d u = (\<exists>i digest e. parseEmailToken token = Some (i, digest) \<and> live_row i d = Some u \<and> u_ID u = i
     \<and> u_PasswordResetToken u = Some digest \<and> u_PasswordResetExpiry u = Some e \<and> now < e)"

lemma valid_digest_opens:
  "IsPasswordResetTokenValid now u \<Longrightarrow> digestMatches (u_PasswordResetToken u) digest \<Longrightarrow> parseEmailToken token = Some (i, digest)
   \<Longrightarrow> find_row (\<lambda>u. u_ID u = i \<and> live_user u) (db_users d) = Some u \<Longrightarrow> token_opens token now d u"
  using find_row_Some[of "\<lambda>u. u_ID u = i \<and> live_user u" "db_users d" u]
  by (auto simp: IsPasswordResetTokenValid_def digestMatches_def token_opens_def live_row_def split: option.splits)

lemma reset_cases:
  assumes "es_revoker S = Some (RevokeAllSessions (ac_auth E))"
  shows "wp (ResetPassword E S token pw) (\<lambda>r w'. w_db w' = w_db w \<and> r \<noteq> Inr ()
     \<or> (\<exists>u. token_opens token (clock_at (w_env w) (Suc (w_tick w))) (w_db w) u
        \<and> password_set (ac_auth E) u pw (w_db w) (w_db w')
        \<and> (r = Inr () \<longrightarrow> (\<forall>n. outcome_at (w_env w) n \<noteq> Refused) \<longrightarrow> cut_off (ac_auth E) (u_ID u) w'))) w"
proof -
  define Q :: "err + unit \<Rightarrow> world \<Rightarrow> bool" where "Q = (\<lambda>r w'. w_db w' = w_db w \<and> r \<noteq> Inr ()
     \<or> (\<exists>u. token_opens token (clock_at (w_env w) (Suc (w_tick w))) (w_db w) u
        \<and> password_set (ac_auth E) u pw (w_db w) (w_db w')
        \<and> (r = Inr () \<longrightarrow> (\<forall>n. outcome_at (w_env w) n \<noteq> Refused) \<longrightarrow> cut_off (ac_auth E) (u_ID u) w')))"
  have refused: "Q (Inl e) v" if "w_db v = w_db w" for e v using that by (simp add: Q_def)
  have set: "wp (set_password E S u pw) Q v"
    if "token_opens token (clock_at (w_env w) (Suc (w_tick w))) (w_db w) u" "w_db v = w_db w" "w_env v = w_env w" for u v
    by (rule wp_mono[OF set_password_cases[OF assms]]) (use that in \<open>auto simp: Q_def\<close>)
  have "wp (ResetPassword E S token pw) Q w"
    unfolding ResetPassword_def
    by (auto simp: wp_simps Let_def split: option.splits intro!: refused set intro: valid_digest_opens)
  then show ?thesis by (simp add: Q_def)
qed

lemma reset_refused:
  assumes "parseEmailToken token = Some (i, digest)" "\<And>u. live_row i (w_db w) = Some u \<Longrightarrow> u_PasswordResetToken u = None"
  shows "wp (ResetPassword E S token pw) (\<lambda>r w'. (\<exists>e. r = Inl e) \<and> w_db w' = w_db w) w"
  using assms unfolding ResetPassword_def live_row_def
  by (auto simp: wp_simps Let_def IsPasswordResetTokenValid_def split: option.splits)

lemma reset_clears:
  assumes "password_set A u pw d d'" "live_row (u_ID u) d' = Some u'"
  shows "u_PasswordResetToken u' = None"
proof -
  obtain now t h where d': "d' = set_users (u_ID u) (with_password now t h u) d"
    using assms(1) by (auto simp: password_set_def)
  have "live_row (u_ID u) d' = map_option (with_password now t h u) (live_row (u_ID u) d)"
    unfolding live_row_def d'
    by (rule find_set_users) (simp_all add: with_password_def user_written_def live_user_def)
  with assms(2) show ?thesis
    by (auto simp: with_password_def user_written_def ClearPasswordResetToken_def)
qed

text \<open>C29: Resetting a password, from any state and under any failures, changes a table only for a token that names a live
  account holding the digest of its secret, before the expiry of the digest, and for a password that passes
  the rules; the one change is to that account, which gets a hash of the password and loses the digest.  When the
  reset is acknowledged and no external call was refused, the sessions of the account are cut off (the service only
  logs a failure to do so, and acknowledges the reset all the same).  A token that was used is refused, with any
  password and with no change to a table, as long as the table of accounts is as the reset left it.\<close>

theorem reset_needs_the_mailed_token:
  assumes "es_revoker S = Some (RevokeAllSessions (ac_auth E))"
    and "run_state (ResetPassword E S token pw) w = (r, w')"
  shows "w_db w' = w_db w \<and> r \<noteq> Inr ()
     \<or> (\<exists>u. token_opens token (clock_at (w_env w) (Suc (w_tick w))) (w_db w) u
        \<and> password_set (ac_auth E) u pw (w_db w) (w_db w')
        \<and> (r = Inr () \<longrightarrow> (\<forall>n. outcome_at (w_env w) n \<noteq> Refused) \<longrightarrow> cut_off (ac_auth E) (u_ID u) w')
        \<and> (\<forall>w2 pw2 r2 w3. db_users (w_db w2) = db_users (w_db w') \<longrightarrow> run_state (ResetPassword E S token pw2) w2 = (r2, w3)
             \<longrightarrow> r2 \<noteq> Inr () \<and> w_db w3 = w_db w2))"
proof -
  have "r2 \<noteq> Inr () \<and> w_db w3 = w_db w2"
    if o: "token_opens token now (w_db w) u" and p: "password_set (ac_auth E) u pw (w_db w) (w_db w')"
      and w2: "db_users (w_db w2) = db_users (w_db w')" and run2: "run_state (ResetPassword E S token pw2) w2 = (r2, w3)"
    for now u w2 pw2 r2 w3
  proof -
    obtain digest where t: "parseEmailToken token = Some (u_ID u, digest)" using o by (auto simp: token_opens_def)
    have "wp (ResetPassword E S token pw2) (\<lambda>r w'. (\<exists>e. r = Inl e) \<and> w_db w' = w_db w2) w2"
      by (rule reset_refused[OF t]) (use reset_clears[OF p] w2 in \<open>auto simp: live_row_def\<close>)
    from wp_result[OF this run2] show ?thesis by auto
  qed
  with wp_result[OF reset_cases[OF assms(1)] assms(2)] show ?thesis by blast
qed


section \<open>From the request to the new password\<close>

text \<open>Nothing fails: the database and Redis answer, the SMTP dialogue goes through, random bytes are to be had.\<close>

definition all_well :: "env \<Rightarrow> bool" where
  "all_well e = (\<forall>n. outcome_at e n = Done \<and> exec_at e n \<and> (\<exists>s. rand_at e n = Some s))"

lemma all_wellD:
  "all_well e \<Longrightarrow> outcome_at e n = Done" "all_well e \<Longrightarrow> exec_at e n" "all_well e \<Longrightarrow> \<exists>s. rand_at e n = Some s"
  by (simp_all add: all_well_def)

lemma wp_smtp [wp_simps]:
  "wp (smtp c f) Q = (\<lambda>w. Q (if exec_at (w_env w) (w_tick w) then Inr () else Inl (ErrOther f))
     (w\<lparr> w_tick := Suc (w_tick w), w_commands := w_commands w @ [c] \<rparr>))"
  by (rule ext) (simp add: smtp_def wp_simps)

lemma buildMIME_well:
  assumes "all_well (w_env w)"
  shows "wp (buildMIME zone sender msg) (\<lambda>r w'. (\<exists>body. r = Inr body) \<and> w_env w' = w_env w \<and> w_mail w' = w_mail w
     \<and> w_db w' = w_db w) w"
  using all_wellD(3)[OF assms] unfolding buildMIME_def Let_def
  by (auto simp: wp_simps split: option.splits) (metis option.distinct(1))+

lemma mail_delivered:
  assumes "all_well (w_env w)"
  shows "wp (mailer_Send zone (SMTPMailer cfg) msg) (\<lambda>r w'. w_env w' = w_env w \<and> w_mail w' = w_mail w @ [msg] \<and> w_db w' = w_db w) w"
  using assms unfolding mailer_Send_def SMTP_Send_def smtp_connect_def smtp_secure_def smtp_auth_def
  by (auto simp: wp_simps all_wellD intro!: wp_mono[OF buildMIME_well])

lemma Update_goes_through:
  assumes "users_unique (w_db w)" "all_well (w_env w)" "live_row (u_ID u) (w_db w) = Some u"
    "u_ID user = u_ID u" "u_Username user = u_Username u" "u_Email user = u_Email u"
  shows "wp (UserRepo_Update user) (\<lambda>r w'. r = Inr () \<and> w_env w' = w_env w \<and> w_tick w' = Suc (w_tick w) \<and> w_mail w' = w_mail w
     \<and> w_db w' = set_users (u_ID u) (user_written (clock_at (w_env w) (w_tick w)) user) (w_db w)) w"
proof -
  have u: "u \<in> set (db_users (w_db w))" "live_user u"
    using find_row_Some[OF assms(3)[unfolded live_row_def]] by auto
  have "\<not> list_ex (\<lambda>v. u_ID v \<noteq> u_ID u \<and> (u_Username v = u_Username u \<or> u_Email v = u_Email u)) (db_users (w_db w))"
    using assms(1) u(1) by (auto simp: users_unique_def list_ex_iff distinct_map inj_on_def)
  moreover have "affected (\<lambda>v. u_ID v = u_ID u \<and> live_user v) (db_users (w_db w)) \<noteq> 0"
    using u by (auto simp: affected_def filter_empty_conv)
  ultimately show ?thesis
    unfolding UserRepo_Update_def rows_or_def
    by (simp add: wp_simps wp_run_stmt all_wellD[OF assms(2)] assms(4-6) set_users_def update_live_def)
qed


lemma find_row_key:
  "distinct (map key rows) \<Longrightarrow> u \<in> set rows \<Longrightarrow> P u \<Longrightarrow> find_row (\<lambda>r. key r = key u \<and> P r) rows = Some u"
  by (induction rows) (auto simp: image_iff)

lemma found_live_row:
  assumes "users_unique d" "find_row (\<lambda>u. clause u \<and> live_user u) (db_users d) = Some u"
  shows "live_row (u_ID u) d = Some u"
  using find_row_Some[OF assms(2)] assms(1) unfolding live_row_def users_unique_def
  by (intro find_row_key) auto

lemma wp_request_reset:
  assumes "users_unique (w_db w)" "all_well (w_env w)" "es_mail S = SMTPMailer cfg"
    and u: "find_row (\<lambda>u. u_Email u = ToLower (ae_unicode (ac_auth E)) (TrimSpace email) \<and> live_user u) (db_users (w_db w)) = Some u"
  shows "wp (RequestPasswordReset E S email) (\<lambda>r w'. \<exists>secret t. length secret = tokenSecretBytes \<and> w_env w' = w_env w
     \<and> w_mail w' = w_mail w @ [reset_mail S u (token_of (u_ID u) secret)] \<and> users_unique (w_db w')
     \<and> w_db w' = set_users (u_ID u) (user_written t (u\<lparr> u_PasswordResetToken := Some (hashTokenSecret secret),
          u_PasswordResetExpiry := Some (clock_at (w_env w) (Suc (Suc (w_tick w))) + es_resetTTL S) \<rparr>)) (w_db w)) w"
proof -
  obtain s where s: "rand_at (w_env w) (Suc (w_tick w)) = Some s" using all_wellD(3)[OF assms(2)] by blast
  define secret where "secret = take tokenSecretBytes s @ replicate (tokenSecretBytes - length s) (CHR 0x00)"
  have len: "length secret = tokenSecretBytes" by (simp add: secret_def)
  have live: "live_row (u_ID u) (w_db w) = Some u" by (rule found_live_row[OF assms(1) u])
  let ?user = "u\<lparr> u_PasswordResetToken := Some (hashTokenSecret secret),
          u_PasswordResetExpiry := Some (clock_at (w_env w) (Suc (Suc (w_tick w))) + es_resetTTL S) \<rparr>"
  have upd: "wp (UserRepo_Update ?user) (\<lambda>r w'. (r = Inr () \<and> w_env w' = w_env w \<and> w_mail w' = w_mail w
      \<and> (\<exists>t. w_db w' = set_users (u_ID u) (user_written t ?user) (w_db w))) \<and> users_unique (w_db w')) (w\<lparr> w_tick := n \<rparr>)" for n
    by (rule wp_conj[OF wp_mono[OF Update_goes_through[where u = u]] wp_mono[OF steps_wp[OF unique_Update]]])
       (use assms(1,2) live in \<open>auto simp: on_db_def\<close>)
  show ?thesis
    unfolding RequestPasswordReset_def UserRepo_GetByEmail_def
    by (simp add: wp_simps u all_wellD[OF assms(2)] s flip: secret_def)
       (rule wp_mono[OF upd], auto simp: sendAsync_def assms(3) wp_simps len intro!: wp_mono[OF mail_delivered] all_wellD assms(2) exI[of _ secret])
qed


text \<open>The other direction: a live digest and a password that passes are enough.\<close>

lemma reset_goes_through:
  assumes "users_unique (w_db w)" "all_well (w_env w)" "es_revoker S = Some (RevokeAllSessions (ac_auth E))"
    and o: "parseEmailToken token = Some (u_ID u, digest)" "live_row (u_ID u) (w_db w) = Some u"
      "u_PasswordResetToken u = Some digest" "u_PasswordResetExpiry u = Some e" "clock_at (w_env w) (Suc (w_tick w)) < e"
    and p: "ValidatePassword (ae_unicode (ac_auth E)) pw = None" "\<And>salt. \<exists>h. bcrypt_hash (ae_bcrypt (ac_auth E)) salt pw = Some h"
  shows "wp (ResetPassword E S token pw) (\<lambda>r w'. r = Inr () \<and> (\<exists>u' salt h. live_row (u_ID u) (w_db w') = Some u'
     \<and> bcrypt_hash (ae_bcrypt (ac_auth E)) salt pw = Some h \<and> u_PasswordHash u' = h)) w"
proof -
  obtain h where h: "bcrypt_hash (ae_bcrypt (ac_auth E)) (Suc (Suc (w_tick w))) pw = Some h" using p(2) by blast
  have rev: "wp (revokeSessions S i) (\<lambda>_ w'. w_db w' = w_db v) v" for i v
    unfolding revokeSessions_def assms(3) option.case RevokeAllSessions_def RevokeAllUserSessions_def redis_Set_def
    by (auto simp: wp_simps split: outcome.splits)
  have upd: "wp (UserRepo_Update (ClearPasswordResetToken now (u\<lparr> u_PasswordHash := h \<rparr>))) (\<lambda>r w'. r = Inr ()
      \<and> (\<exists>u'. live_row (u_ID u) (w_db w') = Some u' \<and> u_PasswordHash u' = h)) (w\<lparr> w_tick := n \<rparr>)" for now n
    by (rule wp_mono[OF Update_goes_through[where u = u]])
       (use assms(1,2) o(2) find_set_users[of _ "u_ID u" "w_db w"] in
         \<open>auto simp: ClearPasswordResetToken_def live_row_def user_written_def live_user_def\<close>)
  show ?thesis
    unfolding ResetPassword_def set_password_def Let_def HashPassword_def
    using o by (simp add: wp_simps live_row_def all_wellD[OF assms(2)] IsPasswordResetTokenValid_def digestMatches_def p(1) h)
       (rule wp_mono[OF upd[unfolded live_row_def]], use h in \<open>auto simp: wp_simps intro!: wp_mono[OF rev]\<close>)
qed

text \<open>C30: When nothing fails, asking for a reset with the address of a live account sends that account one mail, and
  the token in its link, presented at any later time before the expiry with a password that passes the rules,
  sets the account's password hash to a hash of that password; both requests are answered 200.\<close>

theorem mailed_link_resets_password:
  assumes "users_unique (w_db w)" "all_well (w_env w)" "es_mail S = SMTPMailer cfg"
    and "es_revoker S = Some (RevokeAllSessions (ac_auth E))"
    and u: "find_row (\<lambda>u. u_Email u = ToLower (ae_unicode (ac_auth E)) (TrimSpace email) \<and> live_user u) (db_users (w_db w)) = Some u"
    and run: "run_state (Handler_ForgotPassword E S (Some email)) w = (resp, w1)"
    and w2: "w_db w2 = w_db w1" "w_env w2 = w_env w"
      "clock_at (w_env w) (Suc (w_tick w2)) < clock_at (w_env w) (Suc (Suc (w_tick w))) + es_resetTTL S"
    and p: "ValidatePassword (ae_unicode (ac_auth E)) pw = None" "\<And>salt. \<exists>h. bcrypt_hash (ae_bcrypt (ac_auth E)) salt pw = Some h"
  shows "status_of resp = 200 \<and> (\<exists>token. w_mail w1 = w_mail w @ [reset_mail S u token]
     \<and> (\<forall>resp2 w3. run_state (Handler_ResetPassword E S (Some (token, pw))) w2 = (resp2, w3) \<longrightarrow> status_of resp2 = 200
          \<and> (\<exists>u' salt h. live_row (u_ID u) (w_db w3) = Some u' \<and> bcrypt_hash (ae_bcrypt (ac_auth E)) salt pw = Some h
               \<and> u_PasswordHash u' = h)))"
proof -
  let ?user = "\<lambda>secret. u\<lparr> u_PasswordResetToken := Some (hashTokenSecret secret),
      u_PasswordResetExpiry := Some (clock_at (w_env w) (Suc (Suc (w_tick w))) + es_resetTTL S) \<rparr>"
  have "wp (Handler_ForgotPassword E S (Some email)) (\<lambda>r w'. status_of r = 200 \<and> (\<exists>secret t. length secret = tokenSecretBytes
     \<and> w_mail w' = w_mail w @ [reset_mail S u (token_of (u_ID u) secret)] \<and> users_unique (w_db w')
     \<and> w_db w' = set_users (u_ID u) (user_written t (?user secret)) (w_db w))) w"
    unfolding Handler_ForgotPassword_def bound_def option.case wp_bind wp_return
    by (rule wp_mono[OF wp_request_reset[OF assms(1-3) u]]) auto
  from wp_result[OF this run] obtain secret t where s: "status_of resp = 200" "length secret = tokenSecretBytes"
    "w_mail w1 = w_mail w @ [reset_mail S u (token_of (u_ID u) secret)]" "users_unique (w_db w1)"
    "w_db w1 = set_users (u_ID u) (user_written t (?user secret)) (w_db w)"
    by auto
  let ?u1 = "user_written t (?user secret) u"
  have u1: "live_row (u_ID ?u1) (w_db w2) = Some ?u1"
    using find_set_users[of "user_written t (?user secret)" "u_ID u" "w_db w"] found_live_row[OF assms(1) u]
    by (simp add: w2(1) s(5) live_row_def user_written_def live_user_def)
  have "wp (ResetPassword E S (token_of (u_ID u) secret) pw) (\<lambda>r w'. r = Inr () \<and> (\<exists>u' salt h. live_row (u_ID ?u1) (w_db w') = Some u'
     \<and> bcrypt_hash (ae_bcrypt (ac_auth E)) salt pw = Some h \<and> u_PasswordHash u' = h)) w2"
    by (rule reset_goes_through[where digest = "hashTokenSecret secret", OF _ _ assms(4) _ u1 _ _ _ p])
       (use s w2 assms(2) in \<open>simp_all add: parse_token_of user_written_def\<close>)
  then have "wp (Handler_ResetPassword E S (Some (token_of (u_ID u) secret, pw))) (\<lambda>resp w3. status_of resp = 200
     \<and> (\<exists>u' salt h. live_row (u_ID u) (w_db w3) = Some u' \<and> bcrypt_hash (ae_bcrypt (ac_auth E)) salt pw = Some h
           \<and> u_PasswordHash u' = h)) w2"
    unfolding Handler_ResetPassword_def bound_def option.case prod.case wp_answer
    by (rule wp_mono) (auto simp: user_written_def)
  from wp_result[OF this] show ?thesis using s(1,3) by blast
qed


section \<open>Instances\<close>

definition sample_account :: account_env where
  "sample_account = \<lparr> ac_auth = sample_auth sample_tokens_list, ac_zone = 0 \<rparr>"

definition sample_service :: EmailService where
  "sample_service = NewEmailService (mailer_New \<lparr> mc_Host = ''mail.example.com'', mc_Port = 587, mc_Username = ''app'',
      mc_Password = ''secret'', mc_From = ''noreply@example.com'', mc_AllowInsecure = False \<rparr>)
     ''https://app.example.com/'' 0 (Some (RevokeAllSessions (ac_auth sample_account)))"

definition sample_secret :: string where "sample_secret = replicate 32 (CHR ''s'')"

definition new_password :: string where "new_password = ''Secret-123''"

definition alice :: User where "alice = sample_user 1 ''alice'' RoleUser"

definition alice_resetting :: User where
  "alice_resetting = alice\<lparr> u_PasswordResetToken := Some (hashTokenSecret sample_secret), u_PasswordResetExpiry := Some Hour \<rparr>"

lemma sample_facts:
  "es_revoker sample_service = Some (RevokeAllSessions (ac_auth sample_account))"
  "ValidatePassword (ae_unicode (ac_auth sample_account)) new_password = None"
  "\<exists>h. bcrypt_hash (ae_bcrypt (ac_auth sample_account)) salt new_password = Some h"
  "length sample_secret = tokenSecretBytes" "all_well calm_env" "\<exists>cfg. es_mail sample_service = SMTPMailer cfg"
  "es_resetTTL sample_service = Hour"
proof -
  show "ValidatePassword (ae_unicode (ac_auth sample_account)) new_password = None" by code_simp
  show "\<exists>cfg. es_mail sample_service = SMTPMailer cfg" by (simp add: sample_service_def NewEmailService_def mailer_New_def)
qed (simp_all add: sample_service_def NewEmailService_def sample_account_def sample_auth_def toy_bcrypt_def sample_secret_def
    tokenSecretBytes_def all_well_def calm_env_def defaultResetTokenTTL_def)

lemma alice_row: "live_row 1 (empty_db\<lparr> db_users := [alice] \<rparr>) = Some alice"
  "live_row 1 (empty_db\<lparr> db_users := [alice_resetting] \<rparr>) = Some alice_resetting"
  by (simp_all add: live_row_def alice_def alice_resetting_def sample_user_def live_user_def)

lemma calm_facts: "w_env (calm_world d) = calm_env" "w_db (calm_world d) = d" "w_tick (calm_world d) = 0" "w_mail (calm_world d) = []"
    "clock_at calm_env n = int n * Second" "outcome_at calm_env n = Done"
  by (simp_all add: calm_world_def calm_env_def)

lemma resetting_facts: "u_ID alice_resetting = 1" "u_PasswordResetToken alice_resetting = Some (hashTokenSecret sample_secret)"
    "u_PasswordResetExpiry alice_resetting = Some Hour"
  by (simp_all add: alice_resetting_def alice_def sample_user_def)

definition reset_done :: "(err + unit) \<times> world" where
  "reset_done = run_state (ResetPassword sample_account sample_service (token_of 1 sample_secret) new_password)
     (calm_world (empty_db\<lparr> db_users := [alice_resetting] \<rparr>))"

theorem reset_needs_the_mailed_token_witness:
  "fst reset_done = Inr () \<and> cut_off (ac_auth sample_account) 1 (snd reset_done)
    \<and> fst (run_state (ResetPassword sample_account sample_service (token_of 1 sample_secret) new_password) (snd reset_done)) \<noteq> Inr ()"
proof -
  let ?w = "calm_world (empty_db\<lparr> db_users := [alice_resetting] \<rparr>)" and ?t = "token_of 1 sample_secret"
  have "wp (ResetPassword sample_account sample_service ?t new_password) (\<lambda>r w'. r = Inr () \<and> (\<exists>u' salt h.
      live_row (u_ID alice_resetting) (w_db w') = Some u' \<and> bcrypt_hash (ae_bcrypt (ac_auth sample_account)) salt new_password = Some h
      \<and> u_PasswordHash u' = h)) ?w"
    by (rule reset_goes_through[where digest = "hashTokenSecret sample_secret" and e = Hour])
       (simp_all add: sample_facts parse_token_of resetting_facts alice_row calm_facts users_unique_def)
  then have ok: "fst reset_done = Inr ()" unfolding reset_done_def by (rule wpD[THEN conjunct1])
  have run: "run_state (ResetPassword sample_account sample_service ?t new_password) ?w = (fst reset_done, snd reset_done)"
    by (simp add: reset_done_def)
  have env: "\<forall>n. outcome_at (w_env ?w) n \<noteq> Refused" by (simp add: calm_facts)
  obtain u where u: "token_opens ?t (clock_at (w_env ?w) (Suc (w_tick ?w))) (w_db ?w) u"
    "cut_off (ac_auth sample_account) (u_ID u) (snd reset_done)"
    and again: "\<And>r2 w3. run_state (ResetPassword sample_account sample_service ?t new_password) (snd reset_done) = (r2, w3) \<Longrightarrow> r2 \<noteq> Inr ()"
    using reset_needs_the_mailed_token[OF sample_facts(1) run] ok env by blast
  have "u_ID u = 1" using u(1) by (auto simp: token_opens_def parse_token_of sample_facts)
  with u(2) ok again[OF prod.collapse[symmetric]] show ?thesis by simp
qed

definition forgot_sent :: "string response \<times> world" where
  "forgot_sent = run_state (Handler_ForgotPassword sample_account sample_service (Some ''alice@example.com''))
     (calm_world (empty_db\<lparr> db_users := [alice] \<rparr>))"

theorem mailed_link_resets_password_witness:
  "status_of (fst forgot_sent) = 200 \<and> (\<exists>token. w_mail (snd forgot_sent) = [reset_mail sample_service alice token]
     \<and> status_of (fst (run_state (Handler_ResetPassword sample_account sample_service (Some (token, new_password)))
          ((snd forgot_sent)\<lparr> w_env := calm_env, w_tick := 100 \<rparr>))) = 200)"
proof -
  let ?w = "calm_world (empty_db\<lparr> db_users := [alice] \<rparr>)"
  obtain cfg where m: "es_mail sample_service = SMTPMailer cfg" using sample_facts(6) by blast
  have run: "run_state (Handler_ForgotPassword sample_account sample_service (Some ''alice@example.com'')) ?w
      = (fst forgot_sent, snd forgot_sent)"
    by (simp add: forgot_sent_def)
  have "u_Email alice = ToLower (ae_unicode (ac_auth sample_account)) (TrimSpace ''alice@example.com'')" by code_simp
  then have u: "find_row (\<lambda>u. u_Email u = ToLower (ae_unicode (ac_auth sample_account)) (TrimSpace ''alice@example.com'') \<and> live_user u)
      (db_users (w_db ?w)) = Some alice"
    by (simp add: calm_facts live_user_def) (simp add: alice_def sample_user_def)
  show ?thesis
    using mailed_link_resets_password[OF _ _ m sample_facts(1) u run, of "(snd forgot_sent)\<lparr> w_env := calm_env, w_tick := 100 \<rparr>" new_password]
      sample_facts(2,3)
    by (simp add: calm_facts users_unique_def sample_facts(5,7)) (metis prod.collapse)
qed


end
