(* ===== verification/SampleApp.thy ===== *)
theory SampleApp
  imports Router AccountProps
begin

text \<open>
  A concrete app to instantiate properties at: the default settings, libraries that do little, and a router that
  compares paths segment by segment.
\<close>

text \<open>What is documented of gin: it selects a route of the table with the method of the request.\<close>

definition gin_ok :: "gin \<Rightarrow> bool" where
  "gin_ok G = (\<forall>rs verb path rt params. gin_match G rs verb path = Some (rt, params) \<longrightarrow> rt \<in> set rs \<and> rt_Method rt = verb)"

text \<open>Concrete inputs: a matcher that compares paths segment by segment, and the app of the default settings.\<close>

fun match_segments :: "string list \<Rightarrow> string list \<Rightarrow> (string \<times> string) list option" where
  "match_segments [] [] = Some []"
| "match_segments (p # ps) (s # ss) =
     (if HasPrefix p '':'' then map_option (Cons (tl p, s)) (match_segments ps ss)
      else if p = s then match_segments ps ss else None)"
| "match_segments _ _ = None"

definition toy_match :: "route list \<Rightarrow> string \<Rightarrow> string \<Rightarrow> (route \<times> (string \<Rightarrow> string)) option" where
  "toy_match rs verb path = (case filter (\<lambda>r. rt_Method r = verb
       \<and> match_segments (split_on CHR ''/'' (rt_Path r)) (split_on CHR ''/'' path) \<noteq> None) rs of
     [] \<Rightarrow> None
   | r # _ \<Rightarrow> Some (r, \<lambda>k. case map_of (the (match_segments (split_on CHR ''/'' (rt_Path r)) (split_on CHR ''/'' path))) k of
       None \<Rightarrow> '''' | Some v \<Rightarrow> v))"

definition toy_gin :: gin where
  "toy_gin = \<lparr> gin_match = toy_match, gin_pair = (\<lambda>_ _. None), gin_triple = (\<lambda>_ _. None), gin_field = (\<lambda>_ _. None),
     gin_flag = (\<lambda>_ _. None), gin_progress = (\<lambda>_. None), gin_patch = (\<lambda>_. None), gin_upload = (\<lambda>_. None),
     gin_report = (\<lambda>_. None) \<rparr>"

lemma toy_gin_ok: "gin_ok toy_gin"
proof -
  have "rt \<in> set rs \<and> rt_Method rt = verb" if "toy_match rs verb path = Some (rt, params)" for rs verb path rt params
  proof -
    from that obtain zs where "filter (\<lambda>r. rt_Method r = verb
       \<and> match_segments (split_on CHR ''/'' (rt_Path r)) (split_on CHR ''/'' path) \<noteq> None) rs = rt # zs"
      by (auto simp: toy_match_def split: list.splits)
    then have "rt \<in> set (filter (\<lambda>r. rt_Method r = verb
       \<and> match_segments (split_on CHR ''/'' (rt_Path r)) (split_on CHR ''/'' path) \<noteq> None) rs)" by simp
    then show ?thesis by simp
  qed
  then show ?thesis by (simp add: gin_ok_def toy_gin_def)
qed

definition no_codec :: "'a codec" where "no_codec = \<lparr> json_Marshal = (\<lambda>_. None), json_Unmarshal = (\<lambda>_. None) \<rparr>"

definition sample_runtime :: "(string \<times> Claims) list \<Rightarrow> runtime" where
  "sample_runtime cs = \<lparr> rn_uuid = sample_lib, rn_jwt = toy_jwt cs, rn_bcrypt = toy_bcrypt, rn_unicode = no_unicode,
     rn_canon = id, rn_zone = 0, rn_glob = (=),
     rn_text = \<lparr> tl_match = (\<lambda>_ _. False), tl_rank = (\<lambda>_ _. 0), tl_similarity = (\<lambda>_ _. 0), tl_fold = id, tl_collate = (\<lambda>_. 0) \<rparr>,
     rn_matches = (\<lambda>_ _. False),
     rn_analytics = \<lparr> an_uuid = sample_lib, an_date_trunc = (\<lambda>_. id), an_dashboard = no_codec, an_video = no_codec,
       an_videos = no_codec, an_user = no_codec, an_series = no_codec \<rparr>,
     rn_monitor = \<lparr> mo_cpu = (\<lambda>_. None), mo_memory = (\<lambda>_. None), mo_disk = (\<lambda>_. None), mo_goroutines = (\<lambda>_. 0),
       mo_queues = (\<lambda>_. None), mo_queue_info = (\<lambda>_ _. None), mo_servers = (\<lambda>_. None), mo_pool = (\<lambda>_. (0, 0, 0)),
       mo_slow_queries = (\<lambda>_. None), mo_table_sizes = (\<lambda>_. None), mo_redis_info = (\<lambda>_. None), mo_redis_dbsize = (\<lambda>_. None) \<rparr> \<rparr>"

definition sample_config :: Config where
  "sample_config = config_of_env [''JWT_ISSUER'' \<mapsto> ''vss'', ''JWT_SECRET'' \<mapsto> ''secret'']"

definition sample_app :: "(string \<times> Claims) list \<Rightarrow> App" where
  "sample_app cs = app_graph (sample_runtime cs) sample_config 0 (5 * Second) (Local (StorageConfig.truncate (cf_Storage sample_config)))
     (pool_config (cf_Database sample_config)) (redis_options (cf_Redis sample_config))"

lemma sample_app_built: "run_state (new_app (sample_runtime cs) sample_config) (calm_world d) = (Inr (sample_app cs), at_tick 6 (calm_world d))"
proof -
  have "\<not> mn_Enabled (cf_MinIO sample_config)" by code_simp
  then show ?thesis
    by (simp add: new_app_def storage_New_def openDatabase_def openRedis_def try_then_def os_call_def sample_app_def
        run_exec_def time_Now_def observe_def State_Monad.bind_def State_Monad.return_def
        calm_world_def at_tick_def calm_env_def del: One_nat_def)
qed


lemma sample_config_auth: "ag_JWTSecret (cf_Auth sample_config) = ''secret''" "ag_JWTIssuer (cf_Auth sample_config) = ''vss''"
    "ag_AccessTokenTTL (cf_Auth sample_config) = 15 * Minute" "ag_RefreshTokenTTL (cf_Auth sample_config) = 168 * Hour"
    "\<not> ag_RevocationFailOpen (cf_Auth sample_config)"
  by code_simp+

lemma sample_uuid_1: "uuid_String sample_lib 1 = ''1''" "uuid_Parse sample_lib ''1'' = Some 1"
  by code_simp+

lemma sample_app_cfg: "ap_cfg (sample_app cs) = sample_config"
  by (simp add: sample_app_def app_graph_def Let_def)

end
