(* ===== verification/RouterProps.thy ===== *)
theory RouterProps
  imports SampleApp
begin

text \<open>
  What the routes guarantee of every request, whichever handler it reaches: who gets through to an endpoint,
  what a refused request leaves behind, and what the wiring of the services means for sessions.
\<close>

section \<open>Requests that reach no handler\<close>

text \<open>Nothing changes but the windows of the rate limiter.\<close>

definition limiter_key :: "string \<Rightarrow> bool" where "limiter_key k = HasPrefix k ''ratelimit:''"

definition untouched :: "world \<Rightarrow> world \<Rightarrow> bool" where
  "untouched w v = (w_env v = w_env w \<and> w_tick w \<le> w_tick v \<and> w_db v = w_db w \<and> w_jobs v = w_jobs w
     \<and> w_objects v = w_objects w \<and> w_mail v = w_mail w \<and> w_local v = w_local w
     \<and> (\<forall>k. \<not> limiter_key k \<longrightarrow> w_redis v k = w_redis w k))"

lemma preorder_untouched [simp]: "preorder untouched"
  by (auto simp: preorder_def untouched_def)

lemma untouched_refl [simp]: "untouched w w"
  by (simp add: untouched_def)

lemma untouched_trans: "untouched u v \<Longrightarrow> untouched v w \<Longrightarrow> untouched u w"
  by (auto simp: untouched_def)

lemma untouched_observe: "steps untouched (observe f)" "steps untouched (redis_MGet keys)"
  by (auto simp: steps_def observe_def redis_MGet_def untouched_def Let_def)

lemma untouched_window:
  assumes "limiter_key key"
  shows "steps untouched (redis_add d key)" "steps untouched (redis_Expire key ttl)"
  using assms
  by (auto simp: steps_def redis_add_def redis_Expire_def run_put_def untouched_def Let_def
      split: outcome.splits option.splits)

lemma limiter_windowKey: "limiter_key (windowKeyOf ruleName key t)"
  by (simp add: limiter_key_def windowKeyOf_def HasPrefix_def)

lemmas untouched_intros = steps_intros preorder_untouched untouched_observe untouched_window limiter_windowKey

lemma untouched_limit: "steps untouched (rateLimitWith lib rl ruleName ip c)"
  unfolding rateLimitWith_def Allow_def redis_Incr_def time_Now_def Let_def
  by (intro untouched_intros)

lemma untouched_principal:
  assumes "au_revocations a = Some IsRevoked"
  shows "steps untouched (principalFromRequest lib J a header)"
  unfolding principalFromRequest_def ValidateAccessToken_def validate_def ValidateToken_def time_Now_def checkRevocation_def assms
    IsRevoked_def Let_def option.case
  by (intro untouched_intros)

lemma untouched_RequestID: "steps untouched (RequestID lib s)"
  unfolding RequestID_def uuid_New_def by (intro untouched_intros)

section \<open>The guards\<close>

text \<open>A caller the middleware recognised at some moment of the request, by the denylist as it was when it began.\<close>

definition admitted :: "runtime \<Rightarrow> App \<Rightarrow> http_request \<Rightarrow> world \<Rightarrow> Principal \<Rightarrow> bool" where
  "admitted R a hq w P = (\<exists>v. untouched w v
     \<and> accepts (rn_uuid R) (rn_jwt R) (ap_authenticator a) (hq_Authorization hq) v P)"

definition refused :: "world \<Rightarrow> 'b response \<Rightarrow> world \<Rightarrow> bool" where
  "refused w resp w' = (status_of resp \<in> {401, 403, 429, 503} \<and> untouched w w')"

definition plain :: "guard \<Rightarrow> bool" where "plain g = (g \<noteq> NeedAuth \<and> g \<noteq> MayAuth)"

lemma guard_plain:
  assumes "plain g"
  shows "wp (run_guard R a hq g c) (\<lambda>(h, p) v. untouched w v \<and>
     ((p = Next c \<and> (\<forall>q. g = NeedPermission q \<longrightarrow> (\<exists>P. rq_principal c = Some P \<and> Principal_HasPermission P q)))
      \<or> (\<exists>resp. p = Answer resp \<and> refused w resp v))) w"
proof (cases g)
  case (Limited ruleName)
  have "wp (rateLimitWith lib rl ruleName ip c) (\<lambda>(h, p) v. p = Next c \<or>
      (\<exists>resp. p = Answer resp \<and> status_of resp = 429)) w" for lib rl ip
    by (auto simp: rateLimitWith_def wp_bind wp_case_sum wp_return wp_time_Now wp_Let split: sum.splits intro!: wp_any)
  note limit = wp_conj[OF this steps_wp[OF untouched_limit]]
  show ?thesis
    by (auto simp: Limited run_guard_def Let_def wp_return refused_def intro!: wp_mono[OF limit])
next
  case (NeedPermission q)
  then show ?thesis
    by (auto simp: run_guard_def Let_def wp_return RequirePermission_def PrincipalFrom_def refused_def response_defs
        split: option.splits)
qed (use assms in \<open>simp_all add: plain_def\<close>)

lemma guard_auth:
  assumes "au_revocations (ap_authenticator a) = Some IsRevoked" "\<not> au_revocationFailOpen (ap_authenticator a)"
  shows "wp (run_guard R a hq NeedAuth c) (\<lambda>(h, p) v. untouched w v \<and>
     ((\<exists>P. p = Next (WithPrincipal c P) \<and> accepts (rn_uuid R) (rn_jwt R) (ap_authenticator a) (hq_Authorization hq) w P)
      \<or> (\<exists>resp. p = Answer resp \<and> refused w resp v))) w"
  by (auto simp: run_guard_def Let_def RequireAuth_def wp_bind wp_return refused_def response_defs split: sum.splits if_splits
      intro!: wp_mono[OF wp_conj[OF wp_principalFromRequest[OF assms] steps_wp[OF untouched_principal[OF assms(1)]]]])

text \<open>A chain without authentication: the handler runs on the request as it is, and every permission held.\<close>

definition reaches :: "(request \<Rightarrow> body response prog) \<Rightarrow> guard list \<Rightarrow> world \<Rightarrow> request \<Rightarrow> body response \<Rightarrow> world \<Rightarrow> bool" where
  "reaches k gs w c resp w' = ((\<exists>v. untouched w v \<and> run_state (k c) v = (resp, w'))
     \<and> (\<forall>q. NeedPermission q \<in> set gs \<longrightarrow> (\<exists>P. rq_principal c = Some P \<and> Principal_HasPermission P q)))"

lemma chain_plain:
  assumes "list_all plain gs"
  shows "wp (run_chain R a hq gs hs c k) (\<lambda>(h, resp) w'. reaches k gs w c resp w' \<or> refused w resp w') w"
  using assms
proof (induction gs arbitrary: hs w)
  case Nil
  show ?case by (auto simp: wp_bind wp_return reaches_def wp_def split: prod.splits intro!: exI[of _ w])
next
  case (Cons g gs)
  have later: "wp (run_chain R a hq gs hs' c k) (\<lambda>(h, resp) w'. reaches k (g # gs) w c resp w' \<or> refused w resp w') v"
    if "untouched w v" "\<forall>q. g = NeedPermission q \<longrightarrow> (\<exists>P. rq_principal c = Some P \<and> Principal_HasPermission P q)" for hs' v
    by (rule wp_mono[OF Cons.IH]) (use Cons.prems that in \<open>auto simp: reaches_def refused_def intro: untouched_trans\<close>)
  show ?case
    by (simp add: wp_bind wp_case_prod del: split_paired_All, rule wp_mono[OF guard_plain])
      (use Cons.prems later in \<open>auto simp: wp_return\<close>)
qed


definition through :: "runtime \<Rightarrow> App \<Rightarrow> http_request \<Rightarrow> (request \<Rightarrow> body response prog) \<Rightarrow> guard list \<Rightarrow> world \<Rightarrow> request
    \<Rightarrow> body response \<Rightarrow> world \<Rightarrow> bool" where
  "through R a hq k gs w c resp w' = (\<exists>P v. admitted R a hq w P \<and> untouched w v
     \<and> run_state (k (WithPrincipal c P)) v = (resp, w') \<and> (\<forall>q. NeedPermission q \<in> set gs \<longrightarrow> Principal_HasPermission P q))"

lemma through_later: "untouched w v \<Longrightarrow> through R a hq k gs v c resp w' \<Longrightarrow> through R a hq k gs w c resp w'"
  unfolding through_def admitted_def by (meson untouched_trans)

lemma refused_later: "untouched w v \<Longrightarrow> refused v resp w' \<Longrightarrow> refused w resp w'"
  by (auto simp: refused_def intro: untouched_trans)

text \<open>A chain with one authentication in the middle.\<close>

lemma chain_auth:
  assumes auth: "au_revocations (ap_authenticator a) = Some IsRevoked" "\<not> au_revocationFailOpen (ap_authenticator a)"
    and post: "list_all plain post"
  shows "wp (run_chain R a hq (NeedAuth # post) hs c k) (\<lambda>(h, resp) w'. through R a hq k post w c resp w' \<or> refused w resp w') w"
proof -
  have later: "wp (run_chain R a hq post hs' (WithPrincipal c P) k)
      (\<lambda>(h, resp) w'. through R a hq k post w c resp w' \<or> refused w resp w') v"
    if "untouched w v" "accepts (rn_uuid R) (rn_jwt R) (ap_authenticator a) (hq_Authorization hq) w P" for hs' v P
    by (rule wp_mono[OF chain_plain[OF post]])
      (use that in \<open>auto simp: reaches_def through_def admitted_def WithPrincipal_def intro: refused_later untouched_trans untouched_refl\<close>)
  show ?thesis
    by (simp add: wp_bind wp_case_prod del: split_paired_All, rule wp_mono[OF guard_auth[OF auth]])
      (use later in \<open>auto simp: wp_return\<close>)
qed

lemma chain_secured:
  assumes auth: "au_revocations (ap_authenticator a) = Some IsRevoked" "\<not> au_revocationFailOpen (ap_authenticator a)"
    and "list_all plain pre" "list_all plain post"
  shows "wp (run_chain R a hq (pre @ NeedAuth # post) hs c k)
     (\<lambda>(h, resp) w'. through R a hq k post w c resp w' \<or> refused w resp w') w"
  using assms(3)
proof (induction pre arbitrary: hs w)
  case Nil
  show ?case using chain_auth[OF auth assms(4)] by simp
next
  case (Cons g pre)
  have later: "wp (run_chain R a hq (pre @ NeedAuth # post) hs' c k)
      (\<lambda>(h, resp) w'. through R a hq k post w c resp w' \<or> refused w resp w') v" if "untouched w v" for hs' v
    by (rule wp_mono[OF Cons.IH]) (use Cons.prems that in \<open>auto intro: through_later refused_later\<close>)
  show ?case
    by (simp only: append_Cons run_chain.simps wp_bind, rule wp_mono[OF guard_plain])
      (use Cons.prems later in \<open>auto simp: wp_return\<close>)
qed

section \<open>The policy\<close>

text \<open>Who may use which endpoint.\<close>

datatype access = Everyone | SignedIn | Holder Permission

definition required_access :: "endpoint \<Rightarrow> access" where
  "required_access e = (case e of
     SiteE x \<Rightarrow> Everyone
   | AccountE x \<Rightarrow> if x \<in> {E_Me, E_Logout, E_LogoutAll, E_SendVerificationEmail, E_ChangePassword} then SignedIn else Everyone
   | VideoE x \<Rightarrow> if x = E_Upload then Holder PermissionUploadVideo
       else if x \<in> {E_DeleteVideo, E_SaveProgress, E_GetHistory, E_ClearHistory, E_DeleteHistoryEntry} then SignedIn
       else Everyone
   | SearchE x \<Rightarrow> if x = E_Feed then SignedIn else Everyone
   | SocialE x \<Rightarrow> if x \<in> {E_ListComments, E_ListReplies, E_ListSubscribers, E_GetPlaylist, E_ListPlaylistVideos} then Everyone
       else SignedIn
   | AdminE x \<Rightarrow> if x = E_CreateReport then SignedIn
       else if x \<in> {E_BanUser, E_UnbanUser} then Holder PermissionManageUsers else Holder PermissionModerateContent
   | MetricsE x \<Rightarrow>
       if x \<in> {E_GetDashboard, E_GetRealtimeMetrics, E_GetTopVideos, E_GetVideoAnalytics, E_GetViewsTimeSeries}
       then Holder PermissionViewAnalytics else Holder PermissionManageUsers)"

definition secured :: "access \<Rightarrow> guard list \<Rightarrow> bool" where
  "secured acc gs = (let rest = dropWhile plain gs in rest \<noteq> [] \<and> hd rest = NeedAuth \<and> list_all plain (tl rest)
     \<and> (case acc of Holder p \<Rightarrow> NeedPermission p \<in> set (tl rest) | _ \<Rightarrow> True))"

lemma secured_split:
  assumes "secured acc gs"
  shows "\<exists>post. gs = takeWhile plain gs @ NeedAuth # post \<and> list_all plain post
    \<and> (\<forall>p. acc = Holder p \<longrightarrow> NeedPermission p \<in> set post)"
proof (intro exI conjI)
  let ?rest = "dropWhile plain gs"
  have r: "?rest \<noteq> []" "hd ?rest = NeedAuth" "list_all plain (tl ?rest)"
    "case acc of Holder p \<Rightarrow> NeedPermission p \<in> set (tl ?rest) | _ \<Rightarrow> True"
    using assms by (simp_all add: secured_def Let_def)
  have "?rest = NeedAuth # tl ?rest" using r(1,2) by (metis list.collapse)
  then show "gs = takeWhile plain gs @ NeedAuth # tl ?rest" by (metis takeWhile_dropWhile_id)
  show "list_all plain (tl ?rest)" by (rule r(3))
  show "\<forall>p. acc = Holder p \<longrightarrow> NeedPermission p \<in> set (tl ?rest)" using r(4) by (cases acc) simp_all
qed

lemma routes_secured:
  "list_all (\<lambda>r. rt_Method r \<noteq> ''OPTIONS''
     \<and> (required_access (rt_Endpoint r) = Everyone \<or> secured (required_access (rt_Endpoint r)) (rt_Guards r))) routes"
  by code_simp

lemma wp_serve:
  assumes auth: "au_revocations (ap_authenticator a) = Some IsRevoked" "\<not> au_revocationFailOpen (ap_authenticator a)"
    and G: "gin_ok G" "gin_match G routes (hq_Method hq) (hq_Path hq) = Some (rt, params)"
    and acc: "required_access (rt_Endpoint rt) \<noteq> Everyone"
  shows "wp (serve R G a hq) (\<lambda>(h, resp) w'.
     (\<exists>c post. rq_param c = params \<and> through R a hq (handle R a G hq (rt_Endpoint rt)) post w c resp w'
        \<and> (\<forall>p. required_access (rt_Endpoint rt) = Holder p \<longrightarrow> NeedPermission p \<in> set post))
     \<or> refused w resp w') w"
proof -
  have rt: "rt \<in> set routes" "rt_Method rt = hq_Method hq" using G unfolding gin_ok_def by blast+
  then have "rt_Method rt \<noteq> ''OPTIONS'' \<and> secured (required_access (rt_Endpoint rt)) (rt_Guards rt)"
    using routes_secured acc unfolding list_all_iff by blast
  then have m: "hq_Method hq \<noteq> ''OPTIONS''" and s: "secured (required_access (rt_Endpoint rt)) (rt_Guards rt)"
    using rt(2) by simp_all
  obtain post where gs: "rt_Guards rt = takeWhile plain (rt_Guards rt) @ NeedAuth # post" "list_all plain post"
    and p: "\<forall>p. required_access (rt_Endpoint rt) = Holder p \<longrightarrow> NeedPermission p \<in> set post"
    using secured_split[OF s] by blast
  have pre: "list_all plain (takeWhile plain (rt_Guards rt))"
    by (auto simp: list_all_iff dest: set_takeWhileD)
  have chain: "wp (run_chain R a hq (rt_Guards rt) hs c k)
      (\<lambda>(h, resp) w'. through R a hq k post v c resp w' \<or> refused v resp w') v" for hs c k v
    using chain_secured[OF auth pre gs(2), of R hq hs c k v] by (simp only: gs(1)[symmetric])
  let ?c = "\<lparr> rq_principal = None, rq_param = params, rq_query = hq_Query hq \<rparr>"
  let ?k = "handle R a G hq (rt_Endpoint rt)"
  have run: "wp (run_chain R a hq (rt_Guards rt) hs ?c ?k) (\<lambda>(h, resp) w'.
     (\<exists>c post. rq_param c = params \<and> through R a hq ?k post w c resp w'
        \<and> (\<forall>p. required_access (rt_Endpoint rt) = Holder p \<longrightarrow> NeedPermission p \<in> set post))
     \<or> refused w resp w') v" if v: "untouched w v" for hs v
  proof (rule wp_mono[OF chain], clarify)
    fix h resp w'
    assume "through R a hq ?k post v ?c resp w' \<or> refused v resp w'" "\<not> refused w resp w'"
    then have "through R a hq ?k post w ?c resp w'" using through_later[OF v] refused_later[OF v] by blast
    then show "\<exists>c post. rq_param c = params \<and> through R a hq ?k post w c resp w'
        \<and> (\<forall>p. required_access (rt_Endpoint rt) = Holder p \<longrightarrow> NeedPermission p \<in> set post)"
      using p by (intro exI[of _ ?c] exI[of _ post]) simp
  qed
  show ?thesis
  proof (simp only: serve_def wp_bind, rule wp_mono[OF steps_wp[OF untouched_RequestID]])
    fix x v
    assume "untouched w v"
    from run[OF this] show "wp (let c0 = \<lparr> rq_principal = None, rq_param = (\<lambda>_. ''''), rq_query = hq_Query hq \<rparr>
      in case CORS (rn_canon R) (cf_CORS (ap_cfg a)) (hq_Method hq) (hq_Origin hq) c0 of
        (hs, Answer resp) \<Rightarrow> State_Monad.return (fst x @ hs, resp)
      | (hs, Next c) \<Rightarrow> (case gin_match G routes (hq_Method hq) (hq_Path hq) of
            None \<Rightarrow> State_Monad.return (fst x @ hs, NoBody 404)
          | Some (rt, params) \<Rightarrow> run_chain R a hq (rt_Guards rt) (fst x @ hs) (c\<lparr> rq_param := params \<rparr>)
              (handle R a G hq (rt_Endpoint rt))))
      (\<lambda>(h, resp) w'.
     (\<exists>c post. rq_param c = params \<and> through R a hq ?k post w c resp w'
        \<and> (\<forall>p. required_access (rt_Endpoint rt) = Holder p \<longrightarrow> NeedPermission p \<in> set post))
     \<or> refused w resp w') v"
      by (simp only: CORS_def m G(2) Let_def prod.case passage.case option.case if_False request.update_convs)
  qed
qed

section \<open>The wiring\<close>

lemma new_app_graph:
  "wp (new_app R cfg) (\<lambda>r _. \<forall>a. r = Inr a \<longrightarrow> (\<exists>t1 t2 store pool redis. a = app_graph R cfg t1 t2 store pool redis)) w"
proof -
  have built: "wp (try_then m f) (\<lambda>r _. \<forall>a. r = Inr a \<longrightarrow> P a) v"
    if "\<And>x v. wp (f x) (\<lambda>r _. \<forall>a. r = Inr a \<longrightarrow> P a) v" for m :: "(err + 'x) prog" and f and P :: "App \<Rightarrow> bool" and v
    unfolding try_then_def wp_bind by (rule wp_any) (simp add: wp_return that split: sum.splits)
  show ?thesis
    unfolding new_app_def wp_bind
    by (rule wp_any, intro built, simp only: wp_bind, rule wp_any) (simp add: wp_return, blast)
qed

lemma app_graph_auth:
  "au_revocations (ap_authenticator (app_graph R cfg t1 t2 store pool redis)) = Some IsRevoked"
  "au_revocationFailOpen (ap_authenticator (app_graph R cfg t1 t2 store pool redis)) = ag_RevocationFailOpen (cf_Auth cfg)"
  by (simp_all add: app_graph_def Let_def)

section \<open>Access\<close>

text \<open>C31: What the routes promise for every endpoint that needs a sign-in or a permission, in any app that New
  builds with the denylist failing closed: a request is either answered 401, 403, 429 or 503 and nothing changes
  but the limiter's windows, or its bearer token names a principal that RequireAuth admits on the denylist as it
  was, with the permission the endpoint needs, and the handler runs as that principal on an untouched state.\<close>

theorem access_policy_enforced:
  assumes "run_state (new_app R cfg) w0 = (Inr a, w1)" "\<not> ag_RevocationFailOpen (cf_Auth cfg)"
    and "gin_ok G" "gin_match G routes (hq_Method hq) (hq_Path hq) = Some (rt, params)"
    and "required_access (rt_Endpoint rt) \<noteq> Everyone"
    and run: "run_state (serve R G a hq) w = ((h, resp), w')"
  shows "(status_of resp \<in> {401, 403, 429, 503} \<and> untouched w w')
     \<or> (\<exists>P v c. admitted R a hq w P \<and> (\<forall>p. required_access (rt_Endpoint rt) = Holder p \<longrightarrow> Principal_HasPermission P p)
          \<and> rq_principal c = Some P \<and> rq_param c = params \<and> untouched w v
          \<and> run_state (handle R a G hq (rt_Endpoint rt) c) v = (resp, w'))"
proof -
  obtain t1 t2 store pool redis where a: "a = app_graph R cfg t1 t2 store pool redis"
    using wp_result[OF new_app_graph assms(1)] by blast
  have "au_revocations (ap_authenticator a) = Some IsRevoked" "\<not> au_revocationFailOpen (ap_authenticator a)"
    using assms(2) by (simp_all add: a app_graph_auth)
  from wp_result[OF wp_serve[OF this assms(3-5)] run] consider
      c post where "rq_param c = params" "through R a hq (handle R a G hq (rt_Endpoint rt)) post w c resp w'"
        "\<forall>p. required_access (rt_Endpoint rt) = Holder p \<longrightarrow> NeedPermission p \<in> set post"
    | "refused w resp w'" by auto
  then show ?thesis
  proof cases
    case 1
    then obtain P v where "admitted R a hq w P" "untouched w v"
        "run_state (handle R a G hq (rt_Endpoint rt) (WithPrincipal c P)) v = (resp, w')"
        "\<forall>p. required_access (rt_Endpoint rt) = Holder p \<longrightarrow> Principal_HasPermission P p"
      unfolding through_def by blast
    then show ?thesis using 1(1)
      by (intro disjI2 exI[of _ P] exI[of _ v] exI[of _ "WithPrincipal c P"]) (simp add: WithPrincipal_def)
  qed (simp add: refused_def)
qed


definition admin_tokens :: "(string \<times> Claims) list" where
  "admin_tokens = [(''T'', sample_claims ''3'' ''carol'' ''admin'' (10 * Second) (15 * Minute) ''access'')]"

definition unban_request :: http_request where
  "unban_request = \<lparr> hq_Method = ''POST'', hq_Path = ''/api/v1/admin/users/2/unban'', hq_Query = (\<lambda>_. None),
     hq_Authorization = ''Bearer T'', hq_Origin = '''', hq_RequestID = '''', hq_UserAgent = '''', hq_ClientIP = ''10.0.0.1'', hq_Body = '''' \<rparr>"

definition unban_db :: db where
  "unban_db = empty_db\<lparr> db_users := [(sample_user 2 ''bob'' RoleUser)\<lparr> u_IsBanned := True \<rparr>, sample_user 3 ''carol'' RoleAdmin] \<rparr>"

definition unbanned :: "(headers \<times> body response) \<times> world" where
  "unbanned = run_state (serve (sample_runtime admin_tokens) toy_gin (sample_app admin_tokens) unban_request)
     (at_tick 20 (calm_world unban_db))"

definition unban_route :: "route \<times> (string \<Rightarrow> string)" where
  "unban_route = the (toy_match routes ''POST'' ''/api/v1/admin/users/2/unban'')"

lemma unban_route_is: "toy_match routes ''POST'' ''/api/v1/admin/users/2/unban'' = Some unban_route"
proof -
  have "toy_match routes ''POST'' ''/api/v1/admin/users/2/unban'' \<noteq> None" by code_simp
  then show ?thesis by (auto simp: unban_route_def)
qed

lemma unban_route_facts:
  "rt_Endpoint (fst unban_route) = AdminE E_UnbanUser"
  "rt_Guards (fst unban_route) = [NeedAuth, NeedPermission PermissionManageUsers]"
  by code_simp+

definition sample_guard :: Authenticator where
  "sample_guard = \<lparr> au_tokens = \<lparr> ts_secretKey = ''secret'', ts_accessTTL = 15 * Minute, ts_refreshTTL = 168 * Hour, ts_issuer = ''vss'' \<rparr>,
     au_revocations = Some IsRevoked, au_revocationFailOpen = False \<rparr>"

lemma sample_app_guard: "ap_authenticator (sample_app cs) = sample_guard"
proof -
  have "ag_JWTSecret (cf_Auth sample_config) = ''secret''" "ag_JWTIssuer (cf_Auth sample_config) = ''vss''"
    "ag_AccessTokenTTL (cf_Auth sample_config) = 15 * Minute" "ag_RefreshTokenTTL (cf_Auth sample_config) = 168 * Hour"
    "\<not> ag_RevocationFailOpen (cf_Auth sample_config)"
    by code_simp+
  then show ?thesis by (simp add: sample_app_def app_graph_def auth_service_def token_service_def Let_def sample_guard_def)
qed

definition unban_run :: "(headers \<times> body response) prog" where
  "unban_run = do {
     rid \<leftarrow> RequestID sample_lib '''';
     r \<leftarrow> RequireAuth sample_lib (toy_jwt admin_tokens) sample_guard ''Bearer T''
       \<lparr> rq_principal = None, rq_param = snd unban_route, rq_query = (\<lambda>_. None) \<rparr>;
     let hs = fst rid @ cors_headers id (cf_CORS sample_config) '''';
     case r of Answer resp \<Rightarrow> State_Monad.return (hs, resp)
     | Next c \<Rightarrow> (case RequirePermission PermissionManageUsers c of
         Answer resp \<Rightarrow> State_Monad.return (hs, resp)
       | Next c' \<Rightarrow> do { resp \<leftarrow> as_body ModerationB (Handler_UnbanUser sample_lib c'); State_Monad.return (hs, resp) }) }"

lemma unbanned_run: "unbanned = run_state unban_run (at_tick 20 (calm_world unban_db))"
proof -
  have R: "rn_uuid (sample_runtime cs) = sample_lib" "rn_canon (sample_runtime cs) = id" "rn_jwt (sample_runtime cs) = toy_jwt cs" for cs
    by (simp_all add: sample_runtime_def)
  have handle: "handle (sample_runtime admin_tokens) (sample_app admin_tokens) toy_gin unban_request (AdminE E_UnbanUser)
      = (\<lambda>c. as_body ModerationB (Handler_UnbanUser sample_lib c))"
    by (rule ext) (simp add: handle_def handle_admin_def Let_def R)
  have hq: "hq_Method unban_request = ''POST''" "hq_Path unban_request = ''/api/v1/admin/users/2/unban''"
    "hq_Query unban_request = (\<lambda>_. None)" "hq_Origin unban_request = ''''" "hq_Authorization unban_request = ''Bearer T''" "hq_RequestID unban_request = ''''"
    by (simp_all add: unban_request_def)
  have match: "gin_match toy_gin routes (hq_Method unban_request) (hq_Path unban_request) = Some (fst unban_route, snd unban_route)"
    by (simp add: toy_gin_def unban_request_def unban_route_is)
  have "serve (sample_runtime admin_tokens) toy_gin (sample_app admin_tokens) unban_request = unban_run"
    unfolding serve_def unban_run_def match unban_route_facts R
    by (simp add: CORS_def sample_app_cfg unban_route_facts handle hq case_prod_unfold run_guard_def R sample_app_guard Let_def del: append_Cons
        cong: passage.case_cong)
  then show ?thesis by (simp add: unbanned_def)
qed

lemma unban_status: "status_of (snd (fst unbanned)) = 200"
  unfolding unbanned_run by code_simp

theorem access_policy_enforced_witness:
  "\<exists>P v c. admitted (sample_runtime admin_tokens) (sample_app admin_tokens) unban_request (at_tick 20 (calm_world unban_db)) P
     \<and> Principal_HasPermission P PermissionManageUsers \<and> rq_principal c = Some P \<and> rq_param c = snd unban_route
     \<and> untouched (at_tick 20 (calm_world unban_db)) v
     \<and> run_state (handle (sample_runtime admin_tokens) (sample_app admin_tokens) toy_gin unban_request (AdminE E_UnbanUser) c) v
       = (snd (fst unbanned), snd unbanned)"
proof -
  obtain h resp w' where u: "unbanned = ((h, resp), w')" by (metis prod.collapse)
  have acc: "required_access (AdminE E_UnbanUser) = Holder PermissionManageUsers" by code_simp
  have match: "gin_match toy_gin routes (hq_Method unban_request) (hq_Path unban_request) = Some (fst unban_route, snd unban_route)"
    by (simp add: toy_gin_def unban_request_def unban_route_is)
  have closed: "\<not> ag_RevocationFailOpen (cf_Auth sample_config)" by code_simp
  have "required_access (rt_Endpoint (fst unban_route)) \<noteq> Everyone" by (simp add: unban_route_facts acc)
  from access_policy_enforced[OF sample_app_built closed toy_gin_ok match this u[unfolded unbanned_def]]
  show ?thesis using unban_status by (auto simp: u unban_route_facts acc)
qed


section \<open>Sessions as they are wired\<close>

text \<open>C32: What logout-all is worth for refresh tokens in the service New builds: the cutoff it stores lives only as
  long as an access token.  Once that time has passed, a refresh token issued before the logout, not expired and
  not denied by itself, is accepted again in any state that kept the denylist as the logout left it, and a new
  access token is signed for the account.\<close>

theorem refresh_outlives_logout_all:
  assumes A: "A = auth_service R cfg" "0 < ag_AccessTokenTTL (cf_Auth cfg)"
    and out: "run_state (RevokeAllSessions A (u_ID user)) w = (Inr (), w1)"
    and later: "w_redis w2 = w_redis w1"
      "clock_at (w_env w) (Suc (w_tick w)) + max 1 (ag_AccessTokenTTL (cf_Auth cfg) div 1000000) * 1000000
        \<le> clock_at (w_env w2) (Suc (w_tick w2))"
    and well: "outcome_at (w_env w2) (w_tick w2 + 1) = Done" "outcome_at (w_env w2) (w_tick w2 + 2) = Done"
    and token: "jwt_parse (rn_jwt R) (ag_JWTSecret (cf_Auth cfg)) (ag_JWTIssuer (cf_Auth cfg)) (clock_at (w_env w2) (w_tick w2)) token = Some c"
      "cl_Type c = ''refresh''" "cl_UserID c = uuid_String (rn_uuid R) (u_ID user)" "IssuedAtTime c \<le> clock_at (w_env w) (w_tick w)"
      "w_redis w1 (revokedTokenKeyPrefix @ cl_ID c) = None"
    and user: "uuid_Parse (rn_uuid R) (cl_UserID c) = Some (u_ID user)" "live_row (u_ID user) (w_db w2) = Some user"
      "\<not> IsCurrentlyBanned (clock_at (w_env w2) (w_tick w2 + 3)) user"
    and sign: "jwt_sign (rn_jwt R) (ag_JWTSecret (cf_Auth cfg))
        (signed_claims (rn_uuid R) (token_service (cf_Auth cfg)) (cl_UserID c) (u_Username user) (role_name (u_Role user)) ''access''
          (ag_AccessTokenTTL (cf_Auth cfg)) (at_tick (w_tick w2 + 4) w2)) = Some access"
  shows "\<exists>tp. fst (run_state (Auth_Refresh A token) w2) = Inr tp \<and> tp_AccessToken tp = access \<and> tp_RefreshToken tp = token"
proof -
  let ?key = "minIssuedAtKeyPrefix @ uuid_String (rn_uuid R) (u_ID user)"
  have A': "ae_uuid A = rn_uuid R" "ae_jwt A = rn_jwt R" "ae_tokens A = token_service (cf_Auth cfg)"
    "ae_maxTokenTTL A = ag_AccessTokenTTL (cf_Auth cfg)" "ts_secretKey (token_service (cf_Auth cfg)) = ag_JWTSecret (cf_Auth cfg)"
    "ts_issuer (token_service (cf_Auth cfg)) = ag_JWTIssuer (cf_Auth cfg)" "ts_accessTTL (token_service (cf_Auth cfg)) = ag_AccessTokenTTL (cf_Auth cfg)"
    by (simp_all add: A(1) auth_service_def token_service_def)
  obtain v where "w_redis w1 ?key = Some (v, redis_expiry (clock_at (w_env w) (Suc (w_tick w))) (ae_maxTokenTTL A))"
    using wp_result[OF wp_RevokeAll out[unfolded RevokeAllSessions_def]] by (auto simp: A'(1))
  then have cutoff: "redis_live (clock_at (w_env w2) (Suc (w_tick w2))) (w_redis w2 ?key) = None"
    using later A(2) by (simp add: A'(4) redis_live_def redis_expiry_def)
  have four: "w_tick w2 + 4 = Suc (Suc (Suc (Suc (w_tick w2))))" by simp
  have "wp (Auth_Refresh A token) (\<lambda>r _. \<exists>tp. r = Inr tp \<and> tp_AccessToken tp = access \<and> tp_RefreshToken tp = token) w2"
    using token(1,2,3,5) user(2,3) well sign[unfolded four] later(1) cutoff user(1)
    by (simp add: Auth_Refresh_def ValidateRefreshToken_def wp_simps A' check_type_refresh IsRevoked_def revocation_verdict_def
        UserRepo_GetByID_def live_row_def renewAccess_def GenerateToken_def at_tick_def redis_live_def[of _ None] numeral_2_eq_2 numeral_3_eq_3)
  then show ?thesis by (simp add: wp_def split: prod.splits)
qed


definition outliving_tokens :: "(string \<times> Claims) list" where
  "outliving_tokens = [(''R'', sample_claims ''1'' ''alice'' ''user'' (10 * Second) (168 * Hour) ''refresh''),
     (''A'', signed_claims sample_lib sample_tokens ''1'' ''alice'' ''user'' ''access'' (15 * Minute) (at_tick 1004 (calm_world empty_db)))]"

definition all_revoked :: world where
  "all_revoked = snd (run_state (RevokeAllSessions (auth_service (sample_runtime outliving_tokens) sample_config) 1)
     (at_tick 20 (calm_world (empty_db\<lparr> db_users := [alice] \<rparr>))))"

lemma all_revoked_is: "all_revoked = (at_tick 22 (calm_world (empty_db\<lparr> db_users := [alice] \<rparr>)))\<lparr> w_redis := [minIssuedAtKeyPrefix @ ''1'' \<mapsto>
     (Itoa (UnixMilli (20 * Second) + 1), Some (21 * Second + 15 * Minute))] \<rparr>"
  "run_state (RevokeAllSessions (auth_service (sample_runtime outliving_tokens) sample_config) 1)
     (at_tick 20 (calm_world (empty_db\<lparr> db_users := [alice] \<rparr>))) = (Inr (), all_revoked)"
proof -
  have run: "run_state (RevokeAllSessions (auth_service (sample_runtime outliving_tokens) sample_config) 1)
     (at_tick 20 (calm_world (empty_db\<lparr> db_users := [alice] \<rparr>))) = (Inr (), (at_tick 22 (calm_world (empty_db\<lparr> db_users := [alice] \<rparr>)))\<lparr>
       w_redis := [minIssuedAtKeyPrefix @ ''1'' \<mapsto> (Itoa (UnixMilli (20 * Second) + 1), Some (21 * Second + 15 * Minute))] \<rparr>)"
    by (simp add: RevokeAllSessions_def RevokeAllUserSessions_def auth_service_def sample_runtime_def time_Now_def observe_def
        State_Monad.bind_def redis_Set_def run_put_def redis_expiry_def at_tick_def calm_world_def calm_env_def
        sample_config_auth sample_uuid_1 Let_def)
  then show "all_revoked = (at_tick 22 (calm_world (empty_db\<lparr> db_users := [alice] \<rparr>)))\<lparr> w_redis := [minIssuedAtKeyPrefix @ ''1'' \<mapsto>
     (Itoa (UnixMilli (20 * Second) + 1), Some (21 * Second + 15 * Minute))] \<rparr>"
    by (simp add: all_revoked_def)
  with run show "run_state (RevokeAllSessions (auth_service (sample_runtime outliving_tokens) sample_config) 1)
     (at_tick 20 (calm_world (empty_db\<lparr> db_users := [alice] \<rparr>))) = (Inr (), all_revoked)" by simp
qed

theorem refresh_outlives_logout_all_witness:
  "\<exists>tp. fst (run_state (Auth_Refresh (auth_service (sample_runtime outliving_tokens) sample_config) ''R'') (at_tick 1000 all_revoked)) = Inr tp
     \<and> tp_AccessToken tp = ''A'' \<and> tp_RefreshToken tp = ''R''"
proof (rule refresh_outlives_logout_all[where user = alice and R = "sample_runtime outliving_tokens" and cfg = sample_config
      and c = "sample_claims ''1'' ''alice'' ''user'' (10 * Second) (168 * Hour) ''refresh''"])
  let ?c = "sample_claims ''1'' ''alice'' ''user'' (10 * Second) (168 * Hour) ''refresh''"
  show "run_state (RevokeAllSessions (auth_service (sample_runtime outliving_tokens) sample_config) (u_ID alice))
     (at_tick 20 (calm_world (empty_db\<lparr> db_users := [alice] \<rparr>))) = (Inr (), all_revoked)"
    using all_revoked_is(2) by (simp add: alice_def sample_user_def)
  show "jwt_parse (rn_jwt (sample_runtime outliving_tokens)) (ag_JWTSecret (cf_Auth sample_config)) (ag_JWTIssuer (cf_Auth sample_config))
      (clock_at (w_env (at_tick 1000 all_revoked)) (w_tick (at_tick 1000 all_revoked))) ''R'' = Some ?c"
    by (simp add: sample_config_auth sample_runtime_def toy_jwt_def outliving_tokens_def jwt_times_ok_def sample_claims_def
        all_revoked_is(1) at_tick_def calm_world_def calm_env_def NumericDate_def)
  show "live_row (u_ID alice) (w_db (at_tick 1000 all_revoked)) = Some alice"
    by (simp add: all_revoked_is(1) at_tick_def calm_world_def live_row_def alice_def sample_user_def live_user_def)
  show "w_redis all_revoked (revokedTokenKeyPrefix @ cl_ID ?c) = None"
    by (simp add: all_revoked_is(1) revokedTokenKeyPrefix_def minIssuedAtKeyPrefix_def)
  show "jwt_sign (rn_jwt (sample_runtime outliving_tokens)) (ag_JWTSecret (cf_Auth sample_config))
      (signed_claims (rn_uuid (sample_runtime outliving_tokens)) (token_service (cf_Auth sample_config)) (cl_UserID ?c) (u_Username alice)
        (role_name (u_Role alice)) ''access'' (ag_AccessTokenTTL (cf_Auth sample_config))
        (at_tick (w_tick (at_tick 1000 all_revoked) + 4) (at_tick 1000 all_revoked))) = Some ''A''"
    by (simp add: sample_config_auth sample_runtime_def toy_jwt_def outliving_tokens_def sample_claims_def signed_claims_def Let_def
        all_revoked_is(1) at_tick_def calm_world_def token_service_def sample_tokens_def alice_def sample_user_def role_name_def)
qed (simp_all add: all_revoked_is(1) at_tick_def calm_world_def calm_env_def sample_config_auth sample_claims_def sample_runtime_def
    alice_def sample_user_def IsCurrentlyBanned_def IssuedAtTime_def sample_uuid_1 UnixMilli_def)

end
