(* ===== verification/SearchProps.thy ===== *)
theory SearchProps
  imports SampleApp "HOL-Library.Sublist"
begin

text \<open>
  What search and discovery answer: only what every visitor may see, and titles that contain the text that was
  typed, whatever characters it has.
\<close>

section \<open>What an answer discloses\<close>

definition public_item :: "uuid_lib \<Rightarrow> db \<Rightarrow> VideoSearchItem \<Rightarrow> bool" where
  "public_item lib d i = (\<exists>row \<in> set (searchFrom d). onlyPublicReady (fst row) \<and> (\<exists>relevance. i = scanSearchItem lib relevance row))"

definition public_category :: "db \<Rightarrow> CategoryCount \<Rightarrow> bool" where
  "public_category d c = (0 < cc_VideoCount c
     \<and> cc_VideoCount c = int (length (filter (\<lambda>v. onlyPublicReady v \<and> v_Category v = cc_Category c) (db_videos d))))"

primrec discloses :: "uuid_lib \<Rightarrow> db \<Rightarrow> search_body \<Rightarrow> bool" where
  "discloses lib d (search_body.ItemsBody items) = (\<forall>i \<in> set items. public_item lib d i)"
| "discloses lib d (TitlesBody titles) = (\<forall>t \<in> set titles. \<exists>v \<in> set (db_videos d). onlyPublicReady v \<and> v_Title v = t)"
| "discloses lib d (CategoriesBody cs) = (\<forall>c \<in> set cs. public_category d c)"

text \<open>Every body of a response discloses nothing more, and the tables are as they were.\<close>

definition harmless :: "uuid_lib \<Rightarrow> db \<Rightarrow> search_body response \<Rightarrow> world \<Rightarrow> bool" where
  "harmless lib d r w' = (w_db w' = d \<and> (\<forall>b \<in> set_response r. discloses lib d b))"

text \<open>The same for the results of the service.\<close>

definition lists_public :: "uuid_lib \<Rightarrow> db \<Rightarrow> (err + VideoSearchItem list) \<Rightarrow> world \<Rightarrow> bool" where
  "lists_public lib d r w' = (w_db w' = d \<and> (\<forall>items. r = Inr items \<longrightarrow> (\<forall>i \<in> set items. public_item lib d i)))"

lemma set_window: "window pg rows = Inr xs \<Longrightarrow> set xs \<subseteq> set rows"
  by (auto simp: window_def dest: in_set_takeD in_set_dropD split: if_splits)

lemma in_window: "window pg rows = Inr xs \<Longrightarrow> x \<in> set xs \<Longrightarrow> x \<in> set rows"
  using set_window by blast

lemma public_itemI: "row \<in> set (searchFrom d) \<Longrightarrow> onlyPublicReady (fst row) \<Longrightarrow> public_item lib d (scanSearchItem lib relevance row)"
  by (auto simp: public_item_def)

lemma wp_page_items:
  assumes "\<And>row. row \<in> set (q (w_db w)) \<Longrightarrow> row \<in> set (searchFrom (w_db w)) \<and> onlyPublicReady (fst row)"
  shows "wp (try_then (page_query msg pg q) (\<lambda>rows. State_Monad.return (Inr (map (scanSearchItem lib relevance) rows))))
     (lists_public lib (w_db w)) w"
  using assms set_window
  by (auto simp: wp_simps lists_public_def Let_def intro!: public_itemI split: sum.splits if_splits) blast+

lemma later_lists: "w_db v = w_db w \<Longrightarrow> wp m (lists_public lib (w_db v)) v \<Longrightarrow> wp m (lists_public lib (w_db w)) v"
  by simp

lemma wp_Repo_Trending: "wp (Repo_Trending lib hours limit exclude) (lists_public lib (w_db w)) w"
  unfolding Repo_Trending_def wp_bind wp_time_Now Let_def
  by (rule later_lists[OF _ wp_page_items]) auto

lemma wp_Repo_Related: "wp (Repo_Related lib videoID limit) (lists_public lib (w_db w)) w"
  unfolding Repo_Related_def wp_try_then wp_row_or Let_def
  by (auto simp: lists_public_def split: option.splits intro!: later_lists[OF _ wp_page_items, unfolded wp_try_then])

lemma wp_Service_Related: "wp (Service_Related S videoID limit) (lists_public (ss_uuid S) (w_db w)) w"
proof -
  have fill: "wp (Repo_Trending lib hours limit exclude) (lists_public lib (w_db w)) v" if "w_db v = w_db w" for lib hours limit exclude v
    using wp_Repo_Trending[of lib hours limit exclude v] that by simp
  show ?thesis
    unfolding Service_Related_def wp_try_then Let_def
    by (rule wp_mono[OF wp_Repo_Related])
      (auto simp: lists_public_def wp_return wp_if wp_try_then split: sum.splits intro!: wp_mono[OF fill])
qed

lemma feed_rows_public: "row \<in> set (feed_rows i d) \<Longrightarrow> row \<in> set (searchFrom d) \<and> onlyPublicReady (fst row)"
  by (auto simp: feed_rows_def)

lemma wp_Repo_Feed:
  "wp (Repo_Feed lib i pg) (\<lambda>r w'. w_db w' = w_db w \<and> (\<forall>items n. r = Inr (items, n) \<longrightarrow> (\<forall>x \<in> set items. public_item lib (w_db w) x))) w"
  by (auto simp: Repo_Feed_def wp_simps Let_def intro!: public_itemI dest!: in_window feed_rows_public split: sum.splits if_splits)

lemma set_searchOrder: "set (searchOrder s relevance rows) = set rows"
  by (simp add: searchOrder_def Let_def)

lemma where_public: "buildSearchWhere T since q row \<Longrightarrow> onlyPublicReady (fst row)"
  by (cases row) (simp add: buildSearchWhere_def Let_def)

lemma wp_Repo_Search:
  "wp (Repo_Search lib T zone q) (\<lambda>r w'. w_db w' = w_db w \<and> (\<forall>items n. r = Inr (items, n) \<longrightarrow> (\<forall>x \<in> set items. public_item lib (w_db w) x))) w"
proof -
  have found: "public_item lib d x" if "window pg (searchOrder s rel (filter (buildSearchWhere T since q) (searchFrom d))) = Inr rows"
      "x \<in> scanSearchItem lib rel' ` set rows" for d x pg s rel since rows rel'
    using that by (auto simp: set_searchOrder intro!: public_itemI dest!: in_window where_public)
  show ?thesis
    by (auto simp: Repo_Search_def wp_simps Let_def intro: found split: sum.splits option.splits simp del: scanSearchItem_def)
qed

section \<open>The endpoints\<close>

lemma harmless_error [simp]: "harmless lib d (Error s c m) w' = (w_db w' = d)" "harmless lib d (NoBody s) w' = (w_db w' = d)"
  by (simp_all add: harmless_def)

lemma harmless_items [simp]:
  "harmless lib d (Success s (search_body.ItemsBody items)) w' = (w_db w' = d \<and> (\<forall>i \<in> set items. public_item lib d i))"
  "harmless lib d (SuccessWithList (search_body.ItemsBody items) m) w' = (w_db w' = d \<and> (\<forall>i \<in> set items. public_item lib d i))"
  by (simp_all add: harmless_def)

lemma harmless_Search: "wp (Handler_Search S c) (harmless (ss_uuid S) (w_db w)) w"
proof -
  have later: "wp (Repo_Search lib T zone q) (\<lambda>r w'. w_db w' = w_db w \<and> (\<forall>items n. r = Inr (items, n) \<longrightarrow> (\<forall>x \<in> set items. public_item lib (w_db w) x))) v"
    if "w_db v = w_db w" for lib T zone q v
    using wp_Repo_Search[of lib T zone q v] that by simp
  have "wp (Service_Search S q) (\<lambda>r w'. w_db w' = w_db w \<and> (\<forall>x. r = Inr x \<longrightarrow> (\<forall>i \<in> set (sr_Videos x). public_item (ss_uuid S) (w_db w) i))) w" for q
    by (auto simp: Service_Search_def wp_simps split: sum.splits option.splits intro!: wp_mono[OF later])
  note service = this
  show ?thesis
    by (auto simp: Handler_Search_def optionalNonNegativeInt_def Let_def wp_answer wp_return wp_if response_defs
        split: option.splits sum.splits intro!: wp_mono[OF service])
qed

lemma harmless_Trending: "wp (Handler_Trending S c) (harmless (ss_uuid S) (w_db w)) w"
  by (auto simp: Handler_Trending_def Service_Trending_def wp_answer wp_check_valid response_defs lists_public_def
      split: option.splits sum.splits intro!: wp_mono[OF wp_Repo_Trending])

lemma harmless_Related: "wp (Handler_Related S c) (harmless (ss_uuid S) (w_db w)) w"
  by (auto simp: Handler_Related_def pathUUID_def wp_answer wp_return response_defs lists_public_def
      split: option.splits sum.splits intro!: wp_mono[OF wp_Service_Related])

lemma harmless_Feed: "wp (Handler_Feed S c) (harmless (ss_uuid S) (w_db w)) w"
  by (auto simp: Handler_Feed_def Service_Feed_def requirePrincipal_def answer_page_def Let_def wp_answer wp_return response_defs
      split: option.splits sum.splits intro!: wp_mono[OF wp_Repo_Feed])

lemma harmless_Suggest: "wp (Handler_Suggest S c) (harmless (ss_uuid S) (w_db w)) w"
  by (auto simp: Handler_Suggest_def Service_Suggest_def Repo_Suggest_def Let_def wp_simps response_defs harmless_def
      dest!: in_set_takeD split: sum.splits if_splits)

lemma category_counts_public: "c \<in> set (category_counts d) \<Longrightarrow> public_category d c"
proof -
  assume "c \<in> set (category_counts d)"
  then obtain v where c: "cc_VideoCount c = int (count_list (map v_Category (filter (\<lambda>v. onlyPublicReady v \<and> v_Category v \<noteq> '''') (db_videos d))) (cc_Category c))"
      "v \<in> set (db_videos d)" "onlyPublicReady v" "v_Category v = cc_Category c" "cc_Category c \<noteq> ''''"
    by (auto simp: category_counts_def Let_def)
  have "count_list (map v_Category (filter (\<lambda>v. onlyPublicReady v \<and> v_Category v \<noteq> '''') vs)) k
      = length (filter (\<lambda>v. onlyPublicReady v \<and> v_Category v = k) vs)" if "k \<noteq> ''''" for vs k
    using that by (induction vs) auto
  moreover have "0 < length (filter (\<lambda>v. onlyPublicReady v \<and> v_Category v = cc_Category c) (db_videos d))"
    using c(2-4) by (auto simp: filter_empty_conv)
  ultimately show ?thesis using c(1,5) by (simp add: public_category_def)
qed

lemma harmless_Categories: "wp (Handler_Categories S) (harmless (ss_uuid S) (w_db w)) w"
  by (auto simp: Handler_Categories_def Service_Categories_def Repo_Categories_def wp_simps response_defs harmless_def
      intro: category_counts_public split: sum.splits if_splits)

text \<open>C33: Whatever the six search and discovery endpoints answer, to anybody, they change no table and disclose
  nothing but videos that are ready and public at that moment: each item is built from such a video, each suggested
  title is the title of one, and each category is listed with exactly the number of them.\<close>

theorem discovery_only_public:
  assumes "run_state (handle_search R a G hq e c) w = (resp, w')"
  shows "w_db w' = w_db w \<and> (\<forall>b. SearchB b \<in> set_response resp \<longrightarrow> discloses (ss_uuid (ap_search a)) (w_db w) b)"
proof -
  have "wp (handle_search R a G hq e c) (\<lambda>r v. w_db v = w_db w \<and> (\<forall>b. SearchB b \<in> set_response r \<longrightarrow> discloses (ss_uuid (ap_search a)) (w_db w) b)) w"
    by (cases e) (auto simp: handle_search_def as_body_def Let_def wp_bind wp_return harmless_def response.set_map
        intro!: harmless_Trending[THEN wp_mono] harmless_Related[THEN wp_mono] harmless_Search[THEN wp_mono]
          harmless_Suggest[THEN wp_mono] harmless_Categories[THEN wp_mono] harmless_Feed[THEN wp_mono])
  then show ?thesis by (rule wp_result[OF _ assms])
qed

definition listing_db :: db where
  "listing_db = empty_db\<lparr> db_videos := [(sample_video 7 1 VideoStatusReady VisibilityPublic)\<lparr> v_Title := ''public 50%'' \<rparr>,
     (sample_video 8 1 VideoStatusReady VisibilityPrivate)\<lparr> v_Title := ''private 50%'' \<rparr>,
     (sample_video 9 1 VideoStatusReady VisibilityPublic)\<lparr> v_Title := ''public 50x'' \<rparr>],
     db_users := [sample_user 1 ''alice'' RoleUser] \<rparr>"

definition typed :: "string \<Rightarrow> request" where
  "typed q = \<lparr> rq_principal = None, rq_param = (\<lambda>_. ''''), rq_query = (\<lambda>k. if k = ''q'' then Some q else None) \<rparr>"

definition sample_get :: "string \<Rightarrow> http_request" where
  "sample_get path = \<lparr> hq_Method = ''GET'', hq_Path = path, hq_Query = (\<lambda>_. None), hq_Authorization = '''', hq_Origin = '''',
     hq_RequestID = '''', hq_UserAgent = '''', hq_ClientIP = ''10.0.0.1'', hq_Body = '''' \<rparr>"

definition suggested :: "body response \<times> world" where
  "suggested = run_state (handle_search (sample_runtime []) (sample_app []) toy_gin (sample_get ''/api/v1/search/suggest'') E_Suggest (typed ''50%''))
     (calm_world listing_db)"

lemma suggested_is: "\<exists>w'. suggested = (Success 200 (SearchB (TitlesBody [''public 50%''])), w')"
proof -
  have "handle_search (sample_runtime []) (sample_app []) toy_gin hq E_Suggest (typed ''50%'')
      = as_body SearchB (Handler_Suggest \<lparr> ss_uuid = sample_lib, ss_text = rn_text (sample_runtime []), ss_zone = 0 \<rparr> (typed ''50%''))" for hq
    by (simp add: handle_search_def sample_app_def app_graph_def sample_runtime_def Let_def)
  moreover have "(case fst (run_state (Handler_Suggest \<lparr> ss_uuid = sample_lib, ss_text = rn_text (sample_runtime []), ss_zone = 0 \<rparr> (typed ''50%''))
      (calm_world listing_db)) of Success s (TitlesBody ts) \<Rightarrow> Some (s, ts) | _ \<Rightarrow> None) = Some (200, [''public 50%''])"
    by code_simp
  ultimately show ?thesis
    by (auto simp: suggested_def as_body_def State_Monad.bind_def State_Monad.return_def split: prod.splits response.splits search_body.splits)
qed

theorem discovery_only_public_witness:
  "discloses sample_lib listing_db (TitlesBody [''public 50%''])"
proof -
  obtain w' where "suggested = (Success 200 (SearchB (TitlesBody [''public 50%''])), w')" using suggested_is by blast
  from discovery_only_public[OF this[unfolded suggested_def]] show ?thesis
    by (simp add: sample_app_def app_graph_def sample_runtime_def Let_def calm_world_def)
qed

section \<open>Escaped patterns\<close>

definition special :: "nat \<Rightarrow> bool" where "special x = (x \<in> {92, 37, 95})"

definition escaped :: "nat list \<Rightarrow> nat list" where
  "escaped = concat \<circ> map (\<lambda>x. if special x then [92, x] else [x])"

lemma escaped_simps [simp]: "escaped [] = []" "escaped (x # xs) = (if special x then [92, x] else [x]) @ escaped xs"
  "escaped (xs @ ys) = escaped xs @ escaped ys"
  by (simp_all add: escaped_def)

lemma bytes_likeEscaper: "map byte (likeEscaper s) = escaped (map byte s)"
proof -
  have "byte CHR 0x5C = 92" by code_simp
  then show ?thesis by (induction s) (auto simp: likeEscaper_def special_def)
qed

text \<open>A rune of several bytes is decoded from bytes above 127 alone.\<close>

definition high :: "nat list \<Rightarrow> nat list" where "high = takeWhile (\<lambda>x. 128 \<le> x)"

lemma high_simps [simp]: "high [] = []" "high (x # xs) = (if 128 \<le> x then x # high xs else [])"
  by (simp_all add: high_def)

lemma decode2_high: "decode2 b (high bs) = decode2 b bs"
  by (cases bs) (auto simp: decode2_def cont_def)

lemma decode3_high: "128 \<le> lo \<Longrightarrow> decode3 b lo hi (high bs) = decode3 b lo hi bs"
  by (cases bs rule: remdups_adj.cases) (auto simp: decode3_def cont_def)

lemma decode4_high: "128 \<le> lo \<Longrightarrow> decode4 b lo hi (high bs) = decode4 b lo hi bs"
proof (cases bs)
  case (Cons x xs)
  assume "128 \<le> lo"
  then show ?thesis using Cons by (cases xs rule: remdups_adj.cases) (auto simp: decode4_def cont_def)
qed simp

lemma decode_high: "decode_rune b (high bs) = decode_rune b bs"
  by (simp add: decode_rune_def decode2_high decode3_high decode4_high)

lemma RuneError_high: "128 \<le> RuneError"
  by (simp add: RuneError_def)

lemma decode_rune_high:
  assumes "128 \<le> b"
  shows "128 \<le> fst (decode_rune b bs)"
proof -
  have "128 \<le> fst (decode2 b bs)" if "194 \<le> b"
    using that RuneError_high by (cases bs) (auto simp: decode2_def)
  moreover have "128 \<le> fst (decode3 b lo hi bs)" if "225 \<le> b \<or> (b = 224 \<and> 160 \<le> lo)" for lo hi
    using that RuneError_high by (cases bs rule: remdups_adj.cases) (auto simp: decode3_def cont_def)
  moreover have "128 \<le> fst (decode4 b lo hi bs)" if "241 \<le> b \<or> (b = 240 \<and> 144 \<le> lo)" for lo hi
  proof (cases bs)
    case (Cons x xs)
    then show ?thesis using that RuneError_high by (cases xs rule: remdups_adj.cases) (auto simp: decode4_def cont_def)
  qed (use RuneError_high in \<open>simp add: decode4_def\<close>)
  ultimately show ?thesis using assms RuneError_high by (auto simp: decode_rune_def cont_def)
qed

text \<open>So the runes of an escaped text are the escaped runes, and a final ASCII byte is a rune of its own.\<close>

lemma high_escaped: "high (escaped bs) = high bs"
  by (induction bs) (auto simp: special_def)

lemma drop_escaped: "n \<le> length (high bs) \<Longrightarrow> drop n (escaped bs) = escaped (drop n bs)"
proof (induction n arbitrary: bs)
  case (Suc n)
  then show ?case by (cases bs) (auto simp: special_def split: if_splits)
qed simp

lemma high_snoc: "x < 128 \<Longrightarrow> high (bs @ [x]) = high bs"
  by (induction bs) auto

lemma decode_width_high: "decode_rune b bs = (r, n) \<Longrightarrow> n - 1 \<le> length (high bs)"
  using decode_width[of b "high bs" r n] by (simp add: decode_high, linarith)

lemma runes_escaped: "runes_of_bytes (escaped bs) = escaped (runes_of_bytes bs)"
proof (induction bs rule: runes_of_bytes.induct)
  case (2 b bs)
  obtain r n where d: "decode_rune b bs = (r, n)" by fastforce
  note IH = 2[OF d[symmetric] refl]
  show ?case
  proof (cases "b < 128")
    case True
    then have "r = b" "n = 1" using d by auto
    then show ?thesis using IH True by (simp add: special_def)
  next
    case False
    then have "\<not> special b" "\<not> special r" using decode_rune_high[of b bs] d by (auto simp: special_def)
    moreover have "decode_rune b (escaped bs) = (r, n)"
      using decode_high[of b "escaped bs"] decode_high[of b bs] d by (simp add: high_escaped)
    ultimately show ?thesis using IH d drop_escaped[OF decode_width_high[OF d]] by simp
  qed
qed simp

lemma runes_snoc: "x < 128 \<Longrightarrow> runes_of_bytes (bs @ [x]) = runes_of_bytes bs @ [x]"
proof (induction bs rule: runes_of_bytes.induct)
  case (2 b bs)
  obtain r n where d: "decode_rune b bs = (r, n)" by fastforce
  have "decode_rune b (bs @ [x]) = (r, n)"
    using decode_high[of b "bs @ [x]"] decode_high[of b bs] d 2(2) by (simp add: high_snoc)
  moreover have "n - 1 \<le> length bs" using decode_width[OF d] by linarith
  ultimately show ?case using 2(1)[OF d[symmetric] refl 2(2)] d by simp
qed simp

section \<open>Matching\<close>

declare like_match.simps(2) [simp del]

lemma like_literal: "special p \<or> (p \<noteq> 92 \<and> p \<noteq> 37 \<and> p \<noteq> 95) \<Longrightarrow> like_match ((if special p then [92, p] else [p]) @ ps) s
    = (case s of [] \<Rightarrow> Some False | x # xs \<Rightarrow> if x = p then like_match ps xs else Some False)"
  by (auto simp: like_match.simps(2) special_def split: list.splits)

lemma like_any: "like_match (37 # ps) s = (case like_match ps s of None \<Rightarrow> None | Some True \<Rightarrow> Some True
    | Some False \<Rightarrow> (case s of [] \<Rightarrow> Some False | x # xs \<Rightarrow> like_match (37 # ps) xs))"
  by (subst like_match.simps(2)) simp

lemma like_rest: "like_match [37] s = Some True"
proof (induction s)
  case (Cons x s)
  then show ?case by (subst like_any) simp
qed (simp add: like_any)

lemma like_escaped_prefix: "like_match (escaped ps @ [37]) s = Some (prefix ps s)"
proof (induction ps arbitrary: s)
  case Nil
  show ?case by (simp add: like_rest)
next
  case (Cons p ps)
  show ?case using like_literal[of p "escaped ps @ [37]" s] Cons.IH
    by (cases s) (auto simp: special_def)
qed

lemma like_anywhere:
  assumes "\<And>t. like_match P t = Some (f t)"
  shows "like_match (37 # P) s = Some (\<exists>t. suffix t s \<and> f t)"
proof (induction s)
  case Nil
  show ?case by (cases "f []") (simp_all add: like_any[of P] assms)
next
  case (Cons x s)
  show ?case by (cases "f (x # s)") (auto simp: like_any[of P "x # s"] assms Cons suffix_Cons)
qed

lemma sublist_suffix: "sublist ps s = (\<exists>t. suffix t s \<and> prefix ps t)"
  by (auto simp: sublist_def suffix_def prefix_def)

lemma like_escaped: "like_match (37 # escaped ps @ [37]) s = Some (sublist ps s)"
  using like_anywhere[OF like_escaped_prefix] by (simp add: sublist_suffix)

text \<open>Case folding rune by rune, which keeps the three pattern characters apart from all others.\<close>

definition folds_runes :: "text_lib \<Rightarrow> (nat \<Rightarrow> nat) \<Rightarrow> bool" where
  "folds_runes T f = ((\<forall>s. runes (tl_fold T s) = map f (runes s)) \<and> (\<forall>x. special (f x) = special x) \<and> (\<forall>x. special x \<longrightarrow> f x = x))"

lemma map_escaped: "\<forall>x. special (f x) = special x \<Longrightarrow> \<forall>x. special x \<longrightarrow> f x = x \<Longrightarrow> map f (escaped xs) = escaped (map f xs)"
  by (induction xs) (auto, auto simp: special_def)

lemma title_matches_literal:
  assumes "folds_runes T f"
  shows "title_matches T q title = sublist (map f (runes q)) (map f (runes title))"
proof -
  have "byte CHR ''%'' = 37" by code_simp
  then have "map byte (''%'' @ likeEscaper q @ ''%'') = 37 # escaped (map byte q) @ [37]"
    by (simp add: bytes_likeEscaper)
  then have "runes (''%'' @ likeEscaper q @ ''%'') = 37 # escaped (runes q) @ [37]"
    by (simp add: runes_def runes_escaped runes_snoc)
  then have "runes (tl_fold T (''%'' @ likeEscaper q @ ''%'')) = 37 # escaped (map f (runes q)) @ [37]"
    using assms by (simp add: folds_runes_def map_escaped special_def)
  then show ?thesis using assms by (simp add: title_matches_def like_escaped folds_runes_def)
qed




section \<open>Suggestions\<close>

definition contains_text :: "(nat \<Rightarrow> nat) \<Rightarrow> string \<Rightarrow> string \<Rightarrow> bool" where
  "contains_text f q title = sublist (map f (runes q)) (map f (runes title))"

text \<open>C34: The escaping of the typed text makes the LIKE pattern of the suggestion query an exact substring test: where
  case folding works rune by rune, the answer is the first ten titles, by similarity and then by views, of the ready
  public videos whose title contains the trimmed text as it was typed, with percent signs, underscores and
  backslashes standing for themselves and whatever other bytes it has.\<close>

theorem suggestions_match_literally:
  assumes "folds_runes (ss_text S) f" "run_state (Service_Suggest S raw) w = (Inr titles, w')"
  shows "titles = map v_Title (take 10 (sort_key (\<lambda>v. - tl_similarity (ss_text S) (v_Title v) (TrimSpace raw)) (sort_key (\<lambda>v. - v_ViewCount v)
    (filter (\<lambda>v. onlyPublicReady v \<and> contains_text f (TrimSpace raw) (v_Title v)) (db_videos (w_db w))))))"
proof -
  have "wp (Service_Suggest S raw) (\<lambda>r _. \<forall>ts. r = Inr ts \<longrightarrow>
    ts = map v_Title (take 10 (sort_key (\<lambda>v. - tl_similarity (ss_text S) (v_Title v) (TrimSpace raw)) (sort_key (\<lambda>v. - v_ViewCount v)
      (filter (\<lambda>v. onlyPublicReady v \<and> contains_text f (TrimSpace raw) (v_Title v)) (db_videos (w_db w))))))) w"
    by (simp add: Service_Suggest_def Repo_Suggest_def suggestLimit_def Let_def wp_simps title_matches_literal[OF assms(1)] contains_text_def)
  from wp_result[OF this assms(2)] show ?thesis by simp
qed

definition sample_search :: SearchService where
  "sample_search = \<lparr> ss_uuid = sample_lib, ss_text = rn_text (sample_runtime []), ss_zone = 0 \<rparr>"

theorem suggestions_match_literally_witness:
  "[''public 50%''] = map v_Title (take 10 (sort_key (\<lambda>v. - tl_similarity (ss_text sample_search) (v_Title v) (TrimSpace '' 50% ''))
    (sort_key (\<lambda>v. - v_ViewCount v)
      (filter (\<lambda>v. onlyPublicReady v \<and> contains_text id (TrimSpace '' 50% '') (v_Title v)) (db_videos (w_db (calm_world listing_db)))))))"
proof (rule suggestions_match_literally)
  show "folds_runes (ss_text sample_search) id"
    by (simp add: folds_runes_def sample_search_def sample_runtime_def)
  have "fst (run_state (Service_Suggest sample_search '' 50% '') (calm_world listing_db)) = Inr [''public 50%'']"
    by code_simp
  then show "run_state (Service_Suggest sample_search '' 50% '') (calm_world listing_db)
      = (Inr [''public 50%''], snd (run_state (Service_Suggest sample_search '' 50% '') (calm_world listing_db)))"
    by (metis prod.collapse)
qed


end
