(* ===== verification/ViewsProps.thy ===== *)
theory ViewsProps
  imports Views Samples
begin

text \<open>
  Counting views: one visitor's repeated plays of a video within the deduplication window.
\<close>

section \<open>The window\<close>

definition is_dedupe_key :: "string \<Rightarrow> bool" where "is_dedupe_key k = HasPrefix k ''video:view_dedupe:''"

text \<open>Time passes and counters move; the tables and the marks of the window stay.\<close>

definition marks_kept :: "world \<Rightarrow> world \<Rightarrow> bool" where
  "marks_kept w v = (w_env v = w_env w \<and> w_tick w \<le> w_tick v \<and> w_db v = w_db w
     \<and> (\<forall>k. is_dedupe_key k \<longrightarrow> w_redis v k = w_redis w k))"

lemma preorder_marks_kept [simp]: "preorder marks_kept"
  by (auto simp: preorder_def marks_kept_def)

lemma dedupe_keys:
  "is_dedupe_key (dedupeKeyOf lib i who)" "\<not> is_dedupe_key (viewsKey lib i p)" "\<not> is_dedupe_key (activeViewersKey lib i)"
  by (simp_all add: is_dedupe_key_def dedupeKeyOf_def viewsKey_def activeViewersKey_def HasPrefix_def)

lemma marks_kept_steps:
  "\<not> is_dedupe_key k \<Longrightarrow> steps marks_kept (redis_Incr k)" "\<not> is_dedupe_key k \<Longrightarrow> steps marks_kept (redis_Expire k d)"
  "\<not> is_dedupe_key k \<Longrightarrow> steps marks_kept (redis_ExpireAt k due)"
  "steps marks_kept (redis_ZAdd k s m)" "steps marks_kept (redis_ZRemRangeByScore k lo hi)"
  by (auto simp: steps_def marks_kept_def redis_Incr_def redis_add_def redis_Expire_def redis_ExpireAt_def redis_ZAdd_def
      redis_ZRemRangeByScore_def run_put_def Let_def split: outcome.splits option.splits)

lemma counters_keep_marks: "steps marks_kept (refresh_counters lib zone e now)"
  unfolding refresh_counters_def Let_def
  by (intro steps_intros marks_kept_steps preorder_marks_kept dedupe_keys)

section \<open>One visitor\<close>

text \<open>The visitor's plays, one after the other.\<close>

primrec track_all :: "uuid_lib \<Rightarrow> int \<Rightarrow> ViewEvent list \<Rightarrow> (err + bool) list prog" where
  "track_all lib zone [] = State_Monad.return []"
| "track_all lib zone (e # es) = do { r \<leftarrow> TrackView lib zone e; rs \<leftarrow> track_all lib zone es; State_Monad.return (r # rs) }"

definition plays :: "uuid_lib \<Rightarrow> uuid \<Rightarrow> string \<Rightarrow> ViewEvent \<Rightarrow> bool" where
  "plays lib i who e = (ev_VideoID e = i \<and> viewer lib e = Some who)"

text \<open>The mark of the window is set, and lives as long as the clock is looked at.\<close>

definition marked :: "string \<Rightarrow> world \<Rightarrow> bool" where
  "marked key w = ((\<forall>n. outcome_at (w_env w) n = Done)
     \<and> (\<forall>n \<ge> w_tick w. redis_live (clock_at (w_env w) n) (w_redis w key) \<noteq> None))"

lemma wp_SetNX: "outcome_at (w_env w) (w_tick w) = Done \<Longrightarrow> wp (redis_SetNX key v ttl) Q w =
    (if redis_live (clock_at (w_env w) (w_tick w)) (w_redis w key) = None
     then Q (Inr True) (w\<lparr> w_tick := Suc (w_tick w), w_redis := (w_redis w)(key := Some (v, redis_expiry (clock_at (w_env w) (w_tick w)) ttl)) \<rparr>)
     else Q (Inr False) (w\<lparr> w_tick := Suc (w_tick w) \<rparr>))"
  by (auto simp: redis_SetNX_def wp_State Let_def)

lemma marked_not_counted:
  assumes "plays lib i who e" "marked (dedupeKeyOf lib i who) w"
  shows "wp (TrackView lib zone e) (\<lambda>r w'. r = Inr False \<and> w_db w' = w_db w \<and> marked (dedupeKeyOf lib i who) w') w"
  using assms
  by (auto simp: TrackView_def plays_def wp_bind wp_SetNX marked_def wp_return Let_def)

lemma marked_none_counted:
  assumes "\<forall>e \<in> set es. plays lib i who e" "marked (dedupeKeyOf lib i who) w"
  shows "wp (track_all lib zone es) (\<lambda>rs w'. rs = replicate (length es) (Inr False) \<and> w_db w' = w_db w) w"
  using assms
proof (induction es arbitrary: w)
  case (Cons e es)
  then have e: "plays lib i who e" by simp
  have rest: "wp (track_all lib zone es) (\<lambda>rs w'. rs = replicate (length es) (Inr False) \<and> w_db w' = w_db w) v"
    if "marked (dedupeKeyOf lib i who) v" "w_db v = w_db w" for v
    using Cons.IH[of v] Cons.prems(1) that by simp
  show ?case
    by (simp only: track_all.simps wp_bind wp_return, rule wp_mono[OF marked_not_counted[OF e Cons.prems(2)]])
      (auto intro: wp_mono[OF rest])
qed (simp add: wp_return)

definition view_row :: "ViewEvent \<Rightarrow> uuid \<Rightarrow> time \<Rightarrow> ViewRow" where
  "view_row e i t = \<lparr> vr_ID = i, vr_VideoID = ev_VideoID e, vr_UserID = ev_UserID e, vr_SessionID = nullif_empty (ev_SessionID e),
     vr_IPAddress = nullif_empty (ev_IPAddress e), vr_UserAgent = nullif_empty (ev_UserAgent e), vr_Quality = nullif_empty (ev_Quality e),
     vr_DeviceType = nullif_empty (ev_DeviceType e), vr_Country = nullif_empty (ev_Country e), vr_Source = nullif_empty (ev_Source e),
     vr_WatchDuration = 0, vr_WatchPercent = 0, vr_CreatedAt = t \<rparr>"

lemma first_counted:
  assumes "plays lib i who e" "\<forall>n. outcome_at (w_env w) n = Done"
    and fresh: "redis_live (clock_at (w_env w) (w_tick w)) (w_redis w (dedupeKeyOf lib i who)) = None"
    and window: "\<forall>n \<ge> w_tick w. clock_at (w_env w) n < clock_at (w_env w) (w_tick w) + viewDedupeWindow"
    and r: "r = view_row e (uuid_at (w_env w) (w_tick w + 1)) t" "t = clock_at (w_env w) (w_tick w + 2)"
    and ins: "insert_view t r (w_db w) = Inr ((), d)"
  shows "wp (TrackView lib zone e) (\<lambda>x w'. x = Inr True \<and> w_db w' = d \<and> marked (dedupeKeyOf lib i who) w') w"
proof -
  let ?key = "dedupeKeyOf lib i who"
  let ?v = "w\<lparr> w_tick := w_tick w + 4, w_db := d, w_redis := (w_redis w)(?key := Some (''1'', redis_expiry (clock_at (w_env w) (w_tick w)) viewDedupeWindow)) \<rparr>"
  have "marked ?key v" if "marks_kept ?v v" for v
    using that assms(2) window dedupe_keys(1)[of lib i who]
    by (auto simp: marked_def marks_kept_def redis_live_def redis_expiry_def viewDedupeWindow_def)
  then have "wp (refresh_counters lib zone e now) (\<lambda>_ w'. w_db w' = d \<and> marked ?key w') ?v" for now
    by (intro wp_mono[OF steps_wp[OF counters_keep_marks]]) (auto simp: marks_kept_def)
  then have counters: "wp (refresh_counters lib zone e now) (\<lambda>_ w'. w_db w' = d \<and> marked ?key w') v" if "v = ?v" for now v
    using that by simp
  show ?thesis
    using assms(1,2) fresh ins
    by (auto simp: TrackView_def plays_def recordView_def Repo_RecordView_def wp_simps wp_SetNX wp_run_stmt r view_row_def Let_def
        numeral_eq_Suc intro!: counters)
qed

text \<open>C35: A visitor's plays of one video within half an hour, Redis and the database answering, count once: the first
  is reported counted and every later one not, and afterwards the tables differ by exactly one view row and one step
  of the video's view counter.\<close>

theorem views_counted_once:
  assumes "\<forall>x \<in> set (e # es). plays lib i who x" "\<forall>n. outcome_at (w_env w) n = Done"
    and "redis_live (clock_at (w_env w) (w_tick w)) (w_redis w (dedupeKeyOf lib i who)) = None"
    and "\<forall>n \<ge> w_tick w. clock_at (w_env w) n < clock_at (w_env w) (w_tick w) + viewDedupeWindow"
    and r: "r = view_row e (uuid_at (w_env w) (w_tick w + 1)) t" "t = clock_at (w_env w) (w_tick w + 2)"
    and row: "view_widths_ok r" "video_exists (w_db w) i" "\<forall>u. ev_UserID e = Some u \<longrightarrow> user_exists (w_db w) u"
      "\<forall>x \<in> set (db_video_views (w_db w)). vr_ID x \<noteq> vr_ID r"
    and run: "run_state (track_all lib zone (e # es)) w = (rs, w')"
  shows "rs = Inr True # replicate (length es) (Inr False)
    \<and> w_db w' = (w_db w)\<lparr> db_video_views := db_video_views (w_db w) @ [r],
        db_videos := modify v_ID i (count_view t) (db_videos (w_db w)) \<rparr>"
proof -
  let ?d = "(w_db w)\<lparr> db_video_views := db_video_views (w_db w) @ [r], db_videos := modify v_ID i (count_view t) (db_videos (w_db w)) \<rparr>"
  have i: "vr_VideoID r = i" "vr_UserID r = ev_UserID e" using assms(1) r by (simp_all add: plays_def view_row_def)
  then have "insert_view t r (w_db w) = Inr ((), ?d)"
    using row by (auto simp: insert_view_def list_ex_iff split: option.splits)
  note first = first_counted[OF _ assms(2-4) r this]
  have rest: "wp (track_all lib zone es) (\<lambda>rs w'. rs = replicate (length es) (Inr False) \<and> w_db w' = ?d) v"
    if "marked (dedupeKeyOf lib i who) v" "w_db v = ?d" for v
    using marked_none_counted[of es lib i who v zone] assms(1) that by simp
  have "wp (track_all lib zone (e # es)) (\<lambda>rs w'. rs = Inr True # replicate (length es) (Inr False) \<and> w_db w' = ?d) w"
    by (simp only: track_all.simps wp_bind wp_return, rule wp_mono[OF first]) (use assms(1) in \<open>auto intro: wp_mono[OF rest]\<close>)
  from wp_result[OF this run] show ?thesis .
qed

definition still_world :: world where
  "still_world = (let w = calm_world (video_db VideoStatusReady VisibilityPublic)
     in w\<lparr> w_env := calm_env\<lparr> clock_at := (\<lambda>_. 100 * Second) \<rparr> \<rparr>)"

definition sample_play :: "string \<Rightarrow> ViewEvent" where
  "sample_play quality = \<lparr> ev_VideoID = 7, ev_UserID = Some 2, ev_SessionID = '''', ev_IPAddress = ''10.0.0.1'', ev_UserAgent = ''curl'',
     ev_Quality = quality, ev_DeviceType = ''desktop'', ev_Country = '''', ev_Source = '''' \<rparr>"

lemma sample_uuid_2: "uuid_String sample_lib 2 = ''2''"
  by code_simp

theorem views_counted_once_witness:
  "fst (run_state (track_all sample_lib 0 [sample_play ''720p'', sample_play ''360p'', sample_play ''720p'']) still_world) = [Inr True, Inr False, Inr False]"
proof -
  let ?run = "run_state (track_all sample_lib 0 (sample_play ''720p'' # [sample_play ''360p'', sample_play ''720p''])) still_world"
  have "fst ?run = Inr True # replicate (length [sample_play ''360p'', sample_play ''720p'']) (Inr False)
    \<and> w_db (snd ?run) = (w_db still_world)\<lparr> db_video_views := db_video_views (w_db still_world) @ [view_row (sample_play ''720p'') 1001 (100 * Second)],
        db_videos := modify v_ID 7 (count_view (100 * Second)) (db_videos (w_db still_world)) \<rparr>"
  proof (rule views_counted_once)
    show "\<forall>x \<in> set (sample_play ''720p'' # [sample_play ''360p'', sample_play ''720p'']). plays sample_lib 7 ''2'' x"
      by (simp add: plays_def viewer_def sample_play_def sample_uuid_2)
    show "view_widths_ok (view_row (sample_play ''720p'') 1001 (100 * Second))" by code_simp
    show "?run = (fst ?run, snd ?run)" by simp
    show "\<forall>n \<ge> w_tick still_world. clock_at (w_env still_world) n < clock_at (w_env still_world) (w_tick still_world) + viewDedupeWindow"
      by (simp add: still_world_def viewDedupeWindow_def Let_def)
  qed (simp_all add: still_world_def calm_world_def calm_env_def Let_def redis_live_def sample_play_def view_row_def video_db_def video_exists_def
      user_exists_def empty_db_def sample_video_def sample_user_def)
  then show ?thesis by (simp add: numeral_eq_Suc)
qed


end
