(* ===== verification/ConfigProps.thy ===== *)
theory ConfigProps
  imports SampleApp
begin

text \<open>
  What a configuration that Load accepts guarantees of the parts it is handed to: the signing secret, the
  database connection, the cross-origin headers and the SMTP dialogue.
\<close>

section \<open>The SMTP dialogue\<close>

definition starts_tls :: "string list \<Rightarrow> bool" where
  "starts_tls c = (c \<noteq> [] \<and> hd c \<in> {''TLS'', ''STARTTLS''})"

text \<open>Before the connection is encrypted nothing is said but the greeting.\<close>

fun confidential :: "bool \<Rightarrow> string list list \<Rightarrow> bool" where
  "confidential secure [] = True"
| "confidential secure (c # cs) =
     ((secure \<or> starts_tls c \<or> (c \<noteq> [] \<and> hd c \<in> {''DIAL'', ''EHLO''})) \<and> confidential (secure \<or> starts_tls c) cs)"

lemma confidential_secure [simp]: "confidential True cs"
  by (induction cs) auto

lemma confidential_append:
  "confidential s (cs @ ds) = (confidential s cs \<and> confidential (s \<or> list_ex starts_tls cs) ds)"
  by (induction cs arbitrary: s) (auto simp: disj_assoc)

definition says :: "string list list \<Rightarrow> world \<Rightarrow> world \<Rightarrow> bool" where
  "says cs w w' = (w_commands w' = w_commands w @ cs)"

definition talks :: "world \<Rightarrow> world \<Rightarrow> bool" where "talks w w' = (\<exists>cs. says cs w w')"

lemma preorder_talks [simp]: "preorder talks"
proof (rule preorderI)
  show "talks s s" for s by (auto simp: talks_def says_def)
  show "talks s u" if "talks s t" "talks t u" for s t u using that by (auto simp: talks_def says_def)
qed

lemma talks_run_command: "steps talks (run_command c)"
  by (auto simp: steps_def run_command_def talks_def says_def)

lemma talks_observe: "steps talks (observe f)"
  by (auto simp: steps_def observe_def talks_def says_def)

lemma talks_deliver: "steps talks (run_put f (\<lambda>t w. w\<lparr> w_mail := w_mail w @ [msg] \<rparr>))"
  by (auto simp: steps_def run_put_def talks_def says_def Let_def split: outcome.splits)

lemmas talks_intros = steps_intros preorder_talks talks_run_command talks_observe talks_deliver

lemma talks_smtp: "steps talks (smtp c f)"
  unfolding smtp_def by (intro talks_intros)

lemma talks_buildMIME: "steps talks (buildMIME zone sender msg)"
  unfolding buildMIME_def time_Now_def rand_Read_def Let_def by (intro talks_intros)

text \<open>The opening either fails, having said nothing confidential, or leaves the connection encrypted.\<close>

lemma wp_opening:
  assumes "\<not> mc_AllowInsecure cfg"
  shows "wp (try_then (smtp_connect cfg) (\<lambda>_. smtp_secure cfg)) (\<lambda>r w'. \<exists>cs. says cs w w' \<and> confidential False cs
     \<and> (r = Inr () \<longrightarrow> list_ex starts_tls cs)) w"
  using assms
  by (auto simp: smtp_connect_def smtp_secure_def smtp_def wp_simps says_def starts_tls_def)

lemma try_then_assoc: "try_then m (\<lambda>x. try_then (f x) g) = try_then (try_then m f) g"
  by (rule state.expand, rule ext)
    (simp add: try_then_def State_Monad.bind_def State_Monad.return_def split: prod.splits sum.splits)

lemma wp_SMTP_Send:
  assumes "\<not> mc_AllowInsecure cfg"
  shows "wp (SMTP_Send zone cfg msg) (\<lambda>_ w'. \<exists>cs. says cs w w' \<and> confidential False cs) w"
proof -
  define rest where "rest = (\<lambda>_ :: unit. try_then (smtp_auth cfg) (\<lambda>_.
     try_then (smtp [''MAIL FROM'', mc_From cfg] ''smtp MAIL FROM'') (\<lambda>_.
     try_then (smtp [''RCPT TO'', ml_To msg] ''smtp RCPT TO'') (\<lambda>_.
     try_then (buildMIME zone (mc_From cfg) msg) (\<lambda>body.
     try_then (smtp [''DATA''] ''smtp DATA'') (\<lambda>_.
     try_then (smtp [''BODY'', body] ''writing message body'') (\<lambda>_.
     try_then (run_put ''finishing message body'' (\<lambda>t w. w\<lparr> w_mail := w_mail w @ [msg] \<rparr>)) (\<lambda>_.
     smtp [''QUIT''] ''quit''))))))))"
  have rest: "steps talks (rest u)" for u
    unfolding rest_def smtp_auth_def by (intro talks_intros talks_smtp talks_buildMIME)
  have "wp (try_then (try_then (smtp_connect cfg) (\<lambda>_. smtp_secure cfg)) rest) (\<lambda>_ w'. \<exists>cs. says cs w w' \<and> confidential False cs) w"
  proof (subst wp_try_then, rule wp_mono[OF wp_opening[OF assms]])
    fix r v
    assume "\<exists>cs. says cs w v \<and> confidential False cs \<and> (r = Inr () \<longrightarrow> list_ex starts_tls cs)"
    then obtain cs where cs: "says cs w v" "confidential False cs" "r = Inr () \<longrightarrow> list_ex starts_tls cs" by blast
    have "wp (rest u) (\<lambda>_ w'. \<exists>cs. says cs w w' \<and> confidential False cs) v" if "r = Inr u" for u
    proof (rule wp_mono[OF steps_wp[OF rest]])
      fix x t assume "talks v t"
      then obtain ds where "says ds v t" by (auto simp: talks_def)
      then have "says (cs @ ds) w t" using cs(1) by (simp add: says_def)
      then show "\<exists>cs. says cs w t \<and> confidential False cs"
        using cs(2,3) that by (auto simp: confidential_append)
    qed
    then show "case r of Inl e \<Rightarrow> \<exists>cs. says cs w v \<and> confidential False cs
        | Inr x \<Rightarrow> wp (rest x) (\<lambda>_ w'. \<exists>cs. says cs w w' \<and> confidential False cs) v"
      using cs by (cases r) auto
  qed
  then show ?thesis by (simp add: SMTP_Send_def rest_def try_then_assoc[symmetric])
qed

lemma wp_mailer_Send:
  assumes "mc_Host cfg = '''' \<or> \<not> mc_AllowInsecure cfg"
  shows "wp (mailer_Send zone (mailer_New cfg) msg) (\<lambda>_ w'. \<exists>cs. says cs w w' \<and> confidential False cs) w"
proof (cases "mc_Host cfg = ''''")
  case True
  then show ?thesis by (auto simp: mailer_Send_def mailer_New_def wp_return says_def)
next
  case False
  then show ?thesis using assms wp_SMTP_Send[of cfg zone msg w] by (simp add: mailer_Send_def mailer_New_def)
qed

section \<open>Cross-origin headers\<close>

lemma cors_no_wildcard:
  assumes "\<not> AllowsAnyOrigin cfg"
  shows "(''Access-Control-Allow-Origin'', v) \<in> set (cors_headers canon cfg origin)
      \<Longrightarrow> v = origin \<and> list_ex (\<lambda>allowed. EqualFold canon allowed origin) (co_AllowedOrigins cfg)"
    "(''Access-Control-Allow-Credentials'', u) \<in> set (cors_headers canon cfg origin)
      \<Longrightarrow> (''Access-Control-Allow-Origin'', origin) \<in> set (cors_headers canon cfg origin)"
  using assms
  by (auto simp: cors_headers_def AllowsOrigin_def AllowsAnyOrigin_def list_ex_iff split: if_splits)

section \<open>Production\<close>

lemma Load_valid: "Load dotenv E = Inr cfg \<Longrightarrow> config_problems cfg = []"
  by (auto simp: Load_def Validate_config_def Let_def split: dotenv_result.splits option.splits if_splits)

text \<open>C36: A configuration that Load accepts for production is hardened where it takes effect: tokens are signed with a
  secret of at least 32 bytes that is not the one in the source, the sslmode of the database connection is not
  \<^verbatim>\<open>disable\<close> (the modes \<^verbatim>\<open>allow\<close> and \<^verbatim>\<open>prefer\<close>, which may still fall back to plaintext, are accepted), no response
  allows any origin but a configured one, with or without credentials, and a mail is only transmitted, credentials
  included, over a connection that has been encrypted.\<close>

theorem production_is_hardened:
  assumes "Load dotenv E = Inr cfg" "IsProduction (cf_Server cfg)"
    and "a = app_graph R cfg t1 t2 store pool redis"
    and send: "run_state (mailer_Send zone (es_mail (ap_email a)) msg) w = (r, w')"
  shows "32 \<le> length (ts_secretKey (ae_tokens (ap_auth a))) \<and> ts_secretKey (ae_tokens (ap_auth a)) \<noteq> insecureDefaultJWTSecret
    \<and> dc_SSLMode (cf_Database cfg) \<noteq> ''disable''
    \<and> (\<forall>canon origin v. (''Access-Control-Allow-Origin'', v) \<in> set (cors_headers canon (cf_CORS cfg) origin) \<longrightarrow>
          v = origin \<and> list_ex (\<lambda>allowed. EqualFold canon allowed origin) (co_AllowedOrigins (cf_CORS cfg)))
    \<and> (\<exists>cs. w_commands w' = w_commands w @ cs \<and> confidential False cs)"
proof -
  have p: "production_problems cfg = []" "config_problems cfg = []"
    using Load_valid[OF assms(1)] assms(2) by (simp_all add: config_problems_def)
  have none: "\<not> AllowsAnyOrigin (cf_CORS cfg)" using p(1) by (auto simp: production_problems_def split: if_splits)
  have insecure: "mc_Host (mail_config (cf_Mail cfg)) = '''' \<or> \<not> mc_AllowInsecure (mail_config (cf_Mail cfg))"
    using p(1) by (auto simp: production_problems_def mail_config_def split: if_splits)
  have mail: "es_mail (ap_email a) = mailer_New (mail_config (cf_Mail cfg))"
    by (simp add: assms(3) app_graph_def NewEmailService_def Let_def)
  have "\<exists>cs. says cs w w' \<and> confidential False cs"
    by (rule wp_result[OF wp_mailer_Send[OF insecure] send[unfolded mail]])
  then show ?thesis
    using p(1) cors_no_wildcard(1)[OF none]
    by (auto simp: production_problems_def says_def assms(3) app_graph_def auth_service_def token_service_def Let_def split: if_splits)
qed


definition production_environ :: environ where
  "production_environ = [''ENVIRONMENT'' \<mapsto> ''production'', ''JWT_SECRET'' \<mapsto> ''0123456789abcdef0123456789abcdef'',
     ''DB_SSLMODE'' \<mapsto> ''require'', ''CORS_ALLOWED_ORIGINS'' \<mapsto> ''https://videos.example.com'', ''SMTP_HOST'' \<mapsto> ''mail.example.com'',
     ''SMTP_USERNAME'' \<mapsto> ''videos'', ''SMTP_PASSWORD'' \<mapsto> ''hunter2'']"

definition production_config :: Config where "production_config = config_of_env production_environ"

lemma production_loads: "Load (\<lambda>_. DotenvMissing) production_environ = Inr production_config"
proof -
  have "config_problems production_config = []" by code_simp
  then show ?thesis by (simp add: Load_def Validate_config_def production_config_def)
qed

definition production_app :: App where
  "production_app = app_graph (sample_runtime []) production_config 0 0 (Local sample_cfg) (pool_config (cf_Database production_config))
     (redis_options (cf_Redis production_config))"

definition sent :: "(err + unit) \<times> world" where
  "sent = run_state (mailer_Send 0 (es_mail (ap_email production_app)) \<lparr> ml_To = ''bob@example.com'', ml_Subject = ''s'', ml_TextBody = ''t'', ml_HTMLBody = ''h'' \<rparr>)
     (calm_world empty_db)"

lemma sent_ok: "map hd (w_commands (snd sent)) = [''DIAL'', ''EHLO'', ''STARTTLS'', ''AUTH PLAIN'', ''MAIL FROM'', ''RCPT TO'', ''DATA'', ''BODY'', ''QUIT'']"
proof -
  have "es_mail (ap_email production_app) = mailer_New (mail_config (cf_Mail production_config))"
    by (simp add: production_app_def app_graph_def NewEmailService_def Let_def)
  moreover have "map hd (w_commands (snd (run_state (mailer_Send 0 (mailer_New (mail_config (cf_Mail production_config)))
      \<lparr> ml_To = ''bob@example.com'', ml_Subject = ''s'', ml_TextBody = ''t'', ml_HTMLBody = ''h'' \<rparr>) (calm_world empty_db))))
    = [''DIAL'', ''EHLO'', ''STARTTLS'', ''AUTH PLAIN'', ''MAIL FROM'', ''RCPT TO'', ''DATA'', ''BODY'', ''QUIT'']"
    by code_simp
  ultimately show ?thesis by (simp add: sent_def)
qed

theorem production_is_hardened_witness:
  "32 \<le> length (ts_secretKey (ae_tokens (ap_auth production_app))) \<and> confidential False (w_commands (snd sent)) \<and> length (w_commands (snd sent)) = 9"
proof -
  have "IsProduction (cf_Server production_config)" by code_simp
  note facts = production_is_hardened[OF production_loads this production_app_def]
  obtain r w' where s: "sent = (r, w')" by fastforce
  have "length (map hd (w_commands (snd sent))) = 9" by (simp add: sent_ok)
  with facts[OF s[unfolded sent_def]] show ?thesis by (auto simp: s calm_world_def)
qed


end
