(* ===== verification/AdminCmd.thy ===== *)
theory AdminCmd
  imports UserRepo Tokens Config
begin

text \<open>
  The operator's command (\<^verbatim>\<open>cmd/admin/main.go\<close>): changing a role and creating an account from the terminal.
  The flags arrive parsed, \<^verbatim>\<open>None\<close> when the flag package refused them; connecting loads the same
  configuration as the servers and pings the database.
\<close>

record promote_flags =
  pf_username :: string
  pf_role :: string

record create_flags =
  kf_username :: string
  kf_email :: string
  kf_password :: string
  kf_role :: string

text \<open>Why the command ends without having done anything.\<close>

datatype cmd_error = NoSubcommand | UnknownSubcommand string | BadFlags | MissingFlags | Failed err

datatype cmd_result = AlreadyHasRole string Role | RoleChanged string Role Role | UserCreated string string Role uuid
  | VersionPrinted string | UsagePrinted

definition connect_db :: "(config_error + Config) \<Rightarrow> (err + unit) prog" where
  "connect_db cfg = (case cfg of Inl _ \<Rightarrow> State_Monad.return (Inl (ErrOther ''configuration''))
     | Inr _ \<Rightarrow> do {
         opened \<leftarrow> run_exec;
         if \<not> opened then State_Monad.return (Inl (ErrOther ''creating connection pool''))
         else do {
           alive \<leftarrow> run_exec;
           State_Monad.return (if alive then Inr () else Inl (ErrOther ''pinging database''))
         }
       })"

text \<open>The errors of a program as errors of the command.\<close>

definition failing :: "(err + 'a) prog \<Rightarrow> ('a \<Rightarrow> (cmd_error + 'b) prog) \<Rightarrow> (cmd_error + 'b) prog" where
  "failing m f = State_Monad.bind m (\<lambda>r. case r of Inl e \<Rightarrow> State_Monad.return (Inl (Failed e)) | Inr x \<Rightarrow> f x)"

definition promote :: "(config_error + Config) \<Rightarrow> promote_flags option \<Rightarrow> (cmd_error + cmd_result) prog" where
  "promote cfg flags = (case flags of None \<Rightarrow> State_Monad.return (Inl BadFlags)
     | Some fs \<Rightarrow>
         if pf_username fs = '''' \<or> pf_role fs = '''' then State_Monad.return (Inl MissingFlags)
         else let newRole = role_of_name (pf_role fs) in
           if \<not> Role_IsValid newRole then State_Monad.return (Inl (Failed ErrInvalidRole))
           else failing (connect_db cfg) (\<lambda>_. failing (UserRepo_GetByUsername (pf_username fs)) (\<lambda>user.
             if u_Role user = newRole then State_Monad.return (Inr (AlreadyHasRole (u_Username user) newRole))
             else failing (UserRepo_Update (user\<lparr> u_Role := newRole \<rparr>)) (\<lambda>_.
               State_Monad.return (Inr (RoleChanged (u_Username user) (u_Role user) newRole))))))"

definition create :: "unicode_tables \<Rightarrow> bcrypt_lib \<Rightarrow> environ \<Rightarrow> (config_error + Config) \<Rightarrow> create_flags option
    \<Rightarrow> (cmd_error + cmd_result) prog" where
  "create ut bc E cfg flags = (case flags of None \<Rightarrow> State_Monad.return (Inl BadFlags)
     | Some fs \<Rightarrow> let password = (if kf_password fs = '''' then Getenv E ''ADMIN_PASSWORD'' else kf_password fs) in
         if kf_username fs = '''' \<or> kf_email fs = '''' \<or> password = '''' then State_Monad.return (Inl MissingFlags)
         else let newRole = role_of_name (kf_role fs) in
           if \<not> Role_IsValid newRole then State_Monad.return (Inl (Failed ErrInvalidRole))
           else failing (HashPassword ut bc password) (\<lambda>hash. do {
             i \<leftarrow> uuid_New; t1 \<leftarrow> time_Now; t2 \<leftarrow> time_Now;
             case NewUser ut i t1 t2 (kf_username fs) (kf_email fs) hash newRole of
               Inl e \<Rightarrow> State_Monad.return (Inl (Failed e))
             | Inr user0 \<Rightarrow> let user = user0\<lparr> u_EmailVerified := True \<rparr> in
                 failing (connect_db cfg) (\<lambda>_. failing (UserRepo_Create user) (\<lambda>_.
                   State_Monad.return (Inr (UserCreated (u_Username user) (u_Email user) (u_Role user) (u_ID user)))))
           }))"

text \<open>The dispatch on the first argument; the flags of each subcommand are parsed from the rest.\<close>

definition run_admin :: "unicode_tables \<Rightarrow> bcrypt_lib \<Rightarrow> environ \<Rightarrow> (config_error + Config) \<Rightarrow> string
    \<Rightarrow> (string list \<Rightarrow> promote_flags option) \<Rightarrow> (string list \<Rightarrow> create_flags option) \<Rightarrow> string list
    \<Rightarrow> (cmd_error + cmd_result) prog" where
  "run_admin ut bc E cfg version parse_promote parse_create args = (case args of
     [] \<Rightarrow> State_Monad.return (Inl NoSubcommand)
   | cmd # rest \<Rightarrow>
       if cmd = ''promote'' then promote cfg (parse_promote rest)
       else if cmd = ''create'' then create ut bc E cfg (parse_create rest)
       else if cmd = ''version'' then State_Monad.return (Inr (VersionPrinted version))
       else if cmd = ''help'' \<or> cmd = ''-h'' \<or> cmd = ''--help'' then State_Monad.return (Inr UsagePrinted)
       else State_Monad.return (Inl (UnknownSubcommand cmd)))"

end
