(* ===== verification/AccountInv.thy ===== *)
theory AccountInv
  imports AccountProps AdminCmd
begin

text \<open>
  The invariant of the users table: every row the program stores passes the validation of the domain, and
  names and addresses are unique, through every operation that writes the table.
\<close>

section \<open>Programs that keep the table valid\<close>

definition accounts_ok :: "db \<Rightarrow> bool" where
  "accounts_ok d = (users_unique d \<and> (\<forall>u \<in> set (db_users d). User_Validate u = None))"

text \<open>From a valid table to a valid table, with a result of which something is known.\<close>

definition safe :: "'a prog \<Rightarrow> ('a \<Rightarrow> bool) \<Rightarrow> bool" where
  "safe m R = (\<forall>w. accounts_ok (w_db w) \<longrightarrow> wp m (\<lambda>r w'. accounts_ok (w_db w') \<and> R r) w)"

abbreviation keeps_accounts :: "'a prog \<Rightarrow> bool" where "keeps_accounts m \<equiv> safe m (\<lambda>_. True)"

named_theorems safe_intros "rules for programs that keep the users table valid"

lemma safe_return [safe_intros]: "R x \<Longrightarrow> safe (State_Monad.return x) R"
  by (simp add: safe_def wp_return)

lemma safe_bind: "safe m S \<Longrightarrow> (\<And>x. S x \<Longrightarrow> safe (f x) R) \<Longrightarrow> safe (State_Monad.bind m f) R"
  unfolding safe_def wp_bind by (blast intro: wp_mono)

lemma safe_bind_keeping [safe_intros]: "keeps_accounts m \<Longrightarrow> (\<And>x. safe (f x) R) \<Longrightarrow> safe (State_Monad.bind m f) R"
  by (rule safe_bind)

lemma safe_try: "safe m S \<Longrightarrow> (\<And>x. S (Inr x) \<Longrightarrow> keeps_accounts (f x)) \<Longrightarrow> keeps_accounts (try_then m f)"
  unfolding try_then_def by (rule safe_bind[where S = S]) (auto intro: safe_return split: sum.splits)

lemma safe_try_keeping [safe_intros]: "keeps_accounts m \<Longrightarrow> (\<And>x. keeps_accounts (f x)) \<Longrightarrow> keeps_accounts (try_then m f)"
  by (rule safe_try)

lemma safe_if [safe_intros]: "(b \<Longrightarrow> safe m R) \<Longrightarrow> (\<not> b \<Longrightarrow> safe n R) \<Longrightarrow> safe (if b then m else n) R"
  by simp

lemma safe_case_sum [safe_intros]:
  "(\<And>e. x = Inl e \<Longrightarrow> safe (f e) R) \<Longrightarrow> (\<And>y. x = Inr y \<Longrightarrow> safe (g y) R) \<Longrightarrow> safe (case x of Inl e \<Rightarrow> f e | Inr y \<Rightarrow> g y) R"
  by (cases x) auto

lemma safe_case_option [safe_intros]:
  "(x = None \<Longrightarrow> safe m R) \<Longrightarrow> (\<And>y. x = Some y \<Longrightarrow> safe (g y) R) \<Longrightarrow> safe (case x of None \<Rightarrow> m | Some y \<Rightarrow> g y) R"
  by (cases x) auto

lemma safe_case_prod [safe_intros]: "(\<And>a b. x = (a, b) \<Longrightarrow> safe (f a b) R) \<Longrightarrow> safe (case x of (a, b) \<Rightarrow> f a b) R"
  by (cases x) auto

lemma safe_Let [safe_intros]: "safe (f x) R \<Longrightarrow> safe (Let x f) R"
  by simp

lemma safe_steps: "steps (on_db (=)) m \<Longrightarrow> keeps_accounts m"
  unfolding safe_def by (auto intro!: wp_mono[OF steps_wp] simp: on_db_def)

lemma safe_observe [safe_intros]: "keeps_accounts (observe f)" "keeps_accounts time_Now" "keeps_accounts uuid_New" "keeps_accounts run_exec"
  "keeps_accounts (redis_MGet keys)"
  by (rule safe_steps; intro steps_intros; simp add: preorder_def)+

lemma safe_put [safe_intros]: "keeps_accounts (redis_Set k v ttl)"
  unfolding redis_Set_def by (rule safe_steps, rule steps_run_put) (simp_all add: preorder_def)

section \<open>The repository\<close>

definition valid_result :: "err + User \<Rightarrow> bool" where
  "valid_result r = (\<forall>u. r = Inr u \<longrightarrow> User_Validate u = None)"

lemma valid_result_simps [simp]: "valid_result (Inl e)" "valid_result (Inr u) = (User_Validate u = None)"
  by (simp_all add: valid_result_def)

lemma safe_getBy: "safe (getBy clause) valid_result"
  by (auto simp: safe_def wp_getBy Let_def accounts_ok_def dest: find_row_Some split: option.splits)

lemmas safe_reads = safe_bind[OF safe_getBy] safe_try[OF safe_getBy]

lemma keeps_getBy [safe_intros]: "keeps_accounts (getBy clause)"
  using safe_getBy[of clause] by (auto simp: safe_def intro: wp_mono)

lemma validate_written [simp]: "User_Validate (user_written t user u) = User_Validate user"
  by (simp add: User_Validate_def user_written_def)

lemma validate_row [simp]: "User_Validate (user_row user) = User_Validate user"
  by (simp add: User_Validate_def user_row_def)

lemma safe_write:
  assumes "steps (on_db (keeping users_unique)) m"
    and "\<And>w. wp m (\<lambda>_ w'. (\<forall>u \<in> set (db_users (w_db w)). User_Validate u = None) \<longrightarrow> (\<forall>u \<in> set (db_users (w_db w')). User_Validate u = None)) w"
  shows "keeps_accounts m"
  unfolding safe_def using assms
  by (auto simp: accounts_ok_def on_db_def intro!: wp_mono[OF wp_conj[OF steps_wp[OF assms(1)] assms(2)]])

lemma safe_Update [safe_intros]: "User_Validate user = None \<Longrightarrow> keeps_accounts (UserRepo_Update user)"
  by (rule safe_write[OF unique_Update])
    (auto simp: UserRepo_Update_def rows_or_def wp_simps wp_run_stmt update_live_def set_update_rows split: outcome.splits)

lemma safe_Create [safe_intros]: "User_Validate user = None \<Longrightarrow> keeps_accounts (UserRepo_Create user)"
  by (rule safe_write[OF unique_Create]) (auto simp: UserRepo_Create_def wp_run_stmt split: outcome.splits)

lemma safe_execUser:
  assumes "\<And>t u. u_ID (f t u) = u_ID u" "\<And>t u. u_Username (f t u) = u_Username u" "\<And>t u. u_Email (f t u) = u_Email u"
    "\<And>t u. User_Validate (f t u) = User_Validate u"
  shows "keeps_accounts (execUser f i)"
  by (rule safe_write[OF unique_execUser])
    (auto simp: assms wp_execUser update_live_def set_update_rows Let_def split: outcome.splits)

lemma safe_moderation [safe_intros]:
  "keeps_accounts (UserRepo_BanUser i reason until)" "keeps_accounts (UserRepo_UnbanUser i)" "keeps_accounts (UserRepo_Delete i)"
  unfolding UserRepo_BanUser_def UserRepo_UnbanUser_def UserRepo_Delete_def
  by (rule safe_execUser; simp add: User_Validate_def)+

section \<open>The services\<close>

lemma validate_fields [simp]:
  "User_Validate (UpdateLastLogin t u) = User_Validate u" "User_Validate (VerifyEmail t u) = User_Validate u"
  "User_Validate (ClearPasswordResetToken t u) = User_Validate u"
  "User_Validate (u\<lparr> u_EmailVerified := b \<rparr>) = User_Validate u"
  "User_Validate (u\<lparr> u_EmailVerificationToken := v \<rparr>) = User_Validate u"
  "User_Validate (u\<lparr> u_PasswordResetToken := v, u_PasswordResetExpiry := x \<rparr>) = User_Validate u"
  by (simp_all add: User_Validate_def UpdateLastLogin_def VerifyEmail_def ClearPasswordResetToken_def)

lemma validate_hash: "User_Validate u = None \<Longrightarrow> hash \<noteq> '''' \<Longrightarrow> User_Validate (u\<lparr> u_PasswordHash := hash \<rparr>) = None"
  by (simp add: User_Validate_def split: if_splits)

lemma validate_role: "User_Validate u = None \<Longrightarrow> Role_IsValid r \<Longrightarrow> User_Validate (u\<lparr> u_Role := r \<rparr>) = None"
  by (simp add: User_Validate_def split: if_splits)

lemma NewUser_valid: "NewUser ut i t1 t2 name email hash role = Inr user \<Longrightarrow> User_Validate user = None"
  by (auto simp: NewUser_def Let_def split: option.splits)

definition real_hashes :: "bcrypt_lib \<Rightarrow> bool" where
  "real_hashes bc = (\<forall>salt p. bcrypt_hash bc salt p \<noteq> Some '''')"

lemma safe_Hash:
  assumes "real_hashes bc"
  shows "safe (HashPassword ut bc p) (\<lambda>r. \<forall>h. r = Inr h \<longrightarrow> h \<noteq> '''')"
  using assms unfolding HashPassword_def
  by (auto simp: safe_def wp_simps wp_return wp_observe real_hashes_def split: option.splits sum.splits)

lemma safe_tokens [safe_intros]:
  "keeps_accounts (GenerateToken lib J ts i name role)" "keeps_accounts (GenerateRefreshToken lib J ts i name role)"
  "keeps_accounts (ValidateRefreshToken J ts token)" "keeps_accounts (ValidateToken J ts token)" "keeps_accounts (IsRevoked jti uid t)"
  "keeps_accounts (newEmailToken userID)"
  unfolding GenerateToken_def GenerateRefreshToken_def sign_def ValidateRefreshToken_def ValidateToken_def validate_def IsRevoked_def
    newEmailToken_def rand_Read_def Let_def
  by (intro safe_intros TrueI)+

lemma safe_issue [safe_intros]: "keeps_accounts (renewAccess A u token)" "keeps_accounts (issueTokens A u)"
  unfolding issueTokens_def renewAccess_def by (intro safe_intros TrueI)+

lemma safe_Register:
  assumes "real_hashes (ae_bcrypt A)"
  shows "keeps_accounts (Auth_Register A username email password)"
  unfolding Auth_Register_def
  by (intro safe_bind[OF safe_Hash[OF assms]] safe_intros TrueI) (auto dest: NewUser_valid)

lemma safe_lookup: "safe (lookup_identifier A i) valid_result"
  unfolding lookup_identifier_def UserRepo_GetByEmail_def UserRepo_GetByUsername_def Let_def
  by (intro safe_intros safe_getBy) simp

lemma safe_Login: "keeps_accounts (Auth_Login A identifier password)"
  unfolding Auth_Login_def Let_def
  by (intro safe_bind[OF safe_lookup] safe_intros TrueI) (auto split: sum.splits if_splits)

lemma safe_Refresh: "keeps_accounts (Auth_Refresh A token)"
  unfolding Auth_Refresh_def UserRepo_GetByID_def
  by (intro safe_intros TrueI)

lemma safe_mail [safe_intros]: "keeps_accounts (mailer_Send zone m msg)"
  by (rule safe_steps, rule steps_mono[OF only_mail_Send]) (simp add: only_mail_def on_db_def)

lemma safe_SendVerificationEmail: "keeps_accounts (SendVerificationEmail E S i)"
  unfolding SendVerificationEmail_def UserRepo_GetByID_def
  by (intro safe_reads safe_intros TrueI) simp

lemma safe_lookupByToken: "safe (lookupByToken token) (\<lambda>r. valid_result (map_sum id fst r))"
  unfolding lookupByToken_def UserRepo_GetByID_def
  by (intro safe_reads safe_intros) (auto split: sum.splits)

lemma safe_VerifyEmail: "keeps_accounts (Email_VerifyEmail token)"
  unfolding Email_VerifyEmail_def
  by (intro safe_try[OF safe_lookupByToken] safe_intros TrueI) simp

lemma safe_RequestPasswordReset: "keeps_accounts (RequestPasswordReset E S email)"
  unfolding RequestPasswordReset_def sendAsync_def UserRepo_GetByEmail_def
  by (intro safe_reads safe_intros TrueI) (auto split: sum.splits if_splits)

definition harmless_revoker :: "EmailService \<Rightarrow> bool" where
  "harmless_revoker S = (\<forall>f i. es_revoker S = Some f \<longrightarrow> keeps_accounts (f i))"

lemma harmless_sessions: "es_revoker S = Some (RevokeAllSessions A) \<Longrightarrow> harmless_revoker S"
  unfolding harmless_revoker_def RevokeAllSessions_def RevokeAllUserSessions_def Let_def
  by (auto intro!: safe_intros)

lemma safe_set_password:
  assumes "real_hashes (ae_bcrypt (ac_auth E))" "harmless_revoker S" "User_Validate user = None"
  shows "keeps_accounts (set_password E S user pw)"
  unfolding set_password_def revokeSessions_def Let_def
  by (intro safe_try[OF safe_Hash[OF assms(1)]] safe_intros TrueI) (use assms in \<open>auto simp: validate_hash harmless_revoker_def\<close>)

lemma safe_ResetPassword:
  assumes "real_hashes (ae_bcrypt (ac_auth E))" "harmless_revoker S"
  shows "keeps_accounts (ResetPassword E S token pw)"
  unfolding ResetPassword_def
  by (intro safe_try[OF safe_lookupByToken] safe_intros safe_set_password[OF assms] TrueI) simp

lemma safe_ChangePassword:
  assumes "real_hashes (ae_bcrypt (ac_auth E))" "harmless_revoker S"
  shows "keeps_accounts (ChangePassword E S i current new)"
  unfolding ChangePassword_def UserRepo_GetByID_def
  by (intro safe_reads safe_intros safe_set_password[OF assms] TrueI) simp

section \<open>The operator\<close>

lemma safe_failing:
  "safe m S \<Longrightarrow> (\<And>x. S (Inr x) \<Longrightarrow> keeps_accounts (f x)) \<Longrightarrow> keeps_accounts (failing m f)"
  unfolding failing_def by (rule safe_bind[where S = S]) (auto intro: safe_return split: sum.splits)

lemma safe_failing_keeping [safe_intros]:
  "keeps_accounts m \<Longrightarrow> (\<And>x. keeps_accounts (f x)) \<Longrightarrow> keeps_accounts (failing m f)"
  by (rule safe_failing)

lemma safe_connect [safe_intros]: "keeps_accounts (connect_db cfg)"
  unfolding connect_db_def by (intro safe_intros TrueI)

lemma safe_promote: "keeps_accounts (promote cfg flags)"
  unfolding promote_def UserRepo_GetByUsername_def Let_def
  by (intro safe_failing[OF safe_getBy] safe_intros TrueI) (auto intro: validate_role)

lemma safe_create:
  assumes "real_hashes bc"
  shows "keeps_accounts (create ut bc env cfg flags)"
  unfolding create_def Let_def
  by (intro safe_bind[OF safe_Hash[OF assms]] safe_failing[OF safe_Hash[OF assms]] safe_intros TrueI) (auto dest: NewUser_valid)


section \<open>Any history\<close>

text \<open>One operation that touches the users table, of the service, of a moderator or of the operator; or anything
  that leaves that table alone.\<close>

inductive account_step :: "account_env \<Rightarrow> EmailService \<Rightarrow> world \<Rightarrow> world \<Rightarrow> bool" for E S where
  AS_Register: "account_step E S w (snd (run_state (Auth_Register (ac_auth E) username email password) w))"
| AS_Login: "account_step E S w (snd (run_state (Auth_Login (ac_auth E) identifier password) w))"
| AS_Refresh: "account_step E S w (snd (run_state (Auth_Refresh (ac_auth E) token) w))"
| AS_SendVerification: "account_step E S w (snd (run_state (SendVerificationEmail E S i) w))"
| AS_VerifyEmail: "account_step E S w (snd (run_state (Email_VerifyEmail token) w))"
| AS_RequestReset: "account_step E S w (snd (run_state (RequestPasswordReset E S email) w))"
| AS_Reset: "account_step E S w (snd (run_state (ResetPassword E S token password) w))"
| AS_Change: "account_step E S w (snd (run_state (ChangePassword E S i current password) w))"
| AS_Ban: "account_step E S w (snd (run_state (UserRepo_BanUser i reason until) w))"
| AS_Unban: "account_step E S w (snd (run_state (UserRepo_UnbanUser i) w))"
| AS_Delete: "account_step E S w (snd (run_state (UserRepo_Delete i) w))"
| AS_Promote: "account_step E S w (snd (run_state (promote cfg flags) w))"
| AS_Create: "account_step E S w (snd (run_state (create (ae_unicode (ac_auth E)) (ae_bcrypt (ac_auth E)) environ cfg kflags) w))"
| AS_Elsewhere: "db_users (w_db w') = db_users (w_db w) \<Longrightarrow> account_step E S w w'"

lemma safeD: "keeps_accounts m \<Longrightarrow> accounts_ok (w_db w) \<Longrightarrow> accounts_ok (w_db (snd (run_state m w)))"
  using wpD[of m "\<lambda>_ w'. accounts_ok (w_db w') \<and> True" w] by (auto simp: safe_def)

lemmas safe_operations = safe_Register safe_Login safe_Refresh safe_SendVerificationEmail safe_VerifyEmail safe_RequestPasswordReset
  safe_ResetPassword safe_ChangePassword safe_moderation safe_promote safe_create

lemma account_step_ok:
  assumes "account_step E S w w'" "real_hashes (ae_bcrypt (ac_auth E))" "harmless_revoker S" "accounts_ok (w_db w)"
  shows "accounts_ok (w_db w')"
  using assms(1,4)
proof (induction rule: account_step.induct)
  case (AS_Elsewhere w' w)
  then show ?case by (simp add: accounts_ok_def users_unique_def)
qed (rule safeD, intro safe_operations assms(2,3), assumption)+

lemma validated: "User_Validate u = None \<Longrightarrow> usernameRegex (u_Username u) \<and> emailRegex (u_Email u) \<and> u_PasswordHash u \<noteq> ''''
    \<and> Role_IsValid (u_Role u) \<and> length (case u_Bio u of None \<Rightarrow> '''' | Some b \<Rightarrow> b) \<le> 500
    \<and> length (case u_FullName u of None \<Rightarrow> '''' | Some f \<Rightarrow> f) \<le> 100"
  by (cases "u_Bio u"; cases "u_FullName u") (simp_all add: User_Validate_def split: if_splits)

text \<open>C37: What is known of every stored account, however the tables came about: starting from valid rows, after any
  sequence of registrations, logins, refreshes, email and password operations, bans, deletions, promotions and
  operator-made accounts, with whatever failures on the way, each row has a well-formed username and address, a
  non-empty hash, one of the five roles and texts within their limits, and no two rows share an id, a username or an
  address, soft-deleted ones included.\<close>

theorem stored_accounts_valid:
  assumes "(account_step E S)\<^sup>*\<^sup>* w w'" "accounts_ok (w_db w)"
    and "real_hashes (ae_bcrypt (ac_auth E))" "es_revoker S = Some (RevokeAllSessions (ac_auth E))"
  shows "(\<forall>u \<in> set (db_users (w_db w')). usernameRegex (u_Username u) \<and> emailRegex (u_Email u) \<and> u_PasswordHash u \<noteq> '''' \<and> Role_IsValid (u_Role u)
      \<and> length (case u_Bio u of None \<Rightarrow> '''' | Some b \<Rightarrow> b) \<le> 500 \<and> length (case u_FullName u of None \<Rightarrow> '''' | Some f \<Rightarrow> f) \<le> 100)
    \<and> distinct (map u_ID (db_users (w_db w'))) \<and> distinct (map u_Username (db_users (w_db w'))) \<and> distinct (map u_Email (db_users (w_db w')))"
proof -
  have "accounts_ok (w_db w')"
    using assms(1,2)
  proof (induction rule: rtranclp_induct)
    case (step y z)
    then show ?case using account_step_ok[OF _ assms(3) harmless_sessions[OF assms(4)]] by blast
  qed
  then show ?thesis using validated by (simp add: accounts_ok_def users_unique_def)
qed

definition registered :: world where
  "registered = snd (run_state (Auth_Register (ac_auth sample_account) ''bob'' ''bob@example.com'' ''Secret-123'') (calm_world login_db))"

definition promoted :: world where
  "promoted = snd (run_state (promote (Inr (config_of_env Map.empty)) (Some \<lparr> pf_username = ''bob'', pf_role = ''moderator'' \<rparr>)) registered)"

theorem stored_accounts_valid_witness:
  "map u_Role (db_users (w_db promoted)) = [RoleUser, RoleModerator] \<and> distinct (map u_Email (db_users (w_db promoted)))"
proof -
  have "account_step sample_account sample_service (calm_world login_db) registered"
    unfolding registered_def by (rule AS_Register)
  moreover have "account_step sample_account sample_service registered promoted"
    unfolding promoted_def by (rule AS_Promote)
  ultimately have "(account_step sample_account sample_service)\<^sup>*\<^sup>* (calm_world login_db) promoted"
    by (meson converse_rtranclp_into_rtranclp r_into_rtranclp)
  moreover have "accounts_ok (w_db (calm_world login_db))" by code_simp
  moreover have "real_hashes (ae_bcrypt (ac_auth sample_account))"
    by (simp add: real_hashes_def sample_account_def sample_auth_def toy_bcrypt_def)
  moreover have "es_revoker sample_service = Some (RevokeAllSessions (ac_auth sample_account))"
    by (simp add: sample_service_def NewEmailService_def)
  moreover have "map u_Role (db_users (w_db promoted)) = [RoleUser, RoleModerator]" by code_simp
  ultimately show ?thesis using stored_accounts_valid[of sample_account sample_service "calm_world login_db" promoted] by simp
qed


end
