(* ===== verification/Optimizer.thy ===== *)
theory Optimizer
  imports Transcode Views
begin

text \<open>
  Command lines for ffmpeg (\<^verbatim>\<open>internal/service/video_optimizer.go\<close>) and the reading of what ffprobe reports
  (\<^verbatim>\<open>internal/service/ffmpeg_service.go\<close>).  The output of \<^verbatim>\<open>ffmpeg -hwaccels\<close> and the JSON decoded from
  ffprobe are inputs, \<^verbatim>\<open>strconv.ParseFloat\<close> a parameter whose values are exact rationals.
\<close>

section \<open>Presets\<close>

record VideoQuality =
  vq_Name :: string
  vq_Width :: int
  vq_Height :: int
  vq_Bitrate :: string
  vq_MaxRate :: string
  vq_BufSize :: string
  vq_AudioRate :: string
  vq_CRF :: int
  vq_Preset :: string

definition QualityPresets :: "(string \<times> VideoQuality) list" where
  "QualityPresets = map (\<lambda>q. (vq_Name q, q))
     [\<lparr> vq_Name = ''360p'', vq_Width = 640, vq_Height = 360, vq_Bitrate = ''800k'', vq_MaxRate = ''856k'',
        vq_BufSize = ''1200k'', vq_AudioRate = ''96k'', vq_CRF = 28, vq_Preset = ''slow'' \<rparr>,
      \<lparr> vq_Name = ''480p'', vq_Width = 854, vq_Height = 480, vq_Bitrate = ''1400k'', vq_MaxRate = ''1498k'',
        vq_BufSize = ''2100k'', vq_AudioRate = ''128k'', vq_CRF = 26, vq_Preset = ''slow'' \<rparr>,
      \<lparr> vq_Name = ''720p'', vq_Width = 1280, vq_Height = 720, vq_Bitrate = ''2800k'', vq_MaxRate = ''2996k'',
        vq_BufSize = ''4200k'', vq_AudioRate = ''128k'', vq_CRF = 23, vq_Preset = ''medium'' \<rparr>,
      \<lparr> vq_Name = ''1080p'', vq_Width = 1920, vq_Height = 1080, vq_Bitrate = ''5000k'', vq_MaxRate = ''5350k'',
        vq_BufSize = ''7500k'', vq_AudioRate = ''192k'', vq_CRF = 21, vq_Preset = ''medium'' \<rparr>]"

record VideoOptimizer =
  vo_ffmpegPath :: string
  vo_ffprobePath :: string
  vo_hwAccel :: string

text \<open>The first of the known accelerators that the listing names; \<^verbatim>\<open>None\<close> when ffmpeg could not be run.\<close>

definition detectHardwareAcceleration :: "string option \<Rightarrow> string" where
  "detectHardwareAcceleration out = (case out of None \<Rightarrow> ''''
     | Some hwaccels \<Rightarrow>
         if Contains hwaccels ''cuda'' then ''cuda''
         else if Contains hwaccels ''qsv'' then ''qsv''
         else if Contains hwaccels ''videotoolbox'' then ''videotoolbox'' else '''')"

definition NewVideoOptimizer :: "string \<Rightarrow> string \<Rightarrow> string option \<Rightarrow> VideoOptimizer" where
  "NewVideoOptimizer ffmpeg ffprobe out =
     \<lparr> vo_ffmpegPath = ffmpeg, vo_ffprobePath = ffprobe, vo_hwAccel = detectHardwareAcceleration out \<rparr>"

section \<open>Argument lists\<close>

definition scale_pad :: "int \<Rightarrow> int \<Rightarrow> string" where
  "scale_pad w h = ''scale='' @ Itoa w @ '':'' @ Itoa h @ '':force_original_aspect_ratio=decrease,pad='' @ Itoa w @ '':''
     @ Itoa h @ '':(ow-iw)/2:(oh-ih)/2''"

text \<open>The part \<^verbatim>\<open>GetTranscodeArgs\<close> and \<^verbatim>\<open>GetHLSArgs\<close> share, from the input to the audio settings.\<close>

definition encode_args :: "VideoOptimizer \<Rightarrow> string \<Rightarrow> VideoQuality \<Rightarrow> string list" where
  "encode_args o1 inputFile q =
     [''-i'', inputFile, ''-y'']
     @ (if vo_hwAccel o1 = ''cuda'' then [''-hwaccel'', ''cuda'', ''-hwaccel_output_format'', ''cuda''] else [])
     @ [''-vf'', scale_pad (vq_Width q) (vq_Height q)]
     @ (if vo_hwAccel o1 = ''cuda''
        then [''-c:v'', ''h264_nvenc'', ''-preset'', ''p4'', ''-rc'', ''vbr'', ''-cq'', Itoa (vq_CRF q),
              ''-b:v'', vq_Bitrate q, ''-maxrate'', vq_MaxRate q, ''-bufsize'', vq_BufSize q]
        else [''-c:v'', ''libx264'', ''-preset'', vq_Preset q, ''-crf'', Itoa (vq_CRF q),
              ''-profile:v'', ''main'', ''-level'', ''4.0'',
              ''-b:v'', vq_Bitrate q, ''-maxrate'', vq_MaxRate q, ''-bufsize'', vq_BufSize q])
     @ [''-c:a'', ''aac'', ''-b:a'', vq_AudioRate q, ''-ac'', ''2'', ''-ar'', ''44100'']"

definition GetTranscodeArgs :: "VideoOptimizer \<Rightarrow> string \<Rightarrow> string \<Rightarrow> VideoQuality \<Rightarrow> string list" where
  "GetTranscodeArgs o1 inputFile outputFile q =
     encode_args o1 inputFile q @ [''-movflags'', ''+faststart'', ''-pix_fmt'', ''yuv420p'', outputFile]"

definition GetHLSArgs :: "VideoOptimizer \<Rightarrow> string \<Rightarrow> string \<Rightarrow> VideoQuality \<Rightarrow> int \<Rightarrow> string list" where
  "GetHLSArgs o1 inputFile outputDir q segmentDuration =
     encode_args o1 inputFile q
     @ [''-f'', ''hls'', ''-hls_time'', Itoa segmentDuration, ''-hls_list_size'', ''0'', ''-hls_segment_type'', ''mpegts'',
        ''-hls_segment_filename'', path_Join [outputDir, vq_Name q @ ''_%03d.ts''],
        ''-hls_playlist_type'', ''vod'', ''-pix_fmt'', ''yuv420p'', path_Join [outputDir, vq_Name q @ ''.m3u8'']]"

text \<open>On a system whose path separator is the slash.\<close>

definition GetTwoPassArgs :: "string \<Rightarrow> string \<Rightarrow> VideoQuality \<Rightarrow> int \<Rightarrow> string list" where
  "GetTwoPassArgs inputFile outputFile q pass =
     [''-i'', inputFile, ''-y'', ''-vf'', scale_pad (vq_Width q) (vq_Height q), ''-c:v'', ''libx264'',
      ''-preset'', vq_Preset q, ''-b:v'', vq_Bitrate q, ''-maxrate'', vq_MaxRate q, ''-bufsize'', vq_BufSize q,
      ''-profile:v'', ''main'', ''-level'', ''4.0'', ''-pass'', Itoa pass]
     @ (if pass = 1 then [''-an'', ''-f'', ''null'', ''/dev/null'']
        else [''-c:a'', ''aac'', ''-b:a'', vq_AudioRate q, ''-ac'', ''2'', ''-ar'', ''44100'',
              ''-movflags'', ''+faststart'', ''-pix_fmt'', ''yuv420p'', outputFile])"

definition GetThumbnailArgs :: "string \<Rightarrow> string \<Rightarrow> string \<Rightarrow> int \<Rightarrow> int \<Rightarrow> string list" where
  "GetThumbnailArgs inputFile outputFile timestamp w h =
     [''-i'', inputFile, ''-ss'', timestamp, ''-vframes'', ''1'', ''-vf'', scale_pad w h, ''-q:v'', ''2'', ''-y'', outputFile]"

definition GetWebPThumbnailArgs :: "string \<Rightarrow> string \<Rightarrow> string \<Rightarrow> int \<Rightarrow> int \<Rightarrow> string list" where
  "GetWebPThumbnailArgs inputFile outputFile timestamp w h =
     [''-i'', inputFile, ''-ss'', timestamp, ''-vframes'', ''1'', ''-vf'', scale_pad w h,
      ''-c:v'', ''libwebp'', ''-quality'', ''80'', ''-y'', outputFile]"

definition GetAnimatedThumbnailArgs :: "string \<Rightarrow> string \<Rightarrow> string \<Rightarrow> int \<Rightarrow> int \<Rightarrow> int \<Rightarrow> string list" where
  "GetAnimatedThumbnailArgs inputFile outputFile startTime dur w h =
     [''-i'', inputFile, ''-ss'', startTime, ''-t'', Itoa dur, ''-vf'', ''fps=10,'' @ scale_pad w h,
      ''-c:v'', ''libwebp'', ''-loop'', ''0'', ''-quality'', ''60'', ''-y'', outputFile]"

definition GetProbeArgs :: "string \<Rightarrow> string list" where
  "GetProbeArgs inputFile =
     [''-v'', ''quiet'', ''-print_format'', ''json'', ''-show_format'', ''-show_streams'', inputFile]"

definition GetAudioExtractArgs :: "string \<Rightarrow> string \<Rightarrow> string list" where
  "GetAudioExtractArgs inputFile outputFile =
     [''-i'', inputFile, ''-vn'', ''-c:a'', ''aac'', ''-b:a'', ''192k'', ''-y'', outputFile]"

definition GetSubtitleExtractArgs :: "string \<Rightarrow> string \<Rightarrow> int \<Rightarrow> string list" where
  "GetSubtitleExtractArgs inputFile outputFile streamIndex =
     [''-i'', inputFile, ''-map'', ''0:'' @ Itoa streamIndex, ''-c:s'', ''webvtt'', ''-y'', outputFile]"

definition GetConcatArgs :: "string \<Rightarrow> string \<Rightarrow> string list" where
  "GetConcatArgs listFile outputFile =
     [''-f'', ''concat'', ''-safe'', ''0'', ''-i'', listFile, ''-c'', ''copy'', ''-y'', outputFile]"

definition GetTrimArgs :: "string \<Rightarrow> string \<Rightarrow> string \<Rightarrow> string \<Rightarrow> string list" where
  "GetTrimArgs inputFile outputFile startTime endTime =
     [''-i'', inputFile, ''-ss'', startTime, ''-to'', endTime, ''-c'', ''copy'', ''-y'', outputFile]"

definition HardwareAccelEnabled :: "VideoOptimizer \<Rightarrow> bool" where
  "HardwareAccelEnabled o1 = (vo_hwAccel o1 \<noteq> '''')"

definition HardwareAccelType :: "VideoOptimizer \<Rightarrow> string" where
  "HardwareAccelType o1 = vo_hwAccel o1"

section \<open>What ffprobe reports\<close>

record probeStream =
  ps_CodecType :: string
  ps_CodecName :: string
  ps_Width :: int
  ps_Height :: int
  ps_RFrameRate :: string

record probeData =
  pd_Duration :: string
  pd_Bitrate :: string
  pd_Format :: string
  pd_Streams :: "probeStream list"

record FullMetadata = VideoMetadata +
  md_FrameRate :: rat
  md_Bitrate :: int
  md_VideoCodec :: string
  md_AudioCodec :: string
  md_Format :: string

text \<open>A rate \<^verbatim>\<open>num/den\<close>; a part that is no number counts as zero.\<close>

definition frame_rate :: "(string \<Rightarrow> rat option) \<Rightarrow> string \<Rightarrow> rat option" where
  "frame_rate ParseFloat s = (case split_on CHR ''/'' s of
     [a, b] \<Rightarrow> let num = (case ParseFloat a of None \<Rightarrow> 0 | Some x \<Rightarrow> x); den = (case ParseFloat b of None \<Rightarrow> 0 | Some x \<Rightarrow> x)
       in if den > 0 then Some (num / den) else None
   | _ \<Rightarrow> None)"

definition take_stream :: "(string \<Rightarrow> rat option) \<Rightarrow> FullMetadata \<Rightarrow> probeStream \<Rightarrow> FullMetadata" where
  "take_stream ParseFloat m s =
     (let m1 = (if ps_CodecType s = ''video'' \<and> md_VideoCodec m = ''''
          then m\<lparr> md_VideoCodec := ps_CodecName s, md_Width := ps_Width s, md_Height := ps_Height s,
                  md_FrameRate := (case frame_rate ParseFloat (ps_RFrameRate s) of None \<Rightarrow> md_FrameRate m | Some r \<Rightarrow> r) \<rparr>
          else m)
      in if ps_CodecType s = ''audio'' \<and> md_AudioCodec m1 = '''' then m1\<lparr> md_AudioCodec := ps_CodecName s \<rparr> else m1)"

definition metadata_of_probe :: "(string \<Rightarrow> rat option) \<Rightarrow> probeData \<Rightarrow> err + FullMetadata" where
  "metadata_of_probe ParseFloat p =
     (let m = foldl (take_stream ParseFloat)
          \<lparr> md_Duration = (case ParseFloat (pd_Duration p) of None \<Rightarrow> 0 | Some d \<Rightarrow> d), md_Width = 0, md_Height = 0,
            md_FrameRate = 0, md_Bitrate = (case Atoi (pd_Bitrate p) of None \<Rightarrow> 0 | Some b \<Rightarrow> b),
            md_VideoCodec = '''', md_AudioCodec = '''', md_Format = pd_Format p \<rparr> (pd_Streams p)
      in if md_VideoCodec m = '''' then Inl (ErrOther ''no video stream found in file'') else Inr m)"

end
