(* ===== verification/Lifecycle.thy ===== *)
theory Lifecycle
  imports App
begin

text \<open>
  The life of the API process (\<^verbatim>\<open>cmd/api/main.go\<close>, \<^verbatim>\<open>New\<close>, \<^verbatim>\<open>Run\<close> and \<^verbatim>\<open>Close\<close> of \<^verbatim>\<open>internal/app/app.go\<close>):
  what it opens and closes on every path, beside the graph that \<^verbatim>\<open>App\<close> builds.  The programs here make
  the same calls as those of \<^verbatim>\<open>App\<close> and also report what they opened and closed; without the reports
  they are the same programs.
\<close>

section \<open>What is held\<close>

datatype holding = DatabasePool | RedisClient | QueueInspector | QueueClient | CacheSweeper

datatype life_event = Opened holding | Closed holding

type_synonym 'a traced = "(life_event list \<times> 'a) prog"

text \<open>The fields of a partly built app that \<^verbatim>\<open>Close\<close> looks at.\<close>

record held =
  hd_db :: bool
  hd_redis :: bool
  hd_inspector :: bool
  hd_queueClient :: bool
  hd_cache :: bool

definition nothing_held :: held where
  "nothing_held = \<lparr> hd_db = False, hd_redis = False, hd_inspector = False, hd_queueClient = False, hd_cache = False \<rparr>"

definition app_Close :: "held \<Rightarrow> life_event list" where
  "app_Close a = (if hd_cache a then [Closed CacheSweeper] else [])
     @ (if hd_queueClient a then [Closed QueueClient] else [])
     @ (if hd_inspector a then [Closed QueueInspector] else [])
     @ (if hd_redis a then [Closed RedisClient] else [])
     @ (if hd_db a then [Closed DatabasePool] else [])"

section \<open>Opening\<close>

text \<open>A call that ends the function with the given report when it fails.\<close>

definition or_report :: "life_event list \<Rightarrow> (err + 'a) prog \<Rightarrow> ('a \<Rightarrow> (err + 'b) traced) \<Rightarrow> (err + 'b) traced" where
  "or_report t m f = State_Monad.bind m (\<lambda>r. case r of Inl e \<Rightarrow> State_Monad.return (t, Inl e) | Inr x \<Rightarrow> f x)"

definition openDatabase_traced :: "DatabaseConfig \<Rightarrow> (err + PoolConfig) traced" where
  "openDatabase_traced c = or_report [] (os_call ''parsing database DSN'') (\<lambda>_.
     or_report [] (os_call ''creating database pool'') (\<lambda>_.
     or_report [Opened DatabasePool, Closed DatabasePool] (os_call ''connecting to database'') (\<lambda>_.
     State_Monad.return ([Opened DatabasePool], Inr (pool_config c)))))"

definition openRedis_traced :: "RedisConfig \<Rightarrow> (err + RedisOptions) traced" where
  "openRedis_traced c = or_report [Opened RedisClient, Closed RedisClient] (os_call ''connecting to Redis'') (\<lambda>_.
     State_Monad.return ([Opened RedisClient], Inr (redis_options c)))"

text \<open>A function that reports: its report is kept, and on failure the app as it stands is closed.\<close>

definition or_close :: "held \<Rightarrow> (err + 'a) traced \<Rightarrow> ('a \<Rightarrow> (err + 'b) traced) \<Rightarrow> (err + 'b) traced" where
  "or_close a m f = State_Monad.bind m (\<lambda>(t, r). case r of
       Inl e \<Rightarrow> State_Monad.return (t @ app_Close a, Inl e)
     | Inr x \<Rightarrow> State_Monad.bind (f x) (\<lambda>(t', r'). State_Monad.return (t @ t', r')))"

definition untraced :: "'a prog \<Rightarrow> 'a traced" where
  "untraced m = State_Monad.bind m (\<lambda>r. State_Monad.return ([], r))"

definition new_app_traced :: "runtime \<Rightarrow> Config \<Rightarrow> (err + held \<times> App) traced" where
  "new_app_traced R cfg = State_Monad.bind time_Now (\<lambda>started.
     let app0 = nothing_held in
     or_close app0 (untraced (storage_New cfg)) (\<lambda>store.
     or_close app0 (openDatabase_traced (cf_Database cfg)) (\<lambda>pool.
     let app1 = app0\<lparr> hd_db := True \<rparr> in
     or_close app1 (openRedis_traced (cf_Redis cfg)) (\<lambda>redis.
     let app2 = app1\<lparr> hd_redis := True, hd_inspector := True, hd_queueClient := True, hd_cache := True \<rparr> in
     State_Monad.bind time_Now (\<lambda>monitored. State_Monad.return
       ([Opened QueueInspector, Opened QueueClient, Opened CacheSweeper],
        Inr (app2, app_graph R cfg started monitored store pool redis)))))))"

section \<open>Running\<close>

text \<open>How serving ends: the listener fails, the server was closed, or a signal starts the shutdown, which drains in
  time or not.\<close>

datatype serving = ListenFailed | ServerClosed | Signalled (sv_drained: bool)

definition app_Run :: "serving \<Rightarrow> err + unit" where
  "app_Run s = (case s of ListenFailed \<Rightarrow> Inl (ErrOther ''listen'') | ServerClosed \<Rightarrow> Inr ()
     | Signalled drained \<Rightarrow> if drained then Inr () else Inl (ErrOther ''graceful shutdown failed''))"

datatype run_error = NotConfigured config_error | NotBuilt err | NotServed err

text \<open>\<^verbatim>\<open>run\<close> of \<^verbatim>\<open>cmd/api\<close>; the exit status is 1 for an error.\<close>

definition api_run :: "runtime \<Rightarrow> config_error + Config \<Rightarrow> serving \<Rightarrow> (run_error + unit) traced" where
  "api_run R loaded s = (case loaded of Inl e \<Rightarrow> State_Monad.return ([], Inl (NotConfigured e))
     | Inr cfg \<Rightarrow> State_Monad.bind (new_app_traced R cfg) (\<lambda>(t, r). case r of
         Inl e \<Rightarrow> State_Monad.return (t, Inl (NotBuilt e))
       | Inr (a, _) \<Rightarrow> State_Monad.return (t @ app_Close a,
           case app_Run s of Inl e \<Rightarrow> Inl (NotServed e) | Inr _ \<Rightarrow> Inr ())))"

definition exit_status :: "run_error + unit \<Rightarrow> int" where
  "exit_status r = (case r of Inl _ \<Rightarrow> 1 | Inr _ \<Rightarrow> 0)"

section \<open>The reports aside, the same program\<close>

definition forget_trace :: "'a traced \<Rightarrow> 'a prog" where
  "forget_trace m = State_Monad.bind m (\<lambda>(t, r). State_Monad.return r)"

lemma run_forget: "run_state (forget_trace m) s = (let ((t, r), s') = run_state m s in (r, s'))"
  by (simp add: forget_trace_def State_Monad.bind_def State_Monad.return_def split: prod.splits)

lemma forget_or_report: "forget_trace (or_report t m f) = try_then m (\<lambda>x. forget_trace (f x))"
  by (simp add: forget_trace_def or_report_def try_then_def State_Monad.bind_def State_Monad.return_def
      fun_eq_iff split: prod.splits sum.splits)

lemma forget_or_close: "forget_trace (or_close a m f) = try_then (forget_trace m) (\<lambda>x. forget_trace (f x))"
  by (simp add: forget_trace_def or_close_def try_then_def State_Monad.bind_def State_Monad.return_def
      fun_eq_iff split: prod.splits sum.splits)

lemma forget_return: "forget_trace (State_Monad.return (t, r)) = State_Monad.return r"
  by (simp add: forget_trace_def)

lemma forget_untraced: "forget_trace (untraced m) = m"
  by (simp add: forget_trace_def untraced_def)

lemma forget_bind: "forget_trace (State_Monad.bind m f) = State_Monad.bind m (\<lambda>x. forget_trace (f x))"
  by (simp add: forget_trace_def)

lemma openDatabase_same: "forget_trace (openDatabase_traced c) = openDatabase c"
  by (simp add: openDatabase_traced_def openDatabase_def forget_or_report forget_return)

lemma openRedis_same: "forget_trace (openRedis_traced c) = openRedis c"
  by (simp add: openRedis_traced_def openRedis_def forget_or_report forget_return)

lemma try_then_map: "State_Monad.bind (try_then m f) (\<lambda>r. State_Monad.return (map_sum id h r)) =
    try_then m (\<lambda>x. State_Monad.bind (f x) (\<lambda>r. State_Monad.return (map_sum id h r)))"
  by (simp add: try_then_def State_Monad.bind_def State_Monad.return_def fun_eq_iff split: prod.splits sum.splits)

lemma new_app_same:
  "State_Monad.bind (forget_trace (new_app_traced R cfg)) (\<lambda>r. State_Monad.return (map_sum id snd r)) = new_app R cfg"
  by (simp add: new_app_traced_def new_app_def forget_bind forget_or_close forget_untraced openDatabase_same
      openRedis_same forget_return Let_def try_then_map)

section \<open>Nothing is left open\<close>

text \<open>Events nest: nothing is opened twice, what is closed was opened last of all that is open, and in the end nothing is open.\<close>

fun nested :: "holding list \<Rightarrow> life_event list \<Rightarrow> bool" where
  "nested held_now [] = (held_now = [])"
| "nested held_now (Opened x # t) = (x \<notin> set held_now \<and> nested (x # held_now) t)"
| "nested held_now (Closed x # t) = (held_now \<noteq> [] \<and> hd held_now = x \<and> nested (tl held_now) t)"

lemma wp_or_report: "wp (or_report t m f) Q = wp m (\<lambda>r. case r of Inl e \<Rightarrow> Q (t, Inl e) | Inr x \<Rightarrow> wp (f x) Q)"
  unfolding or_report_def wp_bind by (rule arg_cong2 [where f = wp]) (auto simp: fun_eq_iff wp_return split: sum.splits)

lemma wp_or_close: "wp (or_close a m f) Q = wp m (\<lambda>(t, r). case r of Inl e \<Rightarrow> Q (t @ app_Close a, Inl e)
     | Inr x \<Rightarrow> wp (f x) (\<lambda>(t', r'). Q (t @ t', r')))"
  unfolding or_close_def wp_bind
  by (rule arg_cong2 [where f = wp]) (auto simp: fun_eq_iff wp_return wp_bind case_prod_unfold split: sum.splits)


lemma wp_whatever: "(\<And>x t. Q x t) \<Longrightarrow> wp m Q s"
  by (rule wp_mono [OF wp_True])

lemma openDatabase_events: "wp (openDatabase_traced c) (\<lambda>(t, r) _. case r of
     Inl _ \<Rightarrow> t \<in> {[], [Opened DatabasePool, Closed DatabasePool]} | Inr _ \<Rightarrow> t = [Opened DatabasePool]) s"
  unfolding openDatabase_traced_def wp_or_report
  by (intro wp_whatever) (auto simp: wp_return split: sum.split intro!: wp_whatever)

lemma openRedis_events: "wp (openRedis_traced c) (\<lambda>(t, r) _. case r of
     Inl _ \<Rightarrow> t = [Opened RedisClient, Closed RedisClient] | Inr _ \<Rightarrow> t = [Opened RedisClient]) s"
  unfolding openRedis_traced_def wp_or_report
  by (intro wp_whatever) (auto simp: wp_return split: sum.split)


text \<open>A report that closes what is held when it starts, or leaves an app whose closing does.\<close>

definition closes :: "holding list \<Rightarrow> life_event list \<times> (err + held \<times> 'b) \<Rightarrow> world \<Rightarrow> bool" where
  "closes held_now p w = (case p of (t, Inl _) \<Rightarrow> nested held_now t | (t, Inr (a, _)) \<Rightarrow> nested held_now (t @ app_Close a))"

lemmas close_simps = closes_def app_Close_def nothing_held_def

lemma redis_part: "wp (or_close (nothing_held\<lparr>hd_db := True\<rparr>) (openRedis_traced c) (\<lambda>redis. State_Monad.bind m
     (\<lambda>x. State_Monad.return ([Opened QueueInspector, Opened QueueClient, Opened CacheSweeper],
        Inr (nothing_held\<lparr>hd_db := True, hd_redis := True, hd_inspector := True, hd_queueClient := True, hd_cache := True\<rparr>,
          g redis x))))) (closes [DatabasePool]) s"
  unfolding wp_or_close wp_bind wp_return
  by (rule wp_mono [OF openRedis_events])
    (auto simp: close_simps split: sum.splits intro!: wp_whatever)

lemma database_part:
  assumes "\<And>x s. wp (f x) (closes [DatabasePool]) s"
  shows "wp (or_close nothing_held (openDatabase_traced c) f) (closes []) s"
  unfolding wp_or_close
proof (rule wp_mono [OF openDatabase_events])
  fix p :: "life_event list \<times> (err + PoolConfig)" and s' :: world
  assume p: "(case p of (t, r) \<Rightarrow> \<lambda>_. (case r of Inl _ \<Rightarrow> t \<in> {[], [Opened DatabasePool, Closed DatabasePool]}
     | Inr _ \<Rightarrow> t = [Opened DatabasePool])) s'"
  show "(case p of (t, r) \<Rightarrow> (case r of Inl e \<Rightarrow> closes [] (t @ app_Close nothing_held, Inl e)
    | Inr x \<Rightarrow> wp (f x) (\<lambda>(t', r'). closes [] (t @ t', r')))) s'"
  proof (cases "snd p")
    case (Inl e)
    with p show ?thesis by (auto simp: close_simps split: prod.splits)
  next
    case (Inr x)
    with p have t: "fst p = [Opened DatabasePool]" by (simp split: prod.splits)
    have "wp (f x) (\<lambda>(t', r'). closes [] (fst p @ t', r')) s'"
      by (rule wp_mono [OF assms]) (auto simp: t closes_def split: sum.splits)
    with Inr show ?thesis by (cases p) simp
  qed
qed

lemma closes_prefix_nil: "(\<lambda>(t', r'). closes h ([] @ t', r')) = closes h"
  by (rule ext) auto

lemma storage_part:
  assumes "\<And>x s. wp (f x) (closes []) s"
  shows "wp (or_close nothing_held (untraced m) f) (closes []) s"
  unfolding wp_or_close untraced_def wp_bind wp_return prod.case closes_prefix_nil
  by (rule wp_whatever) (auto simp: close_simps assms split: sum.split)

lemma new_app_events: "wp (new_app_traced R cfg) (closes []) s"
  unfolding new_app_traced_def Let_def wp_bind [of time_Now]
  by (intro wp_whatever storage_part database_part redis_part)

lemma new_app_result: "run_state (new_app_traced R cfg) w = ((t, r), w') \<Longrightarrow> run_state (new_app R cfg) w = (map_sum id snd r, w')"
  unfolding new_app_same [symmetric] State_Monad.bind_def State_Monad.return_def
  by (simp add: run_forget)

text \<open>C38: The process leaves nothing open.  Whatever fails while it starts, serves or shuts down,
  what run opened it has closed when it returns, each exactly once and in the reverse of
  the order of opening; and it exits with status 0 exactly when the configuration was accepted,
  New built the app and the server ended without an error.
\<close>

theorem run_releases_everything:
  "case run_state (api_run R loaded s) w of ((t, r), w') \<Rightarrow> nested [] t
     \<and> (exit_status r = 0 \<longleftrightarrow> (\<exists>cfg. loaded = Inr cfg \<and> \<not> isl (fst (run_state (new_app R cfg) w)) \<and> \<not> isl (app_Run s)))"
proof (cases loaded)
  case (Inl e)
  then show ?thesis by (simp add: api_run_def exit_status_def State_Monad.return_def)
next
  case (Inr cfg)
  obtain t r w' where run: "run_state (new_app_traced R cfg) w = ((t, r), w')" by (metis prod.exhaust)
  have closed: "closes [] (t, r) w'" using wpD [OF new_app_events, of R cfg w] by (simp add: run)
  show ?thesis
  proof (cases r)
    case (Inl e)
    with closed show ?thesis
      by (simp add: \<open>loaded = Inr cfg\<close> api_run_def State_Monad.bind_def State_Monad.return_def run exit_status_def
          closes_def new_app_result [OF run])
  next
    case (Inr x)
    with closed show ?thesis
      by (cases x; cases "app_Run s")
        (simp_all add: \<open>loaded = Inr cfg\<close> api_run_def State_Monad.bind_def State_Monad.return_def run exit_status_def
          closes_def new_app_result [OF run])
  qed
qed

end
