(* ===== verification/PagesProps.thy ===== *)
theory PagesProps
  imports Pages Samples
begin

text \<open>
  The loop of \<^verbatim>\<open>formatFileSize\<close> (\<^verbatim>\<open>web/templates/helpers.go\<close>): it ends for every 64-bit size, its divisor does
  not wrap around, and the index it leaves is one of the string of units.
\<close>

lemma power_1024_le_iff: "(1024::int) ^ m \<le> 1024 ^ n \<longleftrightarrow> m \<le> n"
  by (rule power_increasing_iff) simp

lemma wrap64_power: "k \<le> 6 \<Longrightarrow> wrap64 (1024 ^ k) = 1024 ^ k"
proof (rule wrap64_id)
  assume "k \<le> 6"
  then have "(1024::int) ^ k \<le> 1024 ^ 6" by (simp only: power_1024_le_iff)
  then show "(1024::int) ^ k < 2 ^ 63" by simp
  have "(0::int) \<le> 1024 ^ k" by simp
  then show "- (2 ^ 63) \<le> (1024::int) ^ k" by (rule order_trans [rotated]) simp
qed

lemma div_power_1024_ge: "(bytes::int) div 1024 ^ k \<ge> m \<longleftrightarrow> bytes \<ge> m * 1024 ^ k"
proof
  assume "m \<le> bytes div 1024 ^ k"
  then have "m * 1024 ^ k \<le> bytes div 1024 ^ k * 1024 ^ k" by (rule mult_right_mono) simp
  also have "\<dots> \<le> bytes"
  proof -
    have "bytes div 1024 ^ k * 1024 ^ k + bytes mod 1024 ^ k = bytes" by (rule div_mult_mod_eq)
    moreover have "0 \<le> bytes mod 1024 ^ k" by (rule pos_mod_sign) simp
    ultimately show ?thesis by linarith
  qed
  finally show "m * 1024 ^ k \<le> bytes" .
next
  assume "m * 1024 ^ k \<le> bytes"
  then have "m * 1024 ^ k div 1024 ^ k \<le> bytes div 1024 ^ k" by (rule zdiv_mono1) simp
  then show "m \<le> bytes div 1024 ^ k" by simp
qed

lemma size_unit_spec:
  assumes "n = bytes div 1024 ^ Suc e" "d = 1024 ^ Suc e" "1 \<le> n" "bytes < 2 ^ 63"
  shows "\<exists>e' \<ge> e. e' \<le> 5 \<and> size_unit n d e = (1024 ^ Suc e', e') \<and> 1024 ^ Suc e' \<le> bytes \<and> bytes < 1024 ^ (e' + 2)"
  using assms
proof (induction n d e rule: size_unit.induct)
  case (1 n d e)
  have low: "1024 ^ Suc e \<le> bytes" using "1.prems"(1,3) div_power_1024_ge [of 1 bytes "Suc e"] by simp
  show ?case
  proof (cases "n \<ge> 1024")
    case True
    then have high: "1024 ^ (e + 2) \<le> bytes"
      using "1.prems"(1) div_power_1024_ge [of 1024 bytes "Suc e"] by simp
    have "(1024::int) ^ (e + 2) < 1024 ^ 7" using high "1.prems"(4) by simp
    then have e: "e + 2 \<le> 6" using power_1024_le_iff [of 7 "e + 2"] by linarith
    have d: "wrap64 (d * 1024) = 1024 ^ Suc (Suc e)"
      using wrap64_power [OF e] "1.prems"(2) by (simp add: mult.commute)
    have n: "n div 1024 = bytes div 1024 ^ Suc (Suc e)"
      unfolding "1.prems"(1) power_Suc2 [of 1024 "Suc e"] by (rule zdiv_zmult2_eq [symmetric]) simp
    have "1 \<le> n div 1024" using True zdiv_mono1 [of 1024 n 1024] by simp
    then obtain e' where "e' \<ge> Suc e" "e' \<le> 5" "size_unit (n div 1024) (wrap64 (d * 1024)) (Suc e) = (1024 ^ Suc e', e')"
      "1024 ^ Suc e' \<le> bytes" "bytes < 1024 ^ (e' + 2)"
      using "1.IH" [OF True n d _ "1.prems"(4)] True by auto
    then show ?thesis using True by (intro exI [of _ e']) (simp add: size_unit.simps [of n])
  next
    case False
    then have up: "bytes < 1024 ^ (e + 2)"
      using "1.prems"(1) div_power_1024_ge [of 1024 bytes "Suc e"] by simp
    have "(1024::int) ^ Suc e < 1024 ^ 7" using low "1.prems"(4) by simp
    then have "e \<le> 5" using power_1024_le_iff [of 7 "Suc e"] by linarith
    then show ?thesis using False low up "1.prems"(2) by (intro exI [of _ e]) (simp add: size_unit.simps [of n])
  qed
qed

text \<open>C39: formatFileSize returns for every 64-bit size.  Its loop ends, the divisor is the power of 1024
  with one to four digits before it that the size calls for and never wraps around, and the index
  the loop leaves is one of the six units, so the text is made and no index is out of range.
\<close>

theorem formatFileSize_returns:
  assumes "bytes < 2 ^ 63"
  shows "if bytes < 1024 then formatFileSize bytes = Some (Itoa bytes @ '' B'')
    else \<exists>e \<le> 5. size_unit (bytes div 1024) 1024 0 = (1024 ^ Suc e, e) \<and>
      1024 ^ Suc e \<le> bytes \<and> bytes < 1024 ^ (e + 2) \<and>
      formatFileSize bytes =
        Some (fixed1 (of_int (float64_of_int bytes) / 1024 ^ Suc e) @ '' '' @ [''KMGTPE'' ! e] @ ''B'')"
proof (cases "bytes < 1024")
  case True
  then show ?thesis by (simp add: formatFileSize_def)
next
  case False
  then have "1 \<le> bytes div 1024" using div_power_1024_ge [of 1 bytes 1] by simp
  then obtain e where "e \<le> 5" "size_unit (bytes div 1024) 1024 0 = (1024 ^ Suc e, e)"
      "1024 ^ Suc e \<le> bytes" "bytes < 1024 ^ (e + 2)"
    using size_unit_spec [of "bytes div 1024" bytes 0 1024] assms by auto
  then show ?thesis using False by (auto simp: formatFileSize_def intro!: exI [of _ e])
qed

theorem formatFileSize_returns_witness:
  "formatFileSize (2 ^ 62 + 2 ^ 61) = Some ''6.0 EB'' \<and> formatFileSize 1536 = Some ''1.5 KB''
   \<and> size_unit ((2 ^ 62 + 2 ^ 61) div 1024) 1024 0 = (1024 ^ 6, 5)"
proof -
  have "\<exists>e \<le> 5. size_unit ((2 ^ 62 + 2 ^ 61) div 1024) 1024 0 = (1024 ^ Suc e, e) \<and> (2::int) ^ 62 + 2 ^ 61 < 1024 ^ (e + 2)"
    using formatFileSize_returns [of "2 ^ 62 + 2 ^ 61"] by auto
  moreover have "formatFileSize (2 ^ 62 + 2 ^ 61) = Some ''6.0 EB''" "formatFileSize 1536 = Some ''1.5 KB''"
    "size_unit ((2 ^ 62 + 2 ^ 61) div 1024) 1024 0 = (1024 ^ 6, 5)"
    by code_simp+
  ultimately show ?thesis by simp
qed

end
