(* ===== verification/Metrics.thy ===== *)
theory Metrics
  imports GoLib
begin

text \<open>
  The Prometheus instruments (\<^verbatim>\<open>internal/metrics/metrics.go\<close>): the families the package registers, the
  middleware that measures requests, and the recording functions.  The client library is outside the
  repository; what the program does to it is the sequence of calls it makes, and a number is the
  exact rational the float stands for.
\<close>

section \<open>Families\<close>

datatype metric_kind = CounterKind | GaugeKind | HistogramKind "rat list"

record family =
  fm_name :: string
  fm_help :: string
  fm_kind :: metric_kind
  fm_labels :: "string list"

text \<open>The documented buckets of the client library: the first bound, and a factor between neighbours.\<close>

definition ExponentialBuckets :: "rat \<Rightarrow> rat \<Rightarrow> nat \<Rightarrow> rat list" where
  "ExponentialBuckets start factor n = map (\<lambda>i. start * factor ^ i) [0..<n]"

definition httpRequestsTotal :: family where
  "httpRequestsTotal = \<lparr> fm_name = ''http_requests_total'', fm_help = ''Total number of HTTP requests'',
     fm_kind = CounterKind, fm_labels = [''method'', ''endpoint'', ''status''] \<rparr>"

definition httpRequestDuration :: family where
  "httpRequestDuration = \<lparr> fm_name = ''http_request_duration_seconds'', fm_help = ''HTTP request duration in seconds'',
     fm_kind = HistogramKind [1 / 1000, 1 / 200, 1 / 100, 1 / 40, 1 / 20, 1 / 10, 1 / 4, 1 / 2, 1, 5 / 2, 5, 10], fm_labels = [''method'', ''endpoint''] \<rparr>"

definition httpRequestSize :: family where
  "httpRequestSize = \<lparr> fm_name = ''http_request_size_bytes'', fm_help = ''HTTP request size in bytes'',
     fm_kind = HistogramKind (ExponentialBuckets 100 10 8), fm_labels = [''method'', ''endpoint''] \<rparr>"

definition httpResponseSize :: family where
  "httpResponseSize = \<lparr> fm_name = ''http_response_size_bytes'', fm_help = ''HTTP response size in bytes'',
     fm_kind = HistogramKind (ExponentialBuckets 100 10 8), fm_labels = [''method'', ''endpoint''] \<rparr>"

definition activeConnections :: family where
  "activeConnections = \<lparr> fm_name = ''http_active_connections'', fm_help = ''Number of active HTTP connections'',
     fm_kind = GaugeKind, fm_labels = [] \<rparr>"

definition videosUploaded :: family where
  "videosUploaded = \<lparr> fm_name = ''videos_uploaded_total'', fm_help = ''Total number of videos uploaded'',
     fm_kind = CounterKind, fm_labels = [] \<rparr>"

definition videosProcessing :: family where
  "videosProcessing = \<lparr> fm_name = ''videos_processing_current'', fm_help = ''Current number of videos being processed'',
     fm_kind = GaugeKind, fm_labels = [] \<rparr>"

definition videosProcessed :: family where
  "videosProcessed = \<lparr> fm_name = ''videos_processed_total'', fm_help = ''Total number of videos processed'',
     fm_kind = CounterKind, fm_labels = [''status'', ''quality''] \<rparr>"

definition videoProcessingDuration :: family where
  "videoProcessingDuration = \<lparr> fm_name = ''video_processing_duration_seconds'', fm_help = ''Video processing duration in seconds'',
     fm_kind = HistogramKind [30, 60, 120, 300, 600, 1200, 1800, 3600], fm_labels = [''quality''] \<rparr>"

definition videoViews :: family where
  "videoViews = \<lparr> fm_name = ''video_views_total'', fm_help = ''Total number of video views'',
     fm_kind = CounterKind, fm_labels = [''quality''] \<rparr>"

definition videoStreamingBytes :: family where
  "videoStreamingBytes = \<lparr> fm_name = ''video_streaming_bytes_total'', fm_help = ''Total bytes streamed'',
     fm_kind = CounterKind, fm_labels = [''quality''] \<rparr>"

definition dbQueriesTotal :: family where
  "dbQueriesTotal = \<lparr> fm_name = ''db_queries_total'', fm_help = ''Total database queries'',
     fm_kind = CounterKind, fm_labels = [''operation'', ''table''] \<rparr>"

definition dbQueryDuration :: family where
  "dbQueryDuration = \<lparr> fm_name = ''db_query_duration_seconds'', fm_help = ''Database query duration in seconds'',
     fm_kind = HistogramKind [1 / 1000, 1 / 200, 1 / 100, 1 / 40, 1 / 20, 1 / 10, 1 / 4, 1 / 2, 1, 5], fm_labels = [''operation'', ''table''] \<rparr>"

definition dbConnectionsActive :: family where
  "dbConnectionsActive = \<lparr> fm_name = ''db_connections_active'', fm_help = ''Number of active database connections'',
     fm_kind = GaugeKind, fm_labels = [] \<rparr>"

definition dbConnectionsIdle :: family where
  "dbConnectionsIdle = \<lparr> fm_name = ''db_connections_idle'', fm_help = ''Number of idle database connections'',
     fm_kind = GaugeKind, fm_labels = [] \<rparr>"

definition cacheHits :: family where
  "cacheHits = \<lparr> fm_name = ''cache_hits_total'', fm_help = ''Total cache hits'',
     fm_kind = CounterKind, fm_labels = [''cache_type''] \<rparr>"

definition cacheMisses :: family where
  "cacheMisses = \<lparr> fm_name = ''cache_misses_total'', fm_help = ''Total cache misses'',
     fm_kind = CounterKind, fm_labels = [''cache_type''] \<rparr>"

definition cacheOperationDuration :: family where
  "cacheOperationDuration = \<lparr> fm_name = ''cache_operation_duration_seconds'', fm_help = ''Cache operation duration in seconds'',
     fm_kind = HistogramKind [1 / 10000, 1 / 2000, 1 / 1000, 1 / 200, 1 / 100, 1 / 20, 1 / 10], fm_labels = [''operation''] \<rparr>"

definition storageOperationsTotal :: family where
  "storageOperationsTotal = \<lparr> fm_name = ''storage_operations_total'', fm_help = ''Total storage operations'',
     fm_kind = CounterKind, fm_labels = [''operation'', ''bucket''] \<rparr>"

definition storageBytesTransferred :: family where
  "storageBytesTransferred = \<lparr> fm_name = ''storage_bytes_transferred_total'', fm_help = ''Total bytes transferred to/from storage'',
     fm_kind = CounterKind, fm_labels = [''direction'', ''bucket''] \<rparr>"

definition queueJobsTotal :: family where
  "queueJobsTotal = \<lparr> fm_name = ''queue_jobs_total'', fm_help = ''Total queue jobs'',
     fm_kind = CounterKind, fm_labels = [''queue'', ''status''] \<rparr>"

definition queueJobDuration :: family where
  "queueJobDuration = \<lparr> fm_name = ''queue_job_duration_seconds'', fm_help = ''Queue job duration in seconds'',
     fm_kind = HistogramKind [1, 5, 10, 30, 60, 120, 300, 600, 1800, 3600], fm_labels = [''queue''] \<rparr>"

definition queueSize :: family where
  "queueSize = \<lparr> fm_name = ''queue_size_current'', fm_help = ''Current queue size'',
     fm_kind = GaugeKind, fm_labels = [''queue''] \<rparr>"

definition usersTotal :: family where
  "usersTotal = \<lparr> fm_name = ''users_total'', fm_help = ''Total number of registered users'',
     fm_kind = GaugeKind, fm_labels = [] \<rparr>"

definition usersActive :: family where
  "usersActive = \<lparr> fm_name = ''users_active_current'', fm_help = ''Number of currently active users'',
     fm_kind = GaugeKind, fm_labels = [] \<rparr>"

definition authAttemptsTotal :: family where
  "authAttemptsTotal = \<lparr> fm_name = ''auth_attempts_total'', fm_help = ''Total authentication attempts'',
     fm_kind = CounterKind, fm_labels = [''type'', ''status''] \<rparr>"

definition rateLimitHits :: family where
  "rateLimitHits = \<lparr> fm_name = ''rate_limit_hits_total'', fm_help = ''Total rate limit hits'',
     fm_kind = CounterKind, fm_labels = [''rule''] \<rparr>"

definition families :: "family list" where
  "families = [httpRequestsTotal, httpRequestDuration, httpRequestSize, httpResponseSize, activeConnections,
     videosUploaded, videosProcessing, videosProcessed, videoProcessingDuration, videoViews, videoStreamingBytes,
     dbQueriesTotal, dbQueryDuration, dbConnectionsActive, dbConnectionsIdle, cacheHits, cacheMisses,
     cacheOperationDuration, storageOperationsTotal, storageBytesTransferred, queueJobsTotal, queueJobDuration,
     queueSize, usersTotal, usersActive, authAttemptsTotal, rateLimitHits]"

section \<open>Calls\<close>

datatype metric_op = Inc | Dec | Add rat | Set rat | Observe rat

text \<open>An operation on the series of a family with the given label values.\<close>

type_synonym metric_call = "family \<times> string list \<times> metric_op"

definition seconds_of :: "duration \<Rightarrow> rat" where "seconds_of d = of_int d / of_int Second"

section \<open>The middleware\<close>

record measured_request =
  mr_method :: string
  mr_fullPath :: string
  mr_urlPath :: string
  mr_contentLength :: int

text \<open>What the handlers behind the middleware did: they panicked, or they returned with a status, a size
  written and the time they took.\<close>

datatype handler_end = Panicked | Returned (he_status: int) (he_size: int) (he_duration: duration)

definition metrics_path :: "measured_request \<Rightarrow> string" where
  "metrics_path r = (if mr_fullPath r = '''' then mr_urlPath r else mr_fullPath r)"

text \<open>The calls after \<^verbatim>\<open>c.Next()\<close> are not deferred.\<close>

definition MetricsMiddleware :: "measured_request \<Rightarrow> handler_end \<Rightarrow> metric_call list" where
  "MetricsMiddleware r e = (activeConnections, [], Inc) # (case e of
     Panicked \<Rightarrow> []
   | Returned status written duration \<Rightarrow>
       [(httpRequestsTotal, [mr_method r, metrics_path r, Itoa status], Inc),
        (httpRequestDuration, [mr_method r, metrics_path r], Observe (seconds_of duration)),
        (httpResponseSize, [mr_method r, metrics_path r], Observe (of_int written))]
       @ (if mr_contentLength r > 0
          then [(httpRequestSize, [mr_method r, metrics_path r], Observe (of_int (mr_contentLength r)))] else [])
       @ [(activeConnections, [], Dec)])"

section \<open>The recording functions\<close>

definition RecordVideoUpload :: "metric_call list" where
  "RecordVideoUpload = [(videosUploaded, [], Inc)]"

definition RecordVideoProcessingStart :: "metric_call list" where
  "RecordVideoProcessingStart = [(videosProcessing, [], Inc)]"

definition RecordVideoProcessingEnd :: "string \<Rightarrow> string \<Rightarrow> duration \<Rightarrow> metric_call list" where
  "RecordVideoProcessingEnd status quality duration =
     [(videosProcessing, [], Dec), (videosProcessed, [status, quality], Inc),
      (videoProcessingDuration, [quality], Observe (seconds_of duration))]"

definition RecordVideoView :: "string \<Rightarrow> metric_call list" where
  "RecordVideoView quality = [(videoViews, [quality], Inc)]"

definition RecordVideoStreaming :: "string \<Rightarrow> int \<Rightarrow> metric_call list" where
  "RecordVideoStreaming quality bytes = [(videoStreamingBytes, [quality], Add (of_int bytes))]"

definition RecordDBQuery :: "string \<Rightarrow> string \<Rightarrow> duration \<Rightarrow> metric_call list" where
  "RecordDBQuery operation table duration =
     [(dbQueriesTotal, [operation, table], Inc), (dbQueryDuration, [operation, table], Observe (seconds_of duration))]"

definition SetDBConnections :: "int \<Rightarrow> int \<Rightarrow> metric_call list" where
  "SetDBConnections active idle = [(dbConnectionsActive, [], Set (of_int active)), (dbConnectionsIdle, [], Set (of_int idle))]"

definition RecordCacheHit :: "string \<Rightarrow> metric_call list" where
  "RecordCacheHit cacheType = [(cacheHits, [cacheType], Inc)]"

definition RecordCacheMiss :: "string \<Rightarrow> metric_call list" where
  "RecordCacheMiss cacheType = [(cacheMisses, [cacheType], Inc)]"

definition RecordCacheOperation :: "string \<Rightarrow> duration \<Rightarrow> metric_call list" where
  "RecordCacheOperation operation duration = [(cacheOperationDuration, [operation], Observe (seconds_of duration))]"

definition RecordStorageOperation :: "string \<Rightarrow> string \<Rightarrow> metric_call list" where
  "RecordStorageOperation operation bucket = [(storageOperationsTotal, [operation, bucket], Inc)]"

definition RecordStorageTransfer :: "string \<Rightarrow> string \<Rightarrow> int \<Rightarrow> metric_call list" where
  "RecordStorageTransfer direction bucket bytes = [(storageBytesTransferred, [direction, bucket], Add (of_int bytes))]"

definition RecordQueueJob :: "string \<Rightarrow> string \<Rightarrow> metric_call list" where
  "RecordQueueJob queue status = [(queueJobsTotal, [queue, status], Inc)]"

definition RecordQueueJobDuration :: "string \<Rightarrow> duration \<Rightarrow> metric_call list" where
  "RecordQueueJobDuration queue duration = [(queueJobDuration, [queue], Observe (seconds_of duration))]"

definition SetQueueSize :: "string \<Rightarrow> int \<Rightarrow> metric_call list" where
  "SetQueueSize queue n = [(queueSize, [queue], Set (of_int n))]"

definition SetUsersTotal :: "int \<Rightarrow> metric_call list" where
  "SetUsersTotal n = [(usersTotal, [], Set (of_int n))]"

definition SetUsersActive :: "int \<Rightarrow> metric_call list" where
  "SetUsersActive n = [(usersActive, [], Set (of_int n))]"

definition RecordAuthAttempt :: "string \<Rightarrow> string \<Rightarrow> metric_call list" where
  "RecordAuthAttempt authType status = [(authAttemptsTotal, [authType, status], Inc)]"

definition RecordRateLimitHit :: "string \<Rightarrow> metric_call list" where
  "RecordRateLimitHit rule = [(rateLimitHits, [rule], Inc)]"

end
