(* ===== verification/MetricsProps.thy ===== *)
theory MetricsProps
  imports Metrics "HOL-Library.Multiset"
begin

text \<open>
  What the instruments guarantee: registration and every recording function stay within what the
  client library accepts, and what becomes of the gauge of active connections and of the request
  counter when a handler panics.
\<close>

section \<open>What the library asks of its callers\<close>

text \<open>Names are registered once, and the upper bounds of a histogram increase.\<close>

definition registered_well :: "family list \<Rightarrow> bool" where
  "registered_well fs = (distinct (map fm_name fs) \<and>
     list_all (\<lambda>f. distinct (fm_labels f) \<and> (case fm_kind f of HistogramKind b \<Rightarrow> sorted_wrt (<) b | _ \<Rightarrow> True)) fs)"

text \<open>One value for each label, an operation the kind of the family has, and no decrease of a counter: the
  library panics otherwise, or the call does not compile.\<close>

definition accepted_op :: "metric_kind \<Rightarrow> metric_op \<Rightarrow> bool" where
  "accepted_op k x = (case x of Inc \<Rightarrow> k = CounterKind \<or> k = GaugeKind
     | Dec \<Rightarrow> k = GaugeKind
     | Add v \<Rightarrow> k = GaugeKind \<or> (k = CounterKind \<and> 0 \<le> v)
     | Set v \<Rightarrow> k = GaugeKind
     | Observe v \<Rightarrow> k \<noteq> CounterKind \<and> k \<noteq> GaugeKind)"

fun accepted_call :: "metric_call \<Rightarrow> bool" where
  "accepted_call (f, ls, x) = (f \<in> set families \<and> length ls = length (fm_labels f) \<and> accepted_op (fm_kind f) x)"

lemmas family_defs = httpRequestsTotal_def httpRequestDuration_def httpRequestSize_def httpResponseSize_def activeConnections_def
  videosUploaded_def videosProcessing_def videosProcessed_def videoProcessingDuration_def videoViews_def
  videoStreamingBytes_def dbQueriesTotal_def dbQueryDuration_def dbConnectionsActive_def dbConnectionsIdle_def
  cacheHits_def cacheMisses_def cacheOperationDuration_def storageOperationsTotal_def storageBytesTransferred_def
  queueJobsTotal_def queueJobDuration_def queueSize_def usersTotal_def usersActive_def authAttemptsTotal_def
  rateLimitHits_def

lemmas record_defs = RecordVideoUpload_def RecordVideoProcessingStart_def RecordVideoProcessingEnd_def RecordVideoView_def
  RecordVideoStreaming_def RecordDBQuery_def SetDBConnections_def RecordCacheHit_def RecordCacheMiss_def
  RecordCacheOperation_def RecordStorageOperation_def RecordStorageTransfer_def RecordQueueJob_def
  RecordQueueJobDuration_def SetQueueSize_def SetUsersTotal_def SetUsersActive_def RecordAuthAttempt_def
  RecordRateLimitHit_def

lemma families_registered_well: "registered_well families"
  by code_simp

lemma recording_accepted:
  "list_all accepted_call (RecordVideoUpload @ RecordVideoProcessingStart @ RecordVideoProcessingEnd s q d @ RecordVideoView q
     @ RecordDBQuery a b d @ SetDBConnections i j @ RecordCacheHit a @ RecordCacheMiss a @ RecordCacheOperation a d
     @ RecordStorageOperation a b @ RecordQueueJob a b @ RecordQueueJobDuration a d @ SetQueueSize a i @ SetUsersTotal i
     @ SetUsersActive j @ RecordAuthAttempt a b @ RecordRateLimitHit a)"
  by (simp add: record_defs families_def accepted_op_def) (simp add: family_defs)

lemma transfers_accepted_iff:
  "list_all accepted_call (RecordVideoStreaming q n @ RecordStorageTransfer a b m) \<longleftrightarrow> 0 \<le> n \<and> 0 \<le> m"
  by (simp add: record_defs families_def accepted_op_def) (simp add: family_defs)

lemma middleware_accepted: "list_all accepted_call (MetricsMiddleware r e)"
  by (simp add: MetricsMiddleware_def families_def accepted_op_def split: handler_end.split) (simp add: family_defs)

section \<open>Active connections\<close>

text \<open>How far the increments of the gauge are ahead of its decrements, and the requests counted.\<close>

fun balance_of :: "metric_call \<Rightarrow> int" where
  "balance_of (f, ls, x) = (if fm_name f = fm_name activeConnections
     then (case x of Inc \<Rightarrow> 1 | Dec \<Rightarrow> -1 | _ \<Rightarrow> 0) else 0)"

definition active_balance :: "metric_call list \<Rightarrow> int" where
  "active_balance calls = sum_list (map balance_of calls)"

fun counts_request :: "metric_call \<Rightarrow> bool" where
  "counts_request (f, ls, x) = (fm_name f = fm_name httpRequestsTotal \<and> x = Inc)"

definition requests_counted :: "metric_call list \<Rightarrow> nat" where
  "requests_counted calls = length (filter counts_request calls)"

definition panics :: "(measured_request \<times> handler_end) list \<Rightarrow> nat" where
  "panics served = length (filter (\<lambda>(r, e). e = Panicked) served)"

lemma measured_balance: "active_balance (MetricsMiddleware r e) = (if e = Panicked then 1 else 0)"
  by (simp add: active_balance_def MetricsMiddleware_def family_defs split: handler_end.split)

lemma measured_count: "requests_counted (MetricsMiddleware r e) = (if e = Panicked then 0 else 1)"
  by (simp add: requests_counted_def MetricsMiddleware_def family_defs split: handler_end.split)

text \<open>Neither depends on how the calls of several requests interleave.\<close>

lemma active_balance_mset: "mset xs = mset ys \<Longrightarrow> active_balance xs = active_balance ys"
  unfolding active_balance_def by (metis mset_map sum_mset_sum_list)

lemma requests_counted_mset: "mset xs = mset ys \<Longrightarrow> requests_counted xs = requests_counted ys"
  unfolding requests_counted_def by (metis mset_filter size_mset)

lemma active_balance_append: "active_balance (xs @ ys) = active_balance xs + active_balance ys"
  by (simp add: active_balance_def)

lemma requests_counted_append: "requests_counted (xs @ ys) = requests_counted xs + requests_counted ys"
  by (simp add: requests_counted_def)

lemma served_balance: "active_balance (concat (map (\<lambda>(r, e). MetricsMiddleware r e) served)) = int (panics served)"
proof (induction served)
  case Nil
  then show ?case by (simp add: active_balance_def panics_def)
next
  case (Cons x served)
  then show ?case by (cases x) (simp add: active_balance_append measured_balance panics_def)
qed

lemma served_count:
  "requests_counted (concat (map (\<lambda>(r, e). MetricsMiddleware r e) served)) + panics served = length served"
proof (induction served)
  case Nil
  then show ?case by (simp add: requests_counted_def panics_def)
next
  case (Cons x served)
  then show ?case by (cases x) (simp add: requests_counted_append measured_count panics_def)
qed

text \<open>C40: A panic leaves the metrics behind.  However the calls of requests served at the same
  time interleave, once all are over the gauge of active connections stands at the number of
  requests whose handler panicked, instead of zero, and exactly those are missing from the count
  of requests.  No call is one the client library refuses.
\<close>

theorem panics_leak_connections:
  assumes "mset calls = mset (concat (map (\<lambda>(r, e). MetricsMiddleware r e) served))"
  shows "active_balance calls = int (panics served) \<and> requests_counted calls + panics served = length served
    \<and> list_all accepted_call calls"
proof (intro conjI)
  show "active_balance calls = int (panics served)"
    using active_balance_mset [OF assms] by (simp add: served_balance)
  show "requests_counted calls + panics served = length served"
    using requests_counted_mset [OF assms] by (simp add: served_count)
  have "set calls = (\<Union>(r, e) \<in> set served. set (MetricsMiddleware r e))"
    using mset_eq_setD [OF assms] by auto
  then show "list_all accepted_call calls"
    using middleware_accepted by (fastforce simp: list_all_iff)
qed

definition sample_measured :: measured_request where
  "sample_measured = \<lparr> mr_method = ''GET'', mr_fullPath = ''/health'', mr_urlPath = ''/health'', mr_contentLength = 0 \<rparr>"

text \<open>Two requests begin before either is over; the first panics.\<close>

definition sample_calls :: "metric_call list" where
  "sample_calls = (activeConnections, [], Inc) # MetricsMiddleware sample_measured (Returned 200 2 Second)"

theorem panics_leak_connections_witness:
  "active_balance sample_calls = 1 \<and> requests_counted sample_calls = 1"
  using panics_leak_connections [of sample_calls "[(sample_measured, Panicked), (sample_measured, Returned 200 2 Second)]"]
  by (simp add: sample_calls_def panics_def) (simp add: MetricsMiddleware_def)

end
