(* ===== verification/CacheKeys.thy ===== *)
theory CacheKeys
  imports Cache Crypto
begin

text \<open>
  The keys of the cache and the counters kept in it (\<^verbatim>\<open>internal/cache/cache.go\<close>, the second half): the key
  builders over SHA-256, and the methods that hand their arguments to Redis.  Those on sorted sets,
  sets and hashes, which nothing calls, are not modelled.
\<close>

section \<open>Counters and lifetimes\<close>

definition CacheService_Incr :: "string \<Rightarrow> (err + int) prog" where "CacheService_Incr key = redis_Incr key"

definition CacheService_IncrBy :: "string \<Rightarrow> int \<Rightarrow> (err + int) prog" where "CacheService_IncrBy key v = redis_add v key"

definition CacheService_Expire :: "string \<Rightarrow> duration \<Rightarrow> (err + unit) prog" where "CacheService_Expire key ttl = redis_Expire key ttl"

section \<open>Keys\<close>

text \<open>The arguments the builders hash: \<^verbatim>\<open>%v\<close> of their slice is its elements between brackets with a space between
  them.  A value of another type enters as the text it is printed as.\<close>

datatype key_param = IntParam int | TextParam string

fun print_param :: "key_param \<Rightarrow> string" where
  "print_param (IntParam i) = Itoa i"
| "print_param (TextParam s) = s"

definition key_data :: "string \<Rightarrow> key_param list \<Rightarrow> string" where
  "key_data prefix params = prefix @ ''|['' @ join_with '' '' (map print_param params) @ '']''"

definition GenerateCacheKey :: "string \<Rightarrow> key_param list \<Rightarrow> string" where
  "GenerateCacheKey prefix params = prefix @ '':'' @ hex_EncodeToString (take 8 (sha256_Sum256 (key_data prefix params)))"

definition UserCacheKey :: "string \<Rightarrow> string" where "UserCacheKey userID = ''user:'' @ userID"

definition VideoCacheKey :: "string \<Rightarrow> string" where "VideoCacheKey videoID = ''video:'' @ videoID"

definition VideoListCacheKey :: "int \<Rightarrow> int \<Rightarrow> string \<Rightarrow> string" where
  "VideoListCacheKey page limit filters = GenerateCacheKey ''video_list'' [IntParam page, IntParam limit, TextParam filters]"

definition SearchCacheKey :: "string \<Rightarrow> string \<Rightarrow> int \<Rightarrow> int \<Rightarrow> string" where
  "SearchCacheKey query filters page limit =
     GenerateCacheKey ''search'' [TextParam query, TextParam filters, IntParam page, IntParam limit]"

definition RecommendationCacheKey :: "string \<Rightarrow> string" where "RecommendationCacheKey userID = ''recommendations:'' @ userID"

definition TrendingCacheKey :: string where "TrendingCacheKey = ''trending:videos''"

definition PopularSearchesCacheKey :: string where "PopularSearchesCacheKey = ''popular_searches''"

definition AnalyticsCacheKey :: "string \<Rightarrow> string \<Rightarrow> string" where
  "AnalyticsCacheKey videoID dateRange = ''analytics:'' @ videoID @ '':'' @ dateRange"

lemma search_keys_collide: "SearchCacheKey ''go maps'' ''hd'' 1 20 = SearchCacheKey ''go'' ''maps hd'' 1 20"
  by (simp add: SearchCacheKey_def GenerateCacheKey_def key_data_def)

end
