(* ===== verification/Logging.thy ===== *)
theory Logging
  imports Http
begin

text \<open>
  Log lines (\<^verbatim>\<open>pkg/logger/logger.go\<close> and \<^verbatim>\<open>Logger\<close> of \<^verbatim>\<open>internal/middleware/http.go\<close>): what an event carries
  and at which level a request is logged.  The encoding of a line and its time stamp are zerolog's; so is
  the parser of level names, which is a parameter.
\<close>

section \<open>The logger\<close>

text \<open>The levels the program uses, in zerolog's order.\<close>

datatype log_level = DebugLevel | InfoLevel | WarnLevel | ErrorLevel | FatalLevel

primrec level_number :: "log_level \<Rightarrow> int" where
  "level_number DebugLevel = 0"
| "level_number InfoLevel = 1"
| "level_number WarnLevel = 2"
| "level_number ErrorLevel = 3"
| "level_number FatalLevel = 4"

datatype log_value = LogText string | LogNumber int

record log_context =
  lc_RequestID :: string
  lc_Principal :: "Principal option"

record log_event =
  le_level :: log_level
  le_error :: "err option"
  le_fields :: "(string \<times> log_value) list"
  le_message :: string

definition New_level :: "(string \<Rightarrow> int option) \<Rightarrow> string \<Rightarrow> int" where
  "New_level ParseLevel level = (case ParseLevel level of None \<Rightarrow> level_number InfoLevel | Some l \<Rightarrow> l)"

definition log_written :: "int \<Rightarrow> log_event \<Rightarrow> bool" where
  "log_written threshold e = (threshold \<le> level_number (le_level e))"

text \<open>The fields of the context, if there is one, and those given, in the order a range visits them.\<close>

definition addFields :: "uuid_lib \<Rightarrow> log_context option \<Rightarrow> (string \<times> log_value) list \<Rightarrow> (string \<times> log_value) list" where
  "addFields lib ctx given = (case ctx of None \<Rightarrow> [] | Some c \<Rightarrow>
       (if lc_RequestID c \<noteq> '''' then [(''request_id'', LogText (lc_RequestID c))] else [])
       @ (case lc_Principal c of None \<Rightarrow> [] | Some p \<Rightarrow> [(''user_id'', LogText (uuid_String lib (pr_UserID p)))]))
     @ given"

definition log_at :: "log_level \<Rightarrow> uuid_lib \<Rightarrow> log_context option \<Rightarrow> string \<Rightarrow> err option
    \<Rightarrow> (string \<times> log_value) list \<Rightarrow> log_event" where
  "log_at level lib ctx msg e given = \<lparr> le_level = level, le_error = e, le_fields = addFields lib ctx given, le_message = msg \<rparr>"

definition log_Info where "log_Info lib ctx msg given = log_at InfoLevel lib ctx msg None given"
definition log_Error where "log_Error lib ctx msg e given = log_at ErrorLevel lib ctx msg e given"
definition log_Debug where "log_Debug lib ctx msg given = log_at DebugLevel lib ctx msg None given"
definition log_Warn where "log_Warn lib ctx msg given = log_at WarnLevel lib ctx msg None given"

text \<open>The process exits after the line.\<close>

definition log_Fatal where "log_Fatal lib ctx msg e given = (log_at FatalLevel lib ctx msg e given, 1 :: int)"

section \<open>The line of a request\<close>

record logged_request =
  lr_method :: string
  lr_urlPath :: string
  lr_rawQuery :: string
  lr_clientIP :: string

definition logged_path :: "logged_request \<Rightarrow> string" where
  "logged_path r = (if lr_rawQuery r = '''' then lr_urlPath r else lr_urlPath r @ ''?'' @ lr_rawQuery r)"

text \<open>Written after the handlers returned with a status and a number of bytes, in the context as they left it; the
  last of the errors they attached goes with a server error.\<close>

definition Logger :: "uuid_lib \<Rightarrow> logged_request \<Rightarrow> log_context \<Rightarrow> int \<Rightarrow> duration \<Rightarrow> int \<Rightarrow> err option \<Rightarrow> log_event" where
  "Logger lib r ctx status latency bytes last_error =
     (let given = [(''method'', LogText (lr_method r)), (''path'', LogText (logged_path r)), (''status'', LogNumber status),
           (''latency_ms'', LogNumber (latency div 1000000)), (''client_ip'', LogText (lr_clientIP r)),
           (''bytes'', LogNumber bytes)]
      in if status \<ge> 500 then log_Error lib (Some ctx) ''request failed'' last_error given
         else if status \<ge> 400 then log_Warn lib (Some ctx) ''request rejected'' given
         else log_Info lib (Some ctx) ''request completed'' given)"

lemma server_errors_always_logged:
  "status \<ge> 500 \<Longrightarrow> threshold \<le> level_number ErrorLevel \<Longrightarrow> log_written threshold (Logger lib r ctx status l b e)"
  by (simp add: Logger_def log_Error_def log_at_def log_written_def Let_def)

lemma log_line_names_principal:
  "lc_Principal ctx = Some p \<Longrightarrow> (''user_id'', LogText (uuid_String lib (pr_UserID p))) \<in> set (le_fields (Logger lib r ctx status l b e))"
  by (simp add: Logger_def log_Error_def log_Warn_def log_Info_def log_at_def addFields_def Let_def)

end
