(* ===== verification/Spec2Isabelle.thy ===== *)
theory Spec2Isabelle
  imports CoreProps Trail TranscodeProps TableInv SocialProps VideoProps CacheProps RateLimitProps WorkerProps RouterProps SearchProps ViewsProps ConfigProps AccountInv Optimizer Lifecycle PagesProps MetricsProps CacheKeys Logging
begin

text \<open>
  Verification of the video streaming service: a Go API server and a transcoding worker over PostgreSQL, Redis
  and an object store.

  \<^bold>\<open>How the program works.\<close>  A client uploads a video to the API process (\<^verbatim>\<open>cmd/api\<close>, \<^verbatim>\<open>internal/app\<close>).  The upload
  service stores the file under a generated name, adds a row with status \<^verbatim>\<open>uploading\<close> and queues a task
  in Redis (\<^verbatim>\<open>internal/queue\<close>).  The worker process (\<^verbatim>\<open>cmd/worker\<close>) takes the task, runs ffprobe and ffmpeg for
  every rendition that fits the source, writes playlists and a thumbnail, puts the outputs into the
  object store and sets the row to \<^verbatim>\<open>ready\<close> or \<^verbatim>\<open>failed\<close>.  The streaming endpoints then serve playlists and
  segments to whoever may view the video.  Around this path are accounts with JWT sessions and
  mailed tokens, roles with permissions, likes, comments, playlists and subscriptions, views and
  watch history, search and recommendations, moderation with an audit log, analytics and
  monitoring.  Handlers call services, services call repositories, and only these touch the tables.

  \<^bold>\<open>How it is modelled.\<close>  The embedding is shallow.  A Go function with effects is a program of the state monad over
  \<^verbatim>\<open>world\<close> (theory \<^verbatim>\<open>World\<close>): the tables with the columns the Go types have, Redis strings and sorted sets
  with their expiry, the in-process cache, the queued tasks, the keys of the object store, the mails sent and the
  commands run.  A pair \<^verbatim>\<open>(T, error)\<close> is a sum; every early return is a branch.  What the code observes
  but does not decide (clock, random identifiers, ffprobe, and for each external call whether it was
  done, refused, or done with the answer lost) is read from \<^verbatim>\<open>w_env\<close> at a running counter, so a property that
  holds for every world holds under every schedule of failures.  A SQL statement is one step: a function of
  the tables and the database clock that also applies the constraints, defaults and triggers of the
  migrations (\<^verbatim>\<open>Schema\<close>).  Go \<^verbatim>\<open>int\<close> arithmetic that can overflow goes through \<^verbatim>\<open>wrap64\<close> or \<^verbatim>\<open>wrap32\<close>; strings are
  byte strings with UTF-8 decoding written out (\<^verbatim>\<open>GoLib\<close>).  Libraries outside the repository are parameters
  collected in records (\<^verbatim>\<open>uuid_lib\<close>, \<^verbatim>\<open>jwt_lib\<close>, \<^verbatim>\<open>bcrypt_lib\<close>, \<^verbatim>\<open>unicode_tables\<close>, \<^verbatim>\<open>text_lib\<close>, \<^verbatim>\<open>monitor_lib\<close>, \<^verbatim>\<open>codec\<close>,
  \<^verbatim>\<open>gin\<close>, and all of them in \<^verbatim>\<open>runtime\<close>), with what is relied on as named hypotheses (\<^verbatim>\<open>jwt_ok\<close>, \<^verbatim>\<open>gin_ok\<close>), each
  instantiated in \<^verbatim>\<open>Samples\<close> or \<^verbatim>\<open>SampleApp\<close>.

  \<^bold>\<open>Theories and code.\<close>
    \<^item> \<^verbatim>\<open>Prelude\<close>: the calculus of weakest preconditions (\<^verbatim>\<open>wp\<close>, collection \<^verbatim>\<open>wp_simps\<close>) and of programs that only move
      along a preorder (\<^verbatim>\<open>steps\<close>, collection \<^verbatim>\<open>steps_intros\<close>), and lemmas on rows found by key.
    \<^item> \<^verbatim>\<open>GoLib\<close>, \<^verbatim>\<open>GoTime\<close>, \<^verbatim>\<open>Crypto\<close>: the Go standard library the code uses: strings, runes, paths, numbers; calendar
      and durations; SHA-256, base64, hexadecimal.
    \<^item> \<^verbatim>\<open>Domain\<close>, \<^verbatim>\<open>Entities\<close>: \<^verbatim>\<open>internal/domain\<close>.  \<^verbatim>\<open>World\<close>, \<^verbatim>\<open>Schema\<close>: state, primitive effects, and \<^verbatim>\<open>migrations\<close>.
    \<^item> \<^verbatim>\<open>VideoRepo\<close>, \<^verbatim>\<open>UserRepo\<close>, \<^verbatim>\<open>SocialRepo\<close>: \<^verbatim>\<open>internal/repository/postgres\<close>; the report, audit, search and
      analytics repositories are with their services in \<^verbatim>\<open>Moderation\<close>, \<^verbatim>\<open>Search\<close>, \<^verbatim>\<open>Views\<close> and \<^verbatim>\<open>Analytics\<close>.
    \<^item> \<^verbatim>\<open>Storage\<close>: \<^verbatim>\<open>internal/storage\<close>, both backends.  \<^verbatim>\<open>Cache\<close>, \<^verbatim>\<open>CacheKeys\<close>: \<^verbatim>\<open>internal/cache\<close>.
    \<^item> \<^verbatim>\<open>Http\<close>: \<^verbatim>\<open>pkg/response\<close>, \<^verbatim>\<open>pkg/appctx\<close>, paging.  \<^verbatim>\<open>RateLimit\<close>, \<^verbatim>\<open>Middleware\<close>, \<^verbatim>\<open>Logging\<close>, \<^verbatim>\<open>Metrics\<close>:
      \<^verbatim>\<open>internal/middleware\<close>, \<^verbatim>\<open>pkg/logger\<close>, \<^verbatim>\<open>internal/metrics\<close>.
    \<^item> \<^verbatim>\<open>Transcode\<close>, \<^verbatim>\<open>Worker\<close>: \<^verbatim>\<open>internal/service/transcoding_service.go\<close>, \<^verbatim>\<open>internal/queue\<close>, the admin retry.
      \<^verbatim>\<open>Optimizer\<close>: \<^verbatim>\<open>video_optimizer.go\<close> and \<^verbatim>\<open>ffmpeg_service.go\<close>.
    \<^item> \<^verbatim>\<open>Tokens\<close>, \<^verbatim>\<open>Auth\<close>, \<^verbatim>\<open>Mailer\<close>, \<^verbatim>\<open>Account\<close>: \<^verbatim>\<open>pkg/security\<close>, \<^verbatim>\<open>pkg/jwt\<close>, \<^verbatim>\<open>pkg/mailer\<close>, the session, auth and email
      services with their handlers.
    \<^item> \<^verbatim>\<open>Upload\<close>, \<^verbatim>\<open>VideoHandlers\<close>, \<^verbatim>\<open>Streaming\<close>, \<^verbatim>\<open>Social\<close>, \<^verbatim>\<open>SocialHandlers\<close>, \<^verbatim>\<open>Views\<close>, \<^verbatim>\<open>Search\<close>, \<^verbatim>\<open>Moderation\<close>,
      \<^verbatim>\<open>Analytics\<close>, \<^verbatim>\<open>Monitoring\<close>, \<^verbatim>\<open>Pages\<close>: the services and handlers of these names.
    \<^item> \<^verbatim>\<open>Config\<close>: \<^verbatim>\<open>internal/config\<close>.  \<^verbatim>\<open>AdminCmd\<close>: \<^verbatim>\<open>cmd/admin\<close>.  \<^verbatim>\<open>App\<close>, \<^verbatim>\<open>Lifecycle\<close>, \<^verbatim>\<open>Router\<close>: \<^verbatim>\<open>internal/app\<close>,
      \<^verbatim>\<open>cmd/api\<close> and the wiring of \<^verbatim>\<open>cmd/worker\<close>.

  \<^bold>\<open>Interfaces.\<close>  Three contracts are locales, interpreted on the model: \<^verbatim>\<open>object_store\<close> on the local and the MinIO
  backend, \<^verbatim>\<open>counter_trigger\<close> on the five denormalised counters the triggers keep, and \<^verbatim>\<open>revocation_store\<close> on
  the token denylist in Redis.

  \<^bold>\<open>What is shown.\<close>  Pipeline: under any failures a run of ProcessVideo that returns no error leaves the video ready with
  a non-empty sub-list of the ladder.  \<^verbatim>\<open>Trail\<close> cuts a run after every external call, which is where a crash leaves
  it, and defines the trail of statuses a row shows at these points; from any state and under any failures the trail
  of ProcessVideo is one of \<^verbatim>\<open>process_path\<close>, that of the retry endpoint one of \<^verbatim>\<open>retry_path\<close>, no other
  row moves at any of the points, and the progress shown is between 0 and 100 (\<^verbatim>\<open>TranscodeProps\<close>).  Without failures,
  and with local storage in both processes, an accepted upload becomes ready and streamable (\<^verbatim>\<open>WorkerProps\<close>).
  Sessions: what passes RequireAuth, what logout, logout-all and a password reset end, and for how long (\<^verbatim>\<open>AuthProps\<close>,
  \<^verbatim>\<open>AccountProps\<close>, \<^verbatim>\<open>RouterProps\<close>).  Access: the policy of every route, private videos and playlists hidden,
  deletions and media guarded, search restricted to what is public (\<^verbatim>\<open>RouterProps\<close>, \<^verbatim>\<open>VideoProps\<close>, \<^verbatim>\<open>SocialProps\<close>,
  \<^verbatim>\<open>SearchProps\<close>).  Tables: primary keys and unique columns unique, every foreign key resolved and
  every counter exact after any interleaving of the writing statements of all repositories (\<^verbatim>\<open>SocialInv\<close>,
  \<^verbatim>\<open>TableInv\<close>), accounts valid in every reachable state (\<^verbatim>\<open>AccountInv\<close>), playlists as lists.  The
  shared parts: storage keys confined to their directory (\<^verbatim>\<open>CoreProps\<close>, which also shows that the decision
  procedure \<^verbatim>\<open>Domain.emailRegex\<close> accepts exactly the language of the regular expression of the code),
  the two-tier cache (\<^verbatim>\<open>CacheProps\<close>), the request limit (\<^verbatim>\<open>RateLimitProps\<close>), views counted once (\<^verbatim>\<open>ViewsProps\<close>),
  production settings (\<^verbatim>\<open>ConfigProps\<close>), the life of the process (\<^verbatim>\<open>Lifecycle\<close>), formatting (\<^verbatim>\<open>PagesProps\<close>) and
  metrics (\<^verbatim>\<open>MetricsProps\<close>).  Some theorems state behaviour the documentation of the code contradicts: tasks stuck in
  processing, uploads whose task was never queued, refresh tokens that outlive logout-all, a playlist
  served after its cache was cleared, comments open on private videos, page offsets that overflow.

  \<^bold>\<open>Bounds.\<close>  No fuel is used: loops are structural recursions over the lists they range over, or functions with a
  termination proof (rune decoding, trimming, LIKE matching, durations, SHA-256 blocks, file sizes).  The list of a
  \<^verbatim>\<open>SCAN\<close> loop and of a directory walk is what the environment yields, hence finite.

  \<^bold>\<open>Not modelled.\<close>  Concurrency inside one request is not modelled, and requests are sequences of steps; where interleaving
  matters (\<^verbatim>\<open>TableInv\<close>, \<^verbatim>\<open>SocialProps\<close>, \<^verbatim>\<open>CacheProps\<close>, \<^verbatim>\<open>AccountInv\<close>, \<^verbatim>\<open>MetricsProps\<close>) the steps are statements or operations, in any order.  A row that is
  read and later written back whole is written as it was read.  The contents of media files are not modelled, only
  the presence of their keys; \<^verbatim>\<open>http.ServeContent\<close>, ffmpeg and ffprobe are their arguments and outcomes, so the 206, 304
  and 416 answers to range and conditional requests do not appear.  The database refuses text that is not UTF-8 and,
  for the columns of \<^verbatim>\<open>videos\<close>, values over a VARCHAR or int4 limit; the statement that creates a video applies
  its keys, defaults and checks only.  The redirect gin answers to a path with a superfluous or missing
  trailing slash is a 404 here.  Floats are
  exact rationals where they are only printed or compared, apart from the conversion in \<^verbatim>\<open>Pages\<close>.  The order of rows
  equal under \<^verbatim>\<open>ORDER BY\<close> is the order of the table.  Left out: what the generated templates print,
  the TypeScript client, deployment files, the encoding of log lines, the Prometheus exposition,
  the methods of the cache on sets and hashes (nothing calls them), and the signal handling of the worker.
\<close>

end
